(* ===== verification/TL_Prelude.thy ===== *)
theory TL_Prelude
  imports Complex_Main "HOL-Library.Log_Nat"
begin

text \<open>
  The facts every component of the development shares: the collections the
  component proofs are run with, powers of two with an integer exponent, the
  two rounding functions (to the nearest integer, ties to even or away from
  zero) and the bind of the error monad the handlers are written in.
\<close>

named_theorems js_simps \<open>evaluation of JavaScript operators\<close>
named_theorems db_simps \<open>reads and writes of database tables\<close>

subsection \<open>Results\<close>

text \<open>An early return of a handler is \<open>Inl\<close>; the handler goes on with \<open>Inr\<close>.\<close>

definition bindE :: "'e + 'a \<Rightarrow> ('a \<Rightarrow> 'e + 'b) \<Rightarrow> 'e + 'b" where
  "bindE r f = (case r of Inl e \<Rightarrow> Inl e | Inr x \<Rightarrow> f x)"

definition guardE :: "bool \<Rightarrow> 'e \<Rightarrow> 'e + unit" where
  "guardE b e = (if b then Inr () else Inl e)"

lemma bindE_simps [simp]:
  "bindE (Inl e) f = Inl e"
  "bindE (Inr x) f = f x"
  by (simp_all add: bindE_def)

lemma bindE_Inr_iff: "bindE r f = Inr y \<longleftrightarrow> (\<exists>x. r = Inr x \<and> f x = Inr y)"
  by (cases r) auto

lemma guardE_Inr_iff [simp]: "guardE b e = Inr u \<longleftrightarrow> b"
  by (simp add: guardE_def)

lemma guardE_simps [simp]:
  "guardE True e = Inr ()"
  "guardE False e = Inl e"
  by (simp_all add: guardE_def)

subsection \<open>Error bounds\<close>

lemma close_trans: "\<bar>x - y\<bar> \<le> e \<Longrightarrow> \<bar>y - z\<bar> \<le> f \<Longrightarrow> \<bar>x - z\<bar> \<le> e + f" for x :: "'a::linordered_idom"
  using abs_triangle_ineq [of "x - y" "y - z"] by simp

lemma close_add: "\<bar>x - a\<bar> \<le> e \<Longrightarrow> \<bar>y - b\<bar> \<le> f \<Longrightarrow> \<bar>(x + y) - (a + b)\<bar> \<le> e + f" for x :: "'a::linordered_idom"
  using abs_triangle_ineq [of "x - a" "y - b"] by (simp add: algebra_simps)

lemma close_diff: "\<bar>x - a\<bar> \<le> e \<Longrightarrow> \<bar>y - b\<bar> \<le> f \<Longrightarrow> \<bar>(x - y) - (a - b)\<bar> \<le> e + f" for x :: "'a::linordered_idom"
  using close_add [of x a e "- y" "- b" f] by (simp add: abs_minus_commute)

lemma close_bound: "\<bar>x - a\<bar> \<le> e \<Longrightarrow> \<bar>x\<bar> \<le> \<bar>a\<bar> + e" for x :: "'a::linordered_idom"
  using abs_triangle_ineq [of "x - a" a] by simp

subsection \<open>Powers of two\<close>

lemma two_powi_pos [simp]: "0 < (2 :: rat) powi k"
  by simp

lemma two_powi_nonzero [simp]: "(2 :: rat) powi k \<noteq> 0"
  by simp

lemma two_powi_add: "(2 :: rat) powi (a + b) = 2 powi a * 2 powi b"
  by (simp add: power_int_add)

lemma two_powi_diff: "(2 :: rat) powi (a - b) = 2 powi a / 2 powi b"
  by (simp add: power_int_diff)

lemma two_powi_mono: "a \<le> b \<Longrightarrow> (2 :: rat) powi a \<le> 2 powi b"
  by (rule power_int_increasing) simp_all

lemma two_powi_strict_mono: "a < b \<Longrightarrow> (2 :: rat) powi a < 2 powi b"
  by (rule power_int_strict_increasing) simp_all

lemma two_powi_less_iff: "(2 :: rat) powi a < 2 powi b \<longleftrightarrow> a < b"
  using two_powi_mono two_powi_strict_mono by (meson not_le)

lemma two_powi_nat: "0 \<le> k \<Longrightarrow> (2 :: rat) powi k = 2 ^ nat k"
  by (simp add: power_int_def)

lemma two_powi_int: "0 \<le> k \<Longrightarrow> (2 :: rat) powi k = of_int (2 ^ nat k)"
  by (simp add: two_powi_nat)

subsection \<open>Rounding to the nearest integer\<close>

text \<open>Ties to even: the rounding of IEEE 754 arithmetic.\<close>

definition round_half_even :: "rat \<Rightarrow> int" where
  "round_half_even x =
     (let f = \<lfloor>x\<rfloor>; d = x - of_int f
      in if d < 1 / 2 then f else if 1 / 2 < d then f + 1 else if even f then f else f + 1)"

text \<open>Ties away from zero: the rounding of a Postgres \<open>numeric\<close> cast.\<close>

definition round_half_away :: "rat \<Rightarrow> int" where
  "round_half_away x = (if 0 \<le> x then \<lfloor>x + 1 / 2\<rfloor> else - \<lfloor>1 / 2 - x\<rfloor>)"

lemma round_half_even_error: "\<bar>of_int (round_half_even x) - x\<bar> \<le> 1 / 2"
proof -
  have "of_int \<lfloor>x\<rfloor> \<le> x" "x < of_int \<lfloor>x\<rfloor> + 1"
    by linarith+
  then show ?thesis
    by (auto simp: round_half_even_def Let_def)
qed

lemma round_half_even_of_int [simp]: "round_half_even (of_int n) = n"
  by (simp add: round_half_even_def)

lemma round_half_even_mono:
  assumes "x \<le> y"
  shows "round_half_even x \<le> round_half_even y"
proof (cases "\<lfloor>x\<rfloor> = \<lfloor>y\<rfloor>")
  case True
  with assms show ?thesis
    by (auto simp: round_half_even_def Let_def)
next
  case False
  moreover have "\<lfloor>x\<rfloor> \<le> \<lfloor>y\<rfloor>"
    using assms by (rule floor_mono)
  ultimately have "\<lfloor>x\<rfloor> + 1 \<le> \<lfloor>y\<rfloor>"
    by simp
  moreover have "round_half_even x \<le> \<lfloor>x\<rfloor> + 1"
    by (simp add: round_half_even_def Let_def)
  moreover have "\<lfloor>y\<rfloor> \<le> round_half_even y"
    by (simp add: round_half_even_def Let_def)
  ultimately show ?thesis
    by linarith
qed

lemma round_half_even_minus: "round_half_even (- x) = - round_half_even x"
proof (cases "x = of_int \<lfloor>x\<rfloor>")
  case True
  then show ?thesis
    by (metis of_int_minus round_half_even_of_int)
next
  case False
  then have "\<lfloor>- x\<rfloor> = - \<lfloor>x\<rfloor> - 1"
    by linarith
  then show ?thesis
    by (auto simp: round_half_even_def Let_def)
qed

lemma round_half_even_unique:
  assumes "\<bar>x - of_int n\<bar> < 1 / 2"
  shows "round_half_even x = n"
proof -
  have "\<bar>of_int (round_half_even x) - of_int n :: rat\<bar> < 1"
    using assms round_half_even_error [of x] by linarith
  then have "\<bar>round_half_even x - n\<bar> < 1"
    by (metis of_int_abs of_int_diff of_int_less_1_iff)
  then show ?thesis
    by linarith
qed

lemma round_half_away_unique:
  assumes "\<bar>x - of_int n\<bar> < 1 / 2"
  shows "round_half_away x = n"
proof (cases "0 \<le> x")
  case True
  have "\<lfloor>x + 1 / 2\<rfloor> = n"
    using assms by (intro floor_unique) linarith+
  with True show ?thesis
    by (simp add: round_half_away_def)
next
  case False
  have "\<lfloor>1 / 2 - x\<rfloor> = - n"
  proof (rule floor_unique)
    from assms have "x - of_int n < 1 / 2" "of_int n - x < 1 / 2"
      by (simp_all only: abs_less_iff minus_diff_eq)
    then show "of_int (- n) \<le> 1 / 2 - x" "1 / 2 - x < of_int (- n) + 1"
      unfolding of_int_minus by linarith+
  qed
  with False show ?thesis
    by (simp add: round_half_away_def)
qed

lemma round_half_away_error: "\<bar>of_int (round_half_away x) - x\<bar> \<le> 1 / 2"
proof (cases "0 \<le> x")
  case True
  have "\<bar>of_int \<lfloor>x + 1 / 2\<rfloor> - x\<bar> \<le> 1 / 2"
    unfolding abs_le_iff by linarith
  with True show ?thesis
    by (simp add: round_half_away_def)
next
  case False
  have "\<bar>- of_int \<lfloor>1 / 2 - x\<rfloor> - x\<bar> \<le> 1 / 2"
    unfolding abs_le_iff by linarith
  with False show ?thesis
    by (simp add: round_half_away_def)
qed

lemma round_half_away_of_int [simp]: "round_half_away (of_int n) = n"
  by (rule round_half_away_unique) simp

lemma round_half_away_mono:
  assumes "x \<le> y"
  shows "round_half_away x \<le> round_half_away y"
  using assms unfolding round_half_away_def
  by (auto intro: floor_mono; linarith)

lemma round_half_away_add_int:
  assumes "0 \<le> x" "0 \<le> n"
  shows "round_half_away (of_int n + x) = n + round_half_away x"
  using assms by (simp add: round_half_away_def add.assoc)

end
