(* ===== verification/JsNumber.thy ===== *)
theory JsNumber
  imports TL_Prelude
begin

text \<open>
  The JavaScript \<open>number\<close> type. A number is a binary64 value: a rational,
  an infinity or \<open>NaN\<close>. Every operation computes the exact result and rounds it
  to the nearest double, ties to even (\<open>fl\<close>), with overflow to an infinity; the
  definitions compute, so that a closed call can be evaluated. The sign of zero is
  not kept: the modelled code never divides by a computed zero, and no other
  operator it uses can tell the two zeros apart.
\<close>

subsection \<open>Rounding to binary64\<close>

text \<open>\<open>ilog2 x\<close> is the exponent of the leading binary digit of a positive \<open>x\<close>.\<close>

definition ilog2 :: "rat \<Rightarrow> int" where
  "ilog2 x = (let (p, q) = quotient_of x; k = bitlen p - bitlen q
              in if 2 powi k \<le> x then k else k - 1)"

definition ulp_exp :: "rat \<Rightarrow> int" where
  "ulp_exp x = max (ilog2 x - 52) (- 1074)"

definition fl :: "rat \<Rightarrow> rat" where
  "fl x = (if x = 0 then 0
           else let u = 2 powi (ulp_exp \<bar>x\<bar>) in of_int (round_half_even (x / u)) * u)"

lemma bitlen_powi_bounds:
  assumes "0 < n"
  shows "(2 :: rat) powi (bitlen n - 1) \<le> of_int n" "(of_int n :: rat) < 2 powi bitlen n"
proof -
  have 1: "1 \<le> bitlen n"
    using assms bitlen_eq_zero_iff [of n] bitlen_nonneg [of n] by linarith
  have "2 ^ nat (bitlen n - 1) \<le> n" "n < 2 ^ nat (bitlen n)"
    using bitlen_bounds [OF assms] by simp_all
  then have "(of_int (2 ^ nat (bitlen n - 1)) :: rat) \<le> of_int n"
      "(of_int n :: rat) < of_int (2 ^ nat (bitlen n))"
    by (simp_all only: of_int_le_iff of_int_less_iff)
  then show "(2 :: rat) powi (bitlen n - 1) \<le> of_int n" "(of_int n :: rat) < 2 powi bitlen n"
    using 1 by (simp_all add: two_powi_nat)
qed

lemma ilog2_bounds:
  assumes "0 < x"
  shows "2 powi ilog2 x \<le> x" "x < 2 powi (ilog2 x + 1)"
proof -
  obtain p q where pq: "quotient_of x = (p, q)"
    by (cases "quotient_of x")
  have q: "0 < q"
    using quotient_of_denom_pos [OF pq] .
  have x: "x = of_int p / of_int q"
    using quotient_of_div [OF pq] .
  have p: "0 < p"
    using assms q unfolding x by (simp add: zero_less_divide_iff)
  define k where "k = bitlen p - bitlen q"
  have "x < 2 powi bitlen p / 2 powi (bitlen q - 1)"
    unfolding x using bitlen_powi_bounds [OF p] bitlen_powi_bounds [OF q] p q
    by (intro frac_less) (simp_all add: less_imp_le)
  then have upper: "x < 2 powi (k + 1)"
    by (simp add: k_def flip: two_powi_diff) (simp add: algebra_simps)
  have "2 powi (bitlen p - 1) / 2 powi bitlen q \<le> x"
    unfolding x using bitlen_powi_bounds [OF p] bitlen_powi_bounds [OF q] p q
    by (intro frac_le) (simp_all add: less_imp_le)
  then have lower: "2 powi (k - 1) \<le> x"
    by (simp add: k_def flip: two_powi_diff) (simp add: algebra_simps)
  have "ilog2 x = (if 2 powi k \<le> x then k else k - 1)"
    by (simp add: ilog2_def pq k_def)
  then show "2 powi ilog2 x \<le> x" "x < 2 powi (ilog2 x + 1)"
    using upper lower by (auto simp: not_le)
qed

lemma ilog2_less:
  assumes "0 < x" "x < 2 powi k"
  shows "ilog2 x < k"
  using ilog2_bounds(1) [OF assms(1)] assms(2) by (meson le_less_trans two_powi_less_iff)

lemma ilog2_ge:
  assumes "2 powi k \<le> x"
  shows "k \<le> ilog2 x"
proof -
  have "0 < x"
    using assms two_powi_pos [of k] by (rule order.strict_trans2 [rotated])
  then have "(2 :: rat) powi k < 2 powi (ilog2 x + 1)"
    using assms ilog2_bounds(2) by (meson le_less_trans)
  then show ?thesis
    by (simp only: two_powi_less_iff)
qed

lemma ilog2_mono: "0 < x \<Longrightarrow> x \<le> y \<Longrightarrow> ilog2 x \<le> ilog2 y"
  by (intro ilog2_ge) (meson ilog2_bounds(1) order_trans)

lemma ulp_exp_mono: "0 < x \<Longrightarrow> x \<le> y \<Longrightarrow> ulp_exp x \<le> ulp_exp y"
  using ilog2_mono [of x y] by (simp add: ulp_exp_def)

lemma ulp_exp_le:
  assumes "0 < x" "x < 2 powi k" "- 1074 \<le> k - 53"
  shows "ulp_exp x \<le> k - 53"
  using ilog2_less [OF assms(1,2)] assms(3) by (simp add: ulp_exp_def)

lemma fl_0 [simp]: "fl 0 = 0"
  by (simp add: fl_def)

lemma fl_minus [simp]: "fl (- x) = - fl x"
  by (simp add: fl_def Let_def round_half_even_minus)

lemma fl_eq: "x \<noteq> 0 \<Longrightarrow>
    fl x = of_int (round_half_even (x / 2 powi ulp_exp \<bar>x\<bar>)) * 2 powi ulp_exp \<bar>x\<bar>"
  by (simp add: fl_def Let_def)

lemma fl_error_ulp:
  assumes "x \<noteq> 0"
  shows "\<bar>fl x - x\<bar> \<le> 2 powi (ulp_exp \<bar>x\<bar> - 1)"
proof -
  define u where "u = (2 :: rat) powi ulp_exp \<bar>x\<bar>"
  have u: "0 < u"
    by (simp add: u_def)
  have "fl x - x = (of_int (round_half_even (x / u)) - x / u) * u"
    using assms u by (simp add: fl_eq u_def [symmetric] algebra_simps)
  then have "\<bar>fl x - x\<bar> = \<bar>of_int (round_half_even (x / u)) - x / u\<bar> * u"
    using u by (simp add: abs_mult)
  also have "\<dots> \<le> 1 / 2 * u"
    using u by (intro mult_right_mono round_half_even_error) simp
  also have "\<dots> = 2 powi (ulp_exp \<bar>x\<bar> - 1)"
    by (simp add: u_def two_powi_diff)
  finally show ?thesis .
qed

text \<open>The absolute error of rounding a number below \<open>2 ^ k\<close>.\<close>

lemma fl_error:
  assumes "\<bar>x\<bar> < 2 powi k" "- 1021 \<le> k"
  shows "\<bar>fl x - x\<bar> \<le> 2 powi (k - 54)"
proof (cases "x = 0")
  case True
  then show ?thesis by simp
next
  case False
  then have "ulp_exp \<bar>x\<bar> \<le> k - 53"
    using assms by (intro ulp_exp_le) auto
  then have "(2 :: rat) powi (ulp_exp \<bar>x\<bar> - 1) \<le> 2 powi (k - 54)"
    by (intro two_powi_mono) simp
  with fl_error_ulp [OF False] show ?thesis
    by (rule order_trans)
qed

text \<open>The relative error of rounding, at most \<open>2 ^ -53\<close> in the normal range.\<close>

lemma fl_relative_error:
  assumes "2 powi (- 1022) \<le> \<bar>x\<bar>"
  shows "\<bar>fl x - x\<bar> \<le> 2 powi (- 53) * \<bar>x\<bar>"
proof -
  have x: "x \<noteq> 0"
    using assms two_powi_pos [of "- 1022"] by (metis abs_zero not_le)
  have "- 1022 \<le> ilog2 \<bar>x\<bar>"
    using assms by (rule ilog2_ge)
  then have "ulp_exp \<bar>x\<bar> - 1 = - 53 + ilog2 \<bar>x\<bar>"
    by (simp add: ulp_exp_def)
  then have "\<bar>fl x - x\<bar> \<le> 2 powi (- 53) * 2 powi ilog2 \<bar>x\<bar>"
    using fl_error_ulp [OF x] by (simp only: two_powi_add)
  also have "\<dots> \<le> 2 powi (- 53) * \<bar>x\<bar>"
    using x ilog2_bounds(1) [of "\<bar>x\<bar>"] by (intro mult_left_mono) simp_all
  finally show ?thesis .
qed


lemma fl_relative_error_pos:
  assumes "2 powi (- 1022) \<le> x"
  shows "\<bar>fl x - x\<bar> \<le> 2 powi (- 53) * x"
proof -
  have "0 < x"
    using assms two_powi_pos by (rule order.strict_trans2 [rotated])
  then show ?thesis
    using fl_relative_error [of x] assms by (simp only: abs_of_pos)
qed

text \<open>A number with a 53-bit significand is a double: rounding leaves it alone.\<close>

lemma fl_exact:
  assumes x: "x = of_int m * 2 powi e" and m: "\<bar>m\<bar> < 2 ^ 53" and e: "- 1074 \<le> e"
  shows "fl x = x"
proof (cases "x = 0")
  case True
  then show ?thesis by simp
next
  case False
  have "\<bar>x\<bar> = of_int \<bar>m\<bar> * 2 powi e"
    by (simp add: x abs_mult)
  also have "\<dots> < of_int (2 ^ 53) * 2 powi e"
    using m by (intro mult_strict_right_mono) (simp_all only: of_int_less_iff two_powi_pos)
  also have "\<dots> = 2 powi (53 + e)"
    by (simp add: two_powi_add two_powi_nat)
  finally have "\<bar>x\<bar> < 2 powi (53 + e)" .
  then have "ulp_exp \<bar>x\<bar> \<le> e"
    using False e ulp_exp_le [of "\<bar>x\<bar>" "53 + e"] by simp
  then have "x / 2 powi ulp_exp \<bar>x\<bar> = of_int (m * 2 ^ nat (e - ulp_exp \<bar>x\<bar>))"
    by (simp add: x two_powi_diff flip: two_powi_nat)
  then show ?thesis
    by (simp only: fl_eq [OF False] round_half_even_of_int) (metis nonzero_eq_divide_eq two_powi_nonzero)
qed

lemma fl_of_int [simp]: "\<bar>n\<bar> < 2 ^ 53 \<Longrightarrow> fl (of_int n) = of_int n"
  by (rule fl_exact [where e = 0]) simp_all

lemma fl_grid:
  assumes "0 < x"
  obtains n where "fl x = of_int n * 2 powi ulp_exp x"
  using fl_eq [of x] assms by auto

lemma fl_pos_mono:
  assumes "0 < x" "x \<le> y"
  shows "fl x \<le> fl y"
proof (cases "ulp_exp x = ulp_exp y")
  case True
  have "x / 2 powi ulp_exp y \<le> y / 2 powi ulp_exp y"
    using assms(2) by (rule divide_right_mono) simp
  then have "round_half_even (x / 2 powi ulp_exp y) \<le> round_half_even (y / 2 powi ulp_exp y)"
    by (rule round_half_even_mono)
  with True assms show ?thesis
    by (simp add: fl_eq)
next
  case False
  define b where "b = (2 :: rat) powi ilog2 y"
  have y: "0 < y"
    using assms by simp
  have lt: "ulp_exp x < ulp_exp y"
    using False ulp_exp_mono [OF assms] by simp
  then have ey: "ulp_exp y = ilog2 y - 52"
    by (simp add: ulp_exp_def max_def split: if_splits)
  have "ilog2 x < ilog2 y"
    using lt by (simp add: ulp_exp_def max_def split: if_splits)
  then have "x \<le> b"
    unfolding b_def using ilog2_bounds(2) [OF assms(1)] two_powi_mono [of "ilog2 x + 1" "ilog2 y"]
    by simp
  then have "x / 2 powi ulp_exp x \<le> b / 2 powi ulp_exp x"
    by (rule divide_right_mono) simp
  moreover have "b / 2 powi ulp_exp x = of_int (2 ^ nat (ilog2 y - ulp_exp x))"
    unfolding b_def two_powi_diff [symmetric] using lt ey by (intro two_powi_int) simp
  ultimately have "round_half_even (x / 2 powi ulp_exp x) \<le> 2 ^ nat (ilog2 y - ulp_exp x)"
    by (metis round_half_even_mono round_half_even_of_int)
  then have "fl x \<le> of_int (2 ^ nat (ilog2 y - ulp_exp x)) * 2 powi ulp_exp x"
    using assms(1) by (simp only: fl_eq abs_of_pos) (intro mult_right_mono; simp)
  also have "\<dots> = b"
    unfolding b_def using lt ey by (subst two_powi_int [symmetric]) (simp_all add: two_powi_diff)
  also have "b \<le> fl y"
  proof -
    have "b / 2 powi ulp_exp y \<le> y / 2 powi ulp_exp y"
      using ilog2_bounds(1) [OF y] by (intro divide_right_mono) (simp_all add: b_def)
    moreover have "b / 2 powi ulp_exp y = of_int (2 ^ 52)"
      unfolding b_def two_powi_diff [symmetric] by (simp add: ey two_powi_nat)
    ultimately have "2 ^ 52 \<le> round_half_even (y / 2 powi ulp_exp y)"
      by (metis round_half_even_mono round_half_even_of_int)
    then have "of_int (2 ^ 52) \<le> (of_int (round_half_even (y / 2 powi ulp_exp y)) :: rat)"
      by (simp only: of_int_le_iff)
    then have "of_int (2 ^ 52) * 2 powi ulp_exp y
        \<le> of_int (round_half_even (y / 2 powi ulp_exp y)) * (2 :: rat) powi ulp_exp y"
      by (rule mult_right_mono) simp
    then have "of_int (2 ^ 52) * 2 powi ulp_exp y \<le> fl y"
      using y fl_eq [of y] by (simp only: abs_of_pos)
    also have "of_int (2 ^ 52) * 2 powi ulp_exp y = b"
      by (simp add: b_def ey two_powi_diff two_powi_nat)
    finally show ?thesis .
  qed
  finally show ?thesis .
qed

lemma fl_nonneg [simp]: "0 \<le> x \<Longrightarrow> 0 \<le> fl x"
proof (cases "x = 0")
  case False
  assume "0 \<le> x"
  then have "round_half_even (of_int 0) \<le> round_half_even (x / 2 powi ulp_exp \<bar>x\<bar>)"
    by (intro round_half_even_mono) simp
  then have "0 \<le> of_int (round_half_even (x / 2 powi ulp_exp \<bar>x\<bar>)) * (2 :: rat) powi ulp_exp \<bar>x\<bar>"
    by (simp only: round_half_even_of_int) (intro mult_nonneg_nonneg; simp)
  then show ?thesis
    by (simp only: fl_eq [OF False])
qed simp

lemma fl_mono:
  assumes "x \<le> y"
  shows "fl x \<le> fl y"
proof (cases "0 < x")
  case True
  then show ?thesis using assms by (rule fl_pos_mono)
next
  case x: False
  show ?thesis
  proof (cases "y < 0")
    case True
    then have "fl (- y) \<le> fl (- x)"
      using assms by (intro fl_pos_mono) simp_all
    then show ?thesis by simp
  next
    case False
    then have "fl x \<le> 0"
      using x fl_nonneg [of "- x"] by simp
    also have "0 \<le> fl y"
      using False by simp
    finally show ?thesis .
  qed
qed


lemma fl_idem_int: "\<bar>n\<bar> < 2 ^ 53 \<Longrightarrow> fl (fl (of_int n)) = fl (of_int n)"
  by simp

lemma fl_pow2: "- 1074 \<le> k \<Longrightarrow> fl (2 powi k) = 2 powi k"
  by (rule fl_exact [where m = 1 and e = k]) simp_all

lemma fl_le_pow2: "x \<le> 2 powi k \<Longrightarrow> - 1074 \<le> k \<Longrightarrow> fl x \<le> 2 powi k"
  using fl_mono [of x "2 powi k"] by (simp add: fl_pow2)

lemma fl_ge_int: "of_int n \<le> x \<Longrightarrow> \<bar>n\<bar> < 2 ^ 53 \<Longrightarrow> of_int n \<le> fl x"
  by (metis fl_mono fl_of_int)

lemma fl_le_int: "x \<le> of_int n \<Longrightarrow> \<bar>n\<bar> < 2 ^ 53 \<Longrightarrow> fl x \<le> of_int n"
  by (metis fl_mono fl_of_int)

subsection \<open>Numbers and their operators\<close>

datatype jsnum = NaN | PosInf | NegInf | Fin (the_rat: rat)

text \<open>
  A literal of the source, and every exact result, becomes the nearest number; a result
  of magnitude \<open>2 ^ 1024\<close> or more overflows.
\<close>

definition to_num :: "rat \<Rightarrow> jsnum" where
  "to_num r = (let y = fl r in
     if y = 0 \<or> ilog2 \<bar>y\<bar> < 1024 then Fin y else if 0 < y then PosInf else NegInf)"

fun jneg :: "jsnum \<Rightarrow> jsnum" where
  "jneg NaN = NaN"
| "jneg PosInf = NegInf"
| "jneg NegInf = PosInf"
| "jneg (Fin a) = Fin (- a)"

fun jadd :: "jsnum \<Rightarrow> jsnum \<Rightarrow> jsnum" where
  "jadd (Fin a) (Fin b) = to_num (a + b)"
| "jadd NaN _ = NaN"
| "jadd _ NaN = NaN"
| "jadd PosInf NegInf = NaN"
| "jadd NegInf PosInf = NaN"
| "jadd PosInf _ = PosInf"
| "jadd _ PosInf = PosInf"
| "jadd NegInf _ = NegInf"
| "jadd _ NegInf = NegInf"

definition jsub :: "jsnum \<Rightarrow> jsnum \<Rightarrow> jsnum" where
  "jsub a b = jadd a (jneg b)"

text \<open>The infinity with the sign of a non-zero factor; zero times infinity is \<open>NaN\<close>.\<close>

definition inf_times :: "rat \<Rightarrow> jsnum" where
  "inf_times a = (if a = 0 then NaN else if 0 < a then PosInf else NegInf)"

fun jmul :: "jsnum \<Rightarrow> jsnum \<Rightarrow> jsnum" where
  "jmul (Fin a) (Fin b) = to_num (a * b)"
| "jmul NaN _ = NaN"
| "jmul _ NaN = NaN"
| "jmul PosInf PosInf = PosInf"
| "jmul NegInf NegInf = PosInf"
| "jmul PosInf NegInf = NegInf"
| "jmul NegInf PosInf = NegInf"
| "jmul PosInf (Fin b) = inf_times b"
| "jmul (Fin a) PosInf = inf_times a"
| "jmul NegInf (Fin b) = inf_times (- b)"
| "jmul (Fin a) NegInf = inf_times (- a)"

fun jdiv :: "jsnum \<Rightarrow> jsnum \<Rightarrow> jsnum" where
  "jdiv (Fin a) (Fin b) = (if b = 0 then inf_times a else to_num (a / b))"
| "jdiv NaN _ = NaN"
| "jdiv _ NaN = NaN"
| "jdiv (Fin a) _ = Fin 0"
| "jdiv PosInf (Fin b) = (if 0 \<le> b then PosInf else NegInf)"
| "jdiv NegInf (Fin b) = (if 0 \<le> b then NegInf else PosInf)"
| "jdiv _ _ = NaN"

text \<open>\<open>a < b\<close>, \<open>a <= b\<close> and \<open>a === b\<close>: every comparison with \<open>NaN\<close> is false.\<close>

fun jlt :: "jsnum \<Rightarrow> jsnum \<Rightarrow> bool" where
  "jlt (Fin a) (Fin b) = (a < b)"
| "jlt NaN _ = False"
| "jlt _ NaN = False"
| "jlt PosInf _ = False"
| "jlt _ PosInf = True"
| "jlt _ NegInf = False"
| "jlt NegInf _ = True"

fun jle :: "jsnum \<Rightarrow> jsnum \<Rightarrow> bool" where
  "jle (Fin a) (Fin b) = (a \<le> b)"
| "jle NaN _ = False"
| "jle _ NaN = False"
| "jle _ PosInf = True"
| "jle PosInf _ = False"
| "jle NegInf _ = True"
| "jle _ NegInf = False"

definition jeq :: "jsnum \<Rightarrow> jsnum \<Rightarrow> bool" where
  "jeq a b = (a = b \<and> a \<noteq> NaN)"

text \<open>\<open>Math.min\<close>, \<open>Math.max\<close>, \<open>Math.floor\<close>, \<open>Math.round\<close> (ties upwards), \<open>Math.trunc\<close>.\<close>

definition jmin :: "jsnum \<Rightarrow> jsnum \<Rightarrow> jsnum" where
  "jmin a b = (if a = NaN \<or> b = NaN then NaN else if jle a b then a else b)"

definition jmax :: "jsnum \<Rightarrow> jsnum \<Rightarrow> jsnum" where
  "jmax a b = (if a = NaN \<or> b = NaN then NaN else if jle a b then b else a)"

fun jfloor :: "jsnum \<Rightarrow> jsnum" where
  "jfloor (Fin a) = Fin (of_int \<lfloor>a\<rfloor>)"
| "jfloor x = x"

fun jround :: "jsnum \<Rightarrow> jsnum" where
  "jround (Fin a) = Fin (of_int \<lfloor>a + 1 / 2\<rfloor>)"
| "jround x = x"

fun is_finite :: "jsnum \<Rightarrow> bool" where
  "is_finite (Fin a) = True"
| "is_finite _ = False"

fun is_integer :: "jsnum \<Rightarrow> bool" where
  "is_integer (Fin a) = (of_int \<lfloor>a\<rfloor> = a)"
| "is_integer _ = False"

text \<open>\<open>Boolean(x)\<close>: zero and \<open>NaN\<close> are falsy.\<close>

fun num_truthy :: "jsnum \<Rightarrow> bool" where
  "num_truthy (Fin a) = (a \<noteq> 0)"
| "num_truthy NaN = False"
| "num_truthy _ = True"

text \<open>
  \<open>x.toFixed(d)\<close> prints the decimal with \<open>d\<close> fraction digits nearest to \<open>x\<close>, the
  larger magnitude on a tie; from \<open>10 ^ 21\<close> on it prints \<open>x\<close> itself. \<open>to_fixed d x\<close>
  is the printed decimal as a rational, and \<open>fixed_num d x\<close> is the number
  \<open>Number(x.toFixed(d))\<close>.
\<close>

definition to_fixed :: "nat \<Rightarrow> rat \<Rightarrow> rat" where
  "to_fixed d r = (if 10 ^ 21 \<le> \<bar>r\<bar> then r else of_int (round_half_away (r * 10 ^ d)) / 10 ^ d)"

fun fixed_num :: "nat \<Rightarrow> jsnum \<Rightarrow> jsnum" where
  "fixed_num d (Fin a) = to_num (to_fixed d a)"
| "fixed_num d x = x"

subsection \<open>Facts about the operators\<close>

lemma fl_lt_overflow: "\<bar>r\<bar> \<le> 2 ^ 1023 \<Longrightarrow> \<bar>fl r\<bar> \<le> 2 ^ 1023"
  using fl_le_pow2 [of r 1023] fl_le_pow2 [of "- r" 1023] by (simp add: two_powi_nat abs_le_iff)

lemma to_num_Fin [js_simps]: "\<bar>r\<bar> \<le> 2 ^ 1023 \<Longrightarrow> to_num r = Fin (fl r)"
proof -
  assume "\<bar>r\<bar> \<le> 2 ^ 1023"
  then have "\<bar>fl r\<bar> \<le> 2 powi 1023"
    using fl_lt_overflow [of r] by (simp add: two_powi_nat)
  also have "(2 :: rat) powi 1023 < 2 powi 1024"
    by (rule two_powi_strict_mono) simp
  finally have small: "\<bar>fl r\<bar> < 2 powi 1024" .
  have "fl r = 0 \<or> ilog2 \<bar>fl r\<bar> < 1024"
    using small ilog2_less [of "\<bar>fl r\<bar>" 1024] by auto
  then show ?thesis
    by (simp add: to_num_def Let_def)
qed

lemma to_num_not_NaN [simp]: "to_num r \<noteq> NaN"
  by (simp add: to_num_def Let_def)

lemma to_num_int [js_simps]: "\<bar>n\<bar> < 2 ^ 53 \<Longrightarrow> to_num (of_int n) = Fin (of_int n)"
proof -
  assume n: "\<bar>n\<bar> < 2 ^ 53"
  then have "(of_int \<bar>n\<bar> :: rat) < of_int (2 ^ 53)"
    by (simp only: of_int_less_iff)
  also have "(of_int (2 ^ 53) :: rat) \<le> 2 ^ 1023"
    by simp
  finally have "\<bar>of_int n\<bar> \<le> (2 :: rat) ^ 1023"
    by (simp only: of_int_abs)
  with n show ?thesis
    by (simp only: to_num_Fin fl_of_int)
qed

lemma to_num_le_int:
  assumes "0 \<le> x" "x \<le> of_int n" "\<bar>n\<bar> < 2 ^ 53"
  shows "to_num x = Fin (fl x)" "0 \<le> fl x" "fl x \<le> of_int n"
proof -
  have "of_int n \<le> (of_int (2 ^ 53) :: rat)"
    using assms(3) by (simp only: of_int_le_iff)
  also have "(of_int (2 ^ 53) :: rat) \<le> 2 ^ 1023"
    by simp
  finally have "x \<le> 2 ^ 1023"
    using assms(2) by simp
  then show "to_num x = Fin (fl x)"
    using assms(1) by (intro to_num_Fin) simp
  show "0 \<le> fl x" "fl x \<le> of_int n"
    using assms fl_le_int by simp_all
qed

lemma jsub_Fin [js_simps]: "jsub (Fin a) (Fin b) = to_num (a - b)"
  by (simp add: jsub_def)

lemma jmin_Fin [simp]: "jmin (Fin a) (Fin b) = Fin (min a b)"
  by (simp add: jmin_def min_def)

lemma jmax_Fin [simp]: "jmax (Fin a) (Fin b) = Fin (max a b)"
  by (simp add: jmax_def max_def)

lemma jeq_Fin [simp]: "jeq (Fin a) (Fin b) \<longleftrightarrow> a = b"
  by (simp add: jeq_def)

lemma jeq_NaN [simp]: "\<not> jeq NaN x" "\<not> jeq x NaN"
  by (simp_all add: jeq_def)

lemma jle_refl: "x \<noteq> NaN \<Longrightarrow> jle x x"
  by (cases x) simp_all

lemma jle_trans: "jle a b \<Longrightarrow> jle b c \<Longrightarrow> jle a c"
  by (cases a; cases b; cases c) simp_all

lemma jle_linear: "a \<noteq> NaN \<Longrightarrow> b \<noteq> NaN \<Longrightarrow> jle a b \<or> jle b a"
  by (cases a; cases b) auto

lemma jle_not_NaN: "jle a b \<Longrightarrow> a \<noteq> NaN \<and> b \<noteq> NaN"
  by (cases a; cases b) simp_all

lemma jle_jmax: "y \<noteq> NaN \<Longrightarrow> x \<noteq> NaN \<Longrightarrow> jle x (jmax x y)"
  using jle_linear [of x y] by (auto simp: jmax_def intro: jle_refl)

lemma jlt_iff_not_jle: "a \<noteq> NaN \<Longrightarrow> b \<noteq> NaN \<Longrightarrow> jlt a b \<longleftrightarrow> \<not> jle b a"
  by (cases a; cases b) auto

lemma is_finite_iff: "is_finite x \<longleftrightarrow> (\<exists>a. x = Fin a)"
  by (cases x) simp_all

text \<open>
  The clamp idiom \<open>Math.max(lo, Math.min(hi, x))\<close> of the source stays within its bounds
  whatever number \<open>x\<close> is, \<open>NaN\<close> excepted.
\<close>

lemma clamp_within:
  assumes "lo \<noteq> NaN" "hi \<noteq> NaN" "x \<noteq> NaN" "jle lo hi"
  shows "jle lo (jmax lo (jmin hi x))" "jle (jmax lo (jmin hi x)) hi"
  using assms jle_linear [of lo x] jle_linear [of hi x]
  by (auto simp: jmax_def jmin_def intro: jle_refl jle_trans)

lemma to_fixed_error:
  assumes "\<bar>r\<bar> < 10 ^ 21"
  shows "\<bar>to_fixed d r - r\<bar> \<le> 1 / (2 * 10 ^ d)"
proof -
  have p: "(0 :: rat) < 10 ^ d"
    by simp
  have "to_fixed d r - r = (of_int (round_half_away (r * 10 ^ d)) - r * 10 ^ d) / 10 ^ d"
    using assms p by (simp add: to_fixed_def field_simps)
  then have "\<bar>to_fixed d r - r\<bar> = \<bar>of_int (round_half_away (r * 10 ^ d)) - r * 10 ^ d\<bar> / 10 ^ d"
    using p by (simp add: abs_divide)
  also have "\<dots> \<le> (1 / 2) / 10 ^ d"
    using p by (intro divide_right_mono round_half_away_error) simp
  finally show ?thesis
    by simp
qed

lemma to_fixed_mono_nonneg: "0 \<le> r \<Longrightarrow> r < 10 ^ 21 \<Longrightarrow> 0 \<le> to_fixed d r"
  using round_half_away_mono [of 0 "r * 10 ^ d"] round_half_away_of_int [of 0]
  by (simp add: to_fixed_def)

end
