(* ===== verification/Money.thy ===== *)
theory Money
  imports JsNumber
begin

text \<open>
  The trip of an amount between the program and the database. The money columns of
  \<open>src/lib/db/schema.ts\<close> are Postgres \<open>numeric(20, 6)\<close>: exact decimals with six
  fraction digits, kept here as an integer number of millionths. The program
  writes \<open>String(amount)\<close>, the shortest decimal that reads back as the same double,
  and Postgres rounds that decimal to the column's scale, ties away from zero; it
  reads \<open>Number(row.amount)\<close>, the double nearest to the stored decimal.
\<close>

subsection \<open>\<open>String(x)\<close> of a number, as a decimal\<close>

text \<open>The number of decimal digits of a positive integer.\<close>

function dec_len :: "int \<Rightarrow> int" where
  "dec_len n = (if n \<le> 0 then 0 else dec_len (n div 10) + 1)"
  by pat_completeness auto
termination
  by (relation "measure nat") auto

declare dec_len.simps [simp del]

text \<open>\<open>dec_exp x\<close> is the \<open>n\<close> with \<open>10 ^ (n - 1) \<le> x < 10 ^ n\<close>, for a positive \<open>x\<close>.\<close>

definition dec_exp :: "rat \<Rightarrow> int" where
  "dec_exp x = (let (p, q) = quotient_of x; k = dec_len p - dec_len q
                in if 10 powi k \<le> x then k + 1 else k)"

text \<open>
  The decimals of \<open>k\<close> significant digits next to \<open>x\<close>, the nearest one first; the
  standard asks for the smallest \<open>k\<close> with a decimal that rounds to \<open>x\<close>, and for the
  nearest such decimal. Seventeen digits are always enough for a double.
\<close>

definition dec_candidates :: "rat \<Rightarrow> int \<Rightarrow> rat list" where
  "dec_candidates x k =
     (let u = 10 powi (dec_exp x - k); y = x / u
      in [of_int (round_half_even y) * u, of_int \<lfloor>y\<rfloor> * u, of_int \<lceil>y\<rceil> * u])"

fun shortest_from :: "nat \<Rightarrow> int \<Rightarrow> rat \<Rightarrow> rat" where
  "shortest_from 0 k x = x"
| "shortest_from (Suc f) k x =
     (case find (\<lambda>d. fl d = x) (dec_candidates x k) of
        Some d \<Rightarrow> d
      | None \<Rightarrow> shortest_from f (k + 1) x)"

definition shortest_pos :: "rat \<Rightarrow> rat" where
  "shortest_pos x = shortest_from 17 1 x"

definition shortest_dec :: "rat \<Rightarrow> rat" where
  "shortest_dec x = (if x = 0 then 0 else if 0 < x then shortest_pos x else - shortest_pos (- x))"

lemma fl_shortest_from: "fl x = x \<Longrightarrow> fl (shortest_from f k x) = x"
  by (induction f k x rule: shortest_from.induct) (auto simp: find_Some_iff split: option.splits)

lemma shortest_from_cases: "shortest_from f k x = x \<or> fl (shortest_from f k x) = x"
  by (induction f k x rule: shortest_from.induct) (auto simp: find_Some_iff split: option.splits)

lemma fl_shortest_pos: "fl x = x \<Longrightarrow> fl (shortest_pos x) = x"
  by (simp add: shortest_pos_def fl_shortest_from)

lemma fl_shortest_dec:
  assumes "fl x = x"
  shows "fl (shortest_dec x) = x"
proof -
  have "fl (- x) = - x"
    using assms by simp
  then show ?thesis
    using assms fl_shortest_pos [of x] fl_shortest_pos [of "- x"] by (simp add: shortest_dec_def)
qed

lemma shortest_dec_pos:
  assumes "0 < x"
  shows "0 < shortest_dec x"
proof (rule ccontr)
  assume "\<not> 0 < shortest_dec x"
  then have "fl (shortest_dec x) \<le> 0" "shortest_dec x \<noteq> x"
    using fl_nonneg [of "- shortest_dec x"] assms by simp_all
  with shortest_from_cases [of 17 1 x] assms show False
    by (auto simp: shortest_dec_def shortest_pos_def)
qed

subsection \<open>Short decimals print as themselves\<close>

lemma ten_powi_mono_iff: "(10 :: rat) powi a \<le> 10 powi b \<longleftrightarrow> a \<le> b"
  by (meson linorder_not_le power_int_increasing power_int_strict_increasing one_less_numeral_iff
      semiring_norm(76) less_imp_le order.strict_trans2 order_less_irrefl one_le_numeral)

lemma ten_powi_less_iff: "(10 :: rat) powi a < 10 powi b \<longleftrightarrow> a < b"
  using ten_powi_mono_iff [of b a] by (simp add: not_le [symmetric])

lemma dec_len_bounds:
  assumes "0 < n"
  shows "1 \<le> dec_len n \<and> (10 :: rat) powi (dec_len n - 1) \<le> of_int n \<and> of_int n < (10 :: rat) powi dec_len n"
  using assms
proof (induction n rule: dec_len.induct)
  case (1 n)
  show ?case
  proof (cases "n < 10")
    case True
    then have "n div 10 = 0" using "1.prems" by simp
    then have "dec_len n = 1"
      using "1.prems" by (subst dec_len.simps) (simp add: dec_len.simps [of 0])
    moreover have "1 \<le> n" "n \<le> 9"
      using True "1.prems" by simp_all
    ultimately show ?thesis
      by simp
  next
    case False
    then have pos: "0 < n div 10" "0 < n" by auto
    then have IH: "1 \<le> dec_len (n div 10)" "(10 :: rat) powi (dec_len (n div 10) - 1) \<le> of_int (n div 10)"
      "of_int (n div 10) < (10 :: rat) powi dec_len (n div 10)"
      using "1.IH" by auto
    have len: "dec_len n = dec_len (n div 10) + 1"
      using pos by (subst dec_len.simps) simp
    have "n div 10 * 10 \<le> n" "n < (n div 10 + 1) * 10"
      by presburger+
    then have "of_int (n div 10 * 10) \<le> (of_int n :: rat)" "of_int n < (of_int ((n div 10 + 1) * 10) :: rat)"
      by (simp_all only: of_int_le_iff of_int_less_iff)
    then have n: "of_int (n div 10) * 10 \<le> (of_int n :: rat)" "of_int n < (of_int (n div 10) + 1) * (10 :: rat)"
      by simp_all
    have "(10 :: rat) powi dec_len (n div 10) = of_int (10 ^ nat (dec_len (n div 10)))"
      using IH(1) by (simp add: power_int_def)
    with IH(3) have "n div 10 < 10 ^ nat (dec_len (n div 10))"
      by (simp only: of_int_less_iff)
    then have "n div 10 + 1 \<le> 10 ^ nat (dec_len (n div 10))"
      by simp
    then have "(of_int (n div 10 + 1) :: rat) \<le> of_int (10 ^ nat (dec_len (n div 10)))"
      by (simp only: of_int_le_iff)
    then have "(of_int (n div 10) :: rat) + 1 \<le> 10 powi dec_len (n div 10)"
      using IH(1) by (simp add: power_int_def)
    moreover have "(10 :: rat) powi (dec_len n - 1) = 10 powi (dec_len (n div 10) - 1) * 10"
        "(10 :: rat) powi dec_len n = 10 powi dec_len (n div 10) * 10"
      by (simp_all add: len power_int_add_1 power_int_diff)
    ultimately show ?thesis
      using n IH by (auto simp: len)
  qed
qed

lemma dec_exp_bounds:
  assumes "0 < x"
  shows "10 powi (dec_exp x - 1) \<le> x" "x < 10 powi dec_exp x"
proof -
  obtain p q where pq: "quotient_of x = (p, q)"
    by (cases "quotient_of x")
  have q: "0 < q"
    using quotient_of_denom_pos [OF pq] .
  have x: "x = of_int p / of_int q"
    using quotient_of_div [OF pq] .
  have p: "0 < p"
    using assms q unfolding x by (simp add: zero_less_divide_iff)
  define k where "k = dec_len p - dec_len q"
  have "x < 10 powi dec_len p / 10 powi (dec_len q - 1)"
    unfolding x using dec_len_bounds [OF p] dec_len_bounds [OF q] p q
    by (intro frac_less) (simp_all add: less_imp_le)
  then have upper: "x < 10 powi (k + 1)"
    by (simp add: k_def flip: power_int_diff) (simp add: algebra_simps)
  have "10 powi (dec_len p - 1) / 10 powi dec_len q \<le> x"
    unfolding x using dec_len_bounds [OF p] dec_len_bounds [OF q] p q
    by (intro frac_le) (simp_all add: less_imp_le)
  then have lower: "10 powi (k - 1) \<le> x"
    by (simp add: k_def flip: power_int_diff) (simp add: algebra_simps)
  have "dec_exp x = (if 10 powi k \<le> x then k + 1 else k)"
    by (simp add: dec_exp_def pq k_def)
  then show "10 powi (dec_exp x - 1) \<le> x" "x < 10 powi dec_exp x"
    using upper lower by (auto simp: not_le)
qed

text \<open>
  A decimal with at most fifteen significant digits, of which at most seven are fraction
  digits, is the shortest decimal of its own double.
\<close>

definition short_decimal :: "rat \<Rightarrow> bool" where
  "short_decimal d \<longleftrightarrow> (\<exists>n s. 0 < n \<and> n < (10 :: int) ^ 15 \<and> s \<le> 7 \<and> d = of_int n / 10 ^ s)"

lemma short_decimalE:
  assumes "short_decimal d"
  obtains n s where "0 < n" "n < (10 :: int) ^ 15" "s \<le> 7" "d = of_int n / 10 ^ s"
  using assms by (auto simp: short_decimal_def)

lemma sd_pos:
  assumes d: "short_decimal d"
  shows "0 < d"
  using d by (rule short_decimalE) simp

lemma sd_ge:
  assumes d: "short_decimal d"
  shows "1 / 10 ^ 7 \<le> d"
proof -
  from d obtain n s where n: "0 < n" "s \<le> 7" "d = of_int n / 10 ^ s"
    by (rule short_decimalE)
  have "(1 :: rat) / 10 ^ 7 \<le> 1 / 10 ^ s"
    using n by (intro divide_left_mono power_increasing) simp_all
  also have "\<dots> \<le> d"
    unfolding n using n by (intro divide_right_mono) simp_all
  finally show ?thesis .
qed

lemma sd_normal:
  assumes d: "short_decimal d"
  shows "2 powi (- 1022) \<le> d"
proof -
  have "(2 :: rat) powi (- 1022) \<le> 2 powi (- 24)"
    by (rule two_powi_mono) simp
  also have "\<dots> \<le> 1 / 10 ^ 7"
    by (simp add: power_int_def power_divide)
  finally show ?thesis
    using sd_ge [OF d] by linarith
qed

lemma sd_error:
  assumes d: "short_decimal d"
  shows "\<bar>fl d - d\<bar> \<le> 2 powi (- 53) * d"
  using sd_normal [OF d] by (rule fl_relative_error_pos)

lemma sd_fl_bounds:
  assumes d: "short_decimal d"
  shows "d \<le> 2 * fl d" "fl d < 2 * d" "0 < fl d"
proof -
  have "(2 :: rat) powi (- 53) * d \<le> 1 / 4 * d"
    using sd_pos [OF d] by (intro mult_right_mono) (simp_all add: power_int_def power_divide)
  then have "\<bar>fl d - d\<bar> \<le> 1 / 4 * d"
    using sd_error [OF d] by linarith
  then show "d \<le> 2 * fl d" "fl d < 2 * d" "0 < fl d"
    using sd_pos [OF d] unfolding abs_le_iff by linarith+
qed

lemma sd_dec_exp:
  assumes d: "short_decimal d" and n: "n < 10 ^ 15" "d = of_int n / 10 ^ s"
  shows "dec_exp (fl d) \<le> 15 - int s"
proof -
  have "(of_int (n + 1) :: rat) \<le> of_int (10 ^ 15)"
    using n by (simp only: of_int_le_iff)
  then have "(of_int n + 1) / (10 :: rat) ^ s \<le> 10 ^ 15 / 10 ^ s"
    by (intro divide_right_mono) simp_all
  then have less: "d + 1 / 10 ^ s \<le> 10 ^ 15 / 10 ^ s"
    by (simp add: n add_divide_distrib)
  have "2 powi (- 53) * d \<le> 2 powi (- 53) * (10 ^ 15 / 10 ^ s)"
  proof (rule mult_left_mono)
    have "(0 :: rat) \<le> 1 / 10 ^ s"
      by simp
    with less show "d \<le> 10 ^ 15 / 10 ^ s"
      by linarith
  qed simp
  also have "\<dots> = 2 powi (- 53) * 10 ^ 15 / 10 ^ s"
    by simp
  also have "\<dots> < 1 / 10 ^ s"
    by (intro divide_strict_right_mono) (simp_all add: power_int_def power_divide)
  finally have "fl d < d + 1 / 10 ^ s"
    using sd_error [OF d] unfolding abs_le_iff by linarith
  also have "\<dots> \<le> 10 powi (15 - int s)"
    using less by (simp add: power_int_diff)
  finally have "10 powi (dec_exp (fl d) - 1) < (10 :: rat) powi (15 - int s)"
    using dec_exp_bounds(1) [OF sd_fl_bounds(3) [OF d]] by linarith
  then show ?thesis
    by (simp add: ten_powi_less_iff)
qed

lemma ten_powi_shift: "0 \<le> a \<Longrightarrow> of_int i * (10 :: rat) powi (a + b) = of_int (i * 10 ^ nat a) * 10 powi b"
  by (subst power_int_add) (simp_all add: power_int_def [of _ a])

lemma sd_on_grid:
  assumes d: "short_decimal d"
  shows "\<exists>m. d = of_int m * 10 powi (dec_exp (fl d) - 15)"
proof -
  from d obtain n s where n: "n < 10 ^ 15" "d = of_int n / 10 ^ s"
    by (rule short_decimalE)
  have "d = of_int n * 10 powi (- int s)"
    by (simp add: n power_int_minus divide_inverse)
  also have "- int s = (15 - int s - dec_exp (fl d)) + (dec_exp (fl d) - 15)"
    by simp
  also have "of_int n * 10 powi \<dots> = of_int (n * 10 ^ nat (15 - int s - dec_exp (fl d))) * (10 :: rat) powi (dec_exp (fl d) - 15)"
    using sd_dec_exp [OF d n] by (intro ten_powi_shift) simp
  finally show ?thesis ..
qed

lemma sd_grid_normal:
  assumes d: "short_decimal d"
  shows "2 powi (- 1022) \<le> (10 :: rat) powi (dec_exp (fl d) - 15)"
proof -
  have "(10 :: rat) powi (- 8) < 1 / 10 ^ 7 / 2"
    by (simp add: power_int_def power_divide)
  also have "\<dots> \<le> d / 2"
    using sd_ge [OF d] by (intro divide_right_mono) simp_all
  also have "\<dots> \<le> fl d"
    using sd_fl_bounds(1) [OF d] by simp
  also have "\<dots> < 10 powi dec_exp (fl d)"
    by (rule dec_exp_bounds(2) [OF sd_fl_bounds(3) [OF d]])
  finally have "- 8 < dec_exp (fl d)"
    by (simp only: ten_powi_less_iff)
  have "(2 :: rat) powi (- 1022) \<le> 2 powi (- 80)"
    by (rule two_powi_mono) simp
  also have "\<dots> \<le> 10 powi (- 22)"
    by (simp add: power_int_def power_divide)
  also have "\<dots> \<le> 10 powi (dec_exp (fl d) - 15)"
    unfolding ten_powi_mono_iff using \<open>- 8 < dec_exp (fl d)\<close> by linarith
  finally show ?thesis .
qed

lemma sd_grid_unique:
  assumes d: "short_decimal d" and c: "c = of_int j * 10 powi (dec_exp (fl d) - 15)" and fl_c: "fl c = fl d"
  shows "c = d"
proof (rule ccontr)
  assume "c \<noteq> d"
  define u where "u = (10 :: rat) powi (dec_exp (fl d) - 15)"
  have u: "0 < u" "fl d < 10 ^ 15 * u"
    using dec_exp_bounds(2) [OF sd_fl_bounds(3) [OF d]] by (simp_all add: u_def power_int_diff)
  obtain m where m: "d = of_int m * u"
    using sd_on_grid [OF d] by (auto simp: u_def)
  have "0 < c"
  proof (rule ccontr)
    assume "\<not> 0 < c"
    then have "fl c \<le> 0"
      using fl_mono [of c 0] by simp
    then show False
      using fl_c sd_fl_bounds [OF d] by simp
  qed
  then have "0 < j"
    using c u(1) by (simp add: zero_less_mult_iff flip: u_def)
  then have "u \<le> c"
    using u by (simp add: c u_def)
  moreover have "2 powi (- 1022) \<le> u"
    using sd_grid_normal [OF d] by (simp add: u_def)
  ultimately have "2 powi (- 1022) \<le> c"
    by (rule order_trans [rotated])
  then have c_error: "\<bar>fl c - c\<bar> \<le> 2 powi (- 53) * c"
    by (rule fl_relative_error_pos)
  have cu: "c = of_int j * u"
    using c by (simp only: u_def)
  then have "j \<noteq> m"
    using \<open>c \<noteq> d\<close> m by blast
  then have "1 \<le> \<bar>j - m\<bar>"
    by linarith
  then have "(of_int 1 :: rat) \<le> of_int \<bar>j - m\<bar>"
    by (simp only: of_int_le_iff)
  then have "1 * u \<le> of_int \<bar>j - m\<bar> * u"
    using u by (intro mult_right_mono) simp_all
  also have "of_int \<bar>j - m\<bar> * u = \<bar>(of_int j - of_int m) * u\<bar>"
    using u(1) by (simp only: abs_mult abs_of_pos of_int_abs of_int_diff)
  also have "(of_int j - of_int m) * u = c - d"
    using cu m by (simp only: left_diff_distrib)
  finally have "u \<le> \<bar>c - d\<bar>" by simp
  moreover have "\<bar>c - d\<bar> < u"
  proof -
    have "2 powi (- 53) * c \<le> 1 / 4 * c"
      using \<open>0 < c\<close> by (intro mult_right_mono) (simp_all add: power_int_def power_divide)
    then have "c \<le> 2 * fl d"
      using c_error fl_c \<open>0 < c\<close> unfolding abs_le_iff by linarith
    then have "2 powi (- 53) * c \<le> 2 powi (- 53) * (2 * fl d)" "2 powi (- 53) * d \<le> 2 powi (- 53) * (2 * fl d)"
      using sd_fl_bounds(1) [OF d] by (simp_all add: mult_left_mono)
    then have "\<bar>c - d\<bar> \<le> 2 powi (- 53) * (2 * fl d) + 2 powi (- 53) * (2 * fl d)"
      using c_error sd_error [OF d] unfolding fl_c abs_le_iff by linarith
    also have "\<dots> = 2 powi (- 51) * fl d"
      by (simp add: power_int_def power_divide)
    also have "\<dots> < 2 powi (- 51) * (10 ^ 15 * u)"
      using u(2) by (intro mult_strict_left_mono) simp_all
    also have "\<dots> = (2 powi (- 51) * 10 ^ 15) * u"
      by (simp only: mult.assoc)
    also have "\<dots> \<le> 1 * u"
      using u(1) by (intro mult_right_mono) (simp_all add: power_int_def power_divide)
    also have "\<dots> = u"
      by simp
    finally show ?thesis .
  qed
  ultimately show False
    by simp
qed

text \<open>Every candidate the search tries is on the grid of fifteen digits, and \<open>d\<close> is one of the last.\<close>

lemma sd_candidate:
  assumes d: "short_decimal d" and "c \<in> set (dec_candidates (fl d) k)" "k \<le> 15"
  shows "\<exists>j. c = of_int j * 10 powi (dec_exp (fl d) - 15)"
proof -
  obtain i where "c = of_int i * 10 powi (dec_exp (fl d) - k)"
    using assms(2) by (auto simp: dec_candidates_def Let_def)
  also have "dec_exp (fl d) - k = (15 - k) + (dec_exp (fl d) - 15)"
    by simp
  also have "of_int i * 10 powi ((15 - k) + (dec_exp (fl d) - 15)) =
      of_int (i * 10 ^ nat (15 - k)) * (10 :: rat) powi (dec_exp (fl d) - 15)"
    using assms(3) by (intro ten_powi_shift) simp
  finally show ?thesis ..
qed

lemma sd_candidate_unique:
  assumes d: "short_decimal d" and "find (\<lambda>c. fl c = fl d) (dec_candidates (fl d) k) = Some c" "k \<le> 15"
  shows "c = d"
proof -
  have "c \<in> set (dec_candidates (fl d) k)" "fl c = fl d"
    using assms(2) by (auto simp: find_Some_iff)
  then show ?thesis
    using sd_candidate [OF d _ assms(3)] sd_grid_unique [OF d] by blast
qed

lemma sd_found:
  assumes d: "short_decimal d"
  shows "find (\<lambda>c. fl c = fl d) (dec_candidates (fl d) 15) = Some d"
proof -
  define u where "u = (10 :: rat) powi (dec_exp (fl d) - 15)"
  obtain m where m: "d = of_int m * u"
    using sd_on_grid [OF d] by (auto simp: u_def)
  have u: "0 < u" "fl d < 10 ^ 15 * u"
    using dec_exp_bounds(2) [OF sd_fl_bounds(3) [OF d]] by (simp_all add: u_def power_int_diff)
  have "\<bar>fl d - d\<bar> \<le> 2 powi (- 53) * (2 * fl d)"
    using sd_error [OF d] sd_fl_bounds(1) [OF d] mult_left_mono [OF sd_fl_bounds(1) [OF d], of "2 powi (- 53)"] by simp
  also have "\<dots> < 2 powi (- 53) * (2 * (10 ^ 15 * u))"
    using u by (intro mult_strict_left_mono) simp_all
  also have "\<dots> = (2 powi (- 52) * 10 ^ 15) * u"
    by (simp add: power_int_def power_divide)
  also have "\<dots> < 1 / 2 * u"
    using u(1) by (intro mult_strict_right_mono) (simp_all add: power_int_def power_divide)
  finally have "\<bar>fl d - d\<bar> / u < 1 / 2"
    using u(1) by (simp add: divide_less_eq)
  moreover have "fl d / u - of_int m = (fl d - d) / u"
    using u(1) m by (simp add: diff_divide_distrib)
  then have "\<bar>fl d / u - of_int m\<bar> = \<bar>fl d - d\<bar> / u"
    using u(1) by (simp add: abs_divide)
  ultimately have "round_half_even (fl d / u) = m"
    by (intro round_half_even_unique) simp
  then have "of_int (round_half_even (fl d / u)) * u = d"
    using m by simp
  then show ?thesis
    by (simp add: dec_candidates_def Let_def flip: u_def)
qed

lemma sd_shortest_from:
  assumes d: "short_decimal d" and "k \<le> 15" "15 < k + int f"
  shows "shortest_from f k (fl d) = d"
  using assms(2,3)
proof (induction f arbitrary: k)
  case 0
  then show ?case by simp
next
  case (Suc f)
  show ?case
  proof (cases "k = 15")
    case True
    then show ?thesis by (simp add: sd_found [OF d])
  next
    case False
    then show ?thesis
      using Suc by (auto split: option.split dest: sd_candidate_unique [OF d])
  qed
qed

lemma shortest_dec_short:
  assumes d: "short_decimal d"
  shows "shortest_dec (fl d) = d"
  using sd_fl_bounds(3) [OF d] sd_shortest_from [OF d, of 1 17] by (simp add: shortest_dec_def shortest_pos_def)

subsection \<open>The \<open>numeric(20, 6)\<close> columns\<close>

text \<open>
  \<open>round6 r\<close> is the value a column holds after \<open>r\<close> is assigned to it, in millionths;
  \<open>None\<close> is the \<open>numeric field overflow\<close> error.
\<close>

definition round6 :: "rat \<Rightarrow> int" where
  "round6 r = round_half_away (r * 10 ^ 6)"

definition to_column :: "rat \<Rightarrow> int option" where
  "to_column r = (if \<bar>round6 r\<bar> < 10 ^ 20 then Some (round6 r) else None)"

definition of_micro :: "int \<Rightarrow> rat" where
  "of_micro n = of_int n / 10 ^ 6"

text \<open>\<open>Number(row.amount)\<close> and the write of \<open>String(amount)\<close>.\<close>

definition num_of_micro :: "int \<Rightarrow> jsnum" where
  "num_of_micro n = to_num (of_micro n)"

fun dec_of_num :: "jsnum \<Rightarrow> rat option" where
  "dec_of_num (Fin x) = Some (shortest_dec x)"
| "dec_of_num _ = None"

definition micro_of_num :: "jsnum \<Rightarrow> int option" where
  "micro_of_num x = Option.bind (dec_of_num x) to_column"

text \<open>A number written to an \<open>integer\<close> column; anything but a whole 32-bit number is an error.\<close>

definition to_int4 :: "jsnum \<Rightarrow> int option" where
  "to_int4 x = (case x of
     Fin r \<Rightarrow> if of_int \<lfloor>r\<rfloor> = r \<and> - (2 ^ 31) \<le> \<lfloor>r\<rfloor> \<and> \<lfloor>r\<rfloor> < 2 ^ 31 then Some \<lfloor>r\<rfloor> else None
   | _ \<Rightarrow> None)"

lemma round6_of_micro [simp]: "round6 (of_micro n) = n"
  by (simp add: round6_def of_micro_def)

lemma of_micro_0 [simp]: "of_micro 0 = 0"
  by (simp add: of_micro_def)

lemma of_micro_le_iff [simp]: "of_micro a \<le> of_micro b \<longleftrightarrow> a \<le> b"
  by (simp add: of_micro_def divide_le_cancel)

lemma of_micro_less_iff [simp]: "of_micro a < of_micro b \<longleftrightarrow> a < b"
  by (simp add: of_micro_def divide_less_cancel)

lemma of_micro_add: "of_micro (a + b) = of_micro a + of_micro b"
  by (simp add: of_micro_def add_divide_distrib)

lemma of_micro_diff: "of_micro (a - b) = of_micro a - of_micro b"
  by (simp add: of_micro_def diff_divide_distrib)

lemma of_micro_nonneg_iff [simp]: "0 \<le> of_micro n \<longleftrightarrow> 0 \<le> n"
  using of_micro_le_iff [of 0 n] by (simp del: of_micro_le_iff)

lemma of_micro_pos_iff [simp]: "0 < of_micro n \<longleftrightarrow> 0 < n"
  using of_micro_less_iff [of 0 n] by (simp del: of_micro_less_iff)

lemma round6_mono: "a \<le> b \<Longrightarrow> round6 a \<le> round6 b"
  by (simp add: round6_def round_half_away_mono mult_right_mono)

lemma round6_nonneg: "0 \<le> r \<Longrightarrow> 0 \<le> round6 r"
  using round6_mono [of "of_micro 0" r] by (simp del: of_micro_0) simp

lemma round6_le: "r \<le> of_micro n \<Longrightarrow> round6 r \<le> n"
  using round6_mono [of r "of_micro n"] by simp

lemma round6_error: "\<bar>of_micro (round6 r) - r\<bar> \<le> 1 / (2 * 10 ^ 6)"
proof -
  have "of_micro (round6 r) - r = (of_int (round_half_away (r * 10 ^ 6)) - r * 10 ^ 6) / 10 ^ 6"
    by (simp add: of_micro_def round6_def field_simps)
  then have "\<bar>of_micro (round6 r) - r\<bar> = \<bar>of_int (round_half_away (r * 10 ^ 6)) - r * 10 ^ 6\<bar> / 10 ^ 6"
    by (simp only: abs_divide) simp
  also have "\<dots> \<le> (1 / 2) / 10 ^ 6"
    by (intro divide_right_mono round_half_away_error) simp
  finally show ?thesis
    by simp
qed

text \<open>Adding to a column that holds a non-negative amount rounds the addend alone.\<close>

lemma round6_add: "0 \<le> n \<Longrightarrow> 0 \<le> r \<Longrightarrow> round6 (of_micro n + r) = n + round6 r"
  by (simp add: round6_def of_micro_def distrib_right round_half_away_add_int)

lemma round6_close:
  assumes "\<bar>r - of_micro n\<bar> < 1 / (2 * 10 ^ 6)"
  shows "round6 r = n"
proof -
  have "r * 10 ^ 6 - of_int n = (r - of_micro n) * 10 ^ 6"
    by (simp add: of_micro_def field_simps)
  then have "\<bar>r * 10 ^ 6 - of_int n\<bar> = \<bar>r - of_micro n\<bar> * 10 ^ 6"
    by (simp only: abs_mult) simp
  also have "\<dots> < 1 / (2 * 10 ^ 6) * 10 ^ 6"
    using assms by (intro mult_strict_right_mono) simp_all
  finally show ?thesis
    unfolding round6_def by (intro round_half_away_unique) simp
qed

subsection \<open>The round trip\<close>

text \<open>
  An amount below \<open>2 ^ 31\<close> XLM (more than two billion) survives the trip from the
  database to the program and back: the double is within \<open>2 ^ -23\<close> of the stored
  decimal, its shortest decimal within \<open>2 ^ -22\<close> of the double, and together that is
  less than half a millionth.
\<close>

lemma of_micro_bound:
  assumes "\<bar>n\<bar> < 2 ^ 31 * 10 ^ 6"
  shows "\<bar>of_micro n\<bar> < 2 powi 31"
proof -
  have "(of_int \<bar>n\<bar> :: rat) < of_int (2 ^ 31 * 10 ^ 6)"
    using assms by (simp only: of_int_less_iff)
  then show ?thesis
    by (simp add: of_micro_def abs_divide two_powi_nat)
qed

lemma num_of_micro_Fin:
  assumes "\<bar>n\<bar> < 2 ^ 31 * 10 ^ 6"
  shows "num_of_micro n = Fin (fl (of_micro n))"
proof -
  have "\<bar>of_micro n\<bar> \<le> 2 ^ 1023"
    using of_micro_bound [OF assms] two_powi_mono [of 31 1023] by (simp add: two_powi_nat)
  then show ?thesis
    by (simp add: num_of_micro_def to_num_Fin)
qed

lemma num_of_micro_error:
  assumes "\<bar>n\<bar> < 2 ^ 31 * 10 ^ 6"
  shows "\<bar>fl (of_micro n) - of_micro n\<bar> \<le> 2 powi (-23)"
  using fl_error [OF of_micro_bound [OF assms]] by simp

lemma preimage_bound:
  assumes "fl d = fl r" "\<bar>r\<bar> < 2 powi k" "0 \<le> k"
  shows "\<bar>d\<bar> < 2 powi (k + 1)"
proof (rule ccontr)
  assume "\<not> \<bar>d\<bar> < 2 powi (k + 1)"
  then have "2 powi (k + 1) \<le> fl \<bar>d\<bar>"
    using fl_mono [of "2 powi (k + 1)" "\<bar>d\<bar>"] assms(3) by (simp add: fl_pow2)
  moreover have "fl \<bar>d\<bar> = fl \<bar>r\<bar>"
  proof -
    have "fl \<bar>x\<bar> = \<bar>fl x\<bar>" for x
      by (cases "0 \<le> x") (use fl_nonneg [of x] fl_nonneg [of "- x"] in \<open>simp_all add: abs_if not_less\<close>)
    with assms(1) show ?thesis by simp
  qed
  moreover have "fl \<bar>r\<bar> \<le> 2 powi k"
    using assms(2,3) by (intro fl_le_pow2) simp_all
  ultimately show False
    using two_powi_less_iff [of k "k + 1"] by simp
qed

lemma micro_round_trip:
  assumes n: "\<bar>n\<bar> < 2 ^ 31 * 10 ^ 6" and d: "fl d = fl (of_micro n)"
  shows "round6 d = n"
proof (rule round6_close)
  have "\<bar>d\<bar> < 2 powi 32"
    using preimage_bound [OF d of_micro_bound [OF n]] by simp
  then have "\<bar>fl d - d\<bar> \<le> 2 powi (-22)"
    using fl_error [of d 32] by simp
  then have "\<bar>d - of_micro n\<bar> \<le> 2 powi (-22) + 2 powi (-23)"
    using num_of_micro_error [OF n] d by linarith
  also have "\<dots> < 1 / (2 * 10 ^ 6)"
    by (simp add: power_int_def power_divide)
  finally show "\<bar>d - of_micro n\<bar> < 1 / (2 * 10 ^ 6)" .
qed

lemma to_column_round6: "\<bar>round6 r\<bar> < 10 ^ 20 \<Longrightarrow> to_column r = Some (round6 r)"
  by (simp add: to_column_def)

subsection \<open>Whole stroops\<close>

text \<open>\<open>of_stroops q\<close> is the number that stands for \<open>q\<close> stroops, ten-millionths of an XLM.\<close>

definition of_stroops :: "int \<Rightarrow> jsnum" where
  "of_stroops q = to_num (of_int q / 10 ^ 7)"

text \<open>\<open>Number(x.toFixed(7))\<close> recovers the stroops a number is close to.\<close>

lemma fixed_num_stroops:
  assumes "\<bar>z - of_int q / 10 ^ 7\<bar> < 1 / (2 * 10 ^ 7)" "\<bar>q\<bar> \<le> 10 ^ 27"
  shows "fixed_num 7 (Fin z) = of_stroops q"
proof -
  have "z * 10 ^ 7 - of_int q = (z - of_int q / 10 ^ 7) * 10 ^ 7"
    by (simp add: field_simps)
  then have "\<bar>z * 10 ^ 7 - of_int q\<bar> = \<bar>z - of_int q / 10 ^ 7\<bar> * 10 ^ 7"
    by (simp only: abs_mult) simp
  also have "\<dots> < 1 / (2 * 10 ^ 7) * 10 ^ 7"
    using assms(1) by (rule mult_strict_right_mono) simp
  finally have q: "round_half_away (z * 10 ^ 7) = q"
    by (intro round_half_away_unique) simp
  have "(of_int \<bar>q\<bar> :: rat) \<le> of_int (10 ^ 27)"
    using assms(2) by (simp only: of_int_le_iff)
  then have "\<bar>of_int q / 10 ^ 7\<bar> \<le> (10 :: rat) ^ 20"
    by simp
  then have "\<bar>z\<bar> \<le> 10 ^ 20 + 1 / (2 * 10 ^ 7)"
    using close_bound [OF less_imp_le [OF assms(1)]] by linarith
  also have "\<dots> < 10 ^ 21"
    by simp
  finally have "\<not> 10 ^ 21 \<le> \<bar>z\<bar>"
    by (simp only: not_le)
  then show ?thesis
    by (simp only: fixed_num.simps to_fixed_def q of_stroops_def if_False)
qed

end
