(* ===== verification/JsValue.thy ===== *)
theory JsValue
  imports JsNumber Money
begin

text \<open>
  JavaScript values as the request bodies and the \<open>jsonb\<close> columns carry them, the
  coercions the program applies to them (\<open>Number(v)\<close>, truthiness, \<open>??\<close>), and the
  string methods it calls (\<open>trim\<close>, \<open>toLowerCase\<close>, \<open>slice\<close>, \<open>includes\<close>). A string is a
  list of Latin-1 characters.
\<close>

datatype jsval =
    JUndef
  | JNull
  | JBool bool
  | JNum jsnum
  | JBig int
  | JStr string
  | JArr "jsval list"
  | JObj "(string \<times> jsval) list"

subsection \<open>Objects\<close>

text \<open>
  \<open>obj.key\<close>: the last binding wins, as it does when a JSON text repeats a key. Reading
  a property of a primitive or of an array gives \<open>undefined\<close> for the keys the program uses.
\<close>

fun js_get :: "jsval \<Rightarrow> string \<Rightarrow> jsval" where
  "js_get (JObj kvs) k = (case map_of (rev kvs) k of Some v \<Rightarrow> v | None \<Rightarrow> JUndef)"
| "js_get _ k = JUndef"

text \<open>\<open>a ?? b\<close>\<close>

definition js_nullish :: "jsval \<Rightarrow> jsval \<Rightarrow> jsval" where
  "js_nullish a b = (if a = JUndef \<or> a = JNull then b else a)"

fun js_truthy :: "jsval \<Rightarrow> bool" where
  "js_truthy JUndef = False"
| "js_truthy JNull = False"
| "js_truthy (JBool b) = b"
| "js_truthy (JNum x) = num_truthy x"
| "js_truthy (JBig n) = (n \<noteq> 0)"
| "js_truthy (JStr s) = (s \<noteq> [])"
| "js_truthy (JArr _) = True"
| "js_truthy (JObj _) = True"

subsection \<open>Strings\<close>

text \<open>
  White space and line terminators: tab, line feed, vertical tab, form feed, carriage
  return, space and the no-break space.
\<close>

definition js_space :: "char \<Rightarrow> bool" where
  "js_space c = (of_char c \<in> {9, 10, 11, 12, 13, 32, 160 :: nat})"

definition js_trim :: "string \<Rightarrow> string" where
  "js_trim s = rev (dropWhile js_space (rev (dropWhile js_space s)))"

text \<open>
  Lower case: the ASCII capitals and the Latin-1 capitals, which sit 32 below their
  small letters.
\<close>

definition char_lower :: "char \<Rightarrow> char" where
  "char_lower c = (let n = (of_char c :: nat) in
     if (65 \<le> n \<and> n \<le> 90) \<or> (192 \<le> n \<and> n \<le> 222 \<and> n \<noteq> 215) then char_of (n + 32) else c)"

definition js_lower :: "string \<Rightarrow> string" where
  "js_lower s = map char_lower s"

text \<open>\<open>s.includes(t)\<close>\<close>

fun is_prefix :: "string \<Rightarrow> string \<Rightarrow> bool" where
  "is_prefix [] _ = True"
| "is_prefix (_ # _) [] = False"
| "is_prefix (a # as) (b # bs) = (a = b \<and> is_prefix as bs)"

fun js_includes :: "string \<Rightarrow> string \<Rightarrow> bool" where
  "js_includes [] t = (t = [])"
| "js_includes (c # s) t = (is_prefix t (c # s) \<or> js_includes s t)"

definition is_digit :: "char \<Rightarrow> bool" where
  "is_digit c = (48 \<le> (of_char c :: nat) \<and> (of_char c :: nat) \<le> 57)"

definition digit_val :: "char \<Rightarrow> int" where
  "digit_val c = of_char c - 48"

text \<open>\<open>/^[0-9a-f]{64}$/\<close> on a lower-case string\<close>

definition is_hex_lower :: "char \<Rightarrow> bool" where
  "is_hex_lower c = (is_digit c \<or> (97 \<le> (of_char c :: nat) \<and> (of_char c :: nat) \<le> 102))"

lemma js_trim_idem [simp]: "js_trim (js_trim s) = js_trim s"
proof -
  have drop_idem: "dropWhile P (dropWhile P xs) = dropWhile P xs" for P and xs :: string
    by (induction xs) simp_all
  have keep: "dropWhile P (rev (dropWhile P (rev xs))) = rev (dropWhile P (rev xs))"
    if "dropWhile P xs = xs" for P and xs :: string
  proof (cases xs)
    case Nil
    then show ?thesis by simp
  next
    case (Cons c cs)
    with that have c: "\<not> P c"
      by (metis dropWhile_eq_Cons_conv)
    have "dropWhile P (rev cs @ [c]) = (if \<forall>x \<in> set cs. P x then [] else dropWhile P (rev cs)) @ [c]"
      using c by (auto simp: dropWhile_append)
    then show ?thesis
      using c Cons by simp
  qed
  show ?thesis
    by (simp add: js_trim_def keep drop_idem)
qed

lemma js_trim_no_space: "\<forall>c \<in> set s. \<not> js_space c \<Longrightarrow> js_trim s = s"
proof -
  assume s: "\<forall>c \<in> set s. \<not> js_space c"
  have keep: "dropWhile js_space xs = xs" if "\<forall>c \<in> set xs. \<not> js_space c" for xs
    using that by (cases xs) auto
  from s show ?thesis
    by (simp add: js_trim_def keep)
qed

lemma length_js_lower [simp]: "length (js_lower s) = length s"
  by (simp add: js_lower_def)

text \<open>\<open>String(n)\<close> of a whole number below \<open>10 ^ 21\<close>\<close>

function show_nonneg :: "int \<Rightarrow> string" where
  "show_nonneg n =
     (if n < 10 then [char_of (48 + n)] else show_nonneg (n div 10) @ [char_of (48 + n mod 10)])"
  by pat_completeness auto
termination
  by (relation "measure nat") auto

declare show_nonneg.simps [simp del]

definition show_int :: "int \<Rightarrow> string" where
  "show_int n = (if n < 0 then CHR ''-'' # show_nonneg (- n) else show_nonneg n)"

subsection \<open>\<open>Number(v)\<close>\<close>

text \<open>
  The string grammar of \<open>Number(s)\<close>: white space around an optional sign and
  \<open>Infinity\<close> or a decimal literal with an optional fraction and exponent; or an
  unsigned hexadecimal, octal or binary literal; the empty string is zero.
\<close>

fun read_digits :: "int \<Rightarrow> nat \<Rightarrow> string \<Rightarrow> int \<times> nat \<times> string" where
  "read_digits acc n [] = (acc, n, [])"
| "read_digits acc n (c # cs) =
     (if is_digit c then read_digits (acc * 10 + digit_val c) (Suc n) cs else (acc, n, c # cs))"

definition read_exponent :: "string \<Rightarrow> int option" where
  "read_exponent s =
     (case s of
        [] \<Rightarrow> Some 0
      | c # cs \<Rightarrow>
          if c = CHR ''e'' \<or> c = CHR ''E'' then
            (let (sign, ds) = (case cs of
                 CHR ''-'' # ds \<Rightarrow> (-1, ds) | CHR ''+'' # ds \<Rightarrow> (1, ds) | ds \<Rightarrow> (1, ds));
                 (e, n, rest) = read_digits 0 0 ds
             in if 0 < n \<and> rest = [] then Some (sign * e) else None)
          else None)"

definition read_decimal :: "string \<Rightarrow> rat option" where
  "read_decimal s =
     (let (ip, n, rest) = read_digits 0 0 s;
          (m, k, rest') = (case rest of
             CHR ''.'' # ds \<Rightarrow> read_digits ip 0 ds
           | _ \<Rightarrow> (ip, 0, rest))
      in if n = 0 \<and> k = 0 then None
         else map_option (\<lambda>e. of_int m * 10 powi (e - int k)) (read_exponent rest'))"

definition hex_val :: "char \<Rightarrow> int" where
  "hex_val c = (let n = (of_char c :: int) in
     if is_digit c then n - 48
     else if 97 \<le> n \<and> n \<le> 102 then n - 87
     else if 65 \<le> n \<and> n \<le> 70 then n - 55
     else 16)"

definition read_radix :: "int \<Rightarrow> string \<Rightarrow> int option" where
  "read_radix b s =
     (if s \<noteq> [] \<and> (\<forall>c \<in> set s. hex_val c < b) then Some (foldl (\<lambda>a c. a * b + hex_val c) 0 s)
      else None)"

definition num_of_opt :: "rat option \<Rightarrow> jsnum" where
  "num_of_opt r = (case r of Some x \<Rightarrow> to_num x | None \<Rightarrow> NaN)"

definition string_to_number :: "string \<Rightarrow> jsnum" where
  "string_to_number s =
     (let t = js_trim s in
      if t = [] then Fin 0
      else if is_prefix ''0x'' t \<or> is_prefix ''0X'' t then num_of_opt (map_option of_int (read_radix 16 (drop 2 t)))
      else if is_prefix ''0o'' t \<or> is_prefix ''0O'' t then num_of_opt (map_option of_int (read_radix 8 (drop 2 t)))
      else if is_prefix ''0b'' t \<or> is_prefix ''0B'' t then num_of_opt (map_option of_int (read_radix 2 (drop 2 t)))
      else if t = ''Infinity'' \<or> t = ''+Infinity'' then PosInf
      else if t = ''-Infinity'' then NegInf
      else (case t of
              CHR ''-'' # ds \<Rightarrow> num_of_opt (map_option uminus (read_decimal ds))
            | CHR ''+'' # ds \<Rightarrow> num_of_opt (read_decimal ds)
            | ds \<Rightarrow> num_of_opt (read_decimal ds)))"

text \<open>
  \<open>Number(v)\<close>. An array goes through its string form: the empty array is the empty
  string, an array of one element is that element's string, and a longer one holds a
  comma and is not a number. A boolean or an object inside an array prints letters.
\<close>

fun js_to_number :: "jsval \<Rightarrow> jsnum" where
  "js_to_number JUndef = NaN"
| "js_to_number JNull = Fin 0"
| "js_to_number (JBool b) = Fin (if b then 1 else 0)"
| "js_to_number (JNum x) = x"
| "js_to_number (JBig n) = to_num (of_int n)"
| "js_to_number (JStr s) = string_to_number s"
| "js_to_number (JArr []) = Fin 0"
| "js_to_number (JArr [JUndef]) = Fin 0"
| "js_to_number (JArr [JBool b]) = NaN"
| "js_to_number (JArr [v]) = js_to_number v"
| "js_to_number (JArr (_ # _ # _)) = NaN"
| "js_to_number (JObj _) = NaN"

subsection \<open>\<open>String(v)\<close>\<close>

text \<open>
  The string form of a number: the digits of its shortest decimal, with the point placed
  by the decimal exponent, or in exponent notation outside \<open>10 ^ -6 .. 10 ^ 21\<close>.
\<close>

function strip_zeros :: "int \<Rightarrow> int" where
  "strip_zeros n = (if 0 < n \<and> n mod 10 = 0 then strip_zeros (n div 10) else n)"
  by pat_completeness auto
termination
  by (relation "measure nat") auto

declare strip_zeros.simps [simp del]

definition show_pos_rat :: "rat \<Rightarrow> string" where
  "show_pos_rat d =
     (let n = dec_exp d;
          s = show_nonneg (strip_zeros \<lfloor>d * 10 powi (20 - n)\<rfloor>);
          k = int (length s)
      in if k \<le> n \<and> n \<le> 21 then s @ replicate (nat (n - k)) CHR ''0''
         else if 0 < n \<and> n \<le> 21 then take (nat n) s @ ''.'' @ drop (nat n) s
         else if - 6 < n \<and> n \<le> 0 then ''0.'' @ replicate (nat (- n)) CHR ''0'' @ s
         else (let e = (if n - 1 < 0 then ''-'' else ''+'') @ show_nonneg \<bar>n - 1\<bar>
               in if k = 1 then s @ ''e'' @ e else take 1 s @ ''.'' @ drop 1 s @ ''e'' @ e))"

fun show_num :: "jsnum \<Rightarrow> string" where
  "show_num NaN = ''NaN''"
| "show_num PosInf = ''Infinity''"
| "show_num NegInf = ''-Infinity''"
| "show_num (Fin r) =
     (if r = 0 then ''0''
      else if r < 0 then ''-'' @ show_pos_rat (shortest_dec (- r))
      else show_pos_rat (shortest_dec r))"

fun js_to_string :: "jsval \<Rightarrow> string" and js_join :: "jsval list \<Rightarrow> string" where
  "js_to_string JUndef = ''undefined''"
| "js_to_string JNull = ''null''"
| "js_to_string (JBool b) = (if b then ''true'' else ''false'')"
| "js_to_string (JNum x) = show_num x"
| "js_to_string (JBig n) = show_int n"
| "js_to_string (JStr s) = s"
| "js_to_string (JArr vs) = js_join vs"
| "js_to_string (JObj _) = ''[object Object]''"
| "js_join [] = []"
| "js_join (v # vs) =
     (if v = JUndef \<or> v = JNull then [] else js_to_string v) @ (if vs = [] then [] else CHR '','' # js_join vs)"

text \<open>\<open>BigInt(s)\<close> of a string: an integer literal or an error\<close>

definition string_to_bigint :: "string \<Rightarrow> int option" where
  "string_to_bigint s =
     (let t = js_trim s;
          whole = (\<lambda>ds. case read_digits 0 0 ds of (n, k, rest) \<Rightarrow> if 0 < k \<and> rest = [] then Some n else None)
      in if t = [] then Some 0
         else if is_prefix ''0x'' t \<or> is_prefix ''0X'' t then read_radix 16 (drop 2 t)
         else if is_prefix ''0o'' t \<or> is_prefix ''0O'' t then read_radix 8 (drop 2 t)
         else if is_prefix ''0b'' t \<or> is_prefix ''0B'' t then read_radix 2 (drop 2 t)
         else (case t of
                 CHR ''-'' # ds \<Rightarrow> map_option uminus (whole ds)
               | CHR ''+'' # ds \<Rightarrow> whole ds
               | ds \<Rightarrow> whole ds))"

text \<open>\<open>typeof v === "string"\<close> and \<open>Number.isFinite(v)\<close>, which is false on what is not a number\<close>

fun js_string :: "jsval \<Rightarrow> string option" where
  "js_string (JStr s) = Some s"
| "js_string _ = None"

fun js_is_finite :: "jsval \<Rightarrow> bool" where
  "js_is_finite (JNum x) = is_finite x"
| "js_is_finite _ = False"

lemma num_of_opt_Some [simp]: "num_of_opt (Some x) = to_num x"
  by (simp add: num_of_opt_def)

end
