(* ===== verification/Funding.thy ===== *)
theory Funding
  imports JsValue Money
begin

text \<open>
  Partial loan fills: \<open>src/lib/loans/funding.ts\<close>. How far a loan is funded, what a
  lender may contribute, what the contribution earns, and how a repayment is split
  across the lenders of a loan.
\<close>

definition FUNDING_EPSILON :: jsnum where
  "FUNDING_EPSILON = to_num (1 / 10 ^ 6)"

record funding_progress =
  fp_principal :: jsnum
  fp_funded :: jsnum
  fp_remaining :: jsnum
  fp_percent :: jsnum
  fp_isFullyFunded :: bool
  fp_isPartiallyFunded :: bool

definition toSafeNumber :: "jsval \<Rightarrow> jsnum" where
  "toSafeNumber value = (let parsed = js_to_number (js_nullish value (JNum (Fin 0)))
     in if is_finite parsed then parsed else Fin 0)"

definition getFundingProgress :: "jsval \<Rightarrow> jsval \<Rightarrow> funding_progress" where
  "getFundingProgress principalAmount fundedAmount =
     (let principal = jmax (Fin 0) (toSafeNumber principalAmount);
          funded = jmin (jmax (Fin 0) (toSafeNumber fundedAmount)) principal;
          remaining = jmax (Fin 0) (jsub principal funded);
          isFullyFunded = (jlt (Fin 0) principal \<and> jlt remaining FUNDING_EPSILON);
          percent = (if jle principal (Fin 0) then Fin 0
                     else jmin (Fin 100) (jmax (Fin 0) (jmul (jdiv funded principal) (Fin 100))))
      in \<lparr> fp_principal = principal,
           fp_funded = funded,
           fp_remaining = (if isFullyFunded then Fin 0 else remaining),
           fp_percent = (if isFullyFunded then Fin 100 else percent),
           fp_isFullyFunded = isFullyFunded,
           fp_isPartiallyFunded = (jlt FUNDING_EPSILON funded \<and> \<not> isFullyFunded) \<rparr>)"

text \<open>
  The label of the progress bar. After the two early returns the rounded percentage is
  a whole number from 0 to 100, so its string form is its decimal digits; \<open>NaN\<close> prints
  as itself.
\<close>

definition formatFundingPercent :: "jsnum \<Rightarrow> string" where
  "formatFundingPercent percent =
     (let bounded = jmin (Fin 100) (jmax (Fin 0) percent)
      in if jlt (Fin 0) bounded \<and> jlt bounded (Fin 1) then ''<1%''
         else if jlt (Fin 99) bounded \<and> jlt bounded (Fin 100) then ''>99%''
         else (case jround bounded of
                 Fin r \<Rightarrow> show_int \<lfloor>r\<rfloor> @ ''%''
               | NaN \<Rightarrow> ''NaN%''
               | PosInf \<Rightarrow> ''Infinity%''
               | NegInf \<Rightarrow> ''-Infinity%''))"

text \<open>The rejections of a contribution; the third one carries the printed remainder.\<close>

datatype funding_rejection =
    NotPositive
  | AlreadyFullyFunded
  | ExceedsRemaining jsnum

definition validateFundingAmount :: "jsval \<Rightarrow> jsval \<Rightarrow> funding_rejection + jsnum" where
  "validateFundingAmount requestedAmount remainingAmount =
     (let amount = toSafeNumber requestedAmount;
          remaining = toSafeNumber remainingAmount
      in if \<not> is_finite amount \<or> jle amount (Fin 0) then Inl NotPositive
         else if jlt remaining FUNDING_EPSILON then Inl AlreadyFullyFunded
         else if jlt FUNDING_EPSILON (jsub amount remaining)
           then Inl (ExceedsRemaining (fixed_num 2 remaining))
         else Inr (jmin amount remaining))"

record lender_return =
  lr_interest :: jsnum
  lr_total :: jsnum

definition calculateLenderReturn :: "jsnum \<Rightarrow> jsnum \<Rightarrow> jsnum \<Rightarrow> lender_return" where
  "calculateLenderReturn contribution aprBps durationDays =
     (let interest = jdiv (jmul (jmul contribution (jdiv aprBps (Fin 10000))) durationDays) (Fin 365)
      in \<lparr> lr_interest = interest, lr_total = jadd contribution interest \<rparr>)"

subsection \<open>Splitting a repayment\<close>

record lender_contribution =
  lenderId :: string
  address :: string
  contribution :: jsnum

record lender_payout = lender_contribution +
  share :: jsnum
  payout :: jsnum

definition MAX_LENDERS_PER_REPAYMENT :: nat where
  "MAX_LENDERS_PER_REPAYMENT = 99"

text \<open>\<open>reduce((sum, entry) => sum + f(entry), 0)\<close>\<close>

definition sum_num :: "jsnum list \<Rightarrow> jsnum" where
  "sum_num xs = foldl jadd (Fin 0) xs"

text \<open>
  \<open>reduce\<close> keeps the first entry with the largest contribution: a later one replaces
  the best only when it is strictly larger. The entry is mutated in place, so what is
  needed of it is its position.
\<close>

fun largest_from :: "lender_payout list \<Rightarrow> nat \<Rightarrow> nat \<Rightarrow> jsnum \<Rightarrow> nat" where
  "largest_from [] i best c = best"
| "largest_from (e # es) i best c =
     (if jlt c (contribution e) then largest_from es (Suc i) i (contribution e)
      else largest_from es (Suc i) best c)"

definition largest_index :: "lender_payout list \<Rightarrow> nat" where
  "largest_index ps = (case ps of [] \<Rightarrow> 0 | e # es \<Rightarrow> largest_from es 1 0 (contribution e))"

definition initial_payouts :: "jsnum \<Rightarrow> lender_contribution list \<Rightarrow> lender_payout list" where
  "initial_payouts amountToLenders valid =
     (let totalContributed = sum_num (map contribution valid)
      in map (\<lambda>entry. let s = jdiv (contribution entry) totalContributed
                in \<lparr> lenderId = lenderId entry, address = address entry,
                     contribution = contribution entry, share = s,
                     payout = fixed_num 7 (jmul amountToLenders s) \<rparr>) valid)"

definition reconcile_drift :: "jsnum \<Rightarrow> lender_payout list \<Rightarrow> lender_payout list" where
  "reconcile_drift amountToLenders payouts =
     (let distributed = sum_num (map payout payouts);
          drift = fixed_num 7 (jsub amountToLenders distributed)
      in if \<not> jeq drift (Fin 0) then
           (let i = largest_index payouts
            in payouts[i := (payouts ! i)\<lparr>payout := fixed_num 7 (jadd (payout (payouts ! i)) drift)\<rparr>])
         else payouts)"

definition splitRepaymentAcrossLenders ::
    "jsnum \<Rightarrow> lender_contribution list \<Rightarrow> lender_payout list" where
  "splitRepaymentAcrossLenders amountToLenders contributions =
     (let valid = filter (\<lambda>entry. jlt (Fin 0) (contribution entry)) contributions
      in if valid = [] \<or> jle amountToLenders (Fin 0) then []
         else if jle (sum_num (map contribution valid)) (Fin 0) then []
         else filter (\<lambda>entry. jlt (Fin 0) (payout entry))
                (reconcile_drift amountToLenders (initial_payouts amountToLenders valid)))"

subsection \<open>Progress\<close>

lemma toSafeNumber_finite: "\<exists>r. toSafeNumber v = Fin r"
  by (auto simp: toSafeNumber_def Let_def is_finite_iff)

definition funding_epsilon :: rat where
  "funding_epsilon = fl (1 / 10 ^ 6)"

lemma FUNDING_EPSILON_Fin: "FUNDING_EPSILON = Fin funding_epsilon"
  unfolding FUNDING_EPSILON_def funding_epsilon_def by (rule to_num_Fin) simp

lemma funding_epsilon_pos: "0 < funding_epsilon"
  by code_simp

lemma funding_epsilon_double: "fl (2 * funding_epsilon) = 2 * funding_epsilon"
  by code_simp

lemma funding_epsilon_less_1: "funding_epsilon < 1"
  by code_simp

lemma percent_range:
  assumes "0 \<le> f" "f \<le> p" "0 < p"
  obtains r where "jmul (to_num (f / p)) (Fin 100) = Fin r" "0 \<le> r" "r \<le> 100"
proof -
  have "f / p \<le> 1" "0 \<le> f / p"
    using assms by simp_all
  then have *: "to_num (f / p) = Fin (fl (f / p))" "0 \<le> fl (f / p)" "fl (f / p) \<le> 1"
    using to_num_le_int [of "f / p" 1] by simp_all
  then have "0 \<le> fl (f / p) * 100" "fl (f / p) * 100 \<le> 100"
    by simp_all
  with * show thesis
    using to_num_le_int [of "fl (f / p) * 100" 100] by (auto intro: that)
qed

text \<open>The progress in terms of the two clamped amounts, \<open>0 \<le> f \<le> p\<close>.\<close>

definition progress_of :: "rat \<Rightarrow> rat \<Rightarrow> funding_progress" where
  "progress_of p f =
     (let remaining = jmax (Fin 0) (to_num (p - f)); full = (0 < p \<and> jlt remaining FUNDING_EPSILON)
      in \<lparr>fp_principal = Fin p, fp_funded = Fin f, fp_remaining = (if full then Fin 0 else remaining),
          fp_percent = (if full then Fin 100 else if p \<le> 0 then Fin 0
            else jmin (Fin 100) (jmax (Fin 0) (jmul (to_num (f / p)) (Fin 100)))),
          fp_isFullyFunded = full, fp_isPartiallyFunded = (jlt FUNDING_EPSILON (Fin f) \<and> \<not> full)\<rparr>)"

lemma getFundingProgress_clamped:
  obtains p f where "0 \<le> f" "f \<le> p" "getFundingProgress a b = progress_of p f"
proof -
  obtain x y where xy: "toSafeNumber a = Fin x" "toSafeNumber b = Fin y"
    using toSafeNumber_finite by blast
  define p f where "p = max 0 x" and "f = min (max 0 y) p"
  have "0 \<le> f" "f \<le> p"
    by (simp_all add: p_def f_def)
  then show thesis
    by (rule that [of f p])
      (simp add: getFundingProgress_def progress_of_def Let_def xy jsub_Fin flip: p_def f_def)
qed

lemma progress_of_percent:
  assumes "0 \<le> f" "f \<le> p"
  shows "jle (Fin 0) (fp_percent (progress_of p f))" "jle (fp_percent (progress_of p f)) (Fin 100)"
proof (atomize (full), cases "0 < p")
  case True
  obtain r where "jmul (to_num (f / p)) (Fin 100) = Fin r" "0 \<le> r" "r \<le> 100"
    using percent_range [OF assms True] .
  then show "jle (Fin 0) (fp_percent (progress_of p f)) \<and> jle (fp_percent (progress_of p f)) (Fin 100)"
    by (simp add: progress_of_def Let_def)
qed (simp add: progress_of_def Let_def)

lemma progress_of_remaining:
  assumes "0 < p"
  shows "fp_isFullyFunded (progress_of p f) \<or> jle FUNDING_EPSILON (fp_remaining (progress_of p f))"
proof -
  have "jmax (Fin 0) (to_num (p - f)) \<noteq> NaN"
    by (simp add: jmax_def)
  then show ?thesis
    using assms jlt_iff_not_jle [of "jmax (Fin 0) (to_num (p - f))" FUNDING_EPSILON]
    by (simp add: progress_of_def Let_def FUNDING_EPSILON_Fin)
qed

lemma progress_of_nonneg: "jle (Fin 0) (fp_remaining (progress_of p f))"
  by (simp add: progress_of_def Let_def jle_jmax)

text \<open>
  The progress shown for any pair of inputs, whatever their types: the funded amount and
  the remainder are not negative, the funded amount never exceeds the principal, and the
  percentage is a number from 0 to 100. A loan reported as fully funded has a positive
  principal, nothing left and 100 percent, and is not reported as partially funded; one with a
  positive principal that is not fully funded has at least the tolerance left.
\<close>

theorem getFundingProgress_correct:
  "let g = getFundingProgress a b in
    jle (Fin 0) (fp_funded g) \<and> jle (fp_funded g) (fp_principal g)
    \<and> jle (Fin 0) (fp_remaining g) \<and> jle (Fin 0) (fp_percent g) \<and> jle (fp_percent g) (Fin 100)
    \<and> (if fp_isFullyFunded g
       then jlt (Fin 0) (fp_principal g) \<and> fp_remaining g = Fin 0 \<and> fp_percent g = Fin 100
            \<and> \<not> fp_isPartiallyFunded g
       else jle (fp_principal g) (Fin 0) \<or> jle FUNDING_EPSILON (fp_remaining g))"
proof -
  define g where "g = getFundingProgress a b"
  obtain p f where pf: "0 \<le> f" "f \<le> p" and g: "g = progress_of p f"
    unfolding g_def by (rule getFundingProgress_clamped)
  have "if fp_isFullyFunded g
    then jlt (Fin 0) (fp_principal g) \<and> fp_remaining g = Fin 0 \<and> fp_percent g = Fin 100
         \<and> \<not> fp_isPartiallyFunded g
    else jle (fp_principal g) (Fin 0) \<or> jle FUNDING_EPSILON (fp_remaining g)"
    using progress_of_remaining [of p f] unfolding g by (cases "0 < p") (auto simp: progress_of_def Let_def)
  moreover have "fp_funded g = Fin f" "fp_principal g = Fin p"
    by (simp_all add: g progress_of_def Let_def)
  ultimately show ?thesis
    using pf progress_of_percent [OF pf, folded g] progress_of_nonneg [of p f, folded g]
    by (simp add: Let_def flip: g_def)
qed

subsection \<open>Validation\<close>

text \<open>
  The validation of a contribution, in exact terms: with \<open>x\<close> requested and \<open>y\<close> left.
\<close>

lemma to_num_nonpos: "z \<le> 0 \<Longrightarrow> \<not> jlt FUNDING_EPSILON (to_num z)"
proof -
  assume "z \<le> 0"
  then have "fl z \<le> 0"
    using fl_mono [of z 0] by simp
  then show ?thesis
    using funding_epsilon_pos by (auto simp: to_num_def Let_def FUNDING_EPSILON_Fin)
qed

lemma to_num_small:
  assumes "0 \<le> z" "z \<le> 1"
  shows "to_num z = Fin (fl z)"
  using to_num_le_int(1) [of z 1] assms by simp

lemma validate_excess:
  assumes "y < x"
  shows "x \<le> y + funding_epsilon \<Longrightarrow> \<not> jlt FUNDING_EPSILON (to_num (x - y))"
    and "y + 2 * funding_epsilon < x \<Longrightarrow> jlt FUNDING_EPSILON (to_num (x - y))"
proof -
  have fe: "fl funding_epsilon = funding_epsilon"
    by code_simp
  show "\<not> jlt FUNDING_EPSILON (to_num (x - y))" if "x \<le> y + funding_epsilon"
  proof -
    have "x - y \<le> funding_epsilon" "0 \<le> x - y"
      using that assms by simp_all
    then have "fl (x - y) \<le> funding_epsilon" "to_num (x - y) = Fin (fl (x - y))"
      using fl_mono [of "x - y" funding_epsilon] fe funding_epsilon_less_1 by (simp_all add: to_num_small)
    then show ?thesis
      by (simp add: FUNDING_EPSILON_Fin)
  qed
  show "jlt FUNDING_EPSILON (to_num (x - y))" if "y + 2 * funding_epsilon < x"
  proof -
    have "2 * funding_epsilon \<le> fl (x - y)"
      using that fl_mono [of "2 * funding_epsilon" "x - y"] funding_epsilon_double by simp
    then show ?thesis
      using funding_epsilon_pos by (auto simp: to_num_def Let_def FUNDING_EPSILON_Fin)
  qed
qed

theorem validateFundingAmount_exact:
  assumes "toSafeNumber r = Fin x" and "toSafeNumber m = Fin y"
  shows "(x \<le> 0 \<longrightarrow> validateFundingAmount r m = Inl NotPositive)
    \<and> (0 < x \<and> y < funding_epsilon \<longrightarrow> validateFundingAmount r m = Inl AlreadyFullyFunded)
    \<and> (0 < x \<and> funding_epsilon \<le> y \<and> x \<le> y + funding_epsilon \<longrightarrow> validateFundingAmount r m = Inr (Fin (min x y)))
    \<and> (0 < x \<and> funding_epsilon \<le> y \<and> y + 2 * funding_epsilon < x \<longrightarrow>
         validateFundingAmount r m = Inl (ExceedsRemaining (fixed_num 2 (Fin y))))"
proof -
  have "\<not> jlt FUNDING_EPSILON (to_num (x - y))" if "x \<le> y + funding_epsilon"
    using that validate_excess(1) [of y x] to_num_nonpos [of "x - y"] by (cases "y < x") auto
  moreover have "jlt FUNDING_EPSILON (to_num (x - y))" if "y + 2 * funding_epsilon < x"
    using that validate_excess(2) [of y x] funding_epsilon_pos by simp
  ultimately show ?thesis
    by (auto simp: validateFundingAmount_def Let_def assms jsub_Fin) (auto simp: FUNDING_EPSILON_Fin)
qed

theorem validateFundingAmount_exact_witness:
  "validateFundingAmount (JNum (Fin 7)) (JStr ''5'') = Inl (ExceedsRemaining (fixed_num 2 (Fin 5)))"
proof -
  have "toSafeNumber (JNum (Fin 7)) = Fin 7" "toSafeNumber (JStr ''5'') = Fin 5" "5 + 2 * funding_epsilon < 7" "funding_epsilon \<le> 5"
    by code_simp+
  then show ?thesis
    using validateFundingAmount_exact [of "JNum (Fin 7)" 7 "JStr ''5''" 5] by simp
qed

end
