(* ===== verification/RepaymentSplit.thy ===== *)
theory RepaymentSplit
  imports Funding
begin

text \<open>
  \<open>splitRepaymentAcrossLenders\<close> pays out exactly what came in. The shares are computed in
  binary64, rounded to seven decimals and corrected by the drift; the lemmas here bound the
  rounding error of every step (running sums, shares, the drift) far below half a stroop, so
  that \<open>toFixed(7)\<close> recovers whole stroops throughout.
\<close>

subsection \<open>Running sums in doubles\<close>

text \<open>\<open>fl_sum\<close> is the running sum of finite numbers while nothing overflows.\<close>

definition fl_sum :: "rat \<Rightarrow> rat list \<Rightarrow> rat" where
  "fl_sum s xs = foldl (\<lambda>s x. fl (s + x)) s xs"

lemma fl_sum_simps [simp]:
  "fl_sum s [] = s"
  "fl_sum s (x # xs) = fl_sum (fl (s + x)) xs"
  by (simp_all add: fl_sum_def)

lemma rel_step:
  fixes s C x e :: rat
  assumes "\<bar>s - C\<bar> \<le> e * C" "0 \<le> C" "0 \<le> x" "0 \<le> e" "e \<le> 1" "\<bar>y - (s + x)\<bar> \<le> (s + x) / 2 ^ 53" "0 \<le> s"
  shows "\<bar>y - (C + x)\<bar> \<le> (e + 1 / 2 ^ 52) * (C + x)"
proof -
  have "e * C \<le> 1 * C" "e * C \<le> e * (C + x)"
    using assms by (intro mult_right_mono mult_left_mono; simp)+
  then have "s \<le> 2 * C" "\<bar>s - C\<bar> \<le> e * (C + x)"
    using assms(1) unfolding abs_le_iff by linarith+
  then have "(s + x) / 2 ^ 53 \<le> (C + x) / 2 ^ 52"
    using assms by (simp add: field_simps)
  then have "\<bar>y - (C + x)\<bar> \<le> (C + x) / 2 ^ 52 + e * (C + x)"
    using assms(6) \<open>\<bar>s - C\<bar> \<le> e * (C + x)\<close> unfolding abs_le_iff by linarith
  then show ?thesis
    by (simp add: distrib_right)
qed

lemma fl_sum_relative:
  assumes "\<bar>s - C\<bar> \<le> e * C" "0 \<le> C" "0 \<le> s" "0 \<le> e" "e + of_nat (length xs) / 2 ^ 52 \<le> 1"
    "\<forall>x \<in> set xs. 2 powi (- 1022) \<le> x"
  shows "\<bar>fl_sum s xs - (C + sum_list xs)\<bar> \<le> (e + of_nat (length xs) / 2 ^ 52) * (C + sum_list xs) \<and> 0 \<le> fl_sum s xs"
  using assms
proof (induction xs arbitrary: s C e)
  case Nil
  then show ?case by simp
next
  case (Cons x xs)
  have x: "2 powi (- 1022) \<le> x"
    using Cons.prems by simp
  then have x0: "0 < x"
    using two_powi_pos by (rule order.strict_trans2 [rotated])
  have "2 powi (- 1022) \<le> s + x"
    using x Cons.prems(3) by linarith
  then have "\<bar>fl (s + x) - (s + x)\<bar> \<le> 2 powi (- 53) * (s + x)"
    by (rule fl_relative_error_pos)
  then have f: "\<bar>fl (s + x) - (s + x)\<bar> \<le> (s + x) / 2 ^ 53"
    by (simp add: power_int_def power_divide)
  have len: "e + 1 / 2 ^ 52 + of_nat (length xs) / 2 ^ 52 = e + of_nat (length (x # xs)) / 2 ^ 52"
    by (simp add: add_divide_distrib)
  have e: "e \<le> 1"
    using Cons.prems(5) by (simp add: field_simps)
  have "\<bar>fl (s + x) - (C + x)\<bar> \<le> (e + 1 / 2 ^ 52) * (C + x)"
    using Cons.prems x0 e f by (intro rel_step [of s]) simp_all
  moreover have "e + 1 / 2 ^ 52 + of_nat (length xs) / 2 ^ 52 \<le> 1"
    unfolding len by (rule Cons.prems)
  ultimately have "\<bar>fl_sum (fl (s + x)) xs - (C + x + sum_list xs)\<bar>
      \<le> (e + 1 / 2 ^ 52 + of_nat (length xs) / 2 ^ 52) * (C + x + sum_list xs) \<and> 0 \<le> fl_sum (fl (s + x)) xs"
    using Cons.prems x0 by (intro Cons.IH) simp_all
  then show ?case
    unfolding len by (simp add: add.assoc)
qed

lemma fl_sum_absolute:
  assumes "\<bar>s - C\<bar> \<le> e" "0 \<le> C" "0 \<le> s" "\<forall>x \<in> set xs. 0 \<le> x"
    "C + sum_list xs + e + of_nat (length xs) / 2 ^ 33 < 2 ^ 21"
  shows "\<bar>fl_sum s xs - (C + sum_list xs)\<bar> \<le> e + of_nat (length xs) / 2 ^ 33 \<and> 0 \<le> fl_sum s xs"
  using assms
proof (induction xs arbitrary: s C e)
  case Nil
  then show ?case by simp
next
  case (Cons x xs)
  have x: "0 \<le> x" "0 \<le> sum_list xs"
    using Cons.prems by (simp_all add: sum_list_nonneg)
  have len: "e + 1 / 2 ^ 33 + of_nat (length xs) / 2 ^ 33 = e + of_nat (length (x # xs)) / 2 ^ 33"
    by (simp add: add_divide_distrib)
  have "0 \<le> (of_nat (length (x # xs)) :: rat) / 2 ^ 33"
    by simp
  then have "s + x < 2 ^ 21"
    using Cons.prems(1,5) x unfolding abs_le_iff sum_list.Cons by linarith
  then have "\<bar>s + x\<bar> < 2 powi 21"
    using Cons.prems(3) x by (simp add: two_powi_nat)
  then have "\<bar>fl (s + x) - (s + x)\<bar> \<le> 2 powi (21 - 54)"
    by (rule fl_error) simp
  then have "\<bar>fl (s + x) - (s + x)\<bar> \<le> 1 / 2 ^ 33"
    by (simp add: power_int_def power_divide)
  then have "\<bar>fl (s + x) - (C + x)\<bar> \<le> e + 1 / 2 ^ 33"
    using Cons.prems(1) unfolding abs_le_iff by linarith
  moreover have "C + x + sum_list xs + (e + 1 / 2 ^ 33) + of_nat (length xs) / 2 ^ 33 < 2 ^ 21"
    using Cons.prems(5) len unfolding sum_list.Cons by linarith
  ultimately have "\<bar>fl_sum (fl (s + x)) xs - (C + x + sum_list xs)\<bar>
      \<le> (e + 1 / 2 ^ 33) + of_nat (length xs) / 2 ^ 33 \<and> 0 \<le> fl_sum (fl (s + x)) xs"
    using Cons.prems x by (intro Cons.IH) simp_all
  then show ?case
    unfolding len by (simp add: add.assoc)
qed

text \<open>While the partial sums stay below \<open>2 ^ 53\<close> nothing overflows.\<close>

lemma foldl_jadd_Fin:
  fixes m K :: int
  assumes "0 \<le> s" "s \<le> of_int (m * K)" "\<forall>x \<in> set xs. 0 \<le> x \<and> x \<le> of_int K"
    "(m + int (length xs)) * K < 2 ^ 53" "0 \<le> m" "0 \<le> K"
  shows "foldl jadd (Fin s) (map Fin xs) = Fin (fl_sum s xs) \<and> 0 \<le> fl_sum s xs
    \<and> fl_sum s xs \<le> of_int ((m + int (length xs)) * K)"
  using assms
proof (induction xs arbitrary: s m)
  case Nil
  then show ?case by simp
next
  case (Cons x xs)
  have x: "0 \<le> x" "x \<le> of_int K"
    using Cons.prems by simp_all
  have "(m + 1) * K \<le> (m + int (length (x # xs))) * K"
    using Cons.prems by (intro mult_right_mono) simp_all
  then have "\<bar>(m + 1) * K\<bar> < 2 ^ 53"
    using Cons.prems(4,5,6) by (simp add: abs_mult)
  moreover have "s + x \<le> of_int ((m + 1) * K)"
    using Cons.prems(2) x by (simp add: distrib_right)
  moreover have "0 \<le> s + x"
    using Cons.prems(1) x by simp
  ultimately have sum: "to_num (s + x) = Fin (fl (s + x))" "0 \<le> fl (s + x)" "fl (s + x) \<le> of_int ((m + 1) * K)"
    using to_num_le_int by blast+
  have "foldl jadd (Fin (fl (s + x))) (map Fin xs) = Fin (fl_sum (fl (s + x)) xs) \<and> 0 \<le> fl_sum (fl (s + x)) xs
    \<and> fl_sum (fl (s + x)) xs \<le> of_int ((m + 1 + int (length xs)) * K)"
    using Cons.prems sum by (intro Cons.IH) (simp_all add: algebra_simps)
  then show ?case
    by (simp add: sum(1) algebra_simps)
qed

lemma sum_num_Fin:
  assumes "\<forall>x \<in> set xs. 0 \<le> x \<and> x \<le> of_int K" "int (length xs) * K < 2 ^ 53" "0 \<le> K"
  shows "sum_num (map Fin xs) = Fin (fl_sum 0 xs)"
  using foldl_jadd_Fin [of 0 0 K xs] assms by (simp add: sum_num_def)

subsection \<open>Relative closeness\<close>

text \<open>\<open>near e x z\<close>: \<open>x\<close> is a positive exact value \<open>z\<close> up to a relative error \<open>e\<close>.\<close>

definition near :: "rat \<Rightarrow> rat \<Rightarrow> rat \<Rightarrow> bool" where
  "near e x z \<longleftrightarrow> \<bar>x - z\<bar> \<le> e * z \<and> 0 < z"

lemma near_bounds:
  assumes "near e x z" "e \<le> 1 / 2"
  shows "z / 2 \<le> x" "x \<le> 2 * z" "0 < x"
proof -
  have "0 < z" "e * z \<le> 1 / 2 * z"
    using assms by (simp_all add: near_def mult_right_mono)
  then show "z / 2 \<le> x" "x \<le> 2 * z" "0 < x"
    using assms(1) unfolding near_def abs_le_iff by linarith+
qed

lemma near_trans:
  assumes "near e x z" "\<bar>y - x\<bar> \<le> f * x" "0 \<le> f"
  shows "near (e + f + e * f) y z"
proof -
  have "x \<le> (1 + e) * z"
    using assms(1) unfolding near_def abs_le_iff by (simp add: distrib_right)
  then have "f * x \<le> f * ((1 + e) * z)"
    using assms(3) by (rule mult_left_mono)
  then have "\<bar>y - z\<bar> \<le> f * ((1 + e) * z) + e * z"
    using assms(1,2) unfolding near_def abs_le_iff by linarith
  then show ?thesis
    using assms(1) by (simp add: near_def algebra_simps)
qed

lemma near_mult:
  assumes "near e x z" "near f y w" "0 \<le> e" "0 \<le> f"
  shows "near (e + f + e * f) (x * y) (z * w)"
proof -
  have z: "0 < z" "0 < w" "\<bar>x - z\<bar> \<le> e * z" "\<bar>y - w\<bar> \<le> f * w"
    using assms by (simp_all add: near_def)
  have "\<bar>y\<bar> \<le> (1 + f) * w"
    using z by (simp add: distrib_right)
  then have "\<bar>x - z\<bar> * \<bar>y\<bar> \<le> (e * z) * ((1 + f) * w)"
    using z assms(3,4) by (intro mult_mono) simp_all
  moreover have "z * \<bar>y - w\<bar> \<le> z * (f * w)"
    using z by (intro mult_left_mono) simp_all
  moreover have "x * y - z * w = (x - z) * y + z * (y - w)"
    by (simp add: algebra_simps)
  then have "\<bar>x * y - z * w\<bar> \<le> \<bar>x - z\<bar> * \<bar>y\<bar> + z * \<bar>y - w\<bar>"
    using z(1) abs_triangle_ineq [of "(x - z) * y" "z * (y - w)"] by (simp add: abs_mult)
  ultimately have "\<bar>x * y - z * w\<bar> \<le> (e * z) * ((1 + f) * w) + z * (f * w)"
    by linarith
  also have "\<dots> = (e + f + e * f) * (z * w)"
    by (simp add: algebra_simps)
  finally show ?thesis
    using z by (simp add: near_def)
qed

lemma near_divide:
  assumes "near e T C" "e \<le> 1 / 2" "0 < c"
  shows "near (2 * e) (c / T) (c / C)"
proof -
  have C: "0 < C" "C / 2 \<le> T" "0 < T" "\<bar>T - C\<bar> \<le> e * C"
    using near_bounds [OF assms(1,2)] assms(1) by (simp_all add: near_def)
  have "c / T - c / C = c * (C - T) / (T * C)"
    using C by (simp add: field_simps)
  then have "\<bar>c / T - c / C\<bar> = c * \<bar>T - C\<bar> / (T * C)"
    using C assms(3) by (simp add: abs_mult abs_divide abs_minus_commute)
  also have "\<dots> \<le> c * (e * C) / (T * C)"
    using C assms(3) by (intro divide_right_mono mult_left_mono) simp_all
  also have "\<dots> = c * e / T"
    using C by simp
  also have "\<dots> \<le> c * e / (C / 2)"
  proof (rule divide_left_mono)
    have "0 \<le> e * C"
      using C(4) by (meson abs_ge_zero order_trans)
    then show "0 \<le> c * e"
      using C(1) assms(3) by (simp add: zero_le_mult_iff)
  qed (use C in simp_all)
  finally show ?thesis
    using C(1) assms(3) by (simp add: near_def field_simps)
qed

lemma near_fl:
  assumes "near e x z" "0 \<le> e" "e \<le> 1 / 2" "1 / 10 ^ 60 \<le> z"
  shows "near (e + 2 / 2 ^ 53) (fl x) z"
proof -
  have "(2 :: rat) powi (- 1022) \<le> 2 powi (- 210)"
    by (rule two_powi_mono) simp
  also have "\<dots> \<le> 1 / 10 ^ 60 / 2"
    by (simp add: power_int_def power_divide)
  also have "\<dots> \<le> z / 2"
    using assms(4) by (rule divide_right_mono) simp
  also have "\<dots> \<le> x"
    by (rule near_bounds [OF assms(1,3)])
  finally have "\<bar>fl x - x\<bar> \<le> 2 powi (- 53) * x"
    by (rule fl_relative_error_pos)
  then have "\<bar>fl x - x\<bar> \<le> 1 / 2 ^ 53 * x"
    by (simp add: power_int_def power_divide)
  then have "near (e + 1 / 2 ^ 53 + e * (1 / 2 ^ 53)) (fl x) z"
    using assms(1) by (intro near_trans [of e x z]) simp_all
  moreover have "e + 1 / 2 ^ 53 + e * (1 / 2 ^ 53) \<le> e + 2 / 2 ^ 53"
    using assms(3) by simp
  ultimately show ?thesis
    unfolding near_def using mult_right_mono [of _ _ z] by (meson less_imp_le order_trans)
qed

lemma near_mono: "near e x z \<Longrightarrow> e \<le> f \<Longrightarrow> near f x z"
  unfolding near_def using mult_right_mono [of e f z] by (meson less_imp_le order_trans)

text \<open>
  One lender's share of \<open>A\<close> stroops: the double the code computes is the exact pro-rata
  amount up to a relative error of \<open>2 ^ -44\<close>.
\<close>

lemma share_error:
  assumes T: "near (99 / 2 ^ 52) T C" and c: "1 / 10 ^ 7 \<le> c" "C \<le> 10 ^ 14" and A: "0 < (A :: int)"
  shows "near (1 / 2 ^ 44) (fl (fl (of_int A / 10 ^ 7) * fl (c / T))) (of_int A / 10 ^ 7 * (c / C))"
proof -
  have c0: "0 < c"
    using c(1) by (rule order.strict_trans2 [rotated]) simp
  have C0: "0 < C"
    using T by (simp add: near_def)
  have a1: "1 / 10 ^ 7 \<le> (of_int A :: rat) / 10 ^ 7"
    using A by (intro divide_right_mono) simp_all
  have "1 / 10 ^ 7 / 10 ^ 14 \<le> c / C"
    using c c0 C0 by (intro frac_le) simp_all
  then have c1: "1 / 10 ^ 21 \<le> c / C" "1 / 10 ^ 60 \<le> c / C"
    by (simp, rule order_trans [rotated]) simp
  have "near 0 (of_int A / 10 ^ 7) (of_int A / 10 ^ 7)"
    using A by (simp add: near_def)
  then have a: "near (2 / 2 ^ 53) (fl (of_int A / 10 ^ 7)) (of_int A / 10 ^ 7)"
    using near_fl [of 0] a1 by simp
  have "near (2 * (99 / 2 ^ 52)) (c / T) (c / C)"
    using T c0 by (intro near_divide) simp_all
  then have s: "near (2 * (99 / 2 ^ 52) + 2 / 2 ^ 53) (fl (c / T)) (c / C)"
    using c1(2) by (intro near_fl) simp_all
  have "near (2 / 2 ^ 53 + (2 * (99 / 2 ^ 52) + 2 / 2 ^ 53) + 2 / 2 ^ 53 * (2 * (99 / 2 ^ 52) + 2 / 2 ^ 53))
      (fl (of_int A / 10 ^ 7) * fl (c / T)) (of_int A / 10 ^ 7 * (c / C))"
    using a s by (rule near_mult) simp_all
  then have "near (401 / 2 ^ 53) (fl (of_int A / 10 ^ 7) * fl (c / T)) (of_int A / 10 ^ 7 * (c / C))"
    by (rule near_mono) simp
  moreover have "1 / 10 ^ 7 * (1 / 10 ^ 21) \<le> of_int A / 10 ^ 7 * (c / C)"
    using a1 c1(1) A c0 C0 by (intro mult_mono) simp_all
  then have "1 / 10 ^ 60 \<le> of_int A / 10 ^ 7 * (c / C)"
    by (rule order_trans [rotated]) simp
  ultimately have "near (401 / 2 ^ 53 + 2 / 2 ^ 53)
      (fl (fl (of_int A / 10 ^ 7) * fl (c / T))) (of_int A / 10 ^ 7 * (c / C))"
    by (intro near_fl) simp_all
  then show ?thesis
    by (rule near_mono) simp
qed

subsection \<open>Amounts of whole stroops\<close>

lemma stroops_fl_error:
  assumes "\<bar>q\<bar> \<le> 10 ^ 13"
  shows "\<bar>fl (of_int q / 10 ^ 7) - of_int q / 10 ^ 7\<bar> \<le> 1 / 2 ^ 33"
proof -
  have "(of_int \<bar>q\<bar> :: rat) \<le> of_int (10 ^ 13)"
    using assms by (simp only: of_int_le_iff)
  then have "\<bar>of_int q / 10 ^ 7\<bar> < (2 :: rat) powi 21"
    by (simp add: two_powi_nat)
  then have "\<bar>fl (of_int q / 10 ^ 7) - of_int q / 10 ^ 7\<bar> \<le> 2 powi (21 - 54)"
    by (rule fl_error) simp
  then show ?thesis
    by (simp add: power_int_def power_divide)
qed

lemma of_stroops_Fin:
  assumes "\<bar>q\<bar> \<le> 10 ^ 13"
  shows "of_stroops q = Fin (fl (of_int q / 10 ^ 7))"
proof -
  have "(of_int \<bar>q\<bar> :: rat) \<le> of_int (10 ^ 13)"
    using assms by (simp only: of_int_le_iff)
  then have "\<bar>of_int q / 10 ^ 7\<bar> \<le> (2 :: rat) ^ 1023"
    by simp
  then show ?thesis
    unfolding of_stroops_def by (rule to_num_Fin)
qed

lemma of_stroops_pos: "\<bar>q\<bar> \<le> 10 ^ 13 \<Longrightarrow> jlt (Fin 0) (of_stroops q) \<longleftrightarrow> 0 < q"
proof -
  assume q: "\<bar>q\<bar> \<le> 10 ^ 13"
  have "0 < fl (of_int q / 10 ^ 7)" if "0 < q"
  proof -
    have "1 / 10 ^ 7 \<le> (of_int q :: rat) / 10 ^ 7"
      using that by (intro divide_right_mono) simp_all
    moreover have "0 < fl (1 / 10 ^ 7)"
      by code_simp
    ultimately show ?thesis
      using fl_mono [of "1 / 10 ^ 7" "of_int q / 10 ^ 7"] by simp
  qed
  moreover have "fl (of_int q / 10 ^ 7) \<le> 0" if "q \<le> 0"
    using fl_mono [of "of_int q / 10 ^ 7" 0] that by (simp add: divide_nonpos_pos)
  ultimately show ?thesis
    using of_stroops_Fin [OF q] by (cases "0 < q") auto
qed

lemma of_stroops_eq_0: "\<bar>q\<bar> \<le> 10 ^ 13 \<Longrightarrow> of_stroops q = Fin 0 \<longleftrightarrow> q = 0"
proof -
  assume q: "\<bar>q\<bar> \<le> 10 ^ 13"
  have "of_stroops (- q) = jneg (of_stroops q)"
    using q by (simp add: of_stroops_Fin)
  then show ?thesis
    using of_stroops_pos [OF q] of_stroops_pos [of "- q"] q
    by (cases "0 < q"; cases "q < 0") (auto simp: of_stroops_def to_num_def)
qed

lemma of_stroops_add:
  assumes "\<bar>p\<bar> \<le> 10 ^ 12 * 9" "\<bar>q\<bar> \<le> 10 ^ 12"
  shows "fixed_num 7 (jadd (of_stroops p) (of_stroops q)) = of_stroops (p + q)"
proof -
  define x y where "x = fl (of_int p / 10 ^ 7)" and "y = fl (of_int q / 10 ^ 7)"
  have err: "\<bar>x - of_int p / 10 ^ 7\<bar> \<le> 1 / 2 ^ 33" "\<bar>y - of_int q / 10 ^ 7\<bar> \<le> 1 / 2 ^ 33"
    using assms unfolding x_def y_def by (intro stroops_fl_error; simp)+
  have "\<bar>p + q\<bar> \<le> 10 ^ 13"
    using assms by simp
  then have "(of_int \<bar>p + q\<bar> :: rat) \<le> of_int (10 ^ 13)"
    by (simp only: of_int_le_iff)
  then have "\<bar>of_int (p + q) / 10 ^ 7\<bar> \<le> (10 :: rat) ^ 6"
    by simp
  moreover have close: "\<bar>(x + y) - of_int (p + q) / 10 ^ 7\<bar> \<le> 1 / 2 ^ 33 + 1 / 2 ^ 33"
    using close_add [OF err] by (simp only: add_divide_distrib of_int_add)
  ultimately have "\<bar>x + y\<bar> \<le> 10 ^ 6 + (1 / 2 ^ 33 + 1 / 2 ^ 33)"
    using close_bound [OF close] by linarith
  also have "\<dots> < 2 ^ 21"
    by simp
  finally have sum: "\<bar>x + y\<bar> < 2 ^ 21" .
  then have fin: "to_num (x + y) = Fin (fl (x + y))"
    by (intro to_num_Fin) simp
  have "\<bar>fl (x + y) - (x + y)\<bar> \<le> 2 powi (21 - 54)"
    using sum by (intro fl_error) (simp_all add: two_powi_nat)
  then have "\<bar>fl (x + y) - (x + y)\<bar> \<le> 1 / 2 ^ 33"
    by (simp add: power_int_def power_divide)
  then have "\<bar>fl (x + y) - of_int (p + q) / 10 ^ 7\<bar> \<le> 1 / 2 ^ 33 + (1 / 2 ^ 33 + 1 / 2 ^ 33)"
    using close by (rule close_trans)
  also have "\<dots> < 1 / (2 * 10 ^ 7)"
    by simp
  finally have "\<bar>fl (x + y) - of_int (p + q) / 10 ^ 7\<bar> < 1 / (2 * 10 ^ 7)" .
  then have "fixed_num 7 (Fin (fl (x + y))) = of_stroops (p + q)"
    using assms by (intro fixed_num_stroops) simp_all
  moreover have "of_stroops p = Fin x" "of_stroops q = Fin y"
    using assms unfolding x_def y_def by (intro of_stroops_Fin; simp)+
  ultimately show ?thesis
    by (simp only: jadd.simps fin)
qed

subsection \<open>The initial payouts\<close>

definition pay :: "int \<Rightarrow> rat \<Rightarrow> rat \<Rightarrow> int" where
  "pay A T c = round_half_away (fl (fl (of_int A / 10 ^ 7) * fl (c / T)) * 10 ^ 7)"

lemma pay_error:
  assumes "near (99 / 2 ^ 52) T C" "1 / 10 ^ 7 \<le> c" "c \<le> C" "C \<le> 10 ^ 14" "0 < A"
  shows "\<bar>of_int (pay A T c) - of_int A * (c / C)\<bar> \<le> 1 / 2 + of_int A * (c / C) / 2 ^ 44"
proof -
  define y where "y = fl (fl (of_int A / 10 ^ 7) * fl (c / T))"
  have "near (1 / 2 ^ 44) y (of_int A / 10 ^ 7 * (c / C))"
    unfolding y_def using assms by (intro share_error)
  then have "\<bar>y - of_int A / 10 ^ 7 * (c / C)\<bar> * 10 ^ 7 \<le> 1 / 2 ^ 44 * (of_int A / 10 ^ 7 * (c / C)) * 10 ^ 7"
    unfolding near_def by (intro mult_right_mono) simp_all
  also have "1 / 2 ^ 44 * (of_int A / 10 ^ 7 * (c / C)) * 10 ^ 7 = of_int A * (c / C) / 2 ^ 44"
    by (simp add: mult_ac)
  also have "\<bar>y - of_int A / 10 ^ 7 * (c / C)\<bar> * 10 ^ 7 = \<bar>(y - of_int A / 10 ^ 7 * (c / C)) * 10 ^ 7\<bar>"
    by (subst abs_mult) simp
  also have "(y - of_int A / 10 ^ 7 * (c / C)) * 10 ^ 7 = y * 10 ^ 7 - of_int A * (c / C)"
    by (simp add: left_diff_distrib)
  finally have "\<bar>y * 10 ^ 7 - of_int A * (c / C)\<bar> \<le> of_int A * (c / C) / 2 ^ 44" .
  moreover have "\<bar>of_int (pay A T c) - y * 10 ^ 7\<bar> \<le> 1 / 2"
    unfolding pay_def y_def by (rule round_half_away_error)
  ultimately show ?thesis
    unfolding abs_le_iff by linarith
qed

lemma pay_bounds:
  assumes "near (99 / 2 ^ 52) T C" "1 / 10 ^ 7 \<le> c" "c \<le> C" "C \<le> 10 ^ 14" "0 < A" "A \<le> 5 * 10 ^ 12"
  shows "0 \<le> pay A T c" "pay A T c \<le> 6 * 10 ^ 12"
proof -
  have c: "0 < c"
    using assms(2) by (rule order.strict_trans2 [rotated]) simp
  have T: "0 < T"
    using near_bounds(3) [OF assms(1)] by simp
  have "0 \<le> fl (fl (of_int A / 10 ^ 7) * fl (c / T)) * 10 ^ 7"
    using c T assms(5) by simp
  then show "0 \<le> pay A T c"
    using round_half_away_mono [of 0] round_half_away_of_int [of 0] by (simp add: pay_def)
  have "c / C \<le> 1"
    using c assms(3) by simp
  moreover have "0 \<le> c / C"
    using c assms(3) by simp
  ultimately have "of_int A * (c / C) \<le> of_int (5 * 10 ^ 12) * 1"
    using assms(5,6) by (intro mult_mono) (simp_all only: of_int_le_iff of_int_0_le_iff less_imp_le)
  then have "of_int (pay A T c) \<le> (of_int (6 * 10 ^ 12) :: rat)"
    using pay_error [OF assms(1-5)] by (simp add: abs_le_iff)
  then show "pay A T c \<le> 6 * 10 ^ 12"
    by (simp only: of_int_le_iff)
qed

subsection \<open>The list of payouts\<close>

lemma sum_list_split: "m < length xs \<Longrightarrow>
    sum_list (map f xs) = f (xs ! m) + sum_list (map f (take m xs @ drop (Suc m) xs))"
  for f :: "'a \<Rightarrow> 'b::comm_monoid_add"
  by (subst id_take_nth_drop [of m xs]) (simp_all add: ac_simps del: append_take_drop_id)

text \<open>Rounded shares add up to the whole, up to half a stroop for each.\<close>

lemma sum_pay_error:
  assumes "near (99 / 2 ^ 52) T C" "\<forall>c \<in> set xs. 1 / 10 ^ 7 \<le> c \<and> c \<le> C" "C \<le> 10 ^ 14" "0 < A"
  shows "\<bar>of_int (sum_list (map (pay A T) xs)) - of_int A * (sum_list xs / C)\<bar>
    \<le> of_nat (length xs) / 2 + of_int A * (sum_list xs / C) / 2 ^ 44"
  using assms(2)
proof (induction xs)
  case Nil
  then show ?case by simp
next
  case (Cons c xs)
  have "\<bar>of_int (pay A T c) - of_int A * (c / C)\<bar> \<le> 1 / 2 + of_int A * (c / C) / 2 ^ 44"
    using assms Cons.prems by (intro pay_error) simp_all
  from close_add [OF this Cons.IH] Cons.prems show ?case
    by (simp add: add_divide_distrib distrib_left)
qed

lemma sum_pay_near:
  assumes T: "near (99 / 2 ^ 52) T (sum_list xs)" and xs: "\<forall>c \<in> set xs. 1 / 10 ^ 7 \<le> c" "sum_list xs \<le> 10 ^ 14"
    and A: "0 < A" "A \<le> 5 * 10 ^ 12" and len: "length xs \<le> 99"
  shows "\<bar>sum_list (map (pay A T) xs) - A\<bar> \<le> 50"
proof -
  have nonneg: "\<forall>c \<in> set xs. 0 \<le> c"
    using xs(1) by (meson order_trans zero_le_divide_1_iff zero_le_numeral zero_le_power)
  have "\<forall>c \<in> set xs. c \<le> sum_list xs"
    using nonneg by (simp add: member_le_sum_list)
  then have "\<bar>of_int (sum_list (map (pay A T) xs)) - of_int A * (sum_list xs / sum_list xs)\<bar>
    \<le> of_nat (length xs) / 2 + of_int A * (sum_list xs / sum_list xs) / 2 ^ 44"
    using T xs A(1) by (intro sum_pay_error) simp_all
  then have "\<bar>of_int (sum_list (map (pay A T) xs)) - of_int A\<bar> \<le> (of_nat (length xs) / 2 + of_int A / 2 ^ 44 :: rat)"
    using T by (simp add: near_def)
  also have "\<dots> \<le> of_nat 99 / 2 + of_int (5 * 10 ^ 12) / 2 ^ 44"
    using A(2) len by (intro add_mono divide_right_mono) (simp_all only: of_nat_le_iff of_int_le_iff, simp_all)
  also have "\<dots> \<le> of_int 50"
    by simp
  finally have "(of_int \<bar>sum_list (map (pay A T) xs) - A\<bar> :: rat) \<le> of_int 50"
    by simp
  then show ?thesis
    by (simp only: of_int_le_iff)
qed

text \<open>What the others leave for the largest contributor is positive, dust amounts excepted.\<close>

lemma rest_positive:
  assumes T: "near (99 / 2 ^ 52) T (sum_list xs)" and xs: "\<forall>c \<in> set xs. 1 / 10 ^ 7 \<le> c" "sum_list xs \<le> 10 ^ 14"
    and A: "0 < A" "A \<le> 5 * 10 ^ 12" and dust: "int (length xs) ^ 2 \<le> 2 * A"
    and m: "m < length xs" "\<forall>c \<in> set xs. c \<le> xs ! m"
  shows "0 < pay A T (xs ! m) + (A - sum_list (map (pay A T) xs))"
proof -
  define C where "C = sum_list xs"
  define rest where "rest = take m xs @ drop (Suc m) xs"
  have nonneg: "\<forall>c \<in> set xs. 0 \<le> c"
    using xs(1) by (meson order_trans zero_le_divide_1_iff zero_le_numeral zero_le_power)
  have C: "0 < C" "near (99 / 2 ^ 52) T C" "C \<le> 10 ^ 14"
    using T xs by (simp_all add: near_def C_def)
  have split: "C = xs ! m + sum_list rest"
    using sum_list_split [OF m(1), of "\<lambda>x. x"] by (simp add: C_def rest_def)
  have sub: "set rest \<subseteq> set xs"
    by (auto simp: rest_def dest: in_set_takeD in_set_dropD)
  have len: "length xs = Suc (length rest)"
    using m(1) by (simp add: rest_def)
  have "\<forall>c \<in> set rest. 1 / 10 ^ 7 \<le> c \<and> c \<le> C"
    using xs(1) sub nonneg member_le_sum_list [of _ xs] unfolding C_def by blast
  then have err: "\<bar>of_int (sum_list (map (pay A T) rest)) - of_int A * (sum_list rest / C)\<bar>
    \<le> of_nat (length rest) / 2 + of_int A * (sum_list rest / C) / 2 ^ 44"
    using C A(1) by (intro sum_pay_error) simp_all
  have frac: "sum_list rest / C = 1 - xs ! m / C"
  proof -
    have "sum_list rest = C - xs ! m"
      using split by simp
    then show ?thesis
      using C(1) by (simp add: diff_divide_distrib)
  qed
  have "C \<le> of_nat (length xs) * (xs ! m)"
    using m(2) sum_list_mono [of xs "\<lambda>x. x" "\<lambda>_. xs ! m"] by (simp add: C_def sum_list_triv)
  moreover have k: "0 < length xs"
    using m(1) by linarith
  ultimately have part: "1 / of_nat (length xs) \<le> xs ! m / C"
    using C(1) by (simp add: field_simps)
  have "(of_int (int (length xs) ^ 2) :: rat) \<le> of_int (2 * A)"
    using dust by (simp only: of_int_le_iff)
  then have "of_nat (length xs) / 2 \<le> (of_int A :: rat) * (1 / of_nat (length xs))"
    using k by (simp add: power2_eq_square field_simps)
  also have "\<dots> \<le> of_int A * (xs ! m / C)"
    using part A(1) by (intro mult_left_mono) simp_all
  finally have big: "of_nat (length xs) / 2 \<le> of_int A * (xs ! m / C)" .
  have "of_int A * (sum_list rest / C) \<le> of_int (5 * 10 ^ 12) * 1"
  proof (rule mult_mono)
    show "(of_int A :: rat) \<le> of_int (5 * 10 ^ 12)"
      using A(2) by (simp only: of_int_le_iff)
    show "sum_list rest / C \<le> 1"
      unfolding frac using order_trans [OF _ part, of 0] by simp
    show "0 \<le> sum_list rest / C"
      using nonneg sub C(1) by (intro divide_nonneg_pos sum_list_nonneg) auto
  qed simp
  then have "of_int A * (sum_list rest / C) / 2 ^ 44 \<le> of_int (5 * 10 ^ 12) * 1 / 2 ^ 44"
    by (rule divide_right_mono) simp
  also have "\<dots> \<le> (1 / 3 :: rat)"
    by simp
  finally have "of_int A * (sum_list rest / C) / 2 ^ 44 \<le> 1 / 3" .
  moreover have "of_int A * (sum_list rest / C) = of_int A - of_int A * (xs ! m / C)"
    unfolding frac by (simp add: right_diff_distrib)
  moreover have "(of_nat (length rest) :: rat) / 2 = of_nat (length xs) / 2 - 1 / 2"
    by (simp add: len add_divide_distrib)
  ultimately have "of_int (sum_list (map (pay A T) rest)) < (of_int A :: rat)"
    using err big unfolding abs_le_iff by linarith
  then have "sum_list (map (pay A T) rest) < A"
    by (simp only: of_int_less_iff)
  then show ?thesis
    using sum_list_split [OF m(1), of "pay A T"] by (simp add: rest_def)
qed

subsection \<open>Distributing the drift\<close>

lemma distributed_near:
  assumes Ps: "\<forall>P \<in> set Ps. 0 \<le> P \<and> P \<le> 6 * 10 ^ 12" "length Ps \<le> 99" "sum_list Ps \<le> 6 * 10 ^ 12"
  obtains d where "sum_num (map of_stroops Ps) = Fin d" "\<bar>d - of_int (sum_list Ps) / 10 ^ 7\<bar> \<le> 198 / 2 ^ 33"
proof -
  define xs where "xs = map (\<lambda>P. fl (of_int P / 10 ^ 7)) Ps"
  have of_stroops: "map of_stroops Ps = map Fin xs"
    using Ps(1) by (auto simp: xs_def of_stroops_Fin)
  have each: "\<bar>fl (of_int P / 10 ^ 7) - of_int P / 10 ^ 7\<bar> \<le> 1 / 2 ^ 33" if "P \<in> set Ps" for P
    using Ps(1) that by (intro stroops_fl_error) auto
  have range: "\<forall>x \<in> set xs. 0 \<le> x \<and> x \<le> of_int (2 ^ 20)"
  proof
    fix x
    assume "x \<in> set xs"
    then obtain P where P: "x = fl (of_int P / 10 ^ 7)" "0 \<le> P" "P \<le> 6 * 10 ^ 12"
      using Ps(1) by (auto simp: xs_def)
    have "(of_int P :: rat) \<le> of_int (6 * 10 ^ 12)"
      using P(3) by (simp only: of_int_le_iff)
    then have "of_int P / 10 ^ 7 \<le> (of_int (2 ^ 20) :: rat)"
      by simp
    then have "x \<le> of_int (2 ^ 20)"
      unfolding P by (rule fl_le_int) simp
    then show "0 \<le> x \<and> x \<le> of_int (2 ^ 20)"
      using P by simp
  qed
  have "int (length xs) * 2 ^ 20 < 2 ^ 53"
    using Ps(2) by (simp add: xs_def)
  then have sum: "sum_num (map of_stroops Ps) = Fin (fl_sum 0 xs)"
    unfolding of_stroops using range by (intro sum_num_Fin [of _ "2 ^ 20"]) simp_all
  have "\<bar>sum_list (map (\<lambda>P. fl (of_int P / 10 ^ 7)) Qs) - of_int (sum_list Qs) / 10 ^ 7\<bar>
      \<le> of_nat (length Qs) / 2 ^ 33" if "set Qs \<subseteq> set Ps" for Qs
    using that
  proof (induction Qs)
    case Nil
    then show ?case by simp
  next
    case (Cons Q Qs)
    then have "\<bar>fl (of_int Q / 10 ^ 7) - of_int Q / 10 ^ 7\<bar> \<le> 1 / 2 ^ 33"
      using each by simp
    from close_add [OF this Cons.IH] Cons.prems show ?case
      by (simp add: add_divide_distrib)
  qed
  then have exact: "\<bar>sum_list xs - of_int (sum_list Ps) / 10 ^ 7\<bar> \<le> of_nat (length Ps) / 2 ^ 33"
    unfolding xs_def by blast
  have len: "of_nat (length Ps) / 2 ^ 33 \<le> (99 / 2 ^ 33 :: rat)"
    using Ps(2) by (intro divide_right_mono) simp_all
  have "(of_int (sum_list Ps) :: rat) \<le> of_int (6 * 10 ^ 12)"
    using Ps(3) by (simp only: of_int_le_iff)
  then have "sum_list xs \<le> 600000 + 99 / 2 ^ 33"
    using exact len unfolding abs_le_iff by simp
  then have "0 + sum_list xs + 0 + of_nat (length xs) / 2 ^ 33 < 2 ^ 21"
    using len by (simp add: xs_def)
  then have "\<bar>fl_sum 0 xs - (0 + sum_list xs)\<bar> \<le> 0 + of_nat (length xs) / 2 ^ 33"
    using range by (intro conjunct1 [OF fl_sum_absolute]) simp_all
  then have "\<bar>fl_sum 0 xs - sum_list xs\<bar> \<le> 99 / 2 ^ 33" "\<bar>sum_list xs - of_int (sum_list Ps) / 10 ^ 7\<bar> \<le> 99 / 2 ^ 33"
    using len exact by (simp_all add: xs_def)
  from close_trans [OF this] have "\<bar>fl_sum 0 xs - of_int (sum_list Ps) / 10 ^ 7\<bar> \<le> 198 / 2 ^ 33"
    by simp
  with sum show thesis
    by (rule that)
qed

lemma drift_exact:
  assumes Ps: "\<forall>P \<in> set Ps. 0 \<le> P \<and> P \<le> 6 * 10 ^ 12" "length Ps \<le> 99" "sum_list Ps \<le> 6 * 10 ^ 12"
    and A: "0 < A" "A \<le> 5 * 10 ^ 12" and D: "\<bar>sum_list Ps - A\<bar> \<le> 50"
  shows "fixed_num 7 (jsub (of_stroops A) (sum_num (map of_stroops Ps))) = of_stroops (A - sum_list Ps)"
proof -
  obtain d where d: "sum_num (map of_stroops Ps) = Fin d" "\<bar>d - of_int (sum_list Ps) / 10 ^ 7\<bar> \<le> 198 / 2 ^ 33"
    using distributed_near [OF Ps] .
  define a where "a = fl (of_int A / 10 ^ 7)"
  have a: "of_stroops A = Fin a" "\<bar>a - of_int A / 10 ^ 7\<bar> \<le> 1 / 2 ^ 33"
    using A unfolding a_def by (intro of_stroops_Fin stroops_fl_error; simp)+
  have diff: "\<bar>(a - d) - of_int (A - sum_list Ps) / 10 ^ 7\<bar> \<le> 1 / 2 ^ 33 + 198 / 2 ^ 33"
    using close_diff [OF a(2) d(2)] by (simp only: of_int_diff diff_divide_distrib)
  have "(of_int \<bar>sum_list Ps - A\<bar> :: rat) \<le> of_int 50"
    using D by (simp only: of_int_le_iff)
  then have "\<bar>of_int (A - sum_list Ps) / 10 ^ 7\<bar> \<le> (50 / 10 ^ 7 :: rat)"
    by (simp add: abs_divide abs_minus_commute)
  then have "\<bar>a - d\<bar> \<le> 50 / 10 ^ 7 + (1 / 2 ^ 33 + 198 / 2 ^ 33)"
    using close_bound [OF diff] by linarith
  also have "\<dots> < 2 powi 0"
    by simp
  finally have small: "\<bar>a - d\<bar> < 2 powi 0" .
  then have "\<bar>fl (a - d) - (a - d)\<bar> \<le> 2 powi (0 - 54)"
    by (rule fl_error) simp
  then have "\<bar>fl (a - d) - (a - d)\<bar> \<le> 1 / 2 ^ 33"
    by (rule order_trans) (simp add: power_int_def power_divide)
  from close_trans [OF this diff]
  have "\<bar>fl (a - d) - of_int (A - sum_list Ps) / 10 ^ 7\<bar> < 1 / (2 * 10 ^ 7)"
    by (rule order.strict_trans1) simp
  then have "fixed_num 7 (Fin (fl (a - d))) = of_stroops (A - sum_list Ps)"
    using D by (intro fixed_num_stroops) simp_all
  moreover have "to_num (a - d) = Fin (fl (a - d))"
    using small by (intro to_num_Fin) simp
  ultimately show ?thesis
    by (simp only: a(1) d(1) jsub_Fin)
qed

subsection \<open>The largest contributor\<close>

lemma largest_from_correct:
  assumes "map contribution es = map Fin ys"
  shows "(largest_from es i best (Fin b) = best \<and> (\<forall>y \<in> set ys. y \<le> b))
    \<or> (\<exists>j < length ys. largest_from es i best (Fin b) = i + j \<and> b < ys ! j \<and> (\<forall>y \<in> set ys. y \<le> ys ! j))"
  using assms
proof (induction es arbitrary: i best b ys)
  case Nil
  then show ?case by simp
next
  case (Cons e es)
  then obtain y ys' where ys: "ys = y # ys'" "contribution e = Fin y" "map contribution es = map Fin ys'"
    by (cases ys) auto
  show ?case
  proof (cases "b < y")
    case True
    with Cons.IH [OF ys(3), of "Suc i" i y] show ?thesis
      by (auto simp: ys intro: exI [of _ 0] exI [of _ "Suc _"])
  next
    case False
    with Cons.IH [OF ys(3), of "Suc i" best b] show ?thesis
      by (auto simp: ys intro: exI [of _ "Suc _"])
  qed
qed

lemma largest_index_correct:
  assumes "map contribution ps = map Fin xs" "xs \<noteq> []"
  shows "largest_index ps < length xs" "\<forall>c \<in> set xs. c \<le> xs ! largest_index ps"
proof -
  obtain e es y ys where e: "ps = e # es" "xs = y # ys" "contribution e = Fin y" "map contribution es = map Fin ys"
    using assms by (cases ps; cases xs) auto
  then show "largest_index ps < length xs" "\<forall>c \<in> set xs. c \<le> xs ! largest_index ps"
    using largest_from_correct [OF e(4), of 1 0 y] by (auto simp: largest_index_def)
qed

subsection \<open>The split\<close>

lemma normal_of_stroop: "1 / 10 ^ 7 \<le> x \<Longrightarrow> 2 powi (- 1022) \<le> x" for x :: rat
proof -
  assume "1 / 10 ^ 7 \<le> x"
  have "(2 :: rat) powi (- 1022) \<le> 2 powi (- 24)"
    by (rule two_powi_mono) simp
  also have "\<dots> \<le> 1 / 10 ^ 7"
    by (simp add: power_int_def power_divide)
  also note \<open>1 / 10 ^ 7 \<le> x\<close>
  finally show ?thesis .
qed

lemma total_near:
  assumes "\<forall>c \<in> set xs. 1 / 10 ^ 7 \<le> c" "xs \<noteq> []" "length xs \<le> 99"
  shows "near (99 / 2 ^ 52) (fl_sum 0 xs) (sum_list xs)"
proof -
  have "(of_nat (length xs) :: rat) \<le> of_nat 99"
    using assms(3) by (simp only: of_nat_le_iff)
  then have len: "of_nat (length xs) / 2 ^ 52 \<le> (99 / 2 ^ 52 :: rat)"
    by simp
  also have "\<dots> \<le> (1 :: rat)"
    by simp
  finally have "0 + of_nat (length xs) / 2 ^ 52 \<le> (1 :: rat)"
    by simp
  moreover have normal: "\<forall>x \<in> set xs. 2 powi (- 1022) \<le> x"
    using assms(1) normal_of_stroop by blast
  ultimately have err: "\<bar>fl_sum 0 xs - (0 + sum_list xs)\<bar> \<le> (0 + of_nat (length xs) / 2 ^ 52) * (0 + sum_list xs)"
    by (intro conjunct1 [OF fl_sum_relative]) (assumption | simp)+
  have c0: "\<forall>c \<in> set xs. 0 < c"
    using assms(1) by (auto intro: order.strict_trans2 [rotated])
  obtain c cs where cs: "xs = c # cs"
    using assms(2) by (cases xs) auto
  have "0 \<le> sum_list cs"
    by (rule sum_list_nonneg) (use c0 in \<open>auto simp: cs intro: less_imp_le\<close>)
  moreover have "0 < c"
    using c0 by (simp add: cs)
  ultimately have pos: "0 < sum_list xs"
    by (simp add: cs)
  with len have "of_nat (length xs) / 2 ^ 52 * sum_list xs \<le> 99 / 2 ^ 52 * sum_list xs"
    by (intro mult_right_mono) simp_all
  with err have "\<bar>fl_sum 0 xs - sum_list xs\<bar> \<le> 99 / 2 ^ 52 * sum_list xs"
    by (simp only: add_0)
  with pos show ?thesis
    by (simp only: near_def)
qed

lemma payout_of_share:
  assumes T: "near (99 / 2 ^ 52) T C" and c: "0 \<le> c" "c \<le> C" and A: "0 < A" "A \<le> 5 * 10 ^ 12"
  shows "fixed_num 7 (jmul (of_stroops A) (jdiv (Fin c) (Fin T))) = of_stroops (pay A T c)"
proof -
  have T2: "C / 2 \<le> T" "0 < T"
    using near_bounds [OF T] by simp_all
  then have "c / T \<le> of_int 2" "0 \<le> c / T"
    using c by (simp_all add: pos_divide_le_eq)
  then have s: "to_num (c / T) = Fin (fl (c / T))" "0 \<le> fl (c / T)" "fl (c / T) \<le> of_int 2"
    using to_num_le_int [of "c / T" 2] by simp_all
  define a where "a = fl (of_int A / 10 ^ 7)"
  have "(of_int A :: rat) \<le> of_int (5 * 10 ^ 12)"
    using A(2) by (simp only: of_int_le_iff)
  then have "a \<le> of_int 500000"
    unfolding a_def by (intro fl_le_int) simp_all
  moreover have "0 \<le> a"
    using A by (simp add: a_def)
  ultimately have prod: "0 \<le> a * fl (c / T)" "a * fl (c / T) \<le> of_int 1000000"
    using s mult_mono [of a 500000 "fl (c / T)" 2] by simp_all
  have "\<bar>1000000 :: int\<bar> < 2 ^ 53"
    by simp
  then have y: "to_num (a * fl (c / T)) = Fin (fl (a * fl (c / T)))"
      "0 \<le> fl (a * fl (c / T))" "fl (a * fl (c / T)) \<le> of_int 1000000"
    using to_num_le_int [OF prod] by simp_all
  then have "\<not> 10 ^ 21 \<le> \<bar>fl (a * fl (c / T))\<bar>"
    by simp
  then have "fixed_num 7 (Fin (fl (a * fl (c / T)))) = of_stroops (pay A T c)"
    by (simp only: fixed_num.simps to_fixed_def if_False pay_def of_stroops_def a_def)
  moreover have "of_stroops A = Fin a"
    unfolding a_def using A by (intro of_stroops_Fin) simp
  ultimately show ?thesis
    using T2(2) s(1) y(1) by simp
qed

lemma initial_payouts_stroops:
  assumes "map contribution cs = map Fin xs" "\<forall>c \<in> set xs. 1 / 10 ^ 7 \<le> c \<and> c \<le> 10 ^ 12" "xs \<noteq> []" "length xs \<le> 99"
    and A: "0 < A" "A \<le> 5 * 10 ^ 12"
  shows "sum_num (map contribution cs) = Fin (fl_sum 0 xs)"
    "map payout (initial_payouts (of_stroops A) cs) = map of_stroops (map (pay A (fl_sum 0 xs)) xs)"
    "map contribution (initial_payouts (of_stroops A) cs) = map Fin xs"
proof -
  have c0: "\<forall>c \<in> set xs. 0 \<le> c"
    using assms(2) by (meson order_trans zero_le_divide_1_iff zero_le_numeral zero_le_power)
  have "int (length xs) * 10 ^ 12 \<le> 99 * 10 ^ 12"
    using assms(4) by (intro mult_right_mono) simp_all
  then have "int (length xs) * 10 ^ 12 < 2 ^ 53"
    by simp
  then show T: "sum_num (map contribution cs) = Fin (fl_sum 0 xs)"
    unfolding assms(1) using assms(2) c0 by (intro sum_num_Fin [of _ "10 ^ 12"]) simp_all
  have near: "near (99 / 2 ^ 52) (fl_sum 0 xs) (sum_list xs)"
    using assms by (intro total_near) simp_all
  have C: "\<forall>c \<in> set xs. c \<le> sum_list xs"
    using c0 by (simp add: member_le_sum_list)
  show "map payout (initial_payouts (of_stroops A) cs) = map of_stroops (map (pay A (fl_sum 0 xs)) xs)"
  proof -
    have "map payout (initial_payouts (of_stroops A) cs) =
        map (\<lambda>x. fixed_num 7 (jmul (of_stroops A) (jdiv x (Fin (fl_sum 0 xs))))) (map contribution cs)"
      by (simp add: initial_payouts_def Let_def T)
    also have "\<dots> = map (\<lambda>c. fixed_num 7 (jmul (of_stroops A) (jdiv (Fin c) (Fin (fl_sum 0 xs))))) xs"
      by (simp add: assms(1))
    also have "\<dots> = map (\<lambda>c. of_stroops (pay A (fl_sum 0 xs) c)) xs"
      using payout_of_share [OF near _ _ A] c0 C by simp
    finally show ?thesis
      by simp
  qed
  show "map contribution (initial_payouts (of_stroops A) cs) = map Fin xs"
    by (simp add: initial_payouts_def Let_def flip: assms(1))
qed

lemma reconcile_drift_stroops:
  assumes ps: "map payout ps = map of_stroops Ps" and m: "largest_index ps < length Ps"
    and drift: "fixed_num 7 (jsub (of_stroops A) (sum_num (map of_stroops Ps))) = of_stroops (A - sum_list Ps)"
    and Ps: "\<forall>P \<in> set Ps. 0 \<le> P \<and> P \<le> 6 * 10 ^ 12" and D: "\<bar>sum_list Ps - A\<bar> \<le> 50"
  shows "map payout (reconcile_drift (of_stroops A) ps) =
    map of_stroops (Ps[largest_index ps := Ps ! largest_index ps + (A - sum_list Ps)])"
proof -
  have len: "length ps = length Ps"
    using ps by (metis length_map)
  then have pm: "payout (ps ! largest_index ps) = of_stroops (Ps ! largest_index ps)"
    using m ps by (metis nth_map)
  have zero: "jeq (of_stroops (A - sum_list Ps)) (Fin 0) \<longleftrightarrow> A = sum_list Ps"
    using D of_stroops_eq_0 [of "A - sum_list Ps"] by (auto simp: jeq_def)
  have "Ps ! largest_index ps \<in> set Ps"
    using m by simp
  then have add: "fixed_num 7 (jadd (of_stroops (Ps ! largest_index ps)) (of_stroops (A - sum_list Ps))) =
      of_stroops (Ps ! largest_index ps + (A - sum_list Ps))"
    using Ps D by (intro of_stroops_add) auto
  have same: "(map of_stroops Ps)[largest_index ps := of_stroops (Ps ! largest_index ps)] = map of_stroops Ps"
    by (simp flip: map_update)
  show ?thesis
    by (simp add: reconcile_drift_def Let_def ps drift zero map_update pm add same)
qed

lemma sum_list_99: "\<forall>c \<in> set xs. c \<le> 10 ^ 12 \<Longrightarrow> length xs \<le> 99 \<Longrightarrow> sum_list xs \<le> (10 ^ 14 :: rat)"
proof -
  assume xs: "\<forall>c \<in> set xs. c \<le> 10 ^ 12" "length xs \<le> 99"
  have "sum_list xs \<le> of_nat (length xs) * 10 ^ 12"
    using sum_list_mono [of xs "\<lambda>x. x" "\<lambda>_. 10 ^ 12"] xs(1) by (simp add: sum_list_triv)
  also have "\<dots> \<le> of_nat 99 * 10 ^ 12"
    using xs(2) by (intro mult_right_mono) (simp_all only: of_nat_le_iff, simp)
  finally show ?thesis
    by simp
qed

lemma sum_list_filter_pos: "\<forall>q \<in> set qs. 0 \<le> q \<Longrightarrow> sum_list (filter (\<lambda>q. 0 < q) qs) = sum_list (qs :: int list)"
  by (induction qs) auto

lemma sum_list_update_int: "k < length xs \<Longrightarrow> sum_list (xs[k := x]) = sum_list xs + x - (xs ! k :: int)"
  by (induction xs arbitrary: k) (auto split: nat.splits)

text \<open>
  The payouts before the empty ones are dropped: the rounded shares \<open>Ps\<close>, with the drift added
  to the largest contributor's.
\<close>

lemma split_general:
  assumes cs: "map contribution lenders = map Fin xs"
    and xs: "\<forall>c \<in> set xs. 1 / 10 ^ 7 \<le> c \<and> c \<le> 10 ^ 12" "xs \<noteq> []" "length xs \<le> 99"
    and A: "0 < A" "A \<le> 5 * 10 ^ 12"
    and Ps_eq: "Ps = map (pay A (fl_sum 0 xs)) xs" and m_eq: "m = largest_index (initial_payouts (of_stroops A) lenders)"
  shows "\<forall>P \<in> set Ps. 0 \<le> P \<and> P \<le> 6 * 10 ^ 12" and "\<bar>sum_list Ps - A\<bar> \<le> 50"
    and "m < length xs" and "\<forall>c \<in> set xs. c \<le> xs ! m"
    and "map payout (reconcile_drift (of_stroops A) (initial_payouts (of_stroops A) lenders)) =
      map of_stroops (Ps[m := Ps ! m + (A - sum_list Ps)])"
    and "splitRepaymentAcrossLenders (of_stroops A) lenders = filter (\<lambda>e. jlt (Fin 0) (payout e))
      (reconcile_drift (of_stroops A) (initial_payouts (of_stroops A) lenders))"
proof -
  define ps where "ps = initial_payouts (of_stroops A) lenders"
  have near: "near (99 / 2 ^ 52) (fl_sum 0 xs) (sum_list xs)"
    using xs by (intro total_near) simp_all
  have ps: "map payout ps = map of_stroops Ps" "map contribution ps = map Fin xs"
      "sum_num (map contribution lenders) = Fin (fl_sum 0 xs)"
    unfolding ps_def Ps_eq using initial_payouts_stroops [OF cs xs A] by simp_all
  show m: "m < length xs" "\<forall>c \<in> set xs. c \<le> xs ! m"
    using largest_index_correct [OF ps(2) xs(2)] by (simp_all add: m_eq ps_def)
  have c0: "\<forall>c \<in> set xs. 0 \<le> c"
    using xs(1) by (meson order_trans zero_le_divide_1_iff zero_le_numeral zero_le_power)
  have C: "\<forall>c \<in> set xs. c \<le> sum_list xs"
    using c0 by (simp add: member_le_sum_list)
  have total: "sum_list xs \<le> 10 ^ 14"
    using xs by (intro sum_list_99) simp_all
  show Ps: "\<forall>P \<in> set Ps. 0 \<le> P \<and> P \<le> 6 * 10 ^ 12"
    using pay_bounds [OF near _ _ total A] xs(1) C by (auto simp: Ps_eq)
  show D: "\<bar>sum_list Ps - A\<bar> \<le> 50"
    unfolding Ps_eq using near xs total A by (intro sum_pay_near) simp_all
  have len: "length Ps = length xs" "length xs = length lenders"
    using cs by (simp_all add: Ps_eq) (metis length_map)
  have "fixed_num 7 (jsub (of_stroops A) (sum_num (map of_stroops Ps))) = of_stroops (A - sum_list Ps)"
    using Ps D A xs(3) len by (intro drift_exact) simp_all
  then show "map payout (reconcile_drift (of_stroops A) (initial_payouts (of_stroops A) lenders)) =
      map of_stroops (Ps[m := Ps ! m + (A - sum_list Ps)])"
    using ps(1) m(1) Ps D len reconcile_drift_stroops [of ps Ps A] by (simp add: m_eq ps_def)
  have "\<forall>e \<in> set lenders. contribution e \<in> Fin ` set xs"
    using cs by (metis image_eqI image_set)
  moreover have "\<forall>c \<in> set xs. 0 < c"
    using xs(1) by (auto intro: order.strict_trans2 [rotated])
  ultimately have "filter (\<lambda>e. jlt (Fin 0) (contribution e)) lenders = lenders"
    by (intro filter_True) auto
  moreover have "\<not> jle (of_stroops A) (Fin 0)"
    using of_stroops_pos [of A] A by (cases "of_stroops A") auto
  moreover have "\<not> jle (Fin (fl_sum 0 xs)) (Fin 0)"
    using near_bounds(3) [OF near] by simp
  moreover have "lenders \<noteq> []"
    using xs(2) len by auto
  ultimately show "splitRepaymentAcrossLenders (of_stroops A) lenders = filter (\<lambda>e. jlt (Fin 0) (payout e))
      (reconcile_drift (of_stroops A) (initial_payouts (of_stroops A) lenders))"
    using ps(3) by (simp add: splitRepaymentAcrossLenders_def Let_def)
qed

lemma split_stroops:
  assumes "\<forall>e \<in> set lenders. \<exists>c. contribution e = Fin c \<and> 1 / 10 ^ 7 \<le> c \<and> c \<le> 10 ^ 12"
    and "lenders \<noteq> []" and "length lenders \<le> 99"
    and "0 < A" and "A \<le> 5 * 10 ^ 12" and "int (length lenders) ^ 2 \<le> 2 * A"
  obtains xs Qs where "map contribution lenders = map Fin xs" "length Qs = length lenders"
    "\<forall>Q \<in> set Qs. 0 \<le> Q \<and> Q \<le> 10 ^ 13" "sum_list Qs = A"
    "map payout (reconcile_drift (of_stroops A) (initial_payouts (of_stroops A) lenders)) = map of_stroops Qs"
    "splitRepaymentAcrossLenders (of_stroops A) lenders = filter (\<lambda>e. jlt (Fin 0) (payout e))
       (reconcile_drift (of_stroops A) (initial_payouts (of_stroops A) lenders))"
    "\<forall>i < length Qs. \<bar>of_int (Qs ! i) - of_int A * (xs ! i / sum_list xs)\<bar> \<le> 51"
proof -
  define xs where "xs = map (\<lambda>e. the_rat (contribution e)) lenders"
  have cs: "map contribution lenders = map Fin xs"
    using assms(1) by (auto simp: xs_def)
  have xs: "\<forall>c \<in> set xs. 1 / 10 ^ 7 \<le> c \<and> c \<le> 10 ^ 12" "xs \<noteq> []" "length xs \<le> 99"
    using assms(1,2,3) by (auto simp: xs_def)
  define T where "T = fl_sum 0 xs"
  have near: "near (99 / 2 ^ 52) T (sum_list xs)"
    unfolding T_def using xs by (intro total_near) simp_all
  define Ps where "Ps = map (pay A T) xs"
  define m where "m = largest_index (initial_payouts (of_stroops A) lenders)"
  note general = split_general [OF cs xs assms(4,5) Ps_def [unfolded T_def] m_def]
  note Ps = general(1) and D = general(2) and m = general(3,4)
  have c0: "\<forall>c \<in> set xs. 0 \<le> c"
    using xs(1) by (meson order_trans zero_le_divide_1_iff zero_le_numeral zero_le_power)
  have C: "\<forall>c \<in> set xs. c \<le> sum_list xs"
    using c0 by (simp add: member_le_sum_list)
  have total: "sum_list xs \<le> 10 ^ 14"
    using xs by (intro sum_list_99) simp_all
  have len: "length Ps = length xs" "length xs = length lenders"
    by (simp_all add: Ps_def xs_def)
  define Qs where "Qs = Ps[m := Ps ! m + (A - sum_list Ps)]"
  have largest: "0 < Ps ! m + (A - sum_list Ps)"
    using rest_positive [OF near _ total assms(4,5) _ m] xs(1) assms(6) m(1) len by (simp add: Ps_def)
  have "Ps ! m \<in> set Ps"
    using m(1) len by simp
  then have "Ps ! m + (A - sum_list Ps) \<le> 10 ^ 13"
    using Ps D by force
  then have Qs: "\<forall>Q \<in> set Qs. 0 \<le> Q \<and> Q \<le> 10 ^ 13"
    using Ps largest unfolding Qs_def by (fastforce dest: subsetD [OF set_update_subset_insert])
  have sum: "sum_list Qs = A"
    using m(1) len by (simp add: Qs_def sum_list_update_int)
  have close: "\<bar>of_int (Qs ! i) - of_int A * (xs ! i / sum_list xs)\<bar> \<le> (51 :: rat)" if "i < length Qs" for i
  proof -
    have i: "i < length xs" "xs ! i \<in> set xs"
      using that len by (simp_all add: Qs_def)
    have "\<bar>Qs ! i - pay A T (xs ! i)\<bar> \<le> 50"
      using D i m(1) len by (cases "i = m") (auto simp: Qs_def Ps_def)
    then have "(of_int \<bar>Qs ! i - pay A T (xs ! i)\<bar> :: rat) \<le> of_int 50"
      by (simp only: of_int_le_iff)
    then have q: "\<bar>of_int (Qs ! i) - of_int (pay A T (xs ! i))\<bar> \<le> (50 :: rat)"
      by simp
    have frac: "0 \<le> xs ! i / sum_list xs" "xs ! i / sum_list xs \<le> 1"
      using C c0 i near by (auto simp: near_def)
    have "(of_int A :: rat) \<le> of_int (5 * 10 ^ 12)"
      using assms(5) by (simp only: of_int_le_iff)
    then have "of_int A * (xs ! i / sum_list xs) \<le> of_int (5 * 10 ^ 12) * 1"
      using frac assms(4) by (intro mult_mono) simp_all
    then have "of_int A * (xs ! i / sum_list xs) / 2 ^ 44 \<le> of_int (5 * 10 ^ 12) * 1 / 2 ^ 44"
      by (rule divide_right_mono) simp
    also have "\<dots> \<le> (1 / 2 :: rat)"
      by simp
    finally have "1 / 2 + of_int A * (xs ! i / sum_list xs) / 2 ^ 44 \<le> (1 :: rat)"
      by simp
    moreover have "\<bar>of_int (pay A T (xs ! i)) - of_int A * (xs ! i / sum_list xs)\<bar>
        \<le> 1 / 2 + of_int A * (xs ! i / sum_list xs) / 2 ^ 44"
      using near _ _ total assms(4) by (rule pay_error) (use xs(1) C i in auto)
    ultimately have "\<bar>of_int (pay A T (xs ! i)) - of_int A * (xs ! i / sum_list xs)\<bar> \<le> (1 :: rat)"
      by linarith
    from close_trans [OF q this] show ?thesis
      by simp
  qed
  show thesis
    by (rule that [OF cs _ Qs sum general(5) [folded Qs_def] general(6)])
      (use close in \<open>simp_all add: Qs_def len\<close>)
qed

lemma map_payout_filter:
  "map payout (filter (\<lambda>e. jlt (Fin 0) (payout e)) ps) = filter (jlt (Fin 0)) (map payout ps)"
  by (simp add: filter_map o_def)

lemma reconcile_drift_fields:
  assumes "i < length ps"
  shows "length (reconcile_drift a ps) = length ps"
    "lenderId (reconcile_drift a ps ! i) = lenderId (ps ! i)"
    "address (reconcile_drift a ps ! i) = address (ps ! i)"
    "contribution (reconcile_drift a ps ! i) = contribution (ps ! i)"
    "share (reconcile_drift a ps ! i) = share (ps ! i)"
  using assms by (cases "i = largest_index ps"; simp add: reconcile_drift_def Let_def)+

text \<open>
  C27: a repayment is split exactly. For an amount of \<open>A\<close> stroops up to 500,000 XLM and up to
  99 lenders, each with a contribution between one stroop and a million million XLM, unless the amount is dust (fewer stroops than half the square of the number of
  lenders), every payout is a positive whole number of stroops and together they are \<open>A\<close>
  stroops: nothing is lost to the binary arithmetic and nothing is paid that was not received.
\<close>

theorem splitRepaymentAcrossLenders_exact:
  assumes "\<forall>e \<in> set lenders. \<exists>c. contribution e = Fin c \<and> 1 / 10 ^ 7 \<le> c \<and> c \<le> 10 ^ 12"
    and "lenders \<noteq> []" and "length lenders \<le> MAX_LENDERS_PER_REPAYMENT"
    and "0 < A" and "A \<le> 5 * 10 ^ 12" and "int (length lenders) ^ 2 \<le> 2 * A"
  shows "\<exists>qs. map payout (splitRepaymentAcrossLenders (of_stroops A) lenders) = map of_stroops qs
    \<and> (\<forall>q \<in> set qs. 0 < q) \<and> sum_list qs = A"
proof -
  have few: "length lenders \<le> 99"
    using assms(3) by (simp add: MAX_LENDERS_PER_REPAYMENT_def)
  obtain xs Qs where xs: "map contribution lenders = map Fin xs" "length Qs = length lenders"
    and Qs: "\<forall>Q \<in> set Qs. 0 \<le> Q \<and> Q \<le> 10 ^ 13" "sum_list Qs = A"
    and payouts: "map payout (reconcile_drift (of_stroops A) (initial_payouts (of_stroops A) lenders)) = map of_stroops Qs"
    and split: "splitRepaymentAcrossLenders (of_stroops A) lenders = filter (\<lambda>e. jlt (Fin 0) (payout e))
       (reconcile_drift (of_stroops A) (initial_payouts (of_stroops A) lenders))"
    and close: "\<forall>i < length Qs. \<bar>of_int (Qs ! i) - of_int A * (xs ! i / sum_list xs)\<bar> \<le> 51"
    by (rule split_stroops [OF assms(1,2) few assms(4,5,6)])
  have "map payout (splitRepaymentAcrossLenders (of_stroops A) lenders) = filter (jlt (Fin 0)) (map of_stroops Qs)"
    by (simp only: split map_payout_filter payouts)
  also have "\<dots> = map of_stroops (filter (\<lambda>q. 0 < q) Qs)"
    using Qs(1) of_stroops_pos by (auto simp: filter_map o_def intro!: arg_cong [where f = "map of_stroops"] filter_cong)
  finally show ?thesis
    using Qs by (intro exI [of _ "filter (\<lambda>q. 0 < q) Qs"]) (simp add: sum_list_filter_pos)
qed

theorem splitRepaymentAcrossLenders_exact_witness:
  "\<exists>qs. map payout (splitRepaymentAcrossLenders (of_stroops 1000000001)
       [\<lparr>lenderId = ''a'', address = ''GA'', contribution = Fin 100\<rparr>,
        \<lparr>lenderId = ''b'', address = ''GB'', contribution = Fin 200\<rparr>,
        \<lparr>lenderId = ''c'', address = ''GC'', contribution = Fin 300\<rparr>]) = map of_stroops qs
    \<and> (\<forall>q \<in> set qs. 0 < q) \<and> sum_list qs = 1000000001"
  by (rule splitRepaymentAcrossLenders_exact) (auto simp: MAX_LENDERS_PER_REPAYMENT_def)

text \<open>
  The split is fair. Every payout goes to one of the lenders, at the address on record, and
  differs from the exact pro-rata part of the repayment by at most 51 stroops (about five
  millionths of an XLM), the rounding drift that the largest contributor absorbs included.
\<close>

theorem splitRepaymentAcrossLenders_fair:
  assumes "\<forall>e \<in> set lenders. \<exists>c. contribution e = Fin c \<and> 1 / 10 ^ 7 \<le> c \<and> c \<le> 10 ^ 12"
    and "lenders \<noteq> []" and "length lenders \<le> MAX_LENDERS_PER_REPAYMENT"
    and "0 < A" and "A \<le> 5 * 10 ^ 12" and "int (length lenders) ^ 2 \<le> 2 * A"
    and "p \<in> set (splitRepaymentAcrossLenders (of_stroops A) lenders)"
  shows "\<exists>l \<in> set lenders. \<exists>q. lenderId p = lenderId l \<and> address p = address l \<and> payout p = of_stroops q
    \<and> \<bar>of_int q - of_int A * (the_rat (contribution l) / sum_list (map (the_rat o contribution) lenders))\<bar> \<le> 51"
proof -
  define ps where "ps = initial_payouts (of_stroops A) lenders"
  have few: "length lenders \<le> 99"
    using assms(3) by (simp add: MAX_LENDERS_PER_REPAYMENT_def)
  obtain xs Qs where xs: "map contribution lenders = map Fin xs" "length Qs = length lenders"
    and Qs: "\<forall>Q \<in> set Qs. 0 \<le> Q \<and> Q \<le> 10 ^ 13" "sum_list Qs = A"
    and payouts: "map payout (reconcile_drift (of_stroops A) ps) = map of_stroops Qs"
    and split: "splitRepaymentAcrossLenders (of_stroops A) lenders = filter (\<lambda>e. jlt (Fin 0) (payout e))
       (reconcile_drift (of_stroops A) ps)"
    and close: "\<forall>i < length Qs. \<bar>of_int (Qs ! i) - of_int A * (xs ! i / sum_list xs)\<bar> \<le> 51"
    by (rule split_stroops [OF assms(1,2) few assms(4,5,6), folded ps_def])
  have "xs = map the_rat (map Fin xs)"
    by (simp add: comp_def)
  then have xs_eq: "xs = map (the_rat o contribution) lenders"
    by (simp flip: xs(1))
  have len: "length ps = length lenders"
    by (simp add: ps_def initial_payouts_def Let_def)
  obtain i where i: "i < length (reconcile_drift (of_stroops A) ps)" "p = reconcile_drift (of_stroops A) ps ! i"
    using assms(7) by (auto simp: split in_set_conv_nth)
  then have n: "i < length lenders" "i < length ps"
    using xs(2) payouts len by (metis length_map)+
  have "payout p = of_stroops (Qs ! i)"
    using i n payouts xs(2) by (metis nth_map)
  moreover have "lenderId p = lenderId (lenders ! i)" "address p = address (lenders ! i)"
    using n by (simp_all add: i reconcile_drift_fields ps_def initial_payouts_def Let_def)
  moreover have "\<bar>of_int (Qs ! i) - of_int A * (the_rat (contribution (lenders ! i)) / sum_list xs)\<bar> \<le> 51"
    using close n xs(2) by (simp add: xs_eq)
  ultimately show ?thesis
    using n(1) unfolding xs_eq by (intro bexI [of _ "lenders ! i"] exI [of _ "Qs ! i"]) simp_all
qed

theorem splitRepaymentAcrossLenders_fair_witness:
  "\<exists>p \<in> set (splitRepaymentAcrossLenders (of_stroops 700) [\<lparr>lenderId = ''a'', address = ''GA'', contribution = Fin 1\<rparr>]).
    \<exists>q. lenderId p = ''a'' \<and> address p = ''GA'' \<and> payout p = of_stroops q \<and> \<bar>of_int q - of_int 700 * (1 / 1 :: rat)\<bar> \<le> 51"
proof -
  define l where "l = \<lparr>lenderId = ''a'', address = ''GA'', contribution = Fin 1\<rparr>"
  have "fl_sum 0 [1] = 1" "pay 700 1 1 = 700"
    by code_simp+
  then have Ps: "[700] = map (pay 700 (fl_sum 0 [1])) [1]"
    by simp
  have m: "largest_index (initial_payouts (of_stroops 700) [l]) = 0"
    by (simp add: largest_index_def initial_payouts_def Let_def l_def)
  have cs: "map contribution [l] = map Fin [1]"
    by (simp add: l_def)
  have "map payout (splitRepaymentAcrossLenders (of_stroops 700) [l]) = [of_stroops 700]"
    using split_general(5,6) [OF cs _ _ _ _ _ Ps refl] of_stroops_pos [of 700] by (simp add: map_payout_filter m)
  then obtain p where "p \<in> set (splitRepaymentAcrossLenders (of_stroops 700) [l])"
    by auto
  then show ?thesis
    using splitRepaymentAcrossLenders_fair [of "[l]" 700 p] unfolding l_def
    by (auto simp: MAX_LENDERS_PER_REPAYMENT_def)
qed

text \<open>
  The exactness of the split needs its bound on dust. Three stroops over five lenders with
  equal contributions pay one stroop to each of four lenders: more than was received. The
  drift of minus two stroops drives the first lender's payout to minus one stroop, and an entry
  that is not positive is dropped from the result.
\<close>

theorem splitRepaymentAcrossLenders_dust:
  "map payout (splitRepaymentAcrossLenders (of_stroops 3)
     (map (\<lambda>c. \<lparr>lenderId = [c], address = [CHR ''G'', c], contribution = Fin 20\<rparr>) ''abcde''))
   = [of_stroops 1, of_stroops 1, of_stroops 1, of_stroops 1]"
proof -
  define lenders where "lenders =
    map (\<lambda>c. \<lparr>lenderId = [c], address = [CHR ''G'', c], contribution = Fin 20\<rparr>) ''abcde''"
  have "fl_sum 0 [20, 20, 20, 20, 20] = 100" "pay 3 100 20 = 1"
    by code_simp+
  then have Ps: "[1, 1, 1, 1, 1] = map (pay 3 (fl_sum 0 [20, 20, 20, 20, 20])) [20, 20, 20, 20, 20]"
    by simp
  have m: "largest_index (initial_payouts (of_stroops 3) lenders) = 0"
    by (simp add: largest_index_def initial_payouts_def Let_def lenders_def)
  have cs: "map contribution lenders = map Fin [20, 20, 20, 20, 20]"
    by (simp add: lenders_def)
  have "map payout (reconcile_drift (of_stroops 3) (initial_payouts (of_stroops 3) lenders)) = map of_stroops [-1, 1, 1, 1, 1]"
    using split_general(5) [OF cs _ _ _ _ _ Ps refl] by (simp add: m)
  then have "map payout (splitRepaymentAcrossLenders (of_stroops 3) lenders) = filter (jlt (Fin 0)) (map of_stroops [-1, 1, 1, 1, 1])"
    using split_general(6) [OF cs _ _ _ _ _ Ps refl] by (simp add: map_payout_filter)
  then show ?thesis
    using of_stroops_pos [of "-1"] of_stroops_pos [of 1] by (simp add: lenders_def)
qed

end
