(* ===== verification/Schema.thy ===== *)
theory Schema
  imports JsValue Money
begin

text \<open>
  The relational model: \<open>src/lib/db/schema.ts\<close>. A table is the list of its rows in
  insertion order. Money columns are integers of millionths, \<open>jsonb\<close> columns are
  JavaScript values, timestamps are milliseconds; the audit columns \<open>created_at\<close> and
  \<open>updated_at\<close>, where nothing reads them, and the columns no modelled route reads or writes are
  left out.
\<close>

subsection \<open>Enumerations\<close>

datatype app_role = RoleBorrower | RoleLender | RoleAdmin
datatype kyc_status = KycPending | KycSubmitted | KycVerified | KycRejected
datatype risk_status = RiskLow | RiskMedium | RiskHigh | RiskBlocked
datatype loan_status =
    LoanRequested | LoanApproved | LoanFunded | LoanActive | LoanRepaid | LoanDefaulted | LoanCancelled
datatype pool_status = PoolActive | PoolPaused | PoolClosed
datatype position_status = PositionActive | PositionClosed
datatype tx_status = TxPending | TxConfirmed | TxFailed | TxCancelled
datatype referral_status = ReferralPending | ReferralQualified | ReferralPaid | ReferralRejected

subsection \<open>Rows\<close>

record profile =
  profile_id :: string
  profile_role :: app_role
  profile_walletAddress :: "string option"
  profile_kycStatus :: kyc_status
  profile_riskStatus :: risk_status
  profile_regulatedPoolAccess :: bool
  profile_referralCode :: "string option"
  profile_fullName :: string
  profile_phone :: "string option"
  profile_countryCode :: "string option"
  profile_kycSubmittedAt :: "int option"
  profile_kycVerifiedAt :: "int option"
  profile_kycRejectionReason :: "string option"
  profile_kycProviderId :: "string option"
  profile_kycProviderStatus :: "string option"
  profile_createdAt :: int

record reputation_event =
  re_userId :: string
  re_sourceType :: string
  re_sourceId :: "string option"
  re_sourceKey :: "string option"
  re_pointsDelta :: int

record reputation_snapshot =
  rs_userId :: string
  rs_scoreTotal :: int
  rs_reputationLevel :: string
  rs_scoreBreakdown :: jsval

record lending_pool =
  pool_id :: string
  pool_status :: pool_status
  pool_aprBps :: int
  pool_totalLiquidity :: int
  pool_availableLiquidity :: int
  pool_totalBorrowed :: int
  pool_borrowCap :: "int option" \<comment> \<open>\<open>numeric(20, 7)\<close>: in ten-millionths\<close>
  pool_onchainPoolId :: "int option"

record pool_position =
  pos_id :: string
  pos_poolId :: string
  pos_lenderId :: string
  pos_status :: position_status
  pos_principalAmount :: int
  pos_earnedInterest :: int
  pos_withdrawnAmount :: int
  pos_closedAt :: "int option"

record loan =
  loan_id :: string
  loan_borrowerId :: string
  loan_poolId :: "string option"
  loan_status :: loan_status
  loan_principalAmount :: int
  loan_aprBps :: int
  loan_durationDays :: int
  loan_rateModel :: string
  loan_fundedAmount :: int
  loan_repaidAmount :: int
  loan_approvedAt :: "int option"
  loan_fundedAt :: "int option"
  loan_dueAt :: "int option"
  loan_defaultedAt :: "int option"
  loan_createdAt :: int
  loan_metadata :: jsval

record loan_repayment =
  rep_id :: string
  rep_loanId :: string
  rep_payerId :: string
  rep_amount :: int
  rep_paidAt :: int
  rep_txRef :: "string option"

record loan_funding =
  lf_id :: string
  lf_loanId :: string
  lf_lenderId :: string
  lf_amount :: int
  lf_txHash :: string
  lf_lenderAddress :: "string option"
  lf_fundedAt :: int

record interest_rate_config_row =
  irc_rateModel :: string
  irc_version :: int
  irc_isActive :: bool
  irc_baseAprBps :: int
  irc_minAprBps :: int
  irc_maxAprBps :: int
  irc_amountTiers :: jsval
  irc_reputationTiers :: jsval
  irc_notes :: "string option"
  irc_updatedByEmail :: "string option"
  irc_updatedAt :: string

record platform_setting_row =
  ps_settingKey :: string
  ps_valueBps :: int
  ps_version :: int
  ps_isActive :: bool
  ps_notes :: "string option"
  ps_updatedByEmail :: "string option"
  ps_updatedAt :: string

record ledger_transaction =
  lt_id :: string
  lt_userId :: string
  lt_category :: string
  lt_amount :: int
  lt_currency :: string
  lt_status :: tx_status
  lt_refType :: "string option"
  lt_refId :: "string option"
  lt_metadata :: jsval

record referral =
  ref_id :: string
  ref_referrerId :: string
  ref_refereeId :: string
  ref_referralCode :: string
  ref_status :: referral_status
  ref_qualifyingLoanId :: "string option"

record notification =
  nt_userId :: string
  nt_type :: string
  nt_title :: string

subsection \<open>The database\<close>

text \<open>
  \<open>db_uuids\<close> counts the identifiers \<open>gen_random_uuid()\<close> has given out; the generator
  itself is outside the repository and is a parameter of the operations that insert.
\<close>

record database =
  db_profiles :: "profile list"
  db_reputationEvents :: "reputation_event list"
  db_reputationSnapshots :: "reputation_snapshot list"
  db_lendingPools :: "lending_pool list"
  db_poolPositions :: "pool_position list"
  db_loans :: "loan list"
  db_loanRepayments :: "loan_repayment list"
  db_loanFundings :: "loan_funding list"
  db_interestRateConfigs :: "interest_rate_config_row list"
  db_platformSettings :: "platform_setting_row list"
  db_ledgerTransactions :: "ledger_transaction list"
  db_referrals :: "referral list"
  db_notifications :: "notification list"
  db_uuids :: nat

definition empty_db :: database where
  "empty_db = \<lparr> db_profiles = [], db_reputationEvents = [], db_reputationSnapshots = [],
     db_lendingPools = [], db_poolPositions = [], db_loans = [], db_loanRepayments = [],
     db_loanFundings = [], db_interestRateConfigs = [], db_platformSettings = [],
     db_ledgerTransactions = [], db_referrals = [], db_notifications = [], db_uuids = 0 \<rparr>"

subsection \<open>Queries\<close>

text \<open>
  \<open>select().where(p).limit(1)\<close> is \<open>find p\<close>, an insert appends, an update changes every
  row that satisfies its condition and a delete drops them.
\<close>

definition update_where :: "('r \<Rightarrow> bool) \<Rightarrow> ('r \<Rightarrow> 'r) \<Rightarrow> 'r list \<Rightarrow> 'r list" where
  "update_where p f rows = map (\<lambda>r. if p r then f r else r) rows"

definition delete_where :: "('r \<Rightarrow> bool) \<Rightarrow> 'r list \<Rightarrow> 'r list" where
  "delete_where p rows = filter (\<lambda>r. \<not> p r) rows"

lemma update_where_simps [simp]:
  "update_where p f [] = []"
  "update_where p f (r # rs) = (if p r then f r else r) # update_where p f rs"
  "update_where p f (rs @ rs') = update_where p f rs @ update_where p f rs'"
  by (simp_all add: update_where_def)

lemma length_update_where [simp]: "length (update_where p f rows) = length rows"
  by (simp add: update_where_def)

lemma update_where_none: "\<forall>r \<in> set rows. \<not> p r \<Longrightarrow> update_where p f rows = rows"
  by (induction rows) auto

lemma in_update_where: "r \<in> set (update_where p f rows) \<longleftrightarrow>
    (\<exists>r' \<in> set rows. r = (if p r' then f r' else r'))"
  by (auto simp: update_where_def)

lemma find_in_set: "find p xs = Some x \<Longrightarrow> x \<in> set xs \<and> p x"
  by (auto simp: find_Some_iff)

text \<open>
  A table with a key column: look-ups by key and their interaction with inserts.
\<close>

locale keyed_table =
  fixes key :: "'r \<Rightarrow> 'k"
begin

lemma find_key: "find (\<lambda>r. key r = k) rows = Some r \<Longrightarrow> key r = k \<and> r \<in> set rows"
  by (auto dest: find_in_set)

lemma find_insert_new:
  "k \<notin> key ` set rows \<Longrightarrow> key r = k \<Longrightarrow> find (\<lambda>r. key r = k) (rows @ [r]) = Some r"
  by (induction rows) auto

lemma find_insert_other:
  "key r \<noteq> k \<Longrightarrow> find (\<lambda>r. key r = k) (rows @ [r]) = find (\<lambda>r. key r = k) rows"
  by (induction rows) auto

lemma find_distinct:
  "distinct (map key rows) \<Longrightarrow> r \<in> set rows \<Longrightarrow> find (\<lambda>r'. key r' = key r) rows = Some r"
  by (induction rows) (auto simp: image_iff)

lemma update_absent: "k \<notin> key ` set rows \<Longrightarrow> update_where (\<lambda>r. key r = k) f rows = rows"
  by (rule update_where_none) auto

end

text \<open>
  An update of such a table by key. The contract is that the assignment leaves the key
  alone; then the keys stay distinct, the row is found changed and no other row is, and a
  column total moves by what the assignment does to that row.
\<close>

locale keyed_update = keyed_table key for key :: "'r \<Rightarrow> 'k" +
  fixes f :: "'r \<Rightarrow> 'r"
  assumes keeps_key [simp]: "key (f r) = key r"
begin

lemma keys_update [simp]: "map key (update_where p f rows) = map key rows"
  by (induction rows) simp_all

lemma find_update: "find (\<lambda>r. key r = k') (update_where (\<lambda>r. key r = k) f rows) =
    (if k' = k then map_option f (find (\<lambda>r. key r = k) rows) else find (\<lambda>r. key r = k') rows)"
  by (induction rows) auto

lemma sum_update:
  fixes g :: "'r \<Rightarrow> int"
  assumes "distinct (map key rows)" "find (\<lambda>r. key r = k) rows = Some r"
  shows "sum_list (map g (update_where (\<lambda>r. key r = k) f rows)) = sum_list (map g rows) + g (f r) - g r"
  using assms
proof (induction rows)
  case Nil
  then show ?case by simp
next
  case (Cons a rows)
  show ?case
  proof (cases "key a = k")
    case True
    with Cons.prems have "update_where (\<lambda>r. key r = k) f rows = rows" "a = r"
      by (auto intro!: update_absent)
    with True show ?thesis
      by simp
  next
    case False
    with Cons show ?thesis
      by simp
  qed
qed

end

lemma sum_update_same:
  fixes g :: "'r \<Rightarrow> int"
  assumes "\<And>r. g (f r) = g r"
  shows "sum_list (map g (update_where p f rows)) = sum_list (map g rows)"
  using assms by (induction rows) simp_all

interpretation loans_tbl: keyed_table loan_id .
interpretation pools_tbl: keyed_table pool_id .
interpretation positions_tbl: keyed_table pos_id .
interpretation ledger_tbl: keyed_table lt_id .

end
