(* ===== verification/Payment.thy ===== *)
theory Payment
  imports JsValue Money
begin

text \<open>
  Verification of a client-submitted payment against Horizon:
  \<open>src/lib/stellar/verify-payment.ts\<close>. Horizon is outside the repository; it is the
  parameter \<open>fetch\<close>, which answers a URL with a thrown error, a status that is not 2xx,
  or a decoded body. The clock is the parameter \<open>now\<close>, in milliseconds.
\<close>

definition AMOUNT_TOLERANCE :: jsnum where
  "AMOUNT_TOLERANCE = to_num (1 / 10 ^ 7)"

record expected_payment =
  destination :: string
  minAmount :: jsnum

record verify_params =
  vp_txHash :: string
  vp_expectedSource :: string
  vp_expectedPayments :: "expected_payment list"
  vp_expectedMemo :: "string option"
  vp_allowOtherDestinations :: bool
  vp_maxAgeSeconds :: "jsnum option"
  vp_horizonUrl :: string

record horizon_tx =
  tx_successful :: bool
  tx_source_account :: string
  tx_memo_type :: "string option"
  tx_memo :: "string option"
  tx_ledger :: int
  tx_created_at :: string

record horizon_op =
  op_type :: string
  op_to :: "string option"
  op_amount :: "string option"
  op_asset_type :: "string option"
  op_account :: "string option"
  op_starting_balance :: "string option"

text \<open>What \<open>fetch\<close> and the decoding of its body give.\<close>

datatype 'a http = Threw string | BadStatus int | Body 'a

record horizon =
  get_tx :: "string \<Rightarrow> horizon_tx http"
  get_ops :: "string \<Rightarrow> horizon_op list option http"

datatype verify_reason =
    InvalidHash
  | TxNotFound
  | HorizonStatus int
  | HorizonUnreachable string
  | NotSuccessful
  | WrongSource
  | WrongMemo
  | TooOld
  | OpsStatus int
  | OpsUnreachable string
  | PaidTooLittle jsnum string jsnum
  | StrayDestination

record verified_payment =
  v_txHash :: string
  v_source :: string
  v_memo :: "string option"
  v_ledger :: int
  v_closedAt :: string
  v_received :: "(string \<times> jsnum) list"
  v_totalNative :: jsnum

text \<open>A failure carries the HTTP status the route answers with.\<close>

type_synonym verify_result = "(int \<times> verify_reason) + verified_payment"

subsection \<open>Hash syntax and memos\<close>

definition isPlausibleTxHash :: "jsval \<Rightarrow> bool" where
  "isPlausibleTxHash value =
     (case value of
        JStr s \<Rightarrow> (let t = js_lower (js_trim s) in length t = 64 \<and> list_all is_hex_lower t)
      | _ \<Rightarrow> False)"

definition memo_fund :: "string \<Rightarrow> string" where
  "memo_fund loanId = ''TL-FUND:'' @ take 12 loanId"

definition memo_deposit :: "string \<Rightarrow> string" where
  "memo_deposit poolId = ''TL-DEPOSIT:'' @ take 12 poolId"

definition memo_repay :: "string \<Rightarrow> string" where
  "memo_repay loanId = ''TL-RPY:'' @ take 12 loanId"

definition memo_withdraw :: "string \<Rightarrow> string" where
  "memo_withdraw positionId = ''TL-WDR:'' @ take 12 positionId"

subsection \<open>Credits per destination\<close>

text \<open>\<open>received[k] = (received[k] ?? 0) + n\<close> on an object whose keys keep insertion order\<close>

fun credit :: "(string \<times> jsnum) list \<Rightarrow> string \<Rightarrow> jsnum \<Rightarrow> (string \<times> jsnum) list" where
  "credit [] k n = [(k, jadd (Fin 0) n)]"
| "credit ((k', m) # r) k n = (if k' = k then (k', jadd m n) # r else (k', m) # credit r k n)"

definition truthy_opt :: "string option \<Rightarrow> bool" where
  "truthy_opt s = (s \<noteq> None \<and> s \<noteq> Some [])"

definition credit_op :: "(string \<times> jsnum) list \<Rightarrow> horizon_op \<Rightarrow> (string \<times> jsnum) list" where
  "credit_op received op =
     (if op_type op = ''payment'' \<and> op_asset_type op = Some ''native'' \<and> truthy_opt (op_to op)
          \<and> truthy_opt (op_amount op)
      then credit received (the (op_to op)) (string_to_number (the (op_amount op)))
      else if op_type op = ''create_account'' \<and> truthy_opt (op_account op)
          \<and> truthy_opt (op_starting_balance op)
      then credit received (the (op_account op)) (string_to_number (the (op_starting_balance op)))
      else received)"

definition summarisePayments :: "horizon_op list \<Rightarrow> (string \<times> jsnum) list" where
  "summarisePayments ops = foldl credit_op [] ops"

definition received_at :: "(string \<times> jsnum) list \<Rightarrow> string \<Rightarrow> jsnum" where
  "received_at received d = (case map_of received d of Some n \<Rightarrow> n | None \<Rightarrow> Fin 0)"

subsection \<open>Dates\<close>

text \<open>
  \<open>new Date(s).getTime()\<close> on the format Horizon emits, \<open>YYYY-MM-DDTHH:MM:SSZ\<close> with an
  optional fraction; any other text is an invalid date here.
\<close>

definition days_from_civil :: "int \<Rightarrow> int \<Rightarrow> int \<Rightarrow> int" where
  "days_from_civil y m d =
     (let y' = (if m \<le> 2 then y - 1 else y);
          era = y' div 400;
          yoe = y' - era * 400;
          doy = (153 * (if 2 < m then m - 3 else m + 9) + 2) div 5 + d - 1;
          doe = yoe * 365 + yoe div 4 - yoe div 100 + doy
      in era * 146097 + doe - 719468)"

definition fixed_digits :: "nat \<Rightarrow> string \<Rightarrow> int option" where
  "fixed_digits n s =
     (if length s = n \<and> list_all is_digit s then Some (fst (read_digits 0 0 s)) else None)"

definition fraction_ms :: "string \<Rightarrow> int option" where
  "fraction_ms s =
     (if s = ''Z'' then Some 0
      else case s of
        CHR ''.'' # ds \<Rightarrow>
          (let fs = butlast ds
           in if ds \<noteq> [] \<and> last ds = CHR ''Z'' \<and> fs \<noteq> [] \<and> list_all is_digit fs
              then Some (fst (read_digits 0 0 (take 3 (fs @ ''00'')))) else None)
      | _ \<Rightarrow> None)"

definition date_ms :: "string \<Rightarrow> jsnum" where
  "date_ms s =
     (case (fixed_digits 4 (take 4 s), fixed_digits 2 (take 2 (drop 5 s)), fixed_digits 2 (take 2 (drop 8 s)),
            fixed_digits 2 (take 2 (drop 11 s)), fixed_digits 2 (take 2 (drop 14 s)),
            fixed_digits 2 (take 2 (drop 17 s)), fraction_ms (drop 19 s)) of
        (Some y, Some mo, Some d, Some h, Some mi, Some se, Some ms) \<Rightarrow>
          if s ! 4 = CHR ''-'' \<and> s ! 7 = CHR ''-'' \<and> s ! 10 = CHR ''T'' \<and> s ! 13 = CHR '':'' \<and> s ! 16 = CHR '':''
             \<and> 1 \<le> mo \<and> mo \<le> 12 \<and> 1 \<le> d \<and> d \<le> 31 \<and> h < 24 \<and> mi < 60 \<and> se < 60
          then Fin (of_int ((((days_from_civil y mo d * 24 + h) * 60 + mi) * 60 + se) * 1000 + ms))
          else NaN
      | _ \<Rightarrow> NaN)"

subsection \<open>The verification\<close>

definition strip_slash :: "string \<Rightarrow> string" where
  "strip_slash s = (if s \<noteq> [] \<and> last s = CHR ''/'' then butlast s else s)"

definition tx_url :: "verify_params \<Rightarrow> string \<Rightarrow> string" where
  "tx_url p h = strip_slash (vp_horizonUrl p) @ ''/transactions/'' @ h"

definition ops_url :: "verify_params \<Rightarrow> string \<Rightarrow> string" where
  "ops_url p h = tx_url p h @ ''/operations?limit=200''"

definition text_memo :: "horizon_tx \<Rightarrow> string option" where
  "text_memo tx = (if tx_memo_type tx = Some ''text'' then tx_memo tx else None)"

definition check_tx :: "jsnum \<Rightarrow> verify_params \<Rightarrow> horizon_tx \<Rightarrow> (int \<times> verify_reason) + unit" where
  "check_tx now p tx =
     (if \<not> tx_successful tx then Inl (422, NotSuccessful)
      else if tx_source_account tx \<noteq> vp_expectedSource p then Inl (422, WrongSource)
      else if (case vp_expectedMemo p of
                 None \<Rightarrow> False
               | Some m \<Rightarrow> (case text_memo tx of None \<Rightarrow> [] | Some t \<Rightarrow> t) \<noteq> m)
        then Inl (422, WrongMemo)
      else
        (let maxAge = (case vp_maxAgeSeconds p of Some a \<Rightarrow> a | None \<Rightarrow> Fin (7 * 24 * 60 * 60));
             ageSeconds = jdiv (jsub now (date_ms (tx_created_at tx))) (Fin 1000)
         in if is_finite ageSeconds \<and> jlt maxAge ageSeconds then Inl (422, TooOld) else Inr ()))"

definition underpaid :: "(string \<times> jsnum) list \<Rightarrow> expected_payment \<Rightarrow> bool" where
  "underpaid received e = jlt (jadd (received_at received (destination e)) AMOUNT_TOLERANCE) (minAmount e)"

definition check_payments ::
    "verify_params \<Rightarrow> (string \<times> jsnum) list \<Rightarrow> (int \<times> verify_reason) + unit" where
  "check_payments p received =
     (case find (underpaid received) (vp_expectedPayments p) of
        Some e \<Rightarrow> Inl (422, PaidTooLittle (fixed_num 7 (received_at received (destination e)))
                         (take 6 (destination e)) (fixed_num 7 (minAmount e)))
      | None \<Rightarrow>
          if \<not> vp_allowOtherDestinations p
             \<and> truthy_opt (find (\<lambda>d. d \<notin> set (map destination (vp_expectedPayments p))) (map fst received))
          then Inl (422, StrayDestination) else Inr ())"

definition verifyPaymentTransaction ::
    "horizon \<Rightarrow> jsnum \<Rightarrow> verify_params \<Rightarrow> verify_result" where
  "verifyPaymentTransaction hz now p =
     (let txHash = js_lower (js_trim (vp_txHash p))
      in if \<not> isPlausibleTxHash (JStr txHash) then Inl (400, InvalidHash)
         else case get_tx hz (tx_url p txHash) of
           Threw m \<Rightarrow> Inl (502, HorizonUnreachable m)
         | BadStatus st \<Rightarrow> if st = 404 then Inl (404, TxNotFound) else Inl (502, HorizonStatus st)
         | Body tx \<Rightarrow>
             bindE (check_tx now p tx) (\<lambda>_.
               case get_ops hz (ops_url p txHash) of
                 Threw m \<Rightarrow> Inl (502, OpsUnreachable m)
               | BadStatus st \<Rightarrow> Inl (502, OpsStatus st)
               | Body records \<Rightarrow>
                   (let received = summarisePayments (case records of Some ops \<Rightarrow> ops | None \<Rightarrow> [])
                    in bindE (check_payments p received) (\<lambda>_.
                         Inr \<lparr> v_txHash = txHash, v_source = tx_source_account tx, v_memo = text_memo tx,
                               v_ledger = tx_ledger tx, v_closedAt = tx_created_at tx,
                               v_received = received,
                               v_totalNative = foldl jadd (Fin 0) (map snd received) \<rparr>))))"

subsection \<open>What a verified payment guarantees\<close>

text \<open>
  The specification: which account an operation pays in XLM and how much, and what an account
  received in all, in the order of the operations.
\<close>

definition paid_to :: "horizon_op \<Rightarrow> (string \<times> jsnum) option" where
  "paid_to op =
     (if op_type op = ''payment'' \<and> op_asset_type op = Some ''native'' \<and> truthy_opt (op_to op)
          \<and> truthy_opt (op_amount op)
      then Some (the (op_to op), string_to_number (the (op_amount op)))
      else if op_type op = ''create_account'' \<and> truthy_opt (op_account op)
          \<and> truthy_opt (op_starting_balance op)
      then Some (the (op_account op), string_to_number (the (op_starting_balance op)))
      else None)"

definition amounts_to :: "string \<Rightarrow> horizon_op list \<Rightarrow> jsnum list" where
  "amounts_to d ops = map snd (filter (\<lambda>x. fst x = d) (List.map_filter paid_to ops))"

definition total_to :: "string \<Rightarrow> horizon_op list \<Rightarrow> jsnum" where
  "total_to d ops = foldl jadd (Fin 0) (amounts_to d ops)"

lemma credit_op_paid: "credit_op r op = (case paid_to op of Some (d, n) \<Rightarrow> credit r d n | None \<Rightarrow> r)"
  by (simp add: credit_op_def paid_to_def)

lemma received_at_credit: "received_at (credit r d n) d' = (if d' = d then jadd (received_at r d) n else received_at r d')"
  by (induction r d n rule: credit.induct) (auto simp: received_at_def)

lemma keys_credit: "fst ` set (credit r d n) = insert d (fst ` set r)"
  by (induction r d n rule: credit.induct) auto

lemma received_at_foldl:
  "received_at (foldl credit_op r ops) d = foldl jadd (received_at r d) (amounts_to d ops)"
  by (induction ops arbitrary: r)
    (auto simp: credit_op_paid amounts_to_def List.map_filter_def received_at_credit split: option.splits)

lemma received_summary: "received_at (summarisePayments ops) d = total_to d ops"
  using received_at_foldl [of "[]" ops d] by (simp add: summarisePayments_def total_to_def received_at_def)

lemma keys_foldl: "fst ` set (foldl credit_op r ops) = fst ` set r \<union> {d. \<exists>op \<in> set ops. \<exists>n. paid_to op = Some (d, n)}"
  by (induction ops arbitrary: r) (auto simp: credit_op_paid keys_credit split: option.splits)

lemma keys_summary: "fst ` set (summarisePayments ops) = {d. \<exists>op \<in> set ops. \<exists>n. paid_to op = Some (d, n)}"
  by (simp add: summarisePayments_def keys_foldl)

lemma paid_to_nonempty: "paid_to op = Some (d, n) \<Longrightarrow> d \<noteq> []"
  by (auto simp: paid_to_def truthy_opt_def split: if_splits)

lemma truthy_find:
  assumes "[] \<notin> set ds" "\<not> truthy_opt (find P ds)" "d \<in> set ds"
  shows "\<not> P d"
  using assms by (auto simp: truthy_opt_def find_None_iff find_Some_iff dest: nth_mem)

lemma check_payments_sound:
  assumes "check_payments p (summarisePayments ops) = Inr ()"
  shows "\<forall>e \<in> set (vp_expectedPayments p). \<not> jlt (jadd (total_to (destination e) ops) AMOUNT_TOLERANCE) (minAmount e)"
    and "vp_allowOtherDestinations p \<or>
      (\<forall>op \<in> set ops. \<forall>d n. paid_to op = Some (d, n) \<longrightarrow> d \<in> destination ` set (vp_expectedPayments p))"
proof -
  show "\<forall>e \<in> set (vp_expectedPayments p). \<not> jlt (jadd (total_to (destination e) ops) AMOUNT_TOLERANCE) (minAmount e)"
    using assms
    by (auto simp: check_payments_def underpaid_def received_summary find_None_iff split: option.splits)
  have "[] \<notin> set (map fst (summarisePayments ops))"
    using keys_summary [of ops] paid_to_nonempty by auto
  moreover have "vp_allowOtherDestinations p
      \<or> \<not> truthy_opt (find (\<lambda>d. d \<notin> set (map destination (vp_expectedPayments p))) (map fst (summarisePayments ops)))"
    using assms by (auto simp: check_payments_def split: option.splits if_splits)
  ultimately have "vp_allowOtherDestinations p
      \<or> (\<forall>d \<in> set (map fst (summarisePayments ops)). d \<in> set (map destination (vp_expectedPayments p)))"
    using truthy_find by blast
  then show "vp_allowOtherDestinations p \<or>
      (\<forall>op \<in> set ops. \<forall>d n. paid_to op = Some (d, n) \<longrightarrow> d \<in> destination ` set (vp_expectedPayments p))"
    unfolding set_map keys_summary by blast
qed

definition records_of :: "horizon_op list option \<Rightarrow> horizon_op list" where
  "records_of r = (case r of Some ops \<Rightarrow> ops | None \<Rightarrow> [])"

text \<open>A successful verification, spelled out.\<close>

lemma verify_Inr:
  assumes "verifyPaymentTransaction hz now p = Inr v"
  obtains h tx r where "h = js_lower (js_trim (vp_txHash p))" "isPlausibleTxHash (JStr h)"
    "get_tx hz (tx_url p h) = Body tx" "check_tx now p tx = Inr ()" "get_ops hz (ops_url p h) = Body r"
    "check_payments p (summarisePayments (records_of r)) = Inr ()"
    "v_txHash v = h" "v_source v = tx_source_account tx" "v_received v = summarisePayments (records_of r)"
    "v_totalNative v = foldl jadd (Fin 0) (map snd (summarisePayments (records_of r)))"
  using assms
  by (auto simp: verifyPaymentTransaction_def Let_def bindE_Inr_iff records_of_def split: if_splits http.splits
      option.splits intro: that)

lemma check_tx_sound:
  assumes "check_tx now p tx = Inr ()"
  shows "tx_successful tx" "tx_source_account tx = vp_expectedSource p"
    "vp_expectedMemo p = Some m \<Longrightarrow> m \<noteq> [] \<Longrightarrow> tx_memo_type tx = Some ''text'' \<and> tx_memo tx = Some m"
  using assms by (auto simp: check_tx_def text_memo_def split: if_splits option.splits)

text \<open>
  C3: a payment the verifier accepts is a successful transaction of the expected account with the
  expected memo; every expected destination received the sum it was owed, up to the
  tolerance, and, unless others are allowed, no operation paid anyone else.
\<close>

theorem verifyPaymentTransaction_sound:
  assumes "verifyPaymentTransaction hz now p = Inr v"
  shows "\<exists>tx r. get_tx hz (tx_url p (v_txHash v)) = Body tx \<and> get_ops hz (ops_url p (v_txHash v)) = Body r
    \<and> tx_successful tx \<and> tx_source_account tx = vp_expectedSource p \<and> v_source v = vp_expectedSource p
    \<and> (\<forall>m. vp_expectedMemo p = Some m \<and> m \<noteq> [] \<longrightarrow> tx_memo_type tx = Some ''text'' \<and> tx_memo tx = Some m)
    \<and> (\<forall>e \<in> set (vp_expectedPayments p).
         \<not> jlt (jadd (total_to (destination e) (records_of r)) AMOUNT_TOLERANCE) (minAmount e))
    \<and> (vp_allowOtherDestinations p \<or> (\<forall>op \<in> set (records_of r). \<forall>d n.
         paid_to op = Some (d, n) \<longrightarrow> d \<in> destination ` set (vp_expectedPayments p)))"
  using assms
proof (rule verify_Inr)
  fix h tx r
  assume "get_tx hz (tx_url p h) = Body tx" "get_ops hz (ops_url p h) = Body r" "v_txHash v = h"
    "v_source v = tx_source_account tx"
    and tx: "check_tx now p tx = Inr ()" and paid: "check_payments p (summarisePayments (records_of r)) = Inr ()"
  then show ?thesis
    using check_tx_sound [OF tx] check_payments_sound [OF paid]
    by (intro exI [of _ tx] exI [of _ r]) simp
qed

text \<open>Case and surrounding blanks of the hash do not matter to the verifier.\<close>

lemma verify_hash_normalised:
  assumes "js_lower (js_trim h) = js_lower (js_trim (vp_txHash p))"
  shows "verifyPaymentTransaction hz now (p\<lparr>vp_txHash := h\<rparr>) = verifyPaymentTransaction hz now p"
proof -
  have "check_tx now (p\<lparr>vp_txHash := h\<rparr>) tx = check_tx now p tx"
    "check_payments (p\<lparr>vp_txHash := h\<rparr>) r = check_payments p r"
    "tx_url (p\<lparr>vp_txHash := h\<rparr>) u = tx_url p u" "ops_url (p\<lparr>vp_txHash := h\<rparr>) u = ops_url p u" for tx r u
    by (simp_all add: check_tx_def check_payments_def tx_url_def ops_url_def)
  note same = this
  show ?thesis
    unfolding verifyPaymentTransaction_def same using assms by simp
qed

end
