(* ===== verification/Server.thy ===== *)
theory Server
  imports Schema Payment
begin

text \<open>
  What every route handler shares: the environment it runs in, the session, the answer
  it gives, request validation (\<open>src/lib/http/request-validation.ts\<close>), notifications
  (\<open>src/lib/notifications.ts\<close>), the KYC guard (\<open>src/lib/kyc/middleware.ts\<close>) and the role
  rules (\<open>src/lib/auth/roles.ts\<close>).

  Code outside the repository is a field of the environment: Horizon, the Soroban RPC and
  SDK, Postgres' \<open>uuid\<close> parser and generator, the rate limiter's verdict and the session
  cookie's owner. Environment variables are strings, or \<open>None\<close> when unset.
\<close>

subsection \<open>The environment\<close>

record session_user =
  user_id :: string
  user_walletAddress :: string
  user_role :: app_role
  user_email :: "string option"

text \<open>A decoded transaction, as the SDK's \<open>TransactionBuilder.fromXDR\<close> gives it.\<close>

datatype host_function =
    InvokeContract string string \<comment> \<open>contract address and function name\<close>
  | OtherHostFunction

datatype operation =
    InvokeHostFunction "host_function option"
  | OtherOperation

record decoded_tx =
  dt_source :: string
  dt_operations :: "operation list"

datatype rpc_status = RpcSuccess | RpcFailed | RpcNotFound

record rpc_lookup =
  lk_status :: rpc_status
  lk_envelopeXdr :: "string option"
  lk_returnValue :: "string option"

datatype chain_arg =
    ArgAddr string
  | ArgU32 int
  | ArgI128 int
  | ArgU64 int
  | ArgMap "(string \<times> int) list"
  | ArgEnum string "chain_arg list"

text \<open>Every call to the SDK may throw; a thrown error is \<open>Inl\<close> of its message.\<close>

record chain =
  ch_getTransaction :: "string \<Rightarrow> string + rpc_lookup"
  ch_fromXDR :: "string \<Rightarrow> string + decoded_tx"
  ch_scValToNative :: "string \<Rightarrow> string + jsval"
  ch_invokeReadOnly :: "string \<Rightarrow> string \<Rightarrow> chain_arg list \<Rightarrow> string \<Rightarrow> string + jsval"
  ch_invokeSigned :: "string \<Rightarrow> string \<Rightarrow> chain_arg list \<Rightarrow> string + (string \<times> jsval)"
  ch_adminPublicKey :: "string option" \<comment> \<open>the public key of \<open>ADMIN_SECRET_KEY\<close>, when it is set\<close>

record payout_result =
  po_hash :: string
  po_source :: string

datatype payout_error = PlatformWalletError string | PayoutError string

record env =
  env_rateLimited :: bool
  env_session :: "session_user option"
  env_dbAvailable :: bool
  env_now :: int
  env_pgUuid :: "string \<Rightarrow> string option"
  env_genUuid :: "nat \<Rightarrow> string"
  env_horizon :: horizon
  env_horizonUrl :: string
  env_chain :: chain
  env_submitPayout :: "string \<Rightarrow> jsnum \<Rightarrow> string \<Rightarrow> string + string"
  env_lifecycleVar :: "string option"
  env_lendingContractId :: "string option"
  env_pooledLendingContractId :: "string option"
  env_adminAddress :: "string option"
  env_platformAddress :: "string option" \<comment> \<open>\<open>NEXT_PUBLIC_PLATFORM_STELLAR_ADDRESS\<close>\<close>
  env_platformFeeWallet :: "string option" \<comment> \<open>\<open>PLATFORM_FEE_WALLET\<close>\<close>
  env_platformWalletKey :: "string option option" \<comment> \<open>\<open>PLATFORM_WALLET_SECRET\<close>: unset, invalid, or the public key it signs for\<close>
  env_adminEmails :: "string option" \<comment> \<open>\<open>TRADE_VAULT_ADMIN_EMAILS\<close>\<close>
  env_jsonParse :: "string \<Rightarrow> jsval option"

subsection \<open>Answers and effects\<close>

text \<open>
  A handler answers with a status and a body, or redirects (the redirect error is
  rethrown by every handler's \<open>catch\<close>). A thrown error that reaches the outer \<open>catch\<close> is
  the answer 500.
\<close>

datatype 'b answer = Redirect string | Answer int 'b

text \<open>
  The state a handler changes: the database, and the calls it has made outside, newest
  last. The chain and the wallet answer through the environment; the log is what they
  were asked to do.
\<close>

datatype effect =
    ChainCall string string "chain_arg list"
  | WalletPayout string jsnum string

record world =
  w_db :: database
  w_log :: "effect list"

definition set_db :: "(database \<Rightarrow> database) \<Rightarrow> world \<Rightarrow> world" where
  "set_db f w = w\<lparr>w_db := f (w_db w)\<rparr>"

definition log_effect :: "effect \<Rightarrow> world \<Rightarrow> world" where
  "log_effect e w = w\<lparr>w_log := w_log w @ [e]\<rparr>"

lemma world_simps [simp]:
  "w_db (set_db f w) = f (w_db w)"
  "w_log (set_db f w) = w_log w"
  "w_db (log_effect e w) = w_db w"
  "w_log (log_effect e w) = w_log w @ [e]"
  by (simp_all add: set_db_def log_effect_def)

subsection \<open>Request validation\<close>

text \<open>\<open>typeof value === "string" && value.trim().length > 0 && value.length <= maxLength\<close>\<close>

definition isBoundedString :: "jsval \<Rightarrow> nat \<Rightarrow> bool" where
  "isBoundedString value maxLength =
     (case value of JStr s \<Rightarrow> js_trim s \<noteq> [] \<and> length s \<le> maxLength | _ \<Rightarrow> False)"

definition is_base32 :: "char \<Rightarrow> bool" where
  "is_base32 c = (let n = (of_char c :: nat) in (65 \<le> n \<and> n \<le> 90) \<or> (50 \<le> n \<and> n \<le> 55))"

text \<open>\<open>/^G[A-Z2-7]{55}$/\<close>\<close>

definition isValidStellarAddress :: "jsval \<Rightarrow> bool" where
  "isValidStellarAddress value =
     (case value of JStr (c # s) \<Rightarrow> c = CHR ''G'' \<and> length s = 55 \<and> list_all is_base32 s | _ \<Rightarrow> False)"

text \<open>
  \<open>parseBoundedInteger(value, fallback, minimum, maximum)\<close>: \<open>None\<close> for the \<open>null\<close>
  answer. A string of digits is a whole number; it is safe below \<open>2 ^ 53\<close>.
\<close>

definition parseBoundedInteger :: "string option \<Rightarrow> int \<Rightarrow> int \<Rightarrow> int \<Rightarrow> int option" where
  "parseBoundedInteger value fallback minimum maximum =
     (case value of
        None \<Rightarrow> Some fallback
      | Some s \<Rightarrow>
          if js_trim s = [] then Some fallback
          else if \<not> list_all is_digit s then None
          else (let parsed = fst (read_digits 0 0 s)
                in if parsed < 2 ^ 53 \<and> minimum \<le> parsed \<and> parsed \<le> maximum then Some parsed else None))"

subsection \<open>Roles\<close>

definition isUserRole :: "jsval \<Rightarrow> bool" where
  "isUserRole value = (value = JStr ''borrower'' \<or> value = JStr ''lender'')"

definition normalizeUserRole :: "jsval \<Rightarrow> app_role" where
  "normalizeUserRole value =
     (if value = JStr ''lender'' then RoleLender else RoleBorrower)"

definition getDashboardPath :: "app_role \<Rightarrow> string" where
  "getDashboardPath role = (if role = RoleLender then ''/dashboard/lender'' else ''/dashboard/borrower'')"

text \<open>\<open>requireAuthenticatedUser(expectedRole)\<close>: the user, or where to redirect to.\<close>

definition requireAuthenticatedUser :: "env \<Rightarrow> app_role \<Rightarrow> string + session_user" where
  "requireAuthenticatedUser e expected =
     (case env_session e of
        None \<Rightarrow> Inl ''/auth''
      | Some u \<Rightarrow> if user_role u \<noteq> expected then Inl (getDashboardPath (user_role u)) else Inr u)"

text \<open>\<open>requireApiUser()\<close>, for any role: \<open>None\<close> is the \<open>UnauthorizedError\<close> it throws.\<close>

definition requireApiUser :: "env \<Rightarrow> session_user option" where
  "requireApiUser e = env_session e"

text \<open>\<open>value.split(",")\<close>\<close>

fun split_commas :: "string \<Rightarrow> string list" where
  "split_commas [] = [[]]"
| "split_commas (c # s) =
     (if c = CHR '','' then [] # split_commas s
      else case split_commas s of [] \<Rightarrow> [[c]] | w # ws \<Rightarrow> (c # w) # ws)"

definition parseAllowedAdmins :: "env \<Rightarrow> string set" where
  "parseAllowedAdmins e =
     (case env_adminEmails e of
        None \<Rightarrow> {}
      | Some value \<Rightarrow> set (filter (\<lambda>item. item \<noteq> []) (map (\<lambda>item. js_lower (js_trim item)) (split_commas value))))"

definition isTradeVaultAdminUser :: "env \<Rightarrow> session_user \<Rightarrow> bool" where
  "isTradeVaultAdminUser e user =
     (let email = (case user_email user of None \<Rightarrow> [] | Some m \<Rightarrow> js_lower m);
          wallet = js_lower (user_walletAddress user)
      in (email \<noteq> [] \<and> email \<in> parseAllowedAdmins e) \<or> (wallet \<noteq> [] \<and> wallet \<in> parseAllowedAdmins e))"

definition db_admin :: "env \<Rightarrow> session_user \<Rightarrow> database \<Rightarrow> bool" where
  "db_admin e user db =
     (env_dbAvailable e \<and>
      (case find (\<lambda>p. profile_id p = user_id user) (db_profiles db) of
         Some p \<Rightarrow> profile_role p = RoleAdmin | None \<Rightarrow> False))"

text \<open>The JSON routes' guard throws (\<open>None\<close>), the pages' guard redirects (\<open>Inl\<close>).\<close>

definition requireApiAdmin :: "env \<Rightarrow> database \<Rightarrow> session_user option" where
  "requireApiAdmin e db =
     Option.bind (requireApiUser e)
       (\<lambda>user. if isTradeVaultAdminUser e user \<and> db_admin e user db then Some user else None)"

definition requireTradeVaultAdmin :: "env \<Rightarrow> database \<Rightarrow> string + session_user" where
  "requireTradeVaultAdmin e db =
     (case env_session e of
        None \<Rightarrow> Inl ''/auth''
      | Some user \<Rightarrow>
          if isTradeVaultAdminUser e user \<and> db_admin e user db then Inr user
          else Inl (getDashboardPath (user_role user)))"

subsection \<open>Notifications\<close>

text \<open>The message text is left out: it is never read back.\<close>

definition createNotification :: "string \<Rightarrow> string \<Rightarrow> string \<Rightarrow> database \<Rightarrow> database" where
  "createNotification userId title type db =
     db\<lparr>db_notifications := db_notifications db @ [\<lparr>nt_userId = userId, nt_type = type, nt_title = title\<rparr>]\<rparr>"

subsection \<open>The KYC guard\<close>

datatype kyc_reason =
    ProfileNotFound
  | AccountBlocked
  | KycRequired
  | KycUnderReview
  | KycWasRejected
  | RegulatedAccessRequired

datatype kyc_guard_result =
    KycAllowed kyc_status
  | KycDenied kyc_reason "kyc_status option"

definition requireKycVerified :: "string \<Rightarrow> database \<Rightarrow> bool \<Rightarrow> kyc_guard_result" where
  "requireKycVerified userId db regulatedPoolOnly =
     (case find (\<lambda>p. profile_id p = userId) (db_profiles db) of
        None \<Rightarrow> KycDenied ProfileNotFound None
      | Some p \<Rightarrow>
          if profile_riskStatus p = RiskBlocked then KycDenied AccountBlocked (Some (profile_kycStatus p))
          else (case profile_kycStatus p of
              KycPending \<Rightarrow> KycDenied KycRequired (Some KycPending)
            | KycSubmitted \<Rightarrow> KycDenied KycUnderReview (Some KycSubmitted)
            | KycRejected \<Rightarrow> KycDenied KycWasRejected (Some KycRejected)
            | KycVerified \<Rightarrow>
                if regulatedPoolOnly \<and> \<not> profile_regulatedPoolAccess p
                then KycDenied RegulatedAccessRequired (Some KycVerified)
                else KycAllowed KycVerified))"

definition isKycVerified :: "string \<Rightarrow> database \<Rightarrow> bool" where
  "isKycVerified userId db =
     (case find (\<lambda>p. profile_id p = userId) (db_profiles db) of
        None \<Rightarrow> False | Some p \<Rightarrow> profile_kycStatus p = KycVerified)"

lemma requireKycVerified_allowed:
  "requireKycVerified u db r = KycAllowed k \<longleftrightarrow>
     (k = KycVerified \<and> (\<exists>p. find (\<lambda>p. profile_id p = u) (db_profiles db) = Some p
        \<and> profile_kycStatus p = KycVerified \<and> profile_riskStatus p \<noteq> RiskBlocked
        \<and> (r \<longrightarrow> profile_regulatedPoolAccess p)))"
  by (auto simp: requireKycVerified_def split: option.splits kyc_status.splits)

text \<open>A wallet the caller may pay from: the one signed in with, or the profile's.\<close>

definition profile_wallet :: "string \<Rightarrow> database \<Rightarrow> string option" where
  "profile_wallet userId db =
     Option.bind (find (\<lambda>p. profile_id p = userId) (db_profiles db)) profile_walletAddress"

definition linked_wallets :: "session_user \<Rightarrow> string option \<Rightarrow> string list" where
  "linked_wallets u saved =
     filter (\<lambda>w. w \<noteq> []) (user_walletAddress u # (case saved of None \<Rightarrow> [] | Some w \<Rightarrow> [w]))"

text \<open>\<open>s ?? ""\<close>\<close>

definition opt_string :: "string option \<Rightarrow> string" where
  "opt_string s = (case s of Some t \<Rightarrow> t | None \<Rightarrow> [])"

text \<open>The text of a metadata field: \<open>metadata->>key\<close>. The routes write strings there.\<close>

definition meta_text :: "jsval \<Rightarrow> string \<Rightarrow> string option" where
  "meta_text m k = js_string (js_get m k)"

end
