(* ===== verification/FundingDb.thy ===== *)
theory FundingDb
  imports Server
begin

text \<open>
  The database functions behind the loan routes,
  \<open>src/drizzle/0001_functions_and_triggers.sql\<close>: \<open>record_loan_funding\<close>, which records a
  contribution under a row lock and activates the loan when it is full,
  \<open>qualify_referral\<close>, and the trigger that keeps the reputation snapshot in step with the
  events. Each runs as one transaction, so one call is one step.
\<close>

subsection \<open>\<open>record_loan_funding\<close>\<close>

datatype rlf_error =
    RlfNotPositive
  | RlfHashRequired
  | RlfLoanNotFound
  | RlfNotAvailable loan_status
  | RlfOwnLoan
  | RlfAlreadyFullyFunded
  | RlfExceedsRemaining rat int
  | RlfDuplicateTxHash
  | RlfNumericOverflow

record rlf_row =
  rlf_loan_id :: string
  rlf_status :: loan_status
  rlf_principal_amount :: int
  rlf_funded_amount :: int
  rlf_remaining_amount :: int
  rlf_is_fully_funded :: bool
  rlf_funding_id :: string

text \<open>\<open>trim\<close> of SQL strips spaces only.\<close>

definition sql_trim :: "string \<Rightarrow> string" where
  "sql_trim s = rev (dropWhile (\<lambda>c. c = CHR '' '') (rev (dropWhile (\<lambda>c. c = CHR '' '') s)))"

definition day_ms :: int where
  "day_ms = 24 * 60 * 60 * 1000"

definition coalesce :: "'a option \<Rightarrow> 'a \<Rightarrow> 'a option" where
  "coalesce a b = (case a of None \<Rightarrow> Some b | Some x \<Rightarrow> Some x)"

text \<open>What the update does to the loan's row, in both branches.\<close>

definition fund_row :: "int \<Rightarrow> int \<Rightarrow> loan \<Rightarrow> loan" where
  "fund_row v_new_total p_funded_at l =
     (if loan_principalAmount l \<le> v_new_total
      then l\<lparr>loan_fundedAmount := v_new_total, loan_status := LoanActive,
             loan_approvedAt := coalesce (loan_approvedAt l) p_funded_at,
             loan_fundedAt := coalesce (loan_fundedAt l) p_funded_at,
             loan_dueAt := Some (p_funded_at + loan_durationDays l * day_ms)\<rparr>
      else l\<lparr>loan_fundedAmount := v_new_total\<rparr>)"

definition rlf_result :: "loan \<Rightarrow> string \<Rightarrow> rlf_row" where
  "rlf_result l funding_id =
     \<lparr> rlf_loan_id = loan_id l, rlf_status = loan_status l,
       rlf_principal_amount = loan_principalAmount l, rlf_funded_amount = loan_fundedAmount l,
       rlf_remaining_amount = max (loan_principalAmount l - loan_fundedAmount l) 0,
       rlf_is_fully_funded = (loan_principalAmount l \<le> loan_fundedAmount l),
       rlf_funding_id = funding_id \<rparr>"

definition record_loan_funding ::
    "(nat \<Rightarrow> string) \<Rightarrow> string \<Rightarrow> string \<Rightarrow> rat \<Rightarrow> string \<Rightarrow> string option \<Rightarrow> int \<Rightarrow> database
      \<Rightarrow> rlf_error + (rlf_row \<times> database)" where
  "record_loan_funding gen p_loan_id p_lender_id p_amount p_tx_hash p_lender_address p_funded_at db =
     (if p_amount \<le> 0 then Inl RlfNotPositive
      else if sql_trim p_tx_hash = [] then Inl RlfHashRequired
      else case find (\<lambda>l. loan_id l = p_loan_id) (db_loans db) of
        None \<Rightarrow> Inl RlfLoanNotFound
      | Some v_loan \<Rightarrow>
          if loan_status v_loan \<notin> {LoanRequested, LoanApproved} then Inl (RlfNotAvailable (loan_status v_loan))
          else if loan_borrowerId v_loan = p_lender_id then Inl RlfOwnLoan
          else (let v_remaining = loan_principalAmount v_loan - loan_fundedAmount v_loan in
            if v_remaining \<le> 0 then Inl RlfAlreadyFullyFunded
            else if of_micro v_remaining < p_amount then Inl (RlfExceedsRemaining p_amount v_remaining)
            else case (to_column p_amount, to_column (of_micro (loan_fundedAmount v_loan) + p_amount)) of
              (Some amount, Some v_new_total) \<Rightarrow>
                if sql_trim p_tx_hash \<in> set (map lf_txHash (db_loanFundings db)) then Inl RlfDuplicateTxHash
                else (let v_funding_id = gen (db_uuids db);
                          row = \<lparr> lf_id = v_funding_id, lf_loanId = p_loan_id, lf_lenderId = p_lender_id,
                                  lf_amount = amount, lf_txHash = sql_trim p_tx_hash,
                                  lf_lenderAddress = p_lender_address, lf_fundedAt = p_funded_at \<rparr>
                      in Inr (rlf_result (fund_row v_new_total p_funded_at v_loan) v_funding_id,
                              db\<lparr>db_loanFundings := db_loanFundings db @ [row],
                                 db_uuids := Suc (db_uuids db),
                                 db_loans := update_where (\<lambda>l. loan_id l = p_loan_id)
                                               (fund_row v_new_total p_funded_at) (db_loans db)\<rparr>))
            | _ \<Rightarrow> Inl RlfNumericOverflow))"

subsection \<open>\<open>qualify_referral\<close>\<close>

record qualify_row =
  qr_referral_id :: string
  qr_referrer_id :: string
  qr_status :: referral_status

text \<open>
  The foreign key of the qualifying loan refuses a loan that is gone. The error and no row are both
  \<open>None\<close>: the one caller answers them alike.
\<close>

definition qualify_referral :: "string \<Rightarrow> string \<Rightarrow> database \<Rightarrow> qualify_row option \<times> database" where
  "qualify_referral p_referee_id p_loan_id db =
     (case find (\<lambda>r. ref_refereeId r = p_referee_id) (db_referrals db) of
        None \<Rightarrow> (None, db)
      | Some v_row \<Rightarrow>
          if ref_status v_row \<noteq> ReferralPending
          then (Some \<lparr>qr_referral_id = ref_id v_row, qr_referrer_id = ref_referrerId v_row,
                      qr_status = ref_status v_row\<rparr>, db)
          else if p_loan_id \<notin> set (map loan_id (db_loans db)) then (None, db)
          else (Some \<lparr>qr_referral_id = ref_id v_row, qr_referrer_id = ref_referrerId v_row,
                      qr_status = ReferralQualified\<rparr>,
                db\<lparr>db_referrals := update_where (\<lambda>r. ref_id r = ref_id v_row)
                     (\<lambda>r. r\<lparr>ref_status := ReferralQualified, ref_qualifyingLoanId := Some p_loan_id\<rparr>)
                     (db_referrals db)\<rparr>))"

subsection \<open>Reputation events\<close>

text \<open>
  The insert of an event, with the trigger that recomputes the user's snapshot. The trigger reads
  the snapshot's other columns into variables first; when there is no snapshot, \<open>SELECT INTO\<close> leaves
  them null, and the insert of a snapshot with null columns fails, and the insert of the event with
  it. \<open>None\<close> is that error.
\<close>

definition snapshot_score :: "string \<Rightarrow> reputation_event list \<Rightarrow> int" where
  "snapshot_score userId events =
     max 0 (min 750 (250 + sum_list (map re_pointsDelta (filter (\<lambda>ev. re_userId ev = userId) events))))"

definition insert_reputation_event :: "reputation_event \<Rightarrow> database \<Rightarrow> database option" where
  "insert_reputation_event ev db =
     (let events = db_reputationEvents db @ [ev];
          total = snapshot_score (re_userId ev) events
      in case find (\<lambda>s. rs_userId s = re_userId ev) (db_reputationSnapshots db) of
           None \<Rightarrow> None
         | Some _ \<Rightarrow> Some (db\<lparr>db_reputationEvents := events,
             db_reputationSnapshots := update_where (\<lambda>s. rs_userId s = re_userId ev)
               (\<lambda>s. s\<lparr>rs_scoreTotal := total\<rparr>) (db_reputationSnapshots db)\<rparr>))"

subsection \<open>The books of a loan\<close>

definition funding_open :: "loan \<Rightarrow> bool" where
  "funding_open l = (loan_status l = LoanRequested \<or> loan_status l = LoanApproved)"

definition funded_sum :: "string \<Rightarrow> loan_funding list \<Rightarrow> int" where
  "funded_sum loanId fs = sum_list (map lf_amount (filter (\<lambda>r. lf_loanId r = loanId) fs))"

text \<open>
  \<open>loan_in_books fs l\<close>: the funded amount is the sum of the recorded contributions, lies
  between zero and the principal, and reaches it only when the loan has left the funding stage.
\<close>

definition loan_in_books :: "loan_funding list \<Rightarrow> loan \<Rightarrow> bool" where
  "loan_in_books fs l \<longleftrightarrow> loan_fundedAmount l = funded_sum (loan_id l) fs
     \<and> 0 \<le> loan_fundedAmount l \<and> loan_fundedAmount l \<le> loan_principalAmount l
     \<and> (funding_open l \<longrightarrow> loan_fundedAmount l < loan_principalAmount l)"

definition books :: "database \<Rightarrow> bool" where
  "books db \<longleftrightarrow> distinct (map loan_id (db_loans db)) \<and> distinct (map lf_txHash (db_loanFundings db))
     \<and> lf_loanId ` set (db_loanFundings db) \<subseteq> loan_id ` set (db_loans db)
     \<and> (\<forall>l \<in> set (db_loans db). loan_in_books (db_loanFundings db) l)"

interpretation fund_row_upd: keyed_update loan_id "fund_row t tm" for t tm
  by unfold_locales (simp add: fund_row_def)

text \<open>An update of loans that keeps their books.\<close>

definition keeps_books :: "(loan \<Rightarrow> loan) \<Rightarrow> bool" where
  "keeps_books f \<longleftrightarrow> (\<forall>l. loan_id (f l) = loan_id l \<and> loan_fundedAmount (f l) = loan_fundedAmount l
     \<and> loan_principalAmount (f l) = loan_principalAmount l \<and> (funding_open (f l) \<longrightarrow> funding_open l))"

lemma map_update_where: "(\<And>r. g (f r) = g r) \<Longrightarrow> map g (update_where p f rows) = map g rows"
  by (induction rows) simp_all

lemma loan_in_books_update: "keeps_books f \<Longrightarrow> loan_in_books fs l \<Longrightarrow> loan_in_books fs (f l)"
  by (auto simp: keeps_books_def loan_in_books_def)

lemma books_update_loans:
  assumes "books db" "keeps_books f"
  shows "books (db\<lparr>db_loans := update_where p f (db_loans db)\<rparr>)"
proof -
  have "loan_in_books (db_loanFundings db) r" if "r \<in> set (update_where p f (db_loans db))" for r
    using that assms loan_in_books_update [OF assms(2)] by (auto simp: in_update_where books_def)
  moreover have "map loan_id (update_where p f (db_loans db)) = map loan_id (db_loans db)"
    using assms(2) by (simp add: map_update_where keeps_books_def)
  moreover from this have "loan_id ` set (update_where p f (db_loans db)) = loan_id ` set (db_loans db)"
    by (metis set_map)
  ultimately show ?thesis
    using assms(1) by (simp add: books_def)
qed

lemma books_other_tables [db_simps]:
  "books (db\<lparr>db_ledgerTransactions := x\<rparr>) = books db"
  "books (db\<lparr>db_notifications := y\<rparr>) = books db"
  "books (db\<lparr>db_referrals := z\<rparr>) = books db"
  "books (db\<lparr>db_uuids := n\<rparr>) = books db"
  "books (db\<lparr>db_loanRepayments := u\<rparr>) = books db"
  "books (db\<lparr>db_reputationEvents := v\<rparr>) = books db"
  "books (db\<lparr>db_reputationSnapshots := s\<rparr>) = books db"
  "books (db\<lparr>db_lendingPools := a\<rparr>) = books db"
  "books (db\<lparr>db_poolPositions := b\<rparr>) = books db"
  by (simp_all add: books_def)

text \<open>A successful call, spelled out: the loan was open, and what the call did.\<close>

lemma record_loan_funding_Inr:
  assumes "record_loan_funding gen lid lender amt tx addr tm db = Inr (r, db')"
  obtains l where "find (\<lambda>l. loan_id l = lid) (db_loans db) = Some l" "funding_open l"
    "loan_borrowerId l \<noteq> lender" "0 < amt" "amt \<le> of_micro (loan_principalAmount l - loan_fundedAmount l)"
    "sql_trim tx \<notin> lf_txHash ` set (db_loanFundings db)" "sql_trim tx \<noteq> []"
    "db' = db\<lparr>db_loanFundings := db_loanFundings db @ [\<lparr>lf_id = gen (db_uuids db), lf_loanId = lid,
         lf_lenderId = lender, lf_amount = round6 amt, lf_txHash = sql_trim tx, lf_lenderAddress = addr, lf_fundedAt = tm\<rparr>],
       db_uuids := Suc (db_uuids db),
       db_loans := update_where (\<lambda>l. loan_id l = lid)
         (fund_row (round6 (of_micro (loan_fundedAmount l) + amt)) tm) (db_loans db)\<rparr>"
    "r = rlf_result (fund_row (round6 (of_micro (loan_fundedAmount l) + amt)) tm l) (gen (db_uuids db))"
  using assms unfolding record_loan_funding_def to_column_def funding_open_def
  by (auto simp: Let_def split: if_splits option.splits intro: that)

lemma fund_row_books:
  assumes l: "loan_in_books fs l" "funding_open l" and amt: "0 < amt"
      "amt \<le> of_micro (loan_principalAmount l - loan_fundedAmount l)"
    and r: "lf_loanId r = loan_id l" "lf_amount r = round6 amt"
  shows "loan_in_books (fs @ [r]) (fund_row (round6 (of_micro (loan_fundedAmount l) + amt)) tm l)"
proof -
  have "round6 (of_micro (loan_fundedAmount l) + amt) = loan_fundedAmount l + round6 amt"
    using l(1) amt(1) by (intro round6_add) (simp_all add: loan_in_books_def)
  moreover have "0 \<le> round6 amt"
    using amt(1) by (intro round6_nonneg) simp
  moreover have "round6 amt \<le> loan_principalAmount l - loan_fundedAmount l"
    using amt(2) by (rule round6_le)
  ultimately show ?thesis
    using l r by (auto simp: loan_in_books_def fund_row_def funded_sum_def funding_open_def)
qed

lemma record_loan_funding_books:
  assumes "books db" and "record_loan_funding gen lid lender amt tx addr tm db = Inr (r, db')"
  shows "books db'"
proof -
  from assms(2) show ?thesis
  proof (rule record_loan_funding_Inr)
    fix l
    assume find: "find (\<lambda>l. loan_id l = lid) (db_loans db) = Some l" and l: "funding_open l"
      and amt: "0 < amt" "amt \<le> of_micro (loan_principalAmount l - loan_fundedAmount l)"
      and tx: "sql_trim tx \<notin> lf_txHash ` set (db_loanFundings db)"
      and db': "db' = db\<lparr>db_loanFundings := db_loanFundings db @ [\<lparr>lf_id = gen (db_uuids db), lf_loanId = lid,
         lf_lenderId = lender, lf_amount = round6 amt, lf_txHash = sql_trim tx, lf_lenderAddress = addr, lf_fundedAt = tm\<rparr>],
       db_uuids := Suc (db_uuids db),
       db_loans := update_where (\<lambda>l. loan_id l = lid)
         (fund_row (round6 (of_micro (loan_fundedAmount l) + amt)) tm) (db_loans db)\<rparr>"
    have lid: "loan_id l = lid" "l \<in> set (db_loans db)"
      using loans_tbl.find_key [OF find] by simp_all
    have unique: "l' = l" if "l' \<in> set (db_loans db)" "loan_id l' = lid" for l'
      using that lid assms(1) by (auto simp: books_def distinct_map dest: inj_onD)
    show "books db'"
      unfolding books_def
    proof (intro conjI ballI)
      show "distinct (map loan_id (db_loans db'))" "distinct (map lf_txHash (db_loanFundings db'))"
        using assms(1) tx by (simp_all add: db' books_def)
      have "loan_id ` set (db_loans db') = loan_id ` set (db_loans db)"
        by (simp add: db' flip: set_map)
      then show "lf_loanId ` set (db_loanFundings db') \<subseteq> loan_id ` set (db_loans db')"
        using assms(1) lid by (auto simp: db' books_def)
      fix r
      assume "r \<in> set (db_loans db')"
      then obtain r' where r': "r' \<in> set (db_loans db)"
        "r = (if loan_id r' = lid then fund_row (round6 (of_micro (loan_fundedAmount l) + amt)) tm r' else r')"
        by (auto simp: db' in_update_where)
      have "loan_in_books (db_loanFundings db) r'"
        using assms(1) r'(1) by (simp add: books_def)
      then show "loan_in_books (db_loanFundings db') r"
      proof (cases "loan_id r' = lid")
        case True
        then have "r' = l"
          using unique r'(1) by simp
        with True \<open>loan_in_books (db_loanFundings db) r'\<close> l amt lid(1) show ?thesis
          by (simp add: db' r'(2) fund_row_books)
      next
        case False
        with \<open>loan_in_books (db_loanFundings db) r'\<close> show ?thesis
          by (auto simp: db' r'(2) loan_in_books_def funded_sum_def)
      qed
    qed
  qed
qed

end
