(* ===== verification/Reputation.thy ===== *)
theory Reputation
  imports JsValue
begin

text \<open>
  The off-chain credit score: \<open>src/lib/reputation/scoring.ts\<close>, with the tier tables of
  \<open>src/types/contracts.ts\<close>.
\<close>

datatype reputation_tier_name = TierNone | TierBeginner | TierSilver | TierGold | TierPlatinum

text \<open>The tiers are ordered from the least to the most trusted.\<close>

fun tier_rank :: "reputation_tier_name \<Rightarrow> nat" where
  "tier_rank TierNone = 0"
| "tier_rank TierBeginner = 1"
| "tier_rank TierSilver = 2"
| "tier_rank TierGold = 3"
| "tier_rank TierPlatinum = 4"

lemma tier_rank_inj: "tier_rank a = tier_rank b \<longleftrightarrow> a = b"
  by (cases a; cases b) simp_all

instantiation reputation_tier_name :: linorder
begin

definition less_eq_reputation_tier_name :: "reputation_tier_name \<Rightarrow> reputation_tier_name \<Rightarrow> bool" where
  "less_eq_reputation_tier_name a b = (tier_rank a \<le> tier_rank b)"

definition less_reputation_tier_name :: "reputation_tier_name \<Rightarrow> reputation_tier_name \<Rightarrow> bool" where
  "less_reputation_tier_name a b = (tier_rank a < tier_rank b)"

instance
  by standard (auto simp: less_eq_reputation_tier_name_def less_reputation_tier_name_def tier_rank_inj)

end

fun TIER_MAX_LOAN :: "reputation_tier_name \<Rightarrow> int" where
  "TIER_MAX_LOAN TierNone = 10000000000"
| "TIER_MAX_LOAN TierBeginner = 20000000000"
| "TIER_MAX_LOAN TierSilver = 50000000000"
| "TIER_MAX_LOAN TierGold = 100000000000"
| "TIER_MAX_LOAN TierPlatinum = 1000000000000"

fun TIER_INTEREST_BPS :: "reputation_tier_name \<Rightarrow> rat" where
  "TIER_INTEREST_BPS TierNone = 1500"
| "TIER_INTEREST_BPS TierBeginner = 1300"
| "TIER_INTEREST_BPS TierSilver = 1200"
| "TIER_INTEREST_BPS TierGold = 1000"
| "TIER_INTEREST_BPS TierPlatinum = 800"

record repayment_stats =
  st_totalLoans :: jsnum
  st_completedLoans :: jsnum
  st_onTimeRepayments :: jsnum
  st_earlyRepayments :: jsnum
  st_lateRepayments :: jsnum
  st_defaultedLoans :: jsnum
  st_totalBorrowedXlm :: jsnum
  st_totalRepaidXlm :: jsnum
  st_kycVerified :: bool
  st_emailVerified :: bool
  st_accountAgeDays :: "jsnum option"

record score_breakdown =
  bd_baseScore :: jsnum
  bd_onTimeBonus :: jsnum
  bd_earlyPayoffBonus :: jsnum
  bd_volumeBonus :: jsnum
  bd_kycBonus :: jsnum
  bd_latePenalty :: jsnum
  bd_defaultPenalty :: jsnum
  bd_tenureBonus :: jsnum

record next_tier =
  nx_tier :: reputation_tier_name
  nx_minScore :: jsnum
  nx_pointsNeeded :: jsnum
  nx_unlockedRatePct :: jsnum

record reputation_result =
  rr_score :: jsnum
  rr_tier :: reputation_tier_name
  rr_interestRateBps :: jsnum
  rr_interestRatePct :: jsnum
  rr_standardRateBps :: jsnum
  rr_rateDiscountBps :: jsnum
  rr_rateDiscountPct :: jsnum
  rr_maxLoanXlm :: jsnum
  rr_breakdown :: score_breakdown
  rr_onTimePercentage :: jsnum
  rr_nextTier :: "next_tier option"

definition BASE_REPUTATION_SCORE :: jsnum where "BASE_REPUTATION_SCORE = Fin 250"
definition MAX_REPUTATION_SCORE :: jsnum where "MAX_REPUTATION_SCORE = Fin 1000"
definition MIN_REPUTATION_SCORE :: jsnum where "MIN_REPUTATION_SCORE = Fin 0"
definition STANDARD_BASE_APR_BPS :: jsnum where "STANDARD_BASE_APR_BPS = Fin 1500"

definition offchainScoreToTier :: "jsnum \<Rightarrow> reputation_tier_name" where
  "offchainScoreToTier score =
     (if jle (Fin 850) score then TierPlatinum
      else if jle (Fin 700) score then TierGold
      else if jle (Fin 500) score then TierSilver
      else if jle (Fin 300) score then TierBeginner
      else TierNone)"

definition reputation_breakdown :: "repayment_stats \<Rightarrow> score_breakdown" where
  "reputation_breakdown stats =
     \<lparr> bd_baseScore = BASE_REPUTATION_SCORE,
       bd_onTimeBonus = jmul (st_onTimeRepayments stats) (Fin 35),
       bd_earlyPayoffBonus = jmul (st_earlyRepayments stats) (Fin 45),
       bd_volumeBonus = jmin (Fin 150) (jmul (jfloor (jdiv (st_totalRepaidXlm stats) (Fin 1000))) (Fin 15)),
       bd_kycBonus = Fin ((if st_emailVerified stats then 20 else 0) + (if st_kycVerified stats then 80 else 0)),
       bd_latePenalty = jmul (st_lateRepayments stats) (Fin 25),
       bd_defaultPenalty = jmul (st_defaultedLoans stats) (Fin 150),
       bd_tenureBonus = jmin (Fin 50)
         (jmul (jfloor (jdiv (case st_accountAgeDays stats of Some d \<Rightarrow> d | None \<Rightarrow> Fin 0) (Fin 30))) (Fin 5)) \<rparr>"

definition raw_score :: "score_breakdown \<Rightarrow> jsnum" where
  "raw_score b =
     jsub (jsub (jadd (jadd (jadd (jadd (jadd (bd_baseScore b) (bd_onTimeBonus b)) (bd_earlyPayoffBonus b))
       (bd_volumeBonus b)) (bd_kycBonus b)) (bd_tenureBonus b)) (bd_latePenalty b)) (bd_defaultPenalty b)"

definition clamp_score :: "jsnum \<Rightarrow> jsnum" where
  "clamp_score rawScore = jmax MIN_REPUTATION_SCORE (jmin MAX_REPUTATION_SCORE (jround rawScore))"

definition next_tier_target :: "reputation_tier_name \<Rightarrow> jsnum \<Rightarrow> next_tier option" where
  "next_tier_target tier score =
     (let target = (\<lambda>t minScore. Some \<lparr>nx_tier = t, nx_minScore = minScore,
            nx_pointsNeeded = jmax (Fin 0) (jsub minScore score),
            nx_unlockedRatePct = jdiv (Fin (TIER_INTEREST_BPS t)) (Fin 100)\<rparr>)
      in case tier of
           TierNone \<Rightarrow> target TierBeginner (Fin 300)
         | TierBeginner \<Rightarrow> target TierSilver (Fin 500)
         | TierSilver \<Rightarrow> target TierGold (Fin 700)
         | TierGold \<Rightarrow> target TierPlatinum (Fin 850)
         | TierPlatinum \<Rightarrow> None)"

definition computeBorrowerReputationScore :: "repayment_stats \<Rightarrow> reputation_result" where
  "computeBorrowerReputationScore stats =
     (let breakdown = reputation_breakdown stats;
          score = clamp_score (raw_score breakdown);
          tier = offchainScoreToTier score;
          interestRateBps = Fin (TIER_INTEREST_BPS tier);
          rateDiscountBps = jmax (Fin 0) (jsub STANDARD_BASE_APR_BPS interestRateBps);
          totalSettled = jadd (st_completedLoans stats) (st_defaultedLoans stats)
      in \<lparr> rr_score = score, rr_tier = tier,
           rr_interestRateBps = interestRateBps,
           rr_interestRatePct = fixed_num 2 (jdiv interestRateBps (Fin 100)),
           rr_standardRateBps = STANDARD_BASE_APR_BPS,
           rr_rateDiscountBps = rateDiscountBps,
           rr_rateDiscountPct = fixed_num 2 (jdiv rateDiscountBps (Fin 100)),
           rr_maxLoanXlm = to_num (of_int (TIER_MAX_LOAN tier div 10000000)),
           rr_breakdown = breakdown,
           rr_onTimePercentage =
             (if jlt (Fin 0) totalSettled
              then jround (jmul (jdiv (jadd (st_onTimeRepayments stats) (st_earlyRepayments stats)) totalSettled) (Fin 100))
              else Fin 100),
           rr_nextTier = next_tier_target tier score \<rparr>)"

end
