(* ===== verification/JsDate.thy ===== *)
theory JsDate
  imports Payment
begin

text \<open>
  Dates as the program writes them: \<open>new Date(ms).toISOString()\<close>, for the years 0 to 9999,
  and its round trip with the parser of \<open>Payment\<close>. A time is in milliseconds since the epoch.
\<close>

text \<open>
  The civil date of a day number, by cycles of 400, 100, 4 and 1 years that begin on the first
  of March.
\<close>

definition civil_from_days :: "int \<Rightarrow> int \<times> int \<times> int" where
  "civil_from_days z =
     (let era = (z + 719468) div 146097;
          doe = (z + 719468) mod 146097;
          c = min 3 (doe div 36524);
          r = doe - c * 36524;
          q = min 24 (r div 1461);
          r' = r - q * 1461;
          y = min 3 (r' div 365);
          doy = r' - y * 365;
          mp = (5 * doy + 2) div 153;
          d = doy - (153 * mp + 2) div 5 + 1;
          m = (if mp < 10 then mp + 3 else mp - 9)
      in (100 * c + 4 * q + y + era * 400 + (if m \<le> 2 then 1 else 0), m, d))"

fun pad_digits :: "nat \<Rightarrow> int \<Rightarrow> string" where
  "pad_digits 0 k = []"
| "pad_digits (Suc n) k = pad_digits n (k div 10) @ [char_of (48 + k mod 10)]"

definition toISOString :: "int \<Rightarrow> string" where
  "toISOString t =
     (let (y, m, d) = civil_from_days (t div 86400000);
          s = t mod 86400000
      in pad_digits 4 y @ ''-'' @ pad_digits 2 m @ ''-'' @ pad_digits 2 d @ ''T''
         @ pad_digits 2 (s div 3600000) @ '':'' @ pad_digits 2 (s div 60000 mod 60) @ '':''
         @ pad_digits 2 (s div 1000 mod 60) @ ''.'' @ pad_digits 3 (s mod 1000) @ ''Z'')"

subsection \<open>Digits\<close>

lemma length_pad_digits [simp]: "length (pad_digits n k) = n"
  by (induction n arbitrary: k) simp_all

lemma of_char_char_of_int: "0 \<le> k \<Longrightarrow> k < 256 \<Longrightarrow> of_char (char_of k :: char) = (of_int k :: int)"
  by (simp add: of_char_of)

lemma digit_char:
  assumes "0 \<le> k" "k < 10"
  shows "is_digit (char_of (48 + k))" "digit_val (char_of (48 + k)) = k"
proof -
  have "of_char (char_of (48 + k) :: char) = (of_nat (nat (48 + k)) :: int)"
    using assms by (simp add: of_char_char_of_int)
  then have i: "of_char (char_of (48 + k) :: char) = 48 + k"
    using assms by simp
  moreover have "(of_char (char_of (48 + k) :: char) :: nat) = nat (48 + k)"
    using i by (metis nat_int of_nat_of_char)
  ultimately show "is_digit (char_of (48 + k))" "digit_val (char_of (48 + k)) = k"
    using assms by (auto simp: is_digit_def digit_val_def)
qed

lemma pad_digits_digits [simp]: "list_all is_digit (pad_digits n k)"
proof (induction n arbitrary: k)
  case (Suc n)
  then show ?case
    using digit_char(1) [of "k mod 10"] by simp
qed simp

lemma read_digits_append:
  "list_all is_digit s \<Longrightarrow> read_digits a n (s @ t) = (case read_digits a n s of (b, m, _) \<Rightarrow> read_digits b m t)"
  by (induction s arbitrary: a n) (auto simp: list_all_iff)

lemma read_pad_digits:
  "0 \<le> k \<Longrightarrow> k < 10 ^ n \<Longrightarrow> read_digits 0 0 (pad_digits n k) = (k, n, [])"
proof (induction n arbitrary: k)
  case (Suc n)
  have "k div 10 < m" if "k < 10 * m" for m
    using that by linarith
  then have "k div 10 < 10 ^ n"
    using Suc.prems by simp
  then have "read_digits 0 0 (pad_digits n (k div 10)) = (k div 10, n, [])"
    using Suc by simp
  moreover have "0 \<le> k mod 10" "k mod 10 < 10"
    by simp_all
  note digit_char [OF this]
  ultimately show ?case
    by (simp add: read_digits_append)
qed simp

lemma fixed_pad_digits: "0 \<le> k \<Longrightarrow> k < 10 ^ n \<Longrightarrow> fixed_digits n (pad_digits n k) = Some k"
  by (simp add: fixed_digits_def read_pad_digits)

subsection \<open>The round trip\<close>

lemma cycle_bounds:
  fixes doe :: int
  assumes "0 \<le> doe" "doe < 146097"
  defines "c \<equiv> min 3 (doe div 36524)"
  defines "r \<equiv> doe - c * 36524"
  defines "q \<equiv> min 24 (r div 1461)"
  defines "r' \<equiv> r - q * 1461"
  defines "y \<equiv> min 3 (r' div 365)"
  defines "doy \<equiv> r' - y * 365"
  shows "0 \<le> c" "c \<le> 3" "0 \<le> q" "q \<le> 24" "0 \<le> y" "y \<le> 3" "0 \<le> doy" "doy \<le> 365"
    "doe = c * 36524 + q * 1461 + y * 365 + doy"
proof -
  show c: "0 \<le> c" "c \<le> 3"
    using assms(1) by (simp_all add: c_def)
  have r: "0 \<le> r" "r \<le> 36524"
    using assms(1,2) unfolding r_def c_def min_def by (auto split: if_splits; linarith)+
  then show q: "0 \<le> q" "q \<le> 24"
    by (simp_all add: q_def)
  have r': "0 \<le> r'" "r' \<le> 1460"
    using r unfolding r'_def q_def min_def by (auto split: if_splits; linarith)+
  then show y: "0 \<le> y" "y \<le> 3"
    by (simp_all add: y_def)
  show "0 \<le> doy" "doy \<le> 365"
    using r' unfolding doy_def y_def min_def by (auto split: if_splits; linarith)+
  show "doe = c * 36524 + q * 1461 + y * 365 + doy"
    by (simp add: doy_def r'_def r_def)
qed

lemma month_bounds:
  fixes doy :: int
  assumes "0 \<le> doy" "doy \<le> 365"
  defines "mp \<equiv> (5 * doy + 2) div 153"
  shows "0 \<le> mp" "mp \<le> 11" "1 \<le> doy - (153 * mp + 2) div 5 + 1" "doy - (153 * mp + 2) div 5 + 1 \<le> 31"
  using assms(1,2) unfolding mp_def by linarith+

lemma civil_round_trip:
  assumes "civil_from_days z = (y, m, d)"
  shows "days_from_civil y m d = z" "1 \<le> m" "m \<le> 12" "1 \<le> d" "d \<le> 31"
proof -
  define era doe where "era = (z + 719468) div 146097" and "doe = (z + 719468) mod 146097"
  define c where "c = min 3 (doe div 36524)"
  define r where "r = doe - c * 36524"
  define q where "q = min 24 (r div 1461)"
  define r' where "r' = r - q * 1461"
  define yy where "yy = min 3 (r' div 365)"
  define doy where "doy = r' - yy * 365"
  define mp where "mp = (5 * doy + 2) div 153"
  have doe: "0 \<le> doe" "doe < 146097"
    by (simp_all add: doe_def)
  note b = cycle_bounds [OF doe, folded c_def, folded r_def, folded q_def, folded r'_def, folded yy_def, folded doy_def]
  note mb = month_bounds [OF b(7,8), folded mp_def]
  have civil: "y = 100 * c + 4 * q + yy + era * 400 + (if m \<le> 2 then 1 else 0)"
    "m = (if mp < 10 then mp + 3 else mp - 9)" "d = doy - (153 * mp + 2) div 5 + 1"
    using assms unfolding civil_from_days_def Let_def prod.inject
      era_def doe_def c_def r_def q_def r'_def yy_def doy_def mp_def by blast+
  show "1 \<le> m" "m \<le> 12" "1 \<le> d" "d \<le> 31"
    using mb civil by auto
  have m: "(if 2 < m then m - 3 else m + 9) = mp" "(if m \<le> 2 then y - 1 else y) = 100 * c + 4 * q + yy + era * 400"
    using mb civil by auto
  have yoe: "0 \<le> 100 * c + 4 * q + yy" "100 * c + 4 * q + yy < 400"
    using b by simp_all
  have era: "(100 * c + 4 * q + yy + era * 400) div 400 = era"
    using yoe by simp
  have quot: "(100 * c + 4 * q + yy) div 4 = 25 * c + q" "(100 * c + 4 * q + yy) div 100 = c"
    using b by linarith+
  have "z + 719468 = era * 146097 + doe"
    by (simp add: era_def doe_def)
  then show "days_from_civil y m d = z"
    unfolding days_from_civil_def Let_def m era using b(9) civil(3) quot by (simp add: algebra_simps)
qed

lemma civil_year_bounds:
  assumes "0 \<le> z" "z < 1628907" "civil_from_days z = (y, m, d)"
  shows "0 \<le> y" "y < 10000"
proof -
  define era where "era = (z + 719468) div 146097"
  have era: "0 \<le> era" "era \<le> 16"
    using assms(1,2) unfolding era_def by linarith+
  define doe where "doe = (z + 719468) mod 146097"
  have doe: "0 \<le> doe" "doe < 146097"
    by (simp_all add: doe_def)
  define c where "c = min 3 (doe div 36524)"
  define r where "r = doe - c * 36524"
  define q where "q = min 24 (r div 1461)"
  define r' where "r' = r - q * 1461"
  define yy where "yy = min 3 (r' div 365)"
  note b = cycle_bounds(1-6) [OF doe, folded c_def, folded r_def, folded q_def, folded r'_def, folded yy_def]
  have "y = 100 * c + 4 * q + yy + era * 400 + (if m \<le> 2 then 1 else 0)"
    using assms(3) unfolding civil_from_days_def Let_def prod.inject
      era_def doe_def c_def r_def q_def r'_def yy_def by blast
  then have "100 * c + 4 * q + yy + era * 400 \<le> y" "y \<le> 100 * c + 4 * q + yy + era * 400 + 1"
    by simp_all
  then show "0 \<le> y" "y < 10000"
    using b era by linarith+
qed

lemma nth_pad_append: "length p = n \<Longrightarrow> (p @ c # s) ! n = c"
  by (simp add: nth_append)

lemma drop_pad_append: "length p = n \<Longrightarrow> drop (Suc n) (p @ c # s) = s"
  by simp

lemma fraction_pad: "0 \<le> k \<Longrightarrow> k < 1000 \<Longrightarrow> fraction_ms (CHR ''.'' # pad_digits 3 k @ ''Z'') = Some k"
  using read_pad_digits [of k 3] length_pad_digits [of 3 k] by (auto simp: fraction_ms_def Let_def simp del: length_pad_digits)

lemma date_ms_toISOString:
  assumes "0 \<le> t" "t < 2 ^ 47"
  shows "date_ms (toISOString t) = Fin (of_int t)"
proof -
  obtain y m d where civil: "civil_from_days (t div 86400000) = (y, m, d)"
    by (cases "civil_from_days (t div 86400000)") auto
  define s where "s = t mod 86400000"
  define h mi se ms where "h = s div 3600000" and "mi = s div 60000 mod 60" and "se = s div 1000 mod 60"
    and "ms = s mod 1000"
  have y: "0 \<le> y" "y < 10000"
  proof -
    have "t < 140737488355328"
      using assms by simp
    then have "0 \<le> t div 86400000" "t div 86400000 < 1628907"
      using assms(1) by linarith+
    from civil_year_bounds [OF this civil] show "0 \<le> y" "y < 10000"
      by auto
  qed
  note cb = civil_round_trip [OF civil]
  have s: "0 \<le> s" "s < 86400000"
    by (simp_all add: s_def)
  have p: "0 \<le> h" "h < 24" "0 \<le> mi" "mi < 60" "0 \<le> se" "se < 60" "0 \<le> ms" "ms < 1000"
  proof -
    show "0 \<le> h" "h < 24"
      using s unfolding h_def by linarith+
  qed (simp_all add: mi_def se_def ms_def)
  have split: "s = ((h * 60 + mi) * 60 + se) * 1000 + ms"
  proof -
    define a b where "a = s div 1000" and "b = a div 60"
    have "s div 60000 = b" "s div 3600000 = b div 60"
      by (simp_all add: a_def b_def flip: zdiv_zmult2_eq)
    then have "h = b div 60" "mi = b mod 60" "se = a mod 60"
      by (simp_all add: h_def mi_def se_def a_def)
    then have "b = h * 60 + mi" "a = b * 60 + se" "s = a * 1000 + ms"
      by (simp_all only: b_def a_def ms_def div_mult_mod_eq)
    then show ?thesis
      by simp
  qed
  have iso: "toISOString t = pad_digits 4 y @ CHR ''-'' # pad_digits 2 m @ CHR ''-'' # pad_digits 2 d @ CHR ''T''
         # pad_digits 2 h @ CHR '':'' # pad_digits 2 mi @ CHR '':'' # pad_digits 2 se @ CHR ''.'' # pad_digits 3 ms @ ''Z''"
    by (simp add: toISOString_def civil Let_def h_def mi_def se_def ms_def s_def)
  have digits: "fixed_digits 4 (pad_digits 4 y) = Some y" "fixed_digits 2 (pad_digits 2 m) = Some m"
    "fixed_digits 2 (pad_digits 2 d) = Some d" "fixed_digits 2 (pad_digits 2 h) = Some h"
    "fixed_digits 2 (pad_digits 2 mi) = Some mi" "fixed_digits 2 (pad_digits 2 se) = Some se"
    using y cb p by (intro fixed_pad_digits; simp)+
  have "t = t div 86400000 * 86400000 + s"
    by (simp add: s_def)
  then have "t = (((days_from_civil y m d * 24 + h) * 60 + mi) * 60 + se) * 1000 + ms"
    using cb(1) split by simp
  then show ?thesis
    using digits fraction_pad [OF p(7,8)] cb p
    by (simp add: date_ms_def iso nth_append)
qed

end
