(* ===== verification/ReputationSync.thy ===== *)
theory ReputationSync
  imports FundingDb Reputation JsDate
begin

text \<open>
  Who writes the reputation of a user: the daily run, \<open>src/lib/reputation/daily-sync.ts\<close>, and the
  completion of a platform task, \<open>POST /api/tasks/complete\<close>
  (\<open>src/app/api/tasks/complete/route.ts\<close>), whose event goes through the trigger of \<open>FundingDb\<close>.
  The texts of events and answers and the metadata of events are left out. The run reads the clock
  once here.
\<close>

subsection \<open>Grouping\<close>

text \<open>
  \<open>groupBy(rows, key)\<close>: a \<open>Map\<close> keeps its keys in the order of their first insertion, and a row of
  a known key is pushed onto that key's list.
\<close>

fun push_group :: "'k \<Rightarrow> 'r \<Rightarrow> ('k \<times> 'r list) list \<Rightarrow> ('k \<times> 'r list) list" where
  "push_group k row [] = [(k, [row])]"
| "push_group k row ((k', rows) # m) =
     (if k' = k then (k', rows @ [row]) # m else (k', rows) # push_group k row m)"

definition groupBy :: "'r list \<Rightarrow> ('r \<Rightarrow> 'k) \<Rightarrow> ('k \<times> 'r list) list" where
  "groupBy rows key = fold (\<lambda>row. push_group (key row) row) rows []"

text \<open>\<open>map.get(k) ?? []\<close>\<close>

definition group_of :: "('k \<times> 'r list) list \<Rightarrow> 'k \<Rightarrow> 'r list" where
  "group_of m k = (case map_of m k of Some rows \<Rightarrow> rows | None \<Rightarrow> [])"

lemma group_of_push: "group_of (push_group k row m) k' = group_of m k' @ (if k' = k then [row] else [])"
  by (induction k row m rule: push_group.induct) (auto simp: group_of_def)

lemma group_of_fold: "group_of (fold (\<lambda>row. push_group (key row) row) rows m) k = group_of m k @ filter (\<lambda>row. key row = k) rows"
  by (induction rows arbitrary: m) (auto simp: group_of_push)

lemma groupBy_filter [simp]: "group_of (groupBy rows key) k = filter (\<lambda>row. key row = k) rows"
  by (simp add: groupBy_def group_of_fold) (simp add: group_of_def)

subsection \<open>The statistics of a borrower\<close>

datatype loan_timing = TimingEarly | TimingOnTime | TimingLate

text \<open>How a repaid loan counts. Times are milliseconds, as \<open>getTime()\<close> gives them.\<close>

definition is_early :: "jsval \<Rightarrow> bool" where
  "is_early metadata = js_truthy (js_get metadata ''is_early'')"

definition latest_payment :: "loan \<Rightarrow> loan_repayment list \<Rightarrow> int" where
  "latest_payment l userRepayments =
     fold (\<lambda>r latest. max latest (rep_paidAt r)) (filter (\<lambda>r. rep_loanId r = loan_id l) userRepayments)
       (loan_createdAt l)"

definition loan_timing :: "loan \<Rightarrow> loan_repayment list \<Rightarrow> loan_timing" where
  "loan_timing l userRepayments =
     (let dueTime = (case loan_dueAt l of Some d \<Rightarrow> d | None \<Rightarrow> 0)
      in if is_early (loan_metadata l) then TimingEarly
         else if 0 < dueTime then
           (if latest_payment l userRepayments \<le> dueTime then TimingOnTime else TimingLate)
         else TimingOnTime)"

definition count_if :: "('a \<Rightarrow> bool) \<Rightarrow> 'a list \<Rightarrow> jsnum" where
  "count_if p xs = Fin (of_nat (length (filter p xs)))"

definition count_timing :: "loan_timing \<Rightarrow> loan list \<Rightarrow> loan_repayment list \<Rightarrow> jsnum" where
  "count_timing t userLoans userRepayments =
     count_if (\<lambda>l. loan_status l = LoanRepaid \<and> loan_timing l userRepayments = t) userLoans"

definition sum_amounts :: "int list \<Rightarrow> jsnum" where
  "sum_amounts amounts = fold (\<lambda>n sum. jadd sum (num_of_micro n)) amounts (Fin 0)"

definition borrower_stats :: "int \<Rightarrow> profile \<Rightarrow> loan list \<Rightarrow> loan_repayment list \<Rightarrow> repayment_stats" where
  "borrower_stats now borrower userLoans userRepayments =
     \<lparr> st_totalLoans = count_if (\<lambda>_. True) userLoans,
       st_completedLoans = count_if (\<lambda>l. loan_status l = LoanRepaid) userLoans,
       st_onTimeRepayments = count_timing TimingOnTime userLoans userRepayments,
       st_earlyRepayments = count_timing TimingEarly userLoans userRepayments,
       st_lateRepayments = count_timing TimingLate userLoans userRepayments,
       st_defaultedLoans = count_if (\<lambda>l. loan_status l = LoanDefaulted) userLoans,
       st_totalBorrowedXlm = sum_amounts (map loan_principalAmount userLoans),
       st_totalRepaidXlm = sum_amounts (map rep_amount userRepayments),
       st_kycVerified = (profile_kycStatus borrower = KycVerified),
       st_emailVerified = True,
       st_accountAgeDays = Some (jfloor (jdiv (to_num (of_int (now - profile_createdAt borrower))) (Fin (86400 * 1000)))) \<rparr>"

subsection \<open>The run\<close>

fun tier_name :: "reputation_tier_name \<Rightarrow> string" where
  "tier_name TierNone = ''None''"
| "tier_name TierBeginner = ''Beginner''"
| "tier_name TierSilver = ''Silver''"
| "tier_name TierGold = ''Gold''"
| "tier_name TierPlatinum = ''Platinum''"

definition breakdown_json :: "score_breakdown \<Rightarrow> jsval" where
  "breakdown_json b = JObj
     [(''baseScore'', JNum (bd_baseScore b)), (''onTimeBonus'', JNum (bd_onTimeBonus b)),
      (''earlyPayoffBonus'', JNum (bd_earlyPayoffBonus b)), (''volumeBonus'', JNum (bd_volumeBonus b)),
      (''kycBonus'', JNum (bd_kycBonus b)), (''latePenalty'', JNum (bd_latePenalty b)),
      (''defaultPenalty'', JNum (bd_defaultPenalty b)), (''tenureBonus'', JNum (bd_tenureBonus b))]"

text \<open>
  An insert into the snapshots with \<open>onConflictDoUpdate\<close> on the user: \<open>fresh\<close> is the row with the
  defaults of the columns that are not given. The user must be a profile; \<open>None\<close> is the error of
  the foreign key.
\<close>

definition upsert_snapshot ::
    "string \<Rightarrow> (reputation_snapshot \<Rightarrow> reputation_snapshot) \<Rightarrow> database \<Rightarrow> database option" where
  "upsert_snapshot userId f db =
     (if userId \<notin> profile_id ` set (db_profiles db) then None
      else Some (db\<lparr>db_reputationSnapshots :=
        (case find (\<lambda>s. rs_userId s = userId) (db_reputationSnapshots db) of
           None \<Rightarrow> db_reputationSnapshots db @
             [f \<lparr>rs_userId = userId, rs_scoreTotal = 0, rs_reputationLevel = ''bronze'', rs_scoreBreakdown = JObj []\<rparr>]
         | Some _ \<Rightarrow> update_where (\<lambda>s. rs_userId s = userId) f (db_reputationSnapshots db))\<rparr>))"

record daily_detail =
  dd_userId :: string
  dd_walletAddress :: "string option"
  dd_previousScore :: int
  dd_newScore :: jsnum
  dd_tier :: string
  dd_discountPct :: jsnum

record daily_summary =
  dy_scanned :: nat
  dy_updated :: nat
  dy_tierUpgrades :: nat
  dy_errors :: nat
  dy_details :: "daily_detail list"

definition previous_score :: "reputation_snapshot option \<Rightarrow> int" where
  "previous_score snapshot = (case snapshot of Some s \<Rightarrow> rs_scoreTotal s | None \<Rightarrow> 250)"

definition previous_tier :: "reputation_snapshot option \<Rightarrow> string" where
  "previous_tier snapshot = (case snapshot of Some s \<Rightarrow> rs_reputationLevel s | None \<Rightarrow> ''None'')"

definition tier_upgraded :: "reputation_snapshot option \<Rightarrow> reputation_result \<Rightarrow> bool" where
  "tier_upgraded snapshot result \<longleftrightarrow>
     previous_tier snapshot \<noteq> tier_name (rr_tier result)
     \<and> jlt (Fin (of_int (previous_score snapshot))) (rr_score result)"

definition upgrade_event :: "int \<Rightarrow> string \<Rightarrow> reputation_result \<Rightarrow> reputation_event" where
  "upgrade_event now userId result =
     \<lparr>re_userId = userId, re_sourceType = ''tier_upgrade'', re_sourceId = None,
      re_sourceKey = Some (tier_name (rr_tier result) @ '':'' @ take 10 (toISOString now)), re_pointsDelta = 0\<rparr>"

definition write_result :: "reputation_result \<Rightarrow> int \<Rightarrow> reputation_snapshot \<Rightarrow> reputation_snapshot" where
  "write_result result score s =
     s\<lparr>rs_scoreTotal := score, rs_reputationLevel := tier_name (rr_tier result),
       rs_scoreBreakdown := breakdown_json (rr_breakdown result)\<rparr>"

text \<open>
  One borrower: the result, and what it wrote. The error that ends a borrower's turn leaves what
  was written before it.
\<close>

definition daily_result :: "int \<Rightarrow> (string \<times> loan list) list \<Rightarrow> (string \<times> loan_repayment list) list \<Rightarrow> profile
    \<Rightarrow> reputation_result" where
  "daily_result now loansByBorrower repaymentsByPayer borrower =
     computeBorrowerReputationScore
       (borrower_stats now borrower (group_of loansByBorrower (profile_id borrower))
         (group_of repaymentsByPayer (profile_id borrower)))"

definition daily_borrower :: "int \<Rightarrow> (string \<times> loan list) list \<Rightarrow> (string \<times> loan_repayment list) list
    \<Rightarrow> reputation_snapshot list \<Rightarrow> profile \<Rightarrow> daily_summary \<times> database \<Rightarrow> daily_summary \<times> database" where
  "daily_borrower now loansByBorrower repaymentsByPayer snapshots borrower = (\<lambda>(summary, db).
     let snapshot = map_of (rev (map (\<lambda>s. (rs_userId s, s)) snapshots)) (profile_id borrower);
         result = daily_result now loansByBorrower repaymentsByPayer borrower;
         failed = summary\<lparr>dy_errors := Suc (dy_errors summary)\<rparr>;
         finished = (\<lambda>sm. sm\<lparr>dy_updated := Suc (dy_updated sm),
           dy_details := dy_details sm @ [\<lparr>dd_userId = profile_id borrower,
             dd_walletAddress = profile_walletAddress borrower, dd_previousScore = previous_score snapshot,
             dd_newScore = rr_score result, dd_tier = tier_name (rr_tier result),
             dd_discountPct = rr_rateDiscountPct result\<rparr>]\<rparr>)
     in case to_int4 (rr_score result) of
          None \<Rightarrow> (failed, db)
        | Some score \<Rightarrow>
            (case upsert_snapshot (profile_id borrower) (write_result result score) db of
               None \<Rightarrow> (failed, db)
             | Some db1 \<Rightarrow>
                 if tier_upgraded snapshot result then
                   (case insert_reputation_event (upgrade_event now (profile_id borrower) result) db1 of
                      None \<Rightarrow> (failed\<lparr>dy_tierUpgrades := Suc (dy_tierUpgrades summary)\<rparr>, db1)
                    | Some db2 \<Rightarrow> (finished (summary\<lparr>dy_tierUpgrades := Suc (dy_tierUpgrades summary)\<rparr>), db2))
                 else (finished summary, db1)))"

text \<open>\<open>None\<close> is the error of a missing database.\<close>

definition runDailyReputationRecalculation :: "env \<Rightarrow> database \<Rightarrow> (daily_summary \<times> database) option" where
  "runDailyReputationRecalculation e db =
     (if \<not> env_dbAvailable e then None
      else (let borrowers = filter (\<lambda>p. profile_role p = RoleBorrower) (db_profiles db);
                ids = map profile_id borrowers;
                summary = \<lparr>dy_scanned = length borrowers, dy_updated = 0, dy_tierUpgrades = 0, dy_errors = 0,
                           dy_details = []\<rparr>;
                loansByBorrower = groupBy (filter (\<lambda>l. loan_borrowerId l \<in> set ids) (db_loans db)) loan_borrowerId;
                repaymentsByPayer = groupBy (filter (\<lambda>r. rep_payerId r \<in> set ids) (db_loanRepayments db)) rep_payerId;
                snapshots = filter (\<lambda>s. rs_userId s \<in> set ids) (db_reputationSnapshots db)
            in Some (fold (daily_borrower (env_now e) loansByBorrower repaymentsByPayer snapshots) borrowers (summary, db))))"

subsection \<open>Tasks\<close>

record platform_task =
  pt_id :: string
  pt_points :: int

definition getPlatformTasks :: "platform_task list" where
  "getPlatformTasks =
     [\<lparr>pt_id = ''task_stellar_basics'', pt_points = 30\<rparr>,
      \<lparr>pt_id = ''task_credit_score'', pt_points = 25\<rparr>,
      \<lparr>pt_id = ''task_defi_lending'', pt_points = 35\<rparr>]"

datatype task_error =
    TaskRateLimited
  | TaskDbUnavailable
  | TaskUnauthorized
  | TaskIdRequired
  | TaskNotFound
  | TaskAlreadyCompleted
  | TaskInternal

type_synonym task_answer = "(task_error + string \<times> int) answer"

definition task_completed :: "string \<Rightarrow> string \<Rightarrow> database \<Rightarrow> bool" where
  "task_completed userId taskId db \<longleftrightarrow>
     find (\<lambda>ev. re_userId ev = userId \<and> re_sourceType ev = ''task_completion'' \<and> re_sourceKey ev = Some taskId)
       (db_reputationEvents db) \<noteq> None"

text \<open>What runs before the insert: the task that may be awarded, or the answer.\<close>

definition task_check :: "env \<Rightarrow> jsval \<Rightarrow> database \<Rightarrow> (int \<times> task_error) + session_user \<times> platform_task" where
  "task_check e taskId db =
     (if env_rateLimited e then Inl (429, TaskRateLimited)
      else if \<not> env_dbAvailable e then Inl (503, TaskDbUnavailable)
      else case env_session e of
        None \<Rightarrow> Inl (401, TaskUnauthorized)
      | Some user \<Rightarrow>
          if \<not> js_truthy taskId then Inl (400, TaskIdRequired)
          else case find (\<lambda>t. JStr (pt_id t) = taskId) getPlatformTasks of
            None \<Rightarrow> Inl (404, TaskNotFound)
          | Some t \<Rightarrow>
              if task_completed (user_id user) (pt_id t) db then Inl (409, TaskAlreadyCompleted)
              else Inr (user, t))"

definition task_event :: "session_user \<Rightarrow> platform_task \<Rightarrow> reputation_event" where
  "task_event user t =
     \<lparr>re_userId = user_id user, re_sourceType = ''task_completion'', re_sourceId = None,
      re_sourceKey = Some (pt_id t), re_pointsDelta = pt_points t\<rparr>"

definition task_award :: "session_user \<Rightarrow> platform_task \<Rightarrow> world \<Rightarrow> task_answer \<times> world" where
  "task_award user t w =
     (case insert_reputation_event (task_event user t) (w_db w) of
        None \<Rightarrow> (Answer 500 (Inl TaskInternal), w)
      | Some db \<Rightarrow> (Answer 200 (Inr (pt_id t, pt_points t)), set_db (\<lambda>_. db) w))"

definition POST_tasks_complete :: "env \<Rightarrow> jsval \<Rightarrow> world \<Rightarrow> task_answer \<times> world" where
  "POST_tasks_complete e taskId w =
     (case task_check e taskId (w_db w) of
        Inl (status, err) \<Rightarrow> (Answer status (Inl err), w)
      | Inr (user, t) \<Rightarrow> task_award user t w)"

end
