(* ===== verification/KycWebhook.thy ===== *)
theory KycWebhook
  imports ReputationSync
begin

text \<open>
  What verification writes: the callback of the KYC provider, \<open>POST /api/kyc/webhook\<close>
  (\<open>src/app/api/kyc/webhook/route.ts\<close>), with the signature check and the reading of its payload of
  \<open>src/lib/kyc/provider.ts\<close>, and an admin's decision, \<open>verifyKYCDocument\<close> of
  \<open>src/app/actions/admin-kyc.ts\<close>. The HMAC is a parameter, as is the text under which the database
  driver stores a value that is no string; logging is left out.
\<close>

subsection \<open>The signature\<close>

record kyc_env =
  ke_webhookSecret :: "string option" \<comment> \<open>\<open>SUMSUB_WEBHOOK_SECRET\<close>\<close>
  ke_development :: bool \<comment> \<open>\<open>NODE_ENV === "development"\<close>\<close>
  ke_hmac :: "string \<Rightarrow> string \<Rightarrow> string" \<comment> \<open>HMAC-SHA256 of a key and a text, in hexadecimal\<close>
  ke_pgText :: "jsval \<Rightarrow> string"

text \<open>
  \<open>Buffer.from(s, "hex")\<close>: pairs of hexadecimal digits, in either case, up to the first pair that
  is none.
\<close>

definition nibble :: "char \<Rightarrow> int option" where
  "nibble c = (let n = (of_char c :: int) in
     if 48 \<le> n \<and> n \<le> 57 then Some (n - 48)
     else if 97 \<le> n \<and> n \<le> 102 then Some (n - 87)
     else if 65 \<le> n \<and> n \<le> 70 then Some (n - 55)
     else None)"

fun hex_bytes :: "string \<Rightarrow> int list" where
  "hex_bytes (a # b # s) =
     (case (nibble a, nibble b) of (Some h, Some l) \<Rightarrow> (16 * h + l) # hex_bytes s | _ \<Rightarrow> [])"
| "hex_bytes _ = []"

text \<open>The comparison throws on lengths that differ, which is caught: \<open>False\<close>, as for bytes that differ.\<close>

definition verifyWebhookSignature :: "kyc_env \<Rightarrow> string \<Rightarrow> string \<Rightarrow> bool" where
  "verifyWebhookSignature ke rawBody digestHeader =
     (let webhookSecret = opt_string (ke_webhookSecret ke)
      in if webhookSecret = [] then ke_development ke
         else hex_bytes digestHeader = hex_bytes (ke_hmac ke webhookSecret rawBody))"

subsection \<open>The payload\<close>

definition review :: "jsval \<Rightarrow> string \<Rightarrow> jsval" where
  "review payload key = js_get (js_get payload ''reviewResult'') key"

definition mapProviderStatus :: "jsval \<Rightarrow> kyc_status" where
  "mapProviderStatus payload =
     (if js_get payload ''type'' = JStr ''applicantReviewed'' then
        (if review payload ''reviewAnswer'' = JStr ''GREEN'' then KycVerified
         else if review payload ''reviewAnswer'' = JStr ''RED'' then
           (if review payload ''reviewRejectType'' = JStr ''RETRY'' then KycSubmitted else KycRejected)
         else KycSubmitted)
      else KycSubmitted)"

text \<open>The labels are spread into a list: an array, or the characters of a string; \<open>None\<close> is the error of anything else.\<close>

definition spread_labels :: "jsval \<Rightarrow> jsval list option" where
  "spread_labels v =
     (case js_nullish v (JArr []) of
        JArr vs \<Rightarrow> Some vs | JStr s \<Rightarrow> Some (map (\<lambda>c. JStr [c]) s) | _ \<Rightarrow> None)"

text \<open>\<open>parts.join("; ")\<close>\<close>

fun join_parts :: "jsval list \<Rightarrow> string" where
  "join_parts [] = []"
| "join_parts (v # vs) =
     (if v = JUndef \<or> v = JNull then [] else js_to_string v) @ (if vs = [] then [] else ''; '' @ join_parts vs)"

text \<open>\<open>None\<close> is a thrown error, \<open>Some None\<close> the answer \<open>null\<close>.\<close>

definition extractRejectionReason :: "jsval \<Rightarrow> string option option" where
  "extractRejectionReason payload =
     (if review payload ''reviewAnswer'' \<noteq> JStr ''RED'' then Some None
      else case spread_labels (review payload ''rejectLabels'') of
        None \<Rightarrow> None
      | Some labels \<Rightarrow>
          (let c = js_nullish (js_nullish (review payload ''moderationComment'') (review payload ''clientComment'')) (JStr []);
               parts = labels @ (if js_truthy c then [c] else [])
           in Some (Some (if parts \<noteq> [] then join_parts parts else ''Document does not meet requirements''))))"

subsection \<open>The callback\<close>

datatype kyc_error = KycBadSignature | KycBadJson | KycMissingIds | KycThrown

datatype kyc_reply = KycReceived | KycUpdated kyc_status

type_synonym kyc_answer = "(kyc_error + kyc_reply) answer"

text \<open>
  What the update sets. A field that is \<open>undefined\<close> is not set, and a reason is stored only when it
  is not empty.
\<close>

definition provider_status :: "kyc_env \<Rightarrow> jsval \<Rightarrow> string option \<Rightarrow> string option" where
  "provider_status ke v old =
     (case v of JUndef \<Rightarrow> old | JNull \<Rightarrow> None | JStr s \<Rightarrow> Some s | _ \<Rightarrow> Some (ke_pgText ke v))"

definition text_of :: "kyc_env \<Rightarrow> jsval \<Rightarrow> string" where
  "text_of ke v = (case v of JStr s \<Rightarrow> s | _ \<Rightarrow> ke_pgText ke v)"

definition kyc_update :: "kyc_env \<Rightarrow> int \<Rightarrow> jsval \<Rightarrow> string option \<Rightarrow> profile \<Rightarrow> profile" where
  "kyc_update ke now payload reason p =
     (let status = mapProviderStatus payload;
          p = p\<lparr>profile_kycStatus := status,
                profile_kycProviderId := Some (text_of ke (js_get payload ''applicantId'')),
                profile_kycProviderStatus := provider_status ke (js_get payload ''type'') (profile_kycProviderStatus p),
                profile_regulatedPoolAccess := (status = KycVerified)\<rparr>
      in if status = KycVerified then p\<lparr>profile_kycVerifiedAt := Some now, profile_kycRejectionReason := None\<rparr>
         else if status = KycRejected \<and> truthy_opt reason then p\<lparr>profile_kycRejectionReason := reason\<rparr>
         else if status = KycSubmitted then p\<lparr>profile_kycSubmittedAt := Some now\<rparr>
         else p)"

text \<open>
  An update of the profiles: the provider's ids that are set stay unique, else the statement fails
  (\<open>None\<close>).
\<close>

definition update_profiles :: "(profile \<Rightarrow> bool) \<Rightarrow> (profile \<Rightarrow> profile) \<Rightarrow> database \<Rightarrow> database option" where
  "update_profiles P f db =
     (let rows = update_where P f (db_profiles db)
      in if distinct (filter (\<lambda>i. i \<noteq> None) (map profile_kycProviderId rows))
         then Some (db\<lparr>db_profiles := rows\<rparr>) else None)"

text \<open>The value of an id column compared with a JSON value: only a string can be a uuid.\<close>

definition uuid_of :: "env \<Rightarrow> jsval \<Rightarrow> string option" where
  "uuid_of e v = Option.bind (js_string v) (env_pgUuid e)"

text \<open>
  By our id first, and by the provider's id when no row has it; an error of either is caught, and
  the profiles stay.
\<close>

definition kyc_write :: "env \<Rightarrow> kyc_env \<Rightarrow> jsval \<Rightarrow> string option \<Rightarrow> database \<Rightarrow> database" where
  "kyc_write e ke payload reason db =
     (let f = kyc_update ke (env_now e) payload reason
      in case uuid_of e (js_get payload ''externalUserId'') of
           None \<Rightarrow> db
         | Some u \<Rightarrow>
             (if u \<in> profile_id ` set (db_profiles db)
              then (case update_profiles (\<lambda>p. profile_id p = u) f db of None \<Rightarrow> db | Some db' \<Rightarrow> db')
              else (case update_profiles
                      (\<lambda>p. profile_kycProviderId p = Some (text_of ke (js_get payload ''applicantId''))) f db of
                      None \<Rightarrow> db | Some db' \<Rightarrow> db')))"

definition seed_score :: "int \<Rightarrow> reputation_snapshot \<Rightarrow> reputation_snapshot" where
  "seed_score score s = s\<lparr>rs_scoreTotal := score\<rparr>"

definition kyc_seed :: "env \<Rightarrow> jsval \<Rightarrow> database \<Rightarrow> database" where
  "kyc_seed e payload db =
     (if mapProviderStatus payload = KycVerified then
        (case Option.bind (uuid_of e (js_get payload ''externalUserId'')) (\<lambda>u. upsert_snapshot u (seed_score 100) db) of
           None \<Rightarrow> db | Some db' \<Rightarrow> db')
      else db)"

text \<open>\<open>POST\<close> of a raw body and the digest header, which is empty when the request has none.\<close>

definition POST_kyc_webhook :: "env \<Rightarrow> kyc_env \<Rightarrow> string \<Rightarrow> string \<Rightarrow> database \<Rightarrow> kyc_answer \<times> database" where
  "POST_kyc_webhook e ke rawBody digestHeader db =
     (if \<not> verifyWebhookSignature ke rawBody digestHeader then (Answer 401 (Inl KycBadSignature), db)
      else case env_jsonParse e rawBody of
        None \<Rightarrow> (Answer 400 (Inl KycBadJson), db)
      | Some payload \<Rightarrow>
          if payload = JNull then (Answer 500 (Inl KycThrown), db)
          else if \<not> js_truthy (js_get payload ''applicantId'') \<or> \<not> js_truthy (js_get payload ''externalUserId'')
            then (Answer 400 (Inl KycMissingIds), db)
          else case extractRejectionReason payload of
            None \<Rightarrow> (Answer 500 (Inl KycThrown), db)
          | Some reason \<Rightarrow>
              if \<not> env_dbAvailable e then (Answer 200 (Inr KycReceived), db)
              else (Answer 200 (Inr (KycUpdated (mapProviderStatus payload))),
                    kyc_seed e payload (kyc_write e ke payload reason db)))"

subsection \<open>An admin's decision\<close>

text \<open>\<open>value?.trim()\<close> is truthy\<close>

definition has_text :: "string option \<Rightarrow> bool" where
  "has_text v = (js_trim (opt_string v) \<noteq> [])"

definition initial_score :: "profile option \<Rightarrow> int" where
  "initial_score userProfile = max 0 (min 750 (70
     + (if has_text (map_option profile_fullName userProfile) then 15 else 0)
     + (if has_text (Option.bind userProfile profile_phone) then 15 else 0)
     + (if has_text (Option.bind userProfile profile_countryCode) then 10 else 0)))"

definition admin_decide :: "int \<Rightarrow> bool \<Rightarrow> string option \<Rightarrow> profile \<Rightarrow> profile" where
  "admin_decide now approved rejectionReason p =
     (if approved then p\<lparr>profile_kycStatus := KycVerified, profile_kycVerifiedAt := Some now, profile_kycRejectionReason := None\<rparr>
      else p\<lparr>profile_kycStatus := KycRejected,
             profile_kycRejectionReason := Some (if truthy_opt rejectionReason then the rejectionReason
               else ''Document does not meet requirements'')\<rparr>)"

datatype admin_kyc_error = AdminUnauthorized | AdminNoDatabase | AdminFailed

text \<open>\<open>None\<close> is success.\<close>

definition verifyKYCDocument :: "env \<Rightarrow> string \<Rightarrow> bool \<Rightarrow> string option \<Rightarrow> database \<Rightarrow> admin_kyc_error option \<times> database" where
  "verifyKYCDocument e userId approved rejectionReason db =
     (if requireApiAdmin e db = None then (Some AdminUnauthorized, db)
      else if \<not> env_dbAvailable e then (Some AdminNoDatabase, db)
      else case env_pgUuid e userId of
        None \<Rightarrow> (Some AdminFailed, db)
      | Some u \<Rightarrow>
          (let db1 = db\<lparr>db_profiles := update_where (\<lambda>p. profile_id p = u)
                          (admin_decide (env_now e) approved rejectionReason) (db_profiles db)\<rparr>
           in if \<not> approved then (None, db1)
              else case upsert_snapshot u (seed_score (initial_score (find (\<lambda>p. profile_id p = u) (db_profiles db1)))) db1 of
                None \<Rightarrow> (Some AdminFailed, db1)
              | Some db2 \<Rightarrow> (None, db2)))"

end
