(* ===== verification/Demo.thy ===== *)
theory Demo
  imports Server
begin

text \<open>
  A concrete platform for the examples of the development: a borrower and a lender with wallets
  and verified profiles, a session for either, and a Horizon that knows one transaction of one
  payment. Not a model of anything: the examples show that the theorems apply.
\<close>

definition demo_borrower :: session_user where
  "demo_borrower = \<lparr>user_id = ''b'', user_walletAddress = ''GB'', user_role = RoleBorrower, user_email = None\<rparr>"

definition demo_lender :: session_user where
  "demo_lender = \<lparr>user_id = ''l'', user_walletAddress = ''GL'', user_role = RoleLender, user_email = None\<rparr>"

definition demo_profile :: "session_user \<Rightarrow> profile" where
  "demo_profile u = \<lparr>profile_id = user_id u, profile_role = user_role u,
     profile_walletAddress = Some (user_walletAddress u), profile_kycStatus = KycVerified,
     profile_riskStatus = RiskLow, profile_regulatedPoolAccess = True, profile_referralCode = None,
     profile_fullName = ''demo'', profile_phone = None, profile_countryCode = None, profile_kycSubmittedAt = Some 0,
     profile_kycVerifiedAt = Some 0, profile_kycRejectionReason = None, profile_kycProviderId = None,
     profile_kycProviderStatus = None, profile_createdAt = 0\<rparr>"

definition demo_hash :: "char \<Rightarrow> string" where
  "demo_hash c = replicate 64 c"

definition demo_tx :: "string \<Rightarrow> string \<Rightarrow> horizon_tx" where
  "demo_tx src memo = \<lparr>tx_successful = True, tx_source_account = src, tx_memo_type = Some ''text'',
     tx_memo = Some memo, tx_ledger = 7, tx_created_at = ''1970-01-01T00:00:00Z''\<rparr>"

definition demo_payment :: "string \<Rightarrow> string \<Rightarrow> horizon_op" where
  "demo_payment dest amt = \<lparr>op_type = ''payment'', op_to = Some dest, op_amount = Some amt,
     op_asset_type = Some ''native'', op_account = None, op_starting_balance = None\<rparr>"

definition demo_horizon :: "string \<Rightarrow> string \<Rightarrow> string \<Rightarrow> string \<Rightarrow> horizon" where
  "demo_horizon src memo dest amt =
     \<lparr>get_tx = (\<lambda>_. Body (demo_tx src memo)), get_ops = (\<lambda>_. Body (Some [demo_payment dest amt]))\<rparr>"

definition demo_chain :: chain where
  "demo_chain = \<lparr>ch_getTransaction = (\<lambda>_. Inl ''offline''), ch_fromXDR = (\<lambda>_. Inl ''offline''),
     ch_scValToNative = (\<lambda>_. Inl ''offline''), ch_invokeReadOnly = (\<lambda>_ _ _ _. Inl ''offline''),
     ch_invokeSigned = (\<lambda>_ _ _. Inl ''offline''), ch_adminPublicKey = None\<rparr>"

definition demo_env :: "session_user \<Rightarrow> horizon \<Rightarrow> env" where
  "demo_env u hz = \<lparr>env_rateLimited = False, env_session = Some u, env_dbAvailable = True, env_now = 1000,
     env_pgUuid = Some, env_genUuid = (\<lambda>n. replicate (Suc n) (CHR ''u'')), env_horizon = hz,
     env_horizonUrl = ''https://horizon'', env_chain = demo_chain,
     env_submitPayout = (\<lambda>_ _ _. Inr (demo_hash CHR ''e'')), env_lifecycleVar = Some ''off'',
     env_lendingContractId = None, env_pooledLendingContractId = None, env_adminAddress = None,
     env_platformAddress = Some ''GP'', env_platformFeeWallet = None,
     env_platformWalletKey = Some (Some ''GP''), env_adminEmails = Some ''gb, ops@trustlend.example'', env_jsonParse = (\<lambda>_. None)\<rparr>"

definition demo_db :: database where
  "demo_db = empty_db\<lparr>db_profiles := [demo_profile demo_borrower, demo_profile demo_lender]\<rparr>"

definition demo_world :: "database \<Rightarrow> world" where
  "demo_world db = \<lparr>w_db = db, w_log = []\<rparr>"

text \<open>A loan of 100 XLM of which \<open>funded\<close> millionths have been contributed.\<close>

definition demo_loan :: "int \<Rightarrow> loan" where
  "demo_loan funded = \<lparr>loan_id = ''L'', loan_borrowerId = ''b'', loan_poolId = None, loan_status = LoanRequested,
     loan_principalAmount = 100000000, loan_aprBps = 1000, loan_durationDays = 30,
     loan_rateModel = ''fixed'', loan_fundedAmount = funded, loan_repaidAmount = 0, loan_approvedAt = None,
     loan_fundedAt = None, loan_dueAt = None, loan_defaultedAt = None, loan_createdAt = 0, loan_metadata = JObj []\<rparr>"

lemma demo_env_simps [simp]:
  "env_rateLimited (demo_env u hz) = False" "env_session (demo_env u hz) = Some u"
  "env_dbAvailable (demo_env u hz) = True" "env_now (demo_env u hz) = 1000"
  "env_pgUuid (demo_env u hz) = Some" "env_horizon (demo_env u hz) = hz"
  "env_genUuid (demo_env u hz) n = replicate (Suc n) (CHR ''u'')"
  "env_horizonUrl (demo_env u hz) = ''https://horizon''" "env_lifecycleVar (demo_env u hz) = Some ''off''"
  "env_platformAddress (demo_env u hz) = Some ''GP''" "env_platformFeeWallet (demo_env u hz) = None"
  "env_platformWalletKey (demo_env u hz) = Some (Some ''GP'')" "env_jsonParse (demo_env u hz) = (\<lambda>_. None)"
  "env_pooledLendingContractId (demo_env u hz) = None"
  by (simp_all add: demo_env_def)

lemma demo_loan_simps [simp]:
  "loan_id (demo_loan n) = ''L''" "loan_borrowerId (demo_loan n) = ''b''" "loan_status (demo_loan n) = LoanRequested"
  "loan_principalAmount (demo_loan n) = 100000000" "loan_fundedAmount (demo_loan n) = n"
  "loan_metadata (demo_loan n) = JObj []" "loan_durationDays (demo_loan n) = 30"
  by (simp_all add: demo_loan_def)

lemma demo_hash_lower:
  assumes "\<not> js_space c"
  shows "js_trim (demo_hash c) = demo_hash c" "js_lower (demo_hash c) = demo_hash (hd (js_lower [c]))"
  using assms by (simp_all add: demo_hash_def js_trim_no_space js_lower_def)

lemma demo_hash_plausible: "is_hex_lower c \<Longrightarrow> list_all is_hex_lower (demo_hash c)" "length (demo_hash c) = 64"
  by (simp_all add: demo_hash_def list_all_iff)

lemma demo_chars:
  "\<not> js_space CHR ''a''" "\<not> js_space CHR ''A''" "\<not> js_space CHR ''b''" "\<not> js_space CHR ''B''"
  "is_hex_lower CHR ''a''" "is_hex_lower CHR ''b''"
  "js_lower ''a'' = ''a''" "js_lower ''A'' = ''a''" "js_lower ''b'' = ''b''" "js_lower ''B'' = ''b''"
  by code_simp+

text \<open>The hash of the examples, in both cases: it normalises to the lower-case one.\<close>

lemma demo_hashes [simp]:
  "js_trim (demo_hash CHR ''a'') = demo_hash CHR ''a''" "js_trim (demo_hash CHR ''A'') = demo_hash CHR ''A''"
  "js_trim (demo_hash CHR ''b'') = demo_hash CHR ''b''"
  "js_lower (demo_hash CHR ''a'') = demo_hash CHR ''a''" "js_lower (demo_hash CHR ''A'') = demo_hash CHR ''a''"
  "js_lower (demo_hash CHR ''b'') = demo_hash CHR ''b''"
  "isPlausibleTxHash (JStr (demo_hash CHR ''a''))" "isPlausibleTxHash (JStr (demo_hash CHR ''b''))"
  "demo_hash CHR ''a'' \<noteq> demo_hash CHR ''A''" "demo_hash CHR ''a'' \<noteq> demo_hash CHR ''b''"
  by (simp_all add: isPlausibleTxHash_def demo_hash_lower demo_chars demo_hash_plausible)
    (simp_all add: demo_hash_def numeral_eq_Suc)

end
