(* ===== verification/ReputationSafety.thy ===== *)
theory ReputationSafety
  imports ReputationSync Demo
begin

text \<open>
  What the writers of the reputation leave behind: the score of the daily run is exact integer
  arithmetic, the zero-point event that announces a new tier overwrites the score that earned it,
  and events of a user without a snapshot are refused.
\<close>

subsection \<open>The score\<close>

definition nonneg_num :: "jsnum \<Rightarrow> bool" where
  "nonneg_num x \<longleftrightarrow> x \<noteq> NaN \<and> jle (Fin 0) x"

lemma nonneg_cases:
  assumes "nonneg_num x"
  obtains (fin) a where "x = Fin a" "0 \<le> a" | (inf) "x = PosInf"
  using assms by (cases x) (auto simp: nonneg_num_def)

lemma nonneg_Fin [simp]: "nonneg_num (Fin a) \<longleftrightarrow> 0 \<le> a" and nonneg_PosInf [simp]: "nonneg_num PosInf"
  by (simp_all add: nonneg_num_def)

lemma to_num_nonneg [simp]: "0 \<le> x \<Longrightarrow> nonneg_num (to_num x)"
  by (auto simp: to_num_def Let_def dest: fl_nonneg)

lemma jadd_nonneg: "nonneg_num x \<Longrightarrow> nonneg_num y \<Longrightarrow> nonneg_num (jadd x y)"
  by (elim nonneg_cases) simp_all

lemma jmin_PosInf: "jmin (Fin a) PosInf = Fin a"
  by (simp add: jmin_def)

text \<open>A capped bonus: so many points per unit, up to a cap.\<close>

lemma capped_bonus:
  assumes x: "nonneg_num x" and m: "0 < m" and c: "0 < c" "c < 2 ^ 53" and cap: "0 \<le> cap" "cap < 2 ^ 53"
  obtains k where "0 \<le> k" "k \<le> cap"
    "jmin (Fin (of_int cap)) (jmul (jfloor (jdiv x (Fin (of_int m)))) (Fin (of_int c))) = Fin (of_int k)"
proof -
  note result = that
  have inf: ?thesis if "jmul (jfloor (jdiv x (Fin (of_int m)))) (Fin (of_int c)) = PosInf"
    using that cap by (intro result [of cap]) (simp_all add: jmin_PosInf)
  have q: "nonneg_num (jdiv x (Fin (of_int m)))"
    using x m by (elim nonneg_cases) simp_all
  from q show ?thesis
  proof (cases rule: nonneg_cases)
    case (fin a)
    define n where "n = \<lfloor>a\<rfloor> * c"
    have n: "0 \<le> n"
      using fin c by (simp add: n_def)
    have prod: "jmul (jfloor (jdiv x (Fin (of_int m)))) (Fin (of_int c)) = to_num (of_int n)"
      by (simp add: fin n_def)
    show ?thesis
    proof (cases "n \<le> cap")
      case True
      with n cap have "\<bar>n\<bar> < 2 ^ 53"
        by simp
      with True n prod show ?thesis
        by (intro result [of n]) (simp_all add: to_num_int)
    next
      case False
      then have "of_int cap \<le> fl (of_int n)"
        using cap by (intro fl_ge_int) simp_all
      then have "to_num (of_int n) = PosInf \<or> (\<exists>b. to_num (of_int n) = Fin b \<and> of_int cap \<le> b)"
        using cap by (auto simp: to_num_def Let_def)
      with prod inf cap show ?thesis
        by (auto simp: jmin_PosInf intro!: result [of cap])
    qed
  next
    case q: inf
    show ?thesis
      using c by (intro inf) (simp add: q inf_times_def)
  qed
qed

lemma jadd_int: "\<bar>a\<bar> < 2 ^ 51 \<Longrightarrow> \<bar>b\<bar> < 2 ^ 51 \<Longrightarrow> jadd (Fin (of_int a)) (Fin (of_int b)) = Fin (of_int (a + b))"
  by (simp add: to_num_int flip: of_int_add)

lemma jsub_int: "\<bar>a\<bar> < 2 ^ 51 \<Longrightarrow> \<bar>b\<bar> < 2 ^ 51 \<Longrightarrow> jsub (Fin (of_int a)) (Fin (of_int b)) = Fin (of_int (a - b))"
  by (simp add: jsub_Fin to_num_int flip: of_int_diff)

lemma jmul_int: "\<bar>a * b\<bar> < 2 ^ 53 \<Longrightarrow> jmul (Fin (of_int a)) (Fin (of_int b)) = Fin (of_int (a * b))"
  by (simp add: to_num_int flip: of_int_mult)

definition exact_score :: "int \<Rightarrow> int \<Rightarrow> int \<Rightarrow> int \<Rightarrow> int \<Rightarrow> int" where
  "exact_score onTime early late defaulted extras =
     max 0 (min 1000 (250 + 35 * onTime + 45 * early - 25 * late - 150 * defaulted + extras))"

lemma clamp_score_int: "clamp_score (Fin (of_int n)) = Fin (of_int (max 0 (min 1000 n)))"
proof -
  have "\<lfloor>(of_int n :: rat) + 1 / 2\<rfloor> = n"
    by linarith
  then show ?thesis
    by (simp add: clamp_score_def MIN_REPUTATION_SCORE_def MAX_REPUTATION_SCORE_def of_int_max of_int_min)
qed

lemma score_exact:
  assumes counts: "st_onTimeRepayments st = Fin (of_int on)" "st_earlyRepayments st = Fin (of_int ea)"
      "st_lateRepayments st = Fin (of_int la)" "st_defaultedLoans st = Fin (of_int de)"
    and range: "0 \<le> on" "on < 2 ^ 40" "0 \<le> ea" "ea < 2 ^ 40" "0 \<le> la" "la < 2 ^ 40" "0 \<le> de" "de < 2 ^ 40"
    and repaid: "nonneg_num (st_totalRepaidXlm st)" and age: "st_accountAgeDays st = Some d" "nonneg_num d"
  obtains extras where "0 \<le> extras" "extras \<le> 300"
    "rr_score (computeBorrowerReputationScore st) = Fin (of_int (exact_score on ea la de extras))"
proof -
  obtain vol where vol: "0 \<le> vol" "vol \<le> 150"
    "bd_volumeBonus (reputation_breakdown st) = Fin (of_int vol)"
    using capped_bonus [OF repaid, of 1000 15 150] by (auto simp: reputation_breakdown_def)
  obtain ten where ten: "0 \<le> ten" "ten \<le> 50"
    "bd_tenureBonus (reputation_breakdown st) = Fin (of_int ten)"
    using capped_bonus [OF age(2), of 30 5 50] by (auto simp: reputation_breakdown_def age(1))
  define kyc where "kyc = (if st_emailVerified st then 20 else 0 :: int) + (if st_kycVerified st then 80 else 0)"
  have kyc: "0 \<le> kyc" "kyc \<le> 100" "bd_kycBonus (reputation_breakdown st) = Fin (of_int kyc)"
    by (simp_all add: kyc_def reputation_breakdown_def)
  have products: "bd_onTimeBonus (reputation_breakdown st) = Fin (of_int (35 * on))"
    "bd_earlyPayoffBonus (reputation_breakdown st) = Fin (of_int (45 * ea))"
    "bd_latePenalty (reputation_breakdown st) = Fin (of_int (25 * la))"
    "bd_defaultPenalty (reputation_breakdown st) = Fin (of_int (150 * de))"
    "bd_baseScore (reputation_breakdown st) = Fin (of_int 250)"
    using jmul_int [of on 35] jmul_int [of ea 45] jmul_int [of la 25] jmul_int [of de 150] range
    by (simp_all add: reputation_breakdown_def counts BASE_REPUTATION_SCORE_def mult.commute)
  have "raw_score (reputation_breakdown st) =
      Fin (of_int (250 + 35 * on + 45 * ea + vol + kyc + ten - 25 * la - 150 * de))"
    unfolding raw_score_def products vol ten kyc using range vol(1,2) ten(1,2) kyc(1,2)
    by ((subst jadd_int jsub_int, (simp; fail), (simp; fail))+) (rule refl)
  then have "rr_score (computeBorrowerReputationScore st) = Fin (of_int (exact_score on ea la de (vol + kyc + ten)))"
    by (simp only: computeBorrowerReputationScore_def Let_def reputation_result.simps clamp_score_int exact_score_def)
      (simp add: algebra_simps)
  then show ?thesis
    using vol ten kyc by (intro that [of "vol + kyc + ten"]) simp_all
qed

subsection \<open>The daily run\<close>

lemma sum_amounts_nonneg: "\<forall>n \<in> set ns. 0 \<le> n \<Longrightarrow> nonneg_num (sum_amounts ns)"
proof -
  have "nonneg_num s \<Longrightarrow> \<forall>n \<in> set ns. 0 \<le> n \<Longrightarrow> nonneg_num (fold (\<lambda>n sum. jadd sum (num_of_micro n)) ns s)" for s
    by (induction ns arbitrary: s) (simp_all add: jadd_nonneg num_of_micro_def of_micro_def)
  then show "\<forall>n \<in> set ns. 0 \<le> n \<Longrightarrow> nonneg_num (sum_amounts ns)"
    by (simp add: sum_amounts_def)
qed

lemma age_nonneg: "a \<le> b \<Longrightarrow> nonneg_num (jfloor (jdiv (to_num (of_int (b - a))) (Fin 86400000)))"
proof -
  assume "a \<le> b"
  then have "nonneg_num (to_num (of_int (b - a)))"
    by (intro to_num_nonneg) simp
  then have "nonneg_num (jdiv (to_num (of_int (b - a))) (Fin 86400000))"
    by (elim nonneg_cases) (simp_all flip: of_int_diff)
  then show ?thesis
    by (elim nonneg_cases) (simp_all flip: of_int_diff)
qed

text \<open>The result of a borrower, read off the tables.\<close>

definition borrower_loans :: "string \<Rightarrow> database \<Rightarrow> loan list" where
  "borrower_loans u db = filter (\<lambda>l. loan_borrowerId l = u) (db_loans db)"

definition borrower_repayments :: "string \<Rightarrow> database \<Rightarrow> loan_repayment list" where
  "borrower_repayments u db = filter (\<lambda>r. rep_payerId r = u) (db_loanRepayments db)"

definition borrower_result :: "int \<Rightarrow> database \<Rightarrow> profile \<Rightarrow> reputation_result" where
  "borrower_result now db p = computeBorrowerReputationScore
     (borrower_stats now p (borrower_loans (profile_id p) db) (borrower_repayments (profile_id p) db))"

text \<open>How many repaid loans of a borrower count as \<open>t\<close>, and how many have defaulted.\<close>

definition timing_count :: "loan_timing \<Rightarrow> string \<Rightarrow> database \<Rightarrow> nat" where
  "timing_count t u db = length (filter (\<lambda>l. loan_status l = LoanRepaid
     \<and> loan_timing l (borrower_repayments u db) = t) (borrower_loans u db))"

definition default_count :: "string \<Rightarrow> database \<Rightarrow> nat" where
  "default_count u db = length (filter (\<lambda>l. loan_status l = LoanDefaulted) (borrower_loans u db))"

text \<open>The tables are of a size that fits a disk, their amounts are amounts, and no profile is of the future.\<close>

definition daily_ready :: "int \<Rightarrow> database \<Rightarrow> bool" where
  "daily_ready now db \<longleftrightarrow> length (db_loans db) < 2 ^ 40
     \<and> list_all (\<lambda>r. 0 \<le> rep_amount r) (db_loanRepayments db)
     \<and> list_all (\<lambda>p. profile_createdAt p \<le> now) (db_profiles db)
     \<and> distinct (map profile_id (db_profiles db)) \<and> distinct (map rs_userId (db_reputationSnapshots db))"

lemma borrower_score:
  assumes ready: "daily_ready now db" and p: "p \<in> set (db_profiles db)"
  obtains extras where "0 \<le> extras" "extras \<le> 300"
    "rr_score (borrower_result now db p) = Fin (of_int (exact_score
       (of_nat (timing_count TimingOnTime (profile_id p) db)) (of_nat (timing_count TimingEarly (profile_id p) db))
       (of_nat (timing_count TimingLate (profile_id p) db)) (of_nat (default_count (profile_id p) db)) extras))"
proof -
  note result = that
  have "length (filter Q (borrower_loans (profile_id p) db)) < 2 ^ 40" for Q
    using ready length_filter_le [of Q "borrower_loans (profile_id p) db"]
      length_filter_le [of "\<lambda>l. loan_borrowerId l = profile_id p" "db_loans db"]
    unfolding daily_ready_def borrower_loans_def by linarith
  then have "int (length (filter Q (borrower_loans (profile_id p) db))) < 2 ^ 40" for Q
    using of_nat_less_iff [of "length (filter Q (borrower_loans (profile_id p) db))" "2 ^ 40", where 'a = int]
    by simp
  note range = this
  let ?st = "borrower_stats now p (borrower_loans (profile_id p) db) (borrower_repayments (profile_id p) db)"
  have repaid: "nonneg_num (st_totalRepaidXlm ?st)"
    using ready
    by (auto simp: borrower_stats_def borrower_repayments_def daily_ready_def list_all_iff intro!: sum_amounts_nonneg)
  have created: "profile_createdAt p \<le> now"
    using ready p by (simp add: daily_ready_def list_all_iff)
  let ?n = "\<lambda>t. int (timing_count t (profile_id p) db)" and ?d = "int (default_count (profile_id p) db)"
  have timing: "count_timing t (borrower_loans (profile_id p) db) (borrower_repayments (profile_id p) db) = Fin (of_int (?n t))"
      "0 \<le> ?n t" "?n t < 2 ^ 40" for t
    using range by (simp_all add: count_timing_def count_if_def timing_count_def)
  have defaults: "st_defaultedLoans ?st = Fin (of_int ?d)" "0 \<le> ?d" "?d < 2 ^ 40"
    using range by (simp_all add: borrower_stats_def count_if_def default_count_def)
  show ?thesis
  proof (rule score_exact [of ?st "?n TimingOnTime" "?n TimingEarly" "?n TimingLate" ?d])
    show "st_accountAgeDays ?st = Some (jfloor (jdiv (to_num (of_int (now - profile_createdAt p))) (Fin (86400 * 1000))))"
      by (simp add: borrower_stats_def)
    show "nonneg_num (jfloor (jdiv (to_num (of_int (now - profile_createdAt p))) (Fin (86400 * 1000))))"
      using age_nonneg [OF created] by simp
    show "thesis" if "0 \<le> extras" "extras \<le> 300"
      "rr_score (computeBorrowerReputationScore ?st) = Fin (of_int (exact_score (?n TimingOnTime) (?n TimingEarly) (?n TimingLate) ?d extras))"
      for extras
      using that by (intro result [of extras]) (simp_all add: borrower_result_def)
  qed (use timing defaults repaid in \<open>simp_all add: borrower_stats_def\<close>)
qed

definition snapshot_of :: "string \<Rightarrow> database \<Rightarrow> reputation_snapshot option" where
  "snapshot_of u db = find (\<lambda>s. rs_userId s = u) (db_reputationSnapshots db)"

interpretation set_score: keyed_update rs_userId "\<lambda>s. s\<lparr>rs_scoreTotal := n\<rparr>" for n
  by unfold_locales simp
lemma write_result_user [simp]: "rs_userId (write_result r n s) = rs_userId s"
  by (simp add: write_result_def)

lemma find_append: "find P (xs @ ys) = (case find P xs of None \<Rightarrow> find P ys | Some x \<Rightarrow> Some x)"
  by (induction xs) simp_all

lemma upsert_snapshot_of:
  assumes "u \<in> profile_id ` set (db_profiles db)" and f: "\<And>s. rs_userId (f s) = rs_userId s"
  obtains snaps s where "upsert_snapshot u f db = Some (db\<lparr>db_reputationSnapshots := snaps\<rparr>)"
    "rs_userId s = u" "\<forall>v. find (\<lambda>s. rs_userId s = v) snaps = (if v = u then Some (f s) else snapshot_of v db)"
proof (cases "snapshot_of u db")
  case None
  let ?fresh = "\<lparr>rs_userId = u, rs_scoreTotal = 0, rs_reputationLevel = ''bronze'', rs_scoreBreakdown = JObj []\<rparr>"
  show ?thesis
    by (rule that [of "db_reputationSnapshots db @ [f ?fresh]" ?fresh])
      (use assms None in \<open>auto simp: upsert_snapshot_def snapshot_of_def find_append split: option.split\<close>)
next
  case (Some s)
  then have "rs_userId s = u"
    by (auto simp: snapshot_of_def dest: find_in_set)
  show ?thesis
    by (rule that [of "update_where (\<lambda>s. rs_userId s = u) f (db_reputationSnapshots db)" s])
      (use assms Some \<open>rs_userId s = u\<close> in \<open>simp_all add: upsert_snapshot_def snapshot_of_def
        keyed_update.find_update [OF keyed_update.intro]\<close>)
qed

lemma insert_event_snapshot_of:
  assumes "snapshot_of (re_userId ev) db = Some s"
  obtains snaps where "insert_reputation_event ev db =
      Some (db\<lparr>db_reputationEvents := db_reputationEvents db @ [ev], db_reputationSnapshots := snaps\<rparr>)"
    "\<forall>v. find (\<lambda>s. rs_userId s = v) snaps = (if v = re_userId ev
       then Some (s\<lparr>rs_scoreTotal := snapshot_score (re_userId ev) (db_reputationEvents db @ [ev])\<rparr>) else snapshot_of v db)"
  by (rule that [of "update_where (\<lambda>s. rs_userId s = re_userId ev)
        (\<lambda>s. s\<lparr>rs_scoreTotal := snapshot_score (re_userId ev) (db_reputationEvents db @ [ev])\<rparr>) (db_reputationSnapshots db)"])
    (use assms in \<open>simp_all add: insert_reputation_event_def snapshot_of_def Let_def set_score.find_update\<close>)

lemma snapshot_score_zero: "re_pointsDelta ev = 0 \<Longrightarrow> snapshot_score u (evs @ [ev]) = snapshot_score u evs"
  by (simp add: snapshot_score_def)

lemma upgrade_event_simps [simp]: "re_userId (upgrade_event now u r) = u" "re_pointsDelta (upgrade_event now u r) = 0"
  by (simp_all add: upgrade_event_def)

text \<open>The snapshot that a borrower's turn leaves, given the events so far.\<close>

definition turn_left :: "(string \<Rightarrow> int) \<Rightarrow> string \<Rightarrow> reputation_result \<Rightarrow> int \<Rightarrow> reputation_snapshot option
    \<Rightarrow> reputation_snapshot option \<Rightarrow> bool" where
  "turn_left event_score u r n old new \<longleftrightarrow> (case new of None \<Rightarrow> False
     | Some s \<Rightarrow> rs_reputationLevel s = tier_name (rr_tier r)
         \<and> rs_scoreTotal s = (if tier_upgraded old r then event_score u else n))"

definition event_score :: "database \<Rightarrow> string \<Rightarrow> int" where
  "event_score db u = snapshot_score u (db_reputationEvents db)"

lemma daily_borrower_turn:
  assumes u: "profile_id p \<in> profile_id ` set (db_profiles db)"
    and r: "daily_result now L R p = r" "rr_score r = Fin (of_int n)" "0 \<le> n" "n \<le> 1000"
    and old: "map_of (rev (map (\<lambda>s. (rs_userId s, s)) S)) (profile_id p) = old"
    and turn: "daily_borrower now L R S p (sm, db) = (sm', db')"
  shows "turn_left (event_score db) (profile_id p) r n old (snapshot_of (profile_id p) db')
    \<and> (\<forall>v. v \<noteq> profile_id p \<longrightarrow> snapshot_of v db' = snapshot_of v db)
    \<and> event_score db' = event_score db \<and> db_profiles db' = db_profiles db
    \<and> dy_errors sm' = dy_errors sm \<and> dy_updated sm' = Suc (dy_updated sm) \<and> dy_scanned sm' = dy_scanned sm"
proof -
  obtain snaps s where up: "upsert_snapshot (profile_id p) (write_result r n) db = Some (db\<lparr>db_reputationSnapshots := snaps\<rparr>)"
    "rs_userId s = profile_id p" "\<forall>v. find (\<lambda>s. rs_userId s = v) snaps =
      (if v = profile_id p then Some (write_result r n s) else snapshot_of v db)"
    by (rule upsert_snapshot_of [OF u, of "write_result r n"]) simp_all
  have int4: "to_int4 (rr_score r) = Some n"
    using r by (simp add: to_int4_def)
  show ?thesis
  proof (cases "tier_upgraded old r")
    case False
    with turn up int4 r(1) old show ?thesis
      by (auto simp: daily_borrower_def Let_def turn_left_def event_score_def fun_eq_iff snapshot_of_def write_result_def)
  next
    case True
    let ?db = "db\<lparr>db_reputationSnapshots := snaps\<rparr>" and ?ev = "upgrade_event now (profile_id p) r"
    have "snapshot_of (re_userId ?ev) ?db = Some (write_result r n s)"
      using up by (simp add: snapshot_of_def)
    then obtain snaps' where ins: "insert_reputation_event ?ev ?db =
        Some (?db\<lparr>db_reputationEvents := db_reputationEvents ?db @ [?ev], db_reputationSnapshots := snaps'\<rparr>)"
      "\<forall>v. find (\<lambda>s. rs_userId s = v) snaps' = (if v = re_userId ?ev
         then Some (write_result r n s\<lparr>rs_scoreTotal := snapshot_score (re_userId ?ev) (db_reputationEvents ?db @ [?ev])\<rparr>)
         else snapshot_of v ?db)"
      by (rule insert_event_snapshot_of)
    with turn up int4 r(1) old True show ?thesis
      by (auto simp: daily_borrower_def Let_def turn_left_def event_score_def fun_eq_iff snapshot_of_def write_result_def snapshot_score_zero)
  qed
qed

text \<open>The turns of several borrowers, each of whom appears once.\<close>

lemma daily_turns:
  assumes "distinct (map profile_id ps)" "profile_id ` set ps \<subseteq> profile_id ` set (db_profiles db)"
    and scores: "\<And>p. p \<in> set ps \<Longrightarrow> rr_score (daily_result now L R p) = Fin (of_int (n p)) \<and> 0 \<le> n p \<and> n p \<le> 1000"
    and "fold (daily_borrower now L R S) ps (sm, db) = (sm', db')"
  shows "dy_errors sm' = dy_errors sm \<and> dy_updated sm' = dy_updated sm + length ps \<and> dy_scanned sm' = dy_scanned sm
    \<and> (\<forall>v. v \<notin> profile_id ` set ps \<longrightarrow> snapshot_of v db' = snapshot_of v db)
    \<and> (\<forall>p \<in> set ps. turn_left (event_score db) (profile_id p) (daily_result now L R p) (n p)
          (map_of (rev (map (\<lambda>s. (rs_userId s, s)) S)) (profile_id p)) (snapshot_of (profile_id p) db'))"
  using assms
proof (induction ps arbitrary: sm db)
  case Nil
  then show ?case by simp
next
  case (Cons p ps)
  obtain sm1 db1 where first: "daily_borrower now L R S p (sm, db) = (sm1, db1)"
    by fastforce
  have turn: "turn_left (event_score db) (profile_id p) (daily_result now L R p) (n p)
        (map_of (rev (map (\<lambda>s. (rs_userId s, s)) S)) (profile_id p)) (snapshot_of (profile_id p) db1)
      \<and> (\<forall>v. v \<noteq> profile_id p \<longrightarrow> snapshot_of v db1 = snapshot_of v db)
      \<and> event_score db1 = event_score db \<and> db_profiles db1 = db_profiles db
      \<and> dy_errors sm1 = dy_errors sm \<and> dy_updated sm1 = Suc (dy_updated sm) \<and> dy_scanned sm1 = dy_scanned sm"
    using Cons.prems(2) Cons.prems(3) [of p] by (intro daily_borrower_turn [OF _ refl _ _ _ refl first]) simp_all
  have rest: "dy_errors sm' = dy_errors sm1 \<and> dy_updated sm' = dy_updated sm1 + length ps \<and> dy_scanned sm' = dy_scanned sm1
      \<and> (\<forall>v. v \<notin> profile_id ` set ps \<longrightarrow> snapshot_of v db' = snapshot_of v db1)
      \<and> (\<forall>p \<in> set ps. turn_left (event_score db1) (profile_id p) (daily_result now L R p) (n p)
            (map_of (rev (map (\<lambda>s. (rs_userId s, s)) S)) (profile_id p)) (snapshot_of (profile_id p) db'))"
    using Cons.prems turn first by (intro Cons.IH) simp_all
  have "profile_id p \<notin> profile_id ` set ps"
    using Cons.prems(1) by (simp flip: set_map)
  with turn rest show ?case
    by simp
qed

lemma map_of_snapshots:
  assumes "distinct (map rs_userId snaps)"
  shows "map_of (rev (map (\<lambda>s. (rs_userId s, s)) snaps)) u = find (\<lambda>s. rs_userId s = u) snaps"
proof -
  have "map_of (map (\<lambda>s. (rs_userId s, s)) xs) u = find (\<lambda>s. rs_userId s = u) xs" for xs
    by (induction xs) simp_all
  moreover have "map_of (rev (map (\<lambda>s. (rs_userId s, s)) snaps)) = map_of (map (\<lambda>s. (rs_userId s, s)) snaps)"
    using assms by (subst map_of_inject_set) (simp_all add: comp_def flip: rev_map)
  ultimately show ?thesis
    by simp
qed

lemma find_filter: "(\<And>x. Q x \<Longrightarrow> P x) \<Longrightarrow> find Q (filter P xs) = find Q xs"
  by (induction xs) auto

lemma filter_filter_sub: "(\<And>x. Q x \<Longrightarrow> P x) \<Longrightarrow> filter Q (filter P xs) = filter Q xs"
  by (induction xs) auto

definition score_now :: "int \<Rightarrow> database \<Rightarrow> profile \<Rightarrow> int" where
  "score_now now db p = (case rr_score (borrower_result now db p) of Fin x \<Rightarrow> \<lfloor>x\<rfloor> | _ \<Rightarrow> 0)"

lemma rr_tier_score: "rr_tier (computeBorrowerReputationScore st) = offchainScoreToTier (rr_score (computeBorrowerReputationScore st))"
  by (simp add: computeBorrowerReputationScore_def Let_def)

lemma score_now:
  assumes "daily_ready now db" "p \<in> set (db_profiles db)"
  shows "rr_score (borrower_result now db p) = Fin (of_int (score_now now db p))"
    "0 \<le> score_now now db p" "score_now now db p \<le> 1000"
    "\<exists>extras. 0 \<le> extras \<and> extras \<le> 300 \<and> score_now now db p = exact_score
       (of_nat (timing_count TimingOnTime (profile_id p) db)) (of_nat (timing_count TimingEarly (profile_id p) db))
       (of_nat (timing_count TimingLate (profile_id p) db)) (of_nat (default_count (profile_id p) db)) extras"
proof -
  from borrower_score [OF assms] obtain extras where x: "0 \<le> extras" "extras \<le> 300"
    "rr_score (borrower_result now db p) = Fin (of_int (exact_score
       (of_nat (timing_count TimingOnTime (profile_id p) db)) (of_nat (timing_count TimingEarly (profile_id p) db))
       (of_nat (timing_count TimingLate (profile_id p) db)) (of_nat (default_count (profile_id p) db)) extras))" .
  have n: "score_now now db p = exact_score
       (of_nat (timing_count TimingOnTime (profile_id p) db)) (of_nat (timing_count TimingEarly (profile_id p) db))
       (of_nat (timing_count TimingLate (profile_id p) db)) (of_nat (default_count (profile_id p) db)) extras"
    unfolding score_now_def x(3) by simp
  show "rr_score (borrower_result now db p) = Fin (of_int (score_now now db p))"
    by (simp only: x(3) n)
  show "0 \<le> score_now now db p" "score_now now db p \<le> 1000"
    unfolding n exact_score_def by simp_all
  show "\<exists>extras. 0 \<le> extras \<and> extras \<le> 300 \<and> score_now now db p = exact_score
       (of_nat (timing_count TimingOnTime (profile_id p) db)) (of_nat (timing_count TimingEarly (profile_id p) db))
       (of_nat (timing_count TimingLate (profile_id p) db)) (of_nat (default_count (profile_id p) db)) extras"
    using x(1,2) n by blast
qed

text \<open>The run, in terms of the tables.\<close>

lemma daily_run:
  assumes ready: "daily_ready (env_now e) db" and run: "runDailyReputationRecalculation e db = Some (sm, db')"
  shows "dy_errors sm = 0 \<and> dy_updated sm = dy_scanned sm
    \<and> (\<forall>p \<in> set (db_profiles db). if profile_role p = RoleBorrower
       then turn_left (event_score db) (profile_id p) (borrower_result (env_now e) db p) (score_now (env_now e) db p)
              (snapshot_of (profile_id p) db) (snapshot_of (profile_id p) db')
       else snapshot_of (profile_id p) db' = snapshot_of (profile_id p) db)"
proof -
  let ?bs = "filter (\<lambda>p. profile_role p = RoleBorrower) (db_profiles db)"
  let ?ids = "profile_id ` set ?bs"
  let ?S = "filter (\<lambda>s. rs_userId s \<in> ?ids) (db_reputationSnapshots db)"
  let ?L = "groupBy (filter (\<lambda>l. loan_borrowerId l \<in> ?ids) (db_loans db)) loan_borrowerId"
  let ?R = "groupBy (filter (\<lambda>r. rep_payerId r \<in> ?ids) (db_loanRepayments db)) rep_payerId"
  let ?sm = "\<lparr>dy_scanned = length ?bs, dy_updated = 0, dy_tierUpgrades = 0, dy_errors = 0, dy_details = []\<rparr>"
  have fold: "fold (daily_borrower (env_now e) ?L ?R ?S) ?bs (?sm, db) = (sm, db')"
    using run by (simp add: runDailyReputationRecalculation_def Let_def split: if_splits)
  have result: "daily_result (env_now e) ?L ?R p = borrower_result (env_now e) db p" if "p \<in> set ?bs" for p
  proof -
    have "group_of ?L (profile_id p) = borrower_loans (profile_id p) db"
      unfolding groupBy_filter borrower_loans_def using that by (intro filter_filter_sub) auto
    moreover have "group_of ?R (profile_id p) = borrower_repayments (profile_id p) db"
      unfolding groupBy_filter borrower_repayments_def using that by (intro filter_filter_sub) auto
    ultimately show ?thesis
      by (simp only: daily_result_def borrower_result_def)
  qed
  have old: "map_of (rev (map (\<lambda>s. (rs_userId s, s)) ?S)) (profile_id p) = snapshot_of (profile_id p) db"
    if "p \<in> set ?bs" for p
  proof -
    have "find (\<lambda>s. rs_userId s = profile_id p) ?S = snapshot_of (profile_id p) db"
      unfolding snapshot_of_def using that by (intro find_filter) auto
    with ready show ?thesis
      by (subst map_of_snapshots) (simp_all only: daily_ready_def distinct_map_filter)
  qed
  have distinct: "distinct (map profile_id (db_profiles db))"
    using ready by (simp add: daily_ready_def)
  have turns: "dy_errors sm = dy_errors ?sm \<and> dy_updated sm = dy_updated ?sm + length ?bs \<and> dy_scanned sm = dy_scanned ?sm
      \<and> (\<forall>v. v \<notin> ?ids \<longrightarrow> snapshot_of v db' = snapshot_of v db)
      \<and> (\<forall>p \<in> set ?bs. turn_left (event_score db) (profile_id p) (daily_result (env_now e) ?L ?R p) (score_now (env_now e) db p)
            (map_of (rev (map (\<lambda>s. (rs_userId s, s)) ?S)) (profile_id p)) (snapshot_of (profile_id p) db'))"
    using distinct score_now [OF ready] result
    by (intro daily_turns [OF _ _ _ fold]) (simp_all add: distinct_map_filter image_mono)
  have "profile_id p \<notin> ?ids" if "p \<in> set (db_profiles db)" "profile_role p \<noteq> RoleBorrower" for p
    using distinct that by (auto simp: distinct_map dest: inj_onD)
  with turns result old show ?thesis
    by auto
qed

text \<open>C14: A daily run over tables in order fails for no borrower. It leaves every borrower with the
  level of the computed score, and the score is exact integer arithmetic on the counts of repaid
  loans by timing and of defaulted ones, up to at most 300 points for volume, verification and
  tenure, clamped to 0 to 1000. It stores that score, unless the level is new and the score higher
  than before: then it stores what the reputation events add up to.\<close>

theorem daily_run_stores:
  assumes "daily_ready (env_now e) db" "runDailyReputationRecalculation e db = Some (sm, db')"
    and "p \<in> set (db_profiles db)" "profile_role p = RoleBorrower"
  shows "dy_errors sm = 0 \<and> dy_updated sm = dy_scanned sm \<and> (\<exists>s n extras.
    snapshot_of (profile_id p) db' = Some s \<and> 0 \<le> extras \<and> extras \<le> 300 \<and> n = exact_score
       (of_nat (timing_count TimingOnTime (profile_id p) db)) (of_nat (timing_count TimingEarly (profile_id p) db))
       (of_nat (timing_count TimingLate (profile_id p) db)) (of_nat (default_count (profile_id p) db)) extras
    \<and> rs_reputationLevel s = tier_name (offchainScoreToTier (Fin (of_int n)))
    \<and> rs_scoreTotal s =
        (if previous_tier (snapshot_of (profile_id p) db) \<noteq> rs_reputationLevel s
            \<and> previous_score (snapshot_of (profile_id p) db) < n
         then event_score db (profile_id p) else n))"
proof -
  let ?n = "score_now (env_now e) db p"
  note score = score_now [OF assms(1,3)]
  have tier: "rr_tier (borrower_result (env_now e) db p) = offchainScoreToTier (Fin (of_int ?n))"
    by (simp only: score(1) [symmetric] borrower_result_def rr_tier_score)
  have "turn_left (event_score db) (profile_id p) (borrower_result (env_now e) db p) ?n
      (snapshot_of (profile_id p) db) (snapshot_of (profile_id p) db')"
    using daily_run [OF assms(1,2)] assms(3,4) by simp
  then obtain s where s: "snapshot_of (profile_id p) db' = Some s"
    "rs_reputationLevel s = tier_name (offchainScoreToTier (Fin (of_int ?n)))"
    "rs_scoreTotal s = (if previous_tier (snapshot_of (profile_id p) db) \<noteq> rs_reputationLevel s
       \<and> previous_score (snapshot_of (profile_id p) db) < ?n then event_score db (profile_id p) else ?n)"
    by (auto simp: turn_left_def tier tier_upgraded_def score(1) split: option.splits)
  moreover obtain extras where "0 \<le> extras" "extras \<le> 300" "?n = exact_score
       (of_nat (timing_count TimingOnTime (profile_id p) db)) (of_nat (timing_count TimingEarly (profile_id p) db))
       (of_nat (timing_count TimingLate (profile_id p) db)) (of_nat (default_count (profile_id p) db)) extras"
    using score(4) by blast
  ultimately show ?thesis
    using daily_run [OF assms(1,2)] by blast
qed

lemma event_score_bounds: "0 \<le> event_score db u" "event_score db u \<le> 750"
  by (simp_all add: event_score_def snapshot_score_def)

text \<open>C15: A borrower whom the daily run promotes to Platinum, which takes 850 points, is left with
  the level Platinum and a score of at most 750, one that counts as Gold at best: the event that
  announces the promotion makes the trigger recompute the score from the events.\<close>

theorem platinum_upgrade_lost:
  assumes "daily_ready (env_now e) db" "runDailyReputationRecalculation e db = Some (sm, db')"
    and "p \<in> set (db_profiles db)" "profile_role p = RoleBorrower"
    and "rr_tier (borrower_result (env_now e) db p) = TierPlatinum"
    and "previous_tier (snapshot_of (profile_id p) db) \<noteq> ''Platinum''"
    and "previous_score (snapshot_of (profile_id p) db) < 850"
  shows "\<exists>s. snapshot_of (profile_id p) db' = Some s \<and> rs_reputationLevel s = ''Platinum''
    \<and> rs_scoreTotal s \<le> 750 \<and> offchainScoreToTier (Fin (of_int (rs_scoreTotal s))) < TierPlatinum
    \<and> jle (Fin 850) (rr_score (borrower_result (env_now e) db p))"
proof -
  let ?r = "borrower_result (env_now e) db p"
  have platinum: "jle (Fin 850) (rr_score ?r)"
    using assms(5) by (simp add: borrower_result_def rr_tier_score offchainScoreToTier_def split: if_splits)
  with score_now(1) [OF assms(1,3)] have "850 \<le> (of_int (score_now (env_now e) db p) :: rat)"
    by simp
  then have "850 \<le> score_now (env_now e) db p"
    by linarith
  moreover have "turn_left (event_score db) (profile_id p) ?r (score_now (env_now e) db p)
      (snapshot_of (profile_id p) db) (snapshot_of (profile_id p) db')"
    using daily_run [OF assms(1,2)] assms(3,4) by simp
  ultimately obtain s where s: "snapshot_of (profile_id p) db' = Some s" "rs_reputationLevel s = ''Platinum''"
    "rs_scoreTotal s = event_score db (profile_id p)"
    using assms(5,6,7) score_now(1) [OF assms(1,3)]
    by (auto simp: turn_left_def tier_upgraded_def split: option.splits)
  then have small: "(of_int (rs_scoreTotal s) :: rat) \<le> 750"
    using event_score_bounds [of db "profile_id p"] by simp
  then have "offchainScoreToTier (Fin (of_int (rs_scoreTotal s))) < TierPlatinum"
    by (simp add: offchainScoreToTier_def less_reputation_tier_name_def)
  with s small platinum show ?thesis
    using event_score_bounds [of db "profile_id p"] by auto
qed

subsection \<open>Tasks\<close>

lemma insert_event_none: "insert_reputation_event ev db = None \<longleftrightarrow> snapshot_of (re_userId ev) db = None"
  by (simp add: insert_reputation_event_def snapshot_of_def Let_def split: option.split)

text \<open>A user without a reputation snapshot can complete no task: every request is answered with an
  error and changes nothing, since the trigger cannot write the user's first snapshot.\<close>

theorem first_event_refused:
  assumes "env_session e = Some u" "snapshot_of (user_id u) (w_db w) = None"
  shows "snd (POST_tasks_complete e taskId w) = w \<and> (\<exists>status err. fst (POST_tasks_complete e taskId w) = Answer status (Inl err))"
proof (cases "task_check e taskId (w_db w)")
  case (Inl se)
  then show ?thesis
    by (cases se) (simp add: POST_tasks_complete_def)
next
  case (Inr ut)
  then have "fst ut = u"
    using assms(1) by (auto simp: task_check_def split: if_splits option.splits)
  then have "insert_reputation_event (task_event (fst ut) (snd ut)) (w_db w) = None"
    using assms(2) by (simp add: insert_event_none task_event_def)
  with Inr show ?thesis
    by (cases ut) (simp add: POST_tasks_complete_def task_award_def)
qed

text \<open>
  The award of a task that two requests have both found open: each is answered and recorded, and
  the score counts both.
\<close>

lemma task_awarded_twice:
  assumes "task_check e taskId (w_db w) = Inr (u, t)" "snapshot_of (user_id u) (w_db w) = Some s"
  shows "\<exists>w1 w2. task_award u t w = (Answer 200 (Inr (pt_id t, pt_points t)), w1)
    \<and> task_award u t w1 = (Answer 200 (Inr (pt_id t, pt_points t)), w2)
    \<and> db_reputationEvents (w_db w2) = db_reputationEvents (w_db w) @ [task_event u t, task_event u t]"
proof -
  obtain snaps where one: "insert_reputation_event (task_event u t) (w_db w) =
      Some (w_db w\<lparr>db_reputationEvents := db_reputationEvents (w_db w) @ [task_event u t], db_reputationSnapshots := snaps\<rparr>)"
    "\<forall>v. find (\<lambda>s. rs_userId s = v) snaps = (if v = re_userId (task_event u t)
       then Some (s\<lparr>rs_scoreTotal := snapshot_score (re_userId (task_event u t)) (db_reputationEvents (w_db w) @ [task_event u t])\<rparr>)
       else snapshot_of v (w_db w))"
    by (rule insert_event_snapshot_of [of "task_event u t" "w_db w" s]) (use assms(2) in \<open>auto simp: task_event_def\<close>)
  let ?db = "w_db w\<lparr>db_reputationEvents := db_reputationEvents (w_db w) @ [task_event u t], db_reputationSnapshots := snaps\<rparr>"
  have "snapshot_of (re_userId (task_event u t)) ?db \<noteq> None"
    using one(2) by (simp add: snapshot_of_def)
  then obtain s' where "snapshot_of (re_userId (task_event u t)) ?db = Some s'"
    by auto
  then obtain snaps' where "insert_reputation_event (task_event u t) ?db =
      Some (?db\<lparr>db_reputationEvents := db_reputationEvents ?db @ [task_event u t], db_reputationSnapshots := snaps'\<rparr>)"
    by (rule insert_event_snapshot_of)
  with one(1) show ?thesis
    by (simp add: task_award_def)
qed

subsection \<open>Examples\<close>

text \<open>A verified borrower with twenty repaid loans without a due date, and no snapshot yet.\<close>

definition demo_repaid :: database where
  "demo_repaid = demo_db\<lparr>db_loans := replicate 20 (demo_loan 100000000\<lparr>loan_status := LoanRepaid\<rparr>)\<rparr>"

abbreviation "demo_cron \<equiv> demo_env demo_borrower (demo_horizon [] [] [] [])"

lemma demo_repaid_ready: "daily_ready (env_now demo_cron) demo_repaid"
  by (simp add: daily_ready_def demo_repaid_def demo_db_def empty_db_def demo_profile_def demo_borrower_def demo_lender_def)

lemma demo_repaid_profile: "demo_profile demo_borrower \<in> set (db_profiles demo_repaid)"
    "profile_role (demo_profile demo_borrower) = RoleBorrower" "profile_id (demo_profile demo_borrower) = ''b''"
    "snapshot_of ''b'' demo_repaid = None"
  by (simp_all add: demo_repaid_def demo_db_def empty_db_def demo_profile_def demo_borrower_def snapshot_of_def)

lemma demo_repaid_platinum: "rr_tier (borrower_result (env_now demo_cron) demo_repaid (demo_profile demo_borrower)) = TierPlatinum"
proof -
  let ?p = "demo_profile demo_borrower"
  have loans: "borrower_loans (profile_id ?p) demo_repaid = replicate 20 (demo_loan 100000000\<lparr>loan_status := LoanRepaid\<rparr>)"
    by (simp add: demo_repaid_profile borrower_loans_def demo_repaid_def)
  have on_time: "loan_timing (demo_loan 100000000\<lparr>loan_status := LoanRepaid\<rparr>) rs = TimingOnTime" for rs
    by (simp add: loan_timing_def is_early_def demo_loan_def)
  obtain extras where "0 \<le> extras"
    "rr_score (borrower_result (env_now demo_cron) demo_repaid ?p) = Fin (of_int (exact_score
       (of_nat (timing_count TimingOnTime (profile_id ?p) demo_repaid)) (of_nat (timing_count TimingEarly (profile_id ?p) demo_repaid))
       (of_nat (timing_count TimingLate (profile_id ?p) demo_repaid)) (of_nat (default_count (profile_id ?p) demo_repaid)) extras))"
    using borrower_score [OF demo_repaid_ready demo_repaid_profile(1)] by blast
  then have "jle (Fin 850) (rr_score (borrower_result (env_now demo_cron) demo_repaid ?p))"
    by (simp add: timing_count_def default_count_def loans on_time exact_score_def)
  then show ?thesis
    by (simp add: borrower_result_def rr_tier_score offchainScoreToTier_def)
qed

lemma demo_repaid_run:
  obtains sm db' where "runDailyReputationRecalculation demo_cron demo_repaid = Some (sm, db')"
  by (cases "runDailyReputationRecalculation demo_cron demo_repaid")
    (auto simp: runDailyReputationRecalculation_def Let_def)

definition platinum_in_name :: "database \<Rightarrow> bool" where
  "platinum_in_name db = (case snapshot_of ''b'' db of None \<Rightarrow> False
     | Some s \<Rightarrow> rs_reputationLevel s = ''Platinum'' \<and> offchainScoreToTier (Fin (of_int (rs_scoreTotal s))) < TierPlatinum)"

lemma platinum_upgrade_lost_witness:
  "map_option (\<lambda>(sm, db'). platinum_in_name db') (runDailyReputationRecalculation demo_cron demo_repaid) = Some True"
proof -
  obtain sm db' where run: "runDailyReputationRecalculation demo_cron demo_repaid = Some (sm, db')"
    by (rule demo_repaid_run)
  show ?thesis
    using platinum_upgrade_lost [OF demo_repaid_ready run demo_repaid_profile(1,2) demo_repaid_platinum]
    by (auto simp: run platinum_in_name_def demo_repaid_profile previous_tier_def previous_score_def)
qed

lemma daily_run_stores_witness:
  "map_option (\<lambda>(sm, db'). dy_errors sm = 0 \<and> snapshot_of ''b'' db' \<noteq> None)
     (runDailyReputationRecalculation demo_cron demo_repaid) = Some True"
proof -
  obtain sm db' where run: "runDailyReputationRecalculation demo_cron demo_repaid = Some (sm, db')"
    by (rule demo_repaid_run)
  show ?thesis
    using daily_run_stores [OF demo_repaid_ready run demo_repaid_profile(1,2)]
    by (auto simp: run demo_repaid_profile)
qed

lemma first_event_refused_witness:
  "snd (POST_tasks_complete demo_cron (JStr ''task_credit_score'') (demo_world demo_db)) = demo_world demo_db"
  using first_event_refused [of demo_cron demo_borrower "demo_world demo_db" "JStr ''task_credit_score''"]
  by (simp add: snapshot_of_def demo_world_def demo_db_def empty_db_def)

end
