(* ===== verification/Lifecycle.thy ===== *)
theory Lifecycle
  imports Server
begin

text \<open>
  The mirror of the loan lifecycle on the LendingContract: \<open>src/lib/stellar/lifecycle-mode.ts\<close>,
  \<open>src/lib/stellar/onchain-lifecycle.ts\<close>, \<open>src/lib/loans/onchain.ts\<close> and
  \<open>src/lib/pools/onchain.ts\<close>. The Soroban RPC and the SDK are fields of the environment;
  every admin-signed call is also appended to the world's log.
\<close>

subsection \<open>The switch\<close>

datatype lifecycle_mode = LifecycleRequired | LifecycleOff

definition onchainLifecycleMode :: "env \<Rightarrow> lifecycle_mode" where
  "onchainLifecycleMode e =
     (let explicit = js_lower (js_trim (case env_lifecycleVar e of Some v \<Rightarrow> v | None \<Rightarrow> []))
      in if explicit \<in> {''off'', ''false'', ''0''} then LifecycleOff
         else if explicit \<in> {''required'', ''on'', ''true''} then LifecycleRequired
         else if truthy_opt (env_lendingContractId e) then LifecycleRequired else LifecycleOff)"

definition isOnchainLifecycleRequired :: "env \<Rightarrow> bool" where
  "isOnchainLifecycleRequired e = (onchainLifecycleMode e = LifecycleRequired)"

subsection \<open>Units and configuration\<close>

text \<open>\<open>BigInt(Math.round(xlm * 10_000_000))\<close>, which throws on what is not a whole number.\<close>

definition xlmToStroops :: "jsnum \<Rightarrow> int option" where
  "xlmToStroops xlm =
     (case jround (jmul xlm (Fin 10000000)) of Fin r \<Rightarrow> Some \<lfloor>r\<rfloor> | _ \<Rightarrow> None)"

definition stroopsToXlm :: "int \<Rightarrow> jsnum" where
  "stroopsToXlm stroops = jdiv (to_num (of_int stroops)) (Fin 10000000)"

definition range_error :: string where
  "range_error = ''The number cannot be converted to a BigInt''"

definition lendingContractId :: "env \<Rightarrow> string + string" where
  "lendingContractId e =
     (case env_lendingContractId e of
        Some i \<Rightarrow> if i = [] then Inl ''NEXT_PUBLIC_LENDING_CONTRACT_ID is not configured'' else Inr i
      | None \<Rightarrow> Inl ''NEXT_PUBLIC_LENDING_CONTRACT_ID is not configured'')"

definition pooledLendingContractId :: "env \<Rightarrow> string option" where
  "pooledLendingContractId e = (if truthy_opt (env_pooledLendingContractId e) then env_pooledLendingContractId e else None)"

definition requireAdminSigner :: "env \<Rightarrow> string + string" where
  "requireAdminSigner e =
     (case ch_adminPublicKey (env_chain e) of
        Some k \<Rightarrow> Inr k
      | None \<Rightarrow> Inl ''ADMIN_SECRET_KEY is not configured'')"

definition adminAddress :: "env \<Rightarrow> string + string" where
  "adminAddress e =
     (case ch_adminPublicKey (env_chain e) of
        Some k \<Rightarrow> Inr k
      | None \<Rightarrow> if truthy_opt (env_adminAddress e) then Inr (the (env_adminAddress e))
                else Inl ''Neither ADMIN_SECRET_KEY nor NEXT_PUBLIC_ADMIN_ADDRESS is configured'')"

subsection \<open>Verification of a contract invocation\<close>

datatype invocation_reason =
    InvInvalidHash
  | InvRpcUnavailable string
  | InvNotFound
  | InvFailed
  | InvNoEnvelope
  | InvUndecodable string
  | InvWrongSigner
  | InvNotInvocation
  | InvNotContractFunction
  | InvOtherContract
  | InvOtherMethod string

record invocation_check =
  ic_txHash :: jsval
  ic_contractId :: string
  ic_method :: string
  ic_expectedInvoker :: string

definition is_tx_hash :: "string \<Rightarrow> bool" where
  "is_tx_hash h = (length h = 64 \<and> list_all is_hex_lower h)"

text \<open>
  The outer sum is a thrown error: a hash that is no string has no \<open>trim\<close>, and the
  decoding of the result may throw. The inner sum is the function's own result.
\<close>

definition check_invocation :: "invocation_check \<Rightarrow> decoded_tx \<Rightarrow> (int \<times> invocation_reason) + unit" where
  "check_invocation check tx =
     (if dt_source tx \<noteq> ic_expectedInvoker check then Inl (422, InvWrongSigner)
      else case dt_operations tx of
        InvokeHostFunction (Some func) # _ \<Rightarrow>
          (case func of
             OtherHostFunction \<Rightarrow> Inl (422, InvNotContractFunction)
           | InvokeContract calledContract calledMethod \<Rightarrow>
               if calledContract \<noteq> ic_contractId check then Inl (422, InvOtherContract)
               else if calledMethod \<noteq> ic_method check then Inl (422, InvOtherMethod calledMethod)
               else Inr ())
      | _ \<Rightarrow> Inl (422, InvNotInvocation))"

definition verifyContractInvocation ::
    "chain \<Rightarrow> invocation_check \<Rightarrow> string + ((int \<times> invocation_reason) + jsval)" where
  "verifyContractInvocation ch check =
     (case ic_txHash check of
        JStr s \<Rightarrow>
          (let hash = js_lower (js_trim s) in
           if \<not> is_tx_hash hash then Inr (Inl (400, InvInvalidHash))
           else case ch_getTransaction ch hash of
             Inl m \<Rightarrow> Inr (Inl (502, InvRpcUnavailable m))
           | Inr lookup \<Rightarrow>
               if lk_status lookup = RpcNotFound then Inr (Inl (404, InvNotFound))
               else if lk_status lookup = RpcFailed then Inr (Inl (422, InvFailed))
               else if \<not> truthy_opt (lk_envelopeXdr lookup) then Inr (Inl (422, InvNoEnvelope))
               else case ch_fromXDR ch (the (lk_envelopeXdr lookup)) of
                 Inl m \<Rightarrow> Inr (Inl (422, InvUndecodable m))
               | Inr tx \<Rightarrow>
                   (case check_invocation check tx of
                      Inl r \<Rightarrow> Inr (Inl r)
                    | Inr _ \<Rightarrow>
                        if truthy_opt (lk_returnValue lookup)
                        then map_sum id Inr (ch_scValToNative ch (the (lk_returnValue lookup)))
                        else Inr (Inr JNull)))
      | _ \<Rightarrow> Inl ''check.txHash.trim is not a function'')"

subsection \<open>Loan reads\<close>

record onchain_loan =
  ol_id :: jsnum
  ol_borrower :: string
  ol_lender :: string
  ol_amountStroops :: int
  ol_durationDays :: jsnum
  ol_interestRateBps :: jsnum
  ol_totalDueStroops :: int
  ol_remainingDueStroops :: int
  ol_status :: string
  ol_escrowId :: jsnum

definition decodeEnumVariant :: "jsval \<Rightarrow> string" where
  "decodeEnumVariant value =
     (case value of
        JArr [] \<Rightarrow> ''undefined''
      | JArr (v # _) \<Rightarrow> js_to_string v
      | JObj kvs \<Rightarrow> if ''0'' \<in> set (map fst kvs) then js_to_string (js_get value ''0'') else js_to_string value
      | v \<Rightarrow> js_to_string v)"

definition toBig :: "jsval \<Rightarrow> int option" where
  "toBig v = (case v of JBig n \<Rightarrow> Some n
     | _ \<Rightarrow> string_to_bigint (js_to_string (js_nullish v (JNum (Fin 0)))))"

definition decodeOnchainLoan :: "jsval \<Rightarrow> string + onchain_loan" where
  "decodeOnchainLoan r =
     (if r = JUndef \<or> r = JNull then Inl ''Cannot read properties of null''
      else case (toBig (js_get r ''amount''), toBig (js_get r ''total_due''), toBig (js_get r ''remaining_due'')) of
        (Some amount, Some totalDue, Some remainingDue) \<Rightarrow>
          Inr \<lparr> ol_id = js_to_number (js_get r ''id''),
                ol_borrower = js_to_string (js_get r ''borrower''),
                ol_lender = js_to_string (js_get r ''lender''),
                ol_amountStroops = amount,
                ol_durationDays = js_to_number (js_get r ''duration_days''),
                ol_interestRateBps = js_to_number (js_get r ''interest_rate_bps''),
                ol_totalDueStroops = totalDue,
                ol_remainingDueStroops = remainingDue,
                ol_status = decodeEnumVariant (js_get r ''status''),
                ol_escrowId = js_to_number (js_nullish (js_get r ''escrow_id'') (JNum (Fin 0))) \<rparr>
      | _ \<Rightarrow> Inl ''Cannot convert to a BigInt'')"

definition readOnchainLoan :: "env \<Rightarrow> int \<Rightarrow> string + onchain_loan" where
  "readOnchainLoan e onchainLoanId =
     bindE (lendingContractId e) (\<lambda>contract.
     bindE (adminAddress e) (\<lambda>source.
     bindE (ch_invokeReadOnly (env_chain e) contract ''get_loan'' [ArgU32 onchainLoanId] source)
       decodeOnchainLoan))"

subsection \<open>Admin-signed writes\<close>

text \<open>
  \<open>invokeSigned\<close>: the call reaches the chain, so it is logged, and its answer comes back.
\<close>

definition invoke_signed :: "env \<Rightarrow> string \<Rightarrow> string \<Rightarrow> chain_arg list \<Rightarrow> world
    \<Rightarrow> (string + (string \<times> jsval)) \<times> world" where
  "invoke_signed e contract method args w =
     (ch_invokeSigned (env_chain e) contract method args, log_effect (ChainCall contract method args) w)"

definition activateLoanOnchain :: "env \<Rightarrow> int \<Rightarrow> world \<Rightarrow> (string + string) \<times> world" where
  "activateLoanOnchain e onchainLoanId w =
     (case bindE (requireAdminSigner e) (\<lambda>signer. bindE (lendingContractId e) (\<lambda>c. Inr (signer, c))) of
        Inl m \<Rightarrow> (Inl m, w)
      | Inr (signer, contract) \<Rightarrow>
          (let (r, w') = invoke_signed e contract ''activate_loan'' [ArgAddr signer, ArgU32 onchainLoanId] w
           in (map_sum id fst r, w')))"

definition recordPaymentOnchain :: "env \<Rightarrow> int \<Rightarrow> int \<Rightarrow> world \<Rightarrow> (string + (string \<times> string)) \<times> world" where
  "recordPaymentOnchain e onchainLoanId amountStroops w =
     (case bindE (requireAdminSigner e) (\<lambda>signer. bindE (lendingContractId e) (\<lambda>c. Inr (signer, c))) of
        Inl m \<Rightarrow> (Inl m, w)
      | Inr (signer, contract) \<Rightarrow>
          (let (r, w') = invoke_signed e contract ''record_payment''
                 [ArgAddr signer, ArgU32 onchainLoanId, ArgI128 amountStroops] w
           in (map_sum id (\<lambda>(hash, ret). (hash, decodeEnumVariant ret)) r, w')))"

definition syncPoolStateOnchain :: "env \<Rightarrow> int \<Rightarrow> int \<Rightarrow> int \<Rightarrow> world \<Rightarrow> (string + string option) \<times> world" where
  "syncPoolStateOnchain e onchainPoolId totalSupplyStroops totalBorrowsStroops w =
     (case pooledLendingContractId e of
        None \<Rightarrow> (Inr None, w)
      | Some contract \<Rightarrow>
          (case requireAdminSigner e of
             Inl m \<Rightarrow> (Inl m, w)
           | Inr signer \<Rightarrow>
               (let (r, w') = invoke_signed e contract ''update_pool_state''
                      [ArgAddr signer, ArgU32 onchainPoolId, ArgI128 totalSupplyStroops,
                       ArgI128 totalBorrowsStroops] w
                in (map_sum id (\<lambda>x. Some (fst x)) r, w'))))"

record pool_config =
  pc_baseRateBps :: int
  pc_multiplierPerSlopeBps :: int
  pc_jumpMultiplierBps :: int
  pc_kinkBps :: int
  pc_reserveFactorBps :: int

definition setPoolConfigOnchain :: "env \<Rightarrow> int \<Rightarrow> pool_config \<Rightarrow> world \<Rightarrow> (string + string) \<times> world" where
  "setPoolConfigOnchain e onchainPoolId config w =
     (case pooledLendingContractId e of
        None \<Rightarrow> (Inl ''NEXT_PUBLIC_POOLED_LENDING_CONTRACT_ID is not configured'', w)
      | Some contract \<Rightarrow>
          (case requireAdminSigner e of
             Inl m \<Rightarrow> (Inl m, w)
           | Inr signer \<Rightarrow>
               (let (r, w') = invoke_signed e contract ''set_pool_config''
                      [ArgAddr signer, ArgU32 onchainPoolId,
                       ArgMap [(''base_rate_bps'', pc_baseRateBps config),
                               (''jump_multiplier_bps'', pc_jumpMultiplierBps config),
                               (''kink_bps'', pc_kinkBps config),
                               (''multiplier_per_slope_bps'', pc_multiplierPerSlopeBps config),
                               (''reserve_factor_bps'', pc_reserveFactorBps config)]] w
                in (map_sum id fst r, w'))))"

subsection \<open>Loan metadata\<close>

definition readOnchainLoanId :: "jsval \<Rightarrow> int option" where
  "readOnchainLoanId metadata =
     (let n = js_to_number (js_nullish (js_get metadata ''onchain_loan_id'') (js_get metadata ''onchainLoanId''))
      in case n of Fin r \<Rightarrow> if is_integer n \<and> 0 < r then Some \<lfloor>r\<rfloor> else None | _ \<Rightarrow> None)"

text \<open>
  \<open>metadata || patch\<close>: the patch is serialised first, which drops its \<open>undefined\<close> fields,
  and its keys replace those of the stored object. A stored value that is no object becomes
  an array with the patch appended.
\<close>

definition drop_undefined :: "(string \<times> jsval) list \<Rightarrow> (string \<times> jsval) list" where
  "drop_undefined kvs = filter (\<lambda>kv. snd kv \<noteq> JUndef) kvs"

definition jsonb_concat :: "jsval \<Rightarrow> (string \<times> jsval) list \<Rightarrow> jsval" where
  "jsonb_concat m patch =
     (let p = drop_undefined patch in
      case m of
        JObj kvs \<Rightarrow> JObj (filter (\<lambda>kv. fst kv \<notin> set (map fst p)) kvs @ p)
      | JArr vs \<Rightarrow> JArr (vs @ [JObj p])
      | v \<Rightarrow> JArr [v, JObj p])"

definition mergeLoanMetadata :: "string \<Rightarrow> (string \<times> jsval) list \<Rightarrow> world \<Rightarrow> world" where
  "mergeLoanMetadata loanId patch w =
     set_db (\<lambda>db. db\<lparr>db_loans := update_where (\<lambda>l. loan_id l = loanId)
        (\<lambda>l. l\<lparr>loan_metadata := jsonb_concat (loan_metadata l) patch\<rparr>) (db_loans db)\<rparr>) w"

subsection \<open>Activation after funding\<close>

datatype onchain_outcome =
    NotAttempted string
  | OnchainOk string string \<comment> \<open>transaction hash and status\<close>
  | OnchainFailed string

text \<open>The \<open>reason\<close> texts of a failed verification.\<close>

fun invocation_reason_text :: "string \<Rightarrow> invocation_reason \<Rightarrow> string" where
  "invocation_reason_text _ InvInvalidHash = ''Transaction hash is not a valid Stellar hash''"
| "invocation_reason_text _ (InvRpcUnavailable m) = ''Soroban RPC unavailable: '' @ m"
| "invocation_reason_text _ InvNotFound = ''Contract transaction not found on the Stellar network''"
| "invocation_reason_text _ InvFailed = ''Contract transaction failed on-chain''"
| "invocation_reason_text _ InvNoEnvelope = ''Soroban RPC returned no envelope for the transaction''"
| "invocation_reason_text _ (InvUndecodable m) = ''Could not decode transaction envelope: '' @ m"
| "invocation_reason_text _ InvWrongSigner = ''Contract transaction was not signed by the expected wallet''"
| "invocation_reason_text _ InvNotInvocation = ''Transaction is not a contract invocation''"
| "invocation_reason_text _ InvNotContractFunction = ''Transaction does not invoke a contract function''"
| "invocation_reason_text _ InvOtherContract = ''Transaction targets a different contract''"
| "invocation_reason_text method (InvOtherMethod called) =
     ''Transaction calls '' @ called @ '', expected '' @ method"

text \<open>The \<open>try\<close> block: the thrown message, or the outcome with the world it leaves.\<close>

definition activate_try :: "env \<Rightarrow> string \<Rightarrow> int \<Rightarrow> string \<Rightarrow> jsval \<Rightarrow> world
    \<Rightarrow> (string + onchain_outcome) \<times> world" where
  "activate_try e loanId onchainLoanId lenderAddress approveTxHash w =
     (if \<not> js_truthy approveTxHash
      then (Inl ''approveTxHash is required: the completing lender must sign approve_loan'', w)
      else
        (case bindE (lendingContractId e) (\<lambda>c.
                bindE (verifyContractInvocation (env_chain e)
                   \<lparr>ic_txHash = approveTxHash, ic_contractId = c, ic_method = ''approve_loan'',
                    ic_expectedInvoker = lenderAddress\<rparr>) (\<lambda>approval.
                case approval of
                  Inl (_, r) \<Rightarrow> Inl (''approve_loan verification failed: '' @ invocation_reason_text ''approve_loan'' r)
                | Inr _ \<Rightarrow> readOnchainLoan e onchainLoanId)) of
           Inl m \<Rightarrow> (Inl m, w)
         | Inr loan \<Rightarrow>
             if ol_status loan = ''Active''
             then (Inr (OnchainOk (js_to_string approveTxHash) ''Active''),
                   mergeLoanMetadata loanId
                     [(''onchain_approve_tx'', approveTxHash), (''onchain_status'', JStr ''Active''),
                      (''onchain_error'', JUndef)] w)
             else if ol_status loan \<noteq> ''Approved''
             then (Inl (''on-chain loan is '' @ ol_status loan @ '', expected Approved''), w)
             else if ol_lender loan \<noteq> lenderAddress
             then (Inl ''on-chain loan was approved by a different lender'', w)
             else
               (case activateLoanOnchain e onchainLoanId w of
                  (Inl m, w') \<Rightarrow> (Inl m, w')
                | (Inr hash, w') \<Rightarrow>
                    (Inr (OnchainOk hash ''Active''),
                     mergeLoanMetadata loanId
                       [(''onchain_approve_tx'', approveTxHash), (''onchain_activate_tx'', JStr hash),
                        (''onchain_status'', JStr ''Active''), (''onchain_error'', JUndef)] w'))))"

definition activateFundedLoanOnchain ::
    "env \<Rightarrow> string \<Rightarrow> jsval \<Rightarrow> string \<Rightarrow> jsval \<Rightarrow> world \<Rightarrow> onchain_outcome \<times> world" where
  "activateFundedLoanOnchain e loanId loanMetadata lenderAddress approveTxHash w =
     (if \<not> isOnchainLifecycleRequired e then (NotAttempted ''lifecycle off'', w)
      else case readOnchainLoanId loanMetadata of
        None \<Rightarrow> (NotAttempted ''loan predates on-chain requests'', w)
      | Some onchainLoanId \<Rightarrow>
          (case activate_try e loanId onchainLoanId lenderAddress approveTxHash w of
             (Inr outcome, w') \<Rightarrow> (outcome, w')
           | (Inl message, w') \<Rightarrow>
               (OnchainFailed message,
                mergeLoanMetadata loanId
                  [(''onchain_approve_tx'', approveTxHash),
                   (''onchain_error'', JStr (''activate: '' @ message))] w')))"

subsection \<open>Recording a repayment\<close>

text \<open>\<open>[...(v ?? [])]\<close>: spreading what cannot be iterated throws.\<close>

definition js_spread :: "jsval \<Rightarrow> string + jsval list" where
  "js_spread v =
     (case v of
        JUndef \<Rightarrow> Inr []
      | JNull \<Rightarrow> Inr []
      | JArr vs \<Rightarrow> Inr vs
      | JStr s \<Rightarrow> Inr (map (\<lambda>c. JStr [c]) s)
      | _ \<Rightarrow> Inl ''previous is not iterable'')"

definition record_payment_try :: "env \<Rightarrow> string \<Rightarrow> int \<Rightarrow> jsval \<Rightarrow> jsnum \<Rightarrow> world
    \<Rightarrow> (string + onchain_outcome) \<times> world" where
  "record_payment_try e loanId onchainLoanId loanMetadata amountXlm w =
     (case readOnchainLoan e onchainLoanId of
        Inl m \<Rightarrow> (Inl m, w)
      | Inr loan \<Rightarrow>
          if ol_status loan \<noteq> ''Active''
          then (Inl (''on-chain loan is '' @ ol_status loan @ '', expected Active''), w)
          else case xlmToStroops amountXlm of
            None \<Rightarrow> (Inl range_error, w)
          | Some requested \<Rightarrow>
              (let amountStroops = (if ol_remainingDueStroops loan < requested
                                    then ol_remainingDueStroops loan else requested)
               in if amountStroops \<le> 0 then (Inl ''nothing left to record on-chain'', w)
                  else case recordPaymentOnchain e onchainLoanId amountStroops w of
                    (Inl m, w') \<Rightarrow> (Inl m, w')
                  | (Inr (hash, status), w') \<Rightarrow>
                      (case js_spread (js_get loanMetadata ''onchain_payment_txs'') of
                         Inl m \<Rightarrow> (Inl m, w')
                       | Inr previous \<Rightarrow>
                           (Inr (OnchainOk hash status),
                            mergeLoanMetadata loanId
                              [(''onchain_payment_txs'', JArr (previous @ [JStr hash])),
                               (''onchain_status'', JStr status), (''onchain_error'', JUndef)] w'))))"

definition recordRepaymentOnchain ::
    "env \<Rightarrow> string \<Rightarrow> jsval \<Rightarrow> jsnum \<Rightarrow> world \<Rightarrow> onchain_outcome \<times> world" where
  "recordRepaymentOnchain e loanId loanMetadata amountXlm w =
     (if \<not> isOnchainLifecycleRequired e then (NotAttempted ''lifecycle off'', w)
      else case readOnchainLoanId loanMetadata of
        None \<Rightarrow> (NotAttempted ''loan predates on-chain requests'', w)
      | Some onchainLoanId \<Rightarrow>
          (case record_payment_try e loanId onchainLoanId loanMetadata amountXlm w of
             (Inr outcome, w') \<Rightarrow> (outcome, w')
           | (Inl message, w') \<Rightarrow>
               (OnchainFailed message,
                mergeLoanMetadata loanId [(''onchain_error'', JStr (''record_payment: '' @ message))] w')))"

subsection \<open>The borrower's on-chain request\<close>

datatype loan_request_reason =
    OnchainRequestRequired
  | WalletNotLinked
  | LifecycleConfig string
  | RequestVerification invocation_reason
  | RequestDecoding string
  | LoanIdMismatch
  | LoanUnreadable int string
  | OtherBorrower
  | AmountMismatch
  | DurationMismatch
  | RateMismatch
  | NotPending string
  | RequestAlreadyRecorded

record request_params =
  rq_onchainLoanId :: jsval
  rq_onchainTxHash :: jsval
  rq_walletAddress :: string
  rq_borrowerWallets :: "string list"
  rq_amountXlm :: jsnum
  rq_durationDays :: jsnum
  rq_interestRateBps :: jsnum

text \<open>
  \<open>(metadata->>'onchain_loan_id')::int = id\<close>, on the whole numbers the routes store there.
\<close>

definition records_onchain_loan :: "int \<Rightarrow> loan \<Rightarrow> bool" where
  "records_onchain_loan n l = (js_get (loan_metadata l) ''onchain_loan_id'' = JNum (Fin (of_int n)))"

text \<open>What the record on the contract must agree with.\<close>

definition check_onchain_loan ::
    "request_params \<Rightarrow> onchain_loan \<Rightarrow> (int \<times> loan_request_reason) + unit" where
  "check_onchain_loan p loan =
     (if ol_borrower loan \<noteq> rq_walletAddress p then Inl (422, OtherBorrower)
      else if xlmToStroops (rq_amountXlm p) = None then Inl (500, RequestDecoding range_error)
      else if xlmToStroops (rq_amountXlm p) \<noteq> Some (ol_amountStroops loan) then Inl (422, AmountMismatch)
      else if \<not> jeq (ol_durationDays loan) (rq_durationDays p) then Inl (422, DurationMismatch)
      else if \<not> jeq (ol_interestRateBps loan) (rq_interestRateBps p) then Inl (422, RateMismatch)
      else if ol_status loan \<noteq> ''Pending'' then Inl (409, NotPending (ol_status loan))
      else Inr ())"

definition request_tx_hash :: "request_params \<Rightarrow> string" where
  "request_tx_hash p = (case rq_onchainTxHash p of JStr s \<Rightarrow> js_trim s | _ \<Rightarrow> [])"

definition request_loan_id :: "request_params \<Rightarrow> int option" where
  "request_loan_id p =
     (let n = js_to_number (rq_onchainLoanId p)
      in case n of Fin r \<Rightarrow> if is_integer n \<and> 0 < r then Some \<lfloor>r\<rfloor> else None | _ \<Rightarrow> None)"

definition verifyOnchainLoanRequest ::
    "env \<Rightarrow> request_params \<Rightarrow> database \<Rightarrow> (int \<times> loan_request_reason) + (string \<times> jsval) list" where
  "verifyOnchainLoanRequest e p db =
     (if \<not> isOnchainLifecycleRequired e then Inr []
      else case request_loan_id p of
        None \<Rightarrow> Inl (400, OnchainRequestRequired)
      | Some onchainLoanId \<Rightarrow>
          if request_tx_hash p = [] then Inl (400, OnchainRequestRequired)
          else if rq_walletAddress p = [] \<or> rq_walletAddress p \<notin> set (rq_borrowerWallets p)
          then Inl (400, WalletNotLinked)
          else case lendingContractId e of
            Inl m \<Rightarrow> Inl (503, LifecycleConfig m)
          | Inr contractId \<Rightarrow>
              (case verifyContractInvocation (env_chain e)
                      \<lparr>ic_txHash = JStr (request_tx_hash p), ic_contractId = contractId,
                       ic_method = ''create_loan_request'', ic_expectedInvoker = rq_walletAddress p\<rparr> of
                 Inl m \<Rightarrow> Inl (500, RequestDecoding m)
               | Inr (Inl (status, r)) \<Rightarrow> Inl (status, RequestVerification r)
               | Inr (Inr returnValue) \<Rightarrow>
                   if returnValue \<noteq> JNull \<and> \<not> jeq (js_to_number returnValue) (Fin (of_int onchainLoanId))
                   then Inl (422, LoanIdMismatch)
                   else case readOnchainLoan e onchainLoanId of
                     Inl m \<Rightarrow> Inl (502, LoanUnreadable onchainLoanId m)
                   | Inr loan \<Rightarrow>
                       bindE (check_onchain_loan p loan) (\<lambda>_.
                         if \<exists>l \<in> set (db_loans db). records_onchain_loan onchainLoanId l
                         then Inl (409, RequestAlreadyRecorded)
                         else Inr [(''onchain_loan_id'', JNum (Fin (of_int onchainLoanId))),
                                   (''onchain_request_tx'', JStr (js_lower (request_tx_hash p))),
                                   (''onchain_status'', JStr ''Pending'')])))"

subsection \<open>Pools\<close>

datatype pool_sync_outcome =
    SyncNotAttempted string
  | SyncOk string int
  | SyncFailed string

text \<open>
  \<open>xlmToStroops(Number(total_liquidity))\<close> of a money column; \<open>max\<close>/\<open>min\<close> keep the pair in
  the range the contract accepts.
\<close>

definition pool_state_args :: "lending_pool \<Rightarrow> (int \<times> int) option" where
  "pool_state_args pool =
     (case (xlmToStroops (num_of_micro (pool_totalLiquidity pool)),
            xlmToStroops (num_of_micro (pool_totalBorrowed pool))) of
        (Some totalSupply, Some totalBorrows) \<Rightarrow>
          Some (if totalSupply < 0 then 0 else totalSupply,
                if totalSupply < totalBorrows then totalSupply else totalBorrows)
      | _ \<Rightarrow> None)"

definition syncPoolOnchain :: "env \<Rightarrow> string \<Rightarrow> world \<Rightarrow> pool_sync_outcome \<times> world" where
  "syncPoolOnchain e poolId w =
     (if \<not> isOnchainLifecycleRequired e then (SyncNotAttempted ''lifecycle off'', w)
      else if pooledLendingContractId e = None
      then (SyncNotAttempted ''NEXT_PUBLIC_POOLED_LENDING_CONTRACT_ID not configured'', w)
      else case find (\<lambda>p. pool_id p = poolId) (db_lendingPools (w_db w)) of
        None \<Rightarrow> (SyncNotAttempted ''pool not found'', w)
      | Some pool \<Rightarrow>
          (case pool_onchainPoolId pool of
             None \<Rightarrow> (SyncNotAttempted ''pool has no on-chain id (created before mirroring was enabled)'', w)
           | Some onchainPoolId \<Rightarrow>
               (case pool_state_args pool of
                  None \<Rightarrow> (SyncFailed range_error, w)
                | Some (supply, borrows) \<Rightarrow>
                    (case syncPoolStateOnchain e onchainPoolId supply borrows w of
                       (Inl m, w') \<Rightarrow> (SyncFailed m, w')
                     | (Inr None, w') \<Rightarrow> (SyncNotAttempted ''pooled lending contract not configured'', w')
                     | (Inr (Some hash), w') \<Rightarrow> (SyncOk hash onchainPoolId, w')))))"

definition DEFAULT_POOL_CONFIG :: pool_config where
  "DEFAULT_POOL_CONFIG =
     \<lparr>pc_baseRateBps = 200, pc_multiplierPerSlopeBps = 1000, pc_jumpMultiplierBps = 10000,
      pc_kinkBps = 8000, pc_reserveFactorBps = 1000\<rparr>"

definition next_onchain_pool_id :: "lending_pool list \<Rightarrow> int" where
  "next_onchain_pool_id pools =
     (case List.map_filter pool_onchainPoolId pools of [] \<Rightarrow> 0 | i # is \<Rightarrow> foldl max i is + 1)"

definition registerPoolOnchain :: "env \<Rightarrow> string \<Rightarrow> world \<Rightarrow> pool_sync_outcome \<times> world" where
  "registerPoolOnchain e poolId w =
     (if \<not> isOnchainLifecycleRequired e then (SyncNotAttempted ''lifecycle off'', w)
      else if pooledLendingContractId e = None
      then (SyncNotAttempted ''NEXT_PUBLIC_POOLED_LENDING_CONTRACT_ID not configured'', w)
      else (let onchainPoolId = next_onchain_pool_id (db_lendingPools (w_db w)) in
        case setPoolConfigOnchain e onchainPoolId DEFAULT_POOL_CONFIG w of
          (Inl m, w') \<Rightarrow> (SyncFailed m, w')
        | (Inr hash, w') \<Rightarrow>
            (SyncOk hash onchainPoolId,
             set_db (\<lambda>db. db\<lparr>db_lendingPools := update_where (\<lambda>p. pool_id p = poolId)
               (\<lambda>p. p\<lparr>pool_onchainPoolId := Some onchainPoolId\<rparr>) (db_lendingPools db)\<rparr>) w')))"

subsection \<open>What the mirror writes\<close>

text \<open>
  The mirror touches the database in one way: it patches the metadata of a loan, or the
  contract's identifier of a pool. A property of the database that reads neither is an
  invariant of every mirror call.
\<close>

locale mirror_invariant =
  fixes I :: "database \<Rightarrow> bool"
  assumes metadata_update: "I db \<Longrightarrow>
    I (db\<lparr>db_loans := update_where p (\<lambda>l. l\<lparr>loan_metadata := m l\<rparr>) (db_loans db)\<rparr>)"
begin

lemma merge: "I (w_db w) \<Longrightarrow> I (w_db (mergeLoanMetadata loanId patch w))"
  by (simp add: mergeLoanMetadata_def metadata_update)

lemma activate_try:
  assumes "I (w_db w)"
  shows "I (w_db (snd (activate_try e loanId n addr h w)))"
  using assms merge
  by (auto simp: activate_try_def activateLoanOnchain_def invoke_signed_def bindE_def Let_def
      split: sum.splits)

lemma activateFundedLoanOnchain:
  assumes "I (w_db w)"
  shows "I (w_db (snd (activateFundedLoanOnchain e loanId m addr h w)))"
  using assms activate_try [OF assms, of e loanId _ addr h] merge
  by (auto simp: activateFundedLoanOnchain_def split: option.splits prod.splits sum.splits)
    (metis snd_conv)+

lemma record_payment_try:
  assumes "I (w_db w)"
  shows "I (w_db (snd (record_payment_try e loanId n m a w)))"
  using assms merge
  by (auto simp: record_payment_try_def recordPaymentOnchain_def invoke_signed_def bindE_def Let_def
      split: sum.splits option.splits prod.splits)

lemma recordRepaymentOnchain:
  assumes "I (w_db w)"
  shows "I (w_db (snd (recordRepaymentOnchain e loanId m a w)))"
  using assms record_payment_try [OF assms, of e loanId _ m a] merge
  by (auto simp: recordRepaymentOnchain_def split: option.splits prod.splits sum.splits)
    (metis snd_conv)+

end

lemma syncPoolOnchain_db [simp]: "w_db (snd (syncPoolOnchain e p w)) = w_db w"
  by (auto simp: syncPoolOnchain_def syncPoolStateOnchain_def invoke_signed_def Let_def
      split: option.splits sum.splits prod.splits)

end
