(* ===== verification/FundRoute.thy ===== *)
theory FundRoute
  imports Funding FundingDb Lifecycle
begin

text \<open>
  \<open>POST /api/loans/fund\<close>, \<open>src/app/api/loans/fund/route.ts\<close>, with the referral hook of
  \<open>src/lib/referrals/qualify.ts\<close>. The handler is split where it talks to the database, so
  that other requests can run between its reads and its write: \<open>fund_parse\<close> checks the
  body, \<open>fund_check\<close> reads the loan and verifies the payment, \<open>fund_commit\<close> calls
  \<open>record_loan_funding\<close>, and \<open>fund_finish\<close> mirrors, logs and notifies.
\<close>

record fund_body =
  fb_loanId :: jsval
  fb_txHash :: jsval
  fb_lenderAddress :: jsval
  fb_amount :: jsval
  fb_approveTxHash :: jsval

datatype fund_error =
    FundRateLimited
  | FundDbUnavailable
  | FundLoanIdRequired
  | FundHashRequired
  | FundInvalidRequest
  | FundReplayed
  | FundLoanNotFound
  | FundNotAvailable loan_status
  | FundOwnLoan
  | FundAlreadyFull
  | FundRejected funding_rejection
  | FundNoBorrowerWallet
  | FundWalletMismatch
  | FundUnverified verify_reason
  | FundRace rlf_error
  | FundDbError rlf_error
  | FundInternal

record fund_ok =
  fo_loanId :: string
  fo_status :: loan_status
  fo_txHash :: string
  fo_amountFunded :: jsnum
  fo_progress :: funding_progress
  fo_isFullyFunded :: bool
  fo_onchain :: onchain_outcome

type_synonym fund_answer = "(fund_error + fund_ok) answer"

text \<open>The fields of a well-formed body: the loan id, the trimmed hash and the lender's claim.\<close>

definition fund_parse :: "fund_body \<Rightarrow> (int \<times> fund_error) + (string \<times> string \<times> string)" where
  "fund_parse b =
     (if \<not> isBoundedString (fb_loanId b) 128 then Inl (400, FundLoanIdRequired)
      else if \<not> js_truthy (fb_txHash b) then Inl (400, FundHashRequired)
      else case fb_txHash b of
        JStr txHash \<Rightarrow>
          (let normalizedTxHash = js_trim txHash in
           if length normalizedTxHash < 10 then Inl (400, FundHashRequired)
           else if \<not> isBoundedString (JStr normalizedTxHash) 128 \<or> \<not> isBoundedString (fb_lenderAddress b) 128
           then Inl (400, FundInvalidRequest)
           else Inr (js_to_string (fb_loanId b), normalizedTxHash, js_to_string (fb_lenderAddress b)))
      | _ \<Rightarrow> Inl (500, FundInternal))"

record fund_plan =
  plan_loanId :: string
  plan_canonicalId :: string
  plan_txHash :: string
  plan_loan :: loan
  plan_before :: funding_progress
  plan_contribution :: jsnum
  plan_verified :: verified_payment

text \<open>
  The contribution: the requested amount, or the rest of the loan when none is given,
  validated against what is left and rounded to seven decimals.
\<close>

definition fund_contribution :: "loan \<Rightarrow> jsval \<Rightarrow> (int \<times> fund_error) + (funding_progress \<times> jsnum)" where
  "fund_contribution l amount =
     (let progressBefore = getFundingProgress (JNum (num_of_micro (loan_principalAmount l)))
                             (JNum (num_of_micro (loan_fundedAmount l)))
      in if fp_isFullyFunded progressBefore then Inl (409, FundAlreadyFull)
         else case validateFundingAmount (js_nullish amount (JNum (fp_remaining progressBefore)))
                     (JNum (fp_remaining progressBefore)) of
           Inl r \<Rightarrow> Inl (400, FundRejected r)
         | Inr a \<Rightarrow> Inr (progressBefore, fixed_num 7 a))"

definition fund_check :: "env \<Rightarrow> session_user \<Rightarrow> fund_body \<Rightarrow> (string \<times> string \<times> string) \<Rightarrow> database
    \<Rightarrow> (int \<times> fund_error) + fund_plan" where
  "fund_check e user b = (\<lambda>(loanId, txHash, lenderAddress) db.
     if txHash \<in> set (map lf_txHash (db_loanFundings db)) then Inl (409, FundReplayed)
     else case env_pgUuid e loanId of
       None \<Rightarrow> Inl (500, FundInternal)
     | Some canonicalId \<Rightarrow>
       (case find (\<lambda>l. loan_id l = canonicalId) (db_loans db) of
          None \<Rightarrow> Inl (404, FundLoanNotFound)
        | Some l \<Rightarrow>
            if loan_status l \<notin> {LoanRequested, LoanApproved} then Inl (409, FundNotAvailable (loan_status l))
            else if loan_borrowerId l = user_id user then Inl (400, FundOwnLoan)
            else bindE (fund_contribution l (fb_amount b)) (\<lambda>(progressBefore, contribution).
              let borrowerWallet = (case profile_wallet (loan_borrowerId l) db of Some w \<Rightarrow> w | None \<Rightarrow> [])
              in if borrowerWallet = [] then Inl (409, FundNoBorrowerWallet)
                 else if lenderAddress \<notin> set (linked_wallets user (profile_wallet (user_id user) db))
                 then Inl (400, FundWalletMismatch)
                 else case verifyPaymentTransaction (env_horizon e) (Fin (of_int (env_now e)))
                     \<lparr>vp_txHash = txHash, vp_expectedSource = lenderAddress,
                      vp_expectedPayments = [\<lparr>destination = borrowerWallet, minAmount = contribution\<rparr>],
                      vp_expectedMemo = Some (memo_fund loanId), vp_allowOtherDestinations = False,
                      vp_maxAgeSeconds = None, vp_horizonUrl = env_horizonUrl e\<rparr> of
                   Inl (status, r) \<Rightarrow> Inl (status, FundUnverified r)
                 | Inr v \<Rightarrow>
                     Inr \<lparr>plan_loanId = loanId, plan_canonicalId = canonicalId, plan_txHash = txHash, plan_loan = l,
                          plan_before = progressBefore, plan_contribution = contribution, plan_verified = v\<rparr>)))"

text \<open>
  How the route answers an error raised by the database function, by the text of its
  message: the unique index on the hash, the three races, and anything else.
\<close>

fun rlf_answer :: "rlf_error \<Rightarrow> int \<times> fund_error" where
  "rlf_answer RlfDuplicateTxHash = (409, FundReplayed)"
| "rlf_answer RlfAlreadyFullyFunded = (409, FundRace RlfAlreadyFullyFunded)"
| "rlf_answer (RlfExceedsRemaining a r) = (409, FundRace (RlfExceedsRemaining a r))"
| "rlf_answer (RlfNotAvailable st) = (409, FundRace (RlfNotAvailable st))"
| "rlf_answer err = (500, FundDbError err)"

definition fund_commit :: "env \<Rightarrow> session_user \<Rightarrow> fund_plan \<Rightarrow> database
    \<Rightarrow> (int \<times> fund_error) + (rlf_row \<times> database)" where
  "fund_commit e user p db =
     (case dec_of_num (plan_contribution p) of
        None \<Rightarrow> Inl (500, FundInternal)
      | Some amount \<Rightarrow>
          (case record_loan_funding (env_genUuid e) (plan_canonicalId p) (user_id user) amount (plan_txHash p)
                  (Some (v_source (plan_verified p))) (env_now e) db of
             Inl err \<Rightarrow> Inl (rlf_answer err)
           | Inr r \<Rightarrow> Inr r))"

subsection \<open>The referral hook\<close>

record qualify_result =
  qres_qualified :: bool
  qres_referrerId :: "string option"
  qres_status :: "referral_status option"

definition qualifyReferralForLoan :: "string \<Rightarrow> string \<Rightarrow> database \<Rightarrow> qualify_result \<times> database" where
  "qualifyReferralForLoan refereeId loanId db =
     (let none = \<lparr>qres_qualified = False, qres_referrerId = None, qres_status = None\<rparr> in
      if refereeId = [] \<or> loanId = [] then (none, db)
      else case qualify_referral refereeId loanId db of
        (None, db') \<Rightarrow> (none, db')
      | (Some row, db') \<Rightarrow>
          (\<lparr>qres_qualified = (qr_status row = ReferralQualified),
            qres_referrerId = (if qr_referrer_id row = [] then None else Some (qr_referrer_id row)),
            qres_status = Some (qr_status row)\<rparr>, db'))"

subsection \<open>Ledger entry and notifications\<close>

definition progress_fields :: "funding_progress \<Rightarrow> (string \<times> jsval) list" where
  "progress_fields p =
     [(''fundedAmountAfter'', JNum (fp_funded p)), (''remainingAfter'', JNum (fp_remaining p))]"

definition fund_ledger_row :: "env \<Rightarrow> session_user \<Rightarrow> fund_plan \<Rightarrow> int \<Rightarrow> funding_progress \<Rightarrow> bool
    \<Rightarrow> string \<Rightarrow> ledger_transaction" where
  "fund_ledger_row e user p amount progressAfter isFullyFunded uuid =
     \<lparr> lt_id = uuid, lt_userId = user_id user, lt_category = ''loan_fund'', lt_amount = amount,
       lt_currency = ''XLM'', lt_status = TxConfirmed, lt_refType = Some ''loan_fund'',
       lt_refId = Some (plan_canonicalId p),
       lt_metadata = JObj ([(''txHash'', JStr (plan_txHash p)),
         (''lenderAddress'', JStr (v_source (plan_verified p))),
         (''lenderUserId'', JStr (user_id user)),
         (''verifiedLedger'', JNum (Fin (of_int (v_ledger (plan_verified p))))),
         (''borrowerId'', JStr (loan_borrowerId (plan_loan p))),
         (''loanId'', JStr (plan_loanId p)),
         (''contributionAmount'', JNum (plan_contribution p)),
         (''principalAmount'', JNum (num_of_micro (loan_principalAmount (plan_loan p))))]
         @ progress_fields progressAfter @
         [(''isFullyFunded'', JBool isFullyFunded),
          (''aprBps'', JNum (Fin (of_int (loan_aprBps (plan_loan p))))),
          (''durationDays'', JNum (Fin (of_int (loan_durationDays (plan_loan p)))))]) \<rparr>"

text \<open>
  Insert into \<open>ledger_transactions\<close>; the partial unique index is on withdrawals only, so
  this insert has no conflict.
\<close>

definition insert_ledger :: "ledger_transaction \<Rightarrow> database \<Rightarrow> database" where
  "insert_ledger row db =
     db\<lparr>db_ledgerTransactions := db_ledgerTransactions db @ [row], db_uuids := Suc (db_uuids db)\<rparr>"

definition fund_notify :: "session_user \<Rightarrow> fund_plan \<Rightarrow> bool \<Rightarrow> database \<Rightarrow> database" where
  "fund_notify user p isFullyFunded db =
     (let borrower = loan_borrowerId (plan_loan p);
          db1 = (if isFullyFunded
            then (let a = createNotification borrower ''Loan Fully Funded!'' ''loan_funded'' db;
                      (referral, c) = qualifyReferralForLoan borrower (plan_canonicalId p) a
                  in if qres_qualified referral \<and> qres_referrerId referral \<noteq> None
                     then createNotification (the (qres_referrerId referral)) ''Referral Bonus Earned!'' ''investment_made'' c
                     else c)
            else createNotification borrower ''Loan Partially Funded'' ''loan_funded'' db)
      in createNotification (user_id user) ''Funding Successful'' ''investment_made'' db1)"

definition fund_finish :: "env \<Rightarrow> session_user \<Rightarrow> fund_body \<Rightarrow> fund_plan \<Rightarrow> rlf_row \<Rightarrow> world
    \<Rightarrow> fund_answer \<times> world" where
  "fund_finish e user b p result w =
     (let progressAfter = getFundingProgress (JNum (num_of_micro (rlf_principal_amount result)))
                            (JNum (num_of_micro (rlf_funded_amount result)));
          isFullyFunded = rlf_is_fully_funded result;
          (onchain, w1) = (if isFullyFunded
             then activateFundedLoanOnchain e (plan_canonicalId p) (loan_metadata (plan_loan p))
                    (v_source (plan_verified p)) (fb_approveTxHash b) w
             else (NotAttempted [], w))
      in case micro_of_num (plan_contribution p) of
           None \<Rightarrow> (Answer 500 (Inl FundInternal), w1)
         | Some amount \<Rightarrow>
             (let row = fund_ledger_row e user p amount progressAfter isFullyFunded
                          (env_genUuid e (db_uuids (w_db w1)));
                  w2 = set_db (insert_ledger row) w1;
                  w3 = set_db (fund_notify user p isFullyFunded) w2
              in (Answer 200 (Inr \<lparr>fo_loanId = plan_loanId p, fo_status = rlf_status result,
                     fo_txHash = plan_txHash p, fo_amountFunded = plan_contribution p,
                     fo_progress = progressAfter, fo_isFullyFunded = isFullyFunded,
                     fo_onchain = onchain\<rparr>), w3)))"

definition POST_fund :: "env \<Rightarrow> fund_body \<Rightarrow> world \<Rightarrow> fund_answer \<times> world" where
  "POST_fund e b w =
     (if env_rateLimited e then (Answer 429 (Inl FundRateLimited), w)
      else case requireAuthenticatedUser e RoleLender of
        Inl url \<Rightarrow> (Redirect url, w)
      | Inr user \<Rightarrow>
          if \<not> env_dbAvailable e then (Answer 503 (Inl FundDbUnavailable), w)
          else case bindE (fund_parse b) (\<lambda>q. bindE (fund_check e user b q (w_db w)) (\<lambda>p.
                      bindE (fund_commit e user p (w_db w)) (\<lambda>r. Inr (p, r)))) of
            Inl (status, err) \<Rightarrow> (Answer status (Inl err), w)
          | Inr (p, result, db') \<Rightarrow> fund_finish e user b p result (set_db (\<lambda>_. db') w))"

subsection \<open>Closing a loan\<close>

text \<open>
  A \<open>numeric(20, 6)\<close> amount below \<open>2 ^ 28\<close> XLM reads as a double that prints as the same
  decimal.
\<close>

lemma short_decimal_micro: "0 < n \<Longrightarrow> n < 10 ^ 15 \<Longrightarrow> short_decimal (of_micro n)"
  unfolding short_decimal_def of_micro_def by (intro exI [of _ n] exI [of _ 6]) simp

lemma of_stroops_micro: "of_stroops (10 * n) = num_of_micro n"
  by (simp add: of_stroops_def num_of_micro_def of_micro_def)

text \<open>What is left of a loan, computed in doubles, is close to the exact remainder.\<close>

lemma remaining_close:
  assumes "0 \<le> f" "f \<le> p" "p < 2 ^ 28 * 10 ^ 6"
  shows "\<bar>fl (fl (of_micro p) - fl (of_micro f)) - of_micro (p - f)\<bar> \<le> 3 / 2 ^ 26"
    and "fl (of_micro f) \<le> fl (of_micro p)" and "fl (of_micro p) \<le> 2 ^ 28"
proof -
  have "(of_int p :: rat) < of_int (2 ^ 28 * 10 ^ 6)"
    using assms(3) by (simp only: of_int_less_iff)
  then have p: "of_micro p < 2 ^ 28"
    by (simp add: of_micro_def)
  have f: "of_micro f \<le> of_micro p"
    using assms(2) by simp
  have pos: "0 \<le> of_micro f" "0 \<le> of_micro p"
    using assms by simp_all
  have "\<bar>fl (of_micro p) - of_micro p\<bar> \<le> 2 powi (28 - 54)" "\<bar>fl (of_micro f) - of_micro f\<bar> \<le> 2 powi (28 - 54)"
    using p order.strict_trans1 [OF f p] pos by (intro fl_error; simp add: two_powi_nat)+
  from close_diff [OF this] have diff: "\<bar>(fl (of_micro p) - fl (of_micro f)) - of_micro (p - f)\<bar> \<le> 2 / 2 ^ 26"
    unfolding of_micro_diff by (simp add: power_int_def power_divide)
  show mono: "fl (of_micro f) \<le> fl (of_micro p)"
    using f by (rule fl_mono)
  show le: "fl (of_micro p) \<le> 2 ^ 28"
    using p fl_le_pow2 [of "of_micro p" 28] by (simp add: two_powi_nat)
  have "fl (of_micro p) - fl (of_micro f) \<le> 2 ^ 28"
    using le pos fl_nonneg [of "of_micro f"] by linarith
  have fle: "\<bar>fl (fl (of_micro p) - fl (of_micro f)) - (fl (of_micro p) - fl (of_micro f))\<bar> \<le> 1 / 2 ^ 26"
  proof (cases "fl (of_micro p) - fl (of_micro f) = 2 ^ 28")
    case True
    then show ?thesis
      using fl_of_int [of "2 ^ 28"] by simp
  next
    case False
    then have "\<bar>fl (of_micro p) - fl (of_micro f)\<bar> < 2 powi 28"
      using \<open>fl (of_micro p) - fl (of_micro f) \<le> 2 ^ 28\<close> mono by (simp add: two_powi_nat)
    then show ?thesis
      using fl_error [of "fl (of_micro p) - fl (of_micro f)" 28] by (simp add: power_int_def power_divide)
  qed
  from close_trans [OF fle diff]
  show "\<bar>fl (fl (of_micro p) - fl (of_micro f)) - of_micro (p - f)\<bar> \<le> 3 / 2 ^ 26"
    by simp
qed

lemma progress_in_micro:
  assumes "0 \<le> f" "f \<le> p" "p < 2 ^ 28 * 10 ^ 6"
  shows "getFundingProgress (JNum (num_of_micro p)) (JNum (num_of_micro f)) =
    progress_of (fl (of_micro p)) (fl (of_micro f))"
proof -
  have n: "num_of_micro p = Fin (fl (of_micro p))" "num_of_micro f = Fin (fl (of_micro f))"
    using assms by (intro num_of_micro_Fin; simp)+
  have "0 \<le> fl (of_micro f)" "0 \<le> fl (of_micro p)" "fl (of_micro f) \<le> fl (of_micro p)"
    using assms remaining_close(2) by simp_all
  then show ?thesis
    by (simp add: getFundingProgress_def progress_of_def Let_def n toSafeNumber_def js_nullish_def jsub_Fin
        max_def min_def)
qed

lemma fund_contribution_default:
  assumes "0 \<le> loan_fundedAmount l" "loan_fundedAmount l + 2 \<le> loan_principalAmount l"
    "loan_principalAmount l < 2 ^ 28 * 10 ^ 6"
  shows "\<exists>pb. fund_contribution l JUndef =
    Inr (pb, num_of_micro (loan_principalAmount l - loan_fundedAmount l))"
proof -
  define p f where "p = loan_principalAmount l" and "f = loan_fundedAmount l"
  define z where "z = fl (fl (of_micro p) - fl (of_micro f))"
  have pf: "0 \<le> f" "f \<le> p" "p < 2 ^ 28 * 10 ^ 6" "2 \<le> p - f"
    using assms by (simp_all add: p_def f_def)
  have z: "\<bar>z - of_micro (p - f)\<bar> \<le> 3 / 2 ^ 26"
    unfolding z_def by (rule remaining_close(1) [OF pf(1-3)])
  have "of_micro 2 \<le> of_micro (p - f)"
    using pf(4) by simp
  then have "2 / 10 ^ 6 - 3 / 2 ^ 26 \<le> z"
    using z unfolding abs_le_iff by (simp add: of_micro_def [of 2])
  then have zl: "19 / 10 ^ 7 \<le> z"
    by (rule order_trans [rotated]) simp
  have eps: "funding_epsilon < 19 / 10 ^ 7"
    by code_simp
  have rem: "to_num (fl (of_micro p) - fl (of_micro f)) = Fin z"
  proof -
    have "0 \<le> fl (of_micro f)"
      using pf(1) by simp
    then show ?thesis
      unfolding z_def using remaining_close(2,3) [OF pf(1-3)] by (intro to_num_le_int(1) [of _ "2 ^ 28"]) simp_all
  qed
  have "0 < z" "jle (Fin 0) (Fin z)"
    using zl order.strict_trans2 [OF _ zl, of 0] by simp_all
  then have prog: "fp_isFullyFunded (progress_of (fl (of_micro p)) (fl (of_micro f))) = False"
      "fp_remaining (progress_of (fl (of_micro p)) (fl (of_micro f))) = Fin z"
    using zl eps rem by (simp_all add: progress_of_def Let_def FUNDING_EPSILON_Fin max_def)
  have "toSafeNumber (JNum (Fin z)) = Fin z"
    by (simp add: toSafeNumber_def js_nullish_def)
  then have valid: "validateFundingAmount (JNum (Fin z)) (JNum (Fin z)) = Inr (Fin z)"
    using validateFundingAmount_exact [of "JNum (Fin z)" z "JNum (Fin z)" z] \<open>0 < z\<close> zl eps funding_epsilon_pos by simp
  have "of_int (10 * (p - f)) / 10 ^ 7 = of_micro (p - f)"
    by (simp add: of_micro_def)
  then have "\<bar>z - of_int (10 * (p - f)) / 10 ^ 7\<bar> < 1 / (2 * 10 ^ 7)"
    using z by (simp add: order.strict_trans1 [OF z])
  then have "fixed_num 7 (Fin z) = of_stroops (10 * (p - f))"
    using pf by (intro fixed_num_stroops) simp_all
  then have "fixed_num 7 (Fin z) = num_of_micro (p - f)"
    by (simp only: of_stroops_micro)
  then show ?thesis
    using prog valid progress_in_micro [OF pf(1-3)]
    by (simp add: fund_contribution_def Let_def js_nullish_def flip: p_def f_def)
qed

end
