(* ===== verification/RateConfig.thy ===== *)
theory RateConfig
  imports Server
begin

text \<open>
  The interest rate schedules of \<open>src/lib/loans/rate-config.ts\<close>: the two tier ladders,
  the price of a loan, the parsers of the stored ladders, the validation of a draft and
  the look-up of the active schedule.
\<close>

datatype rate_model = RateFixed | RateFloating

definition RATE_MODELS :: "rate_model list" where
  "RATE_MODELS = [RateFixed, RateFloating]"

record amount_tier =
  at_minAmount :: jsnum
  at_aprBps :: jsnum

record reputation_tier =
  rt_minScore :: jsnum
  rt_multiplierBps :: jsnum

record interest_rate_config =
  cfg_rateModel :: rate_model
  cfg_version :: jsnum
  cfg_baseAprBps :: jsnum
  cfg_minAprBps :: jsnum
  cfg_maxAprBps :: jsnum
  cfg_amountTiers :: "amount_tier list"
  cfg_reputationTiers :: "reputation_tier list"
  cfg_notes :: "string option"
  cfg_updatedByEmail :: "string option"
  cfg_updatedAt :: "string option"

record apr_quote =
  q_aprBps :: jsnum
  q_rateModel :: rate_model
  q_configVersion :: jsnum
  q_tierAprBps :: jsnum
  q_reputationMultiplierBps :: jsnum
  q_matchedAmountTier :: "jsnum option"
  q_clamped :: bool
  q_usedFallback :: bool

subsection \<open>Bounds and defaults\<close>

definition MAX_APR_BPS :: jsnum where "MAX_APR_BPS = Fin 10000"
definition MIN_APR_BPS :: jsnum where "MIN_APR_BPS = Fin 0"
definition MIN_MULTIPLIER_BPS :: jsnum where "MIN_MULTIPLIER_BPS = Fin 1000"
definition MAX_MULTIPLIER_BPS :: jsnum where "MAX_MULTIPLIER_BPS = Fin 30000"
definition MAX_AMOUNT_TIERS :: nat where "MAX_AMOUNT_TIERS = 10"
definition MAX_REPUTATION_TIERS :: nat where "MAX_REPUTATION_TIERS = 10"
definition MIN_NOTES_LENGTH :: nat where "MIN_NOTES_LENGTH = 5"

definition default_reputation_tiers :: "reputation_tier list" where
  "default_reputation_tiers =
     [\<lparr>rt_minScore = Fin 0, rt_multiplierBps = Fin 10000\<rparr>,
      \<lparr>rt_minScore = Fin 500, rt_multiplierBps = Fin 10000\<rparr>,
      \<lparr>rt_minScore = Fin 750, rt_multiplierBps = Fin 10000\<rparr>]"

definition default_amount_tiers :: "rat \<Rightarrow> rat \<Rightarrow> amount_tier list" where
  "default_amount_tiers apr1 apr2 =
     [\<lparr>at_minAmount = to_num (1000000001 / 10 ^ 6), at_aprBps = Fin apr1\<rparr>,
      \<lparr>at_minAmount = to_num (2000000001 / 10 ^ 6), at_aprBps = Fin apr2\<rparr>]"

fun DEFAULT_RATE_CONFIGS :: "rate_model \<Rightarrow> interest_rate_config" where
  "DEFAULT_RATE_CONFIGS RateFixed =
     \<lparr>cfg_rateModel = RateFixed, cfg_version = Fin 0, cfg_baseAprBps = Fin 1500,
      cfg_minAprBps = Fin 100, cfg_maxAprBps = Fin 5000,
      cfg_amountTiers = default_amount_tiers 1200 1000,
      cfg_reputationTiers = default_reputation_tiers,
      cfg_notes = Some ''Code default -- no active schedule found in the database'',
      cfg_updatedByEmail = None, cfg_updatedAt = None\<rparr>"
| "DEFAULT_RATE_CONFIGS RateFloating =
     \<lparr>cfg_rateModel = RateFloating, cfg_version = Fin 0, cfg_baseAprBps = Fin 500,
      cfg_minAprBps = Fin 100, cfg_maxAprBps = Fin 5000,
      cfg_amountTiers = default_amount_tiers 450 400,
      cfg_reputationTiers = default_reputation_tiers,
      cfg_notes = Some ''Code default -- no active schedule found in the database'',
      cfg_updatedByEmail = None, cfg_updatedAt = None\<rparr>"

subsection \<open>Parsing\<close>

definition parse_rate_model :: "jsval \<Rightarrow> rate_model option" where
  "parse_rate_model value =
     (if value = JStr ''fixed'' then Some RateFixed
      else if value = JStr ''floating'' then Some RateFloating else None)"

definition isRateModel :: "jsval \<Rightarrow> bool" where
  "isRateModel value = (parse_rate_model value \<noteq> None)"

text \<open>
  \<open>sort((a, b) => key(a) - key(b))\<close> on finite keys: a stable sort by the key.
\<close>

definition rat_key :: "jsnum \<Rightarrow> rat" where
  "rat_key x = (case x of Fin r \<Rightarrow> r | _ \<Rightarrow> 0)"

definition is_object :: "jsval \<Rightarrow> bool" where
  "is_object v = (case v of JObj _ \<Rightarrow> True | JArr _ \<Rightarrow> True | _ \<Rightarrow> False)"

definition parse_amount_tier :: "jsval \<Rightarrow> amount_tier option" where
  "parse_amount_tier entry =
     (if \<not> is_object entry then None
      else (let minAmount = js_to_number (js_nullish (js_get entry ''minAmount'') (js_get entry ''min_amount''));
                aprBps = js_to_number (js_nullish (js_get entry ''aprBps'') (js_get entry ''apr_bps''))
            in if \<not> is_finite minAmount \<or> jlt minAmount (Fin 0) then None
               else if \<not> is_finite aprBps \<or> jlt aprBps (Fin 0) then None
               else Some \<lparr>at_minAmount = minAmount, at_aprBps = jround aprBps\<rparr>))"

definition parseAmountTiers :: "jsval \<Rightarrow> amount_tier list" where
  "parseAmountTiers raw =
     (case raw of
        JArr entries \<Rightarrow> sort_key (\<lambda>t. rat_key (at_minAmount t)) (List.map_filter parse_amount_tier entries)
      | _ \<Rightarrow> [])"

definition parse_reputation_tier :: "jsval \<Rightarrow> reputation_tier option" where
  "parse_reputation_tier entry =
     (if \<not> is_object entry then None
      else (let minScore = js_to_number (js_nullish (js_get entry ''minScore'') (js_get entry ''min_score''));
                multiplierBps = js_to_number (js_nullish (js_get entry ''multiplierBps'') (js_get entry ''multiplier_bps''))
            in if \<not> is_finite minScore \<or> jlt minScore (Fin 0) then None
               else if \<not> is_finite multiplierBps \<or> jle multiplierBps (Fin 0) then None
               else Some \<lparr>rt_minScore = minScore, rt_multiplierBps = jround multiplierBps\<rparr>))"

definition parseReputationTiers :: "jsval \<Rightarrow> reputation_tier list" where
  "parseReputationTiers raw =
     (case raw of
        JArr entries \<Rightarrow> sort_key (\<lambda>t. rat_key (rt_minScore t)) (List.map_filter parse_reputation_tier entries)
      | _ \<Rightarrow> [])"

subsection \<open>Pricing\<close>

text \<open>
  The loop both ladders share: keep the tier with the highest threshold the value clears,
  the later one on a tie.
\<close>

fun select_tier :: "('t \<Rightarrow> jsnum) \<Rightarrow> jsnum \<Rightarrow> 't option \<Rightarrow> 't list \<Rightarrow> 't option" where
  "select_tier threshold x best [] = best"
| "select_tier threshold x best (t # ts) =
     select_tier threshold x
       (if jle (threshold t) x
           \<and> (case best of None \<Rightarrow> True | Some b \<Rightarrow> jle (threshold b) (threshold t))
        then Some t else best) ts"

definition selectAmountTier :: "interest_rate_config \<Rightarrow> jsnum \<Rightarrow> amount_tier option" where
  "selectAmountTier config amount = select_tier at_minAmount amount None (cfg_amountTiers config)"

definition selectReputationMultiplierBps :: "interest_rate_config \<Rightarrow> jsnum \<Rightarrow> jsnum" where
  "selectReputationMultiplierBps config reputationScore =
     (case select_tier rt_minScore reputationScore None (cfg_reputationTiers config) of
        Some best \<Rightarrow> rt_multiplierBps best
      | None \<Rightarrow> Fin 10000)"

definition priceLoanApr :: "interest_rate_config \<Rightarrow> jsnum \<Rightarrow> jsnum \<Rightarrow> bool \<Rightarrow> apr_quote" where
  "priceLoanApr config amount reputationScore usedFallback =
     (let matched = selectAmountTier config amount;
          tierAprBps = (case matched of Some t \<Rightarrow> at_aprBps t | None \<Rightarrow> cfg_baseAprBps config);
          reputationMultiplierBps = selectReputationMultiplierBps config reputationScore;
          adjusted = jround (jdiv (jmul tierAprBps reputationMultiplierBps) (Fin 10000));
          lower = jmin (cfg_minAprBps config) (cfg_maxAprBps config);
          ceiling = jmax (cfg_minAprBps config) (cfg_maxAprBps config);
          aprBps = jmax lower (jmin ceiling adjusted)
      in \<lparr>q_aprBps = aprBps, q_rateModel = cfg_rateModel config,
          q_configVersion = cfg_version config, q_tierAprBps = tierAprBps,
          q_reputationMultiplierBps = reputationMultiplierBps,
          q_matchedAmountTier = map_option at_minAmount matched,
          q_clamped = (\<not> jeq aprBps adjusted),
          q_usedFallback = usedFallback\<rparr>)"

subsection \<open>Persistence\<close>

definition rowToConfig :: "interest_rate_config_row \<Rightarrow> interest_rate_config" where
  "rowToConfig row =
     \<lparr>cfg_rateModel = (case parse_rate_model (JStr (irc_rateModel row)) of Some m \<Rightarrow> m | None \<Rightarrow> RateFixed),
      cfg_version = to_num (of_int (irc_version row)),
      cfg_baseAprBps = to_num (of_int (irc_baseAprBps row)),
      cfg_minAprBps = to_num (of_int (irc_minAprBps row)),
      cfg_maxAprBps = to_num (of_int (irc_maxAprBps row)),
      cfg_amountTiers = parseAmountTiers (irc_amountTiers row),
      cfg_reputationTiers = parseReputationTiers (irc_reputationTiers row),
      cfg_notes = irc_notes row, cfg_updatedByEmail = irc_updatedByEmail row,
      cfg_updatedAt = Some (irc_updatedAt row)\<rparr>"

fun rate_model_name :: "rate_model \<Rightarrow> string" where
  "rate_model_name RateFixed = ''fixed''"
| "rate_model_name RateFloating = ''floating''"

text \<open>The schedule in force, and whether it is the code default; no database gives the default.\<close>

definition getActiveRateConfig ::
    "database option \<Rightarrow> rate_model \<Rightarrow> interest_rate_config \<times> bool" where
  "getActiveRateConfig db rateModel =
     (case db of
        None \<Rightarrow> (DEFAULT_RATE_CONFIGS rateModel, True)
      | Some d \<Rightarrow>
          (case find (\<lambda>r. irc_rateModel r = rate_model_name rateModel \<and> irc_isActive r)
                  (db_interestRateConfigs d) of
             None \<Rightarrow> (DEFAULT_RATE_CONFIGS rateModel, True)
           | Some row \<Rightarrow> (rowToConfig row, False)))"

definition getActiveRateConfigs ::
    "database option \<Rightarrow> (rate_model \<times> interest_rate_config) list \<times> bool" where
  "getActiveRateConfigs db =
     (let results = map (\<lambda>model. (model, getActiveRateConfig db model)) RATE_MODELS
      in (map (\<lambda>(model, c, _). (model, c)) results, \<exists>(_, _, f) \<in> set results. f))"

subsection \<open>Validation\<close>

record rate_config_draft =
  dr_baseAprBps :: jsval
  dr_minAprBps :: jsval
  dr_maxAprBps :: jsval
  dr_amountTiers :: jsval
  dr_reputationTiers :: jsval

datatype draft_error =
    NotWholeBps string
  | BpsOutOfRange string
  | MinAboveMax
  | AmountTiersNotArray
  | TooManyAmountTiers
  | TierNeedsMinAmount
  | TierAprInvalid
  | DuplicateAmountTier jsnum
  | ReputationTiersNotArray
  | TooManyReputationTiers
  | TierNeedsMinScore
  | MultiplierInvalid
  | DuplicateReputationTier jsnum

definition check_scalar :: "string \<times> jsval \<Rightarrow> draft_error option" where
  "check_scalar = (\<lambda>(name, value).
     let num = js_to_number value
     in if \<not> is_finite num \<or> \<not> is_integer num then Some (NotWholeBps name)
        else if jlt num MIN_APR_BPS \<or> jlt MAX_APR_BPS num then Some (BpsOutOfRange name)
        else None)"

fun check_amount_tiers :: "jsnum list \<Rightarrow> jsval list \<Rightarrow> draft_error option" where
  "check_amount_tiers seen [] = None"
| "check_amount_tiers seen (tier # tiers) =
     (let minAmount = js_to_number (js_get tier ''minAmount'');
          aprBps = js_to_number (js_get tier ''aprBps'')
      in if \<not> is_finite minAmount \<or> jlt minAmount (Fin 0) then Some TierNeedsMinAmount
         else if \<not> is_finite aprBps \<or> \<not> is_integer aprBps \<or> jlt aprBps (Fin 0) \<or> jlt MAX_APR_BPS aprBps
         then Some TierAprInvalid
         else if minAmount \<in> set seen then Some (DuplicateAmountTier minAmount)
         else check_amount_tiers (minAmount # seen) tiers)"

fun check_reputation_tiers :: "jsnum list \<Rightarrow> jsval list \<Rightarrow> draft_error option" where
  "check_reputation_tiers seen [] = None"
| "check_reputation_tiers seen (tier # tiers) =
     (let minScore = js_to_number (js_get tier ''minScore'');
          multiplierBps = js_to_number (js_get tier ''multiplierBps'')
      in if \<not> is_finite minScore \<or> jlt minScore (Fin 0) then Some TierNeedsMinScore
         else if \<not> is_finite multiplierBps \<or> \<not> is_integer multiplierBps
           \<or> jlt multiplierBps MIN_MULTIPLIER_BPS \<or> jlt MAX_MULTIPLIER_BPS multiplierBps
         then Some MultiplierInvalid
         else if minScore \<in> set seen then Some (DuplicateReputationTier minScore)
         else check_reputation_tiers (minScore # seen) tiers)"

definition first_error :: "('a \<Rightarrow> 'e option) \<Rightarrow> 'a list \<Rightarrow> 'e option" where
  "first_error check xs = (case List.map_filter check xs of [] \<Rightarrow> None | err # _ \<Rightarrow> Some err)"

text \<open>\<open>None\<close> is \<open>{ valid: true }\<close>.\<close>

definition validateRateConfigDraft :: "rate_config_draft \<Rightarrow> draft_error option" where
  "validateRateConfigDraft draft =
     (case first_error check_scalar
             [(''baseAprBps'', dr_baseAprBps draft), (''minAprBps'', dr_minAprBps draft),
              (''maxAprBps'', dr_maxAprBps draft)] of
        Some err \<Rightarrow> Some err
      | None \<Rightarrow>
          if jlt (js_to_number (dr_maxAprBps draft)) (js_to_number (dr_minAprBps draft)) then Some MinAboveMax
          else case dr_amountTiers draft of
            JArr amountTiers \<Rightarrow>
              if MAX_AMOUNT_TIERS < length amountTiers then Some TooManyAmountTiers
              else (case check_amount_tiers [] amountTiers of
                      Some err \<Rightarrow> Some err
                    | None \<Rightarrow>
                        (case dr_reputationTiers draft of
                           JArr reputationTiers \<Rightarrow>
                             if MAX_REPUTATION_TIERS < length reputationTiers then Some TooManyReputationTiers
                             else check_reputation_tiers [] reputationTiers
                         | _ \<Rightarrow> Some ReputationTiersNotArray))
          | _ \<Rightarrow> Some AmountTiersNotArray)"

record rate_preview =
  pv_amount :: jsnum
  pv_aprBps :: jsnum
  pv_aprPct :: jsnum
  pv_matchedAmountTier :: "jsnum option"

definition previewRateSchedule :: "interest_rate_config \<Rightarrow> jsnum list \<Rightarrow> jsnum \<Rightarrow> rate_preview list" where
  "previewRateSchedule config amounts reputationScore =
     map (\<lambda>amount. let quote = priceLoanApr config amount reputationScore False
          in \<lparr>pv_amount = amount, pv_aprBps = q_aprBps quote,
              pv_aprPct = fixed_num 2 (jdiv (q_aprBps quote) (Fin 100)),
              pv_matchedAmountTier = q_matchedAmountTier quote\<rparr>) amounts"

end
