(* ===== verification/PlatformSettings.thy ===== *)
theory PlatformSettings
  imports Server
begin

text \<open>
  Platform-wide parameters and the fee of a loan: \<open>src/lib/platform/settings.ts\<close>, with the
  metadata reader of \<open>src/lib/db/metadata.ts\<close>. There is one key, the platform fee.
\<close>

subsection \<open>Metadata\<close>

text \<open>
  \<open>readMetadata(raw)\<close>: the fields of a \<open>jsonb\<close> object, or of a JSON text stored in the
  column. \<open>json_parse\<close> is the decoder of JSON texts; \<open>None\<close> is its syntax error.
\<close>

definition readMetadata :: "(string \<Rightarrow> jsval option) \<Rightarrow> jsval \<Rightarrow> (string \<times> jsval) list" where
  "readMetadata json_parse raw =
     (case raw of
        JStr s \<Rightarrow> (case json_parse s of Some (JObj kvs) \<Rightarrow> kvs | _ \<Rightarrow> [])
      | JObj kvs \<Rightarrow> kvs
      | _ \<Rightarrow> [])"

definition metaString :: "(string \<Rightarrow> jsval option) \<Rightarrow> jsval \<Rightarrow> string \<Rightarrow> string" where
  "metaString json_parse raw key =
     (let value = js_get (JObj (readMetadata json_parse raw)) key
      in if value = JNull \<or> value = JUndef then [] else js_to_string value)"

subsection \<open>Keys, bounds and defaults\<close>

definition PLATFORM_FEE_BPS_KEY :: string where
  "PLATFORM_FEE_BPS_KEY = ''platform_fee_bps''"

definition PLATFORM_SETTING_KEYS :: "string list" where
  "PLATFORM_SETTING_KEYS = [PLATFORM_FEE_BPS_KEY]"

definition isPlatformSettingKey :: "jsval \<Rightarrow> bool" where
  "isPlatformSettingKey value = (case value of JStr s \<Rightarrow> s \<in> set PLATFORM_SETTING_KEYS | _ \<Rightarrow> False)"

record setting_definition =
  sd_key :: string
  sd_label :: string
  sd_defaultBps :: rat
  sd_minBps :: rat
  sd_maxBps :: rat

definition SETTING_DEFINITIONS :: "(string \<times> setting_definition) list" where
  "SETTING_DEFINITIONS =
     [(PLATFORM_FEE_BPS_KEY,
       \<lparr>sd_key = PLATFORM_FEE_BPS_KEY, sd_label = ''Platform Fee'', sd_defaultBps = 100,
        sd_minBps = 0, sd_maxBps = 1000\<rparr>)]"

definition MIN_SETTING_NOTES_LENGTH :: nat where "MIN_SETTING_NOTES_LENGTH = 5"

definition LOAN_FEE_METADATA_KEY :: string where
  "LOAN_FEE_METADATA_KEY = ''platform_fee_bps''"

definition LOAN_FEE_VERSION_METADATA_KEY :: string where
  "LOAN_FEE_VERSION_METADATA_KEY = ''platform_fee_version''"

record platform_setting =
  set_key :: string
  set_valueBps :: jsnum
  set_version :: jsnum
  set_notes :: "string option"
  set_updatedByEmail :: "string option"
  set_updatedAt :: "string option"
  set_usedFallback :: bool

subsection \<open>Validation\<close>

datatype setting_error =
    UnknownSetting string
  | SettingNotWhole string
  | SettingOutOfRange string rat rat

definition validateSettingValue :: "string \<Rightarrow> jsval \<Rightarrow> setting_error option" where
  "validateSettingValue key valueBps =
     (case map_of SETTING_DEFINITIONS key of
        None \<Rightarrow> Some (UnknownSetting key)
      | Some d \<Rightarrow>
          (case valueBps of
             JNum v \<Rightarrow>
               if \<not> is_finite v \<or> \<not> is_integer v then Some (SettingNotWhole (sd_label d))
               else if jlt v (Fin (sd_minBps d)) \<or> jlt (Fin (sd_maxBps d)) v
               then Some (SettingOutOfRange (sd_label d) (sd_minBps d / 100) (sd_maxBps d / 100))
               else None
           | _ \<Rightarrow> Some (SettingNotWhole (sd_label d))))"

definition clampSettingValue :: "string \<Rightarrow> jsnum \<Rightarrow> jsnum" where
  "clampSettingValue key valueBps =
     (case map_of SETTING_DEFINITIONS key of
        None \<Rightarrow> valueBps
      | Some d \<Rightarrow>
          if \<not> is_finite valueBps then Fin (sd_defaultBps d)
          else jmin (Fin (sd_maxBps d)) (jmax (Fin (sd_minBps d)) (jround valueBps)))"

subsection \<open>Persistence\<close>

definition fallbackSetting :: "string \<Rightarrow> platform_setting" where
  "fallbackSetting key =
     \<lparr>set_key = key,
      set_valueBps = (case map_of SETTING_DEFINITIONS key of Some d \<Rightarrow> Fin (sd_defaultBps d) | None \<Rightarrow> NaN),
      set_version = Fin 0,
      set_notes = Some ''Code default -- no active row found in the database'',
      set_updatedByEmail = None, set_updatedAt = None, set_usedFallback = True\<rparr>"

definition getPlatformSetting :: "database option \<Rightarrow> string \<Rightarrow> platform_setting" where
  "getPlatformSetting db key =
     (case db of
        None \<Rightarrow> fallbackSetting key
      | Some d \<Rightarrow>
          (case find (\<lambda>r. ps_settingKey r = key \<and> ps_isActive r) (db_platformSettings d) of
             None \<Rightarrow> fallbackSetting key
           | Some row \<Rightarrow>
               \<lparr>set_key = key, set_valueBps = clampSettingValue key (to_num (of_int (ps_valueBps row))),
                set_version = to_num (of_int (ps_version row)), set_notes = ps_notes row,
                set_updatedByEmail = ps_updatedByEmail row, set_updatedAt = Some (ps_updatedAt row),
                set_usedFallback = False\<rparr>))"

definition getPlatformFeeBps :: "database option \<Rightarrow> platform_setting" where
  "getPlatformFeeBps db = getPlatformSetting db PLATFORM_FEE_BPS_KEY"

subsection \<open>The fee of a loan\<close>

datatype fee_source = FeeFromLoan | FeeFromSetting | FeeFromDefault

record resolved_loan_fee =
  rf_feeBps :: jsnum
  rf_feeAmount :: jsnum
  rf_source :: fee_source
  rf_version :: "jsnum option"

definition readLoanFeeBps :: "(string \<Rightarrow> jsval option) \<Rightarrow> jsval \<Rightarrow> jsnum option" where
  "readLoanFeeBps json_parse loanMetadata =
     (let raw = js_get (JObj (readMetadata json_parse loanMetadata)) LOAN_FEE_METADATA_KEY in
      if raw = JNull \<or> raw = JUndef then None
      else (let value = js_to_number raw
            in if \<not> is_finite value \<or> jlt value (Fin 0) then None else Some (jround value)))"

definition readLoanFeeVersion :: "(string \<Rightarrow> jsval option) \<Rightarrow> jsval \<Rightarrow> jsnum option" where
  "readLoanFeeVersion json_parse loanMetadata =
     (let raw = js_get (JObj (readMetadata json_parse loanMetadata)) LOAN_FEE_VERSION_METADATA_KEY in
      if raw = JNull \<or> raw = JUndef then None
      else (let value = js_to_number raw in if is_finite value then Some (jround value) else None))"

text \<open>\<open>Number(params.principal) || 0\<close>\<close>

definition num_or_zero :: "jsnum \<Rightarrow> jsnum" where
  "num_or_zero x = (if num_truthy x then x else Fin 0)"

definition fee_amount :: "jsnum \<Rightarrow> jsnum \<Rightarrow> jsnum" where
  "fee_amount amount feeBps = fixed_num 7 (jmul amount (jdiv feeBps (Fin 10000)))"

definition resolveLoanFeeBps ::
    "(string \<Rightarrow> jsval option) \<Rightarrow> jsnum \<Rightarrow> jsval \<Rightarrow> platform_setting option \<Rightarrow> resolved_loan_fee" where
  "resolveLoanFeeBps json_parse p loanMetadata activeSetting =
     (let principal = jmax (Fin 0) (num_or_zero p);
          (feeBps, source, version) =
            (case readLoanFeeBps json_parse loanMetadata of
               Some stamped \<Rightarrow>
                 (clampSettingValue PLATFORM_FEE_BPS_KEY stamped, FeeFromLoan,
                  readLoanFeeVersion json_parse loanMetadata)
             | None \<Rightarrow>
                 (case activeSetting of
                    Some s \<Rightarrow>
                      (clampSettingValue PLATFORM_FEE_BPS_KEY (set_valueBps s),
                       if set_usedFallback s then FeeFromDefault else FeeFromSetting,
                       Some (set_version s))
                  | None \<Rightarrow> (clampSettingValue PLATFORM_FEE_BPS_KEY (Fin 100), FeeFromDefault, Some (Fin 0))))
      in \<lparr>rf_feeBps = feeBps, rf_feeAmount = fee_amount principal feeBps,
          rf_source = source, rf_version = version\<rparr>)"

subsection \<open>The fee is bounded\<close>

lemma fee_definition: "map_of SETTING_DEFINITIONS PLATFORM_FEE_BPS_KEY =
    Some \<lparr>sd_key = PLATFORM_FEE_BPS_KEY, sd_label = ''Platform Fee'', sd_defaultBps = 100,
          sd_minBps = 0, sd_maxBps = 1000\<rparr>"
  by (simp add: SETTING_DEFINITIONS_def)

lemma clampSettingValue_fee: "\<exists>n. clampSettingValue PLATFORM_FEE_BPS_KEY v = Fin (of_int n) \<and> 0 \<le> n \<and> n \<le> 1000"
proof (cases v)
  case (Fin r)
  have "min 1000 (max 0 (of_int \<lfloor>r + 1 / 2\<rfloor>)) = (of_int (min 1000 (max 0 \<lfloor>r + 1 / 2\<rfloor>)) :: rat)"
    by (simp add: of_int_min of_int_max)
  then show ?thesis
    using Fin by (auto simp: clampSettingValue_def fee_definition intro!: exI [of _ "min 1000 (max 0 \<lfloor>r + 1 / 2\<rfloor>)"])
qed (auto simp: clampSettingValue_def fee_definition intro!: exI [of _ 100])

lemma resolveLoanFeeBps_range:
  "\<exists>n. rf_feeBps (resolveLoanFeeBps jp p m s) = Fin (of_int n) \<and> 0 \<le> n \<and> n \<le> 1000"
  using clampSettingValue_fee
  by (auto simp: resolveLoanFeeBps_def Let_def split: option.splits)

end
