(* ===== verification/ApplyRoute.thy ===== *)
theory ApplyRoute
  imports FundRoute RateConfig PlatformSettings
begin

text \<open>
  \<open>POST /api/loans/apply\<close>, \<open>src/app/api/loans/apply/route.ts\<close>. \<open>apply_check\<close> is everything
  before the first write: it reads the database and asks the chain. \<open>apply_insert\<close> inserts the
  loan, \<open>apply_trail\<close> its ledger entry, and takes the loan back when the ledger entry fails;
  \<open>apply_commit\<close> is one after the other with no other request in between.

  The amount is a JSON number or absent, as the handler's types say; the other fields are
  arbitrary JSON values.
\<close>

record apply_body =
  ab_amount :: "jsnum option"
  ab_durationDays :: jsval
  ab_duration_days :: jsval
  ab_rateModel :: jsval
  ab_rate_model :: jsval
  ab_onchainLoanId :: jsval
  ab_onchain_loan_id :: jsval
  ab_onchainTxHash :: jsval
  ab_onchain_tx_hash :: jsval
  ab_walletAddress :: jsval
  ab_wallet_address :: jsval
  ab_preflight :: jsval

datatype apply_error =
    ApplyRateLimited
  | ApplyDbUnavailable
  | ApplyKyc kyc_reason "kyc_status option"
  | ApplyBadWallet
  | ApplyBadHash
  | ApplyBadAmount
  | ApplyBadDuration
  | ApplyBadRateModel
  | ApplyHasLoan
  | ApplyOverLimit jsnum int
  | ApplyOnchain loan_request_reason
  | ApplyLedgerFailed string
  | ApplyInternal

record apply_quote =
  aq_quote :: apr_quote
  aq_rateModel :: rate_model
  aq_maxLoan :: jsnum
  aq_reputationScore :: int

datatype apply_ok =
    Preflight apply_quote
  | Created loan "string option" \<comment> \<open>the loan, and its pool: \<open>fundingPath\<close>\<close>

type_synonym apply_answer = "(apply_error + apply_ok) answer"

definition MIN_BORROW_AMOUNT :: jsnum where
  "MIN_BORROW_AMOUNT = Fin 1"

record apply_request =
  ar_amount :: jsnum
  ar_durationDays :: jsnum
  ar_rateModel :: rate_model
  ar_onchainLoanId :: jsval
  ar_onchainTxHash :: jsval
  ar_walletAddress :: jsval
  ar_preflight :: bool

definition apply_rate_model :: "apply_body \<Rightarrow> jsval" where
  "apply_rate_model b = JStr (js_lower (js_to_string
     (js_nullish (js_nullish (ab_rateModel b) (ab_rate_model b)) (JStr ''fixed''))))"

definition apply_parse :: "apply_body \<Rightarrow> (int \<times> apply_error) + apply_request" where
  "apply_parse b =
     (let durationDays = js_nullish (ab_durationDays b) (ab_duration_days b);
          onchainTxHash = js_nullish (ab_onchainTxHash b) (ab_onchain_tx_hash b);
          walletAddress = js_nullish (ab_walletAddress b) (ab_wallet_address b);
          amount = (case ab_amount b of Some a \<Rightarrow> a | None \<Rightarrow> NaN)
      in if walletAddress \<noteq> JUndef \<and> \<not> isValidStellarAddress walletAddress then Inl (400, ApplyBadWallet)
         else if onchainTxHash \<noteq> JUndef \<and> \<not> isBoundedString onchainTxHash 128 then Inl (400, ApplyBadHash)
         else if \<not> num_truthy amount \<or> jlt amount MIN_BORROW_AMOUNT then Inl (400, ApplyBadAmount)
         else if \<not> js_truthy durationDays \<or> js_to_number durationDays \<notin> {Fin 30, Fin 60, Fin 90}
         then Inl (400, ApplyBadDuration)
         else case parse_rate_model (apply_rate_model b) of
           None \<Rightarrow> Inl (400, ApplyBadRateModel)
         | Some model \<Rightarrow>
             Inr \<lparr>ar_amount = amount, ar_durationDays = js_to_number durationDays, ar_rateModel = model,
                  ar_onchainLoanId = js_nullish (ab_onchainLoanId b) (ab_onchain_loan_id b),
                  ar_onchainTxHash = onchainTxHash, ar_walletAddress = walletAddress,
                  ar_preflight = (ab_preflight b = JBool True)\<rparr>)"

subsection \<open>Reads\<close>

definition loan_closed :: "loan \<Rightarrow> bool" where
  "loan_closed l = (loan_status l \<in> {LoanRepaid, LoanDefaulted, LoanCancelled})"

definition has_open_loan :: "string \<Rightarrow> database \<Rightarrow> bool" where
  "has_open_loan userId db = (\<exists>l \<in> set (db_loans db). loan_borrowerId l = userId \<and> \<not> loan_closed l)"

definition reputation_score_of :: "string \<Rightarrow> database \<Rightarrow> int" where
  "reputation_score_of userId db =
     (case find (\<lambda>s. rs_userId s = userId) (db_reputationSnapshots db) of
        Some s \<Rightarrow> rs_scoreTotal s | None \<Rightarrow> 250)"

definition credit_limit :: "int \<Rightarrow> jsnum" where
  "credit_limit score = jmul (to_num (of_int score)) (Fin 10)"

text \<open>Pools by available liquidity, largest first, at most ten; ties in table order.\<close>

definition available_pools :: "jsnum \<Rightarrow> database \<Rightarrow> lending_pool list" where
  "available_pools amount db =
     (case dec_of_num amount of
        None \<Rightarrow> []
      | Some a \<Rightarrow> take 10 (sort_key (\<lambda>p. - pool_availableLiquidity p)
          (filter (\<lambda>p. pool_status p = PoolActive \<and> a \<le> of_micro (pool_availableLiquidity p))
             (db_lendingPools db))))"

definition under_borrow_cap :: "jsnum \<Rightarrow> lending_pool \<Rightarrow> bool" where
  "under_borrow_cap amount p =
     (case pool_borrowCap p of
        None \<Rightarrow> True
      | Some cap \<Rightarrow> jle (jadd (num_of_micro (pool_totalBorrowed p)) amount) (to_num (of_int cap / 10 ^ 7)))"

definition eligible_pool :: "jsnum \<Rightarrow> database \<Rightarrow> string option" where
  "eligible_pool amount db = map_option pool_id (find (under_borrow_cap amount) (available_pools amount db))"

record apply_plan =
  ap_request :: apply_request
  ap_quote :: apr_quote
  ap_onchainMeta :: "(string \<times> jsval) list"
  ap_poolId :: "string option"

text \<open>The rate schedule, the score and the limit of a request; \<open>Inl\<close> is a refusal.\<close>

definition apply_price :: "session_user \<Rightarrow> apply_request \<Rightarrow> database \<Rightarrow> (int \<times> apply_error) + apply_quote" where
  "apply_price user r db =
     (let reputationScore = reputation_score_of (user_id user) db;
          maxLoan = credit_limit reputationScore
      in if has_open_loan (user_id user) db then Inl (400, ApplyHasLoan)
         else if jlt maxLoan (ar_amount r) then Inl (400, ApplyOverLimit maxLoan reputationScore)
         else (let (rateConfig, usedFallback) = getActiveRateConfig (Some db) (ar_rateModel r)
               in Inr \<lparr>aq_quote = priceLoanApr rateConfig (ar_amount r) (to_num (of_int reputationScore)) usedFallback,
                       aq_rateModel = ar_rateModel r, aq_maxLoan = maxLoan,
                       aq_reputationScore = reputationScore\<rparr>))"

definition apply_check :: "env \<Rightarrow> session_user \<Rightarrow> apply_request \<Rightarrow> apply_quote \<Rightarrow> database
    \<Rightarrow> (int \<times> apply_error) + apply_plan" where
  "apply_check e user r q db =
     (case verifyOnchainLoanRequest e
             \<lparr>rq_onchainLoanId = ar_onchainLoanId r, rq_onchainTxHash = ar_onchainTxHash r,
              rq_walletAddress = opt_string (js_string (ar_walletAddress r)),
              rq_borrowerWallets = [user_walletAddress user, opt_string (profile_wallet (user_id user) db)],
              rq_amountXlm = ar_amount r, rq_durationDays = ar_durationDays r,
              rq_interestRateBps = q_aprBps (aq_quote q)\<rparr> db of
        Inl (status, reason) \<Rightarrow> Inl (status, ApplyOnchain reason)
      | Inr metadata \<Rightarrow>
          Inr \<lparr>ap_request = r, ap_quote = aq_quote q, ap_onchainMeta = metadata,
               ap_poolId = eligible_pool (ar_amount r) db\<rparr>)"

subsection \<open>Writes\<close>

definition opt_num :: "jsnum option \<Rightarrow> jsval" where
  "opt_num x = (case x of Some n \<Rightarrow> JNum n | None \<Rightarrow> JNull)"

definition loan_request_metadata :: "apply_plan \<Rightarrow> jsval" where
  "loan_request_metadata p =
     (let q = ap_quote p in
      JObj ([(''rate_model'', JStr (rate_model_name (ar_rateModel (ap_request p)))),
             (''rate_config_version'', JNum (q_configVersion q)),
             (''rate_quote'', JObj
               [(''tier_apr_bps'', JNum (q_tierAprBps q)),
                (''reputation_multiplier_bps'', JNum (q_reputationMultiplierBps q)),
                (''matched_amount_tier'', opt_num (q_matchedAmountTier q)),
                (''clamped'', JBool (q_clamped q)),
                (''used_fallback'', JBool (q_usedFallback q))])]
            @ ap_onchainMeta p))"

text \<open>
  The new row. \<open>None\<close> is an error of the insert: an amount or a rate its column cannot
  hold, or an identifier the primary key already has.
\<close>

definition new_loan :: "env \<Rightarrow> session_user \<Rightarrow> apply_plan \<Rightarrow> database \<Rightarrow> loan option" where
  "new_loan e user p db =
     (case (micro_of_num (ar_amount (ap_request p)), to_int4 (q_aprBps (ap_quote p)),
            to_int4 (ar_durationDays (ap_request p))) of
        (Some amount, Some aprBps, Some durationDays) \<Rightarrow>
          (let i = env_genUuid e (db_uuids db) in
           if i \<in> set (map loan_id (db_loans db)) then None
           else Some \<lparr>loan_id = i, loan_borrowerId = user_id user, loan_poolId = ap_poolId p,
             loan_status = LoanRequested, loan_principalAmount = amount, loan_aprBps = aprBps,
             loan_durationDays = durationDays,
             loan_rateModel = rate_model_name (ar_rateModel (ap_request p)),
             loan_fundedAmount = 0, loan_repaidAmount = 0, loan_approvedAt = None,
             loan_fundedAt = None, loan_dueAt = None, loan_defaultedAt = None, loan_createdAt = env_now e,
             loan_metadata = loan_request_metadata p\<rparr>)
      | _ \<Rightarrow> None)"

definition apply_ledger_row :: "session_user \<Rightarrow> apply_plan \<Rightarrow> loan \<Rightarrow> string \<Rightarrow> ledger_transaction" where
  "apply_ledger_row user p l uuid =
     \<lparr> lt_id = uuid, lt_userId = user_id user, lt_category = ''loan_request'',
       lt_amount = loan_principalAmount l, lt_currency = ''XLM'', lt_status = TxConfirmed,
       lt_refType = Some ''loan_request'', lt_refId = Some (loan_id l),
       lt_metadata = JObj
         [(''stage'', JStr ''requested''), (''loanId'', JStr (loan_id l)),
          (''durationDays'', JNum (ar_durationDays (ap_request p))),
          (''aprBps'', JNum (q_aprBps (ap_quote p))),
          (''rateModel'', JStr (rate_model_name (ar_rateModel (ap_request p)))),
          (''rateConfigVersion'', JNum (q_configVersion (ap_quote p))),
          (''fundingPath'', JStr (if ap_poolId p \<noteq> None then ''pool'' else ''direct'')),
          (''onchainLoanId'', js_nullish (js_get (JObj (ap_onchainMeta p)) ''onchain_loan_id'') JNull),
          (''onchainTxHash'', js_nullish (js_get (JObj (ap_onchainMeta p)) ''onchain_request_tx'') JNull)] \<rparr>"

definition insert_loan :: "loan \<Rightarrow> database \<Rightarrow> database" where
  "insert_loan l db = db\<lparr>db_loans := db_loans db @ [l], db_uuids := Suc (db_uuids db)\<rparr>"

text \<open>
  Deleting a loan takes its repayments and its contributions with it and clears it from the
  referrals it qualified: the foreign keys say so.
\<close>

definition deleted_loans :: "string \<Rightarrow> string \<Rightarrow> database \<Rightarrow> string list" where
  "deleted_loans loanId userId db = map loan_id (filter (\<lambda>l. loan_id l = loanId \<and> loan_borrowerId l = userId) (db_loans db))"

definition delete_loan :: "string \<Rightarrow> string \<Rightarrow> database \<Rightarrow> database" where
  "delete_loan loanId userId db =
     (let gone = set (deleted_loans loanId userId db)
      in db\<lparr>db_loans := delete_where (\<lambda>l. loan_id l = loanId \<and> loan_borrowerId l = userId) (db_loans db),
            db_loanRepayments := delete_where (\<lambda>r. rep_loanId r \<in> gone) (db_loanRepayments db),
            db_loanFundings := delete_where (\<lambda>r. lf_loanId r \<in> gone) (db_loanFundings db),
            db_referrals := update_where (\<lambda>r. ref_qualifyingLoanId r \<in> Some ` gone)
              (\<lambda>r. r\<lparr>ref_qualifyingLoanId := None\<rparr>) (db_referrals db)\<rparr>)"

text \<open>
  The insert of the loan, and what follows it. \<open>ledger_error\<close> is the error the insert of the ledger
  entry throws, if it does; the handler then deletes the loan, and other requests may have used it
  by then.
\<close>

definition apply_insert :: "env \<Rightarrow> session_user \<Rightarrow> apply_plan \<Rightarrow> world \<Rightarrow> (loan \<times> world) option" where
  "apply_insert e user p w = map_option (\<lambda>l. (l, set_db (insert_loan l) w)) (new_loan e user p (w_db w))"

definition apply_trail :: "env \<Rightarrow> string option \<Rightarrow> session_user \<Rightarrow> apply_plan \<Rightarrow> loan \<Rightarrow> world
    \<Rightarrow> apply_answer \<times> world" where
  "apply_trail e ledger_error user p l w =
     (case ledger_error of
        Some message \<Rightarrow>
          (Answer 500 (Inl (ApplyLedgerFailed message)), set_db (delete_loan (loan_id l) (user_id user)) w)
      | None \<Rightarrow>
          (let row = apply_ledger_row user p l (env_genUuid e (db_uuids (w_db w)));
               w1 = set_db (insert_ledger row) w;
               w2 = set_db (createNotification (user_id user) ''Loan Request Submitted'' ''loan_requested'') w1
           in (Answer 201 (Inr (Created l (ap_poolId p))), w2)))"

definition apply_commit :: "env \<Rightarrow> string option \<Rightarrow> session_user \<Rightarrow> apply_plan \<Rightarrow> world
    \<Rightarrow> apply_answer \<times> world" where
  "apply_commit e ledger_error user p w =
     (case apply_insert e user p w of
        None \<Rightarrow> (Answer 500 (Inl ApplyInternal), w)
      | Some (l, w1) \<Rightarrow> apply_trail e ledger_error user p l w1)"

definition POST_apply :: "env \<Rightarrow> string option \<Rightarrow> apply_body \<Rightarrow> world \<Rightarrow> apply_answer \<times> world" where
  "POST_apply e ledger_error b w =
     (if env_rateLimited e then (Answer 429 (Inl ApplyRateLimited), w)
      else case requireAuthenticatedUser e RoleBorrower of
        Inl url \<Rightarrow> (Redirect url, w)
      | Inr user \<Rightarrow>
          if \<not> env_dbAvailable e then (Answer 503 (Inl ApplyDbUnavailable), w)
          else case requireKycVerified (user_id user) (w_db w) False of
            KycDenied reason st \<Rightarrow> (Answer 403 (Inl (ApplyKyc reason st)), w)
          | KycAllowed _ \<Rightarrow>
              (case bindE (apply_parse b) (\<lambda>r. bindE (apply_price user r (w_db w)) (\<lambda>q. Inr (r, q))) of
                 Inl (status, err) \<Rightarrow> (Answer status (Inl err), w)
               | Inr (r, q) \<Rightarrow>
                   if ar_preflight r then (Answer 200 (Inr (Preflight q)), w)
                   else (case apply_check e user r q (w_db w) of
                      Inl (status, err) \<Rightarrow> (Answer status (Inl err), w)
                    | Inr p \<Rightarrow> apply_commit e ledger_error user p w)))"

end
