(* ===== verification/KycSafety.thy ===== *)
theory KycSafety
  imports KycWebhook ReputationSafety ApplyRoute
begin

text \<open>
  What a callback of the KYC provider does: nothing without its signature; with it, the callback
  alone decides the status of its user, and a verification sets the score to 100, whatever it was.
\<close>

lemma POST_kyc_webhook_changes:
  assumes "snd (POST_kyc_webhook e ke body digest db) \<noteq> db"
  shows "verifyWebhookSignature ke body digest" "env_dbAvailable e"
  using assms by (auto simp: POST_kyc_webhook_def split: if_splits option.splits)

text \<open>A callback changes the database only when its digest decodes to the bytes of the HMAC of its
  body under the configured secret, or, in development, when no secret is configured.\<close>

theorem kyc_webhook_authentic:
  assumes "snd (POST_kyc_webhook e ke body digest db) \<noteq> db"
  shows "if opt_string (ke_webhookSecret ke) = [] then ke_development ke
     else hex_bytes digest = hex_bytes (ke_hmac ke (opt_string (ke_webhookSecret ke)) body)"
  using POST_kyc_webhook_changes(1) [OF assms] by (simp add: verifyWebhookSignature_def Let_def)


lemma kyc_update_simps [simp]:
  "profile_id (kyc_update ke now payload reason p) = profile_id p"
  "profile_kycStatus (kyc_update ke now payload reason p) = mapProviderStatus payload"
  "profile_regulatedPoolAccess (kyc_update ke now payload reason p) = (mapProviderStatus payload = KycVerified)"
  "profile_riskStatus (kyc_update ke now payload reason p) = profile_riskStatus p"
  by (simp_all add: kyc_update_def Let_def)

lemma seed_score_user [simp]: "rs_userId (seed_score n s) = rs_userId s" "rs_scoreTotal (seed_score n s) = n"
  by (simp_all add: seed_score_def)

definition find_profile :: "string \<Rightarrow> database \<Rightarrow> profile option" where
  "find_profile u db = find (\<lambda>p. profile_id p = u) (db_profiles db)"

lemma find_profile_iff: "u \<in> profile_id ` set (db_profiles db) \<longleftrightarrow> find_profile u db \<noteq> None"
  by (auto simp: find_profile_def find_None_iff)

text \<open>No other profile carries the provider's id of the payload.\<close>

definition applicant_free :: "kyc_env \<Rightarrow> jsval \<Rightarrow> string \<Rightarrow> database \<Rightarrow> bool" where
  "applicant_free ke payload u db \<longleftrightarrow>
     distinct (filter (\<lambda>i. i \<noteq> None) (map profile_kycProviderId (db_profiles db)))
     \<and> list_all (\<lambda>p. profile_id p \<noteq> u \<longrightarrow> profile_kycProviderId p \<noteq> Some (text_of ke (js_get payload ''applicantId'')))
         (db_profiles db)"

interpretation profiles_tbl: keyed_table profile_id .
interpretation kyc_update_upd: keyed_update profile_id "kyc_update ke now payload reason" for ke now payload reason
  by unfold_locales simp

lemma distinct_filter_update:
  fixes g :: "profile \<Rightarrow> string option"
  assumes "distinct (map profile_id rows)" "distinct (filter (\<lambda>i. i \<noteq> None) (map g rows))"
    and "\<forall>p \<in> set rows. profile_id p \<noteq> u \<longrightarrow> g p \<noteq> x" "\<And>p. g (f p) = x"
  shows "distinct (filter (\<lambda>i. i \<noteq> None) (map g (update_where (\<lambda>p. profile_id p = u) f rows)))"
  using assms(1-3)
proof (induction rows)
  case Nil
  then show ?case by simp
next
  case (Cons a rows)
  show ?case
  proof (cases "profile_id a = u")
    case True
    then have "update_where (\<lambda>p. profile_id p = u) f rows = rows"
      using Cons.prems(1) by (intro profiles_tbl.update_absent) auto
    moreover have "\<forall>p \<in> set rows. profile_id p \<noteq> u"
      using Cons.prems(1) True by (auto simp: image_iff)
    then have "x \<notin> g ` set rows"
      using Cons.prems(3) by auto
    moreover have "distinct (filter (\<lambda>i. i \<noteq> None) (map g rows))"
      using Cons.prems(2) by (cases "g a = None") auto
    ultimately show ?thesis
      using True assms(4) by auto
  next
    case False
    have "g ` set (update_where (\<lambda>p. profile_id p = u) f rows) \<subseteq> insert x (g ` set rows)"
      using assms(4) by (auto simp: in_update_where)
    moreover have "g a \<noteq> x"
      using Cons.prems(3) False by simp
    ultimately have "g a \<noteq> None \<Longrightarrow> g a \<notin> g ` set (update_where (\<lambda>p. profile_id p = u) f rows)"
      using Cons.prems(2) by auto
    with False Cons show ?thesis
      by auto
  qed
qed

text \<open>An accepted callback for a user of the platform.\<close>

definition kyc_accepted :: "env \<Rightarrow> kyc_env \<Rightarrow> string \<Rightarrow> string \<Rightarrow> jsval \<Rightarrow> string \<Rightarrow> database \<Rightarrow> bool" where
  "kyc_accepted e ke body digest payload u db \<longleftrightarrow>
     verifyWebhookSignature ke body digest \<and> env_jsonParse e body = Some payload \<and> env_dbAvailable e
     \<and> js_truthy (js_get payload ''applicantId'') \<and> js_truthy (js_get payload ''externalUserId'')
     \<and> uuid_of e (js_get payload ''externalUserId'') = Some u \<and> extractRejectionReason payload \<noteq> None
     \<and> distinct (map profile_id (db_profiles db)) \<and> find_profile u db \<noteq> None \<and> applicant_free ke payload u db"

lemma kyc_callback:
  assumes acc: "kyc_accepted e ke body digest payload u db"
  obtains reason snaps where
    "POST_kyc_webhook e ke body digest db = (Answer 200 (Inr (KycUpdated (mapProviderStatus payload))),
       db\<lparr>db_profiles := update_where (\<lambda>p. profile_id p = u) (kyc_update ke (env_now e) payload reason) (db_profiles db),
          db_reputationSnapshots := snaps\<rparr>)"
    "if mapProviderStatus payload = KycVerified
     then (case find (\<lambda>s. rs_userId s = u) snaps of None \<Rightarrow> False | Some s \<Rightarrow> rs_scoreTotal s = 100)
     else snaps = db_reputationSnapshots db"
proof -
  note result = that
  from acc obtain reason where reason: "extractRejectionReason payload = Some reason"
    by (auto simp: kyc_accepted_def)
  have payload: "payload \<noteq> JNull"
    using acc by (auto simp: kyc_accepted_def)
  let ?rows = "update_where (\<lambda>p. profile_id p = u) (kyc_update ke (env_now e) payload reason) (db_profiles db)"
  let ?db = "db\<lparr>db_profiles := ?rows\<rparr>"
  have "distinct (filter (\<lambda>i. i \<noteq> None) (map profile_kycProviderId ?rows))"
    using acc by (intro distinct_filter_update [where x = "Some (text_of ke (js_get payload ''applicantId''))"])
      (auto simp: kyc_accepted_def applicant_free_def list_all_iff kyc_update_def Let_def)
  then have wrote: "kyc_write e ke payload reason db = ?db"
    using acc by (simp add: kyc_write_def update_profiles_def kyc_accepted_def find_profile_iff Let_def)
  have post: "POST_kyc_webhook e ke body digest db =
      (Answer 200 (Inr (KycUpdated (mapProviderStatus payload))), kyc_seed e payload ?db)"
    using acc reason payload wrote by (simp add: POST_kyc_webhook_def kyc_accepted_def)
  show ?thesis
  proof (cases "mapProviderStatus payload = KycVerified")
    case False
    then have "kyc_seed e payload ?db = ?db\<lparr>db_reputationSnapshots := db_reputationSnapshots db\<rparr>"
      by (simp add: kyc_seed_def)
    with False post show ?thesis
      by (intro result [where snaps = "db_reputationSnapshots db" and reason = reason]) simp_all
  next
    case True
    have "set (map profile_id (db_profiles ?db)) = set (map profile_id (db_profiles db))"
      by simp
    then have "u \<in> profile_id ` set (db_profiles ?db)"
      using acc unfolding set_map by (simp only:) (simp add: find_profile_iff kyc_accepted_def)
    then obtain snaps s where "upsert_snapshot u (seed_score 100) ?db = Some (?db\<lparr>db_reputationSnapshots := snaps\<rparr>)"
      "\<forall>v. find (\<lambda>s. rs_userId s = v) snaps = (if v = u then Some (seed_score 100 s) else snapshot_of v ?db)"
      by (rule upsert_snapshot_of [of u ?db "seed_score 100"]) simp_all
    with True acc post show ?thesis
      by (intro result [where snaps = snaps and reason = reason]) (simp_all add: kyc_seed_def kyc_accepted_def)
  qed
qed

text \<open>C16: An accepted callback alone decides: its user is verified, and has access to regulated pools,
  exactly when the callback says so, whatever an earlier one said; no other profile changes.\<close>

theorem kyc_callback_decides:
  assumes "kyc_accepted e ke body digest payload u db"
  shows "case POST_kyc_webhook e ke body digest db of (a, db') \<Rightarrow>
    a = Answer 200 (Inr (KycUpdated (mapProviderStatus payload)))
    \<and> isKycVerified u db' = (mapProviderStatus payload = KycVerified)
    \<and> map_option profile_regulatedPoolAccess (find_profile u db') = Some (mapProviderStatus payload = KycVerified)
    \<and> (\<forall>v. v \<noteq> u \<longrightarrow> find_profile v db' = find_profile v db)"
proof -
  obtain p where "find_profile u db = Some p"
    using assms by (auto simp: kyc_accepted_def)
  then show ?thesis
    by (rule_tac kyc_callback [OF assms])
      (simp add: isKycVerified_def find_profile_def kyc_update_upd.find_update)
qed

text \<open>An accepted callback that verifies its user, a repeated one included, sets the score of the
  user to 100, whatever had been earned: the tier is None and the credit limit 1000, while a borrower
  without a snapshot has a limit of 2500.\<close>

theorem kyc_verification_resets:
  assumes "kyc_accepted e ke body digest payload u db" "mapProviderStatus payload = KycVerified"
  shows "reputation_score_of u (snd (POST_kyc_webhook e ke body digest db)) = 100
    \<and> credit_limit (reputation_score_of u (snd (POST_kyc_webhook e ke body digest db))) = Fin 1000
    \<and> offchainScoreToTier (Fin 100) = TierNone
    \<and> (snapshot_of u db = None \<longrightarrow> credit_limit (reputation_score_of u db) = Fin 2500)"
proof -
  have limits: "credit_limit 100 = Fin 1000" "credit_limit 250 = Fin 2500"
    using to_num_int [of 100] to_num_int [of 1000] to_num_int [of 250] to_num_int [of 2500]
    by (simp_all add: credit_limit_def)
  have "reputation_score_of u (snd (POST_kyc_webhook e ke body digest db)) = 100"
    using assms(2) by (rule_tac kyc_callback [OF assms(1)]) (auto simp: reputation_score_of_def split: option.splits)
  with limits show ?thesis
    by (simp add: offchainScoreToTier_def reputation_score_of_def snapshot_of_def)
qed

subsection \<open>Examples\<close>

definition demo_kyc :: kyc_env where
  "demo_kyc = \<lparr>ke_webhookSecret = Some ''secret'', ke_development = False, ke_hmac = (\<lambda>_ _. ''c0ffee''),
     ke_pgText = js_to_string\<rparr>"

definition demo_green :: jsval where
  "demo_green = JObj [(''applicantId'', JStr ''a1''), (''externalUserId'', JStr ''b''), (''type'', JStr ''applicantReviewed''),
     (''reviewResult'', JObj [(''reviewAnswer'', JStr ''GREEN'')])]"

definition demo_hook :: env where
  "demo_hook = demo_env demo_borrower (demo_horizon [] [] [] [])\<lparr>env_jsonParse := \<lambda>_. Some demo_green\<rparr>"

lemma demo_hook_accepted: "kyc_accepted demo_hook demo_kyc [] ''C0FFEE'' demo_green ''b'' demo_db"
  by code_simp

lemma demo_green_verified: "mapProviderStatus demo_green = KycVerified"
  by code_simp

lemma kyc_callback_decides_witness:
  "case POST_kyc_webhook demo_hook demo_kyc [] ''C0FFEE'' demo_db of (a, db') \<Rightarrow>
     a = Answer 200 (Inr (KycUpdated KycVerified)) \<and> isKycVerified ''b'' db'"
  using kyc_callback_decides [OF demo_hook_accepted] by (simp add: demo_green_verified split: prod.splits)

lemma kyc_verification_resets_witness:
  "reputation_score_of ''b'' (snd (POST_kyc_webhook demo_hook demo_kyc [] ''C0FFEE'' demo_db)) = 100"
  using kyc_verification_resets [OF demo_hook_accepted demo_green_verified] by simp

lemma kyc_webhook_authentic_witness:
  "snd (POST_kyc_webhook demo_hook demo_kyc [] ''C0FFEE'' demo_db) \<noteq> demo_db
   \<and> hex_bytes ''C0FFEE'' = hex_bytes (ke_hmac demo_kyc (opt_string (ke_webhookSecret demo_kyc)) [])"
proof -
  have "db_reputationSnapshots (snd (POST_kyc_webhook demo_hook demo_kyc [] ''C0FFEE'' demo_db)) \<noteq> db_reputationSnapshots demo_db"
    by code_simp
  then have changed: "snd (POST_kyc_webhook demo_hook demo_kyc [] ''C0FFEE'' demo_db) \<noteq> demo_db"
    by auto
  have "opt_string (ke_webhookSecret demo_kyc) \<noteq> []"
    by code_simp
  then show ?thesis
    using kyc_webhook_authentic [OF changed] changed by simp
qed

end
