(* ===== verification/Lenders.thy ===== *)
theory Lenders
  imports Funding Server
begin

text \<open>
  Who funded a loan: \<open>src/lib/loans/lenders.ts\<close>. Contributions come from the fundings of
  the loan, or from the ledger for loans older than that table, and repeat contributions
  from one wallet are merged.
\<close>

text \<open>
  The \<open>Map\<close> of the source keeps the position of a key's first insertion; adding to the
  contribution of a known address changes that entry in place.
\<close>

fun add_contribution :: "lender_contribution list \<Rightarrow> lender_contribution \<Rightarrow> lender_contribution list" where
  "add_contribution [] entry = [entry]"
| "add_contribution (m # ms) entry =
     (if address m = address entry
      then m\<lparr>contribution := jadd (contribution m) (contribution entry)\<rparr> # ms
      else m # add_contribution ms entry)"

definition merge_step :: "lender_contribution list \<Rightarrow> lender_contribution \<Rightarrow> lender_contribution list" where
  "merge_step merged entry =
     (if address entry = [] \<or> jle (contribution entry) (Fin 0) then merged
      else add_contribution merged entry)"

text \<open>\<open>sort((a, b) => b.contribution - a.contribution)\<close>: stable, largest first.\<close>

fun insert_desc :: "lender_contribution \<Rightarrow> lender_contribution list \<Rightarrow> lender_contribution list" where
  "insert_desc x [] = [x]"
| "insert_desc x (y # ys) =
     (if jle (contribution y) (contribution x) then x # y # ys else y # insert_desc x ys)"

definition sort_desc :: "lender_contribution list \<Rightarrow> lender_contribution list" where
  "sort_desc xs = foldr insert_desc xs []"

definition mergeByLender :: "lender_contribution list \<Rightarrow> lender_contribution list" where
  "mergeByLender entries = sort_desc (foldl merge_step [] entries)"

definition funding_entry :: "loan_funding \<Rightarrow> lender_contribution" where
  "funding_entry row =
     \<lparr>lenderId = lf_lenderId row, address = opt_string (lf_lenderAddress row),
      contribution = num_of_micro (lf_amount row)\<rparr>"

text \<open>
  A ledger row's address: the \<open>lenderAddress\<close> of its metadata, which may be a JSON text;
  a text that does not parse, or metadata without the field, gives no address.
\<close>

definition ledger_entry :: "(string \<Rightarrow> jsval option) \<Rightarrow> ledger_transaction \<Rightarrow> lender_contribution" where
  "ledger_entry json_parse row =
     (let meta = (case lt_metadata row of JStr s \<Rightarrow> json_parse s | v \<Rightarrow> Some v)
      in \<lparr>lenderId = lt_userId row,
          address = (case meta of None \<Rightarrow> []
             | Some m \<Rightarrow> js_to_string (js_nullish (js_get m ''lenderAddress'') (JStr []))),
          contribution = num_of_micro (lt_amount row)\<rparr>)"

text \<open>
  \<open>ORDER BY amount DESC\<close>: rows of equal amount come in an order the database chooses;
  here in table order.
\<close>

definition loan_fundings_of :: "string \<Rightarrow> database \<Rightarrow> loan_funding list" where
  "loan_fundings_of loanId db =
     sort_key (\<lambda>r. - lf_amount r) (filter (\<lambda>r. lf_loanId r = loanId) (db_loanFundings db))"

definition getLoanLenders :: "(string \<Rightarrow> jsval option) \<Rightarrow> database \<Rightarrow> string \<Rightarrow> lender_contribution list" where
  "getLoanLenders json_parse db loanId =
     (let fundings = loan_fundings_of loanId db in
      if fundings \<noteq> [] then mergeByLender (map funding_entry fundings)
      else mergeByLender (map (ledger_entry json_parse)
             (filter (\<lambda>t. lt_refType t = Some ''loan_fund'' \<and> lt_refId t = Some loanId)
                (db_ledgerTransactions db))))"

end
