(* ===== verification/RepayRoute.thy ===== *)
theory RepayRoute
  imports Lenders FundRoute PlatformSettings
begin

text \<open>
  \<open>POST /api/loans/repay\<close>, \<open>src/app/api/loans/repay/route.ts\<close>: \<open>repay_check\<close> reads and
  verifies, \<open>repay_record\<close> writes the repayment, the loan, the mirror, the ledger entry,
  the reputation event and the notifications.
\<close>

record repay_body =
  rb_loanId :: jsval
  rb_amount :: jsval
  rb_txHash :: jsval
  rb_borrowerAddress :: jsval

datatype repay_error =
    RepayRateLimited
  | RepayInvalid
  | RepayHashRequired
  | RepayDbUnavailable
  | RepayLoanNotFound
  | RepayAlreadyRepaid
  | RepayInDefault
  | RepayReplayed
  | RepayWalletMismatch
  | RepayNoLenderWallet
  | RepayUnverified verify_reason
  | RepayMovedLess jsnum jsnum
  | RepayInternal

record repay_ok =
  ro_repaymentId :: string
  ro_loanStatus :: loan_status
  ro_txHash :: string
  ro_onchain :: onchain_outcome

type_synonym repay_answer = "(repay_error + repay_ok) answer"

definition repay_parse :: "repay_body \<Rightarrow> (int \<times> repay_error) + (jsval \<times> jsnum \<times> string)" where
  "repay_parse b =
     (case rb_amount b of
        JNum amount \<Rightarrow>
          if \<not> js_truthy (rb_loanId b) \<or> \<not> num_truthy amount \<or> jle amount (Fin 0) \<or> \<not> is_finite amount
          then Inl (400, RepayInvalid)
          else if \<not> js_truthy (rb_txHash b) then Inl (400, RepayHashRequired)
          else (case rb_txHash b of
             JStr txHash \<Rightarrow>
               if length (js_trim txHash) < 10 then Inl (400, RepayHashRequired)
               else Inr (rb_loanId b, amount, txHash)
           | _ \<Rightarrow> Inl (500, RepayInternal))
      | _ \<Rightarrow> Inl (400, RepayInvalid))"

record repay_plan =
  rp_loanId :: string
  rp_amount :: jsnum
  rp_txHash :: string
  rp_loan :: loan
  rp_lenders :: "lender_contribution list"
  rp_payouts :: "lender_payout list"
  rp_verified :: verified_payment

text \<open>A repayment is recorded already when a ledger entry carries its hash, in any case.\<close>

definition repay_recorded :: "string \<Rightarrow> database \<Rightarrow> bool" where
  "repay_recorded txHash db =
     (\<exists>t \<in> set (db_ledgerTransactions db).
        lt_refType t = Some ''loan_repay''
        \<and> map_option js_lower (meta_text (lt_metadata t) ''txHash'') = Some (js_lower txHash))"

definition allowed_destinations :: "env \<Rightarrow> lender_contribution list \<Rightarrow> string list" where
  "allowed_destinations e lenders =
     filter (\<lambda>a. a \<noteq> []) (map address lenders)
       @ (if truthy_opt (env_platformFeeWallet e) then [the (env_platformFeeWallet e)] else [])"

definition repay_verify :: "env \<Rightarrow> string \<Rightarrow> string \<Rightarrow> string list \<Rightarrow> string \<Rightarrow> jsnum
    \<Rightarrow> (int \<times> repay_error) + verified_payment" where
  "repay_verify e loanId borrowerAddress destinations txHash amount =
     (case verifyPaymentTransaction (env_horizon e) (Fin (of_int (env_now e)))
             \<lparr>vp_txHash = txHash, vp_expectedSource = borrowerAddress,
              vp_expectedPayments = map (\<lambda>d. \<lparr>destination = d, minAmount = Fin 0\<rparr>) destinations,
              vp_expectedMemo = Some (memo_repay loanId), vp_allowOtherDestinations = False,
              vp_maxAgeSeconds = None, vp_horizonUrl = env_horizonUrl e\<rparr> of
        Inl (status, r) \<Rightarrow> Inl (status, RepayUnverified r)
      | Inr v \<Rightarrow>
          if jlt (jadd (v_totalNative v) AMOUNT_TOLERANCE) amount
          then Inl (422, RepayMovedLess (fixed_num 7 (v_totalNative v)) amount)
          else Inr v)"

text \<open>
  \<open>.slice\<close> of the loan id needs a string: a loan id that is none was already refused by
  the database's \<open>uuid\<close> cast.
\<close>

definition repay_check :: "env \<Rightarrow> session_user \<Rightarrow> repay_body \<Rightarrow> (jsval \<times> jsnum \<times> string) \<Rightarrow> database
    \<Rightarrow> (int \<times> repay_error) + repay_plan" where
  "repay_check e user b = (\<lambda>(loanIdVal, amount, txHash) db.
     case Option.bind (js_string loanIdVal) (\<lambda>loanId. map_option (Pair loanId) (env_pgUuid e loanId)) of
       None \<Rightarrow> Inl (500, RepayInternal)
     | Some (loanId, canonicalId) \<Rightarrow>
       (case find (\<lambda>l. loan_id l = canonicalId \<and> loan_borrowerId l = user_id user) (db_loans db) of
          None \<Rightarrow> Inl (404, RepayLoanNotFound)
        | Some l \<Rightarrow>
            if loan_status l = LoanRepaid then Inl (400, RepayAlreadyRepaid)
            else if loan_status l = LoanDefaulted then Inl (400, RepayInDefault)
            else if repay_recorded txHash db then Inl (409, RepayReplayed)
            else (let lenders = getLoanLenders (env_jsonParse e) db canonicalId;
                      borrowerAddress = js_to_string (js_nullish (rb_borrowerAddress b) (JStr []));
                      destinations = allowed_destinations e lenders
                  in if borrowerAddress \<notin> set (linked_wallets user (profile_wallet (loan_borrowerId l) db))
                     then Inl (400, RepayWalletMismatch)
                     else if destinations = [] then Inl (409, RepayNoLenderWallet)
                     else bindE (repay_verify e loanId borrowerAddress destinations txHash amount) (\<lambda>v.
                       Inr \<lparr>rp_loanId = canonicalId, rp_amount = amount, rp_txHash = txHash, rp_loan = l,
                            rp_lenders = lenders,
                            rp_payouts = splitRepaymentAcrossLenders amount lenders,
                            rp_verified = v\<rparr>))))"

subsection \<open>What is owed\<close>

definition repay_interest :: "loan \<Rightarrow> jsnum" where
  "repay_interest l =
     jmul (jmul (num_of_micro (loan_principalAmount l)) (jdiv (to_num (of_int (loan_aprBps l))) (Fin 10000)))
          (jdiv (to_num (of_int (loan_durationDays l))) (Fin 365))"

definition repay_fee :: "env \<Rightarrow> loan \<Rightarrow> database \<Rightarrow> resolved_loan_fee" where
  "repay_fee e l db =
     resolveLoanFeeBps (env_jsonParse e) (num_of_micro (loan_principalAmount l)) (loan_metadata l)
       (Some (getPlatformFeeBps (Some db)))"

definition repay_total_due :: "env \<Rightarrow> loan \<Rightarrow> database \<Rightarrow> jsnum" where
  "repay_total_due e l db =
     jadd (jadd (num_of_micro (loan_principalAmount l)) (repay_interest l)) (rf_feeAmount (repay_fee e l db))"

definition repay_new_amount :: "repay_plan \<Rightarrow> jsnum" where
  "repay_new_amount p = jadd (num_or_zero (num_of_micro (loan_repaidAmount (rp_loan p)))) (rp_amount p)"

definition repay_new_status :: "env \<Rightarrow> repay_plan \<Rightarrow> database \<Rightarrow> loan_status" where
  "repay_new_status e p db =
     (if jle (jsub (repay_total_due e (rp_loan p) db) (to_num (1 / 10 ^ 4))) (repay_new_amount p)
      then LoanRepaid
      else LoanActive)"

subsection \<open>The writes\<close>

definition repay_ledger_row :: "session_user \<Rightarrow> repay_plan \<Rightarrow> int \<Rightarrow> string \<Rightarrow> resolved_loan_fee \<Rightarrow> string
    \<Rightarrow> ledger_transaction" where
  "repay_ledger_row user p amount repaymentId fee uuid =
     \<lparr> lt_id = uuid, lt_userId = user_id user, lt_category = ''loan_repay'', lt_amount = amount,
       lt_currency = ''XLM'', lt_status = TxConfirmed, lt_refType = Some ''loan_repay'',
       lt_refId = Some repaymentId,
       lt_metadata = JObj
         [(''txHash'', JStr (rp_txHash p)),
          (''borrowerAddress'', JStr (v_source (rp_verified p))),
          (''verifiedLedger'', JNum (Fin (of_int (v_ledger (rp_verified p))))),
          (''lenderAddress'', JStr (case rp_lenders p of [] \<Rightarrow> [] | l # _ \<Rightarrow> address l)),
          (''lenderUserId'', JStr (case rp_lenders p of [] \<Rightarrow> [] | l # _ \<Rightarrow> lenderId l)),
          (''lenderPayouts'', JArr (map (\<lambda>entry. JObj
             [(''lenderUserId'', JStr (lenderId entry)), (''address'', JStr (address entry)),
              (''share'', JNum (fixed_num 7 (share entry))), (''payout'', JNum (payout entry))])
             (rp_payouts p))),
          (''loanId'', JStr (rp_loanId p)),
          (''repaymentId'', JStr repaymentId),
          (''principalAmount'', JNum (num_of_micro (loan_principalAmount (rp_loan p)))),
          (''repaidSoFar'', JNum (repay_new_amount p)),
          (''platformFeeBps'', JNum (rf_feeBps fee)),
          (''platformFeeAmount'', JNum (rf_feeAmount fee)),
          (''platformFeeSource'', JStr (case rf_source fee of FeeFromLoan \<Rightarrow> ''loan''
             | FeeFromSetting \<Rightarrow> ''setting'' | FeeFromDefault \<Rightarrow> ''default'')),
          (''platformFeeVersion'', case rf_version fee of Some v \<Rightarrow> JNum v | None \<Rightarrow> JNull)] \<rparr>"

definition notify_lenders :: "lender_payout list \<Rightarrow> database \<Rightarrow> database" where
  "notify_lenders payouts db =
     foldl (\<lambda>d entry. if lenderId entry = [] then d
        else createNotification (lenderId entry) ''Loan Repayment Received'' ''loan_repaid'' d) db payouts"

text \<open>
  The repayment row, then the loan's balance and status. \<open>None\<close> is a numeric overflow or a loan
  that is gone, which the outer \<open>catch\<close> answers with 500.
\<close>

definition repay_write_loan :: "env \<Rightarrow> session_user \<Rightarrow> repay_plan \<Rightarrow> world \<Rightarrow> (string \<times> int \<times> world) option" where
  "repay_write_loan e user p w =
     (case (micro_of_num (rp_amount p), micro_of_num (repay_new_amount p)) of
        (Some amount, Some newRepaid) \<Rightarrow>
          if rp_loanId p \<notin> set (map loan_id (db_loans (w_db w))) then None
          else (let repaymentId = env_genUuid e (db_uuids (w_db w));
               status = repay_new_status e p (w_db w);
               row = \<lparr>rep_id = repaymentId, rep_loanId = rp_loanId p, rep_payerId = user_id user,
                      rep_amount = amount, rep_paidAt = env_now e, rep_txRef = Some (rp_txHash p)\<rparr>
           in Some (repaymentId, amount, set_db (\<lambda>db.
                db\<lparr>db_loanRepayments := db_loanRepayments db @ [row],
                   db_uuids := Suc (db_uuids db),
                   db_loans := update_where (\<lambda>l. loan_id l = rp_loanId p)
                     (\<lambda>l. l\<lparr>loan_repaidAmount := newRepaid, loan_status := status\<rparr>) (db_loans db)\<rparr>) w))
      | _ \<Rightarrow> None)"

text \<open>
  What follows the update of the loan: the mirror, the ledger entry, the reputation event and
  the notifications.
\<close>

definition repay_finish :: "env \<Rightarrow> session_user \<Rightarrow> repay_plan \<Rightarrow> loan_status \<Rightarrow> resolved_loan_fee
    \<Rightarrow> string \<Rightarrow> int \<Rightarrow> world \<Rightarrow> repay_answer \<times> world" where
  "repay_finish e user p newStatus fee repaymentId amount w1 =
     (let (onchain, w2) = recordRepaymentOnchain e (rp_loanId p) (loan_metadata (rp_loan p)) (rp_amount p) w1;
          row = repay_ledger_row user p amount repaymentId fee (env_genUuid e (db_uuids (w_db w2)));
          event = \<lparr>re_userId = user_id user, re_sourceType = ''loan_repayment'',
                   re_sourceId = Some (rp_loanId p), re_sourceKey = None,
                   re_pointsDelta = (if newStatus = LoanRepaid then 20 else 5)\<rparr>;
          w3 = set_db (insert_ledger row) w2
      in case insert_reputation_event event (w_db w3) of
           None \<Rightarrow> (Answer 500 (Inl RepayInternal), w3)
         | Some db \<Rightarrow>
             (let w4 = set_db (createNotification (user_id user) ''Repayment Successful'' ''loan_repaid'') (set_db (\<lambda>_. db) w3);
                  w5 = set_db (notify_lenders (rp_payouts p)) w4
              in (Answer 201 (Inr \<lparr>ro_repaymentId = repaymentId, ro_loanStatus = newStatus,
                    ro_txHash = rp_txHash p, ro_onchain = onchain\<rparr>), w5)))"

definition repay_record :: "env \<Rightarrow> session_user \<Rightarrow> repay_plan \<Rightarrow> world \<Rightarrow> repay_answer \<times> world" where
  "repay_record e user p w =
     (case repay_write_loan e user p w of
        None \<Rightarrow> (Answer 500 (Inl RepayInternal), w)
      | Some (repaymentId, amount, w1) \<Rightarrow>
          repay_finish e user p (repay_new_status e p (w_db w)) (repay_fee e (rp_loan p) (w_db w))
            repaymentId amount w1)"

definition POST_repay :: "env \<Rightarrow> repay_body \<Rightarrow> world \<Rightarrow> repay_answer \<times> world" where
  "POST_repay e b w =
     (if env_rateLimited e then (Answer 429 (Inl RepayRateLimited), w)
      else case requireAuthenticatedUser e RoleBorrower of
        Inl url \<Rightarrow> (Redirect url, w)
      | Inr user \<Rightarrow>
          (case repay_parse b of
             Inl (status, err) \<Rightarrow> (Answer status (Inl err), w)
           | Inr q \<Rightarrow>
               if \<not> env_dbAvailable e then (Answer 500 (Inl RepayDbUnavailable), w)
               else (case repay_check e user b q (w_db w) of
                  Inl (status, err) \<Rightarrow> (Answer status (Inl err), w)
                | Inr p \<Rightarrow> repay_record e user p w)))"

end
