(* ===== verification/LoanProcess.thy ===== *)
theory LoanProcess
  imports RepayRoute ApplyRoute "HOL-Library.Multiset"
begin

text \<open>
  The loan routes running side by side. A handler awaits between its statements, so requests
  interleave there. Every statement that reads or writes loans and contributions is a step, and so is
  every call of a database function; the statements that follow the last of them (the mirror's
  metadata, ledger entries, events, notifications) are one step, and so are the insert of a repayment
  and the update of its loan, which no other request can tell apart. A request in flight is a task:
  what it has read and not yet written. Every step runs in an environment of its own, as the clock,
  the session and the chain differ between requests.
\<close>

subsection \<open>Tasks and steps\<close>

datatype task =
    FundChecked session_user fund_body fund_plan
  | FundRecorded session_user fund_body fund_plan rlf_row
  | RepayChecked session_user repay_plan
  | RepayWritten session_user repay_plan loan_status resolved_loan_fee string int
  | ApplyChecked session_user apply_plan
  | ApplyInserted session_user apply_plan loan

type_synonym system = "world \<times> task multiset"

inductive loan_step :: "system \<Rightarrow> system \<Rightarrow> bool" where
  fund_reads: "requireAuthenticatedUser e RoleLender = Inr u \<Longrightarrow> fund_parse b = Inr q \<Longrightarrow>
    fund_check e u b q (w_db w) = Inr p \<Longrightarrow> loan_step (w, M) (w, add_mset (FundChecked u b p) M)"
| fund_commits: "fund_commit e u p (w_db w) = Inr (r, db') \<Longrightarrow>
    loan_step (w, add_mset (FundChecked u b p) M) (set_db (\<lambda>_. db') w, add_mset (FundRecorded u b p r) M)"
| fund_aborts: "fund_commit e u p (w_db w) = Inl err \<Longrightarrow>
    loan_step (w, add_mset (FundChecked u b p) M) (w, M)"
| fund_finishes: "fund_finish e u b p r w = (a, w') \<Longrightarrow>
    loan_step (w, add_mset (FundRecorded u b p r) M) (w', M)"
| repay_reads: "requireAuthenticatedUser e RoleBorrower = Inr u \<Longrightarrow> repay_parse b = Inr q \<Longrightarrow>
    repay_check e u b q (w_db w) = Inr p \<Longrightarrow> loan_step (w, M) (w, add_mset (RepayChecked u p) M)"
| repay_writes: "repay_write_loan e u p w = Some (i, n, w') \<Longrightarrow>
    loan_step (w, add_mset (RepayChecked u p) M)
      (w', add_mset (RepayWritten u p (repay_new_status e p (w_db w)) (repay_fee e (rp_loan p) (w_db w)) i n) M)"
| repay_aborts: "repay_write_loan e u p w = None \<Longrightarrow>
    loan_step (w, add_mset (RepayChecked u p) M) (w, M)"
| repay_finishes: "repay_finish e u p st fee i n w = (a, w') \<Longrightarrow>
    loan_step (w, add_mset (RepayWritten u p st fee i n) M) (w', M)"
| apply_reads: "requireAuthenticatedUser e RoleBorrower = Inr u \<Longrightarrow>
    requireKycVerified (user_id u) (w_db w) False = KycAllowed k \<Longrightarrow> apply_parse b = Inr r \<Longrightarrow>
    apply_price u r (w_db w) = Inr q \<Longrightarrow> \<not> ar_preflight r \<Longrightarrow> apply_check e u r q (w_db w) = Inr p \<Longrightarrow>
    loan_step (w, M) (w, add_mset (ApplyChecked u p) M)"
| apply_inserts: "apply_insert e u p w = Some (l, w') \<Longrightarrow>
    loan_step (w, add_mset (ApplyChecked u p) M) (w', add_mset (ApplyInserted u p l) M)"
| apply_aborts: "apply_insert e u p w = None \<Longrightarrow>
    loan_step (w, add_mset (ApplyChecked u p) M) (w, M)"
| apply_finishes: "apply_trail e err u p l w = (a, w') \<Longrightarrow>
    loan_step (w, add_mset (ApplyInserted u p l) M) (w', M)"

text \<open>
  Reachable from a database whose books are in order, an empty one for instance, and with no
  request in flight.
\<close>

inductive loan_reachable :: "system \<Rightarrow> bool" where
  start: "books (w_db w) \<Longrightarrow> loan_reachable (w, {#})"
| step: "loan_reachable s \<Longrightarrow> loan_step s s' \<Longrightarrow> loan_reachable s'"

subsection \<open>A loan that is created\<close>

lemma new_loan_fresh:
  assumes "new_loan e u p db = Some l"
  shows "loan_id l \<notin> loan_id ` set (db_loans db)" "loan_fundedAmount l = 0" "loan_status l = LoanRequested"
    "loan_borrowerId l = user_id u" "micro_of_num (ar_amount (ap_request p)) = Some (loan_principalAmount l)"
  using assms by (auto simp: new_loan_def Let_def split: option.splits if_splits)

subsection \<open>Properties of the loans and their contributions\<close>

text \<open>
  What runs after the loan row is written touches neither the loans, except for their
  metadata, nor the contributions. So it keeps every property that reads only those.
\<close>

locale loan_invariant = mirror_invariant +
  assumes same_tables: "db_loans a = db_loans b \<Longrightarrow> db_loanFundings a = db_loanFundings b \<Longrightarrow> I a = I b"
begin

lemma insert_ledger [simp]: "I (insert_ledger row db) = I db"
  by (rule same_tables) (simp_all add: insert_ledger_def)

lemma createNotification [simp]: "I (createNotification u t k db) = I db"
  by (rule same_tables) (simp_all add: createNotification_def)

lemma qualifyReferralForLoan [simp]: "I (snd (qualifyReferralForLoan u i db)) = I db"
  by (rule same_tables)
    (auto simp: qualifyReferralForLoan_def qualify_referral_def Let_def split: option.splits)

lemma qualify_pair: "qualifyReferralForLoan u i db = (r, db') \<Longrightarrow> I db' = I db"
  using qualifyReferralForLoan [of u i db] by simp

lemma fund_notify [simp]: "I (fund_notify u p full db) = I db"
  by (auto simp: fund_notify_def Let_def split: prod.split dest: qualify_pair)

lemma insert_reputation_event: "insert_reputation_event ev db = Some db' \<Longrightarrow> I db' = I db"
  by (rule same_tables) (auto simp: insert_reputation_event_def Let_def split: option.splits)

lemma notify_lenders [simp]: "I (notify_lenders ps db) = I db"
  by (induction ps arbitrary: db) (simp_all add: notify_lenders_def)

lemma fund_finish:
  assumes "I (w_db w)" "fund_finish e u b p r w = (a, w')"
  shows "I (w_db w')"
  using assms activateFundedLoanOnchain
  by (auto simp: fund_finish_def Let_def split: prod.splits option.splits if_splits) (metis snd_conv)+

lemma repay_finish:
  assumes "I (w_db w)" "repay_finish e u p st fee i n w = (a, w')"
  shows "I (w_db w')"
proof -
  let ?m = "recordRepaymentOnchain e (rp_loanId p) (loan_metadata (rp_loan p)) (rp_amount p) w"
  have "I (w_db (snd ?m))"
    using recordRepaymentOnchain [OF assms(1)] .
  with assms(2) show ?thesis
    by (auto simp: repay_finish_def Let_def dest!: insert_reputation_event split: prod.splits option.splits)
qed

lemma apply_trail:
  assumes "I (w_db w)" "I (delete_loan (loan_id l) (user_id u) (w_db w))" "apply_trail e err u p l w = (a, w')"
  shows "I (w_db w')"
  using assms by (cases err) (auto simp: apply_trail_def Let_def)

end

interpretation books_loans: loan_invariant books
  by unfold_locales (rule books_update_loans, simp_all add: keeps_books_def funding_open_def, simp add: books_def)

subsection \<open>The books under every operation\<close>

lemma fund_commit_books: "books db \<Longrightarrow> fund_commit e u p db = Inr (r, db') \<Longrightarrow> books db'"
  by (auto simp: fund_commit_def split: option.splits sum.splits dest: record_loan_funding_books)

lemma repay_write_books:
  assumes "books (w_db w)" "repay_write_loan e u p w = Some (i, n, w')"
  shows "books (w_db w')"
proof -
  let ?st = "repay_new_status e p (w_db w)"
  from assms(2) obtain m where "db_loanFundings (w_db w') = db_loanFundings (w_db w)" and
    loans: "db_loans (w_db w') = update_where (\<lambda>l. loan_id l = rp_loanId p)
      (\<lambda>l. l\<lparr>loan_repaidAmount := m, loan_status := ?st\<rparr>) (db_loans (w_db w))"
    by (auto simp: repay_write_loan_def Let_def split: option.splits if_splits)
  then have "books (w_db w') = books ((w_db w)\<lparr>db_loans := db_loans (w_db w')\<rparr>)"
    by (intro books_loans.same_tables) simp_all
  moreover have "keeps_books (\<lambda>l. l\<lparr>loan_repaidAmount := m, loan_status := ?st\<rparr>)"
    by (simp add: keeps_books_def funding_open_def repay_new_status_def)
  ultimately show ?thesis
    unfolding loans using books_update_loans [OF assms(1)] by blast
qed

subsection \<open>A new loan\<close>

text \<open>A request that passed the form asks for at least one XLM.\<close>

definition apply_valid :: "apply_plan \<Rightarrow> bool" where
  "apply_valid p \<longleftrightarrow> num_truthy (ar_amount (ap_request p)) \<and> \<not> jlt (ar_amount (ap_request p)) MIN_BORROW_AMOUNT"

lemma apply_check_valid:
  assumes "apply_parse b = Inr r" "apply_check e u r q db = Inr p"
  shows "apply_valid p"
  using assms by (auto simp: apply_valid_def apply_parse_def apply_check_def Let_def
      split: if_splits option.splits sum.splits)

lemma micro_of_num_pos:
  assumes "micro_of_num x = Some n" "num_truthy x" "\<not> jlt x MIN_BORROW_AMOUNT"
  shows "0 < n"
proof -
  from assms obtain r where r: "x = Fin r" "1 \<le> r"
    by (cases x) (auto simp: micro_of_num_def MIN_BORROW_AMOUNT_def)
  have "1 \<le> shortest_dec r"
  proof (rule ccontr)
    assume "\<not> 1 \<le> shortest_dec r"
    moreover have "shortest_dec r = r \<or> fl (shortest_dec r) = r"
      using r(2) shortest_from_cases by (simp add: shortest_dec_def shortest_pos_def)
    ultimately have less: "fl (shortest_dec r) = r" "shortest_dec r < 1"
      using r(2) by auto
    then have "fl (shortest_dec r) \<le> 1"
      using fl_le_int [of "shortest_dec r" 1] by simp
    with less r(2) have "r = 1"
      by simp
    moreover have "shortest_dec 1 = 1"
      by code_simp
    ultimately show False
      using less by simp
  qed
  then have "round6 (of_micro 1000000) \<le> round6 (shortest_dec r)"
    by (intro round6_mono) (simp add: of_micro_def)
  with assms(1) r(1) show ?thesis
    by (auto simp: micro_of_num_def to_column_def split: if_splits)
qed

lemma funded_sum_absent: "loanId \<notin> lf_loanId ` set fs \<Longrightarrow> funded_sum loanId fs = 0"
  by (induction fs) (auto simp: funded_sum_def)

lemma insert_loan_books:
  assumes "books db" "new_loan e u p db = Some l" "apply_valid p"
  shows "books (insert_loan l db)"
proof -
  note fresh = new_loan_fresh [OF assms(2)]
  have "0 < loan_principalAmount l"
    using assms(3) fresh(5) by (auto simp: apply_valid_def intro: micro_of_num_pos)
  moreover have "loan_id l \<notin> lf_loanId ` set (db_loanFundings db)"
    using assms(1) fresh(1) by (auto simp: books_def)
  ultimately have "loan_in_books (db_loanFundings db) l"
    using fresh by (simp add: loan_in_books_def funded_sum_absent)
  then show ?thesis
    using assms(1) fresh(1) by (auto simp: books_def insert_loan_def)
qed

lemma apply_insert_books: "books (w_db w) \<Longrightarrow> apply_valid p \<Longrightarrow> apply_insert e u p w = Some (l, w') \<Longrightarrow> books (w_db w')"
  by (auto simp: apply_insert_def insert_loan_books)

subsection \<open>A loan that is taken back\<close>

lemma not_deleted:
  assumes "distinct (map loan_id (db_loans db))" "l \<in> set (db_loans db)" "\<not> (loan_id l = i \<and> loan_borrowerId l = u)"
  shows "loan_id l \<notin> set (deleted_loans i u db)"
  using assms by (auto simp: deleted_loans_def distinct_map dest: inj_onD)

lemma delete_loan_tables:
  "db_loans (delete_loan i u db) = filter (\<lambda>l. \<not> (loan_id l = i \<and> loan_borrowerId l = u)) (db_loans db)"
  "db_loanFundings (delete_loan i u db) = filter (\<lambda>r. lf_loanId r \<notin> set (deleted_loans i u db)) (db_loanFundings db)"
  by (simp_all add: delete_loan_def delete_where_def Let_def)

lemma delete_loan_books:
  assumes "books db"
  shows "books (delete_loan i u db)"
  unfolding books_def
proof (intro conjI ballI)
  note b = assms [unfolded books_def]
  show "distinct (map loan_id (db_loans (delete_loan i u db)))" "distinct (map lf_txHash (db_loanFundings (delete_loan i u db)))"
    using b by (simp_all add: delete_loan_tables distinct_map_filter)
  show "lf_loanId ` set (db_loanFundings (delete_loan i u db)) \<subseteq> loan_id ` set (db_loans (delete_loan i u db))"
  proof
    fix j
    assume "j \<in> lf_loanId ` set (db_loanFundings (delete_loan i u db))"
    then have j: "j \<in> loan_id ` set (db_loans db)" "j \<notin> set (deleted_loans i u db)"
      using b by (auto simp: delete_loan_tables)
    then show "j \<in> loan_id ` set (db_loans (delete_loan i u db))"
      by (auto simp: delete_loan_tables deleted_loans_def)
  qed
  fix l
  assume "l \<in> set (db_loans (delete_loan i u db))"
  then have l: "l \<in> set (db_loans db)" "loan_id l \<notin> set (deleted_loans i u db)"
    using b not_deleted by (auto simp: delete_loan_tables)
  then have "funded_sum (loan_id l) (db_loanFundings (delete_loan i u db)) = funded_sum (loan_id l) (db_loanFundings db)"
    by (auto simp: funded_sum_def delete_loan_tables intro!: arg_cong [where f = "\<lambda>fs. sum_list (map lf_amount fs)"] filter_cong)
  then show "loan_in_books (db_loanFundings (delete_loan i u db)) l"
    using b l(1) unfolding loan_in_books_def by metis
qed

subsection \<open>The invariant\<close>

fun task_valid :: "task \<Rightarrow> bool" where
  "task_valid (ApplyChecked u p) = apply_valid p"
| "task_valid _ = True"

lemma loan_step_invariant:
  assumes "loan_step s s'" "books (w_db (fst s))" "\<forall>t \<in># snd s. task_valid t"
  shows "books (w_db (fst s')) \<and> (\<forall>t \<in># snd s'. task_valid t)"
  using assms
  by (induction rule: loan_step.induct)
    (auto intro: fund_commit_books books_loans.fund_finish repay_write_books books_loans.repay_finish
      apply_insert_books books_loans.apply_trail delete_loan_books apply_check_valid)

lemma loan_reachable_invariant:
  "loan_reachable s \<Longrightarrow> books (w_db (fst s)) \<and> (\<forall>t \<in># snd s. task_valid t)"
proof (induction rule: loan_reachable.induct)
  case (start w)
  then show ?case by simp
next
  case (step s s')
  from loan_step_invariant [OF step.hyps(2)] step.IH show ?case by simp
qed


subsection \<open>What is recorded stays\<close>

text \<open>
  What becomes of one loan: it keeps its identifier, borrower and principal, its funded amount does
  not fall, and its contributions only grow at the end. \<open>shut\<close> says that it was not open for
  funding and still is not.
\<close>

definition loan_le :: "loan \<Rightarrow> loan \<Rightarrow> bool" where
  "loan_le l l' \<longleftrightarrow> loan_id l' = loan_id l \<and> loan_borrowerId l' = loan_borrowerId l
     \<and> loan_principalAmount l' = loan_principalAmount l \<and> loan_fundedAmount l \<le> loan_fundedAmount l'"

definition fundings_of :: "string \<Rightarrow> database \<Rightarrow> loan_funding list" where
  "fundings_of i db = filter (\<lambda>r. lf_loanId r = i) (db_loanFundings db)"

definition tracked :: "bool \<Rightarrow> loan \<Rightarrow> loan_funding list \<Rightarrow> database \<Rightarrow> bool" where
  "tracked shut l0 rows0 db \<longleftrightarrow> distinct (map loan_id (db_loans db))
     \<and> (\<exists>l \<in> set (db_loans db). loan_le l0 l \<and> (shut \<longrightarrow> \<not> funding_open l))
     \<and> (\<exists>rows. fundings_of (loan_id l0) db = rows0 @ rows)"

lemma loan_le_refl [simp]: "loan_le l l"
  by (simp add: loan_le_def)

lemma loan_le_trans: "loan_le a b \<Longrightarrow> loan_le b c \<Longrightarrow> loan_le a c"
  by (auto simp: loan_le_def)

lemma tracked_id: "tracked c l0 rows db \<Longrightarrow> loan_id l0 \<in> loan_id ` set (db_loans db)"
  unfolding tracked_def loan_le_def by (metis image_eqI)

text \<open>An update of loans that keeps the one that is tracked.\<close>

lemma tracked_update:
  assumes "tracked c l0 rows0 db" "\<And>l. loan_id (f l) = loan_id l"
    and "\<And>l. l \<in> set (db_loans db) \<Longrightarrow> p l \<Longrightarrow> loan_id l = loan_id l0 \<Longrightarrow> loan_le l (f l) \<and> (c \<longrightarrow> \<not> funding_open l \<longrightarrow> \<not> funding_open (f l))"
    and "db_loans db' = update_where p f (db_loans db)" "db_loanFundings db' = db_loanFundings db @ new"
  shows "tracked c l0 rows0 db'"
proof -
  obtain l rows where l: "l \<in> set (db_loans db)" "loan_le l0 l" "c \<longrightarrow> \<not> funding_open l"
    and rows: "fundings_of (loan_id l0) db = rows0 @ rows" and ids: "distinct (map loan_id (db_loans db))"
    using assms(1) by (auto simp: tracked_def)
  have "(if p l then f l else l) \<in> set (db_loans db')"
    using l(1) by (auto simp: assms(4) in_update_where)
  moreover have "loan_le l0 (if p l then f l else l) \<and> (c \<longrightarrow> \<not> funding_open (if p l then f l else l))"
    using assms(3) [OF l(1)] l(2,3) by (auto simp: loan_le_def)
  moreover have "map loan_id (db_loans db') = map loan_id (db_loans db)"
    by (simp add: assms(4) update_where_def assms(2) comp_def if_distrib)
  moreover have "fundings_of (loan_id l0) db' = rows0 @ rows @ filter (\<lambda>r. lf_loanId r = loan_id l0) new"
    using rows by (simp add: fundings_of_def assms(5))
  ultimately show ?thesis
    using ids unfolding tracked_def by metis
qed

interpretation tracked: loan_invariant "tracked c l0 rows0" for c l0 rows0
proof unfold_locales
  fix db p m
  assume "tracked c l0 rows0 db"
  then show "tracked c l0 rows0 (db\<lparr>db_loans := update_where p (\<lambda>l. l\<lparr>loan_metadata := m l\<rparr>) (db_loans db)\<rparr>)"
    by (rule tracked_update [where new = "[]"]) (simp_all add: loan_le_def funding_open_def)
qed (simp add: tracked_def fundings_of_def)

lemma fund_commit_tracked:
  assumes "tracked c l0 rows0 db" "fund_commit e u p db = Inr (r, db')"
  shows "tracked c l0 rows0 db'"
proof -
  from assms(2) obtain amt where
    "record_loan_funding (env_genUuid e) (plan_canonicalId p) (user_id u) amt (plan_txHash p)
       (Some (v_source (plan_verified p))) (env_now e) db = Inr (r, db')"
    by (auto simp: fund_commit_def split: option.splits sum.splits)
  then show ?thesis
  proof (rule record_loan_funding_Inr)
    fix l :: loan
    let ?t = "round6 (of_micro (loan_fundedAmount l) + amt)"
    assume l: "find (\<lambda>l. loan_id l = plan_canonicalId p) (db_loans db) = Some l" "funding_open l" "0 < amt"
      and db': "db' = db\<lparr>db_loanFundings := db_loanFundings db @ [\<lparr>lf_id = env_genUuid e (db_uuids db),
         lf_loanId = plan_canonicalId p, lf_lenderId = user_id u, lf_amount = round6 amt,
         lf_txHash = sql_trim (plan_txHash p), lf_lenderAddress = Some (v_source (plan_verified p)),
         lf_fundedAt = env_now e\<rparr>], db_uuids := Suc (db_uuids db),
       db_loans := update_where (\<lambda>l. loan_id l = plan_canonicalId p) (fund_row ?t (env_now e)) (db_loans db)\<rparr>"
    have "loan_le l' (fund_row ?t (env_now e) l') \<and> (c \<longrightarrow> \<not> funding_open l' \<longrightarrow> \<not> funding_open (fund_row ?t (env_now e) l'))"
      if "l' \<in> set (db_loans db)" "loan_id l' = plan_canonicalId p" for l'
    proof -
      have "l' = l"
        using that l(1) assms(1) loans_tbl.find_distinct [of "db_loans db" l'] by (simp add: tracked_def)
      moreover have "round6 (of_micro (loan_fundedAmount l)) \<le> ?t"
        using l(3) by (intro round6_mono) simp
      ultimately show ?thesis
        using l(2) by (auto simp: loan_le_def fund_row_def)
    qed
    then show ?thesis
      by (intro tracked_update [OF assms(1), where f = "fund_row ?t (env_now e)"]) (simp_all add: db' fund_row_def)
  qed
qed

lemma repay_write_tracked:
  assumes "tracked c l0 rows0 (w_db w)" "repay_write_loan e u p w = Some (i, n, w')"
  shows "tracked c l0 rows0 (w_db w')"
proof -
  let ?st = "repay_new_status e p (w_db w)"
  obtain m where "db_loanFundings (w_db w') = db_loanFundings (w_db w)"
    "db_loans (w_db w') = update_where (\<lambda>l. loan_id l = rp_loanId p)
      (\<lambda>l. l\<lparr>loan_repaidAmount := m, loan_status := ?st\<rparr>) (db_loans (w_db w))"
    using assms(2) by (auto simp: repay_write_loan_def Let_def split: option.splits if_splits)
  then show ?thesis
    by (intro tracked_update [OF assms(1), where new = "[]" and f = "\<lambda>l. l\<lparr>loan_repaidAmount := m, loan_status := ?st\<rparr>"])
      (simp_all add: loan_le_def funding_open_def repay_new_status_def)
qed

lemma apply_insert_tracked:
  assumes "tracked c l0 rows0 (w_db w)" "apply_insert e u p w = Some (l, w')"
  shows "tracked c l0 rows0 (w_db w')" "loan_id l \<noteq> loan_id l0"
proof -
  have new: "new_loan e u p (w_db w) = Some l" "w' = set_db (insert_loan l) w"
    using assms(2) by (auto simp: apply_insert_def)
  note fresh = new_loan_fresh(1) [OF new(1)]
  show "loan_id l \<noteq> loan_id l0"
    using fresh tracked_id [OF assms(1)] by auto
  show "tracked c l0 rows0 (w_db w')"
    using assms(1) fresh by (auto simp: tracked_def new(2) insert_loan_def fundings_of_def)
qed

lemma delete_loan_tracked:
  assumes "tracked c l0 rows0 db" "i \<noteq> loan_id l0"
  shows "tracked c l0 rows0 (delete_loan i u db)"
proof -
  obtain l where l: "l \<in> set (db_loans db)" "loan_le l0 l" "c \<longrightarrow> \<not> funding_open l" and ids: "distinct (map loan_id (db_loans db))"
    using assms(1) by (auto simp: tracked_def)
  have "l \<in> set (db_loans (delete_loan i u db))"
    using l assms(2) by (auto simp: delete_loan_tables loan_le_def)
  moreover have "loan_id l0 \<notin> set (deleted_loans i u db)"
    using assms(2) by (auto simp: deleted_loans_def)
  then have "fundings_of (loan_id l0) (delete_loan i u db) = fundings_of (loan_id l0) db"
    by (auto simp: fundings_of_def delete_loan_tables intro!: filter_cong)
  ultimately show ?thesis
    using assms(1) l ids by (auto simp: tracked_def delete_loan_tables distinct_map_filter)
qed

text \<open>The loans that requests in flight have created and may still take back.\<close>

definition creating :: "task multiset \<Rightarrow> string set" where
  "creating M = {loan_id l | u p l. ApplyInserted u p l \<in># M}"

lemma creating_add [simp]:
  "creating (add_mset t M) = (case t of ApplyInserted u p l \<Rightarrow> insert (loan_id l) (creating M) | _ \<Rightarrow> creating M)"
  by (auto simp: creating_def split: task.split)

lemma loan_step_tracked:
  assumes "loan_step s s'" "tracked c l0 rows0 (w_db (fst s))" "loan_id l0 \<notin> creating (snd s)"
  shows "tracked c l0 rows0 (w_db (fst s')) \<and> loan_id l0 \<notin> creating (snd s')"
  using assms
proof (induction rule: loan_step.induct)
  case (apply_inserts e u p w l w' M)
  then show ?case
    using apply_insert_tracked [of c l0 rows0 w e u p l w'] by auto
next
  case (apply_finishes e err u p l w a w' M)
  then show ?case
    using tracked.apply_trail [of c l0 rows0 w l u e err p a w'] delete_loan_tracked [of c l0 rows0 "w_db w" "loan_id l"] by auto
qed (auto intro: fund_commit_tracked repay_write_tracked tracked.fund_finish tracked.repay_finish)

end
