(* ===== verification/FundSafety.thy ===== *)
theory FundSafety
  imports LoanProcess Demo
begin

text \<open>
  What the funding route guarantees: a recorded contribution is backed by a payment on the
  chain, the default contribution closes a loan, no interleaving overfunds one; and where it
  falls short: one payment in two spellings, and the last millionth of a loan.
\<close>

subsection \<open>A funding that passed its checks\<close>

lemma fund_check_Inr:
  assumes "fund_check e u b (i, h, a) db = Inr p"
  obtains l w v where "env_pgUuid e i = Some (plan_canonicalId p)"
    "find (\<lambda>l. loan_id l = plan_canonicalId p) (db_loans db) = Some l" "plan_loan p = l"
    "funding_open l" "loan_borrowerId l \<noteq> user_id u" "h \<notin> lf_txHash ` set (db_loanFundings db)"
    "fund_contribution l (fb_amount b) = Inr (plan_before p, plan_contribution p)"
    "profile_wallet (loan_borrowerId l) db = Some w" "w \<noteq> []"
    "a \<in> set (linked_wallets u (profile_wallet (user_id u) db))"
    "verifyPaymentTransaction (env_horizon e) (Fin (of_int (env_now e)))
       \<lparr>vp_txHash = h, vp_expectedSource = a,
        vp_expectedPayments = [\<lparr>destination = w, minAmount = plan_contribution p\<rparr>],
        vp_expectedMemo = Some (memo_fund i), vp_allowOtherDestinations = False,
        vp_maxAgeSeconds = None, vp_horizonUrl = env_horizonUrl e\<rparr> = Inr (plan_verified p)"
    "plan_txHash p = h" "plan_loanId p = i"
  using assms unfolding fund_check_def
  by (auto simp: bindE_Inr_iff Let_def funding_open_def split: if_splits option.splits prod.splits sum.splits
      intro: that)

text \<open>
  C7: a contribution that passes the checks is backed by the chain: a successful transaction
  from a wallet of the lender, with the memo of this loan, whose operations pay the borrower's
  wallet at least the contribution, up to the tolerance, and nobody else.
\<close>

theorem fund_check_paid:
  assumes "fund_parse b = Inr (i, h, a)" "fund_check e u b (i, h, a) db = Inr p"
  shows "\<exists>w tx r. profile_wallet (loan_borrowerId (plan_loan p)) db = Some w
    \<and> a \<in> set (linked_wallets u (profile_wallet (user_id u) db))
    \<and> get_tx (env_horizon e) (strip_slash (env_horizonUrl e) @ ''/transactions/'' @ js_lower h) = Body tx
    \<and> tx_successful tx \<and> tx_source_account tx = a \<and> tx_memo tx = Some (''TL-FUND:'' @ take 12 i)
    \<and> get_ops (env_horizon e) (strip_slash (env_horizonUrl e) @ ''/transactions/'' @ js_lower h
        @ ''/operations?limit=200'') = Body r
    \<and> \<not> jlt (jadd (total_to w (records_of r)) AMOUNT_TOLERANCE) (plan_contribution p)
    \<and> (\<forall>op \<in> set (records_of r). \<forall>d n. paid_to op = Some (d, n) \<longrightarrow> d = w)"
  using assms(2)
proof (rule fund_check_Inr)
  fix l w
  let ?p = "\<lparr>vp_txHash = h, vp_expectedSource = a,
    vp_expectedPayments = [\<lparr>destination = w, minAmount = plan_contribution p\<rparr>],
    vp_expectedMemo = Some (memo_fund i), vp_allowOtherDestinations = False,
    vp_maxAgeSeconds = None, vp_horizonUrl = env_horizonUrl e\<rparr>"
  assume l: "plan_loan p = l" "profile_wallet (loan_borrowerId l) db = Some w"
      "a \<in> set (linked_wallets u (profile_wallet (user_id u) db))"
    and v: "verifyPaymentTransaction (env_horizon e) (Fin (of_int (env_now e))) ?p = Inr (plan_verified p)"
  from v show ?thesis
  proof (rule verify_Inr)
    fix h' tx r
    assume *: "h' = js_lower (js_trim (vp_txHash ?p))" "get_tx (env_horizon e) (tx_url ?p h') = Body tx"
      "get_ops (env_horizon e) (ops_url ?p h') = Body r"
      and tx: "check_tx (Fin (of_int (env_now e))) ?p tx = Inr ()"
      and paid: "check_payments ?p (summarisePayments (records_of r)) = Inr ()"
    have "h' = js_lower h"
      using assms(1) * by (auto simp: fund_parse_def Let_def split: if_splits jsval.splits)
    then show ?thesis
      using l * check_tx_sound [OF tx] check_payments_sound [OF paid]
      by (intro exI [of _ w] exI [of _ tx] exI [of _ r]) (auto simp: tx_url_def ops_url_def memo_fund_def)
  qed
qed

lemma fund_parse_Inr:
  assumes "fund_parse b = Inr (i, h, a)"
  shows "js_trim h = h" "h \<noteq> []"
  using assms by (auto simp: fund_parse_def Let_def split: if_splits jsval.splits)

lemma dropWhile_fixed:
  assumes "dropWhile P xs = xs" "\<And>x. Q x \<Longrightarrow> P x"
  shows "dropWhile Q xs = xs"
proof (cases xs)
  case (Cons a l)
  have "\<not> P a"
  proof
    assume "P a"
    with Cons assms(1) have "dropWhile P l = a # l"
      by simp
    with length_dropWhile_le [of P l] show False
      by simp
  qed
  with Cons assms(2) show ?thesis
    by auto
qed simp

lemma sql_trim_trimmed:
  assumes "js_trim s = s"
  shows "sql_trim s = s"
proof -
  have "length s \<le> length (dropWhile js_space s)"
    using arg_cong [OF assms, of length] length_dropWhile_le [of js_space "rev (dropWhile js_space s)"]
    by (simp add: js_trim_def)
  moreover have "length (takeWhile js_space s) + length (dropWhile js_space s) = length s"
    by (metis length_append takeWhile_dropWhile_id)
  ultimately have "length (takeWhile js_space s) = 0"
    by linarith
  then have front: "dropWhile js_space s = s"
    using takeWhile_dropWhile_id [of js_space s] by simp
  with assms have "dropWhile js_space (rev s) = rev s"
    by (simp add: js_trim_def) (metis rev_rev_ident)
  moreover have "js_space CHR '' ''"
    by code_simp
  ultimately have "dropWhile (\<lambda>c. c = CHR '' '') (rev s) = rev s" "dropWhile (\<lambda>c. c = CHR '' '') s = s"
    using front by (auto intro: dropWhile_fixed)
  then show ?thesis
    by (simp add: sql_trim_def)
qed

text \<open>
  The default contribution takes the loan over the line: it is accepted, the loan is fully
  funded to the last millionth, and it is active.
\<close>

theorem fund_default_closes:
  assumes "fund_parse b = Inr q" "fund_check e u b q db = Inr p" "fb_amount b = JUndef"
    and "0 \<le> loan_fundedAmount (plan_loan p)"
      "loan_fundedAmount (plan_loan p) + 2 \<le> loan_principalAmount (plan_loan p)"
      "loan_principalAmount (plan_loan p) < 2 ^ 28 * 10 ^ 6"
  shows "\<exists>r db' l. fund_commit e u p db = Inr (r, db') \<and> rlf_is_fully_funded r \<and> rlf_remaining_amount r = 0
    \<and> find (\<lambda>l. loan_id l = plan_canonicalId p) (db_loans db') = Some l
    \<and> loan_status l = LoanActive \<and> loan_fundedAmount l = loan_principalAmount l
    \<and> loan_dueAt l = Some (env_now e + loan_durationDays l * day_ms)"
proof -
  obtain i h a where q: "q = (i, h, a)"
    by (cases q)
  from assms(2) [unfolded q] show ?thesis
  proof (rule fund_check_Inr)
    fix l :: loan and w
    let ?rest = "loan_principalAmount l - loan_fundedAmount l"
    assume find: "find (\<lambda>l. loan_id l = plan_canonicalId p) (db_loans db) = Some l"
      and l: "plan_loan p = l" "funding_open l" "loan_borrowerId l \<noteq> user_id u"
      and h: "h \<notin> lf_txHash ` set (db_loanFundings db)" "plan_txHash p = h"
      and c: "fund_contribution l (fb_amount b) = Inr (plan_before p, plan_contribution p)"
    have contribution: "plan_contribution p = num_of_micro ?rest"
      using fund_contribution_default [of l] assms(3-) c l(1) by auto
    have rest: "0 < ?rest" "?rest < 10 ^ 15"
      using assms(4-) l(1) by simp_all
    have "dec_of_num (plan_contribution p) = Some (of_micro ?rest)"
      using rest shortest_dec_short [OF short_decimal_micro [OF rest]]
      by (simp add: contribution num_of_micro_Fin)
    moreover have "sql_trim h = h" "h \<noteq> []"
      using fund_parse_Inr [of b i h a] assms(1) q sql_trim_trimmed by simp_all
    moreover have "to_column (of_micro ?rest) = Some ?rest"
      "to_column (of_micro (loan_fundedAmount l) + of_micro ?rest) = Some (loan_principalAmount l)"
      using rest assms(4-) l(1) by (simp_all add: to_column_def flip: of_micro_add)
    moreover have "\<not> of_micro ?rest \<le> 0"
      using rest(1) by (simp add: not_le)
    ultimately have "\<exists>r db'. fund_commit e u p db = Inr (r, db')
        \<and> r = rlf_result (fund_row (loan_principalAmount l) (env_now e) l) (env_genUuid e (db_uuids db))
        \<and> db_loans db' = update_where (\<lambda>l. loan_id l = plan_canonicalId p)
            (fund_row (loan_principalAmount l) (env_now e)) (db_loans db)"
      using find l rest(1) h
      by (auto simp: fund_commit_def record_loan_funding_def funding_open_def Let_def)
    then show ?thesis
      by (auto simp: rlf_result_def fund_row_def fund_row_upd.find_update find)
  qed
qed


text \<open>
  C29: one payment, two contributions: the duplicate check and the unique index compare hashes to
  the letter, but the verifier lower-cases them. So after a contribution is recorded, the same
  request with the hash in another case passes every check, while the loan has room for the amount
  once more, and is recorded as a second contribution of the same amount, backed by the same payment.
\<close>

theorem fund_hash_case_replay:
  assumes "fund_check e u b (i, h, a) db = Inr p" "fund_commit e u p db = Inr (r, db')"
    and "js_lower h' = js_lower h" "js_trim h = h" "js_trim h' = h'" "h' \<notin> lf_txHash ` set (db_loanFundings db')"
    and "find (\<lambda>l. loan_id l = plan_canonicalId p) (db_loans db') = Some l'" "funding_open l'"
      "fund_contribution l' (fb_amount b') = Inr (before, plan_contribution p)"
    and "dec_of_num (plan_contribution p) = Some amt" "of_micro (loan_fundedAmount l') + amt \<le> of_micro (loan_principalAmount l')"
      "0 \<le> loan_fundedAmount l'" "loan_principalAmount l' < 10 ^ 20"
  shows "\<exists>p' r' db''. fund_check e u b' (i, h', a) db' = Inr p' \<and> plan_contribution p' = plan_contribution p
    \<and> plan_verified p' = plan_verified p \<and> fund_commit e u p' db' = Inr (r', db'')
    \<and> map (\<lambda>r. (lf_loanId r, lf_lenderId r, lf_amount r, lf_txHash r)) (db_loanFundings db'') =
        map (\<lambda>r. (lf_loanId r, lf_lenderId r, lf_amount r, lf_txHash r)) (db_loanFundings db)
          @ [(plan_canonicalId p, user_id u, round6 amt, h), (plan_canonicalId p, user_id u, round6 amt, h')]"
  using assms(1)
proof (rule fund_check_Inr)
  fix l :: loan and w
  let ?p = "\<lambda>h. \<lparr>vp_txHash = h, vp_expectedSource = a,
    vp_expectedPayments = [\<lparr>destination = w, minAmount = plan_contribution p\<rparr>],
    vp_expectedMemo = Some (memo_fund i), vp_allowOtherDestinations = False,
    vp_maxAgeSeconds = None, vp_horizonUrl = env_horizonUrl e\<rparr>"
  assume l: "find (\<lambda>l. loan_id l = plan_canonicalId p) (db_loans db) = Some l" "loan_borrowerId l \<noteq> user_id u"
      "env_pgUuid e i = Some (plan_canonicalId p)" "profile_wallet (loan_borrowerId l) db = Some w" "w \<noteq> []"
      "a \<in> set (linked_wallets u (profile_wallet (user_id u) db))" "plan_txHash p = h"
    and v: "verifyPaymentTransaction (env_horizon e) (Fin (of_int (env_now e))) (?p h) = Inr (plan_verified p)"
  have "verifyPaymentTransaction (env_horizon e) (Fin (of_int (env_now e))) (?p h') = Inr (plan_verified p)"
    using verify_hash_normalised [of h' "?p h"] assms(3-5) v by simp
  moreover obtain t tm row where first: "db_profiles db' = db_profiles db"
      "db_loans db' = update_where (\<lambda>l. loan_id l = plan_canonicalId p) (fund_row t tm) (db_loans db)"
      "db_loanFundings db' = db_loanFundings db @ [row]" "lf_loanId row = plan_canonicalId p" "lf_lenderId row = user_id u"
      "lf_amount row = round6 amt" "lf_txHash row = sql_trim h" "0 < amt" "sql_trim h \<noteq> []"
    using assms(2,10) l(7) by (auto simp: fund_commit_def split: option.splits sum.splits elim!: record_loan_funding_Inr)
  moreover from this have borrower: "loan_borrowerId l' = loan_borrowerId l"
    using assms(7) l(1) by (auto simp: fund_row_upd.find_update fund_row_def split: if_splits)
  ultimately obtain p' where p': "fund_check e u b' (i, h', a) db' = Inr p'" "plan_contribution p' = plan_contribution p"
      "plan_verified p' = plan_verified p" "plan_txHash p' = h'" "plan_canonicalId p' = plan_canonicalId p"
    using l(1-6) assms(6-9) by (auto simp: fund_check_def funding_open_def profile_wallet_def image_iff)
  have trimmed: "sql_trim h = h" "sql_trim h' = h'"
    using assms(4,5) sql_trim_trimmed by simp_all
  have "h' \<noteq> []"
    using assms(3) first(9) trimmed(1) by (auto simp: js_lower_def)
  moreover have "amt \<le> of_micro (loan_principalAmount l' - loan_fundedAmount l')"
    using assms(11) by (simp add: of_micro_diff)
  moreover have "0 < loan_principalAmount l' - loan_fundedAmount l'"
  proof -
    have "0 < of_micro (loan_principalAmount l' - loan_fundedAmount l')"
      using first(8) calculation(2) by linarith
    then show ?thesis
      by (simp add: of_micro_def)
  qed
  moreover have "to_column (of_micro (loan_fundedAmount l') + amt) = Some (round6 (of_micro (loan_fundedAmount l') + amt))"
  proof -
    have "0 \<le> round6 (of_micro (loan_fundedAmount l') + amt)"
      using assms(12) first(8) by (intro round6_nonneg) (simp add: of_micro_def)
    moreover have "round6 (of_micro (loan_fundedAmount l') + amt) \<le> loan_principalAmount l'"
      using round6_mono [OF assms(11)] by simp
    ultimately show ?thesis
      using assms(13) by (simp add: to_column_def)
  qed
  moreover have "to_column amt = Some (round6 amt)"
  proof -
    have "round6 amt \<le> loan_principalAmount l' - loan_fundedAmount l'"
      using calculation(2) by (rule round6_le)
    moreover have "0 \<le> round6 amt"
      using first(8) by (intro round6_nonneg) simp
    ultimately show ?thesis
      using assms(12,13) by (simp add: to_column_def)
  qed
  ultimately have "\<exists>r' db''. fund_commit e u p' db' = Inr (r', db'') \<and> (\<exists>row'. db_loanFundings db'' = db_loanFundings db' @ [row']
      \<and> lf_loanId row' = plan_canonicalId p \<and> lf_lenderId row' = user_id u \<and> lf_amount row' = round6 amt \<and> lf_txHash row' = h')"
    using assms(6-8,10) p' first(8) trimmed(2) borrower l(2)
    by (simp add: fund_commit_def record_loan_funding_def funding_open_def Let_def not_less not_le disj_commute)
  then show ?thesis
    using p' first trimmed by fastforce
qed


subsection \<open>Any interleaving\<close>

text \<open>
  C1: however the requests interleave, a loan is never funded beyond its principal: its funded
  amount is the sum of its recorded contributions, it is still open for funding only while
  that sum is below the principal, and no transaction hash was recorded twice.
\<close>

theorem loans_never_overfunded:
  assumes "loan_reachable (w, M)" "l \<in> set (db_loans (w_db w))"
  shows "loan_fundedAmount l = sum_list (map lf_amount (filter (\<lambda>r. lf_loanId r = loan_id l) (db_loanFundings (w_db w))))
    \<and> 0 \<le> loan_fundedAmount l \<and> loan_fundedAmount l \<le> loan_principalAmount l
    \<and> (loan_status l \<in> {LoanRequested, LoanApproved} \<longrightarrow> loan_fundedAmount l < loan_principalAmount l)
    \<and> distinct (map lf_txHash (db_loanFundings (w_db w)))"
  using loan_reachable_invariant [OF assms(1)] assms(2)
  by (auto simp: books_def loan_in_books_def funded_sum_def funding_open_def)

lemma loan_steps_reachable: "loan_step\<^sup>*\<^sup>* s s' \<Longrightarrow> loan_reachable s \<Longrightarrow> loan_reachable s'"
  by (induction rule: rtranclp_induct) (auto intro: loan_reachable.step)

subsection \<open>Examples\<close>

text \<open>The lender pays the borrower 40 XLM for the loan; what was funded before came in one piece.\<close>

definition demo_fund_env :: env where
  "demo_fund_env = demo_env demo_lender (demo_horizon ''GL'' ''TL-FUND:L'' ''GB'' ''40.0000000'')"

definition demo_fund_body :: "string \<Rightarrow> jsval \<Rightarrow> fund_body" where
  "demo_fund_body h amt = \<lparr>fb_loanId = JStr ''L'', fb_txHash = JStr h, fb_lenderAddress = JStr ''GL'',
     fb_amount = amt, fb_approveTxHash = JUndef\<rparr>"

definition demo_fund_db :: "int \<Rightarrow> database" where
  "demo_fund_db funded = demo_db\<lparr>db_loans := [demo_loan funded], db_loanFundings :=
     [\<lparr>lf_id = ''f'', lf_loanId = ''L'', lf_lenderId = ''l'', lf_amount = funded, lf_txHash = demo_hash CHR ''b'',
       lf_lenderAddress = Some ''GL'', lf_fundedAt = 0\<rparr>]\<rparr>"

definition demo_fund_params :: verify_params where
  "demo_fund_params = \<lparr>vp_txHash = demo_hash CHR ''a'', vp_expectedSource = ''GL'',
     vp_expectedPayments = [\<lparr>destination = ''GB'', minAmount = Fin 40\<rparr>],
     vp_expectedMemo = Some ''TL-FUND:L'', vp_allowOtherDestinations = False, vp_maxAgeSeconds = None,
     vp_horizonUrl = ''https://horizon''\<rparr>"

definition demo_fund_verified :: verified_payment where
  "demo_fund_verified = \<lparr>v_txHash = demo_hash CHR ''a'', v_source = ''GL'', v_memo = Some ''TL-FUND:L'',
     v_ledger = 7, v_closedAt = ''1970-01-01T00:00:00Z'', v_received = [(''GB'', Fin 40)], v_totalNative = Fin 40\<rparr>"

lemma demo_check_tx: "check_tx (Fin 1000) demo_fund_params (demo_tx ''GL'' ''TL-FUND:L'') = Inr ()"
  by code_simp

lemma demo_summary: "summarisePayments [demo_payment ''GB'' ''40.0000000''] = [(''GB'', Fin 40)]"
  by code_simp

lemma demo_check_payments: "check_payments demo_fund_params [(''GB'', Fin 40)] = Inr ()"
  by code_simp

lemma demo_total: "foldl jadd (Fin 0) [Fin 40] = Fin 40"
  by code_simp

lemma demo_verify: "verifyPaymentTransaction (demo_horizon ''GL'' ''TL-FUND:L'' ''GB'' ''40.0000000'')
    (Fin 1000) demo_fund_params = Inr demo_fund_verified"
proof -
  have "vp_txHash demo_fund_params = demo_hash CHR ''a''"
    by (simp add: demo_fund_params_def)
  then show ?thesis
    using demo_check_tx demo_summary demo_check_payments demo_total
    by (simp add: verifyPaymentTransaction_def demo_horizon_def Let_def demo_fund_verified_def demo_tx_def text_memo_def)
qed

lemma demo_fund_parse: "fund_parse (demo_fund_body (demo_hash CHR ''a'') amt) = Inr (''L'', demo_hash CHR ''a'', ''GL'')"
proof -
  have "isBoundedString (JStr ''L'') 128" "isBoundedString (JStr ''GL'') 128"
    by code_simp+
  moreover have "length (demo_hash CHR ''a'') = 64" "demo_hash CHR ''a'' \<noteq> []"
    by (simp_all add: demo_hash_def)
  ultimately show ?thesis
    by (simp add: fund_parse_def demo_fund_body_def isBoundedString_def js_to_string.simps)
qed

lemma demo_fund_db_simps [simp]:
  "db_loans (demo_fund_db n) = [demo_loan n]" "map lf_txHash (db_loanFundings (demo_fund_db n)) = [demo_hash CHR ''b'']"
  "lf_txHash ` set (db_loanFundings (demo_fund_db n)) = {demo_hash CHR ''b''}"
  by (simp_all add: demo_fund_db_def)

lemma demo_profile_wallets [simp]:
  "profile_wallet ''b'' (demo_fund_db n) = Some ''GB''" "profile_wallet ''l'' (demo_fund_db n) = Some ''GL''"
  by (simp_all add: profile_wallet_def demo_fund_db_def demo_db_def empty_db_def demo_profile_def demo_borrower_def demo_lender_def)

lemma demo_fund_check:
  assumes "fund_contribution (demo_loan n) amt = Inr (pb, Fin 40)"
  shows "fund_check demo_fund_env demo_lender (demo_fund_body (demo_hash CHR ''a'') amt)
    (''L'', demo_hash CHR ''a'', ''GL'') (demo_fund_db n) =
    Inr \<lparr>plan_loanId = ''L'', plan_canonicalId = ''L'', plan_txHash = demo_hash CHR ''a'', plan_loan = demo_loan n,
      plan_before = pb, plan_contribution = Fin 40, plan_verified = demo_fund_verified\<rparr>"
proof -
  have "memo_fund ''L'' = ''TL-FUND:L''"
    by (simp add: memo_fund_def)
  moreover have "linked_wallets demo_lender (Some ''GL'') = [''GL'', ''GL'']" "user_id demo_lender = ''l''"
    by (simp_all add: linked_wallets_def demo_lender_def)
  ultimately show ?thesis
    using assms demo_verify
    by (simp add: fund_check_def demo_fund_env_def demo_fund_params_def demo_fund_body_def)
qed


lemma num_40: "num_of_micro 40000000 = Fin 40"
  using to_num_int [of 40] by (simp add: num_of_micro_def of_micro_def)

lemma demo_default: "\<exists>pb. fund_contribution (demo_loan 60000000) JUndef = Inr (pb, Fin 40)"
  using fund_contribution_default [of "demo_loan 60000000"] by (simp add: num_40)

lemma demo_fund_books: "0 \<le> n \<Longrightarrow> n < 100000000 \<Longrightarrow> books (demo_fund_db n)"
  by (simp add: books_def demo_fund_db_def loan_in_books_def funded_sum_def)

text \<open>The lender's default contribution to the loan with 60 of 100 XLM funded.\<close>

definition demo_plan :: "funding_progress \<Rightarrow> fund_plan" where
  "demo_plan pb = \<lparr>plan_loanId = ''L'', plan_canonicalId = ''L'', plan_txHash = demo_hash CHR ''a'',
     plan_loan = demo_loan 60000000, plan_before = pb, plan_contribution = Fin 40, plan_verified = demo_fund_verified\<rparr>"

lemma demo_fund_check_default: "\<exists>pb. fund_check demo_fund_env demo_lender (demo_fund_body (demo_hash CHR ''a'') JUndef)
    (''L'', demo_hash CHR ''a'', ''GL'') (demo_fund_db 60000000) = Inr (demo_plan pb)"
  using demo_default demo_fund_check unfolding demo_plan_def by blast

lemma verifyPaymentTransaction_sound_witness:
  "\<exists>tx. get_tx (demo_horizon ''GL'' ''TL-FUND:L'' ''GB'' ''40.0000000'')
     (tx_url demo_fund_params (v_txHash demo_fund_verified)) = Body tx
     \<and> tx_successful tx \<and> tx_source_account tx = ''GL''"
  using verifyPaymentTransaction_sound [OF demo_verify] by (auto simp: demo_fund_params_def)

lemma fund_check_paid_witness:
  "\<exists>pb r. get_ops (env_horizon demo_fund_env) (strip_slash (env_horizonUrl demo_fund_env) @ ''/transactions/''
      @ js_lower (demo_hash CHR ''a'') @ ''/operations?limit=200'') = Body r
    \<and> \<not> jlt (jadd (total_to ''GB'' (records_of r)) AMOUNT_TOLERANCE) (plan_contribution (demo_plan pb))"
proof -
  obtain pb where "fund_check demo_fund_env demo_lender (demo_fund_body (demo_hash CHR ''a'') JUndef)
    (''L'', demo_hash CHR ''a'', ''GL'') (demo_fund_db 60000000) = Inr (demo_plan pb)"
    using demo_fund_check_default by blast
  from fund_check_paid [OF demo_fund_parse this] show ?thesis
    by (auto simp: demo_plan_def)
qed

lemma fund_default_closes_witness:
  "\<exists>pb r db' l. fund_commit demo_fund_env demo_lender (demo_plan pb) (demo_fund_db 60000000) = Inr (r, db')
    \<and> rlf_is_fully_funded r \<and> find (\<lambda>l. loan_id l = ''L'') (db_loans db') = Some l \<and> loan_status l = LoanActive"
proof -
  obtain pb where "fund_check demo_fund_env demo_lender (demo_fund_body (demo_hash CHR ''a'') JUndef)
    (''L'', demo_hash CHR ''a'', ''GL'') (demo_fund_db 60000000) = Inr (demo_plan pb)"
    using demo_fund_check_default by blast
  from fund_default_closes [OF demo_fund_parse this] show ?thesis
    by (fastforce simp: demo_fund_body_def demo_plan_def)
qed


text \<open>A run of two steps: the checks of the default contribution, and its commit.\<close>

lemma demo_commit:
  "\<exists>r db'. fund_commit demo_fund_env demo_lender (demo_plan pb) (demo_fund_db 60000000) = Inr (r, db')
    \<and> map loan_status (db_loans db') = [LoanActive]"
proof -
  have "shortest_dec 40 = 40" "to_column 40 = Some 40000000" "to_column (of_micro 60000000 + 40) = Some 100000000"
    by code_simp+
  moreover have "\<not> of_micro 40000000 < 40"
    by (simp add: of_micro_def)
  moreover have "sql_trim (demo_hash CHR ''a'') = demo_hash CHR ''a''" "demo_hash CHR ''a'' \<noteq> []"
    by (simp_all add: sql_trim_trimmed) (simp add: demo_hash_def)
  ultimately show ?thesis
    by (simp add: fund_commit_def demo_plan_def record_loan_funding_def demo_lender_def Let_def)
      (simp add: fund_row_def)
qed

lemma demo_run:
  "\<exists>db' M. loan_step\<^sup>*\<^sup>* (demo_world (demo_fund_db 60000000), {#}) (demo_world db', M)
    \<and> map loan_status (db_loans db') = [LoanActive]"
proof -
  let ?w = "demo_world (demo_fund_db 60000000)"
  obtain pb where check: "fund_check demo_fund_env demo_lender (demo_fund_body (demo_hash CHR ''a'') JUndef)
    (''L'', demo_hash CHR ''a'', ''GL'') (demo_fund_db 60000000) = Inr (demo_plan pb)"
    using demo_fund_check_default by blast
  obtain r db' where commit: "fund_commit demo_fund_env demo_lender (demo_plan pb) (demo_fund_db 60000000) = Inr (r, db')"
    and active: "map loan_status (db_loans db') = [LoanActive]"
    using demo_commit [of pb] by metis
  have "requireAuthenticatedUser demo_fund_env RoleLender = Inr demo_lender"
    by (simp add: requireAuthenticatedUser_def demo_fund_env_def) (simp add: demo_lender_def)
  then have "loan_step (?w, {#}) (?w, {#FundChecked demo_lender (demo_fund_body (demo_hash CHR ''a'') JUndef) (demo_plan pb)#})"
    using fund_reads [OF _ demo_fund_parse] check by (simp add: demo_world_def)
  moreover have "loan_step (?w, {#FundChecked demo_lender b (demo_plan pb)#})
      (set_db (\<lambda>_. db') ?w, {#FundRecorded demo_lender b (demo_plan pb) r#})" for b
    using commit by (intro fund_commits) (simp add: demo_world_def)
  moreover have "set_db (\<lambda>_. db') ?w = demo_world db'"
    by (simp add: demo_world_def set_db_def)
  ultimately have "loan_step\<^sup>*\<^sup>* (?w, {#}) (demo_world db',
      {#FundRecorded demo_lender (demo_fund_body (demo_hash CHR ''a'') JUndef) (demo_plan pb) r#})"
    by (metis converse_rtranclp_into_rtranclp r_into_rtranclp)
  with active show ?thesis
    by metis
qed

lemma demo_reachable: "loan_reachable (demo_world (demo_fund_db 60000000), {#})"
  by (rule loan_reachable.start) (simp add: demo_world_def demo_fund_books)

lemma loans_never_overfunded_witness:
  "\<exists>db' M l. loan_reachable (demo_world db', M) \<and> db_loans db' = [l] \<and> loan_status l = LoanActive
    \<and> 0 \<le> loan_fundedAmount l \<and> loan_fundedAmount l \<le> loan_principalAmount l"
proof -
  obtain db' M where run: "loan_step\<^sup>*\<^sup>* (demo_world (demo_fund_db 60000000), {#}) (demo_world db', M)"
    and active: "map loan_status (db_loans db') = [LoanActive]"
    using demo_run by metis
  have reach: "loan_reachable (demo_world db', M)"
    using loan_steps_reachable [OF run demo_reachable] .
  obtain l where "db_loans db' = [l]" "loan_status l = LoanActive"
    using active by auto
  then show ?thesis
    using loans_never_overfunded [OF reach, of l] reach by (auto simp: demo_world_def)
qed

text \<open>40 XLM into the loan with 20 of 100 XLM funded, then the same transaction again.\<close>

lemma demo_contribution_40: "\<exists>pb. fund_contribution (demo_loan 20000000) (JNum (Fin 40)) = Inr (pb, Fin 40)"
  by (rule exI [of _ "getFundingProgress (JNum (num_of_micro 100000000)) (JNum (num_of_micro 20000000))"]) code_simp


lemma demo_commit_40:
  fixes pb
  defines "p \<equiv> demo_plan pb\<lparr>plan_loan := demo_loan 20000000\<rparr>"
  shows "\<exists>r db'. fund_commit demo_fund_env demo_lender p (demo_fund_db 20000000) = Inr (r, db')
    \<and> db_loans db' = [demo_loan 60000000]
    \<and> lf_txHash ` set (db_loanFundings db') = {demo_hash CHR ''b'', demo_hash CHR ''a''}"
proof -
  have "shortest_dec 40 = 40" "to_column 40 = Some 40000000" "to_column (of_micro 20000000 + 40) = Some 60000000"
    by code_simp+
  moreover have "\<not> of_micro 80000000 < 40"
    by (simp add: of_micro_def)
  moreover have "sql_trim (demo_hash CHR ''a'') = demo_hash CHR ''a''" "demo_hash CHR ''a'' \<noteq> []"
    by (simp_all add: sql_trim_trimmed) (simp add: demo_hash_def)
  ultimately show ?thesis
    by (simp add: fund_commit_def p_def demo_plan_def record_loan_funding_def demo_lender_def Let_def)
      (auto simp: fund_row_def demo_loan_def demo_fund_db_def)
qed

lemma fund_hash_case_replay_witness:
  "\<exists>p r (db' :: database) p' r' (db'' :: database).
     fund_check demo_fund_env demo_lender (demo_fund_body (demo_hash CHR ''a'') (JNum (Fin 40)))
       (''L'', demo_hash CHR ''a'', ''GL'') (demo_fund_db 20000000) = Inr p
     \<and> fund_commit demo_fund_env demo_lender p (demo_fund_db 20000000) = Inr (r, db')
     \<and> fund_check demo_fund_env demo_lender (demo_fund_body (demo_hash CHR ''A'') JUndef)
         (''L'', demo_hash CHR ''A'', ''GL'') db' = Inr p'
     \<and> fund_commit demo_fund_env demo_lender p' db' = Inr (r', db'')
     \<and> map lf_amount (db_loanFundings db'') = [20000000, 40000000, 40000000]"
proof -
  obtain pb where "fund_contribution (demo_loan 20000000) (JNum (Fin 40)) = Inr (pb, Fin 40)"
    using demo_contribution_40 by blast
  define p where "p = demo_plan pb\<lparr>plan_loan := demo_loan 20000000\<rparr>"
  have p: "plan_canonicalId p = ''L''" "plan_contribution p = Fin 40"
    by (simp_all add: p_def demo_plan_def)
  have check: "fund_check demo_fund_env demo_lender (demo_fund_body (demo_hash CHR ''a'') (JNum (Fin 40)))
      (''L'', demo_hash CHR ''a'', ''GL'') (demo_fund_db 20000000) = Inr p"
    using demo_fund_check [OF \<open>fund_contribution _ _ = _\<close>] by (simp add: p_def demo_plan_def)
  obtain r db' where commit: "fund_commit demo_fund_env demo_lender p (demo_fund_db 20000000) = Inr (r, db')"
    and db': "db_loans db' = [demo_loan 60000000]" "lf_txHash ` set (db_loanFundings db') = {demo_hash CHR ''b'', demo_hash CHR ''a''}"
    unfolding p_def using demo_commit_40 [of pb] by metis
  obtain pb' where again: "fund_contribution (demo_loan 60000000) (fb_amount (demo_fund_body (demo_hash CHR ''A'') JUndef)) = Inr (pb', plan_contribution p)"
    using demo_default p(2) by (auto simp: demo_fund_body_def)
  have fresh: "demo_hash CHR ''A'' \<notin> lf_txHash ` set (db_loanFundings db')"
    unfolding db'(2) by (simp add: demo_hash_def)
  have loan: "find (\<lambda>l. loan_id l = plan_canonicalId p) (db_loans db') = Some (demo_loan 60000000)"
    by (simp add: db'(1) p(1) demo_loan_def)
  have amount: "dec_of_num (plan_contribution p) = Some 40"
    unfolding p(2) by code_simp
  have room: "of_micro (loan_fundedAmount (demo_loan 60000000)) + 40 \<le> of_micro (loan_principalAmount (demo_loan 60000000))"
    "0 \<le> loan_fundedAmount (demo_loan 60000000)" "loan_principalAmount (demo_loan 60000000) < 10 ^ 20" "funding_open (demo_loan 60000000)"
    by (simp_all add: demo_loan_def of_micro_def funding_open_def)
  have hashes: "js_lower (demo_hash CHR ''A'') = js_lower (demo_hash CHR ''a'')" "js_trim (demo_hash CHR ''a'') = demo_hash CHR ''a''"
    "js_trim (demo_hash CHR ''A'') = demo_hash CHR ''A''"
    by code_simp+
  obtain p' r' db'' where second: "fund_check demo_fund_env demo_lender (demo_fund_body (demo_hash CHR ''A'') JUndef)
      (''L'', demo_hash CHR ''A'', ''GL'') db' = Inr p'" "fund_commit demo_fund_env demo_lender p' db' = Inr (r', db'')"
    and rows: "map (\<lambda>r. (lf_loanId r, lf_lenderId r, lf_amount r, lf_txHash r)) (db_loanFundings db'') =
      map (\<lambda>r. (lf_loanId r, lf_lenderId r, lf_amount r, lf_txHash r)) (db_loanFundings (demo_fund_db 20000000))
        @ [(plan_canonicalId p, user_id demo_lender, round6 40, demo_hash CHR ''a''),
           (plan_canonicalId p, user_id demo_lender, round6 40, demo_hash CHR ''A'')]"
    using fund_hash_case_replay [OF check commit hashes fresh loan room(4) again amount room(1-3)] by blast
  have "round6 40 = 40000000"
    by code_simp
  then have "map lf_amount (db_loanFundings db'') = [20000000, 40000000, 40000000]"
    using arg_cong [OF rows, of "map (\<lambda>(_, _, n, _). n)"] by (simp add: comp_def demo_fund_db_def)
  with check commit second show ?thesis
    by (intro exI conjI)
qed

subsection \<open>The last millionth\<close>

lemma demo_last_full: "fp_isFullyFunded (getFundingProgress (JNum (num_of_micro 100000000)) (JNum (num_of_micro 99999999)))"
  by code_simp

lemma demo_last_refused: "fund_contribution (demo_loan 99999999) amt = Inl (409, FundAlreadyFull)"
  using demo_last_full by (simp add: fund_contribution_def)

lemma demo_last_check: "fund_check e u b q (demo_fund_db 99999999) \<noteq> Inr p"
proof
  assume "fund_check e u b q (demo_fund_db 99999999) = Inr p"
  moreover obtain i h a where "q = (i, h, a)"
    by (cases q)
  ultimately obtain l :: loan where "fund_contribution l (fb_amount b) = Inr (plan_before p, plan_contribution p)"
      "find (\<lambda>l. loan_id l = plan_canonicalId p) (db_loans (demo_fund_db 99999999)) = Some l"
    by (auto elim!: fund_check_Inr)
  then show False
    by (auto simp: demo_last_refused split: if_splits)
qed

text \<open>
  A loan of 100 XLM that lacks its last millionth can never be closed: its books are in
  order and it is open for funding, but whatever a lender sends, on whatever chain, the route
  changes nothing, because its tolerance already calls the loan fully funded.
\<close>

theorem fund_last_millionth_stuck:
  "books (demo_fund_db 99999999) \<and> funding_open (demo_loan 99999999)
   \<and> snd (POST_fund e b (demo_world (demo_fund_db 99999999))) = demo_world (demo_fund_db 99999999)"
proof -
  have "w_db (demo_world db) = db" for db
    by (simp add: demo_world_def)
  then show ?thesis
    using demo_last_check
    by (auto simp: demo_fund_books funding_open_def POST_fund_def bindE_def split: sum.splits)
qed

end
