(* ===== verification/DepositRoute.thy ===== *)
theory DepositRoute
  imports FundRoute
begin

text \<open>
  \<open>POST /api/pools/deposit\<close>, \<open>src/app/api/pools/deposit/route.ts\<close>, and the payout from the
  platform wallet, \<open>src/lib/stellar/platform-wallet.ts\<close>. \<open>deposit_check\<close> reads and verifies,
  \<open>deposit_record\<close> writes the position, the pool and the ledger entry.
\<close>

subsection \<open>The platform wallet\<close>

text \<open>\<open>a ?? b ?? ""\<close> over two environment variables\<close>

definition platformWalletAddress :: "env \<Rightarrow> string" where
  "platformWalletAddress e =
     (case env_platformAddress e of
        Some a \<Rightarrow> a
      | None \<Rightarrow> opt_string (env_platformFeeWallet e))"

definition getPlatformKeypair :: "env \<Rightarrow> payout_error + string option" where
  "getPlatformKeypair e =
     (case env_platformWalletKey e of
        None \<Rightarrow> Inr None
      | Some None \<Rightarrow> Inl (PlatformWalletError ''PLATFORM_WALLET_SECRET is not a valid Stellar secret key'')
      | Some (Some k) \<Rightarrow> Inr (Some k))"

text \<open>
  The submission of the payment is outside the program: \<open>env_submitPayout\<close> answers with the
  hash or the error. Whatever it answers, it was asked, so the request is logged.
\<close>

definition payoutFromPlatformWallet :: "env \<Rightarrow> string \<Rightarrow> jsnum \<Rightarrow> string \<Rightarrow> world
    \<Rightarrow> (payout_error + payout_result) \<times> world" where
  "payoutFromPlatformWallet e dest amountXlm memo w =
     (case getPlatformKeypair e of
        Inl err \<Rightarrow> (Inl err, w)
      | Inr None \<Rightarrow>
          (Inl (PlatformWalletError ''PLATFORM_WALLET_SECRET is not configured''), w)
      | Inr (Some signer) \<Rightarrow>
          if platformWalletAddress e \<noteq> [] \<and> platformWalletAddress e \<noteq> signer
          then (Inl (PlatformWalletError ''PLATFORM_WALLET_SECRET does not belong to NEXT_PUBLIC_PLATFORM_STELLAR_ADDRESS''), w)
          else if \<not> jlt (Fin 0) amountXlm \<or> \<not> is_finite amountXlm
          then (Inl (PlatformWalletError ''Payout amount must be a positive number''), w)
          else (let w' = log_effect (WalletPayout dest (fixed_num 7 amountXlm) (take 28 memo)) w
                in case env_submitPayout e dest amountXlm memo of
                     Inl m \<Rightarrow> (Inl (PayoutError m), w')
                   | Inr hash \<Rightarrow> (Inr \<lparr>po_hash = hash, po_source = signer\<rparr>, w')))"

subsection \<open>The deposit\<close>

record deposit_body =
  dep_poolId :: jsval
  dep_amount :: jsval
  dep_txHash :: jsval
  dep_lenderAddress :: jsval

datatype deposit_error =
    DepositRateLimited
  | DepositDbUnavailable
  | DepositKyc kyc_reason "kyc_status option"
  | DepositInvalid
  | DepositTooLarge
  | DepositHashRequired
  | DepositReplayed
  | DepositNoPool
  | DepositNotConfigured
  | DepositWalletMismatch
  | DepositUnverified verify_reason
  | DepositInternal

record deposit_ok =
  do_position :: pool_position
  do_txHash :: string
  do_onchain :: pool_sync_outcome

type_synonym deposit_answer = "(deposit_error + deposit_ok) answer"

record deposit_request =
  dreq_poolId :: string
  dreq_amount :: jsnum
  dreq_txHash :: string
  dreq_lenderAddress :: string

definition MAX_POOL_AMOUNT :: jsnum where
  "MAX_POOL_AMOUNT = Fin 1000000"

text \<open>
  \<open>!amount || amount <= 0 || !Number.isFinite(amount)\<close>: only a positive number passes, as
  \<open>Number.isFinite\<close> is false on what is not a number.
\<close>

definition positive_number :: "jsval \<Rightarrow> jsnum option" where
  "positive_number v =
     (case v of JNum x \<Rightarrow> if num_truthy x \<and> \<not> jle x (Fin 0) \<and> is_finite x then Some x else None
      | _ \<Rightarrow> None)"

definition deposit_parse :: "deposit_body \<Rightarrow> (int \<times> deposit_error) + deposit_request" where
  "deposit_parse b =
     (case positive_number (dep_amount b) of
        None \<Rightarrow> Inl (400, DepositInvalid)
      | Some amount \<Rightarrow>
          if \<not> isBoundedString (dep_poolId b) 128 then Inl (400, DepositInvalid)
          else if jlt MAX_POOL_AMOUNT amount then Inl (400, DepositTooLarge)
          else if \<not> isBoundedString (dep_txHash b) 128 \<or> \<not> isBoundedString (dep_lenderAddress b) 128
          then Inl (400, DepositHashRequired)
          else Inr \<lparr>dreq_poolId = js_to_string (dep_poolId b), dreq_amount = amount,
                    dreq_txHash = js_to_string (dep_txHash b),
                    dreq_lenderAddress = js_to_string (dep_lenderAddress b)\<rparr>)"

text \<open>A ledger entry of any kind that carries the hash, to the letter.\<close>

definition ledger_has_hash :: "string \<Rightarrow> database \<Rightarrow> bool" where
  "ledger_has_hash txHash db =
     (\<exists>t \<in> set (db_ledgerTransactions db). meta_text (lt_metadata t) ''txHash'' = Some txHash)"

record deposit_plan =
  dp_request :: deposit_request
  dp_poolId :: string \<comment> \<open>the \<open>uuid\<close> the request's pool id denotes\<close>
  dp_verified :: verified_payment

definition deposit_check :: "env \<Rightarrow> session_user \<Rightarrow> deposit_request \<Rightarrow> database
    \<Rightarrow> (int \<times> deposit_error) + deposit_plan" where
  "deposit_check e user r db =
     (if ledger_has_hash (dreq_txHash r) db then Inl (409, DepositReplayed)
      else case env_pgUuid e (dreq_poolId r) of
        None \<Rightarrow> Inl (500, DepositInternal)
      | Some poolId \<Rightarrow>
          if find (\<lambda>p. pool_id p = poolId \<and> pool_status p = PoolActive) (db_lendingPools db) = None
          then Inl (404, DepositNoPool)
          else if platformWalletAddress e = [] then Inl (503, DepositNotConfigured)
          else if dreq_lenderAddress r = []
               \<or> dreq_lenderAddress r \<notin> set (linked_wallets user (profile_wallet (user_id user) db))
          then Inl (400, DepositWalletMismatch)
          else case verifyPaymentTransaction (env_horizon e) (Fin (of_int (env_now e)))
                  \<lparr>vp_txHash = dreq_txHash r, vp_expectedSource = dreq_lenderAddress r,
                   vp_expectedPayments = [\<lparr>destination = platformWalletAddress e, minAmount = dreq_amount r\<rparr>],
                   vp_expectedMemo = Some (memo_deposit (dreq_poolId r)), vp_allowOtherDestinations = False,
                   vp_maxAgeSeconds = None, vp_horizonUrl = env_horizonUrl e\<rparr> of
            Inl (status, reason) \<Rightarrow> Inl (status, DepositUnverified reason)
          | Inr v \<Rightarrow> Inr \<lparr>dp_request = r, dp_poolId = poolId, dp_verified = v\<rparr>)"

subsection \<open>The writes\<close>

text \<open>\<open>column + amount\<close> and \<open>column - amount\<close>, rounded back to the column\<close>

definition col_add :: "int \<Rightarrow> rat \<Rightarrow> int" where
  "col_add n r = round6 (of_micro n + r)"

definition col_sub :: "int \<Rightarrow> rat \<Rightarrow> int" where
  "col_sub n r = round6 (of_micro n - r)"

definition active_position :: "string \<Rightarrow> string \<Rightarrow> pool_position \<Rightarrow> bool" where
  "active_position poolId userId p =
     (pos_poolId p = poolId \<and> pos_lenderId p = userId \<and> pos_status p = PositionActive)"

definition add_principal :: "rat \<Rightarrow> pool_position \<Rightarrow> pool_position" where
  "add_principal amount p = p\<lparr>pos_principalAmount := col_add (pos_principalAmount p) amount\<rparr>"

definition add_liquidity :: "rat \<Rightarrow> lending_pool \<Rightarrow> lending_pool" where
  "add_liquidity amount p =
     p\<lparr>pool_totalLiquidity := col_add (pool_totalLiquidity p) amount,
       pool_availableLiquidity := col_add (pool_availableLiquidity p) amount\<rparr>"

text \<open>The user's active position in the pool, if there is one.\<close>

definition find_position :: "string \<Rightarrow> string \<Rightarrow> database \<Rightarrow> string option" where
  "find_position poolId userId db =
     map_option pos_id (find (active_position poolId userId) (db_poolPositions db))"

text \<open>
  The upsert, given what the look-up has found: the row that is returned, if any, and the
  database. \<open>None\<close> is an insert whose identifier the primary key already has.
\<close>

definition place_position :: "env \<Rightarrow> string \<Rightarrow> string \<Rightarrow> rat \<Rightarrow> string option \<Rightarrow> database
    \<Rightarrow> (pool_position option \<times> database) option" where
  "place_position e poolId userId amount existing db =
     (case existing of
        Some i \<Rightarrow>
          (let rows = update_where (\<lambda>p. pos_id p = i) (add_principal amount) (db_poolPositions db)
           in Some (find (\<lambda>p. pos_id p = i) rows, db\<lparr>db_poolPositions := rows\<rparr>))
      | None \<Rightarrow>
          (let i = env_genUuid e (db_uuids db);
               p = \<lparr>pos_id = i, pos_poolId = poolId, pos_lenderId = userId,
                    pos_status = PositionActive, pos_principalAmount = round6 amount,
                    pos_earnedInterest = 0, pos_withdrawnAmount = 0, pos_closedAt = None\<rparr>
           in if i \<in> set (map pos_id (db_poolPositions db)) then None
              else Some (Some p, db\<lparr>db_poolPositions := db_poolPositions db @ [p], db_uuids := Suc (db_uuids db)\<rparr>)))"

definition credit_pool :: "string \<Rightarrow> rat \<Rightarrow> database \<Rightarrow> database" where
  "credit_pool poolId amount db =
     db\<lparr>db_lendingPools := update_where (\<lambda>p. pool_id p = poolId) (add_liquidity amount) (db_lendingPools db)\<rparr>"

definition deposit_ledger_row :: "session_user \<Rightarrow> deposit_plan \<Rightarrow> rat \<Rightarrow> string \<Rightarrow> string \<Rightarrow> ledger_transaction" where
  "deposit_ledger_row user p amount positionId uuid =
     \<lparr> lt_id = uuid, lt_userId = user_id user, lt_category = ''deposit'', lt_amount = round6 amount,
       lt_currency = ''XLM'', lt_status = TxConfirmed, lt_refType = Some ''pool_position'',
       lt_refId = Some positionId,
       lt_metadata = JObj
         [(''txHash'', JStr (dreq_txHash (dp_request p))),
          (''lenderAddress'', JStr (dreq_lenderAddress (dp_request p))),
          (''poolId'', JStr (dreq_poolId (dp_request p))),
          (''verifiedLedger'', JNum (Fin (of_int (v_ledger (dp_verified p)))))] \<rparr>"

text \<open>The ledger entry and the mirror; an entry whose identifier is taken is an error.\<close>

definition deposit_finish :: "env \<Rightarrow> session_user \<Rightarrow> deposit_plan \<Rightarrow> rat \<Rightarrow> pool_position \<Rightarrow> world
    \<Rightarrow> deposit_answer \<times> world" where
  "deposit_finish e user p amount position w =
     (let uuid = env_genUuid e (db_uuids (w_db w)) in
      if uuid \<in> set (map lt_id (db_ledgerTransactions (w_db w))) then (Answer 500 (Inl DepositInternal), w)
      else (let (onchain, w') = syncPoolOnchain e (dp_poolId p)
                  (set_db (insert_ledger (deposit_ledger_row user p amount (pos_id position) uuid)) w)
            in (Answer 201 (Inr \<lparr>do_position = position, do_txHash = dreq_txHash (dp_request p),
                  do_onchain = onchain\<rparr>), w')))"

text \<open>
  An amount of at most a million XLM fits its columns; a total that outgrows them is an
  error the model leaves out.
\<close>

definition deposit_record :: "env \<Rightarrow> session_user \<Rightarrow> deposit_plan \<Rightarrow> world \<Rightarrow> deposit_answer \<times> world" where
  "deposit_record e user p w =
     (case dec_of_num (dreq_amount (dp_request p)) of
        None \<Rightarrow> (Answer 500 (Inl DepositInternal), w)
      | Some amount \<Rightarrow>
          (case place_position e (dp_poolId p) (user_id user) amount
                  (find_position (dp_poolId p) (user_id user) (w_db w)) (w_db w) of
             None \<Rightarrow> (Answer 500 (Inl DepositInternal), w)
           | Some (position, db1) \<Rightarrow>
               (let w1 = set_db (\<lambda>_. credit_pool (dp_poolId p) amount db1) w in
                case position of
                  None \<Rightarrow> (Answer 500 (Inl DepositInternal), w1)
                | Some pos \<Rightarrow> deposit_finish e user p amount pos w1)))"

definition POST_deposit :: "env \<Rightarrow> deposit_body \<Rightarrow> world \<Rightarrow> deposit_answer \<times> world" where
  "POST_deposit e b w =
     (if env_rateLimited e then (Answer 429 (Inl DepositRateLimited), w)
      else case requireAuthenticatedUser e RoleLender of
        Inl url \<Rightarrow> (Redirect url, w)
      | Inr user \<Rightarrow>
          if \<not> env_dbAvailable e then (Answer 503 (Inl DepositDbUnavailable), w)
          else case requireKycVerified (user_id user) (w_db w) True of
            KycDenied reason st \<Rightarrow> (Answer 403 (Inl (DepositKyc reason st)), w)
          | KycAllowed _ \<Rightarrow>
              (case bindE (deposit_parse b) (\<lambda>r. deposit_check e user r (w_db w)) of
                 Inl (status, err) \<Rightarrow> (Answer status (Inl err), w)
               | Inr p \<Rightarrow> deposit_record e user p w))"

end
