(* ===== verification/WithdrawRoute.thy ===== *)
theory WithdrawRoute
  imports DepositRoute
begin

text \<open>
  \<open>POST /api/pools/withdraw\<close>, \<open>src/app/api/pools/withdraw/route.ts\<close>. The handler reserves
  before it pays: a pending ledger entry keyed by the idempotency key, then the position, then
  the pool, each by one conditional statement; a failure releases what was taken. Every
  statement is a definition of its own, so that the interleavings of two requests can be
  stated; \<open>POST_withdraw\<close> runs them in a row.
\<close>

record withdraw_body =
  wb_positionId :: jsval
  wb_amount :: jsval

datatype withdraw_error =
    WithdrawRateLimited
  | WithdrawKeyRequired
  | WithdrawInvalid
  | WithdrawTooLarge
  | WithdrawDbUnavailable
  | WithdrawNoPosition
  | WithdrawOverPrincipal
  | WithdrawNoPool
  | WithdrawNoLiquidity
  | WithdrawNoWallet
  | WithdrawPrecision
  | WithdrawDuplicate
  | WithdrawChanged
  | WithdrawUnavailable string
  | WithdrawPayoutFailed string
  | WithdrawInternal

record withdraw_ok =
  wo_amount :: jsnum
  wo_txHash :: string
  wo_onchain :: pool_sync_outcome

type_synonym withdraw_answer = "(withdraw_error + withdraw_ok) answer"

definition idempotency_key :: "string option \<Rightarrow> string" where
  "idempotency_key header = opt_string (map_option js_trim header)"

definition withdraw_parse :: "string option \<Rightarrow> withdraw_body \<Rightarrow> (int \<times> withdraw_error) + (string \<times> string \<times> jsnum)" where
  "withdraw_parse header b =
     (let key = idempotency_key header in
      if length key < 8 \<or> 128 < length key then Inl (400, WithdrawKeyRequired)
      else case positive_number (wb_amount b) of
        None \<Rightarrow> Inl (400, WithdrawInvalid)
      | Some amount \<Rightarrow>
          if \<not> isBoundedString (wb_positionId b) 128 then Inl (400, WithdrawInvalid)
          else if jlt MAX_POOL_AMOUNT amount then Inl (400, WithdrawTooLarge)
          else Inr (key, js_to_string (wb_positionId b), amount))"

record withdraw_plan =
  wp_key :: string
  wp_rawId :: string
  wp_positionId :: string
  wp_poolId :: string
  wp_destination :: string
  wp_amount :: jsnum \<comment> \<open>\<open>withdrawalAmount\<close>\<close>
  wp_decimal :: rat \<comment> \<open>\<open>String(withdrawalAmount)\<close> as Postgres reads it\<close>

definition withdraw_destination :: "session_user \<Rightarrow> database \<Rightarrow> string" where
  "withdraw_destination user db =
     (case profile_wallet (user_id user) db of
        Some w \<Rightarrow> if w \<noteq> [] then w else user_walletAddress user
      | None \<Rightarrow> user_walletAddress user)"

definition withdraw_check :: "env \<Rightarrow> session_user \<Rightarrow> (string \<times> string \<times> jsnum) \<Rightarrow> database
    \<Rightarrow> (int \<times> withdraw_error) + withdraw_plan" where
  "withdraw_check e user = (\<lambda>(key, rawId, amount) db.
     case env_pgUuid e rawId of
       None \<Rightarrow> Inl (500, WithdrawInternal)
     | Some positionId \<Rightarrow>
       (case find (\<lambda>p. pos_id p = positionId \<and> pos_lenderId p = user_id user \<and> pos_status p = PositionActive)
               (db_poolPositions db) of
          None \<Rightarrow> Inl (404, WithdrawNoPosition)
        | Some position \<Rightarrow>
            if jlt (num_of_micro (pos_principalAmount position)) amount then Inl (400, WithdrawOverPrincipal)
            else (case find (\<lambda>p. pool_id p = pos_poolId position) (db_lendingPools db) of
               None \<Rightarrow> Inl (404, WithdrawNoPool)
             | Some pool \<Rightarrow>
                 if jlt (num_of_micro (pool_availableLiquidity pool)) amount then Inl (400, WithdrawNoLiquidity)
                 else if withdraw_destination user db = [] then Inl (409, WithdrawNoWallet)
                 else (let withdrawalAmount = fixed_num 7 amount in
                   if jle withdrawalAmount (Fin 0)
                      \<or> jlt (num_of_micro (pos_principalAmount position)) withdrawalAmount
                   then Inl (400, WithdrawPrecision)
                   else case dec_of_num withdrawalAmount of
                     None \<Rightarrow> Inl (500, WithdrawInternal)
                   | Some d \<Rightarrow>
                       Inr \<lparr>wp_key = key, wp_rawId = rawId, wp_positionId = positionId,
                            wp_poolId = pos_poolId position,
                            wp_destination = withdraw_destination user db,
                            wp_amount = withdrawalAmount, wp_decimal = d\<rparr>))))"

subsection \<open>The reservation\<close>

text \<open>
  The partial unique index \<open>idx_ledger_withdrawal_idempotency\<close> of
  \<open>src/drizzle/0004_withdrawal_idempotency.sql\<close>: one withdrawal entry per user and key. The
  insert ignores every conflict, of this index or of the primary key, and then returns no row.
\<close>

definition withdrawal_key :: "ledger_transaction \<Rightarrow> string option" where
  "withdrawal_key t =
     (if lt_category t = ''withdrawal'' then meta_text (lt_metadata t) ''withdrawalIdempotencyKey'' else None)"

definition key_used :: "string \<Rightarrow> string \<Rightarrow> database \<Rightarrow> bool" where
  "key_used userId key db =
     (\<exists>t \<in> set (db_ledgerTransactions db). lt_userId t = userId \<and> withdrawal_key t = Some key)"

definition reservation_row :: "session_user \<Rightarrow> withdraw_plan \<Rightarrow> string \<Rightarrow> ledger_transaction" where
  "reservation_row user p uuid =
     \<lparr> lt_id = uuid, lt_userId = user_id user, lt_category = ''withdrawal'',
       lt_amount = round6 (wp_decimal p), lt_currency = ''XLM'', lt_status = TxPending,
       lt_refType = Some ''pool_position'', lt_refId = Some (wp_positionId p),
       lt_metadata = JObj [(''withdrawalIdempotencyKey'', JStr (wp_key p))] \<rparr>"

definition reserve_ledger :: "env \<Rightarrow> session_user \<Rightarrow> withdraw_plan \<Rightarrow> database \<Rightarrow> (string \<times> database) option" where
  "reserve_ledger e user p db =
     (let uuid = env_genUuid e (db_uuids db) in
      if key_used (user_id user) (wp_key p) db \<or> uuid \<in> set (map lt_id (db_ledgerTransactions db)) then None
      else Some (uuid, insert_ledger (reservation_row user p uuid) db))"

definition take_principal :: "rat \<Rightarrow> int \<Rightarrow> pool_position \<Rightarrow> pool_position" where
  "take_principal w tm p =
     p\<lparr>pos_principalAmount := col_sub (pos_principalAmount p) w,
       pos_withdrawnAmount := col_add (pos_withdrawnAmount p) w,
       pos_status := (if of_micro (pos_principalAmount p) - w \<le> 0 then PositionClosed else PositionActive),
       pos_closedAt := (if of_micro (pos_principalAmount p) - w \<le> 0 then Some tm else None)\<rparr>"

definition reservable :: "session_user \<Rightarrow> withdraw_plan \<Rightarrow> pool_position \<Rightarrow> bool" where
  "reservable user p pos =
     (pos_id pos = wp_positionId p \<and> pos_lenderId pos = user_id user \<and> pos_status pos = PositionActive
      \<and> wp_decimal p \<le> of_micro (pos_principalAmount pos))"

definition reserve_position :: "env \<Rightarrow> session_user \<Rightarrow> withdraw_plan \<Rightarrow> database \<Rightarrow> database option" where
  "reserve_position e user p db =
     (if find (reservable user p) (db_poolPositions db) = None then None
      else Some (db\<lparr>db_poolPositions := update_where (reservable user p)
             (take_principal (wp_decimal p) (env_now e)) (db_poolPositions db)\<rparr>))"

definition take_liquidity :: "rat \<Rightarrow> lending_pool \<Rightarrow> lending_pool" where
  "take_liquidity w p =
     p\<lparr>pool_totalLiquidity := col_sub (pool_totalLiquidity p) w,
       pool_availableLiquidity := col_sub (pool_availableLiquidity p) w\<rparr>"

definition pool_covers :: "withdraw_plan \<Rightarrow> lending_pool \<Rightarrow> bool" where
  "pool_covers p pool =
     (pool_id pool = wp_poolId p \<and> wp_decimal p \<le> of_micro (pool_availableLiquidity pool))"

definition reserve_pool :: "withdraw_plan \<Rightarrow> database \<Rightarrow> database option" where
  "reserve_pool p db =
     (if find (pool_covers p) (db_lendingPools db) = None then None
      else Some (db\<lparr>db_lendingPools := update_where (pool_covers p) (take_liquidity (wp_decimal p))
             (db_lendingPools db)\<rparr>))"

subsection \<open>Release and confirmation\<close>

definition return_principal :: "rat \<Rightarrow> pool_position \<Rightarrow> pool_position" where
  "return_principal w p =
     p\<lparr>pos_principalAmount := col_add (pos_principalAmount p) w,
       pos_withdrawnAmount := col_sub (pos_withdrawnAmount p) w,
       pos_status := PositionActive, pos_closedAt := None\<rparr>"

definition release_position :: "withdraw_plan \<Rightarrow> database \<Rightarrow> database" where
  "release_position p db =
     db\<lparr>db_poolPositions := update_where (\<lambda>pos. pos_id pos = wp_positionId p)
       (return_principal (wp_decimal p)) (db_poolPositions db)\<rparr>"

definition release_pool :: "withdraw_plan \<Rightarrow> database \<Rightarrow> database" where
  "release_pool p db = credit_pool (wp_poolId p) (wp_decimal p) db"

definition set_ledger_status :: "string \<Rightarrow> tx_status \<Rightarrow> database \<Rightarrow> database" where
  "set_ledger_status ledgerId st db =
     db\<lparr>db_ledgerTransactions := update_where (\<lambda>t. lt_id t = ledgerId) (\<lambda>t. t\<lparr>lt_status := st\<rparr>)
       (db_ledgerTransactions db)\<rparr>"

definition confirm_withdrawal :: "withdraw_plan \<Rightarrow> string \<Rightarrow> payout_result \<Rightarrow> database \<Rightarrow> database" where
  "confirm_withdrawal p ledgerId paid db =
     db\<lparr>db_ledgerTransactions := update_where (\<lambda>t. lt_id t = ledgerId)
       (\<lambda>t. t\<lparr>lt_status := TxConfirmed,
             lt_metadata := JObj
               [(''withdrawalIdempotencyKey'', JStr (wp_key p)), (''txHash'', JStr (po_hash paid)),
                (''lenderAddress'', JStr (wp_destination p)), (''platformWallet'', JStr (po_source paid))]\<rparr>)
       (db_ledgerTransactions db)\<rparr>"

fun payout_answer :: "payout_error \<Rightarrow> int \<times> withdraw_error" where
  "payout_answer (PlatformWalletError m) = (503, WithdrawUnavailable m)"
| "payout_answer (PayoutError m) = (502, WithdrawPayoutFailed m)"

definition withdraw_pay :: "env \<Rightarrow> withdraw_plan \<Rightarrow> string \<Rightarrow> world \<Rightarrow> withdraw_answer \<times> world" where
  "withdraw_pay e p ledgerId w =
     (case payoutFromPlatformWallet e (wp_destination p) (wp_amount p) (memo_withdraw (wp_rawId p)) w of
        (Inl err, w') \<Rightarrow>
          (Answer (fst (payout_answer err)) (Inl (snd (payout_answer err))),
           set_db (set_ledger_status ledgerId TxFailed o release_pool p o release_position p) w')
      | (Inr paid, w') \<Rightarrow>
          (let (onchain, w'') = syncPoolOnchain e (wp_poolId p) (set_db (confirm_withdrawal p ledgerId paid) w')
           in (Answer 200 (Inr \<lparr>wo_amount = wp_amount p, wo_txHash = po_hash paid, wo_onchain = onchain\<rparr>), w'')))"

definition withdraw_run :: "env \<Rightarrow> session_user \<Rightarrow> withdraw_plan \<Rightarrow> world \<Rightarrow> withdraw_answer \<times> world" where
  "withdraw_run e user p w =
     (case reserve_ledger e user p (w_db w) of
        None \<Rightarrow> (Answer 409 (Inl WithdrawDuplicate), w)
      | Some (ledgerId, db1) \<Rightarrow>
          (case reserve_position e user p db1 of
             None \<Rightarrow> (Answer 409 (Inl WithdrawChanged), set_db (\<lambda>_. set_ledger_status ledgerId TxFailed db1) w)
           | Some db2 \<Rightarrow>
               (case reserve_pool p db2 of
                  None \<Rightarrow> (Answer 400 (Inl WithdrawNoLiquidity),
                    set_db (\<lambda>_. set_ledger_status ledgerId TxFailed (release_position p db2)) w)
                | Some db3 \<Rightarrow> withdraw_pay e p ledgerId (set_db (\<lambda>_. db3) w))))"

definition POST_withdraw :: "env \<Rightarrow> string option \<Rightarrow> withdraw_body \<Rightarrow> world \<Rightarrow> withdraw_answer \<times> world" where
  "POST_withdraw e header b w =
     (if env_rateLimited e then (Answer 429 (Inl WithdrawRateLimited), w)
      else case requireAuthenticatedUser e RoleLender of
        Inl url \<Rightarrow> (Redirect url, w)
      | Inr user \<Rightarrow>
          (case withdraw_parse header b of
             Inl (status, err) \<Rightarrow> (Answer status (Inl err), w)
           | Inr q \<Rightarrow>
               if \<not> env_dbAvailable e then (Answer 500 (Inl WithdrawDbUnavailable), w)
               else (case withdraw_check e user q (w_db w) of
                  Inl (status, err) \<Rightarrow> (Answer status (Inl err), w)
                | Inr p \<Rightarrow> withdraw_run e user p w)))"

end
