(* ===== verification/PoolProcess.thy ===== *)
theory PoolProcess
  imports WithdrawRoute "HOL-Library.Multiset"
begin

text \<open>
  Deposits and withdrawals running side by side. Every statement that reads or writes the
  database is a step, so a request can be overtaken between any two of them; a request in
  flight is a task that carries what it has learned so far.
\<close>

subsection \<open>Tasks and steps\<close>

datatype pool_task =
    DepositChecked session_user deposit_plan
  | DepositFound session_user deposit_plan rat "string option"
  | DepositPlaced session_user deposit_plan rat "pool_position option"
  | DepositCredited session_user deposit_plan rat pool_position
  | WithdrawChecked session_user withdraw_plan
  | Keyed session_user withdraw_plan string
  | PositionTaken session_user withdraw_plan string
  | PoolRefused withdraw_plan string
  | PoolTaken session_user withdraw_plan string
  | Paid withdraw_plan string payout_result
  | PayFailed withdraw_plan string
  | PositionReleased withdraw_plan string
  | Failing string

type_synonym pool_system = "world \<times> pool_task multiset"

abbreviation with_db :: "world \<Rightarrow> database \<Rightarrow> world" where
  "with_db w db \<equiv> set_db (\<lambda>_. db) w"

inductive pool_step :: "pool_system \<Rightarrow> pool_system \<Rightarrow> bool" where
  deposit_reads: "requireAuthenticatedUser e RoleLender = Inr u \<Longrightarrow>
    requireKycVerified (user_id u) (w_db w) True = KycAllowed k \<Longrightarrow> deposit_parse b = Inr r \<Longrightarrow>
    deposit_check e u r (w_db w) = Inr p \<Longrightarrow> pool_step (w, M) (w, add_mset (DepositChecked u p) M)"
| deposit_finds: "dec_of_num (dreq_amount (dp_request p)) = Some a \<Longrightarrow>
    pool_step (w, add_mset (DepositChecked u p) M)
      (w, add_mset (DepositFound u p a (find_position (dp_poolId p) (user_id u) (w_db w))) M)"
| deposit_places: "place_position e (dp_poolId p) (user_id u) a found (w_db w) = Some (pos, db') \<Longrightarrow>
    pool_step (w, add_mset (DepositFound u p a found) M) (with_db w db', add_mset (DepositPlaced u p a pos) M)"
| deposit_conflicts: "place_position e (dp_poolId p) (user_id u) a found (w_db w) = None \<Longrightarrow>
    pool_step (w, add_mset (DepositFound u p a found) M) (w, M)"
| deposit_credits: "pool_step (w, add_mset (DepositPlaced u p a (Some pos)) M)
    (set_db (credit_pool (dp_poolId p) a) w, add_mset (DepositCredited u p a pos) M)"
| deposit_loses: "pool_step (w, add_mset (DepositPlaced u p a None) M)
    (set_db (credit_pool (dp_poolId p) a) w, M)"
| deposit_ends: "deposit_finish e u p a pos w = (r, w') \<Longrightarrow>
    pool_step (w, add_mset (DepositCredited u p a pos) M) (w', M)"
| withdraw_reads: "requireAuthenticatedUser e RoleLender = Inr u \<Longrightarrow> withdraw_parse header b = Inr q \<Longrightarrow>
    withdraw_check e u q (w_db w) = Inr p \<Longrightarrow> pool_step (w, M) (w, add_mset (WithdrawChecked u p) M)"
| withdraw_keys: "reserve_ledger e u p (w_db w) = Some (i, db') \<Longrightarrow>
    pool_step (w, add_mset (WithdrawChecked u p) M) (with_db w db', add_mset (Keyed u p i) M)"
| withdraw_repeats: "reserve_ledger e u p (w_db w) = None \<Longrightarrow>
    pool_step (w, add_mset (WithdrawChecked u p) M) (w, M)"
| position_takes: "reserve_position e u p (w_db w) = Some db' \<Longrightarrow>
    pool_step (w, add_mset (Keyed u p i) M) (with_db w db', add_mset (PositionTaken u p i) M)"
| position_refuses: "reserve_position e u p (w_db w) = None \<Longrightarrow>
    pool_step (w, add_mset (Keyed u p i) M) (w, add_mset (Failing i) M)"
| pool_takes: "reserve_pool p (w_db w) = Some db' \<Longrightarrow>
    pool_step (w, add_mset (PositionTaken u p i) M) (with_db w db', add_mset (PoolTaken u p i) M)"
| pool_refuses: "reserve_pool p (w_db w) = None \<Longrightarrow>
    pool_step (w, add_mset (PositionTaken u p i) M) (w, add_mset (PoolRefused p i) M)"
| refused_releases: "pool_step (w, add_mset (PoolRefused p i) M)
    (set_db (release_position p) w, add_mset (Failing i) M)"
| pays: "payoutFromPlatformWallet e (wp_destination p) (wp_amount p) (memo_withdraw (wp_rawId p)) w = (Inr r, w') \<Longrightarrow>
    pool_step (w, add_mset (PoolTaken u p i) M) (w', add_mset (Paid p i r) M)"
| pay_fails: "payoutFromPlatformWallet e (wp_destination p) (wp_amount p) (memo_withdraw (wp_rawId p)) w = (Inl err, w') \<Longrightarrow>
    pool_step (w, add_mset (PoolTaken u p i) M) (w', add_mset (PayFailed p i) M)"
| confirms: "syncPoolOnchain e (wp_poolId p) (set_db (confirm_withdrawal p i r) w) = (o', w') \<Longrightarrow>
    pool_step (w, add_mset (Paid p i r) M) (w', M)"
| failed_releases: "pool_step (w, add_mset (PayFailed p i) M)
    (set_db (release_position p) w, add_mset (PositionReleased p i) M)"
| released_credits: "pool_step (w, add_mset (PositionReleased p i) M)
    (set_db (release_pool p) w, add_mset (Failing i) M)"
| fails: "pool_step (w, add_mset (Failing i) M) (set_db (set_ledger_status i TxFailed) w, M)"

subsection \<open>A request that is not overtaken\<close>

lemma steps_trans: "pool_step a b \<Longrightarrow> pool_step\<^sup>*\<^sup>* b c \<Longrightarrow> pool_step\<^sup>*\<^sup>* a c"
  by (rule converse_rtranclp_into_rtranclp)

lemma set_db_comp: "set_db f (set_db g w) = set_db (f o g) w"
  by (simp add: set_db_def)

lemma withdraw_pay_steps:
  assumes "withdraw_pay e p i w = (a, w')"
  shows "pool_step\<^sup>*\<^sup>* (w, add_mset (PoolTaken u p i) M) (w', M)"
proof -
  obtain r w1 where pay: "payoutFromPlatformWallet e (wp_destination p) (wp_amount p) (memo_withdraw (wp_rawId p)) w = (r, w1)"
    by fastforce
  show ?thesis
  proof (cases r)
    case (Inl err)
    have "w' = set_db (set_ledger_status i TxFailed) (set_db (release_pool p) (set_db (release_position p) w1))"
      using assms pay Inl by (simp add: withdraw_pay_def set_db_comp comp_assoc)
    then show ?thesis
      using pay_fails [OF pay [unfolded Inl]] failed_releases released_credits fails
      by (metis (no_types) steps_trans rtranclp.rtrancl_refl)
  next
    case (Inr paid)
    then have "\<exists>o'. syncPoolOnchain e (wp_poolId p) (set_db (confirm_withdrawal p i paid) w1) = (o', w')"
      using assms pay by (auto simp: withdraw_pay_def Let_def split: prod.splits)
    then show ?thesis
      using pays [OF pay [unfolded Inr]] confirms by (metis (no_types) steps_trans rtranclp.rtrancl_refl)
  qed
qed

lemma withdraw_run_steps:
  assumes "withdraw_run e u p w = (a, w')"
  shows "pool_step\<^sup>*\<^sup>* (w, add_mset (WithdrawChecked u p) M) (w', M)"
proof (cases "reserve_ledger e u p (w_db w)")
  case None
  then show ?thesis
    using assms withdraw_repeats [OF None, of M] by (auto simp: withdraw_run_def)
next
  case (Some x)
  then obtain i db1 where keyed: "reserve_ledger e u p (w_db w) = Some (i, db1)"
    by (cases x) simp
  note k = withdraw_keys [OF keyed, of M]
  show ?thesis
  proof (cases "reserve_position e u p db1")
    case None
    have "w' = set_db (set_ledger_status i TxFailed) (with_db w db1)"
      using assms keyed None by (simp add: withdraw_run_def set_db_def)
    then show ?thesis
      using k position_refuses [of e u p "with_db w db1"] None fails
      by (metis (no_types) steps_trans rtranclp.rtrancl_refl world_simps(1))
  next
    case (Some db2)
    have t: "pool_step (with_db w db1, add_mset (Keyed u p i) M) (with_db w db2, add_mset (PositionTaken u p i) M)"
      using position_takes [of e u p "with_db w db1" db2] Some by (simp add: set_db_def)
    show ?thesis
    proof (cases "reserve_pool p db2")
      case None
      have "w' = set_db (set_ledger_status i TxFailed) (set_db (release_position p) (with_db w db2))"
        using assms keyed Some None by (simp add: withdraw_run_def set_db_def)
      then show ?thesis
        using k t pool_refuses [of p "with_db w db2"] None refused_releases fails
        by (metis (no_types) steps_trans rtranclp.rtrancl_refl world_simps(1))
    next
      case (Some db3)
      have "withdraw_pay e p i (with_db w db3) = (a, w')"
        using assms keyed \<open>reserve_position e u p db1 = Some db2\<close> Some by (simp add: withdraw_run_def)
      moreover have "pool_step (with_db w db2, add_mset (PositionTaken u p i) M) (with_db w db3, add_mset (PoolTaken u p i) M)"
        using pool_takes [of p "with_db w db2" db3] Some by (simp add: set_db_def)
      ultimately show ?thesis
        using k t withdraw_pay_steps by (metis (no_types) steps_trans)
    qed
  qed
qed

text \<open>The same for a deposit.\<close>

lemma deposit_record_steps:
  assumes "deposit_record e u p w = (a, w')" "dec_of_num (dreq_amount (dp_request p)) \<noteq> None"
  shows "pool_step\<^sup>*\<^sup>* (w, add_mset (DepositChecked u p) M) (w', M)"
proof -
  obtain amt where amt: "dec_of_num (dreq_amount (dp_request p)) = Some amt"
    using assms(2) by auto
  let ?found = "find_position (dp_poolId p) (user_id u) (w_db w)"
  note f = deposit_finds [OF amt, of w u M]
  show ?thesis
  proof (cases "place_position e (dp_poolId p) (user_id u) amt ?found (w_db w)")
    case None
    then have "w' = w"
      using assms(1) amt by (simp add: deposit_record_def)
    with f deposit_conflicts [OF None] show ?thesis
      by (metis (no_types) steps_trans rtranclp.rtrancl_refl)
  next
    case (Some x)
    then obtain pos db1 where placed: "place_position e (dp_poolId p) (user_id u) amt ?found (w_db w) = Some (pos, db1)"
      by (cases x) simp
    note p = deposit_places [OF placed, of M]
    have credit: "with_db w (credit_pool (dp_poolId p) amt db1) = set_db (credit_pool (dp_poolId p) amt) (with_db w db1)"
      by (simp add: set_db_def)
    show ?thesis
    proof (cases pos)
      case None
      then have "w' = set_db (credit_pool (dp_poolId p) amt) (with_db w db1)"
        using assms(1) amt placed by (simp add: deposit_record_def set_db_def)
      with f p None deposit_loses show ?thesis
        by (metis (no_types) steps_trans rtranclp.rtrancl_refl)
    next
      case (Some q)
      then have "deposit_finish e u p amt q (set_db (credit_pool (dp_poolId p) amt) (with_db w db1)) = (a, w')"
        using assms(1) amt placed credit by (simp add: deposit_record_def)
      with f p Some deposit_credits deposit_ends show ?thesis
        by (metis (no_types) steps_trans rtranclp.rtrancl_refl)
    qed
  qed
qed

subsection \<open>Amounts\<close>

lemma dec_of_num_pos: "jlt (Fin 0) x \<Longrightarrow> dec_of_num x = Some d \<Longrightarrow> 0 < d"
  by (cases x) (auto intro: shortest_dec_pos)

lemma positive_number_pos: "positive_number v = Some x \<Longrightarrow> jlt (Fin 0) x"
  by (auto simp: positive_number_def split: jsval.splits if_splits elim: num_truthy.elims)

lemma col_add_nonneg: "0 \<le> n \<Longrightarrow> 0 \<le> r \<Longrightarrow> col_add n r = n + round6 r"
  by (simp add: col_add_def round6_add)

lemma col_sub_exact: "of_micro (round6 r) = r \<Longrightarrow> col_sub n r = n - round6 r"
  by (metis col_sub_def of_micro_diff round6_of_micro)

lemma col_sub_nonneg: "r \<le> of_micro n \<Longrightarrow> 0 \<le> col_sub n r"
  by (simp add: col_sub_def round6_nonneg)

lemma col_add_ge0: "0 \<le> n \<Longrightarrow> 0 \<le> r \<Longrightarrow> 0 \<le> col_add n r"
  by (simp add: col_add_nonneg round6_nonneg)

lemma col_mono: "n \<le> m \<Longrightarrow> col_add n r \<le> col_add m r" "n \<le> m \<Longrightarrow> col_sub n r \<le> col_sub m r"
  by (simp_all add: col_add_def col_sub_def round6_mono)

lemma deposit_amount_pos:
  assumes "deposit_parse b = Inr r" "deposit_check e u r db = Inr p" "dec_of_num (dreq_amount (dp_request p)) = Some a"
  shows "0 < a"
proof -
  have "dp_request p = r"
    using assms(2) by (auto simp: deposit_check_def split: if_splits option.splits sum.splits prod.splits)
  moreover have "jlt (Fin 0) (dreq_amount r)"
    using assms(1) by (auto simp: deposit_parse_def split: option.splits if_splits dest!: positive_number_pos)
  ultimately show ?thesis
    using assms(3) by (auto intro: dec_of_num_pos)
qed

lemma withdraw_amount_pos:
  assumes "withdraw_check e u q db = Inr p"
  shows "0 < wp_decimal p"
proof -
  obtain key rawId amount where q: "q = (key, rawId, amount)"
    by (cases q)
  from assms have "\<not> jle (fixed_num 7 amount) (Fin 0)" "dec_of_num (fixed_num 7 amount) = Some (wp_decimal p)"
    by (auto simp: q withdraw_check_def Let_def split: option.splits if_splits)
  then show ?thesis
    by (cases "fixed_num 7 amount") (auto dest: shortest_dec_pos simp: not_le)
qed

subsection \<open>Nothing is overdrawn\<close>

definition solvent :: "database \<Rightarrow> bool" where
  "solvent db \<longleftrightarrow> (\<forall>pos \<in> set (db_poolPositions db). 0 \<le> pos_principalAmount pos)
     \<and> (\<forall>pool \<in> set (db_lendingPools db).
          0 \<le> pool_availableLiquidity pool \<and> pool_availableLiquidity pool \<le> pool_totalLiquidity pool)"

fun task_amount :: "pool_task \<Rightarrow> rat" where
  "task_amount (DepositChecked u p) = (case dec_of_num (dreq_amount (dp_request p)) of Some a \<Rightarrow> a | None \<Rightarrow> 0)"
| "task_amount (DepositFound u p a found) = a"
| "task_amount (DepositPlaced u p a pos) = a"
| "task_amount (DepositCredited u p a pos) = a"
| "task_amount (WithdrawChecked u p) = wp_decimal p"
| "task_amount (Keyed u p i) = wp_decimal p"
| "task_amount (PositionTaken u p i) = wp_decimal p"
| "task_amount (PoolRefused p i) = wp_decimal p"
| "task_amount (PoolTaken u p i) = wp_decimal p"
| "task_amount (Paid p i r) = wp_decimal p"
| "task_amount (PayFailed p i) = wp_decimal p"
| "task_amount (PositionReleased p i) = wp_decimal p"
| "task_amount (Failing i) = 0"

lemma solvent_cong:
  "db_poolPositions a = db_poolPositions b \<Longrightarrow> db_lendingPools a = db_lendingPools b \<Longrightarrow> solvent a = solvent b"
  by (simp add: solvent_def)

lemma place_solvent:
  "solvent db \<Longrightarrow> 0 \<le> a \<Longrightarrow> place_position e pool u a found db = Some (pos, db') \<Longrightarrow> solvent db'"
  by (auto simp: place_position_def solvent_def Let_def in_update_where add_principal_def col_add_nonneg
      round6_nonneg split: option.splits if_splits)

lemma credit_solvent: "solvent db \<Longrightarrow> 0 \<le> a \<Longrightarrow> solvent (credit_pool pool a db)"
  by (auto simp: credit_pool_def solvent_def in_update_where add_liquidity_def col_add_ge0 col_mono)

lemma take_position_solvent: "solvent db \<Longrightarrow> reserve_position e u p db = Some db' \<Longrightarrow> solvent db'"
  by (auto simp: reserve_position_def solvent_def in_update_where take_principal_def reservable_def
      col_sub_nonneg split: if_splits)

lemma take_pool_solvent: "solvent db \<Longrightarrow> reserve_pool p db = Some db' \<Longrightarrow> solvent db'"
  by (auto simp: reserve_pool_def solvent_def in_update_where take_liquidity_def pool_covers_def
      col_sub_nonneg col_mono split: if_splits)

lemma release_solvent: "solvent db \<Longrightarrow> 0 \<le> wp_decimal p \<Longrightarrow> solvent (release_position p db)"
  by (auto simp: release_position_def solvent_def in_update_where return_principal_def col_add_nonneg round6_nonneg)

lemma ledger_solvent [simp]:
  "solvent (insert_ledger row db) = solvent db" "solvent (set_ledger_status i st db) = solvent db"
  "solvent (confirm_withdrawal p i r db) = solvent db"
  by (simp_all add: insert_ledger_def set_ledger_status_def confirm_withdrawal_def solvent_def)

lemma reserve_ledger_solvent: "reserve_ledger e u p db = Some (i, db') \<Longrightarrow> solvent db' = solvent db"
  by (auto simp: reserve_ledger_def Let_def split: if_splits)

lemma sync_db: "syncPoolOnchain e pool w = (r, w') \<Longrightarrow> w_db w' = w_db w"
  using syncPoolOnchain_db [of e pool w] by simp

lemma deposit_finish_db:
  assumes "deposit_finish e u p a pos w = (r, w')"
  obtains "w_db w' = w_db w"
    | row where "lt_id row \<notin> lt_id ` set (db_ledgerTransactions (w_db w))" "lt_category row = ''deposit''"
        "w_db w' = insert_ledger row (w_db w)"
proof -
  define row where "row = deposit_ledger_row u p a (pos_id pos) (env_genUuid e (db_uuids (w_db w)))"
  have row: "lt_id row = env_genUuid e (db_uuids (w_db w))" "lt_category row = ''deposit''"
    by (simp_all add: row_def deposit_ledger_row_def)
  have "w_db w' = (if lt_id row \<in> lt_id ` set (db_ledgerTransactions (w_db w)) then w_db w else insert_ledger row (w_db w))"
    using assms
    by (auto simp: deposit_finish_def Let_def row simp flip: row_def dest!: sync_db split: prod.splits)
  with row that(1) that(2) [of row] show ?thesis
    by (cases "lt_id row \<in> lt_id ` set (db_ledgerTransactions (w_db w))") simp_all
qed

lemma payout_db: "payoutFromPlatformWallet e dest amt memo w = (r, w') \<Longrightarrow> w_db w' = w_db w"
  by (auto simp: payoutFromPlatformWallet_def Let_def split: sum.splits option.splits if_splits)

lemma solvent_step:
  assumes "pool_step s s'" "solvent (w_db (fst s))" "\<forall>t \<in># snd s. 0 \<le> task_amount t"
  shows "solvent (w_db (fst s')) \<and> (\<forall>t \<in># snd s'. 0 \<le> task_amount t)"
  using assms
proof (induction rule: pool_step.induct)
  case (deposit_reads e u w k b r p M)
  then show ?case
    using deposit_amount_pos [of b r e u "w_db w" p] by (auto split: option.splits intro: less_imp_le)
next
  case (withdraw_reads e u header b q w p M)
  then show ?case
    using withdraw_amount_pos [of e u q "w_db w" p] by (auto intro: less_imp_le)
next
  case (deposit_ends e u p a pos w r w' M)
  then show ?case
    by (auto elim!: deposit_finish_db)
qed (auto intro: place_solvent credit_solvent take_position_solvent take_pool_solvent release_solvent
    simp: reserve_ledger_solvent release_pool_def credit_solvent dest: payout_db sync_db)


text \<open>Reachable from a world with no request in flight.\<close>

inductive pool_reachable :: "world \<Rightarrow> pool_system \<Rightarrow> bool" for w0 :: world where
  start: "pool_reachable w0 (w0, {#})"
| step: "pool_reachable w0 s \<Longrightarrow> pool_step s s' \<Longrightarrow> pool_reachable w0 s'"

lemma solvent_reachable:
  assumes "pool_reachable w0 s" "solvent (w_db w0)"
  shows "solvent (w_db (fst s)) \<and> (\<forall>t \<in># snd s. 0 \<le> task_amount t)"
  using assms by (induction rule: pool_reachable.induct) (simp, blast dest: solvent_step)

text \<open>
  C6: however deposits and withdrawals interleave with each other, no position and no pool is overdrawn: from a
  solvent database, every position's principal and every pool's available liquidity stay
  non-negative, and what a pool has available is never more than its total. (Approvals of loans, which take liquidity
  without asking for it again, are not among the steps, and can overdraw a pool.)
\<close>

theorem pools_never_overdrawn:
  assumes "pool_reachable w0 (w, M)" "solvent (w_db w0)"
  shows "(\<forall>pos \<in> set (db_poolPositions (w_db w)). 0 \<le> pos_principalAmount pos)
    \<and> (\<forall>pool \<in> set (db_lendingPools (w_db w)).
         0 \<le> pool_availableLiquidity pool \<and> pool_availableLiquidity pool \<le> pool_totalLiquidity pool)"
  using solvent_reachable [OF assms] by (simp add: solvent_def)

subsection \<open>One payout per key\<close>

text \<open>
  A withdrawal entry is never removed and keeps its user and key. The tasks that may still pay
  hold one entry each.
\<close>

definition is_payout :: "effect \<Rightarrow> bool" where
  "is_payout x = (case x of WalletPayout _ _ _ \<Rightarrow> True | ChainCall _ _ _ \<Rightarrow> False)"

definition payouts :: "world \<Rightarrow> nat" where
  "payouts w = length (filter is_payout (w_log w))"

fun may_pay :: "pool_task \<Rightarrow> bool" where
  "may_pay (Keyed u p i) = True"
| "may_pay (PositionTaken u p i) = True"
| "may_pay (PoolTaken u p i) = True"
| "may_pay _ = False"

text \<open>The entries of withdrawals: identifier, user and key.\<close>

definition withdrawal_entries :: "database \<Rightarrow> (string \<times> string \<times> string option) list" where
  "withdrawal_entries db = map (\<lambda>t. (lt_id t, lt_userId t, withdrawal_key t))
     (filter (\<lambda>t. lt_category t = ''withdrawal'') (db_ledgerTransactions db))"

fun holds_entry :: "database \<Rightarrow> pool_task \<Rightarrow> bool" where
  "holds_entry db (Keyed u p i) = ((i, user_id u, Some (wp_key p)) \<in> set (withdrawal_entries db))"
| "holds_entry db (PositionTaken u p i) = ((i, user_id u, Some (wp_key p)) \<in> set (withdrawal_entries db))"
| "holds_entry db (PoolTaken u p i) = ((i, user_id u, Some (wp_key p)) \<in> set (withdrawal_entries db))"
| "holds_entry db (Paid p i r) = (\<exists>u. (i, u, Some (wp_key p)) \<in> set (withdrawal_entries db))"
| "holds_entry db _ = True"

definition keyed_once :: "database \<Rightarrow> bool" where
  "keyed_once db \<longleftrightarrow> distinct (map lt_id (db_ledgerTransactions db))
     \<and> distinct (map snd (withdrawal_entries db)) \<and> (\<forall>x \<in> set (withdrawal_entries db). snd (snd x) \<noteq> None)"

definition key_invariant :: "pool_system \<Rightarrow> bool" where
  "key_invariant s \<longleftrightarrow> keyed_once (w_db (fst s)) \<and> (\<forall>t \<in># snd s. holds_entry (w_db (fst s)) t)
     \<and> payouts (fst s) + size (filter_mset may_pay (snd s)) \<le> length (withdrawal_entries (w_db (fst s)))"

lemma withdrawal_entries_insert: "withdrawal_entries (insert_ledger row db) = withdrawal_entries db @
    (if lt_category row = ''withdrawal'' then [(lt_id row, lt_userId row, withdrawal_key row)] else [])"
  by (simp add: withdrawal_entries_def insert_ledger_def)

lemma filter_map_keep:
  assumes "\<And>t. t \<in> set rows \<Longrightarrow> P (g t) = P t \<and> (P t \<longrightarrow> f (g t) = f t)"
  shows "map f (filter P (map g rows)) = map f (filter P rows)"
  using assms by (induction rows) auto

lemma withdrawal_entries_status [simp]: "withdrawal_entries (set_ledger_status i st db) = withdrawal_entries db"
proof -
  have rows: "db_ledgerTransactions (set_ledger_status i st db) =
      map (\<lambda>t. if lt_id t = i then t\<lparr>lt_status := st\<rparr> else t) (db_ledgerTransactions db)"
    by (simp add: set_ledger_status_def update_where_def)
  show ?thesis
    unfolding withdrawal_entries_def rows by (rule filter_map_keep) (simp add: withdrawal_key_def)
qed

lemma withdrawal_entries_confirm:
  assumes "distinct (map lt_id (db_ledgerTransactions db))" "(i, u, Some (wp_key p)) \<in> set (withdrawal_entries db)"
  shows "withdrawal_entries (confirm_withdrawal p i r db) = withdrawal_entries db"
proof -
  obtain t0 where t0: "t0 \<in> set (db_ledgerTransactions db)" "lt_id t0 = i" "withdrawal_key t0 = Some (wp_key p)"
    using assms(2) by (auto simp: withdrawal_entries_def)
  have same: "t = t0" if "t \<in> set (db_ledgerTransactions db)" "lt_id t = i" for t
    using that t0 assms(1) by (auto simp: distinct_map dest: inj_onD)
  define g where "g t = (if lt_id t = i then t\<lparr>lt_status := TxConfirmed, lt_metadata := JObj
    [(''withdrawalIdempotencyKey'', JStr (wp_key p)), (''txHash'', JStr (po_hash r)),
     (''lenderAddress'', JStr (wp_destination p)), (''platformWallet'', JStr (po_source r))]\<rparr> else t)" for t :: ledger_transaction
  have rows: "db_ledgerTransactions (confirm_withdrawal p i r db) = map g (db_ledgerTransactions db)"
    by (simp add: confirm_withdrawal_def update_where_def g_def)
  have "withdrawal_key (g t) = withdrawal_key t" if "t \<in> set (db_ledgerTransactions db)" for t
    using same [OF that] t0(3) by (auto simp: g_def withdrawal_key_def meta_text_def split: if_splits)
  then show ?thesis
    unfolding withdrawal_entries_def rows by (intro filter_map_keep) (simp add: g_def)
qed

lemma key_used_entries: "key_used u k db \<longleftrightarrow> (u, Some k) \<in> snd ` set (withdrawal_entries db)"
  by (auto simp: key_used_def withdrawal_entries_def withdrawal_key_def image_iff split: if_splits)

lemma ids_ledger [simp]:
  "map lt_id (db_ledgerTransactions (set_ledger_status i st db)) = map lt_id (db_ledgerTransactions db)"
  "map lt_id (db_ledgerTransactions (confirm_withdrawal p i r db)) = map lt_id (db_ledgerTransactions db)"
  "map lt_id (db_ledgerTransactions (insert_ledger row db)) = map lt_id (db_ledgerTransactions db) @ [lt_id row]"
  by (simp_all add: set_ledger_status_def confirm_withdrawal_def insert_ledger_def map_update_where)


lemma payout_log:
  assumes "payoutFromPlatformWallet e dest amt memo w = (r, w')"
  shows "payouts w' \<le> Suc (payouts w)"
  using assms
  by (auto simp: payoutFromPlatformWallet_def Let_def payouts_def is_payout_def split: sum.splits option.splits if_splits)

lemma sync_log: "syncPoolOnchain e pool w = (r, w') \<Longrightarrow> payouts w' = payouts w"
  by (auto simp: syncPoolOnchain_def syncPoolStateOnchain_def invoke_signed_def Let_def payouts_def is_payout_def
      split: option.splits sum.splits prod.splits if_splits)

lemma payouts_set_db [simp]: "payouts (set_db f w) = payouts w"
  by (simp add: payouts_def)

lemma deposit_finish_payouts: "deposit_finish e u p a pos w = (r, w') \<Longrightarrow> payouts w' = payouts w"
  by (auto simp: deposit_finish_def Let_def dest!: sync_log split: if_splits prod.splits)

lemma keyed_once_cong: "map lt_id (db_ledgerTransactions a) = map lt_id (db_ledgerTransactions b) \<Longrightarrow>
    withdrawal_entries a = withdrawal_entries b \<Longrightarrow> keyed_once a = keyed_once b"
  by (simp add: keyed_once_def)

lemma same_ledger:
  assumes "db_ledgerTransactions a = db_ledgerTransactions b"
  shows "withdrawal_entries a = withdrawal_entries b" "keyed_once a = keyed_once b" "holds_entry a t = holds_entry b t"
proof -
  show *: "withdrawal_entries a = withdrawal_entries b"
    by (simp add: withdrawal_entries_def assms)
  then show "keyed_once a = keyed_once b"
    by (simp add: keyed_once_def assms)
  show "holds_entry a t = holds_entry b t"
    by (cases t) (simp_all add: *)
qed

lemma holds_entry_mono: "set (withdrawal_entries a) \<subseteq> set (withdrawal_entries b) \<Longrightarrow> holds_entry a t \<Longrightarrow> holds_entry b t"
  by (cases t) auto

lemma reserve_ledger_entries:
  assumes "reserve_ledger e u p db = Some (i, db')" "keyed_once db"
  shows "keyed_once db'" "withdrawal_entries db' = withdrawal_entries db @ [(i, user_id u, Some (wp_key p))]"
proof -
  have db': "db' = insert_ledger (reservation_row u p i) db" "\<not> key_used (user_id u) (wp_key p) db"
      "i \<notin> lt_id ` set (db_ledgerTransactions db)"
    using assms(1) by (auto simp: reserve_ledger_def Let_def split: if_splits)
  have key: "withdrawal_key (reservation_row u p i) = Some (wp_key p)" "lt_category (reservation_row u p i) = ''withdrawal''"
      "lt_id (reservation_row u p i) = i" "lt_userId (reservation_row u p i) = user_id u"
    by (simp_all add: withdrawal_key_def reservation_row_def meta_text_def)
  then show entries: "withdrawal_entries db' = withdrawal_entries db @ [(i, user_id u, Some (wp_key p))]"
    by (simp add: db'(1) withdrawal_entries_insert)
  show "keyed_once db'"
    using assms(2) db'(2,3) key entries by (simp add: keyed_once_def key_used_entries) (simp add: db'(1) key)
qed

lemma deposit_entries:
  assumes "lt_id row \<notin> lt_id ` set (db_ledgerTransactions db)" "lt_category row = ''deposit''" "keyed_once db"
  shows "keyed_once (insert_ledger row db)" "withdrawal_entries (insert_ledger row db) = withdrawal_entries db"
  using assms by (simp_all add: keyed_once_def withdrawal_entries_insert)

lemma place_ledger: "place_position e pool u a found db = Some (pos, db') \<Longrightarrow> db_ledgerTransactions db' = db_ledgerTransactions db"
  by (auto simp: place_position_def Let_def split: option.splits if_splits)

lemma reserve_rows_ledger:
  "reserve_position e u p db = Some db' \<Longrightarrow> db_ledgerTransactions db' = db_ledgerTransactions db"
  "reserve_pool p db = Some db' \<Longrightarrow> db_ledgerTransactions db' = db_ledgerTransactions db"
  by (auto simp: reserve_position_def reserve_pool_def split: if_splits)

lemma release_ledger [simp]:
  "db_ledgerTransactions (release_position p db) = db_ledgerTransactions db"
  "db_ledgerTransactions (release_pool p db) = db_ledgerTransactions db"
  "db_ledgerTransactions (credit_pool pool a db) = db_ledgerTransactions db"
  by (simp_all add: release_position_def release_pool_def credit_pool_def)

text \<open>A step that leaves the ledger alone and hands the entry on.\<close>

lemma key_invariant_move:
  assumes "key_invariant (w, add_mset t M)" "db_ledgerTransactions (w_db w') = db_ledgerTransactions (w_db w)"
    and "payouts w' + (if may_pay t' then 1 else 0) \<le> payouts w + (if may_pay t then 1 else 0)"
    and "holds_entry (w_db w) t \<Longrightarrow> holds_entry (w_db w) t'"
  shows "key_invariant (w', add_mset t' M)"
  using assms same_ledger [OF assms(2)] by (auto simp: key_invariant_def split: if_splits)

lemma key_invariant_drop:
  assumes "key_invariant (w, add_mset t M)" "db_ledgerTransactions (w_db w') = db_ledgerTransactions (w_db w)"
    and "payouts w' = payouts w"
  shows "key_invariant (w', M)"
  using assms same_ledger [OF assms(2)] by (auto simp: key_invariant_def split: if_splits)

lemma key_invariant_add:
  assumes "key_invariant (w, M)" "\<not> may_pay t" "holds_entry (w_db w) t"
  shows "key_invariant (w, add_mset t M)"
  using assms by (auto simp: key_invariant_def)

lemma key_invariant_step: "pool_step s s' \<Longrightarrow> key_invariant s \<Longrightarrow> key_invariant s'"
proof (induction rule: pool_step.induct)
  case (deposit_ends e u p a pos w r w' M)
  from deposit_ends.hyps show ?case
  proof (rule deposit_finish_db)
    assume "w_db w' = w_db w"
    then show ?thesis
      using deposit_ends by (intro key_invariant_drop [OF deposit_ends.prems]) (simp_all add: deposit_finish_payouts)
  next
    fix row
    assume row: "lt_id row \<notin> lt_id ` set (db_ledgerTransactions (w_db w))" "lt_category row = ''deposit''"
      "w_db w' = insert_ledger row (w_db w)"
    have "keyed_once (w_db w)"
      using deposit_ends.prems by (simp add: key_invariant_def)
    note entries = deposit_entries [OF row(1,2) this]
    have "holds_entry (insert_ledger row (w_db w)) t = holds_entry (w_db w) t" for t
      using entries(2) by (cases t) simp_all
    then show ?thesis
      using deposit_ends entries by (simp add: key_invariant_def row(3) deposit_finish_payouts)
  qed
next
  case (withdraw_keys e u p w i db' M)
  have once: "keyed_once (w_db w)"
    using withdraw_keys.prems by (simp add: key_invariant_def)
  note entries = reserve_ledger_entries [OF withdraw_keys.hyps once]
  have "holds_entry db' t" if "holds_entry (w_db w) t" for t
    using that entries(2) by (intro holds_entry_mono [of "w_db w" db' t]) auto
  then show ?case
    using withdraw_keys.prems entries by (auto simp: key_invariant_def)
next
  case (confirms e p i r w o' w' M)
  obtain u where held: "(i, u, Some (wp_key p)) \<in> set (withdrawal_entries (w_db w))" and once: "keyed_once (w_db w)"
    using confirms.prems by (auto simp: key_invariant_def)
  have entries: "withdrawal_entries (confirm_withdrawal p i r (w_db w)) = withdrawal_entries (w_db w)"
    using once held by (intro withdrawal_entries_confirm) (simp_all add: keyed_once_def)
  moreover have "keyed_once (confirm_withdrawal p i r (w_db w))"
    using keyed_once_cong [OF ids_ledger(2) entries] once by simp
  moreover have "holds_entry (confirm_withdrawal p i r (w_db w)) t = holds_entry (w_db w) t" for t
    using entries by (cases t) simp_all
  ultimately show ?case
    using confirms.prems sync_db [OF confirms.hyps] sync_log [OF confirms.hyps] by (simp add: key_invariant_def)
next
  case (fails w i M)
  have "keyed_once (set_ledger_status i TxFailed (w_db w)) = keyed_once (w_db w)"
    by (intro keyed_once_cong) simp_all
  moreover have "holds_entry (set_ledger_status i TxFailed (w_db w)) t = holds_entry (w_db w) t" for t
    by (cases t) simp_all
  ultimately show ?case
    using fails by (simp add: key_invariant_def)
next
  case (pays e p w r w' u i M)
  then show ?case
    using payout_log [OF pays.hyps] payout_db [OF pays.hyps] by (intro key_invariant_move [OF pays.prems]) auto
next
  case (pay_fails e p w err w' u i M)
  then show ?case
    using payout_log [OF pay_fails.hyps] payout_db [OF pay_fails.hyps]
    by (intro key_invariant_move [OF pay_fails.prems]) auto
next
  case (deposit_places e p u a found w pos db' M)
  then show ?case
    using place_ledger by (intro key_invariant_move [OF deposit_places.prems]) auto
next
  case (position_takes e u p w db' i M)
  then show ?case
    using reserve_rows_ledger by (intro key_invariant_move [OF position_takes.prems]) auto
next
  case (pool_takes p w db' u i M)
  then show ?case
    using reserve_rows_ledger by (intro key_invariant_move [OF pool_takes.prems]) auto
qed (auto intro: key_invariant_move key_invariant_drop key_invariant_add)


text \<open>
  C5: an idempotency key pays at most once: in any interleaving that starts without withdrawals,
  the payments asked of the platform wallet are no more than the pairs of a user and a key that
  have been used, and no two withdrawal entries share such a pair.
\<close>

theorem one_payout_per_key:
  assumes "pool_reachable w0 (w, M)" "payouts w0 = 0" "distinct (map lt_id (db_ledgerTransactions (w_db w0)))"
    and "\<forall>t \<in> set (db_ledgerTransactions (w_db w0)). lt_category t \<noteq> ''withdrawal''"
  shows "payouts w \<le> card {(u, k). key_used u k (w_db w)}
    \<and> distinct (map (\<lambda>t. (lt_userId t, withdrawal_key t))
        (filter (\<lambda>t. lt_category t = ''withdrawal'') (db_ledgerTransactions (w_db w))))"
proof -
  have none: "withdrawal_entries (w_db w0) = []"
    using assms(4) by (simp add: withdrawal_entries_def filter_empty_conv)
  then have "key_invariant (w0, {#})"
    using assms(2,3) by (simp add: key_invariant_def keyed_once_def)
  with assms(1) have "key_invariant (w, M)"
    by (induction "(w, M)" arbitrary: w M rule: pool_reachable.induct) (auto dest: key_invariant_step)
  then have inv: "payouts w \<le> length (withdrawal_entries (w_db w))" "distinct (map snd (withdrawal_entries (w_db w)))"
      "\<forall>x \<in> set (withdrawal_entries (w_db w)). snd (snd x) \<noteq> None"
    by (simp_all add: key_invariant_def keyed_once_def)
  have "length (withdrawal_entries (w_db w)) = card (snd ` set (withdrawal_entries (w_db w)))"
    using distinct_card [OF inv(2)] by simp
  also have "snd ` set (withdrawal_entries (w_db w)) = (\<lambda>(u, k). (u, Some k)) ` {(u, k). key_used u k (w_db w)}"
    using inv(3) by (force simp: key_used_entries)
  also have "card \<dots> = card {(u, k). key_used u k (w_db w)}"
    by (rule card_image) (auto intro: inj_onI)
  finally show ?thesis
    using inv(1,2) by (simp add: withdrawal_entries_def comp_def)
qed

end
