(* ===== verification/PoolBooks.thy ===== *)
theory PoolBooks
  imports PoolProcess
begin

text \<open>
  The accounts of deposits and withdrawals: what a pool holds is what its positions hold, up to
  what the requests in flight have moved on one side only.
\<close>

subsection \<open>What a pool holds is what its positions hold\<close>

interpretation add_principal_upd: keyed_update pos_id "add_principal a" for a
  by unfold_locales (simp add: add_principal_def)

interpretation take_principal_upd: keyed_update pos_id "take_principal a tm" for a tm
  by unfold_locales (simp add: take_principal_def)

interpretation return_principal_upd: keyed_update pos_id "return_principal a" for a
  by unfold_locales (simp add: return_principal_def)

interpretation add_liquidity_upd: keyed_update pool_id "add_liquidity a" for a
  by unfold_locales (simp add: add_liquidity_def)

interpretation take_liquidity_upd: keyed_update pool_id "take_liquidity a" for a
  by unfold_locales (simp add: take_liquidity_def)

definition pool_total :: "string \<Rightarrow> database \<Rightarrow> int" where
  "pool_total P db = sum_list (map (\<lambda>p. if pool_id p = P then pool_totalLiquidity p else 0) (db_lendingPools db))"

definition principal_total :: "string \<Rightarrow> database \<Rightarrow> int" where
  "principal_total P db = sum_list (map (\<lambda>p. if pos_poolId p = P then pos_principalAmount p else 0) (db_poolPositions db))"

text \<open>What a request in flight has added to the pool but not to the positions, or the reverse.\<close>

fun pool_gap :: "string \<Rightarrow> pool_task \<Rightarrow> int" where
  "pool_gap P (DepositPlaced u p a pos) = (if dp_poolId p = P then - round6 a else 0)"
| "pool_gap P (PositionTaken u p i) = (if wp_poolId p = P then round6 (wp_decimal p) else 0)"
| "pool_gap P (PoolRefused p i) = (if wp_poolId p = P then round6 (wp_decimal p) else 0)"
| "pool_gap P (PositionReleased p i) = (if wp_poolId p = P then - round6 (wp_decimal p) else 0)"
| "pool_gap P _ = 0"

definition pos_map :: "database \<Rightarrow> (string \<times> string) list" where
  "pos_map db = map (\<lambda>p. (pos_id p, pos_poolId p)) (db_poolPositions db)"

definition pool_ids :: "database \<Rightarrow> string list" where
  "pool_ids db = map pool_id (db_lendingPools db)"

definition plan_placed :: "database \<Rightarrow> withdraw_plan \<Rightarrow> bool" where
  "plan_placed db p \<longleftrightarrow> (wp_positionId p, wp_poolId p) \<in> set (pos_map db) \<and> wp_poolId p \<in> set (pool_ids db)
     \<and> of_micro (round6 (wp_decimal p)) = wp_decimal p"

fun task_placed :: "database \<Rightarrow> pool_task \<Rightarrow> bool" where
  "task_placed db (DepositChecked u p) = (dp_poolId p \<in> set (pool_ids db))"
| "task_placed db (DepositFound u p a found) = (dp_poolId p \<in> set (pool_ids db)
     \<and> (case found of Some i \<Rightarrow> (i, dp_poolId p) \<in> set (pos_map db) | None \<Rightarrow> True))"
| "task_placed db (DepositPlaced u p a pos) = (dp_poolId p \<in> set (pool_ids db) \<and> pos \<noteq> None)"
| "task_placed db (DepositCredited u p a pos) = True"
| "task_placed db (WithdrawChecked u p) = plan_placed db p"
| "task_placed db (Keyed u p i) = plan_placed db p"
| "task_placed db (PositionTaken u p i) = plan_placed db p"
| "task_placed db (PoolRefused p i) = plan_placed db p"
| "task_placed db (PoolTaken u p i) = plan_placed db p"
| "task_placed db (Paid p i r) = True"
| "task_placed db (PayFailed p i) = plan_placed db p"
| "task_placed db (PositionReleased p i) = plan_placed db p"
| "task_placed db (Failing i) = True"

definition tables_ok :: "database \<Rightarrow> bool" where
  "tables_ok db \<longleftrightarrow> distinct (map fst (pos_map db)) \<and> distinct (pool_ids db) \<and> solvent db"

lemma task_placed_mono:
  "set (pos_map a) \<subseteq> set (pos_map b) \<Longrightarrow> pool_ids a = pool_ids b \<Longrightarrow> task_placed a t \<Longrightarrow> task_placed b t"
  by (cases t) (auto simp: plan_placed_def split: option.splits)

lemma find_pos:
  assumes "(i, P) \<in> set (pos_map db)" "distinct (map fst (pos_map db))"
  obtains r where "find (\<lambda>p. pos_id p = i) (db_poolPositions db) = Some r" "pos_poolId r = P"
    "r \<in> set (db_poolPositions db)" "pos_id r = i"
proof -
  obtain r where r: "r \<in> set (db_poolPositions db)" "pos_id r = i" "pos_poolId r = P"
    using assms(1) by (auto simp: pos_map_def)
  moreover have "distinct (map pos_id (db_poolPositions db))"
    using assms(2) by (simp add: pos_map_def comp_def)
  ultimately show thesis
    using that positions_tbl.find_distinct by blast
qed

lemma find_pool:
  assumes "P \<in> set (pool_ids db)" "distinct (pool_ids db)"
  obtains r where "find (\<lambda>p. pool_id p = P) (db_lendingPools db) = Some r" "pool_id r = P"
    "r \<in> set (db_lendingPools db)"
proof -
  obtain r where r: "r \<in> set (db_lendingPools db)" "pool_id r = P"
    using assms(1) by (auto simp: pool_ids_def)
  then show thesis
    using that pools_tbl.find_distinct [of "db_lendingPools db" r] assms(2) by (simp add: pool_ids_def)
qed

text \<open>A condition that selects the row of a key selects exactly that row.\<close>

lemma update_where_key:
  assumes "distinct (map key rows)" "r \<in> set rows" "p r" "\<And>x. p x \<Longrightarrow> key x = key r"
  shows "update_where p f rows = update_where (\<lambda>x. key x = key r) f rows"
proof -
  have "p x \<longleftrightarrow> key x = key r" if "x \<in> set rows" for x
  proof
    assume "key x = key r"
    then have "x = r"
      using assms(1,2) that by (auto simp: distinct_map dest: inj_onD)
    with assms(3) show "p x"
      by simp
  qed (rule assms(4))
  then show ?thesis
    by (simp add: update_where_def)
qed


subsection \<open>How each statement moves the totals\<close>

lemma principal_total_update:
  assumes "distinct (map fst (pos_map db))" "find (\<lambda>p. pos_id p = i) (db_poolPositions db) = Some r"
    and "\<And>x. pos_id (f x) = pos_id x" "\<And>x. pos_poolId (f x) = pos_poolId x"
  shows "principal_total P (db\<lparr>db_poolPositions := update_where (\<lambda>p. pos_id p = i) f (db_poolPositions db)\<rparr>) =
    principal_total P db + (if pos_poolId r = P then pos_principalAmount (f r) - pos_principalAmount r else 0)"
proof -
  have "keyed_update pos_id f"
    using assms(3) by unfold_locales
  moreover have "distinct (map pos_id (db_poolPositions db))"
    using assms(1) by (simp add: pos_map_def comp_def)
  ultimately show ?thesis
    using keyed_update.sum_update [OF _ _ assms(2), of f "\<lambda>p. if pos_poolId p = P then pos_principalAmount p else 0"]
    by (simp add: principal_total_def assms(4))
qed

lemma pool_total_update:
  assumes "distinct (pool_ids db)" "find (\<lambda>p. pool_id p = i) (db_lendingPools db) = Some r" "\<And>x. pool_id (f x) = pool_id x"
  shows "pool_total P (db\<lparr>db_lendingPools := update_where (\<lambda>p. pool_id p = i) f (db_lendingPools db)\<rparr>) =
    pool_total P db + (if i = P then pool_totalLiquidity (f r) - pool_totalLiquidity r else 0)"
proof -
  have "keyed_update pool_id f"
    using assms(3) by unfold_locales
  moreover have "distinct (map pool_id (db_lendingPools db))" "pool_id r = i"
    using assms(1) pools_tbl.find_key [OF assms(2)] by (simp_all add: pool_ids_def)
  ultimately show ?thesis
    using keyed_update.sum_update [OF _ _ assms(2), of f "\<lambda>p. if pool_id p = P then pool_totalLiquidity p else 0"]
    by (simp add: pool_total_def assms(3))
qed

lemma totals_other [simp]:
  "pool_total P (db\<lparr>db_poolPositions := x\<rparr>) = pool_total P db"
  "principal_total P (db\<lparr>db_lendingPools := y\<rparr>) = principal_total P db"
  "pos_map (db\<lparr>db_lendingPools := y\<rparr>) = pos_map db" "pool_ids (db\<lparr>db_poolPositions := x\<rparr>) = pool_ids db"
  "pool_total P (db\<lparr>db_uuids := n\<rparr>) = pool_total P db" "principal_total P (db\<lparr>db_uuids := n\<rparr>) = principal_total P db"
  "pos_map (db\<lparr>db_uuids := n\<rparr>) = pos_map db" "pool_ids (db\<lparr>db_uuids := n\<rparr>) = pool_ids db"
  by (simp_all add: pool_total_def principal_total_def pos_map_def pool_ids_def)

lemma pos_map_update:
  "(\<And>x. pos_id (f x) = pos_id x) \<Longrightarrow> (\<And>x. pos_poolId (f x) = pos_poolId x) \<Longrightarrow>
    pos_map (db\<lparr>db_poolPositions := update_where p f (db_poolPositions db)\<rparr>) = pos_map db"
  by (simp add: pos_map_def map_update_where)

lemma pool_ids_update: "(\<And>x. pool_id (f x) = pool_id x) \<Longrightarrow>
    pool_ids (db\<lparr>db_lendingPools := update_where p f (db_lendingPools db)\<rparr>) = pool_ids db"
  by (simp add: pool_ids_def map_update_where)

text \<open>
  \<open>moves db db' x y\<close>: the positions of a pool gain \<open>x\<close> and the pool gains \<open>y\<close>; positions and
  pools stay where they are.
\<close>

definition moves :: "database \<Rightarrow> database \<Rightarrow> (string \<Rightarrow> int) \<Rightarrow> (string \<Rightarrow> int) \<Rightarrow> bool" where
  "moves db db' x y \<longleftrightarrow> (\<forall>P. principal_total P db' = principal_total P db + x P
     \<and> pool_total P db' = pool_total P db + y P)
     \<and> set (pos_map db) \<subseteq> set (pos_map db') \<and> pool_ids db' = pool_ids db \<and> distinct (map fst (pos_map db'))"

definition at_pool :: "string \<Rightarrow> int \<Rightarrow> string \<Rightarrow> int" where
  "at_pool pool n P = (if pool = P then n else 0)"

lemma moves_same:
  assumes "db_poolPositions a = db_poolPositions b" "db_lendingPools a = db_lendingPools b" "tables_ok a"
  shows "moves a b (\<lambda>_. 0) (\<lambda>_. 0)"
  using assms by (simp add: moves_def principal_total_def pool_total_def pos_map_def pool_ids_def tables_ok_def)

lemma credit_pool_moves:
  assumes "tables_ok db" "P \<in> set (pool_ids db)" "0 \<le> a"
  shows "moves db (credit_pool P a db) (\<lambda>_. 0) (at_pool P (round6 a))"
proof -
  obtain r where r: "find (\<lambda>p. pool_id p = P) (db_lendingPools db) = Some r" "r \<in> set (db_lendingPools db)"
    using find_pool assms(1,2) by (metis tables_ok_def)
  have "pool_totalLiquidity (add_liquidity a r) = pool_totalLiquidity r + round6 a"
    using assms(1,3) r(2) by (auto simp: add_liquidity_def tables_ok_def solvent_def intro!: col_add_nonneg)
  moreover have "pool_total Q (credit_pool P a db) =
      pool_total Q db + (if P = Q then pool_totalLiquidity (add_liquidity a r) - pool_totalLiquidity r else 0)" for Q
    unfolding credit_pool_def using assms(1) r(1) by (intro pool_total_update) (simp_all add: tables_ok_def)
  ultimately show ?thesis
    using assms(1) pool_ids_update [of "add_liquidity a" "\<lambda>p. pool_id p = P" db]
    by (simp add: moves_def at_pool_def credit_pool_def tables_ok_def)
qed

lemma reserve_pool_moves:
  assumes "tables_ok db" "reserve_pool p db = Some db'" "of_micro (round6 (wp_decimal p)) = wp_decimal p"
  shows "moves db db' (\<lambda>_. 0) (at_pool (wp_poolId p) (- round6 (wp_decimal p)))"
proof -
  from assms(2) obtain r where "find (pool_covers p) (db_lendingPools db) = Some r"
    and db': "db' = db\<lparr>db_lendingPools := update_where (pool_covers p) (take_liquidity (wp_decimal p)) (db_lendingPools db)\<rparr>"
    by (auto simp: reserve_pool_def split: if_splits)
  then have r: "r \<in> set (db_lendingPools db)" "pool_covers p r"
    using find_in_set by metis+
  then have id: "pool_id r = wp_poolId p" "\<And>x. pool_covers p x \<Longrightarrow> pool_id x = pool_id r"
    by (simp_all add: pool_covers_def)
  have "distinct (map pool_id (db_lendingPools db))"
    using assms(1) by (simp add: tables_ok_def pool_ids_def)
  from update_where_key [of pool_id _ r "pool_covers p", OF this r id(2)] pools_tbl.find_distinct [OF this r(1)]
  have db'': "db' = db\<lparr>db_lendingPools := update_where (\<lambda>x. pool_id x = wp_poolId p) (take_liquidity (wp_decimal p)) (db_lendingPools db)\<rparr>"
    and find: "find (\<lambda>x. pool_id x = wp_poolId p) (db_lendingPools db) = Some r"
    by (simp_all add: db' id(1))
  have "pool_total Q db' = pool_total Q db
      + (if wp_poolId p = Q then pool_totalLiquidity (take_liquidity (wp_decimal p) r) - pool_totalLiquidity r else 0)" for Q
    unfolding db'' using assms(1) find by (intro pool_total_update) (simp_all add: tables_ok_def)
  then show ?thesis
    using assms(1,3) pool_ids_update [of "take_liquidity (wp_decimal p)" "pool_covers p" db]
    by (simp add: moves_def at_pool_def db' tables_ok_def take_liquidity_def col_sub_exact)
qed

lemma reserve_position_moves:
  assumes "tables_ok db" "reserve_position e u p db = Some db'" "plan_placed db p"
  shows "moves db db' (at_pool (wp_poolId p) (- round6 (wp_decimal p))) (\<lambda>_. 0)"
proof -
  let ?f = "take_principal (wp_decimal p) (env_now e)"
  from assms(2) obtain r where "find (reservable u p) (db_poolPositions db) = Some r"
    and db': "db' = db\<lparr>db_poolPositions := update_where (reservable u p) ?f (db_poolPositions db)\<rparr>"
    by (auto simp: reserve_position_def split: if_splits)
  then have r: "r \<in> set (db_poolPositions db)" "reservable u p r"
    using find_in_set by metis+
  then have id: "pos_id r = wp_positionId p" "\<And>x. reservable u p x \<Longrightarrow> pos_id x = pos_id r"
    by (simp_all add: reservable_def)
  have d: "distinct (map pos_id (db_poolPositions db))" "distinct (map fst (pos_map db))"
    using assms(1) by (simp_all add: tables_ok_def pos_map_def comp_def)
  from update_where_key [of pos_id _ r "reservable u p", OF d(1) r id(2)] positions_tbl.find_distinct [OF d(1) r(1)]
  have db'': "db' = db\<lparr>db_poolPositions := update_where (\<lambda>x. pos_id x = wp_positionId p) ?f (db_poolPositions db)\<rparr>"
    and find: "find (\<lambda>x. pos_id x = wp_positionId p) (db_poolPositions db) = Some r"
    by (simp_all add: db' id(1))
  obtain r' where "find (\<lambda>x. pos_id x = wp_positionId p) (db_poolPositions db) = Some r'" "pos_poolId r' = wp_poolId p"
    using find_pos [OF _ d(2)] assms(3) by (metis plan_placed_def)
  with find have "pos_poolId r = wp_poolId p"
    by simp
  moreover have "principal_total Q db' = principal_total Q db
      + (if pos_poolId r = Q then pos_principalAmount (?f r) - pos_principalAmount r else 0)" for Q
    unfolding db'' using d(2) find by (intro principal_total_update) (simp_all add: take_principal_def)
  moreover have "pos_map db' = pos_map db"
    unfolding db' by (rule pos_map_update) (simp_all add: take_principal_def)
  ultimately show ?thesis
    using assms(3) d(2) by (simp add: moves_def at_pool_def take_principal_def col_sub_exact plan_placed_def) (simp add: db')
qed

lemma release_position_moves:
  assumes "tables_ok db" "plan_placed db p" "0 \<le> wp_decimal p"
  shows "moves db (release_position p db) (at_pool (wp_poolId p) (round6 (wp_decimal p))) (\<lambda>_. 0)"
proof -
  let ?f = "return_principal (wp_decimal p)"
  have d: "distinct (map fst (pos_map db))"
    using assms(1) by (simp add: tables_ok_def)
  obtain r where r: "find (\<lambda>x. pos_id x = wp_positionId p) (db_poolPositions db) = Some r" "pos_poolId r = wp_poolId p"
      "r \<in> set (db_poolPositions db)"
    using find_pos [OF _ d] assms(2) by (metis plan_placed_def)
  have "pos_principalAmount (?f r) = pos_principalAmount r + round6 (wp_decimal p)"
    using assms(1,3) r(3) by (auto simp: return_principal_def tables_ok_def solvent_def intro!: col_add_nonneg)
  moreover have "principal_total Q (release_position p db) = principal_total Q db
      + (if pos_poolId r = Q then pos_principalAmount (?f r) - pos_principalAmount r else 0)" for Q
    unfolding release_position_def using d r(1) by (intro principal_total_update) (simp_all add: return_principal_def)
  moreover have "pos_map (release_position p db) = pos_map db"
    unfolding release_position_def by (rule pos_map_update) (simp_all add: return_principal_def)
  ultimately show ?thesis
    using r(2) d by (simp add: moves_def at_pool_def) (simp add: release_position_def)
qed

lemma place_position_moves:
  assumes "tables_ok db" "place_position e P u a found db = Some (pos, db')" "0 \<le> a"
    "case found of Some i \<Rightarrow> (i, P) \<in> set (pos_map db) | None \<Rightarrow> True"
  shows "moves db db' (at_pool P (round6 a)) (\<lambda>_. 0) \<and> pos \<noteq> None"
proof (cases found)
  case None
  with assms(1,2) show ?thesis
    by (auto simp: place_position_def Let_def moves_def at_pool_def principal_total_def pool_total_def pos_map_def
        pool_ids_def tables_ok_def comp_def split: if_splits)
next
  case (Some i)
  have d: "distinct (map fst (pos_map db))"
    using assms(1) by (simp add: tables_ok_def)
  obtain r where r: "find (\<lambda>x. pos_id x = i) (db_poolPositions db) = Some r" "pos_poolId r = P" "r \<in> set (db_poolPositions db)"
    using find_pos [OF _ d] assms(4) Some by (metis option.simps(5))
  have db': "db' = db\<lparr>db_poolPositions := update_where (\<lambda>p. pos_id p = i) (add_principal a) (db_poolPositions db)\<rparr>"
    and pos: "pos = Some (add_principal a r)"
    using assms(2) Some r(1) by (auto simp: place_position_def Let_def add_principal_upd.find_update)
  have "pos_principalAmount (add_principal a r) = pos_principalAmount r + round6 a"
    using assms(1,3) r(3) by (auto simp: add_principal_def tables_ok_def solvent_def intro!: col_add_nonneg)
  moreover have "principal_total Q db' = principal_total Q db
      + (if pos_poolId r = Q then pos_principalAmount (add_principal a r) - pos_principalAmount r else 0)" for Q
    unfolding db' using d r(1) by (intro principal_total_update) (simp_all add: add_principal_def)
  moreover have "pos_map db' = pos_map db"
    unfolding db' by (rule pos_map_update) (simp_all add: add_principal_def)
  ultimately show ?thesis
    using r(2) d pos by (simp add: moves_def at_pool_def) (simp add: db')
qed


subsection \<open>The balance\<close>

text \<open>
  A withdrawal of whole millionths: the columns have six decimals, the payout seven, and only on
  whole millionths do taking and returning an amount cancel out.
\<close>

fun whole_micro :: "pool_task \<Rightarrow> bool" where
  "whole_micro (WithdrawChecked u p) = (of_micro (round6 (wp_decimal p)) = wp_decimal p)"
| "whole_micro _ = True"

definition exact_step :: "pool_system \<Rightarrow> pool_system \<Rightarrow> bool" where
  "exact_step s s' \<longleftrightarrow> pool_step s s' \<and> (\<forall>t \<in># snd s'. whole_micro t)"

definition balanced :: "(string \<Rightarrow> int) \<Rightarrow> pool_system \<Rightarrow> bool" where
  "balanced K s \<longleftrightarrow> tables_ok (w_db (fst s)) \<and> (\<forall>t \<in># snd s. task_placed (w_db (fst s)) t \<and> 0 \<le> task_amount t)
     \<and> (\<forall>P. pool_total P (w_db (fst s)) =
          principal_total P (w_db (fst s)) + K P + (\<Sum>t \<in># snd s. pool_gap P t))"

lemma moves_tables_ok: "moves db db' x y \<Longrightarrow> tables_ok db \<Longrightarrow> solvent db' \<Longrightarrow> tables_ok db'"
  by (simp add: moves_def tables_ok_def)

text \<open>A task goes on to another: the totals move by what its gap changes.\<close>

lemma balanced_move:
  assumes "balanced K (w, add_mset t M)" "moves (w_db w) db' x y" "solvent db'"
    and "\<And>P. y P - x P = pool_gap P t' - pool_gap P t"
    and "task_placed db' t'" "0 \<le> task_amount t'" "w_db w' = db'"
  shows "balanced K (w', add_mset t' M)"
proof -
  have "task_placed db' s" if "s \<in># M" for s
    using that assms(1,2) task_placed_mono [of "w_db w" db' s] by (auto simp: balanced_def moves_def)
  moreover have "pool_total P db' = principal_total P db' + K P + (pool_gap P t' + (\<Sum>t \<in># M. pool_gap P t))" for P
  proof -
    have "pool_total P (w_db w) = principal_total P (w_db w) + K P + (pool_gap P t + (\<Sum>t \<in># M. pool_gap P t))"
      using assms(1) by (simp add: balanced_def)
    moreover have "principal_total P db' = principal_total P (w_db w) + x P" "pool_total P db' = pool_total P (w_db w) + y P"
      using assms(2) by (simp_all add: moves_def)
    ultimately show ?thesis
      using assms(4) [of P] by linarith
  qed
  ultimately show ?thesis
    using assms moves_tables_ok [OF assms(2)] by (simp add: balanced_def)
qed

lemma balanced_done:
  assumes "balanced K (w, add_mset t M)" "moves (w_db w) (w_db w') x y" "solvent (w_db w')"
    and "\<And>P. y P - x P = - pool_gap P t"
  shows "balanced K (w', M)"
proof -
  have "balanced K (w', add_mset (Failing []) M)"
    using assms by (intro balanced_move [OF assms(1,2,3)]) simp_all
  then show ?thesis
    by (simp add: balanced_def)
qed

lemma balanced_add:
  assumes "balanced K (w, M)" "task_placed (w_db w) t" "0 \<le> task_amount t" "\<And>P. pool_gap P t = 0"
  shows "balanced K (w, add_mset t M)"
  using assms by (simp add: balanced_def)

lemma deposit_check_pool: "deposit_check e u r db = Inr p \<Longrightarrow> dp_poolId p \<in> set (pool_ids db)"
  by (auto simp: deposit_check_def pool_ids_def find_Some_iff split: if_splits option.splits sum.splits prod.splits
      dest: nth_mem)

lemma withdraw_check_placed:
  assumes "withdraw_check e u q db = Inr p"
  shows "(wp_positionId p, wp_poolId p) \<in> set (pos_map db)" "wp_poolId p \<in> set (pool_ids db)"
proof -
  obtain key rawId amount where q: "q = (key, rawId, amount)"
    by (cases q)
  from assms obtain pos pool where found:
    "find (\<lambda>x. pos_id x = wp_positionId p \<and> pos_lenderId x = user_id u \<and> pos_status x = PositionActive)
       (db_poolPositions db) = Some pos"
    "find (\<lambda>x. pool_id x = pos_poolId pos) (db_lendingPools db) = Some pool" "wp_poolId p = pos_poolId pos"
    by (auto simp: q withdraw_check_def Let_def split: option.splits if_splits)
  then show "(wp_positionId p, wp_poolId p) \<in> set (pos_map db)" "wp_poolId p \<in> set (pool_ids db)"
    using find_in_set [OF found(1)] find_in_set [OF found(2)] found(3)
    by (auto simp: pos_map_def pool_ids_def image_iff intro!: bexI [of _ pos] bexI [of _ pool])
qed

lemma find_position_placed: "find_position P u db = Some i \<Longrightarrow> (i, P) \<in> set (pos_map db)"
  by (auto simp: find_position_def active_position_def pos_map_def dest!: find_in_set)

lemma ledger_moves:
  assumes "tables_ok db"
  shows "moves db (insert_ledger row db) (\<lambda>_. 0) (\<lambda>_. 0)" "moves db (set_ledger_status i st db) (\<lambda>_. 0) (\<lambda>_. 0)"
    "moves db (confirm_withdrawal p i r db) (\<lambda>_. 0) (\<lambda>_. 0)" "moves db db (\<lambda>_. 0) (\<lambda>_. 0)"
  using assms
  by (auto intro!: moves_same simp: insert_ledger_def set_ledger_status_def confirm_withdrawal_def)

lemma balanced_solvent: "balanced K (w, M) \<Longrightarrow> solvent (w_db w)" "balanced K (w, M) \<Longrightarrow> tables_ok (w_db w)"
  by (simp_all add: balanced_def tables_ok_def)


lemma balanced_step: "pool_step s s' \<Longrightarrow> balanced K s \<Longrightarrow> \<forall>t \<in># snd s'. whole_micro t \<Longrightarrow> balanced K s'"
proof (induction rule: pool_step.induct)
  case (deposit_reads e u w k b r p M)
  then show ?case
    using deposit_check_pool [OF deposit_reads.hyps(4)] deposit_amount_pos [OF deposit_reads.hyps(3,4)]
    by (intro balanced_add) (auto split: option.splits intro: less_imp_le)
next
  case (deposit_finds p a w u M)
  then have "task_placed (w_db w) (DepositFound u p a (find_position (dp_poolId p) (user_id u) (w_db w)))"
    by (auto simp: balanced_def split: option.splits dest: find_position_placed)
  moreover note b = balanced_solvent [OF deposit_finds.prems(1)]
  ultimately show ?case
    using deposit_finds ledger_moves(4) [OF b(2)] b
    by (intro balanced_move [OF deposit_finds.prems(1), of _ "\<lambda>_. 0" "\<lambda>_. 0"]) (simp_all add: balanced_def)
next
  case (deposit_places e p u a found w pos db' M)
  then have t: "0 \<le> a" "case found of Some i \<Rightarrow> (i, dp_poolId p) \<in> set (pos_map (w_db w)) | None \<Rightarrow> True"
      "dp_poolId p \<in> set (pool_ids (w_db w))"
    by (simp_all add: balanced_def)
  note b = balanced_solvent [OF deposit_places.prems(1)]
  note m = place_position_moves [OF b(2) deposit_places.hyps t(1,2)]
  have "pool_ids db' = pool_ids (w_db w)"
    using m by (simp add: moves_def)
  then show ?case
    using m t place_solvent [OF b(1) t(1) deposit_places.hyps]
    by (intro balanced_move [OF deposit_places.prems(1)]) (auto simp: at_pool_def)
next
  case (deposit_conflicts e p u a found w M)
  then show ?case
    by (simp add: balanced_def)
next
  case (deposit_credits w u p a pos M)
  then have t: "0 \<le> a" "dp_poolId p \<in> set (pool_ids (w_db w))"
    by (simp_all add: balanced_def)
  note b = balanced_solvent [OF deposit_credits.prems(1)]
  show ?case
    using credit_pool_moves [OF b(2) t(2,1)] credit_solvent [OF b(1) t(1)] t(1)
    by (intro balanced_move [OF deposit_credits.prems(1)]) (auto simp: at_pool_def)
next
  case (deposit_loses w u p a M)
  then show ?case
    by (simp add: balanced_def)
next
  case (deposit_ends e u p a pos w r w' M)
  note b = balanced_solvent [OF deposit_ends.prems(1)]
  from deposit_ends.hyps show ?case
  proof (rule deposit_finish_db)
    assume "w_db w' = w_db w"
    then show ?thesis
      using b ledger_moves(4) by (intro balanced_done [OF deposit_ends.prems(1), of _ "\<lambda>_. 0" "\<lambda>_. 0"]) auto
  next
    fix row
    assume "w_db w' = insert_ledger row (w_db w)"
    then show ?thesis
      using b ledger_moves(1) by (intro balanced_done [OF deposit_ends.prems(1), of _ "\<lambda>_. 0" "\<lambda>_. 0"]) auto
  qed
next
  case (withdraw_reads e u header b q w p M)
  then show ?case
    using withdraw_check_placed [of e u q "w_db w" p] withdraw_amount_pos [of e u q "w_db w" p]
    by (intro balanced_add) (auto simp: plan_placed_def intro: less_imp_le)
next
  case (withdraw_keys e u p w i db' M)
  have db': "db' = insert_ledger (reservation_row u p i) (w_db w)"
    using withdraw_keys.hyps by (auto simp: reserve_ledger_def Let_def split: if_splits)
  note b = balanced_solvent [OF withdraw_keys.prems(1)]
  have "task_placed db' (Keyed u p i)"
    using withdraw_keys.prems(1) by (simp add: balanced_def plan_placed_def db' pos_map_def pool_ids_def insert_ledger_def)
  then show ?case
    using b ledger_moves(1) [OF b(2)] withdraw_keys.prems(1)
    by (intro balanced_move [OF withdraw_keys.prems(1), of "insert_ledger (reservation_row u p i) (w_db w)" "\<lambda>_. 0" "\<lambda>_. 0"])
      (auto simp: db' balanced_def)
next
  case (position_takes e u p w db' i M)
  then have t: "plan_placed (w_db w) p" "0 \<le> wp_decimal p"
    by (simp_all add: balanced_def)
  note b = balanced_solvent [OF position_takes.prems(1)]
  note m = reserve_position_moves [OF b(2) position_takes.hyps t(1)]
  have "plan_placed db' p"
    using m t(1) by (auto simp: moves_def plan_placed_def)
  then show ?case
    using m t take_position_solvent [OF b(1) position_takes.hyps]
    by (intro balanced_move [OF position_takes.prems(1)]) (auto simp: at_pool_def)
next
  case (pool_takes p w db' u i M)
  then have t: "plan_placed (w_db w) p" "0 \<le> wp_decimal p"
    by (simp_all add: balanced_def)
  note b = balanced_solvent [OF pool_takes.prems(1)]
  have m: "moves (w_db w) db' (\<lambda>_. 0) (at_pool (wp_poolId p) (- round6 (wp_decimal p)))"
    using reserve_pool_moves [OF b(2) pool_takes.hyps] t(1) by (simp add: plan_placed_def)
  have "plan_placed db' p"
    using m t(1) by (auto simp: moves_def plan_placed_def)
  then show ?case
    using m t take_pool_solvent [OF b(1) pool_takes.hyps]
    by (intro balanced_move [OF pool_takes.prems(1)]) (auto simp: at_pool_def)
next
  case (pool_refuses p w u i M)
  then show ?case
    by (simp add: balanced_def)
next
  case (position_refuses e u p w i M)
  then show ?case
    by (simp add: balanced_def)
next
  case (refused_releases w p i M)
  then have t: "plan_placed (w_db w) p" "0 \<le> wp_decimal p"
    by (simp_all add: balanced_def)
  note b = balanced_solvent [OF refused_releases.prems(1)]
  show ?case
    using release_position_moves [OF b(2) t] release_solvent [OF b(1) t(2)]
    by (intro balanced_move [OF refused_releases.prems(1)]) (auto simp: at_pool_def)
next
  case (failed_releases w p i M)
  then have t: "plan_placed (w_db w) p" "0 \<le> wp_decimal p"
    by (simp_all add: balanced_def)
  note b = balanced_solvent [OF failed_releases.prems(1)]
  note m = release_position_moves [OF b(2) t]
  have "plan_placed (release_position p (w_db w)) p"
    using m t(1) by (auto simp: moves_def plan_placed_def)
  then show ?case
    using m t release_solvent [OF b(1) t(2)]
    by (intro balanced_move [OF failed_releases.prems(1)]) (auto simp: at_pool_def)
next
  case (released_credits w p i M)
  then have t: "plan_placed (w_db w) p" "0 \<le> wp_decimal p"
    by (simp_all add: balanced_def)
  note b = balanced_solvent [OF released_credits.prems(1)]
  have "moves (w_db w) (release_pool p (w_db w)) (\<lambda>_. 0) (at_pool (wp_poolId p) (round6 (wp_decimal p)))"
    unfolding release_pool_def using b t by (intro credit_pool_moves) (simp_all add: plan_placed_def)
  then show ?case
    using credit_solvent [OF b(1) t(2)]
    by (intro balanced_move [OF released_credits.prems(1)]) (auto simp: at_pool_def release_pool_def)
next
  case (pays e p w r w' u i M)
  then show ?case
    using payout_db [OF pays.hyps] by (simp add: balanced_def)
next
  case (pay_fails e p w err w' u i M)
  then show ?case
    using payout_db [OF pay_fails.hyps] by (simp add: balanced_def)
next
  case (confirms e p i r w o' w' M)
  note b = balanced_solvent [OF confirms.prems(1)]
  show ?case
    using b ledger_moves(3) [OF b(2)] sync_db [OF confirms.hyps]
    by (intro balanced_done [OF confirms.prems(1), of _ "\<lambda>_. 0" "\<lambda>_. 0"]) auto
next
  case (fails w i M)
  note b = balanced_solvent [OF fails.prems(1)]
  show ?case
    using b ledger_moves(2) [OF b(2)]
    by (intro balanced_done [OF fails.prems(1), of _ "\<lambda>_. 0" "\<lambda>_. 0"]) auto
qed (auto simp: balanced_def)

text \<open>
  C2: no interleaving of deposits and withdrawals makes or loses money: when no request is in
  flight, what each pool holds has changed by exactly what its positions have, and in between
  the two differ by what the requests in flight have moved on one side only.
\<close>

theorem pools_hold_their_positions:
  assumes "exact_step\<^sup>*\<^sup>* (w0, {#}) (w, M)" "tables_ok (w_db w0)"
  shows "pool_total P (w_db w) - principal_total P (w_db w) =
    pool_total P (w_db w0) - principal_total P (w_db w0) + (\<Sum>t \<in># M. pool_gap P t)"
proof -
  let ?K = "\<lambda>P. pool_total P (w_db w0) - principal_total P (w_db w0)"
  have "balanced ?K (w0, {#})"
    using assms(2) by (simp add: balanced_def)
  with assms(1) have "balanced ?K (w, M)"
    by (induction rule: rtranclp_induct) (auto simp: exact_step_def intro: balanced_step)
  then show ?thesis
    by (simp add: balanced_def)
qed

end
