(* ===== verification/PoolSafety.thy ===== *)
theory PoolSafety
  imports PoolBooks Demo
begin

text \<open>
  Where the pool routes fall short, and the examples of their theorems.
\<close>

subsection \<open>Withdrawals below the resolution of the columns\<close>

lemma col_sub_dust:
  assumes "0 \<le> r" "r < 1 / (2 * 10 ^ 6)"
  shows "col_sub n r = n"
  unfolding col_sub_def using assms by (intro round6_close) simp

lemma withdraw_check_amount:
  assumes "withdraw_check e u (key, rawId, amount) db = Inr p"
  shows "wp_amount p = fixed_num 7 amount" "dec_of_num (fixed_num 7 amount) = Some (wp_decimal p)"
  using assms by (auto simp: withdraw_check_def Let_def split: option.splits if_splits)

lemma short_decimal_stroops: "0 < q \<Longrightarrow> q < 10 ^ 15 \<Longrightarrow> short_decimal (of_int q / 10 ^ 7)"
  unfolding short_decimal_def by blast

lemma stroops_amount:
  assumes "withdraw_check e u (key, rawId, of_stroops q) db = Inr p" "0 < q" "q < 10 ^ 15"
  shows "wp_amount p = of_stroops q" "wp_decimal p = of_int q / 10 ^ 7"
proof -
  have "(of_int q :: rat) < of_int (10 ^ 15)"
    using assms(3) by (simp only: of_int_less_iff)
  then have x: "0 < (of_int q / 10 ^ 7 :: rat)" "of_int q / 10 ^ 7 < (2 :: rat) ^ 27"
    using assms(2) by simp_all
  then have fin: "of_stroops q = Fin (fl (of_int q / 10 ^ 7))"
    unfolding of_stroops_def using to_num_le_int(1) [of "of_int q / 10 ^ 7" "2 ^ 27"] by simp
  have "\<bar>fl (of_int q / 10 ^ 7) - of_int q / 10 ^ 7\<bar> \<le> 2 powi (27 - 54)"
    using x by (intro fl_error) (simp_all add: two_powi_nat)
  also have "\<dots> < 1 / (2 * 10 ^ 7)"
    by (simp add: power_int_def power_divide)
  finally have "fixed_num 7 (of_stroops q) = of_stroops q"
    unfolding fin using assms(2,3) by (subst fixed_num_stroops [of _ q]) (simp_all add: fin)
  then show "wp_amount p = of_stroops q" "wp_decimal p = of_int q / 10 ^ 7"
    using withdraw_check_amount [OF assms(1)] shortest_dec_short [OF short_decimal_stroops [OF assms(2,3)]]
    by (simp_all add: fin)
qed

text \<open>
  A withdrawal of one to four stroops is paid out but not charged: it passes the checks and
  both reservations with a positive payout, and no position's principal and no pool's total
  changes, because the columns keep six decimals.
\<close>

theorem dust_withdrawal_free:
  assumes "withdraw_check e u (key, rawId, of_stroops q) db = Inr p" "1 \<le> q" "q \<le> 4"
    and "reserve_position e u p db = Some db1" "reserve_pool p db1 = Some db2"
  shows "wp_amount p = of_stroops q \<and> jlt (Fin 0) (wp_amount p)
    \<and> map pos_principalAmount (db_poolPositions db2) = map pos_principalAmount (db_poolPositions db)
    \<and> map pool_totalLiquidity (db_lendingPools db2) = map pool_totalLiquidity (db_lendingPools db)"
proof -
  have w: "wp_amount p = of_stroops q" "wp_decimal p = of_int q / 10 ^ 7"
    using stroops_amount [OF assms(1)] assms(2,3) by simp_all
  have "col_sub n (wp_decimal p) = n" for n
    using assms(2,3) w(2) by (intro col_sub_dust) simp_all
  then have "map pos_principalAmount (db_poolPositions db2) = map pos_principalAmount (db_poolPositions db)"
      "map pool_totalLiquidity (db_lendingPools db2) = map pool_totalLiquidity (db_lendingPools db)"
    using assms(4,5)
    by (auto simp: reserve_position_def reserve_pool_def take_principal_def take_liquidity_def map_update_where
        split: if_splits)
  moreover have "jlt (Fin 0) (wp_amount p)"
    using assms(1) withdraw_check_amount(1) [OF assms(1)]
    by (cases "fixed_num 7 (of_stroops q)")
      (auto simp: withdraw_check_def Let_def split: option.splits if_splits)
  ultimately show ?thesis
    using w(1) by simp
qed

subsection \<open>A deposit that is overtaken by a withdrawal\<close>

text \<open>
  A deposit can land on a closed position: it looks the lender's position up, a withdrawal of
  the whole principal closes it, and the deposit then adds to the closed row. The money is in
  the pool, but the position is not active, so no withdrawal of it passes.
\<close>

theorem deposit_on_closed_position:
  assumes "find_position P (user_id u) db = Some i" "distinct (map pos_id (db_poolPositions db))"
    and "reserve_position e u p db = Some db1" "wp_positionId p = i"
    and "find (\<lambda>x. pos_id x = i) (db_poolPositions db) = Some q" "wp_decimal p = of_micro (pos_principalAmount q)"
    and "place_position e' P (user_id u) a (Some i) db1 = Some (pos, db2)" "0 \<le> a"
  shows "\<exists>q'. pos = Some q' \<and> pos_principalAmount q' = round6 a \<and> pos_status q' = PositionClosed
    \<and> (\<forall>e u' key rawId amount. env_pgUuid e rawId = Some i \<longrightarrow>
         withdraw_check e u' (key, rawId, amount) db2 = Inl (404, WithdrawNoPosition))"
proof -
  let ?f = "take_principal (wp_decimal p) (env_now e)"
  have q: "q \<in> set (db_poolPositions db)" "pos_id q = i"
    using find_in_set [OF assms(5)] by simp_all
  obtain r where r: "find (reservable u p) (db_poolPositions db) = Some r"
    and db1: "db_poolPositions db1 = update_where (reservable u p) ?f (db_poolPositions db)"
    using assms(3) by (auto simp: reserve_position_def split: if_splits)
  have "r \<in> set (db_poolPositions db)" "reservable u p r" "pos_id r = i"
    using find_in_set [OF r] assms(4) by (simp_all add: reservable_def)
  moreover from this have "r = q"
    using q assms(2) by (auto simp: distinct_map dest: inj_onD)
  ultimately have "db_poolPositions db1 = update_where (\<lambda>x. pos_id x = i) ?f (db_poolPositions db)"
    using update_where_key [of pos_id "db_poolPositions db" r "reservable u p" ?f] assms(2,4)
    by (simp add: db1 reservable_def)
  then have db2: "find (\<lambda>x. pos_id x = i) (db_poolPositions db2) = Some (add_principal a (?f q))" "pos = Some (add_principal a (?f q))"
    "map pos_id (db_poolPositions db2) = map pos_id (db_poolPositions db)"
    using assms(5,7) by (auto simp: place_position_def Let_def add_principal_upd.find_update take_principal_upd.find_update)
  have f: "pos_status (?f q) = PositionClosed" "pos_principalAmount (?f q) = 0"
    using assms(6) by (simp_all add: take_principal_def col_sub_def round6_of_micro [of 0, simplified])
  have "find (\<lambda>x. pos_id x = i \<and> pos_lenderId x = v \<and> pos_status x = PositionActive) (db_poolPositions db2) = None" for v
  proof -
    have "pos_status x \<noteq> PositionActive" if "x \<in> set (db_poolPositions db2)" "pos_id x = i" for x
    proof -
      have "distinct (map pos_id (db_poolPositions db2))"
        using assms(2) db2(3) by simp
      then have "find (\<lambda>y. pos_id y = i) (db_poolPositions db2) = Some x"
        using positions_tbl.find_distinct [of "db_poolPositions db2" x] that by simp
      with db2(1) f(1) show ?thesis
        by (auto simp: add_principal_def)
    qed
    then show ?thesis
      by (auto simp: find_None_iff)
  qed
  then show ?thesis
    using db2(2) f assms(8) by (simp add: withdraw_check_def add_principal_def col_add_nonneg)
qed


subsection \<open>Examples\<close>

text \<open>A pool of 100 XLM, all of it the lender's position.\<close>

definition demo_position :: pool_position where
  "demo_position = \<lparr>pos_id = ''Q'', pos_poolId = ''P'', pos_lenderId = ''l'', pos_status = PositionActive,
     pos_principalAmount = 100000000, pos_earnedInterest = 0, pos_withdrawnAmount = 0, pos_closedAt = None\<rparr>"

definition demo_pool :: lending_pool where
  "demo_pool = \<lparr>pool_id = ''P'', pool_status = PoolActive, pool_aprBps = 500, pool_totalLiquidity = 100000000,
     pool_availableLiquidity = 100000000, pool_totalBorrowed = 0, pool_borrowCap = None, pool_onchainPoolId = None\<rparr>"

definition demo_pool_db :: database where
  "demo_pool_db = demo_db\<lparr>db_lendingPools := [demo_pool], db_poolPositions := [demo_position]\<rparr>"

definition demo_pool_env :: env where
  "demo_pool_env = demo_env demo_lender (demo_horizon [] [] [] [])"

definition demo_withdrawal :: "jsnum \<Rightarrow> rat \<Rightarrow> withdraw_plan" where
  "demo_withdrawal n d = \<lparr>wp_key = ''key-0001'', wp_rawId = ''Q'', wp_positionId = ''Q'', wp_poolId = ''P'',
     wp_destination = ''GL'', wp_amount = n, wp_decimal = d\<rparr>"

lemma demo_pool_simps [simp]:
  "pool_id demo_pool = ''P''" "pool_availableLiquidity demo_pool = 100000000" "pool_totalLiquidity demo_pool = 100000000"
  "pos_id demo_position = ''Q''" "pos_poolId demo_position = ''P''" "pos_lenderId demo_position = ''l''"
  "pos_status demo_position = PositionActive" "pos_principalAmount demo_position = 100000000"
  "db_lendingPools demo_pool_db = [demo_pool]" "db_poolPositions demo_pool_db = [demo_position]"
  "db_ledgerTransactions demo_pool_db = []" "user_id demo_lender = ''l''"
  by (simp_all add: demo_pool_def demo_position_def demo_pool_db_def demo_db_def empty_db_def demo_lender_def)

lemma demo_pool_tables: "tables_ok demo_pool_db"
  by (simp add: tables_ok_def pos_map_def pool_ids_def solvent_def)

lemma demo_withdraw_destination: "withdraw_destination demo_lender demo_pool_db = ''GL''"
  by (simp add: withdraw_destination_def profile_wallet_def demo_pool_db_def demo_db_def empty_db_def demo_profile_def
      demo_borrower_def demo_lender_def)

lemma num_100: "num_of_micro 100000000 = Fin 100"
  using to_num_int [of 100] by (simp add: num_of_micro_def of_micro_def)

lemma demo_withdraw_check:
  assumes "fixed_num 7 n = Fin x" "0 < x" "x \<le> 100" "n = Fin x'" "x' \<le> 100" "shortest_dec x = d"
  shows "withdraw_check demo_pool_env demo_lender (''key-0001'', ''Q'', n) demo_pool_db = Inr (demo_withdrawal (Fin x) d)"
  using assms
  by (simp add: withdraw_check_def demo_pool_env_def num_100 demo_withdraw_destination demo_withdrawal_def)

lemma demo_withdraw_40: "withdraw_check demo_pool_env demo_lender (''key-0001'', ''Q'', Fin 40) demo_pool_db =
    Inr (demo_withdrawal (Fin 40) 40)"
proof (rule demo_withdraw_check [of "Fin 40" 40 40 40])
  show "fixed_num 7 (Fin 40) = Fin 40" "shortest_dec 40 = 40"
    by code_simp+
qed simp_all

lemma demo_withdraw_reads:
  "pool_step (demo_world demo_pool_db, {#}) (demo_world demo_pool_db, {#WithdrawChecked demo_lender (demo_withdrawal (Fin 40) 40)#})"
proof (rule withdraw_reads)
  show "requireAuthenticatedUser demo_pool_env RoleLender = Inr demo_lender"
    by (simp add: requireAuthenticatedUser_def demo_pool_env_def) (simp add: demo_lender_def)
  show "withdraw_parse (Some ''key-0001'') \<lparr>wb_positionId = JStr ''Q'', wb_amount = JNum (Fin 40)\<rparr> =
      Inr (''key-0001'', ''Q'', Fin 40)"
    by code_simp
  show "withdraw_check demo_pool_env demo_lender (''key-0001'', ''Q'', Fin 40) (w_db (demo_world demo_pool_db)) =
      Inr (demo_withdrawal (Fin 40) 40)"
    using demo_withdraw_40 by (simp add: demo_world_def)
qed

lemma demo_uuid: "env_genUuid demo_pool_env n = replicate (Suc n) (CHR ''u'')" "env_now demo_pool_env = 1000"
  by (simp_all add: demo_pool_env_def)

text \<open>The withdrawal has its entry and has taken the position, but not yet the pool.\<close>

lemma demo_taken: "\<exists>w. exact_step\<^sup>*\<^sup>* (demo_world demo_pool_db, {#}) (w, {#PositionTaken demo_lender (demo_withdrawal (Fin 40) 40) ''u''#})"
proof -
  let ?w = "demo_world demo_pool_db" and ?p = "demo_withdrawal (Fin 40) 40"
  have micro: "of_micro (round6 40) = 40"
    by code_simp
  have uuids: "db_uuids demo_pool_db = 0"
    by (simp add: demo_pool_db_def demo_db_def empty_db_def)
  define db1 where "db1 = insert_ledger (reservation_row demo_lender ?p ''u'') demo_pool_db"
  have "reserve_ledger demo_pool_env demo_lender ?p demo_pool_db = Some (''u'', db1)"
    by (simp add: reserve_ledger_def key_used_def demo_uuid uuids db1_def Let_def)
  then have k: "pool_step (?w, {#WithdrawChecked demo_lender ?p#}) (with_db ?w db1, {#Keyed demo_lender ?p ''u''#})"
    by (intro withdraw_keys) (simp add: demo_world_def)
  have "db_poolPositions db1 = [demo_position]"
    by (simp add: db1_def insert_ledger_def)
  then have "\<exists>db2. reserve_position demo_pool_env demo_lender ?p db1 = Some db2"
    by (simp add: reserve_position_def reservable_def demo_withdrawal_def of_micro_def)
  then obtain db2 where "reserve_position demo_pool_env demo_lender ?p db1 = Some db2"
    by blast
  then have t: "pool_step (with_db ?w db1, {#Keyed demo_lender ?p ''u''#})
      (with_db (with_db ?w db1) db2, {#PositionTaken demo_lender ?p ''u''#})"
    by (intro position_takes) simp
  have "exact_step (?w, {#}) (?w, {#WithdrawChecked demo_lender ?p#})"
    using demo_withdraw_reads micro by (simp add: exact_step_def demo_withdrawal_def)
  moreover have "exact_step (?w, {#WithdrawChecked demo_lender ?p#}) (with_db ?w db1, {#Keyed demo_lender ?p ''u''#})"
    using k by (simp add: exact_step_def)
  moreover have "exact_step (with_db ?w db1, {#Keyed demo_lender ?p ''u''#})
      (with_db (with_db ?w db1) db2, {#PositionTaken demo_lender ?p ''u''#})"
    using t by (simp add: exact_step_def)
  ultimately show ?thesis
    by (meson converse_rtranclp_into_rtranclp r_into_rtranclp)
qed

lemma reachable_steps: "pool_step\<^sup>*\<^sup>* s s' \<Longrightarrow> pool_reachable w0 s \<Longrightarrow> pool_reachable w0 s'"
  by (induction rule: rtranclp_induct) (auto intro: pool_reachable.step)

lemma exact_steps: "exact_step\<^sup>*\<^sup>* s s' \<Longrightarrow> pool_step\<^sup>*\<^sup>* s s'"
  by (induction rule: rtranclp_induct) (auto simp: exact_step_def)

lemma pools_hold_their_positions_witness:
  "\<exists>w :: world. pool_total ''P'' (w_db w) - principal_total ''P'' (w_db w) = 40000000"
proof -
  obtain w where "exact_step\<^sup>*\<^sup>* (demo_world demo_pool_db, {#}) (w, {#PositionTaken demo_lender (demo_withdrawal (Fin 40) 40) ''u''#})"
    using demo_taken by blast
  moreover have "round6 40 = 40000000"
    by code_simp
  ultimately show ?thesis
    using pools_hold_their_positions [of "demo_world demo_pool_db" w _ "''P''"] demo_pool_tables
    by (intro exI [of _ w]) (auto simp: demo_world_def demo_withdrawal_def pool_total_def principal_total_def)
qed

lemma demo_taken_reachable:
  "\<exists>w. pool_reachable (demo_world demo_pool_db) (w, {#PositionTaken demo_lender (demo_withdrawal (Fin 40) 40) ''u''#})"
  using demo_taken by (blast intro: reachable_steps exact_steps pool_reachable.start)

lemma pools_never_overdrawn_witness:
  "\<exists>w. pool_reachable (demo_world demo_pool_db) (w, {#PositionTaken demo_lender (demo_withdrawal (Fin 40) 40) ''u''#})
    \<and> (\<forall>pos \<in> set (db_poolPositions (w_db w)). 0 \<le> pos_principalAmount pos)"
proof -
  obtain w where w: "pool_reachable (demo_world demo_pool_db) (w, {#PositionTaken demo_lender (demo_withdrawal (Fin 40) 40) ''u''#})"
    using demo_taken_reachable by blast
  have "solvent (w_db (demo_world demo_pool_db))"
    using demo_pool_tables by (simp add: demo_world_def tables_ok_def)
  from pools_never_overdrawn [OF w this] w show ?thesis
    by blast
qed

lemma one_payout_per_key_witness:
  "\<exists>w. pool_reachable (demo_world demo_pool_db) (w, {#PositionTaken demo_lender (demo_withdrawal (Fin 40) 40) ''u''#})
    \<and> payouts w \<le> card {(u, k). key_used u k (w_db w)}"
proof -
  obtain w where w: "pool_reachable (demo_world demo_pool_db) (w, {#PositionTaken demo_lender (demo_withdrawal (Fin 40) 40) ''u''#})"
    using demo_taken_reachable by blast
  moreover have "payouts (demo_world demo_pool_db) = 0"
    by (simp add: payouts_def demo_world_def)
  ultimately show ?thesis
    using one_payout_per_key [OF w] by (auto simp: demo_world_def)
qed

lemma dust_withdrawal_free_witness:
  "\<exists>p db1 db2. withdraw_check demo_pool_env demo_lender (''key-0001'', ''Q'', of_stroops 4) demo_pool_db = Inr p
    \<and> reserve_position demo_pool_env demo_lender p demo_pool_db = Some db1 \<and> reserve_pool p db1 = Some db2
    \<and> map pos_principalAmount (db_poolPositions db2) = [100000000]"
proof -
  have "fixed_num 7 (of_stroops 4) = Fin (fl (4 / 10 ^ 7))" "0 < fl (4 / 10 ^ 7)" "fl (4 / 10 ^ 7) \<le> 100"
    "of_stroops 4 = Fin (fl (4 / 10 ^ 7))" "shortest_dec (fl (4 / 10 ^ 7)) = 4 / 10 ^ 7"
    by code_simp+
  then obtain p where p: "withdraw_check demo_pool_env demo_lender (''key-0001'', ''Q'', of_stroops 4) demo_pool_db = Inr p"
    "wp_positionId p = ''Q''" "wp_poolId p = ''P''" "wp_decimal p = 4 / 10 ^ 7"
    using demo_withdraw_check by (metis demo_withdrawal_def withdraw_plan.select_convs(3,4,7))
  note d = p(4)
  obtain db1 where db1: "reserve_position demo_pool_env demo_lender p demo_pool_db = Some db1"
    using p d by (simp add: reserve_position_def reservable_def of_micro_def)
  moreover from this have "db_lendingPools db1 = [demo_pool]"
    by (auto simp: reserve_position_def split: if_splits)
  then obtain db2 where "reserve_pool p db1 = Some db2"
    using p d by (simp add: reserve_pool_def pool_covers_def of_micro_def)
  ultimately show ?thesis
    using dust_withdrawal_free [OF p(1) _ _ db1] p(1) by (intro exI [of _ p]) auto
qed

lemma deposit_on_closed_position_witness:
  "\<exists>db1 pos db2 q. reserve_position demo_pool_env demo_lender (demo_withdrawal (Fin 100) 100) demo_pool_db = Some db1
    \<and> place_position demo_pool_env ''P'' ''l'' 5 (Some ''Q'') db1 = Some (pos, db2)
    \<and> pos = Some q \<and> pos_status q = PositionClosed \<and> pos_principalAmount q = 5000000"
proof -
  let ?p = "demo_withdrawal (Fin 100) 100"
  have five: "round6 5 = 5000000"
    by code_simp
  obtain db1 where db1: "reserve_position demo_pool_env demo_lender ?p demo_pool_db = Some db1"
    by (simp add: reserve_position_def reservable_def demo_withdrawal_def of_micro_def)
  obtain pos db2 where placed: "place_position demo_pool_env ''P'' ''l'' 5 (Some ''Q'') db1 = Some (pos, db2)"
    by (simp add: place_position_def Let_def)
  have "find_position ''P'' (user_id demo_lender) demo_pool_db = Some ''Q''"
    by (simp add: find_position_def active_position_def)
  from deposit_on_closed_position [OF this _ db1 _ _ _ , of demo_position demo_pool_env 5 pos db2] placed db1 five show ?thesis
    by (auto simp: demo_withdrawal_def of_micro_def)
qed

end
