(* ===== verification/RateSafety.thy ===== *)
theory RateSafety
  imports RateConfig Demo
begin

text \<open>What the rate schedules guarantee: the tier that is chosen, and the bounds of the price.\<close>

subsection \<open>Ladders\<close>

text \<open>
  The interface of a ladder: thresholds that are numbers, in the order of the list. The loop
  then finds the last tier the value clears. Both ladders of a schedule are one.
\<close>

locale ladder =
  fixes threshold :: "'t \<Rightarrow> jsnum" and tiers :: "'t list"
  assumes finite_thresholds: "t \<in> set tiers \<Longrightarrow> is_finite (threshold t)"
    and ordered: "sorted (map (\<lambda>t. rat_key (threshold t)) tiers)"
begin

definition cleared :: "jsnum \<Rightarrow> 't list" where
  "cleared x = filter (\<lambda>t. jle (threshold t) x) tiers"

end

lemma jle_rat_key: "is_finite a \<Longrightarrow> is_finite b \<Longrightarrow> jle a b \<longleftrightarrow> rat_key a \<le> rat_key b"
  by (cases a; cases b) (simp_all add: rat_key_def)

lemma select_tier_sorted:
  assumes "\<forall>t \<in> set tiers. is_finite (threshold t)" "sorted (map (\<lambda>t. rat_key (threshold t)) tiers)"
    and "\<forall>b. best = Some b \<longrightarrow> is_finite (threshold b) \<and> (\<forall>t \<in> set tiers. rat_key (threshold b) \<le> rat_key (threshold t))"
  shows "select_tier threshold x best tiers =
    (case filter (\<lambda>t. jle (threshold t) x) tiers of [] \<Rightarrow> best | ts \<Rightarrow> Some (last ts))"
  using assms
proof (induction tiers arbitrary: best)
  case Nil
  then show ?case by simp
next
  case (Cons t ts)
  show ?case
  proof (cases "jle (threshold t) x")
    case True
    then have "select_tier threshold x best (t # ts) = select_tier threshold x (Some t) ts"
      using Cons.prems by (auto simp: jle_rat_key split: option.split)
    also have "\<dots> = (case filter (\<lambda>t. jle (threshold t) x) ts of [] \<Rightarrow> Some t | ts \<Rightarrow> Some (last ts))"
      using Cons.prems by (intro Cons.IH) auto
    finally show ?thesis
      using True by (auto split: list.split)
  next
    case False
    then show ?thesis
      using Cons.prems by (simp add: Cons.IH)
  qed
qed

lemma sorted_last_le: "sorted (map f xs) \<Longrightarrow> x \<in> set xs \<Longrightarrow> f x \<le> f (last xs)"
  by (induction xs rule: rev_induct) (auto simp: sorted_append)

context ladder
begin

lemma select: "select_tier threshold x None tiers = (case cleared x of [] \<Rightarrow> None | ts \<Rightarrow> Some (last ts))"
  unfolding cleared_def using finite_thresholds ordered by (intro select_tier_sorted) simp_all

text \<open>A higher value never gets a lower tier.\<close>

lemma last_cleared_mono:
  assumes "jle x y" "is_finite x" "is_finite y" "cleared x \<noteq> []"
  shows "cleared y \<noteq> [] \<and> rat_key (threshold (last (cleared x))) \<le> rat_key (threshold (last (cleared y)))"
proof -
  have sub: "filter (\<lambda>t. jle (threshold t) x) (cleared y) = cleared x"
    unfolding cleared_def filter_filter using assms(1) by (intro filter_cong) (auto dest: jle_trans)
  then have "last (cleared x) \<in> set (cleared y)"
    using assms(4) by (metis filter_is_subset last_in_set subsetD)
  moreover have "sorted (map (\<lambda>t. rat_key (threshold t)) (cleared y))"
    unfolding cleared_def using ordered by (rule sorted_filter)
  ultimately show ?thesis
    by (cases "cleared y" rule: rev_cases) (auto simp: sorted_append)
qed

end

lemma parse_amount_tier_finite: "parse_amount_tier v = Some t \<Longrightarrow> is_finite (at_minAmount t) \<and> is_finite (at_aprBps t)"
  by (auto simp: parse_amount_tier_def Let_def is_finite_iff split: if_splits)

lemma parse_reputation_tier_finite:
  "parse_reputation_tier v = Some t \<Longrightarrow> is_finite (rt_minScore t) \<and> is_finite (rt_multiplierBps t)"
  by (auto simp: parse_reputation_tier_def Let_def is_finite_iff split: if_splits)

lemma in_map_filter: "t \<in> set (List.map_filter f xs) \<Longrightarrow> \<exists>x \<in> set xs. f x = Some t"
  by (auto simp: List.map_filter_def)

lemma parseAmountTiers_tier: "t \<in> set (parseAmountTiers raw) \<Longrightarrow> is_finite (at_minAmount t) \<and> is_finite (at_aprBps t)"
  by (cases raw) (auto simp: parseAmountTiers_def dest!: in_map_filter parse_amount_tier_finite)

lemma parseReputationTiers_tier:
  "t \<in> set (parseReputationTiers raw) \<Longrightarrow> is_finite (rt_minScore t) \<and> is_finite (rt_multiplierBps t)"
  by (cases raw) (auto simp: parseReputationTiers_def dest!: in_map_filter parse_reputation_tier_finite)

interpretation amount_ladder: ladder at_minAmount "parseAmountTiers raw" for raw
  by unfold_locales (simp_all add: parseAmountTiers_tier parseAmountTiers_def sorted_sort_key split: jsval.split)

interpretation reputation_ladder: ladder rt_minScore "parseReputationTiers raw" for raw
  by unfold_locales (simp_all add: parseReputationTiers_tier parseReputationTiers_def sorted_sort_key split: jsval.split)


subsection \<open>The chosen tier\<close>

text \<open>
  C28: for every stored schedule the loop agrees with its specification: the amount tier of a
  loan is the last one, by threshold, that the amount clears, none when it clears none, and no
  cleared tier has a higher threshold.
\<close>

theorem selectAmountTier_last_cleared:
  "selectAmountTier (rowToConfig row) amount =
     (case filter (\<lambda>t. jle (at_minAmount t) amount) (parseAmountTiers (irc_amountTiers row)) of
        [] \<Rightarrow> None | ts \<Rightarrow> Some (last ts))
   \<and> (\<forall>t best. selectAmountTier (rowToConfig row) amount = Some best
        \<longrightarrow> t \<in> set (parseAmountTiers (irc_amountTiers row)) \<longrightarrow> jle (at_minAmount t) amount
        \<longrightarrow> jle (at_minAmount best) amount \<and> jle (at_minAmount t) (at_minAmount best))"
proof -
  let ?tiers = "parseAmountTiers (irc_amountTiers row)"
  let ?cleared = "filter (\<lambda>t. jle (at_minAmount t) amount) ?tiers"
  have eq: "selectAmountTier (rowToConfig row) amount = (case ?cleared of [] \<Rightarrow> None | ts \<Rightarrow> Some (last ts))"
    using amount_ladder.select [of amount "irc_amountTiers row"]
    by (simp add: selectAmountTier_def rowToConfig_def amount_ladder.cleared_def)
  have best: "jle (at_minAmount best) amount \<and> jle (at_minAmount t) (at_minAmount best)"
    if "(case ?cleared of [] \<Rightarrow> None | ts \<Rightarrow> Some (last ts)) = Some best" "t \<in> set ?tiers" "jle (at_minAmount t) amount" for t best
  proof -
    have t: "t \<in> set ?cleared" and best: "best = last ?cleared"
      using that by (auto split: list.splits)
    then have in_best: "best \<in> set ?cleared"
      by (metis empty_iff empty_set last_in_set)
    have "sorted (map (\<lambda>t. rat_key (at_minAmount t)) ?cleared)"
      by (rule sorted_filter) (rule amount_ladder.ordered)
    then have "rat_key (at_minAmount t) \<le> rat_key (at_minAmount best)"
      using sorted_last_le [OF _ t] best by simp
    moreover have "is_finite (at_minAmount t)" "is_finite (at_minAmount best)"
      using t in_best parseAmountTiers_tier by (simp_all only: set_filter mem_Collect_eq) blast+
    ultimately show ?thesis
      using in_best by (simp add: jle_rat_key)
  qed
  show ?thesis
    by (rule conjI [OF eq], unfold eq, intro allI impI, rule best)
qed

subsection \<open>The price\<close>

lemma jround_finite_or_inf: "x \<noteq> NaN \<Longrightarrow> jround x \<noteq> NaN"
  by (cases x) auto

lemma adjusted_not_NaN:
  assumes "is_finite a" "is_finite b"
  shows "jround (jdiv (jmul a b) (Fin 10000)) \<noteq> NaN"
proof -
  obtain x y where "a = Fin x" "b = Fin y"
    using assms by (auto simp: is_finite_iff)
  then have "jmul a b \<noteq> NaN"
    by simp
  then have "jdiv (jmul a b) (Fin 10000) \<noteq> NaN"
    by (cases "jmul a b") simp_all
  then show ?thesis
    by (rule jround_finite_or_inf)
qed

lemma select_tier_in: "select_tier threshold x best ts = Some t \<Longrightarrow> t \<in> set ts \<or> best = Some t"
  by (induction ts arbitrary: best) (auto split: if_splits)

lemma row_multiplier_finite: "is_finite (selectReputationMultiplierBps (rowToConfig row) score)"
  by (auto simp: selectReputationMultiplierBps_def rowToConfig_def split: option.split
      dest!: select_tier_in parseReputationTiers_tier)

lemma row_tier_finite: "selectAmountTier (rowToConfig row) amount = Some t \<Longrightarrow> is_finite (at_aprBps t)"
  by (auto simp: selectAmountTier_def rowToConfig_def dest!: select_tier_in parseAmountTiers_tier)

text \<open>
  Whatever a stored schedule says and whatever amount or score it is asked about, not a
  number included, the rate that is charged lies between the schedule's minimum and maximum.
\<close>

theorem priceLoanApr_bounded:
  assumes "\<bar>irc_baseAprBps row\<bar> < 2 ^ 31" "\<bar>irc_minAprBps row\<bar> < 2 ^ 31" "\<bar>irc_maxAprBps row\<bar> < 2 ^ 31"
  shows "\<exists>apr. q_aprBps (priceLoanApr (rowToConfig row) amount score fallback) = Fin apr
    \<and> of_int (min (irc_minAprBps row) (irc_maxAprBps row)) \<le> apr
    \<and> apr \<le> of_int (max (irc_minAprBps row) (irc_maxAprBps row))"
proof -
  let ?c = "rowToConfig row"
  let ?tier = "case selectAmountTier ?c amount of Some t \<Rightarrow> at_aprBps t | None \<Rightarrow> cfg_baseAprBps ?c"
  let ?adj = "jround (jdiv (jmul ?tier (selectReputationMultiplierBps ?c score)) (Fin 10000))"
  have cols: "cfg_minAprBps ?c = Fin (of_int (irc_minAprBps row))" "cfg_maxAprBps ?c = Fin (of_int (irc_maxAprBps row))"
    "cfg_baseAprBps ?c = Fin (of_int (irc_baseAprBps row))"
    using assms by (simp_all add: rowToConfig_def to_num_int)
  then have "is_finite ?tier"
    by (auto split: option.split dest: row_tier_finite)
  then have adj: "?adj \<noteq> NaN"
    using row_multiplier_finite by (intro adjusted_not_NaN)
  define lo hi where "lo = (of_int (min (irc_minAprBps row) (irc_maxAprBps row)) :: rat)"
    and "hi = (of_int (max (irc_minAprBps row) (irc_maxAprBps row)) :: rat)"
  have lohi: "lo \<le> hi" "jmin (cfg_minAprBps ?c) (cfg_maxAprBps ?c) = Fin lo" "jmax (cfg_minAprBps ?c) (cfg_maxAprBps ?c) = Fin hi"
    by (simp_all add: lo_def hi_def cols of_int_min of_int_max)
  have "\<exists>apr. jmax (Fin lo) (jmin (Fin hi) ?adj) = Fin apr \<and> lo \<le> apr \<and> apr \<le> hi"
    using adj lohi(1) by (cases ?adj) (auto simp: jmax_def jmin_def)
  then show ?thesis
    by (simp add: priceLoanApr_def Let_def lohi flip: lo_def hi_def)
qed

definition demo_rate_row :: interest_rate_config_row where
  "demo_rate_row =
     \<lparr>irc_rateModel = ''fixed'', irc_version = 3, irc_isActive = True, irc_baseAprBps = 1500,
      irc_minAprBps = 100, irc_maxAprBps = 5000,
      irc_amountTiers = JArr [JObj [(''minAmount'', JNum (Fin 2000)), (''aprBps'', JNum (Fin 1000))],
                              JObj [(''minAmount'', JNum (Fin 1000)), (''aprBps'', JNum (Fin 1200))]],
      irc_reputationTiers = JArr [JObj [(''minScore'', JNum (Fin 0)), (''multiplierBps'', JNum (Fin 10000))]],
      irc_notes = Some ''second schedule'', irc_updatedByEmail = None,
      irc_updatedAt = ''2026-01-01T00:00:00.000Z''\<rparr>"

lemma priceLoanApr_bounded_witness:
  "\<exists>apr. q_aprBps (priceLoanApr (rowToConfig demo_rate_row) (Fin 1500) NaN False) = Fin apr
    \<and> of_int (min (irc_minAprBps demo_rate_row) (irc_maxAprBps demo_rate_row)) \<le> apr
    \<and> apr \<le> of_int (max (irc_minAprBps demo_rate_row) (irc_maxAprBps demo_rate_row))"
  by (rule priceLoanApr_bounded) (simp_all add: demo_rate_row_def)


subsection \<open>The default schedule\<close>

lemma default_multiplier: "selectReputationMultiplierBps (DEFAULT_RATE_CONFIGS m) score = Fin 10000"
proof -
  have "rt_multiplierBps t = Fin 10000" if "t \<in> set (cfg_reputationTiers (DEFAULT_RATE_CONFIGS m))" for t
    using that by (cases m) (auto simp: default_reputation_tiers_def)
  then show ?thesis
    by (auto simp: selectReputationMultiplierBps_def split: option.split dest!: select_tier_in)
qed

lemma micro_threshold:
  assumes "0 \<le> n" "n < 2 ^ 28 * 1000000" "0 \<le> k" "k < 2 ^ 28" "of_int k < fl (of_micro (k * 1000000 + 1))"
  shows "jle (num_of_micro (k * 1000000 + 1)) (num_of_micro n) \<longleftrightarrow> k * 1000000 < n"
proof -
  have fin: "num_of_micro n = Fin (fl (of_micro n))" "num_of_micro (k * 1000000 + 1) = Fin (fl (of_micro (k * 1000000 + 1)))"
    using assms(1-4) by (intro num_of_micro_Fin; simp)+
  show ?thesis
  proof (cases "k * 1000000 < n")
    case True
    then have "of_micro (k * 1000000 + 1) \<le> of_micro n"
      by simp
    from fl_mono [OF this] True show ?thesis
      by (simp add: fin)
  next
    case False
    then have "of_micro n \<le> of_micro (k * 1000000)"
      by (simp only: of_micro_le_iff not_less)
    also have "\<dots> = of_int k"
      by (simp add: of_micro_def)
    finally have "fl (of_micro n) \<le> of_int k"
      using assms(3,4) by (intro fl_le_int) simp_all
    with assms(5) False show ?thesis
      by (simp add: fin)
  qed
qed

lemma default_thresholds:
  "to_num (1000000001 / 1000000) = num_of_micro (1000000001)" "to_num (2000000001 / 1000000) = num_of_micro (2000000001)"
  by (simp_all add: num_of_micro_def of_micro_def)

lemma default_selects:
  assumes "0 \<le> n" "n < 2 ^ 28 * 1000000"
  shows "map_option at_aprBps (select_tier at_minAmount (num_of_micro n) None (default_amount_tiers a b)) =
    (if n \<le> 1000000000 then None else if n \<le> 2000000000 then Some (Fin a) else Some (Fin b))"
proof -
  have "of_int 1000 < fl (of_micro (1000000001))" "of_int 2000 < fl (of_micro (2000000001))"
    "jle (num_of_micro (1000000001)) (num_of_micro (2000000001))"
    by code_simp+
  with micro_threshold [OF assms, of 1000] micro_threshold [OF assms, of 2000] show ?thesis
    by (auto simp: default_amount_tiers_def default_thresholds)
qed

lemma default_prices:
  "jmax (Fin 100) (jmin (Fin 5000) (jround (jdiv (jmul (Fin 1500) (Fin 10000)) (Fin 10000)))) = Fin 1500"
  "jmax (Fin 100) (jmin (Fin 5000) (jround (jdiv (jmul (Fin 1200) (Fin 10000)) (Fin 10000)))) = Fin 1200"
  "jmax (Fin 100) (jmin (Fin 5000) (jround (jdiv (jmul (Fin 1000) (Fin 10000)) (Fin 10000)))) = Fin 1000"
  "jmax (Fin 100) (jmin (Fin 5000) (jround (jdiv (jmul (Fin 500) (Fin 10000)) (Fin 10000)))) = Fin 500"
  "jmax (Fin 100) (jmin (Fin 5000) (jround (jdiv (jmul (Fin 450) (Fin 10000)) (Fin 10000)))) = Fin 450"
  "jmax (Fin 100) (jmin (Fin 5000) (jround (jdiv (jmul (Fin 400) (Fin 10000)) (Fin 10000)))) = Fin 400"
  by code_simp+

text \<open>
  Without a stored schedule, a loan of up to 1000 XLM costs 15 percent, up to 2000 XLM 12
  percent and above 10 percent at a fixed rate, and 5, 4.5 and 4 percent at a floating one, to
  the millionth at both limits and whatever the borrower's score.
\<close>

theorem default_schedule_prices:
  assumes "0 \<le> n" "n < 2 ^ 28 * 1000000"
  shows "q_aprBps (priceLoanApr (fst (getActiveRateConfig None m)) (num_of_micro n) score b) = Fin (case m of
      RateFixed \<Rightarrow> if n \<le> 1000000000 then 1500 else if n \<le> 2000000000 then 1200 else 1000
    | RateFloating \<Rightarrow> if n \<le> 1000000000 then 500 else if n \<le> 2000000000 then 450 else 400)"
proof (cases m)
  case RateFixed
  then show ?thesis
    using default_selects [OF assms, of 1200 1000] default_prices default_multiplier [of RateFixed score]
    by (auto simp: getActiveRateConfig_def priceLoanApr_def Let_def selectAmountTier_def split: option.splits if_splits)
next
  case RateFloating
  then show ?thesis
    using default_selects [OF assms, of 450 400] default_prices default_multiplier [of RateFloating score]
    by (auto simp: getActiveRateConfig_def priceLoanApr_def Let_def selectAmountTier_def split: option.splits if_splits)
qed

lemma default_schedule_prices_witness:
  "q_aprBps (priceLoanApr (fst (getActiveRateConfig None RateFixed)) (num_of_micro 1000000000) (Fin 300) True) = Fin 1500
   \<and> q_aprBps (priceLoanApr (fst (getActiveRateConfig None RateFixed)) (num_of_micro 1000000001) (Fin 300) True) = Fin 1200"
  using default_schedule_prices [of 1000000000 RateFixed "Fin 300" True]
    default_schedule_prices [of 1000000001 RateFixed "Fin 300" True] by simp

lemma selectAmountTier_last_cleared_witness:
  "\<exists>ts. selectAmountTier (rowToConfig demo_rate_row) (Fin 1500) =
     (case filter (\<lambda>t. jle (at_minAmount t) (Fin 1500)) ts of [] \<Rightarrow> None | ts \<Rightarrow> Some (last ts))
   \<and> (\<forall>t\<in>set ts. jle (at_minAmount t) (Fin 1500) \<longrightarrow>
        (\<forall>best. selectAmountTier (rowToConfig demo_rate_row) (Fin 1500) = Some best \<longrightarrow> jle (at_minAmount t) (at_minAmount best)))"
  using selectAmountTier_last_cleared [of demo_rate_row "Fin 1500"] by blast

end
