(* ===== verification/Versions.thy ===== *)
theory Versions
  imports Schema
begin

text \<open>
  Append-only, versioned configuration tables: \<open>interest_rate_configs\<close> and
  \<open>platform_settings\<close> both keep every published version of a key and mark one of them active.
  Publishing reads the highest version, retires the active row and inserts the next one, in
  three statements; two unique indexes guard the table. The locale is that interface, with
  what a publication does to the table and what two concurrent ones do.
\<close>

locale versioned =
  fixes key :: "'r \<Rightarrow> 'k" and version :: "'r \<Rightarrow> int" and active :: "'r \<Rightarrow> bool"
    and next_version :: "'k \<Rightarrow> 'r list \<Rightarrow> int"
    and retire :: "'k \<Rightarrow> 'r list \<Rightarrow> 'r list"
    and insert_row :: "'r \<Rightarrow> 'r list \<Rightarrow> 'r list option"
  assumes next_fresh: "r \<in> set rows \<Longrightarrow> key r = k \<Longrightarrow> version r < next_version k rows"
    and retire_keys: "map (\<lambda>r. (key r, version r)) (retire k rows) = map (\<lambda>r. (key r, version r)) rows"
    and retire_active: "filter active (retire k rows) = filter (\<lambda>r. active r \<and> key r \<noteq> k) rows"
    and insert_row: "insert_row r rows =
      (if (key r, version r) \<in> set (map (\<lambda>r. (key r, version r)) rows)
          \<or> active r \<and> key r \<in> set (map key (filter active rows))
       then None else Some (rows @ [r]))"
begin

text \<open>What the two unique indexes say.\<close>

definition indexed :: "'r list \<Rightarrow> bool" where
  "indexed rows \<longleftrightarrow> distinct (map (\<lambda>r. (key r, version r)) rows) \<and> distinct (map key (filter active rows))"

definition the_active :: "'k \<Rightarrow> 'r list \<Rightarrow> 'r option" where
  "the_active k rows = find (\<lambda>r. key r = k \<and> active r) rows"

lemma the_active_filter: "the_active k rows = find (\<lambda>r. key r = k) (filter active rows)"
  by (induction rows) (auto simp: the_active_def)

lemma retired_free: "version r = next_version (key r) rows \<Longrightarrow>
    insert_row r (retire (key r) rows) = Some (retire (key r) rows @ [r])"
  by (auto simp: insert_row retire_keys retire_active dest: next_fresh)

lemma indexed_retire: "indexed rows \<Longrightarrow> indexed (retire k rows)"
proof -
  have "filter active (retire k rows) = filter (\<lambda>r. key r \<noteq> k) (filter active rows)"
    by (simp add: retire_active)
  then show "indexed rows \<Longrightarrow> indexed (retire k rows)"
    by (simp only: indexed_def retire_keys distinct_map_filter simp_thms)
qed

lemma indexed_insert: "indexed rows \<Longrightarrow> insert_row r rows = Some rows' \<Longrightarrow> indexed rows'"
  by (auto simp: indexed_def insert_row split: if_splits)

text \<open>A publication succeeds; the new row is the active one of its key, and of no other key.\<close>

lemma publish:
  assumes "version r = next_version (key r) rows" "active r" "insert_row r (retire (key r) rows) = Some rows'"
  shows "the_active (key r) rows' = Some r" "k \<noteq> key r \<Longrightarrow> the_active k rows' = the_active k rows"
proof -
  have rows': "rows' = retire (key r) rows @ [r]"
    using retired_free [OF assms(1)] assms(3) by simp
  have find_keys: "find (\<lambda>q. key q = k) (filter (\<lambda>q. active q \<and> key q \<noteq> key r) rows @ [r])
    = (if k = key r then Some r else find (\<lambda>q. key q = k) (filter active rows))" for k
    by (induction rows) auto
  show "the_active (key r) rows' = Some r" "k \<noteq> key r \<Longrightarrow> the_active k rows' = the_active k rows"
    using assms(2) find_keys by (simp_all add: the_active_filter rows' retire_active)
qed

text \<open>
  Two publications of one key that read the same version: once the first has inserted its row,
  the second retires it and cannot insert its own.
\<close>

lemma inserted: "insert_row r rows = Some rows' \<Longrightarrow> r \<in> set rows'"
  by (auto simp: insert_row split: if_splits)

lemma lost_publication:
  assumes "r \<in> set rows" "key q = key r" "version q = version r"
  shows "insert_row q (retire (key r) rows) = None" "the_active (key r) (retire (key r) rows) = None"
proof -
  show "insert_row q (retire (key r) rows) = None"
    using assms by (auto simp: insert_row retire_keys)
  show "the_active (key r) (retire (key r) rows) = None"
    by (auto simp: the_active_filter retire_active find_None_iff)
qed

end

subsection \<open>The two tables' statements\<close>

text \<open>\<open>coalesce(max(version), 0) + 1\<close>\<close>

definition next_version_of :: "('r \<Rightarrow> 'k) \<Rightarrow> ('r \<Rightarrow> int) \<Rightarrow> 'k \<Rightarrow> 'r list \<Rightarrow> int" where
  "next_version_of key version k rows =
     (case map version (filter (\<lambda>r. key r = k) rows) of [] \<Rightarrow> 0 | v # vs \<Rightarrow> foldl max v vs) + 1"

lemma foldl_max: "foldl max v vs = Max (set (v # vs))" for v :: int
proof (induction vs arbitrary: v)
  case (Cons u us)
  have "Max (insert (max v u) (set us)) = Max (insert v (insert u (set us)))"
    by (cases "us = []") (simp_all add: max.assoc)
  with Cons show ?case
    by simp
qed simp

lemma next_version_of_fresh: "r \<in> set rows \<Longrightarrow> key r = k \<Longrightarrow> version r < next_version_of key version k rows"
proof -
  assume r: "r \<in> set rows" "key r = k"
  then have in_versions: "version r \<in> set (map version (filter (\<lambda>r. key r = k) rows))"
    by simp
  then obtain v vs where vs: "map version (filter (\<lambda>r. key r = k) rows) = v # vs"
    by (cases "map version (filter (\<lambda>r. key r = k) rows)") auto
  have "version r \<le> Max (set (v # vs))"
    using in_versions unfolding vs by (rule Max_ge [rotated]) simp
  then show ?thesis
    unfolding next_version_of_def vs list.case foldl_max by linarith
qed

lemma next_version_of_range:
  assumes "\<And>r. r \<in> set rows \<Longrightarrow> key r = k \<Longrightarrow> 0 \<le> version r \<and> version r < b" "0 < b"
  shows "0 < next_version_of key version k rows" "next_version_of key version k rows \<le> b"
proof -
  let ?vs = "map version (filter (\<lambda>r. key r = k) rows)"
  have "0 \<le> v \<and> v < b" if "v \<in> set ?vs" for v
    using that assms(1) by auto
  then have "0 \<le> Max (set (v # vs)) \<and> Max (set (v # vs)) < b" if "?vs = v # vs" for v vs
    unfolding that by (meson List.finite_set Max_in list.simps(3) set_empty)
  then show "0 < next_version_of key version k rows" "next_version_of key version k rows \<le> b"
    using assms(2) unfolding next_version_of_def
    by (cases ?vs; simp only: list.case foldl_max; force simp: add1_zle_eq)+
qed

lemma update_where_map: "(\<And>r. g (f r) = g r) \<Longrightarrow> map g (update_where P f rows) = map g rows"
  by (simp add: update_where_def)

end
