(* ===== verification/AdminRates.thy ===== *)
theory AdminRates
  imports RateConfig Versions JsDate
begin

text \<open>
  \<open>POST /api/admin/interest-rates\<close>, \<open>src/app/api/admin/interest-rates/route.ts\<close>: an admin
  publishes a new version of a rate schedule. The parse rejects what the lenient tier parsers
  would drop; the publication is three statements, each a definition of its own.
\<close>

record rates_request =
  rr_model :: rate_model
  rr_notes :: string
  rr_baseAprBps :: jsnum
  rr_minAprBps :: jsnum
  rr_maxAprBps :: jsnum
  rr_amountTiers :: "amount_tier list"
  rr_reputationTiers :: "reputation_tier list"

datatype rates_error =
    RatesRateLimited
  | RatesForbidden
  | RatesDbUnavailable
  | RatesBadModel
  | RatesNotes
  | RatesMalformedTiers
  | RatesInvalid draft_error
  | RatesInternal

record rates_ok =
  rok_version :: int
  rok_published :: interest_rate_config_row
  rok_active :: "(rate_model \<times> interest_rate_config) list"
  rok_history :: "interest_rate_config list"

text \<open>The tiers as the objects the program passes around and stores.\<close>

definition amount_tier_json :: "amount_tier \<Rightarrow> jsval" where
  "amount_tier_json t = JObj [(''minAmount'', JNum (at_minAmount t)), (''aprBps'', JNum (at_aprBps t))]"

definition reputation_tier_json :: "reputation_tier \<Rightarrow> jsval" where
  "reputation_tier_json t = JObj [(''minScore'', JNum (rt_minScore t)), (''multiplierBps'', JNum (rt_multiplierBps t))]"

definition rates_draft :: "rates_request \<Rightarrow> rate_config_draft" where
  "rates_draft r =
     \<lparr>dr_baseAprBps = JNum (rr_baseAprBps r), dr_minAprBps = JNum (rr_minAprBps r),
      dr_maxAprBps = JNum (rr_maxAprBps r),
      dr_amountTiers = JArr (map amount_tier_json (rr_amountTiers r)),
      dr_reputationTiers = JArr (map reputation_tier_json (rr_reputationTiers r))\<rparr>"

text \<open>\<open>Array.isArray(submitted) && submitted.length !== parsed.length\<close>\<close>

definition tiers_dropped :: "jsval \<Rightarrow> 't list \<Rightarrow> bool" where
  "tiers_dropped submitted parsed = (case submitted of JArr vs \<Rightarrow> length vs \<noteq> length parsed | _ \<Rightarrow> False)"

text \<open>A body of \<open>null\<close> makes the first property access throw.\<close>

definition rates_parse :: "jsval \<Rightarrow> (int \<times> rates_error) + rates_request" where
  "rates_parse body =
     (let field = (\<lambda>a b. js_nullish (js_get body a) (js_get body b));
          notes = (case js_get body ''notes'' of JStr s \<Rightarrow> js_trim s | _ \<Rightarrow> []);
          submittedAmountTiers = js_nullish (field ''amountTiers'' ''amount_tiers'') (JArr []);
          submittedReputationTiers = js_nullish (field ''reputationTiers'' ''reputation_tiers'') (JArr [])
      in if body = JNull then Inl (500, RatesInternal)
         else case parse_rate_model (JStr (js_lower (js_to_string
                  (js_nullish (field ''rateModel'' ''rate_model'') (JStr []))))) of
           None \<Rightarrow> Inl (400, RatesBadModel)
         | Some model \<Rightarrow>
             if length notes < MIN_NOTES_LENGTH then Inl (400, RatesNotes)
             else (let r = \<lparr>rr_model = model, rr_notes = notes,
                       rr_baseAprBps = js_to_number (field ''baseAprBps'' ''base_apr_bps''),
                       rr_minAprBps = js_to_number (js_nullish (field ''minAprBps'' ''min_apr_bps'') (JNum (Fin 0))),
                       rr_maxAprBps = js_to_number (js_nullish (field ''maxAprBps'' ''max_apr_bps'') (JNum MAX_APR_BPS)),
                       rr_amountTiers = parseAmountTiers submittedAmountTiers,
                       rr_reputationTiers = parseReputationTiers submittedReputationTiers\<rparr>
                   in if tiers_dropped submittedAmountTiers (rr_amountTiers r)
                         \<or> tiers_dropped submittedReputationTiers (rr_reputationTiers r)
                      then Inl (400, RatesMalformedTiers)
                      else (case validateRateConfigDraft (rates_draft r) of
                              Some err \<Rightarrow> Inl (400, RatesInvalid err)
                            | None \<Rightarrow> Inr r)))"

subsection \<open>The statements\<close>

definition rates_next_version :: "string \<Rightarrow> interest_rate_config_row list \<Rightarrow> int" where
  "rates_next_version = next_version_of irc_rateModel irc_version"

definition retire_rates_at :: "int \<Rightarrow> string \<Rightarrow> interest_rate_config_row list \<Rightarrow> interest_rate_config_row list" where
  "retire_rates_at now model =
     update_where (\<lambda>r. irc_rateModel r = model \<and> irc_isActive r)
       (\<lambda>r. r\<lparr>irc_isActive := False, irc_updatedAt := toISOString now\<rparr>)"

text \<open>
  An insert against the two unique indexes of \<open>src/drizzle/0003_interest_rate_configs.sql\<close>;
  \<open>None\<close> is the conflict it throws.
\<close>

definition insert_rates :: "interest_rate_config_row \<Rightarrow> interest_rate_config_row list
    \<Rightarrow> interest_rate_config_row list option" where
  "insert_rates r rows =
     (if (irc_rateModel r, irc_version r) \<in> set (map (\<lambda>r. (irc_rateModel r, irc_version r)) rows)
         \<or> irc_isActive r \<and> irc_rateModel r \<in> set (map irc_rateModel (filter irc_isActive rows))
      then None else Some (rows @ [r]))"

text \<open>\<open>None\<close>: a number an \<open>integer\<close> column cannot hold.\<close>

definition rates_row :: "env \<Rightarrow> session_user \<Rightarrow> rates_request \<Rightarrow> int \<Rightarrow> interest_rate_config_row option" where
  "rates_row e user r version =
     (case (to_int4 (rr_baseAprBps r), to_int4 (rr_minAprBps r), to_int4 (rr_maxAprBps r), to_int4 (to_num (of_int version))) of
        (Some base, Some lo, Some hi, Some v) \<Rightarrow>
          Some \<lparr>irc_rateModel = rate_model_name (rr_model r), irc_version = v, irc_isActive = True,
                irc_baseAprBps = base, irc_minAprBps = lo, irc_maxAprBps = hi,
                irc_amountTiers = JArr (map amount_tier_json (rr_amountTiers r)),
                irc_reputationTiers = JArr (map reputation_tier_json (rr_reputationTiers r)),
                irc_notes = Some (rr_notes r), irc_updatedByEmail = user_email user,
                irc_updatedAt = toISOString (env_now e)\<rparr>
      | _ \<Rightarrow> None)"

text \<open>Rows in the order of their creation; the newest come first.\<close>

definition getRateConfigHistory :: "nat \<Rightarrow> database \<Rightarrow> interest_rate_config list" where
  "getRateConfigHistory limit db = map rowToConfig (take limit (rev (db_interestRateConfigs db)))"

definition set_rates :: "(interest_rate_config_row list \<Rightarrow> interest_rate_config_row list) \<Rightarrow> world \<Rightarrow> world" where
  "set_rates f = set_db (\<lambda>db. db\<lparr>db_interestRateConfigs := f (db_interestRateConfigs db)\<rparr>)"

text \<open>
  What follows the read of the version: the active row is retired first, whatever becomes of
  the insert.
\<close>

definition rates_publish :: "env \<Rightarrow> session_user \<Rightarrow> rates_request \<Rightarrow> int \<Rightarrow> world
    \<Rightarrow> (rates_error + rates_ok) answer \<times> world" where
  "rates_publish e user r version w =
     (let w1 = set_rates (retire_rates_at (env_now e) (rate_model_name (rr_model r))) w in
      case Option.bind (rates_row e user r version)
             (\<lambda>row. map_option (Pair row) (insert_rates row (db_interestRateConfigs (w_db w1)))) of
        None \<Rightarrow> (Answer 500 (Inl RatesInternal), w1)
      | Some (row, rows) \<Rightarrow>
          (let w2 = set_rates (\<lambda>_. rows) w1
           in (Answer 200 (Inr \<lparr>rok_version = version, rok_published = row,
                 rok_active = fst (getActiveRateConfigs (Some (w_db w2))),
                 rok_history = getRateConfigHistory 25 (w_db w2)\<rparr>), w2)))"

definition POST_interest_rates :: "env \<Rightarrow> jsval \<Rightarrow> world \<Rightarrow> (rates_error + rates_ok) answer \<times> world" where
  "POST_interest_rates e body w =
     (if env_rateLimited e then (Answer 429 (Inl RatesRateLimited), w)
      else case requireApiAdmin e (w_db w) of
        None \<Rightarrow> (Answer 403 (Inl RatesForbidden), w)
      | Some user \<Rightarrow>
          if \<not> env_dbAvailable e then (Answer 503 (Inl RatesDbUnavailable), w)
          else (case rates_parse body of
             Inl (status, err) \<Rightarrow> (Answer status (Inl err), w)
           | Inr r \<Rightarrow>
               rates_publish e user r
                 (rates_next_version (rate_model_name (rr_model r)) (db_interestRateConfigs (w_db w))) w))"

record rates_view =
  rv_active :: "(rate_model \<times> interest_rate_config) list"
  rv_history :: "interest_rate_config list"
  rv_usingFallback :: bool

definition GET_interest_rates :: "env \<Rightarrow> database \<Rightarrow> (rates_error + rates_view) answer" where
  "GET_interest_rates e db =
     (if env_rateLimited e then Answer 429 (Inl RatesRateLimited)
      else if requireApiAdmin e db = None then Answer 403 (Inl RatesForbidden)
      else (let (configs, usedFallback) = getActiveRateConfigs (if env_dbAvailable e then Some db else None)
            in Answer 200 (Inr \<lparr>rv_active = configs,
                 rv_history = (if env_dbAvailable e then getRateConfigHistory 25 db else []),
                 rv_usingFallback = usedFallback\<rparr>)))"

subsection \<open>The interface\<close>

interpretation rates: versioned irc_rateModel irc_version irc_isActive rates_next_version "retire_rates_at now" insert_rates
  for now
proof unfold_locales
  fix r :: interest_rate_config_row and rows k
  show "r \<in> set rows \<Longrightarrow> irc_rateModel r = k \<Longrightarrow> irc_version r < rates_next_version k rows"
    unfolding rates_next_version_def by (rule next_version_of_fresh)
next
  fix k rows
  show "map (\<lambda>r. (irc_rateModel r, irc_version r)) (retire_rates_at now k rows) = map (\<lambda>r. (irc_rateModel r, irc_version r)) rows"
    by (simp add: retire_rates_at_def update_where_map)
  show "filter irc_isActive (retire_rates_at now k rows) = filter (\<lambda>r. irc_isActive r \<and> irc_rateModel r \<noteq> k) rows"
    by (induction rows) (auto simp: retire_rates_at_def update_where_def)
qed (simp add: insert_rates_def)

end
