(* ===== verification/AdminSettings.thy ===== *)
theory AdminSettings
  imports PlatformSettings Versions JsDate
begin

text \<open>
  \<open>/api/admin/platform-settings\<close>, \<open>src/app/api/admin/platform-settings/route.ts\<close>: the same
  publication as that of the rate schedules, for one number per key.
\<close>

record setting_request =
  sr_key :: string
  sr_notes :: string
  sr_valueBps :: jsnum

datatype settings_error =
    SettingsRateLimited
  | SettingsForbidden
  | SettingsDbUnavailable
  | SettingsBadKey
  | SettingsNotes
  | SettingsInvalid setting_error
  | SettingsInternal

record settings_ok =
  sok_version :: int
  sok_published :: platform_setting_row
  sok_active :: "(string \<times> platform_setting) list"
  sok_history :: "platform_setting list"

definition settings_parse :: "jsval \<Rightarrow> (int \<times> settings_error) + setting_request" where
  "settings_parse body =
     (let settingKey = js_to_string (js_nullish (js_nullish (js_get body ''settingKey'') (js_get body ''setting_key'')) (JStr []));
          notes = (case js_get body ''notes'' of JStr s \<Rightarrow> js_trim s | _ \<Rightarrow> []);
          valueBps = js_to_number (js_nullish (js_get body ''valueBps'') (js_get body ''value_bps''))
      in if body = JNull then Inl (500, SettingsInternal)
         else if \<not> isPlatformSettingKey (JStr settingKey) then Inl (400, SettingsBadKey)
         else if length notes < MIN_SETTING_NOTES_LENGTH then Inl (400, SettingsNotes)
         else (case validateSettingValue settingKey (JNum valueBps) of
                 Some err \<Rightarrow> Inl (400, SettingsInvalid err)
               | None \<Rightarrow> Inr \<lparr>sr_key = settingKey, sr_notes = notes, sr_valueBps = valueBps\<rparr>))"

subsection \<open>The statements\<close>

definition settings_next_version :: "string \<Rightarrow> platform_setting_row list \<Rightarrow> int" where
  "settings_next_version = next_version_of ps_settingKey ps_version"

definition retire_settings_at :: "int \<Rightarrow> string \<Rightarrow> platform_setting_row list \<Rightarrow> platform_setting_row list" where
  "retire_settings_at now key =
     update_where (\<lambda>r. ps_settingKey r = key \<and> ps_isActive r)
       (\<lambda>r. r\<lparr>ps_isActive := False, ps_updatedAt := toISOString now\<rparr>)"

text \<open>The unique indexes of \<open>src/drizzle/0003_platform_settings.sql\<close>\<close>

definition insert_setting :: "platform_setting_row \<Rightarrow> platform_setting_row list \<Rightarrow> platform_setting_row list option" where
  "insert_setting r rows =
     (if (ps_settingKey r, ps_version r) \<in> set (map (\<lambda>r. (ps_settingKey r, ps_version r)) rows)
         \<or> ps_isActive r \<and> ps_settingKey r \<in> set (map ps_settingKey (filter ps_isActive rows))
      then None else Some (rows @ [r]))"

definition setting_row :: "env \<Rightarrow> session_user \<Rightarrow> setting_request \<Rightarrow> int \<Rightarrow> platform_setting_row option" where
  "setting_row e user r version =
     (case (to_int4 (jround (sr_valueBps r)), to_int4 (to_num (of_int version))) of
        (Some value, Some v) \<Rightarrow>
          Some \<lparr>ps_settingKey = sr_key r, ps_valueBps = value, ps_version = v, ps_isActive = True,
                ps_notes = Some (sr_notes r), ps_updatedByEmail = user_email user,
                ps_updatedAt = toISOString (env_now e)\<rparr>
      | _ \<Rightarrow> None)"

definition setting_of_row :: "platform_setting_row \<Rightarrow> platform_setting" where
  "setting_of_row row =
     \<lparr>set_key = ps_settingKey row, set_valueBps = to_num (of_int (ps_valueBps row)),
      set_version = to_num (of_int (ps_version row)), set_notes = ps_notes row,
      set_updatedByEmail = ps_updatedByEmail row, set_updatedAt = Some (ps_updatedAt row), set_usedFallback = False\<rparr>"

definition getPlatformSettingHistory :: "string option \<Rightarrow> nat \<Rightarrow> database \<Rightarrow> platform_setting list" where
  "getPlatformSettingHistory key limit db =
     (let rows = take limit (rev (filter (\<lambda>r. case key of Some k \<Rightarrow> ps_settingKey r = k | None \<Rightarrow> True)
            (db_platformSettings db)))
      in map setting_of_row (filter (\<lambda>r. isPlatformSettingKey (JStr (ps_settingKey r))) rows))"

definition set_settings :: "(platform_setting_row list \<Rightarrow> platform_setting_row list) \<Rightarrow> world \<Rightarrow> world" where
  "set_settings f = set_db (\<lambda>db. db\<lparr>db_platformSettings := f (db_platformSettings db)\<rparr>)"

definition active_settings :: "database option \<Rightarrow> (string \<times> platform_setting) list" where
  "active_settings db = map (\<lambda>key. (key, getPlatformSetting db key)) PLATFORM_SETTING_KEYS"

definition settings_publish :: "env \<Rightarrow> session_user \<Rightarrow> setting_request \<Rightarrow> int \<Rightarrow> world
    \<Rightarrow> (settings_error + settings_ok) answer \<times> world" where
  "settings_publish e user r version w =
     (let w1 = set_settings (retire_settings_at (env_now e) (sr_key r)) w in
      case Option.bind (setting_row e user r version)
             (\<lambda>row. map_option (Pair row) (insert_setting row (db_platformSettings (w_db w1)))) of
        None \<Rightarrow> (Answer 500 (Inl SettingsInternal), w1)
      | Some (row, rows) \<Rightarrow>
          (let w2 = set_settings (\<lambda>_. rows) w1
           in (Answer 200 (Inr \<lparr>sok_version = version, sok_published = row,
                 sok_active = active_settings (Some (w_db w2)),
                 sok_history = getPlatformSettingHistory None 25 (w_db w2)\<rparr>), w2)))"

definition POST_platform_settings :: "env \<Rightarrow> jsval \<Rightarrow> world \<Rightarrow> (settings_error + settings_ok) answer \<times> world" where
  "POST_platform_settings e body w =
     (if env_rateLimited e then (Answer 429 (Inl SettingsRateLimited), w)
      else case requireApiAdmin e (w_db w) of
        None \<Rightarrow> (Answer 403 (Inl SettingsForbidden), w)
      | Some user \<Rightarrow>
          if \<not> env_dbAvailable e then (Answer 503 (Inl SettingsDbUnavailable), w)
          else (case settings_parse body of
             Inl (status, err) \<Rightarrow> (Answer status (Inl err), w)
           | Inr r \<Rightarrow>
               settings_publish e user r
                 (settings_next_version (sr_key r) (db_platformSettings (w_db w))) w))"

record settings_view =
  sv_active :: "(string \<times> platform_setting) list"
  sv_history :: "platform_setting list"
  sv_usingFallback :: bool

definition GET_platform_settings :: "env \<Rightarrow> database \<Rightarrow> (settings_error + settings_view) answer" where
  "GET_platform_settings e db =
     (if env_rateLimited e then Answer 429 (Inl SettingsRateLimited)
      else if requireApiAdmin e db = None then Answer 403 (Inl SettingsForbidden)
      else (let active = active_settings (if env_dbAvailable e then Some db else None)
            in Answer 200 (Inr \<lparr>sv_active = active,
                 sv_history = (if env_dbAvailable e then getPlatformSettingHistory None 25 db else []),
                 sv_usingFallback = list_ex (\<lambda>(_, s). set_usedFallback s) active\<rparr>)))"

interpretation settings: versioned ps_settingKey ps_version ps_isActive settings_next_version
  "retire_settings_at now" insert_setting for now
proof unfold_locales
  fix r :: platform_setting_row and rows k
  show "r \<in> set rows \<Longrightarrow> ps_settingKey r = k \<Longrightarrow> ps_version r < settings_next_version k rows"
    unfolding settings_next_version_def by (rule next_version_of_fresh)
next
  fix k rows
  show "map (\<lambda>r. (ps_settingKey r, ps_version r)) (retire_settings_at now k rows) = map (\<lambda>r. (ps_settingKey r, ps_version r)) rows"
    by (simp add: retire_settings_at_def update_where_map)
  show "filter ps_isActive (retire_settings_at now k rows) = filter (\<lambda>r. ps_isActive r \<and> ps_settingKey r \<noteq> k) rows"
    by (induction rows) (auto simp: retire_settings_at_def update_where_def)
qed (simp add: insert_setting_def)

end
