(* ===== verification/AdminSafety.thy ===== *)
theory AdminSafety
  imports AdminRates AdminSettings Demo
begin

text \<open>What a publication of a rate schedule or of a setting guarantees.\<close>

subsection \<open>A validated schedule is stored as it is\<close>

lemma sort_key_sorted: "sorted (map f xs) \<Longrightarrow> sort_key f xs = xs"
  by (simp add: sort_key_id_if_sorted)

lemma map_filter_Some: "(\<And>x. x \<in> set xs \<Longrightarrow> f (g x) = Some x) \<Longrightarrow> List.map_filter f (map g xs) = xs"
  by (induction xs) (simp_all add: List.map_filter_def)

lemma floor_half [simp]: "\<lfloor>1 / 2 :: rat\<rfloor> = 0"
  by (simp add: floor_eq_iff)

lemma jround_idem: "jround (jround x) = jround x"
  by (cases x) simp_all

lemma amount_tier_round_trip:
  assumes "parse_amount_tier v = Some t"
  shows "parse_amount_tier (amount_tier_json t) = Some t"
proof -
  from assms obtain m a where t: "t = \<lparr>at_minAmount = m, at_aprBps = jround a\<rparr>"
    and m: "is_finite m" "\<not> jlt m (Fin 0)" and a: "is_finite a" "\<not> jlt a (Fin 0)"
    by (auto simp: parse_amount_tier_def Let_def split: if_splits)
  from a obtain r where r: "a = Fin r" "0 \<le> r"
    by (auto simp: is_finite_iff)
  then have "0 \<le> \<lfloor>r + 1 / 2\<rfloor>"
    by simp
  then show ?thesis
    using m r by (simp add: parse_amount_tier_def amount_tier_json_def is_object_def js_nullish_def t)
qed

lemma reputation_tier_round_trip:
  assumes "parse_reputation_tier v = Some t" "jle (Fin 1) (rt_multiplierBps t)"
  shows "parse_reputation_tier (reputation_tier_json t) = Some t"
proof -
  from assms(1) obtain m a where t: "t = \<lparr>rt_minScore = m, rt_multiplierBps = jround a\<rparr>"
    and m: "is_finite m" "\<not> jlt m (Fin 0)" and a: "is_finite a" "\<not> jle a (Fin 0)"
    by (auto simp: parse_reputation_tier_def Let_def split: if_splits)
  from a obtain r where r: "a = Fin r"
    by (auto simp: is_finite_iff)
  then have "1 \<le> \<lfloor>r + 1 / 2\<rfloor>"
    using assms(2) by (simp add: t)
  then show ?thesis
    using m r by (simp add: parse_reputation_tier_def reputation_tier_json_def is_object_def js_nullish_def t)
qed

lemma tier_json_get [simp]:
  "js_get (amount_tier_json t) ''minAmount'' = JNum (at_minAmount t)"
  "js_get (amount_tier_json t) ''aprBps'' = JNum (at_aprBps t)"
  "js_get (reputation_tier_json t') ''minScore'' = JNum (rt_minScore t')"
  "js_get (reputation_tier_json t') ''multiplierBps'' = JNum (rt_multiplierBps t')"
  by (simp_all add: amount_tier_json_def reputation_tier_json_def)

lemma whole_between:
  assumes "is_finite x" "is_integer x" "\<not> jlt x (Fin a)" "\<not> jlt (Fin b) x"
  shows "\<exists>n. x = Fin (of_int n) \<and> a \<le> of_int n \<and> of_int n \<le> b"
proof (cases x)
  case (Fin r)
  then have r: "r = of_int \<lfloor>r\<rfloor>" "a \<le> r" "r \<le> b"
    using assms by (auto elim!: Ints_cases)
  show ?thesis
    by (intro exI [of _ "\<lfloor>r\<rfloor>"], fold r(1)) (simp add: Fin r(2,3))
qed (use assms in simp_all)

definition bps_between :: "int \<Rightarrow> int \<Rightarrow> jsnum \<Rightarrow> bool" where
  "bps_between a b x \<longleftrightarrow> (\<exists>n. x = Fin (of_int n) \<and> a \<le> n \<and> n \<le> b)"

lemma bps_betweenI:
  "is_finite x \<Longrightarrow> is_integer x \<Longrightarrow> \<not> jlt x (Fin (of_int a)) \<Longrightarrow> \<not> jlt (Fin (of_int b)) x \<Longrightarrow> bps_between a b x"
  using whole_between [of x "of_int a" "of_int b"] by (auto simp: bps_between_def)

lemma check_amount_tiers_sound:
  "check_amount_tiers seen (map amount_tier_json ts) = None \<Longrightarrow>
     (\<forall>t \<in> set ts. bps_between 0 10000 (at_aprBps t)) \<and> distinct (map at_minAmount ts)
     \<and> set (map at_minAmount ts) \<inter> set seen = {}"
proof (induction ts arbitrary: seen)
  case (Cons t ts)
  then have t: "is_finite (at_aprBps t)" "is_integer (at_aprBps t)" "\<not> jlt (at_aprBps t) (Fin (of_int 0))"
      "\<not> jlt (Fin (of_int 10000)) (at_aprBps t)" "at_minAmount t \<notin> set seen"
    and ts: "check_amount_tiers (at_minAmount t # seen) (map amount_tier_json ts) = None"
    by (auto simp: Let_def MAX_APR_BPS_def split: if_splits)
  show ?case
    using bps_betweenI [OF t(1-4)] t(5) Cons.IH [OF ts] by auto
qed simp

lemma check_reputation_tiers_sound:
  "check_reputation_tiers seen (map reputation_tier_json ts) = None \<Longrightarrow>
     (\<forall>t \<in> set ts. bps_between 1000 30000 (rt_multiplierBps t)) \<and> distinct (map rt_minScore ts)
     \<and> set (map rt_minScore ts) \<inter> set seen = {}"
proof (induction ts arbitrary: seen)
  case (Cons t ts)
  then have t: "is_finite (rt_multiplierBps t)" "is_integer (rt_multiplierBps t)" "\<not> jlt (rt_multiplierBps t) (Fin (of_int 1000))"
      "\<not> jlt (Fin (of_int 30000)) (rt_multiplierBps t)" "rt_minScore t \<notin> set seen"
    and ts: "check_reputation_tiers (rt_minScore t # seen) (map reputation_tier_json ts) = None"
    by (auto simp: Let_def MIN_MULTIPLIER_BPS_def MAX_MULTIPLIER_BPS_def split: if_splits)
  show ?case
    using bps_betweenI [OF t(1-4)] t(5) Cons.IH [OF ts] by auto
qed simp

text \<open>A schedule within the bounds the admin routes advertise.\<close>

definition schedule_ok :: "interest_rate_config \<Rightarrow> bool" where
  "schedule_ok c \<longleftrightarrow> bps_between 0 10000 (cfg_baseAprBps c) \<and> bps_between 0 10000 (cfg_minAprBps c)
     \<and> bps_between 0 10000 (cfg_maxAprBps c) \<and> jle (cfg_minAprBps c) (cfg_maxAprBps c)
     \<and> length (cfg_amountTiers c) \<le> 10 \<and> length (cfg_reputationTiers c) \<le> 10
     \<and> distinct (map at_minAmount (cfg_amountTiers c)) \<and> distinct (map rt_minScore (cfg_reputationTiers c))
     \<and> (\<forall>t \<in> set (cfg_amountTiers c). bps_between 0 10000 (at_aprBps t))
     \<and> (\<forall>t \<in> set (cfg_reputationTiers c). bps_between 1000 30000 (rt_multiplierBps t))"

lemma first_error_None: "first_error check xs = None \<longleftrightarrow> (\<forall>x \<in> set xs. check x = None)"
  by (induction xs) (auto simp: first_error_def List.map_filter_def split: list.splits option.splits)

lemma check_scalar_None: "check_scalar (name, JNum x) = None \<Longrightarrow> bps_between 0 10000 x"
  by (auto simp: check_scalar_def Let_def MIN_APR_BPS_def MAX_APR_BPS_def split: if_splits intro!: bps_betweenI)

lemma validated:
  assumes "validateRateConfigDraft (rates_draft r) = None"
  shows "bps_between 0 10000 (rr_baseAprBps r)" "bps_between 0 10000 (rr_minAprBps r)" "bps_between 0 10000 (rr_maxAprBps r)"
    "jle (rr_minAprBps r) (rr_maxAprBps r)" "length (rr_amountTiers r) \<le> 10" "length (rr_reputationTiers r) \<le> 10"
    "\<forall>t \<in> set (rr_amountTiers r). bps_between 0 10000 (at_aprBps t)" "distinct (map at_minAmount (rr_amountTiers r))"
    "\<forall>t \<in> set (rr_reputationTiers r). bps_between 1000 30000 (rt_multiplierBps t)" "distinct (map rt_minScore (rr_reputationTiers r))"
proof -
  from assms have scalars: "check_scalar (''baseAprBps'', JNum (rr_baseAprBps r)) = None"
      "check_scalar (''minAprBps'', JNum (rr_minAprBps r)) = None" "check_scalar (''maxAprBps'', JNum (rr_maxAprBps r)) = None"
    and order: "\<not> jlt (rr_maxAprBps r) (rr_minAprBps r)"
    and len: "length (rr_amountTiers r) \<le> 10" "length (rr_reputationTiers r) \<le> 10"
    and tiers: "check_amount_tiers [] (map amount_tier_json (rr_amountTiers r)) = None"
      "check_reputation_tiers [] (map reputation_tier_json (rr_reputationTiers r)) = None"
    by (auto simp: validateRateConfigDraft_def rates_draft_def first_error_None MAX_AMOUNT_TIERS_def MAX_REPUTATION_TIERS_def
        split: option.splits if_splits)
  note s = scalars [THEN check_scalar_None]
  show "bps_between 0 10000 (rr_baseAprBps r)" "bps_between 0 10000 (rr_minAprBps r)" "bps_between 0 10000 (rr_maxAprBps r)"
    by (fact s)+
  show "jle (rr_minAprBps r) (rr_maxAprBps r)"
    using s(2,3) order by (auto simp: bps_between_def)
  show "length (rr_amountTiers r) \<le> 10" "length (rr_reputationTiers r) \<le> 10"
    by (fact len)+
  show "\<forall>t \<in> set (rr_amountTiers r). bps_between 0 10000 (at_aprBps t)" "distinct (map at_minAmount (rr_amountTiers r))"
    using check_amount_tiers_sound [OF tiers(1)] by blast+
  show "\<forall>t \<in> set (rr_reputationTiers r). bps_between 1000 30000 (rt_multiplierBps t)" "distinct (map rt_minScore (rr_reputationTiers r))"
    using check_reputation_tiers_sound [OF tiers(2)] by blast+
qed

lemma to_int4_bps: "bps_between a b x \<Longrightarrow> - (2 ^ 31) \<le> a \<Longrightarrow> b < 2 ^ 31 \<Longrightarrow> \<exists>n. to_int4 x = Some n \<and> x = Fin (of_int n) \<and> \<bar>n\<bar> < 2 ^ 53"
  by (auto simp: bps_between_def to_int4_def)

lemma to_int4_int: "0 \<le> n \<Longrightarrow> n < 2 ^ 31 \<Longrightarrow> to_int4 (to_num (of_int n)) = Some n"
  by (simp add: to_num_int to_int4_def)

lemma parse_rate_model_name [simp]: "parse_rate_model (JStr (rate_model_name m)) = Some m"
  by (cases m) (simp_all add: parse_rate_model_def)

lemma rate_model_name_inject [simp]: "rate_model_name m = rate_model_name m' \<longleftrightarrow> m = m'"
  by (cases m; cases m') simp_all

lemma rates_parse_tiers:
  assumes "rates_parse body = Inr r"
  shows "validateRateConfigDraft (rates_draft r) = None"
    "\<exists>raw. rr_amountTiers r = parseAmountTiers raw" "\<exists>raw. rr_reputationTiers r = parseReputationTiers raw"
  using assms by (auto simp: rates_parse_def Let_def split: if_splits option.splits)

lemma amount_tiers_stored:
  "parseAmountTiers (JArr (map amount_tier_json (parseAmountTiers raw))) = parseAmountTiers raw"
proof -
  have "parse_amount_tier (amount_tier_json t) = Some t" if "t \<in> set (parseAmountTiers raw)" for t
    using that by (cases raw) (auto simp: parseAmountTiers_def List.map_filter_def dest: amount_tier_round_trip)
  moreover have "sorted (map (\<lambda>t. rat_key (at_minAmount t)) (parseAmountTiers raw))"
    by (cases raw) (simp_all add: parseAmountTiers_def)
  ultimately show ?thesis
    by (simp add: parseAmountTiers_def [of "JArr _"] map_filter_Some sort_key_sorted)
qed

lemma reputation_tiers_stored:
  assumes "\<forall>t \<in> set (parseReputationTiers raw). bps_between 1000 30000 (rt_multiplierBps t)"
  shows "parseReputationTiers (JArr (map reputation_tier_json (parseReputationTiers raw))) = parseReputationTiers raw"
proof -
  have "parse_reputation_tier (reputation_tier_json t) = Some t" if "t \<in> set (parseReputationTiers raw)" for t
  proof -
    have "jle (Fin 1) (rt_multiplierBps t)"
      using assms that by (force simp: bps_between_def)
    then show ?thesis
      using that by (cases raw) (auto simp: parseReputationTiers_def List.map_filter_def dest: reputation_tier_round_trip)
  qed
  moreover have "sorted (map (\<lambda>t. rat_key (rt_minScore t)) (parseReputationTiers raw))"
    by (cases raw) (simp_all add: parseReputationTiers_def)
  ultimately show ?thesis
    by (simp add: parseReputationTiers_def [of "JArr _"] map_filter_Some sort_key_sorted)
qed

text \<open>The row of a valid request, and the configuration it reads back as.\<close>

lemma rates_row_reads_back:
  assumes "rates_parse body = Inr r" "0 \<le> v" "v < 2 ^ 31"
  shows "\<exists>row. rates_row e user r v = Some row \<and> irc_rateModel row = rate_model_name (rr_model r)
    \<and> irc_version row = v \<and> irc_isActive row
    \<and> cfg_baseAprBps (rowToConfig row) = rr_baseAprBps r \<and> cfg_minAprBps (rowToConfig row) = rr_minAprBps r
    \<and> cfg_maxAprBps (rowToConfig row) = rr_maxAprBps r \<and> cfg_version (rowToConfig row) = Fin (of_int v)
    \<and> cfg_amountTiers (rowToConfig row) = rr_amountTiers r \<and> cfg_reputationTiers (rowToConfig row) = rr_reputationTiers r"
proof -
  note ok = validated [OF rates_parse_tiers(1) [OF assms(1)]]
  obtain b lo hi where n: "to_int4 (rr_baseAprBps r) = Some b" "to_int4 (rr_minAprBps r) = Some lo" "to_int4 (rr_maxAprBps r) = Some hi"
      "rr_baseAprBps r = Fin (of_int b)" "rr_minAprBps r = Fin (of_int lo)" "rr_maxAprBps r = Fin (of_int hi)"
      "\<bar>b\<bar> < 2 ^ 53" "\<bar>lo\<bar> < 2 ^ 53" "\<bar>hi\<bar> < 2 ^ 53"
    using ok(1-3) [THEN to_int4_bps] by auto
  obtain raw raw' where "rr_amountTiers r = parseAmountTiers raw" "rr_reputationTiers r = parseReputationTiers raw'"
    using rates_parse_tiers(2,3) [OF assms(1)] by blast
  then have tiers: "parseAmountTiers (JArr (map amount_tier_json (rr_amountTiers r))) = rr_amountTiers r"
      "parseReputationTiers (JArr (map reputation_tier_json (rr_reputationTiers r))) = rr_reputationTiers r"
    using amount_tiers_stored reputation_tiers_stored ok(9) by simp_all
  have "rates_row e user r v = Some
      \<lparr>irc_rateModel = rate_model_name (rr_model r), irc_version = v, irc_isActive = True,
       irc_baseAprBps = b, irc_minAprBps = lo, irc_maxAprBps = hi,
       irc_amountTiers = JArr (map amount_tier_json (rr_amountTiers r)),
       irc_reputationTiers = JArr (map reputation_tier_json (rr_reputationTiers r)),
       irc_notes = Some (rr_notes r), irc_updatedByEmail = user_email user,
       irc_updatedAt = toISOString (env_now e)\<rparr>"
    using to_int4_int [OF assms(2,3)] by (simp add: rates_row_def n(1-3))
  then show ?thesis
    using n(4-9) assms(2,3) tiers by (simp add: rowToConfig_def to_num_int)
qed

subsection \<open>Publication of a schedule\<close>

lemma getActiveRateConfig_active:
  "getActiveRateConfig (Some db) m =
     (case rates.the_active (rate_model_name m) (db_interestRateConfigs db) of
        Some row \<Rightarrow> (rowToConfig row, False) | None \<Rightarrow> (DEFAULT_RATE_CONFIGS m, True))"
  by (simp add: getActiveRateConfig_def rates.the_active_def)

lemma set_rates_simps [simp]:
  "db_interestRateConfigs (w_db (set_rates f w)) = f (db_interestRateConfigs (w_db w))"
  "db_loans (w_db (set_rates f w)) = db_loans (w_db w)"
  by (simp_all add: set_rates_def)

lemma rates_publish_200:
  assumes "rates_row e user r v = Some row"
    "insert_rates row (retire_rates_at (env_now e) (rate_model_name (rr_model r)) (db_interestRateConfigs (w_db w))) = Some rows"
  shows "\<exists>ok. rates_publish e user r v w =
      (Answer 200 (Inr ok), set_rates (\<lambda>_. rows) (set_rates (retire_rates_at (env_now e) (rate_model_name (rr_model r))) w))
    \<and> rok_version ok = v"
  using assms by (simp add: rates_publish_def Let_def)

lemma rates_publish_200D:
  assumes "rates_publish e user r v w = (Answer 200 (Inr ok), w')"
  shows "\<exists>row. rates_row e user r v = Some row
    \<and> insert_rates row (retire_rates_at (env_now e) (rate_model_name (rr_model r)) (db_interestRateConfigs (w_db w)))
        = Some (db_interestRateConfigs (w_db w'))"
proof -
  let ?retired = "retire_rates_at (env_now e) (rate_model_name (rr_model r)) (db_interestRateConfigs (w_db w))"
  obtain row rows where "rates_row e user r v = Some row" "insert_rates row ?retired = Some rows"
    using assms by (cases "rates_row e user r v"; cases "insert_rates (the (rates_row e user r v)) ?retired")
      (simp_all add: rates_publish_def Let_def)
  then show ?thesis
    using assms by (auto simp: rates_publish_def Let_def)
qed

text \<open>
  An admin's valid schedule is published: the route answers 200, and from then on the rates
  of its model are the ones of the request, within the advertised bounds and under a version no
  schedule of the model ever had; the other model's rates and all loans stay as they were.
\<close>

theorem rates_published:
  assumes "\<not> env_rateLimited e" "requireApiAdmin e (w_db w) = Some user" "env_dbAvailable e" "rates_parse body = Inr r"
    and "\<forall>row \<in> set (db_interestRateConfigs (w_db w)). 0 \<le> irc_version row \<and> irc_version row < 2 ^ 31 - 1"
  shows "\<exists>ok w' c. POST_interest_rates e body w = (Answer 200 (Inr ok), w')
    \<and> getActiveRateConfig (Some (w_db w')) (rr_model r) = (c, False) \<and> schedule_ok c
    \<and> cfg_baseAprBps c = rr_baseAprBps r \<and> cfg_minAprBps c = rr_minAprBps r \<and> cfg_maxAprBps c = rr_maxAprBps r
    \<and> cfg_amountTiers c = rr_amountTiers r \<and> cfg_reputationTiers c = rr_reputationTiers r
    \<and> cfg_version c = Fin (of_int (rok_version ok))
    \<and> (\<forall>row \<in> set (db_interestRateConfigs (w_db w)).
         irc_rateModel row = rate_model_name (rr_model r) \<longrightarrow> irc_version row < rok_version ok)
    \<and> (\<forall>m. m \<noteq> rr_model r \<longrightarrow> getActiveRateConfig (Some (w_db w')) m = getActiveRateConfig (Some (w_db w)) m)
    \<and> db_loans (w_db w') = db_loans (w_db w)"
proof -
  let ?rows = "db_interestRateConfigs (w_db w)" and ?model = "rate_model_name (rr_model r)"
  let ?v = "rates_next_version ?model ?rows" and ?retired = "retire_rates_at (env_now e) ?model ?rows"
  have v: "0 \<le> ?v" "?v < 2 ^ 31"
    using next_version_of_range [of ?rows irc_rateModel ?model irc_version "2 ^ 31 - 1"] assms(5)
    by (auto simp: rates_next_version_def)
  obtain row where row: "rates_row e user r ?v = Some row" "irc_rateModel row = ?model" "irc_version row = ?v" "irc_isActive row"
      and c: "cfg_baseAprBps (rowToConfig row) = rr_baseAprBps r" "cfg_minAprBps (rowToConfig row) = rr_minAprBps r"
        "cfg_maxAprBps (rowToConfig row) = rr_maxAprBps r" "cfg_version (rowToConfig row) = Fin (of_int ?v)"
        "cfg_amountTiers (rowToConfig row) = rr_amountTiers r" "cfg_reputationTiers (rowToConfig row) = rr_reputationTiers r"
    using rates_row_reads_back [OF assms(4) v, of e user] by auto
  have insert: "insert_rates row ?retired = Some (?retired @ [row])"
    using rates.retired_free [of row ?rows "env_now e"] row by simp
  note pub = rates.publish [of row ?rows "env_now e", unfolded row(2), OF row(3) row(4) insert]
  define w' where "w' = set_rates (\<lambda>_. ?retired @ [row]) (set_rates (retire_rates_at (env_now e) ?model) w)"
  obtain ok where ok: "rates_publish e user r ?v w = (Answer 200 (Inr ok), w')" "rok_version ok = ?v"
    using rates_publish_200 [OF row(1) insert] unfolding w'_def by blast
  have "POST_interest_rates e body w = (Answer 200 (Inr ok), w')"
    using assms(1-4) ok(1) by (simp add: POST_interest_rates_def)
  moreover have "schedule_ok (rowToConfig row)"
    using validated [OF rates_parse_tiers(1) [OF assms(4)]] by (simp add: schedule_ok_def c)
  moreover have "getActiveRateConfig (Some (w_db w')) (rr_model r) = (rowToConfig row, False)"
    using pub(1) by (simp add: getActiveRateConfig_active w'_def)
  moreover have "getActiveRateConfig (Some (w_db w')) m = getActiveRateConfig (Some (w_db w)) m" if "m \<noteq> rr_model r" for m
    using pub(2) that by (simp add: getActiveRateConfig_active w'_def)
  moreover have "irc_version q < ?v" if "q \<in> set ?rows" "irc_rateModel q = ?model" for q
    using rates.next_fresh that by blast
  ultimately show ?thesis
    using c ok(2) by (intro exI [of _ ok] exI [of _ w'] exI [of _ "rowToConfig row"]) (simp add: w'_def)
qed

text \<open>
  Two admins who publish a schedule of one model at the same time can leave it without any:
  when both have read the same version, the second retires the first's schedule and then fails
  with 500, and loans are priced by the code default.
\<close>

theorem rates_lost_publication:
  assumes "rates_publish e1 u1 r1 v w = (Answer 200 (Inr ok), w1)" "rr_model r2 = rr_model r1"
  shows "\<exists>w2. rates_publish e2 u2 r2 v w1 = (Answer 500 (Inl RatesInternal), w2)
    \<and> getActiveRateConfig (Some (w_db w2)) (rr_model r1) = (DEFAULT_RATE_CONFIGS (rr_model r1), True)"
proof -
  let ?model = "rate_model_name (rr_model r1)" and ?rows = "db_interestRateConfigs (w_db w)"
  have row_fields: "irc_rateModel row = rate_model_name (rr_model r) \<and> to_int4 (to_num (of_int v)) = Some (irc_version row)"
    if "rates_row e u r v = Some row" for e u r row
    using that by (auto simp: rates_row_def split: option.splits)
  define rows where "rows = db_interestRateConfigs (w_db w1)"
  obtain row where row: "rates_row e1 u1 r1 v = Some row"
      "insert_rates row (retire_rates_at (env_now e1) ?model ?rows) = Some rows" "db_interestRateConfigs (w_db w1) = rows"
    using rates_publish_200D [OF assms(1)] unfolding rows_def by blast
  have "row \<in> set rows"
    using row(2) by (rule rates.inserted)
  note lost = rates.lost_publication [OF this]
  have "insert_rates q (retire_rates_at (env_now e2) ?model rows) = None" if "rates_row e2 u2 r2 v = Some q" for q
  proof -
    have "irc_rateModel q = irc_rateModel row" "irc_version q = irc_version row"
      using row_fields [OF row(1)] row_fields [OF that] assms(2) by auto
    from lost(1) [OF this] show ?thesis
      using row_fields [OF row(1)] by simp
  qed
  then have "rates_publish e2 u2 r2 v w1 = (Answer 500 (Inl RatesInternal), set_rates (retire_rates_at (env_now e2) ?model) w1)"
    by (cases "rates_row e2 u2 r2 v") (simp_all add: rates_publish_def row(3) assms(2))
  moreover have "rates.the_active ?model (retire_rates_at (env_now e2) ?model rows) = None"
    using lost(2) [of row] row_fields [OF row(1)] by simp
  then have "getActiveRateConfig (Some (w_db (set_rates (retire_rates_at (env_now e2) ?model) w1))) (rr_model r1)
      = (DEFAULT_RATE_CONFIGS (rr_model r1), True)"
    by (simp only: getActiveRateConfig_active set_rates_simps row(3) option.case)
  ultimately show ?thesis
    by blast
qed

subsection \<open>Publication of a setting\<close>

lemma getPlatformSetting_active:
  "getPlatformSetting (Some db) k =
     (case settings.the_active k (db_platformSettings db) of
        Some row \<Rightarrow> (setting_of_row row)\<lparr>set_key := k, set_valueBps := clampSettingValue k (to_num (of_int (ps_valueBps row)))\<rparr>
      | None \<Rightarrow> fallbackSetting k)"
  by (auto simp: getPlatformSetting_def settings.the_active_def setting_of_row_def split: option.split)

lemma set_settings_simps [simp]:
  "db_platformSettings (w_db (set_settings f w)) = f (db_platformSettings (w_db w))"
  "db_loans (w_db (set_settings f w)) = db_loans (w_db w)"
  by (simp_all add: set_settings_def)

lemma settings_parse_valid:
  assumes "settings_parse body = Inr r"
  shows "sr_key r = PLATFORM_FEE_BPS_KEY" "bps_between 0 1000 (sr_valueBps r)"
proof -
  show key: "sr_key r = PLATFORM_FEE_BPS_KEY"
    using assms by (auto simp: settings_parse_def Let_def isPlatformSettingKey_def PLATFORM_SETTING_KEYS_def split: if_splits option.splits)
  have "validateSettingValue (sr_key r) (JNum (sr_valueBps r)) = None"
    using assms by (auto simp: settings_parse_def Let_def split: if_splits option.splits)
  then show "bps_between 0 1000 (sr_valueBps r)"
    by (auto simp: key validateSettingValue_def fee_definition split: if_splits intro!: bps_betweenI)
qed

lemma setting_row_fields:
  assumes "setting_row e u r v = Some row"
  shows "ps_settingKey row = sr_key r" "to_int4 (to_num (of_int v)) = Some (ps_version row)" "ps_isActive row"
    "to_int4 (jround (sr_valueBps r)) = Some (ps_valueBps row)"
  using assms by (auto simp: setting_row_def split: option.splits)

lemma jround_whole [simp]: "jround (Fin (of_int n)) = Fin (of_int n)"
proof -
  have "\<lfloor>of_int n + 1 / 2 :: rat\<rfloor> = n"
    by (intro floor_unique) simp_all
  then show ?thesis
    by simp
qed

text \<open>
  C32: an admin's valid fee is published: the route answers 200, and from then on the platform
  fee is the number of the request, to the basis point and within its bounds, under a version the
  key never had. A loan that carries a stamp of its own keeps its fee; every other loan is
  charged the new one.
\<close>

theorem setting_published:
  assumes "\<not> env_rateLimited e" "requireApiAdmin e (w_db w) = Some user" "env_dbAvailable e" "settings_parse body = Inr r"
    and "\<forall>row \<in> set (db_platformSettings (w_db w)). 0 \<le> ps_version row \<and> ps_version row < 2 ^ 31 - 1"
  shows "\<exists>ok w' n. POST_platform_settings e body w = (Answer 200 (Inr ok), w')
    \<and> sr_valueBps r = Fin (of_int n) \<and> 0 \<le> n \<and> n \<le> 1000
    \<and> set_valueBps (getPlatformFeeBps (Some (w_db w'))) = Fin (of_int n)
    \<and> \<not> set_usedFallback (getPlatformFeeBps (Some (w_db w')))
    \<and> (\<forall>row \<in> set (db_platformSettings (w_db w)). ps_settingKey row = sr_key r \<longrightarrow> ps_version row < sok_version ok)
    \<and> (\<forall>jp p m. rf_feeBps (resolveLoanFeeBps jp p m (Some (getPlatformFeeBps (Some (w_db w'))))) =
          (case readLoanFeeBps jp m of
             Some stamped \<Rightarrow> rf_feeBps (resolveLoanFeeBps jp p m (Some (getPlatformFeeBps (Some (w_db w)))))
           | None \<Rightarrow> Fin (of_int n)))
    \<and> db_loans (w_db w') = db_loans (w_db w)"
proof -
  let ?rows = "db_platformSettings (w_db w)"
  let ?v = "settings_next_version (sr_key r) ?rows" and ?retired = "retire_settings_at (env_now e) (sr_key r) ?rows"
  have v: "0 \<le> ?v" "?v < 2 ^ 31"
    using next_version_of_range [of ?rows ps_settingKey "sr_key r" ps_version "2 ^ 31 - 1"] assms(5)
    by (auto simp: settings_next_version_def)
  obtain n where n: "sr_valueBps r = Fin (of_int n)" "0 \<le> n" "n \<le> 1000"
    using settings_parse_valid(2) [OF assms(4)] by (auto simp: bps_between_def)
  then have "to_int4 (jround (sr_valueBps r)) = Some n"
    by (simp add: to_int4_def del: jround.simps)
  then obtain row where row: "setting_row e user r ?v = Some row"
    using to_int4_int [OF v] by (simp add: setting_row_def)
  note f = setting_row_fields [OF row]
  have fields: "ps_settingKey row = sr_key r" "ps_version row = ?v" "ps_isActive row" "ps_valueBps row = n"
    using f to_int4_int [OF v] \<open>to_int4 (jround (sr_valueBps r)) = Some n\<close> by simp_all
  have insert: "insert_setting row ?retired = Some (?retired @ [row])"
    using settings.retired_free [of row ?rows "env_now e"] fields by simp
  note pub = settings.publish [of row ?rows "env_now e", unfolded fields(1), OF fields(2,3) insert]
  define w' where "w' = set_settings (\<lambda>_. ?retired @ [row]) (set_settings (retire_settings_at (env_now e) (sr_key r)) w)"
  obtain ok where ok: "settings_publish e user r ?v w = (Answer 200 (Inr ok), w')" "sok_version ok = ?v"
    using row insert by (simp add: settings_publish_def Let_def w'_def)
  have post: "POST_platform_settings e body w = (Answer 200 (Inr ok), w')"
    using assms(1-4) ok(1) by (simp add: POST_platform_settings_def)
  have "clampSettingValue PLATFORM_FEE_BPS_KEY (Fin (of_int n)) = Fin (of_int n)"
    using n(2,3) by (simp add: clampSettingValue_def fee_definition del: jround.simps)
  moreover have "to_num (of_int n) = Fin (of_int n)"
    using n by (simp add: to_num_int)
  ultimately have fee: "set_valueBps (getPlatformFeeBps (Some (w_db w'))) = Fin (of_int n)"
      "\<not> set_usedFallback (getPlatformFeeBps (Some (w_db w')))"
      "clampSettingValue PLATFORM_FEE_BPS_KEY (Fin (of_int n)) = Fin (of_int n)"
    using pub(1) settings_parse_valid(1) [OF assms(4)] fields(4)
    by (simp_all add: getPlatformFeeBps_def getPlatformSetting_active w'_def setting_of_row_def)
  have charged: "rf_feeBps (resolveLoanFeeBps jp p m (Some (getPlatformFeeBps (Some (w_db w'))))) =
      (case readLoanFeeBps jp m of
         Some stamped \<Rightarrow> rf_feeBps (resolveLoanFeeBps jp p m (Some (getPlatformFeeBps (Some (w_db w)))))
       | None \<Rightarrow> Fin (of_int n))" for jp p m
    using fee by (simp add: resolveLoanFeeBps_def Let_def split: option.split)
  have "ps_version q < ?v" if "q \<in> set ?rows" "ps_settingKey q = sr_key r" for q
    using settings.next_fresh that by blast
  with post n fee charged ok(2) show ?thesis
    by (intro exI [of _ ok] exI [of _ w'] exI [of _ n]) (simp add: w'_def)
qed

subsection \<open>Examples\<close>

definition demo_admin_db :: database where
  "demo_admin_db = empty_db\<lparr>db_profiles := [(demo_profile demo_borrower)\<lparr>profile_role := RoleAdmin\<rparr>]\<rparr>"

definition demo_admin_env :: env where
  "demo_admin_env = demo_env demo_borrower (demo_horizon [] [] [] [])"

definition demo_rates_body :: jsval where
  "demo_rates_body = JObj
     [(''rateModel'', JStr ''Floating''), (''notes'', JStr '' cheaper loans ''), (''baseAprBps'', JNum (Fin 600)),
      (''amountTiers'', JArr [JObj [(''minAmount'', JNum (Fin 500)), (''aprBps'', JNum (Fin 450))]])]"

definition demo_setting_body :: jsval where
  "demo_setting_body = JObj
     [(''settingKey'', JStr ''platform_fee_bps''), (''notes'', JStr ''lower fee''), (''valueBps'', JNum (Fin 75))]"

lemma demo_admin: "requireApiAdmin demo_admin_env demo_admin_db = Some demo_borrower"
proof -
  have "isTradeVaultAdminUser demo_admin_env demo_borrower"
    by code_simp
  then show ?thesis
    by (simp add: requireApiAdmin_def requireApiUser_def db_admin_def demo_admin_env_def demo_admin_db_def
        demo_profile_def demo_borrower_def)
qed

lemma demo_rates_parse: "\<exists>r. rates_parse demo_rates_body = Inr r \<and> rr_model r = RateFloating \<and> rr_baseAprBps r = Fin 600"
proof -
  have "(case rates_parse demo_rates_body of Inl _ \<Rightarrow> False | Inr r \<Rightarrow> rr_model r = RateFloating \<and> rr_baseAprBps r = Fin 600)"
    by code_simp
  then show ?thesis
    by (simp split: sum.splits)
qed

lemma demo_setting_parse: "settings_parse demo_setting_body = Inr \<lparr>sr_key = ''platform_fee_bps'', sr_notes = ''lower fee'', sr_valueBps = Fin 75\<rparr>"
  by code_simp

lemma demo_admin_tables [simp]:
  "db_interestRateConfigs demo_admin_db = []" "db_platformSettings demo_admin_db = []"
  "w_db (demo_world demo_admin_db) = demo_admin_db" "env_rateLimited demo_admin_env = False" "env_dbAvailable demo_admin_env"
  by (simp_all add: demo_world_def demo_admin_db_def empty_db_def demo_admin_env_def)

lemma rates_published_witness:
  "\<exists>ok w' c. POST_interest_rates demo_admin_env demo_rates_body (demo_world demo_admin_db) = (Answer 200 (Inr ok), w')
    \<and> getActiveRateConfig (Some (w_db w')) RateFloating = (c, False) \<and> schedule_ok c \<and> cfg_baseAprBps c = Fin 600"
proof -
  obtain r where r: "rates_parse demo_rates_body = Inr r" "rr_model r = RateFloating" "rr_baseAprBps r = Fin 600"
    using demo_rates_parse by blast
  from rates_published [of demo_admin_env "demo_world demo_admin_db" demo_borrower, OF _ _ _ r(1)] demo_admin
  obtain ok w' c where "POST_interest_rates demo_admin_env demo_rates_body (demo_world demo_admin_db) = (Answer 200 (Inr ok), w')"
      "getActiveRateConfig (Some (w_db w')) (rr_model r) = (c, False)" "schedule_ok c" "cfg_baseAprBps c = rr_baseAprBps r"
    by auto
  with r(2,3) show ?thesis
    by auto
qed

lemma demo_first_publication:
  assumes "rates_parse demo_rates_body = Inr r"
  shows "\<exists>ok w'. rates_publish demo_admin_env demo_borrower r 1 (demo_world demo_admin_db) = (Answer 200 (Inr ok), w')"
proof -
  obtain row where row: "rates_row demo_admin_env demo_borrower r 1 = Some row"
    using rates_row_reads_back [OF assms, of 1 demo_admin_env demo_borrower] by auto
  have "insert_rates row (retire_rates_at (env_now demo_admin_env) (rate_model_name (rr_model r))
      (db_interestRateConfigs (w_db (demo_world demo_admin_db)))) = Some [row]"
    by (simp add: retire_rates_at_def update_where_def insert_rates_def)
  from rates_publish_200 [OF row this] show ?thesis
    by blast
qed

lemma rates_lost_publication_witness:
  "\<exists>r w1 w2. rates_parse demo_rates_body = Inr r
    \<and> rates_publish demo_admin_env demo_borrower r 1 w1 = (Answer 500 (Inl RatesInternal), w2)
    \<and> getActiveRateConfig (Some (w_db w2)) RateFloating = (DEFAULT_RATE_CONFIGS RateFloating, True)"
proof -
  obtain r where r: "rates_parse demo_rates_body = Inr r" "rr_model r = RateFloating"
    using demo_rates_parse by blast
  obtain ok w1 where "rates_publish demo_admin_env demo_borrower r 1 (demo_world demo_admin_db) = (Answer 200 (Inr ok), w1)"
    using demo_first_publication [OF r(1)] by blast
  from rates_lost_publication [OF this, of r demo_admin_env demo_borrower] r show ?thesis
    by auto
qed

lemma setting_published_witness:
  "\<exists>ok w'. POST_platform_settings demo_admin_env demo_setting_body (demo_world demo_admin_db) = (Answer 200 (Inr ok), w')
    \<and> set_valueBps (getPlatformFeeBps (Some (w_db w'))) = Fin 75"
proof -
  from setting_published [of demo_admin_env "demo_world demo_admin_db" demo_borrower, OF _ _ _ demo_setting_parse] demo_admin
  obtain ok w' n where "POST_platform_settings demo_admin_env demo_setting_body (demo_world demo_admin_db) = (Answer 200 (Inr ok), w')"
      "Fin 75 = Fin (of_int n)" "set_valueBps (getPlatformFeeBps (Some (w_db w'))) = Fin (of_int n)"
    by auto
  then show ?thesis
    by auto
qed

end
