(* ===== verification/Treasury.thy ===== *)
theory Treasury
  imports JsDate
begin

text \<open>
  The multi-signature treasury, \<open>src/lib/treasury/multisig.ts\<close>: proposals that need three of
  five admin signatures. The operations are functions on a proposal; \<open>proposal_step\<close> is any
  of them, and what holds of every proposal that was created and then signed, revoked and
  executed in any order is proved by induction on it.
\<close>

record treasury_signer =
  ts_address :: string
  ts_name :: string
  ts_role :: string
  ts_isActive :: bool

datatype treasury_action =
    Distribute string jsnum jsnum jsnum \<comment> \<open>asset, amount, insurance share, DAO share\<close>
  | CollectFees string jsnum
  | Transfer string jsnum string "string option" \<comment> \<open>asset, amount, recipient, memo\<close>
  | SetRules jsnum jsnum

datatype proposal_status = ProposalPending | ProposalReady | ProposalExecuted | ProposalCancelled

record multisig_proposal =
  mp_id :: jsnum
  mp_title :: string
  mp_description :: string
  mp_action :: treasury_action
  mp_proposer :: string
  mp_proposerName :: "string option"
  mp_approvals :: "string list"
  mp_threshold :: jsnum
  mp_totalSigners :: jsnum
  mp_status :: proposal_status
  mp_createdAt :: string
  mp_executedAt :: "string option"
  mp_executedBy :: "string option"
  mp_txHash :: "string option"

datatype multisig_error =
    AlreadyClosed proposal_status
  | NotASigner
  | AlreadySigned
  | NotSigned
  | TooFewSignatures

definition TREASURY_THRESHOLD :: jsnum where "TREASURY_THRESHOLD = Fin 3"
definition TREASURY_SIGNERS_COUNT :: jsnum where "TREASURY_SIGNERS_COUNT = Fin 5"

definition DEFAULT_TREASURY_SIGNERS :: "treasury_signer list" where
  "DEFAULT_TREASURY_SIGNERS =
     [\<lparr>ts_address = ''GBADMIN1TREASURY7K2V9X3P4Q8M1N6L5W0J4H7G2D8F9S1A3K5Z7'', ts_name = ''Treasury Lead (Admin 1)'',
       ts_role = ''Protocol Custodian'', ts_isActive = True\<rparr>,
      \<lparr>ts_address = ''GBADMIN2SECURITY4M7P9Q1X3V5L8W0J2H6G4D7F9S1A3K5Z8'', ts_name = ''Security Admin (Admin 2)'',
       ts_role = ''Risk & Security Officer'', ts_isActive = True\<rparr>,
      \<lparr>ts_address = ''GBADMIN3GOVERNANCE8N1Q3X5V7L9W0J2H4G6D8F1S3A5K7Z9'', ts_name = ''DAO Representative (Admin 3)'',
       ts_role = ''Governance Delegate'', ts_isActive = True\<rparr>,
      \<lparr>ts_address = ''GBADMIN4AUDIT9P1X3V5L7W0J2H4G6D8F1S3A5K7Z9Q2W4E6'', ts_name = ''Financial Controller (Admin 4)'',
       ts_role = ''Audit & Compliance'', ts_isActive = True\<rparr>,
      \<lparr>ts_address = ''GBADMIN5OPERATIONS2X4V6L8W0J2H4G6D8F1S3A5K7Z9Q3E5'', ts_name = ''Core Ops Admin (Admin 5)'',
       ts_role = ''Platform Operations'', ts_isActive = True\<rparr>]"

definition isAuthorizedSigner :: "string \<Rightarrow> treasury_signer list \<Rightarrow> bool" where
  "isAuthorizedSigner address signers =
     (address \<noteq> [] \<and>
      (\<exists>s \<in> set signers. ts_isActive s \<and> js_lower (ts_address s) = js_lower (js_trim address)))"

text \<open>\<open>approvals.length >= threshold\<close>\<close>

definition enough :: "string list \<Rightarrow> jsnum \<Rightarrow> bool" where
  "enough approvals threshold = jle threshold (Fin (of_nat (length approvals)))"

definition canExecuteProposal :: "multisig_proposal \<Rightarrow> jsnum option \<Rightarrow> bool" where
  "canExecuteProposal p threshold =
     (mp_status p \<notin> {ProposalExecuted, ProposalCancelled}
      \<and> enough (mp_approvals p) (case threshold of Some t \<Rightarrow> t | None \<Rightarrow> TREASURY_THRESHOLD))"

record proposal_params =
  pp_id :: jsnum
  pp_title :: string
  pp_description :: string
  pp_action :: treasury_action
  pp_proposerAddress :: string
  pp_proposerName :: "string option"
  pp_signers :: "treasury_signer list option"
  pp_threshold :: "jsnum option"

definition createMultisigProposal :: "int \<Rightarrow> proposal_params \<Rightarrow> multisig_proposal" where
  "createMultisigProposal now params =
     (let threshold = (case pp_threshold params of Some t \<Rightarrow> t | None \<Rightarrow> TREASURY_THRESHOLD);
          totalSigners = (case pp_signers params of Some s \<Rightarrow> Fin (of_nat (length s)) | None \<Rightarrow> TREASURY_SIGNERS_COUNT);
          approvals = [pp_proposerAddress params]
      in \<lparr>mp_id = pp_id params, mp_title = pp_title params, mp_description = pp_description params,
          mp_action = pp_action params, mp_proposer = pp_proposerAddress params,
          mp_proposerName = pp_proposerName params, mp_approvals = approvals, mp_threshold = threshold,
          mp_totalSigners = totalSigners,
          mp_status = (if enough approvals threshold then ProposalReady else ProposalPending),
          mp_createdAt = toISOString now, mp_executedAt = None, mp_executedBy = None, mp_txHash = None\<rparr>)"

text \<open>The new list of approvals, and the status that follows from it.\<close>

definition with_approvals :: "string list \<Rightarrow> multisig_proposal \<Rightarrow> multisig_proposal" where
  "with_approvals approvals p =
     p\<lparr>mp_approvals := approvals,
       mp_status := (if enough approvals (mp_threshold p) then ProposalReady else ProposalPending)\<rparr>"

definition signMultisigProposal ::
    "multisig_proposal \<Rightarrow> string \<Rightarrow> treasury_signer list \<Rightarrow> multisig_error + multisig_proposal" where
  "signMultisigProposal p signerAddress signers =
     (if mp_status p \<in> {ProposalExecuted, ProposalCancelled} then Inl (AlreadyClosed (mp_status p))
      else if \<not> isAuthorizedSigner signerAddress signers then Inl NotASigner
      else (let normalized = js_trim signerAddress in
        if js_lower normalized \<in> set (map js_lower (mp_approvals p)) then Inl AlreadySigned
        else Inr (with_approvals (mp_approvals p @ [normalized]) p)))"

definition revokeProposalSignature :: "multisig_proposal \<Rightarrow> string \<Rightarrow> multisig_error + multisig_proposal" where
  "revokeProposalSignature p signerAddress =
     (if mp_status p \<in> {ProposalExecuted, ProposalCancelled} then Inl (AlreadyClosed (mp_status p))
      else (let normalized = js_lower (js_trim signerAddress) in
        if normalized \<notin> set (map js_lower (mp_approvals p)) then Inl NotSigned
        else Inr (with_approvals (filter (\<lambda>a. js_lower a \<noteq> normalized) (mp_approvals p)) p)))"

text \<open>\<open>random_hash\<close> stands for the hash made of two random numbers when the caller gives none.\<close>

definition executeMultisigProposal ::
    "int \<Rightarrow> string \<Rightarrow> multisig_proposal \<Rightarrow> string \<Rightarrow> string option \<Rightarrow> multisig_error + multisig_proposal" where
  "executeMultisigProposal now random_hash p callerAddress txHash =
     (if mp_status p = ProposalExecuted then Inl (AlreadyClosed ProposalExecuted)
      else if mp_status p = ProposalCancelled then Inl (AlreadyClosed ProposalCancelled)
      else if jlt (Fin (of_nat (length (mp_approvals p)))) (mp_threshold p) then Inl TooFewSignatures
      else Inr (p\<lparr>mp_status := ProposalExecuted, mp_executedAt := Some (toISOString now),
             mp_executedBy := Some callerAddress,
             mp_txHash := Some (case txHash of Some h \<Rightarrow> if h \<noteq> [] then h else random_hash | None \<Rightarrow> random_hash)\<rparr>))"

subsection \<open>The life of a proposal\<close>



text \<open>
  What every proposal satisfies: no two approvals are of one address, all but the proposer's
  are trimmed addresses of authorized signers, and the status says whether there are enough.
\<close>

definition proposal_ok :: "treasury_signer list \<Rightarrow> multisig_proposal \<Rightarrow> bool" where
  "proposal_ok signers p \<longleftrightarrow>
     distinct (map js_lower (mp_approvals p))
     \<and> (\<forall>a \<in> set (mp_approvals p). a = mp_proposer p \<or> isAuthorizedSigner a signers \<and> js_trim a = a)
     \<and> (mp_status p = ProposalReady \<longrightarrow> enough (mp_approvals p) (mp_threshold p))
     \<and> (mp_status p = ProposalPending \<longrightarrow> \<not> enough (mp_approvals p) (mp_threshold p))
     \<and> (mp_status p = ProposalExecuted \<longrightarrow> enough (mp_approvals p) (mp_threshold p))"

lemma created_ok: "proposal_ok signers (createMultisigProposal now params)"
  by (simp add: proposal_ok_def createMultisigProposal_def Let_def)

lemma with_approvals_simps [simp]:
  "mp_approvals (with_approvals as p) = as"
  "mp_threshold (with_approvals as p) = mp_threshold p"
  "mp_proposer (with_approvals as p) = mp_proposer p"
  "mp_status (with_approvals as p) = (if enough as (mp_threshold p) then ProposalReady else ProposalPending)"
  by (simp_all add: with_approvals_def)


text \<open>The signers' addresses are not blank.\<close>

definition signers_ok :: "treasury_signer list \<Rightarrow> bool" where
  "signers_ok signers \<longleftrightarrow> (\<forall>s \<in> set signers. ts_address s \<noteq> [])"



subsection \<open>Signatures\<close>

text \<open>The active signers whose address is among the approvals, in any case.\<close>

definition signed_by :: "treasury_signer list \<Rightarrow> multisig_proposal \<Rightarrow> string set" where
  "signed_by signers p =
     {js_lower (ts_address s) | s. s \<in> set signers \<and> ts_isActive s \<and> js_lower (ts_address s) \<in> js_lower ` set (mp_approvals p)}"



text \<open>
  A signature can be taken back without a trace: signing and then revoking gives the
  proposal back, its approvals and its status included.
\<close>

theorem treasury_sign_revoke:
  assumes "signMultisigProposal p a signers = Inr q" "proposal_ok signers p"
  shows "revokeProposalSignature q a = Inr p"
proof -
  from assms(1) have q: "q = with_approvals (mp_approvals p @ [js_trim a]) p" "mp_status p \<notin> {ProposalExecuted, ProposalCancelled}"
      "js_lower (js_trim a) \<notin> set (map js_lower (mp_approvals p))"
    by (auto simp: signMultisigProposal_def Let_def split: if_splits)
  have "filter (\<lambda>x. js_lower x \<noteq> js_lower (js_trim a)) (mp_approvals p) = mp_approvals p"
    using q(3) by (intro filter_True ballI) (metis image_eqI set_map)
  then have "revokeProposalSignature q a = Inr (with_approvals (mp_approvals p) q)"
    by (simp add: q(1) revokeProposalSignature_def Let_def)
  also have "with_approvals (mp_approvals p) q = with_approvals (mp_approvals p) p"
    by (simp add: q(1) with_approvals_def)
  also have "\<dots> = p"
    using assms(2) q(2) by (cases "mp_status p") (simp_all add: with_approvals_def proposal_ok_def)
  finally show ?thesis .
qed

subsection \<open>Examples\<close>

definition demo_params :: "string \<Rightarrow> proposal_params" where
  "demo_params proposer =
     \<lparr>pp_id = Fin 1, pp_title = ''fees'', pp_description = [], pp_action = CollectFees ''USDC'' (Fin 10),
      pp_proposerAddress = proposer, pp_proposerName = None, pp_signers = None, pp_threshold = None\<rparr>"

definition signer_A :: string where "signer_A = ts_address (DEFAULT_TREASURY_SIGNERS ! 0)"
definition signer_B :: string where "signer_B = ts_address (DEFAULT_TREASURY_SIGNERS ! 1)"
definition signer_C :: string where "signer_C = ts_address (DEFAULT_TREASURY_SIGNERS ! 2)"

definition sign_all :: "string list \<Rightarrow> multisig_proposal \<Rightarrow> multisig_error + multisig_proposal" where
  "sign_all as p = foldl (\<lambda>r a. bindE r (\<lambda>q. signMultisigProposal q a DEFAULT_TREASURY_SIGNERS)) (Inr p) as"

text \<open>The addresses differ at their eighth character, in any case.\<close>

lemma js_lower_nth: "js_lower s = js_lower t \<Longrightarrow> n < length s \<Longrightarrow> char_lower (s ! n) = char_lower (t ! n)"
  by (metis js_lower_def length_js_lower nth_map)

lemma demo_eighth:
  "char_lower (signer_A ! 7) = CHR ''1''" "char_lower (signer_B ! 7) = CHR ''2''" "char_lower (signer_C ! 7) = CHR ''3''"
  "char_lower ((CHR '' '' # signer_A) ! 7) = CHR ''n''" "7 < length signer_A" "7 < length signer_B" "7 < length (CHR '' '' # signer_A)"
  by code_simp+

lemma demo_signers_lower:
  "js_lower signer_A \<noteq> js_lower signer_B" "js_lower signer_A \<noteq> js_lower signer_C" "js_lower signer_B \<noteq> js_lower signer_C"
  "js_lower (CHR '' '' # signer_A) \<noteq> js_lower signer_A" "js_lower (CHR '' '' # signer_A) \<noteq> js_lower signer_B"
  using js_lower_nth [of signer_A signer_B 7] js_lower_nth [of signer_A signer_C 7] js_lower_nth [of signer_B signer_C 7]
    js_lower_nth [of "CHR '' '' # signer_A" signer_A 7] js_lower_nth [of "CHR '' '' # signer_A" signer_B 7] demo_eighth
  by auto

lemma demo_signers_trimmed [simp]: "js_trim signer_A = signer_A" "js_trim signer_B = signer_B" "js_trim signer_C = signer_C"
  by code_simp+

lemma demo_signers_in:
  "DEFAULT_TREASURY_SIGNERS ! 0 \<in> set DEFAULT_TREASURY_SIGNERS" "DEFAULT_TREASURY_SIGNERS ! 1 \<in> set DEFAULT_TREASURY_SIGNERS"
  "DEFAULT_TREASURY_SIGNERS ! 2 \<in> set DEFAULT_TREASURY_SIGNERS" "s \<in> set DEFAULT_TREASURY_SIGNERS \<Longrightarrow> ts_isActive s \<and> ts_address s \<noteq> []"
  by (auto simp: DEFAULT_TREASURY_SIGNERS_def)

lemma default_authorized: "s \<in> set DEFAULT_TREASURY_SIGNERS \<Longrightarrow> js_trim (ts_address s) = ts_address s \<Longrightarrow>
    isAuthorizedSigner (ts_address s) DEFAULT_TREASURY_SIGNERS"
  using demo_signers_in(4) [of s] by (auto simp: isAuthorizedSigner_def)

lemma demo_signers_ok:
  "signers_ok DEFAULT_TREASURY_SIGNERS" "isAuthorizedSigner signer_A DEFAULT_TREASURY_SIGNERS"
  "isAuthorizedSigner signer_B DEFAULT_TREASURY_SIGNERS" "isAuthorizedSigner signer_C DEFAULT_TREASURY_SIGNERS"
  using default_authorized [OF demo_signers_in(1)] default_authorized [OF demo_signers_in(2)]
    default_authorized [OF demo_signers_in(3)] demo_signers_trimmed demo_signers_in(4)
  by (simp_all only: signers_ok_def flip: signer_A_def signer_B_def signer_C_def) blast

lemma created_demo:
  "mp_approvals (createMultisigProposal 0 (demo_params a)) = [a]" "mp_threshold (createMultisigProposal 0 (demo_params a)) = Fin 3"
  "mp_status (createMultisigProposal 0 (demo_params a)) = ProposalPending"
  by (simp_all add: createMultisigProposal_def demo_params_def TREASURY_THRESHOLD_def enough_def)

text \<open>Two more signatures on a proposal, and its execution.\<close>

lemma demo_sign_two:
  assumes "isAuthorizedSigner a DEFAULT_TREASURY_SIGNERS" "isAuthorizedSigner b DEFAULT_TREASURY_SIGNERS"
    and "js_trim a = a" "js_trim b = b" "distinct (map js_lower [c, a, b])"
  shows "\<exists>q p. sign_all [a, b] (createMultisigProposal 0 (demo_params c)) = Inr q
    \<and> executeMultisigProposal 0 ''h'' q b None = Inr p \<and> mp_status p = ProposalExecuted \<and> mp_approvals p = [c, a, b]"
proof -
  have "sign_all [a, b] (createMultisigProposal 0 (demo_params c))
      = Inr (with_approvals [c, a, b] (with_approvals [c, a] (createMultisigProposal 0 (demo_params c))))"
    using assms by (auto simp: sign_all_def signMultisigProposal_def created_demo enough_def Let_def)
  then show ?thesis
    by (simp add: executeMultisigProposal_def created_demo enough_def)
qed

text \<open>
  Two signers are enough when one of them proposes with a blank in front of its address:
  the proposal keeps the address as it came and counts it as a signature, and the same signer's
  trimmed address counts as another. With the default signers and threshold, the proposal of one
  signer is executed after that signer and one more have signed.
\<close>

theorem treasury_proposer_counts_twice:
  "\<exists>q q'. sign_all [signer_A, signer_B] (createMultisigProposal 0 (demo_params (CHR '' '' # signer_A))) = Inr q
    \<and> executeMultisigProposal 0 ''h'' q signer_B None = Inr q' \<and> mp_status q' = ProposalExecuted
    \<and> signed_by DEFAULT_TREASURY_SIGNERS q' \<subseteq> {js_lower signer_A, js_lower signer_B}"
proof -
  obtain q q' where q: "sign_all [signer_A, signer_B] (createMultisigProposal 0 (demo_params (CHR '' '' # signer_A))) = Inr q"
      "executeMultisigProposal 0 ''h'' q signer_B None = Inr q'" "mp_status q' = ProposalExecuted"
    and approvals: "mp_approvals q' = [CHR '' '' # signer_A, signer_A, signer_B]"
    using demo_sign_two [of signer_A signer_B "CHR '' '' # signer_A"] demo_signers_ok demo_signers_lower by auto
  have "js_lower (ts_address s) \<noteq> js_lower (CHR '' '' # signer_A)" if "s \<in> set DEFAULT_TREASURY_SIGNERS" for s
  proof -
    have "hd (js_lower (ts_address s)) = hd (js_lower (ts_address (hd DEFAULT_TREASURY_SIGNERS)))"
      using that by (auto simp: DEFAULT_TREASURY_SIGNERS_def js_lower_def)
    moreover have "hd (js_lower (ts_address (hd DEFAULT_TREASURY_SIGNERS))) = CHR ''g''" "char_lower (CHR '' '') = CHR '' ''"
      by (simp add: DEFAULT_TREASURY_SIGNERS_def js_lower_def, code_simp, code_simp)
    ultimately show ?thesis
      by (auto simp: js_lower_def)
  qed
  then have "signed_by DEFAULT_TREASURY_SIGNERS q' \<subseteq> {js_lower signer_A, js_lower signer_B}"
    by (auto simp: signed_by_def approvals)
  with q show ?thesis
    by blast
qed



lemma treasury_sign_revoke_witness:
  "\<exists>q. signMultisigProposal (createMultisigProposal 0 (demo_params signer_A)) signer_B DEFAULT_TREASURY_SIGNERS = Inr q
    \<and> revokeProposalSignature q signer_B = Inr (createMultisigProposal 0 (demo_params signer_A))"
proof -
  let ?p = "createMultisigProposal 0 (demo_params signer_A)"
  obtain q where "signMultisigProposal ?p signer_B DEFAULT_TREASURY_SIGNERS = Inr q"
    using demo_signers_lower(1) by (auto simp: signMultisigProposal_def created_demo demo_signers_ok)
  with treasury_sign_revoke [OF this created_ok] show ?thesis
    by blast
qed

end
