(* ===== verification/RiskParams.thy ===== *)
theory RiskParams
  imports Server JsDate
begin

text \<open>
  The risk parameters, \<open>src/lib/risk/parameters.ts\<close>, and the route that changes them,
  \<open>src/app/api/admin/risk-parameters/route.ts\<close>. The route keeps its state in memory and merges
  whatever fields an update carries into it, so an asset, a curve and the fees are JavaScript
  objects here; the rate curve reads its fields as numbers.
\<close>

subsection \<open>Bounds and defaults\<close>

definition MIN_COLLATERAL_FACTOR_BPS :: jsnum where "MIN_COLLATERAL_FACTOR_BPS = Fin 1000"
definition MAX_COLLATERAL_FACTOR_BPS :: jsnum where "MAX_COLLATERAL_FACTOR_BPS = Fin 9500"
definition MIN_KINK_BPS :: jsnum where "MIN_KINK_BPS = Fin 1000"
definition MAX_KINK_BPS :: jsnum where "MAX_KINK_BPS = Fin 9000"
definition MAX_BASE_RATE_BPS :: jsnum where "MAX_BASE_RATE_BPS = Fin 5000"
definition MAX_JUMP_MULTIPLIER_BPS :: jsnum where "MAX_JUMP_MULTIPLIER_BPS = Fin 20000"
definition MAX_RESERVE_FACTOR_BPS :: jsnum where "MAX_RESERVE_FACTOR_BPS = Fin 5000"
definition MAX_FLASH_LOAN_FEE_BPS :: jsnum where "MAX_FLASH_LOAN_FEE_BPS = Fin 500"
definition MAX_PLATFORM_FEE_BPS :: jsnum where "MAX_PLATFORM_FEE_BPS = Fin 1000"
definition RISK_MAX_BPS :: jsnum where "RISK_MAX_BPS = Fin 10000"

type_synonym js_object = "(string \<times> jsval) list"

definition asset_object :: "string \<Rightarrow> string \<Rightarrow> string \<Rightarrow> int \<Rightarrow> int \<Rightarrow> int \<Rightarrow> int \<Rightarrow> js_object" where
  "asset_object symb addr name factor vol threshold bonus =
     [(''assetSymbol'', JStr symb), (''assetAddress'', JStr addr), (''assetName'', JStr name),
      (''collateralFactorBps'', JNum (Fin (of_int factor))), (''volatilityBps'', JNum (Fin (of_int vol))),
      (''liquidationThresholdBps'', JNum (Fin (of_int threshold))),
      (''liquidationBonusBps'', JNum (Fin (of_int bonus))),
      (''hasPriceOracle'', JBool True), (''isWhitelisted'', JBool True)]"

definition DEFAULT_ASSET_RISK_CONFIGS :: "js_object list" where
  "DEFAULT_ASSET_RISK_CONFIGS =
     [asset_object ''XLM'' ''CDLZFC3SYJYDZT7K67VZ75HPJVIEUVNIXF47ZG2FB2RMQQVU2HHGCYSC'' ''Native Stellar Lumens'' 7500 500 8000 500,
      asset_object ''USDC'' ''CBIELTK6YBZJU5UP2WWQEUCYKLPU6AUNZ2BQ4WWUIE3USDC777777777'' ''USD Coin (Circle)'' 8500 200 9000 300,
      asset_object ''WBTC'' ''CAWBTC77777777777777777777777777777777777777777777777777'' ''Wrapped Bitcoin'' 6500 800 7200 700]"

definition curve_object :: "int \<Rightarrow> string \<Rightarrow> int \<Rightarrow> int \<Rightarrow> int \<Rightarrow> int \<Rightarrow> int \<Rightarrow> js_object" where
  "curve_object i name base slope kink jump reserve =
     [(''poolId'', JNum (Fin (of_int i))), (''poolName'', JStr name), (''baseRateBps'', JNum (Fin (of_int base))),
      (''multiplierPerSlopeBps'', JNum (Fin (of_int slope))), (''kinkBps'', JNum (Fin (of_int kink))),
      (''jumpMultiplierBps'', JNum (Fin (of_int jump))), (''reserveFactorBps'', JNum (Fin (of_int reserve)))]"

definition DEFAULT_INTEREST_RATE_CURVES :: "js_object list" where
  "DEFAULT_INTEREST_RATE_CURVES =
     [curve_object 1 ''USDC Core Lending Pool'' 200 1000 8000 5000 1000,
      curve_object 2 ''XLM Micro-Credit Pool'' 300 1200 7500 6000 1200]"

definition DEFAULT_PROTOCOL_FEES :: js_object where
  "DEFAULT_PROTOCOL_FEES =
     [(''flashLoanFeeBps'', JNum (Fin 9)), (''platformFeeBps'', JNum (Fin 100)), (''rateSwitchFeeBps'', JNum (Fin 50)),
      (''rateSwitchCooldownSecs'', JNum (Fin 86400)), (''isPaused'', JBool False),
      (''priceOracleAddress'', JStr ''CDORACLE77777777777777777777777777777777777777777777777'')]"

subsection \<open>The rate curve\<close>

record rate_curve =
  rc_baseRateBps :: jsnum
  rc_multiplierPerSlopeBps :: jsnum
  rc_kinkBps :: jsnum
  rc_jumpMultiplierBps :: jsnum
  rc_reserveFactorBps :: jsnum

definition computeBorrowRateBps :: "rate_curve \<Rightarrow> jsnum \<Rightarrow> jsnum" where
  "computeBorrowRateBps config utilizationBps =
     (let util = jmax (Fin 0) (jmin RISK_MAX_BPS utilizationBps)
      in if jeq util (Fin 0) then rc_baseRateBps config
         else if jle util (rc_kinkBps config) then
           jadd (rc_baseRateBps config)
             (jfloor (jdiv (jmul util (rc_multiplierPerSlopeBps config)) (rc_kinkBps config)))
         else
           (let excess = jsub util (rc_kinkBps config);
                jumpDenominator = jsub RISK_MAX_BPS (rc_kinkBps config);
                jumpComponent = jfloor (jdiv (jmul excess (rc_jumpMultiplierBps config)) jumpDenominator)
            in jadd (jadd (rc_baseRateBps config) (rc_multiplierPerSlopeBps config)) jumpComponent))"

definition computeSupplyRateBps :: "rate_curve \<Rightarrow> jsnum \<Rightarrow> jsnum \<Rightarrow> jsnum" where
  "computeSupplyRateBps config utilizationBps borrowRateBps =
     (if jeq utilizationBps (Fin 0) \<or> jeq borrowRateBps (Fin 0) then Fin 0
      else (let reserveAdjustment = jsub RISK_MAX_BPS (rc_reserveFactorBps config);
                numerator = jmul (jmul borrowRateBps utilizationBps) reserveAdjustment
            in jfloor (jdiv numerator (jmul RISK_MAX_BPS RISK_MAX_BPS))))"

record curve_point =
  cp_utilizationPct :: jsnum
  cp_borrowApyPct :: jsnum
  cp_supplyApyPct :: jsnum
  cp_isKink :: bool

definition jabs :: "jsnum \<Rightarrow> jsnum" where
  "jabs x = (case x of Fin a \<Rightarrow> Fin \<bar>a\<bar> | NegInf \<Rightarrow> PosInf | y \<Rightarrow> y)"

definition generateRateCurvePoints :: "rate_curve \<Rightarrow> curve_point list" where
  "generateRateCurvePoints config =
     map (\<lambda>i. let util = Fin (of_nat (5 * i));
                  utilBps = jmul util (Fin 100);
                  borrowBps = computeBorrowRateBps config utilBps;
                  supplyBps = computeSupplyRateBps config utilBps borrowBps
              in \<lparr>cp_utilizationPct = util, cp_borrowApyPct = fixed_num 2 (jdiv borrowBps (Fin 100)),
                  cp_supplyApyPct = fixed_num 2 (jdiv supplyBps (Fin 100)),
                  cp_isKink = jlt (jabs (jsub utilBps (rc_kinkBps config))) (Fin 250)\<rparr>) [0..<21]"

text \<open>The curve an object of the state stands for, when its fields are numbers.\<close>

definition js_num :: "jsval \<Rightarrow> jsnum" where
  "js_num v = (case v of JNum x \<Rightarrow> x | _ \<Rightarrow> NaN)"

definition curve_of :: "js_object \<Rightarrow> rate_curve" where
  "curve_of obj =
     \<lparr>rc_baseRateBps = js_num (js_get (JObj obj) ''baseRateBps''),
      rc_multiplierPerSlopeBps = js_num (js_get (JObj obj) ''multiplierPerSlopeBps''),
      rc_kinkBps = js_num (js_get (JObj obj) ''kinkBps''),
      rc_jumpMultiplierBps = js_num (js_get (JObj obj) ''jumpMultiplierBps''),
      rc_reserveFactorBps = js_num (js_get (JObj obj) ''reserveFactorBps'')\<rparr>"

subsection \<open>Validation\<close>

text \<open>
  \<open>a < b\<close> on any two values: strings by code units, everything else as numbers. An array or
  an object is its string first.
\<close>

definition js_prim :: "jsval \<Rightarrow> jsval" where
  "js_prim v = (case v of JArr _ \<Rightarrow> JStr (js_to_string v) | JObj _ \<Rightarrow> JStr (js_to_string v) | _ \<Rightarrow> v)"

fun string_less :: "string \<Rightarrow> string \<Rightarrow> bool" where
  "string_less _ [] = False"
| "string_less [] (_ # _) = True"
| "string_less (a # as) (b # bs) =
     ((of_char a :: nat) < of_char b \<or> a = b \<and> string_less as bs)"

definition js_lt :: "jsval \<Rightarrow> jsval \<Rightarrow> bool" where
  "js_lt a b =
     (case (js_prim a, js_prim b) of
        (JStr s, JStr t) \<Rightarrow> string_less s t
      | (x, y) \<Rightarrow> jlt (js_to_number x) (js_to_number y))"

text \<open>\<open>v !== undefined && (v < lo || v > hi)\<close>\<close>

definition outside :: "jsnum \<Rightarrow> jsnum \<Rightarrow> jsval \<Rightarrow> bool" where
  "outside lo hi v \<longleftrightarrow> v \<noteq> JUndef \<and> (js_lt v (JNum lo) \<or> js_lt (JNum hi) v)"

datatype risk_invalid =
    CollateralFactorRange
  | VolatilityRange
  | ThresholdBelowFactor
  | BaseRateRange
  | KinkRange
  | JumpRange
  | ReserveRange
  | FlashFeeRange
  | PlatformFeeRange

text \<open>\<open>None\<close> is \<open>{ valid: true }\<close>.\<close>

definition validateAssetRiskConfig :: "jsval \<Rightarrow> risk_invalid option" where
  "validateAssetRiskConfig config =
     (let factor = js_get config ''collateralFactorBps''; threshold = js_get config ''liquidationThresholdBps'' in
      if outside MIN_COLLATERAL_FACTOR_BPS MAX_COLLATERAL_FACTOR_BPS factor then Some CollateralFactorRange
      else if outside (Fin 0) (Fin 5000) (js_get config ''volatilityBps'') then Some VolatilityRange
      else if threshold \<noteq> JUndef \<and> factor \<noteq> JUndef \<and> js_lt threshold factor then Some ThresholdBelowFactor
      else None)"

definition validateInterestRateCurveConfig :: "jsval \<Rightarrow> risk_invalid option" where
  "validateInterestRateCurveConfig config =
     (if outside (Fin 0) MAX_BASE_RATE_BPS (js_get config ''baseRateBps'') then Some BaseRateRange
      else if outside MIN_KINK_BPS MAX_KINK_BPS (js_get config ''kinkBps'') then Some KinkRange
      else if outside (Fin 0) MAX_JUMP_MULTIPLIER_BPS (js_get config ''jumpMultiplierBps'') then Some JumpRange
      else if outside (Fin 0) MAX_RESERVE_FACTOR_BPS (js_get config ''reserveFactorBps'') then Some ReserveRange
      else None)"

definition validateProtocolFeeConfig :: "jsval \<Rightarrow> risk_invalid option" where
  "validateProtocolFeeConfig config =
     (if outside (Fin 0) MAX_FLASH_LOAN_FEE_BPS (js_get config ''flashLoanFeeBps'') then Some FlashFeeRange
      else if outside (Fin 0) MAX_PLATFORM_FEE_BPS (js_get config ''platformFeeBps'') then Some PlatformFeeRange
      else None)"

subsection \<open>The route\<close>

record risk_audit =
  ra_id :: string
  ra_category :: string
  ra_targetName :: string
  ra_updatedBy :: string
  ra_previousValue :: string
  ra_newValue :: string
  ra_reason :: string
  ra_timestamp :: string
  ra_txHash :: jsval

text \<open>
  The state of the process. Its assets and curves are the default objects themselves, not copies
  (\<open>[...DEFAULT_ASSET_RISK_CONFIGS]\<close> copies the array only): an update changes the defaults
  every importer of the module sees.
\<close>

record risk_state =
  rs_assets :: "js_object list"
  rs_curves :: "js_object list"
  rs_protocolFees :: js_object
  rs_auditHistory :: "risk_audit list"

text \<open>\<open>Object.assign(target, source)\<close>: the own properties of the source, in order.\<close>

definition own_entries :: "jsval \<Rightarrow> js_object" where
  "own_entries v =
     (case v of
        JObj kvs \<Rightarrow> kvs
      | JArr vs \<Rightarrow> zip (map (\<lambda>i. show_nonneg (int i)) [0..<length vs]) vs
      | JStr s \<Rightarrow> zip (map (\<lambda>i. show_nonneg (int i)) [0..<length s]) (map (\<lambda>c. JStr [c]) s)
      | _ \<Rightarrow> [])"

definition object_assign :: "js_object \<Rightarrow> jsval \<Rightarrow> js_object" where
  "object_assign target source = target @ own_entries source"

text \<open>\<open>(v / 100).toFixed(2)\<close> with a percent sign\<close>

definition show_fixed2 :: "jsnum \<Rightarrow> string" where
  "show_fixed2 x =
     (case x of
        Fin r \<Rightarrow>
          if \<bar>r\<bar> < 10 ^ 21 then
            (let n = \<lfloor>\<bar>to_fixed 2 r\<bar> * 100\<rfloor>
             in (if r < 0 then ''-'' else []) @ show_nonneg (n div 100) @ ''.''
                @ [char_of (48 + n div 10 mod 10), char_of (48 + n mod 10)])
          else show_num x
      | _ \<Rightarrow> show_num x)"

definition show_pct :: "js_object \<Rightarrow> string \<Rightarrow> string" where
  "show_pct obj field = show_fixed2 (jdiv (js_to_number (js_get (JObj obj) field)) (Fin 100)) @ ''%''"

definition show_asset :: "js_object \<Rightarrow> string" where
  "show_asset a = ''LTV: '' @ show_pct a ''collateralFactorBps'' @ '', Vol: '' @ show_pct a ''volatilityBps''"

definition show_curve :: "js_object \<Rightarrow> string" where
  "show_curve c = ''Base: '' @ show_pct c ''baseRateBps'' @ '', Kink: '' @ show_pct c ''kinkBps''
     @ '', Jump: '' @ show_pct c ''jumpMultiplierBps''"

definition show_fees :: "js_object \<Rightarrow> string" where
  "show_fees f = ''Flash Fee: '' @ show_pct f ''flashLoanFeeBps'' @ '', Platform Fee: '' @ show_pct f ''platformFeeBps''"

text \<open>\<open>a === b\<close> on values; two objects are never the same one here.\<close>

definition js_same :: "jsval \<Rightarrow> jsval \<Rightarrow> bool" where
  "js_same a b =
     (case (a, b) of
        (JNum x, JNum y) \<Rightarrow> jeq x y
      | (JArr _, _) \<Rightarrow> False
      | (JObj _, _) \<Rightarrow> False
      | _ \<Rightarrow> a = b)"

text \<open>The first object the condition holds of is replaced.\<close>

fun update_first :: "('a \<Rightarrow> bool) \<Rightarrow> ('a \<Rightarrow> 'a) \<Rightarrow> 'a list \<Rightarrow> 'a list" where
  "update_first p f [] = []"
| "update_first p f (x # xs) = (if p x then f x # xs else x # update_first p f xs)"

datatype risk_error =
    RiskRateLimited
  | RiskMissing
  | RiskReason
  | RiskAssetNotFound
  | RiskCurveNotFound
  | RiskInvalid risk_invalid
  | RiskBadCategory
  | RiskThrew string

text \<open>What an update changes: the new state, the target's name and its values before and after.\<close>

definition asset_is :: "jsval \<Rightarrow> js_object \<Rightarrow> bool" where
  "asset_is targetId a \<longleftrightarrow>
     js_same (js_get (JObj a) ''assetSymbol'') targetId \<or> js_same (js_get (JObj a) ''assetAddress'') targetId"

definition curve_is :: "jsval \<Rightarrow> js_object \<Rightarrow> bool" where
  "curve_is targetId c \<longleftrightarrow> js_same (js_get (JObj c) ''poolId'') (JNum (js_to_number targetId))"

definition risk_update :: "jsval \<Rightarrow> jsval \<Rightarrow> jsval \<Rightarrow> risk_state
    \<Rightarrow> (int \<times> risk_error) + (risk_state \<times> string \<times> string \<times> string)" where
  "risk_update category targetId updates st =
     (if category = JStr ''collateral_ltv'' then
        (case find (asset_is targetId) (rs_assets st) of
           None \<Rightarrow> Inl (404, RiskAssetNotFound)
         | Some a \<Rightarrow>
             (case validateAssetRiskConfig updates of
                Some err \<Rightarrow> Inl (400, RiskInvalid err)
              | None \<Rightarrow>
                  (let a' = object_assign a updates in
                   Inr (st\<lparr>rs_assets := update_first (asset_is targetId) (\<lambda>_. a') (rs_assets st)\<rparr>,
                        js_to_string (js_get (JObj a) ''assetSymbol'') @ '' Risk Parameters'', show_asset a, show_asset a'))))
      else if category = JStr ''interest_curve'' then
        (case find (curve_is targetId) (rs_curves st) of
           None \<Rightarrow> Inl (404, RiskCurveNotFound)
         | Some c \<Rightarrow>
             (case validateInterestRateCurveConfig updates of
                Some err \<Rightarrow> Inl (400, RiskInvalid err)
              | None \<Rightarrow>
                  (let c' = object_assign c updates in
                   Inr (st\<lparr>rs_curves := update_first (curve_is targetId) (\<lambda>_. c') (rs_curves st)\<rparr>,
                        js_to_string (js_get (JObj c) ''poolName'') @ '' Rate Curve'', show_curve c, show_curve c'))))
      else if category = JStr ''protocol_fees'' then
        (case validateProtocolFeeConfig updates of
           Some err \<Rightarrow> Inl (400, RiskInvalid err)
         | None \<Rightarrow>
             (let f' = object_assign (rs_protocolFees st) updates in
              Inr (st\<lparr>rs_protocolFees := f'\<rparr>, ''Protocol Fees & Security'', show_fees (rs_protocolFees st), show_fees f')))
      else Inl (400, RiskBadCategory))"

definition push_audit :: "risk_audit \<Rightarrow> risk_audit list \<Rightarrow> risk_audit list" where
  "push_audit entry history =
     (if 50 < length (entry # history) then butlast (entry # history) else entry # history)"

text \<open>
  The redirect of the admin guard is an error like any other to this route's \<open>catch\<close>. A reason
  that is not a string has no \<open>trim\<close>, and a body of \<open>null\<close> cannot be destructured.
\<close>

definition POST_risk_parameters :: "env \<Rightarrow> database \<Rightarrow> jsval \<Rightarrow> risk_state \<Rightarrow> (risk_error + risk_audit) answer \<times> risk_state" where
  "POST_risk_parameters e db body st =
     (if env_rateLimited e then (Answer 429 (Inl RiskRateLimited), st)
      else case requireTradeVaultAdmin e db of
        Inl _ \<Rightarrow> (Answer 500 (Inl (RiskThrew ''NEXT_REDIRECT'')), st)
      | Inr user \<Rightarrow>
          (let category = js_get body ''category''; updates = js_get body ''updates''; reason = js_get body ''reason'';
               txHash = js_get body ''txHash'' in
           if body = JNull then (Answer 500 (Inl (RiskThrew ''TypeError'')), st)
           else if \<not> js_truthy category \<or> \<not> js_truthy updates then (Answer 400 (Inl RiskMissing), st)
           else if \<not> js_truthy reason then (Answer 400 (Inl RiskReason), st)
           else (case reason of
              JStr r \<Rightarrow>
                if length (js_trim r) < 5 then (Answer 400 (Inl RiskReason), st)
                else (case risk_update category (js_get body ''targetId'') updates st of
                   Inl (status, err) \<Rightarrow> (Answer status (Inl err), st)
                 | Inr (st', targetName, previousVal, newVal) \<Rightarrow>
                     (let entry = \<lparr>ra_id = ''audit-'' @ show_int (env_now e), ra_category = js_to_string category,
                            ra_targetName = targetName,
                            ra_updatedBy = (case user_email user of None \<Rightarrow> ''admin@trustlend.org''
                              | Some m \<Rightarrow> if m = [] then ''admin@trustlend.org'' else m),
                            ra_previousValue = previousVal, ra_newValue = newVal, ra_reason = r,
                            ra_timestamp = toISOString (env_now e),
                            ra_txHash = (if js_truthy txHash then txHash else JUndef)\<rparr>
                      in (Answer 200 (Inr entry), st'\<lparr>rs_auditHistory := push_audit entry (rs_auditHistory st')\<rparr>)))
            | _ \<Rightarrow> (Answer 500 (Inl (RiskThrew ''TypeError'')), st))))"

definition GET_risk_parameters :: "env \<Rightarrow> database \<Rightarrow> risk_state \<Rightarrow> (risk_error + risk_state) answer" where
  "GET_risk_parameters e db st =
     (if env_rateLimited e then Answer 429 (Inl RiskRateLimited)
      else case requireTradeVaultAdmin e db of
        Inl _ \<Rightarrow> Answer 401 (Inl (RiskThrew ''NEXT_REDIRECT''))
      | Inr _ \<Rightarrow> Answer 200 (Inr st))"

subsection \<open>The initial state\<close>

definition INITIAL_RISK_AUDIT_LOG :: "int \<Rightarrow> risk_audit list" where
  "INITIAL_RISK_AUDIT_LOG loaded =
     [\<lparr>ra_id = ''audit-1'', ra_category = ''collateral_ltv'', ra_targetName = ''USDC Collateral Factor'',
       ra_updatedBy = ''admin@trustlend.org'', ra_previousValue = ''80.00% (8000 bps)'', ra_newValue = ''85.00% (8500 bps)'',
       ra_reason = ''Increased stablecoin collateral factor after liquidity depth verification'',
       ra_timestamp = toISOString (loaded - 4 * 86400 * 1000), ra_txHash = JStr ''0x4b7e9a...f12''\<rparr>,
      \<lparr>ra_id = ''audit-2'', ra_category = ''interest_curve'', ra_targetName = ''USDC Core Pool Kink'',
       ra_updatedBy = ''admin@trustlend.org'', ra_previousValue = ''75.00% (7500 bps)'', ra_newValue = ''80.00% (8000 bps)'',
       ra_reason = ''Adjusted optimal utilization target to increase capital efficiency'',
       ra_timestamp = toISOString (loaded - 10 * 86400 * 1000), ra_txHash = JStr ''0x8f2d1c...e84''\<rparr>]"

definition initial_risk_state :: "int \<Rightarrow> risk_state" where
  "initial_risk_state loaded =
     \<lparr>rs_assets = DEFAULT_ASSET_RISK_CONFIGS, rs_curves = DEFAULT_INTEREST_RATE_CURVES,
      rs_protocolFees = DEFAULT_PROTOCOL_FEES, rs_auditHistory = INITIAL_RISK_AUDIT_LOG loaded\<rparr>"

end
