(* ===== verification/PooledContract.thy ===== *)
theory PooledContract
  imports TL_Prelude "HOL-Library.Word" "HOL-Library.Signed_Division"
begin

text \<open>
  The on-chain half of the pools, \<open>src/contracts/pooled_lending/src/lib.rs\<close>: the Soroban
  contract the server mirrors its pools to, on the machine integers it uses. A panic is
  \<open>None\<close>; the contracts are built with overflow checks, so arithmetic that leaves its type
  panics. Storage is a map per kind of key; \<open>auth\<close> says which addresses have authorised the call.
\<close>

subsection \<open>Checked arithmetic\<close>

definition checked_mul :: "64 word \<Rightarrow> 64 word \<Rightarrow> 64 word option" where
  "checked_mul a b = (if uint a * uint b < 2 ^ 64 then Some (a * b) else None)"

definition checked_add :: "64 word \<Rightarrow> 64 word \<Rightarrow> 64 word option" where
  "checked_add a b = (if uint a + uint b < 2 ^ 64 then Some (a + b) else None)"

definition checked_div :: "64 word \<Rightarrow> 64 word \<Rightarrow> 64 word option" where
  "checked_div a b = (if b = 0 then None else Some (a div b))"

definition checked_sub_u32 :: "32 word \<Rightarrow> 32 word \<Rightarrow> 32 word option" where
  "checked_sub_u32 a b = (if b \<le> a then Some (a - b) else None)"

definition as_u64 :: "32 word \<Rightarrow> 64 word" where "as_u64 w = ucast w"
definition as_u32 :: "64 word \<Rightarrow> 32 word" where "as_u32 w = ucast w"

definition in_i128 :: "int \<Rightarrow> bool" where
  "in_i128 n \<longleftrightarrow> - (2 ^ 127) \<le> n \<and> n < 2 ^ 127"

definition checked_mul_i128 :: "128 word \<Rightarrow> 128 word \<Rightarrow> 128 word option" where
  "checked_mul_i128 a b = (if in_i128 (sint a * sint b) then Some (a * b) else None)"

definition checked_div_i128 :: "128 word \<Rightarrow> 128 word \<Rightarrow> 128 word option" where
  "checked_div_i128 a b =
     (if b = 0 \<or> \<not> in_i128 (sint a sdiv sint b) then None else Some (word_of_int (sint a sdiv sint b)))"

subsection \<open>The rate model\<close>

definition MAX_BPS :: "32 word" where "MAX_BPS = 10000"

record pool_rate_config =
  base_rate_bps :: "32 word"
  multiplier_per_slope_bps :: "32 word"
  jump_multiplier_bps :: "32 word"
  kink_bps :: "32 word"
  reserve_factor_bps :: "32 word"

definition compute_utilization_bps :: "128 word \<Rightarrow> 128 word \<Rightarrow> 32 word option" where
  "compute_utilization_bps total_supply total_borrows =
     (if sint total_supply \<le> 0 \<or> sint total_borrows \<le> 0 then Some 0
      else Option.bind (checked_mul_i128 total_borrows 10000) (\<lambda>n.
           Option.bind (checked_div_i128 n total_supply) (\<lambda>util.
             Some (if 10000 < sint util then MAX_BPS else ucast util))))"

definition compute_borrow_rate_bps :: "pool_rate_config \<Rightarrow> 32 word \<Rightarrow> 32 word option" where
  "compute_borrow_rate_bps config utilization_bps =
     (if utilization_bps = 0 then Some (base_rate_bps config)
      else if utilization_bps \<le> kink_bps config then
        Option.bind (checked_mul (as_u64 utilization_bps) (as_u64 (multiplier_per_slope_bps config))) (\<lambda>numerator.
        Option.bind (checked_div numerator (as_u64 (kink_bps config))) (\<lambda>slope_component.
        Option.bind (checked_add (as_u64 (base_rate_bps config)) (as_u64 (as_u32 slope_component))) (\<lambda>rate.
          Some (as_u32 rate))))
      else
        Option.bind (checked_sub_u32 utilization_bps (kink_bps config)) (\<lambda>excess.
        Option.bind (checked_mul (as_u64 excess) (as_u64 (jump_multiplier_bps config))) (\<lambda>numerator.
        Option.bind (checked_sub_u32 MAX_BPS (kink_bps config)) (\<lambda>room.
        Option.bind (checked_div numerator (as_u64 room)) (\<lambda>jump_component.
        Option.bind (checked_add (as_u64 (base_rate_bps config)) (as_u64 (multiplier_per_slope_bps config))) (\<lambda>base.
        Option.bind (checked_add base (as_u64 (as_u32 jump_component))) (\<lambda>rate.
          Some (as_u32 rate))))))))"

definition compute_supply_rate_bps :: "pool_rate_config \<Rightarrow> 32 word \<Rightarrow> 32 word \<Rightarrow> 32 word option" where
  "compute_supply_rate_bps config utilization_bps borrow_rate_bps =
     (if utilization_bps = 0 \<or> borrow_rate_bps = 0 then Some 0
      else Option.bind (checked_mul (as_u64 borrow_rate_bps) (as_u64 utilization_bps)) (\<lambda>n.
           Option.bind (checked_sub_u32 MAX_BPS (reserve_factor_bps config)) (\<lambda>rest.
           Option.bind (checked_mul n (as_u64 rest)) (\<lambda>numerator.
           Option.bind (checked_div numerator (as_u64 MAX_BPS)) (\<lambda>m.
           Option.bind (checked_div m (as_u64 MAX_BPS)) (\<lambda>rate.
             Some (as_u32 rate)))))))"

definition validate_config :: "pool_rate_config \<Rightarrow> bool" where
  "validate_config config \<longleftrightarrow>
     base_rate_bps config \<le> MAX_BPS \<and> multiplier_per_slope_bps config \<le> MAX_BPS
     \<and> jump_multiplier_bps config \<le> MAX_BPS \<and> kink_bps config \<le> MAX_BPS \<and> reserve_factor_bps config \<le> MAX_BPS
     \<and> kink_bps config \<noteq> 0 \<and> kink_bps config < MAX_BPS"

subsection \<open>The contract\<close>

record pool_data =
  total_supply :: "128 word"
  total_borrows :: "128 word"
  total_reserves :: "128 word"

record pooled_storage =
  st_admin :: "string option"
  st_config :: "32 word \<Rightarrow> pool_rate_config option"
  st_data :: "32 word \<Rightarrow> pool_data option"

definition pooled_empty :: pooled_storage where
  "pooled_empty = \<lparr>st_admin = None, st_config = (\<lambda>_. None), st_data = (\<lambda>_. None)\<rparr>"

definition pooled_initialize :: "string \<Rightarrow> 32 word \<Rightarrow> pool_rate_config \<Rightarrow> pooled_storage \<Rightarrow> pooled_storage option" where
  "pooled_initialize admin pool_id config st =
     (if st_admin st \<noteq> None \<or> \<not> validate_config config then None
      else Some (st\<lparr>st_admin := Some admin, st_config := (st_config st)(pool_id \<mapsto> config),
             st_data := (st_data st)(pool_id \<mapsto> \<lparr>total_supply = 0, total_borrows = 0, total_reserves = 0\<rparr>)\<rparr>))"

definition may_administer :: "(string \<Rightarrow> bool) \<Rightarrow> string \<Rightarrow> pooled_storage \<Rightarrow> bool" where
  "may_administer auth caller st \<longleftrightarrow> auth caller \<and> st_admin st = Some caller"

definition set_pool_config :: "(string \<Rightarrow> bool) \<Rightarrow> string \<Rightarrow> 32 word \<Rightarrow> pool_rate_config \<Rightarrow> pooled_storage \<Rightarrow> pooled_storage option" where
  "set_pool_config auth caller pool_id config st =
     (if \<not> may_administer auth caller st \<or> \<not> validate_config config then None
      else Some (st\<lparr>st_config := (st_config st)(pool_id \<mapsto> config)\<rparr>))"

definition update_pool_state :: "(string \<Rightarrow> bool) \<Rightarrow> string \<Rightarrow> 32 word \<Rightarrow> 128 word \<Rightarrow> 128 word \<Rightarrow> pooled_storage \<Rightarrow> pooled_storage option" where
  "update_pool_state auth caller pool_id supply borrows st =
     (if \<not> may_administer auth caller st \<or> sint supply < 0 \<or> sint borrows < 0 \<or> sint supply < sint borrows then None
      else Some (st\<lparr>st_data := (st_data st)(pool_id \<mapsto>
             \<lparr>total_supply = supply, total_borrows = borrows, total_reserves = 0\<rparr>)\<rparr>))"

definition get_pool_utilization :: "32 word \<Rightarrow> pooled_storage \<Rightarrow> 32 word option" where
  "get_pool_utilization pool_id st =
     Option.bind (st_data st pool_id) (\<lambda>data. compute_utilization_bps (total_supply data) (total_borrows data))"

definition get_borrow_apy :: "32 word \<Rightarrow> pooled_storage \<Rightarrow> 32 word option" where
  "get_borrow_apy pool_id st =
     Option.bind (st_config st pool_id) (\<lambda>config.
     Option.bind (st_data st pool_id) (\<lambda>data.
     Option.bind (compute_utilization_bps (total_supply data) (total_borrows data)) (compute_borrow_rate_bps config)))"

definition get_supply_apy :: "32 word \<Rightarrow> pooled_storage \<Rightarrow> 32 word option" where
  "get_supply_apy pool_id st =
     Option.bind (st_config st pool_id) (\<lambda>config.
     Option.bind (st_data st pool_id) (\<lambda>data.
     Option.bind (compute_utilization_bps (total_supply data) (total_borrows data)) (\<lambda>util.
     Option.bind (compute_borrow_rate_bps config util) (compute_supply_rate_bps config util))))"

subsection \<open>What the contract computes, in whole numbers\<close>

definition borrow_rate :: "int \<Rightarrow> int \<Rightarrow> int \<Rightarrow> int \<Rightarrow> int \<Rightarrow> int" where
  "borrow_rate base slope kink jump util =
     (if util \<le> kink then base + util * slope div kink
      else base + slope + (util - kink) * jump div (10000 - kink))"

definition supply_rate :: "int \<Rightarrow> int \<Rightarrow> int \<Rightarrow> int" where
  "supply_rate reserve util borrow = borrow * util * (10000 - reserve) div (10000 * 10000)"

lemma uint_as_u64 [simp]: "uint (as_u64 w) = uint w"
  by (simp add: as_u64_def uint_up_ucast is_up)

lemma uint_as_u32: "uint w < 2 ^ 32 \<Longrightarrow> uint (as_u32 w) = uint w"
  by (simp add: as_u32_def unsigned_ucast_eq take_bit_eq_mod)

lemma checked_mul_Some: "uint a * uint b < 2 ^ 64 \<Longrightarrow> \<exists>c. checked_mul a b = Some c \<and> uint c = uint a * uint b"
  by (simp add: checked_mul_def uint_word_ariths)

lemma checked_add_Some: "uint a + uint b < 2 ^ 64 \<Longrightarrow> \<exists>c. checked_add a b = Some c \<and> uint c = uint a + uint b"
  by (simp add: checked_add_def uint_word_ariths)

lemma checked_div_Some: "uint b \<noteq> 0 \<Longrightarrow> \<exists>c. checked_div a b = Some c \<and> uint c = uint a div uint b"
  by (auto simp: checked_div_def uint_div)

lemma checked_sub_Some: "uint b \<le> uint a \<Longrightarrow> \<exists>c. checked_sub_u32 a b = Some c \<and> uint c = uint a - uint b"
  by (simp add: checked_sub_u32_def word_le_def uint_sub_if')

lemma uint_10000 [simp]: "uint MAX_BPS = 10000"
  by (simp add: MAX_BPS_def)

lemma validate_config_iff:
  "validate_config c \<longleftrightarrow> uint (base_rate_bps c) \<le> 10000 \<and> uint (multiplier_per_slope_bps c) \<le> 10000
     \<and> uint (jump_multiplier_bps c) \<le> 10000 \<and> uint (reserve_factor_bps c) \<le> 10000
     \<and> 0 < uint (kink_bps c) \<and> uint (kink_bps c) < 10000"
  by (auto simp: validate_config_def word_le_def word_less_def uint_0_iff order.strict_iff_order)

lemma small_mult: "0 \<le> a \<Longrightarrow> a \<le> 10000 \<Longrightarrow> 0 \<le> b \<Longrightarrow> b \<le> 10000 \<Longrightarrow> a * b \<le> 100000000" for a b :: int
  using mult_mono [of a 10000 b 10000] by simp

lemma slope_le: "0 \<le> u \<Longrightarrow> u \<le> k \<Longrightarrow> 0 < k \<Longrightarrow> 0 \<le> s \<Longrightarrow> 0 \<le> u * s div k \<and> u * s div k \<le> s" for u k s :: int
  using mult_right_mono [of u k s] zdiv_mono1 [of "u * s" "k * s" k]
  by (simp add: pos_imp_zdiv_nonneg_iff)

lemma compute_borrow_rate_bps_value:
  assumes "validate_config c" "uint u \<le> 10000"
  shows "\<exists>r. compute_borrow_rate_bps c u = Some r
    \<and> uint r = borrow_rate (uint (base_rate_bps c)) (uint (multiplier_per_slope_bps c)) (uint (kink_bps c)) (uint (jump_multiplier_bps c)) (uint u)"
proof -
  let ?b = "uint (base_rate_bps c)" and ?s = "uint (multiplier_per_slope_bps c)" and ?k = "uint (kink_bps c)"
    and ?j = "uint (jump_multiplier_bps c)" and ?u = "uint u"
  have v: "?b \<le> 10000" "?s \<le> 10000" "?j \<le> 10000" "0 < ?k" "?k < 10000"
    using assms(1) by (simp_all add: validate_config_iff)
  consider (zero) "u = 0" | (slope) "u \<noteq> 0" "?u \<le> ?k" | (jump) "u \<noteq> 0" "?k < ?u"
    by linarith
  then show ?thesis
  proof cases
    case zero
    then show ?thesis
      using v by (simp add: compute_borrow_rate_bps_def borrow_rate_def)
  next
    case slope
    have us: "?u * ?s \<le> 100000000" "0 \<le> ?u * ?s div ?k" "?u * ?s div ?k \<le> ?s"
      using small_mult [of ?u ?s] slope_le [of ?u ?k ?s] assms(2) v slope(2) by simp_all
    obtain n where n: "checked_mul (as_u64 u) (as_u64 (multiplier_per_slope_bps c)) = Some n" "uint n = ?u * ?s"
      using checked_mul_Some [of "as_u64 u" "as_u64 (multiplier_per_slope_bps c)"] us by auto
    obtain d where d: "checked_div n (as_u64 (kink_bps c)) = Some d" "uint d = ?u * ?s div ?k"
      using checked_div_Some [of "as_u64 (kink_bps c)" n] v n(2) by auto
    have d32: "uint (as_u32 d) = ?u * ?s div ?k"
      using uint_as_u32 [of d] d(2) us v by simp
    obtain r where r: "checked_add (as_u64 (base_rate_bps c)) (as_u64 (as_u32 d)) = Some r" "uint r = ?b + ?u * ?s div ?k"
      using checked_add_Some [of "as_u64 (base_rate_bps c)" "as_u64 (as_u32 d)"] d32 us v by auto
    have "uint (as_u32 r) = ?b + ?u * ?s div ?k"
      using uint_as_u32 [of r] r(2) us v by simp
    then show ?thesis
      using slope n(1) d(1) r(1) by (simp add: compute_borrow_rate_bps_def borrow_rate_def word_le_def)
  next
    case jump
    have e: "?u - ?k \<le> 10000 - ?k" "0 \<le> ?u - ?k" "?u - ?k \<le> 10000"
      using jump assms(2) v by simp_all
    then have ej: "(?u - ?k) * ?j \<le> 100000000" "0 \<le> (?u - ?k) * ?j div (10000 - ?k)" "(?u - ?k) * ?j div (10000 - ?k) \<le> ?j"
      using small_mult [of "?u - ?k" ?j] slope_le [of "?u - ?k" "10000 - ?k" ?j] v by simp_all
    obtain x where x: "checked_sub_u32 u (kink_bps c) = Some x" "uint x = ?u - ?k"
      using checked_sub_Some [of "kink_bps c" u] jump(2) by auto
    obtain n where n: "checked_mul (as_u64 x) (as_u64 (jump_multiplier_bps c)) = Some n" "uint n = (?u - ?k) * ?j"
      using checked_mul_Some [of "as_u64 x" "as_u64 (jump_multiplier_bps c)"] ej x(2) by auto
    obtain m where m: "checked_sub_u32 MAX_BPS (kink_bps c) = Some m" "uint m = 10000 - ?k"
      using checked_sub_Some [of "kink_bps c" MAX_BPS] v by auto
    obtain d where d: "checked_div n (as_u64 m) = Some d" "uint d = (?u - ?k) * ?j div (10000 - ?k)"
      using checked_div_Some [of "as_u64 m" n] v n(2) m(2) by auto
    have d32: "uint (as_u32 d) = (?u - ?k) * ?j div (10000 - ?k)"
      using uint_as_u32 [of d] d(2) ej v by simp
    obtain b where b: "checked_add (as_u64 (base_rate_bps c)) (as_u64 (multiplier_per_slope_bps c)) = Some b" "uint b = ?b + ?s"
      using checked_add_Some [of "as_u64 (base_rate_bps c)" "as_u64 (multiplier_per_slope_bps c)"] v by auto
    obtain r where r: "checked_add b (as_u64 (as_u32 d)) = Some r" "uint r = ?b + ?s + (?u - ?k) * ?j div (10000 - ?k)"
      using checked_add_Some [of b "as_u64 (as_u32 d)"] b(2) d32 ej v by auto
    have "uint (as_u32 r) = ?b + ?s + (?u - ?k) * ?j div (10000 - ?k)"
      using uint_as_u32 [of r] r(2) ej v by simp
    then show ?thesis
      using jump x(1) n(1) m(1) d(1) b(1) r(1) by (simp add: compute_borrow_rate_bps_def borrow_rate_def word_le_def)
  qed
qed

lemma borrow_rate_bounds:
  assumes "0 \<le> u" "u \<le> 10000" "0 < k" "k < 10000" "0 \<le> s" "0 \<le> j"
  shows "b \<le> borrow_rate b s k j u" "borrow_rate b s k j u \<le> b + s + j"
  using slope_le [of u k s] slope_le [of "u - k" "10000 - k" j] assms by (auto simp: borrow_rate_def)

lemma supply_numerator: "0 \<le> b \<Longrightarrow> b \<le> 30000 \<Longrightarrow> 0 \<le> u \<Longrightarrow> u \<le> 10000 \<Longrightarrow> 0 \<le> t \<Longrightarrow> t \<le> 10000 \<Longrightarrow>
    b * u \<le> 300000000 \<and> b * u * t \<le> 3000000000000" for b u t :: int
  using mult_mono [of b 30000 u 10000] mult_mono [of "b * u" 300000000 t 10000] by simp

lemma compute_supply_rate_bps_value:
  assumes "validate_config c" "uint u \<le> 10000" "uint b \<le> 30000"
  shows "\<exists>r. compute_supply_rate_bps c u b = Some r \<and> uint r = supply_rate (uint (reserve_factor_bps c)) (uint u) (uint b)"
proof (cases "u = 0 \<or> b = 0")
  case True
  then show ?thesis
    by (auto simp: compute_supply_rate_bps_def supply_rate_def)
next
  case False
  let ?t = "10000 - uint (reserve_factor_bps c)"
  have t: "0 \<le> ?t" "?t \<le> 10000"
    using assms(1) by (simp_all add: validate_config_iff)
  have num: "uint b * uint u \<le> 300000000" "uint b * uint u * ?t \<le> 3000000000000" "0 \<le> uint b * uint u * ?t"
    using supply_numerator [of "uint b" "uint u" ?t] assms(2,3) t by simp_all
  obtain n where n: "checked_mul (as_u64 b) (as_u64 u) = Some n" "uint n = uint b * uint u"
    using checked_mul_Some [of "as_u64 b" "as_u64 u"] num by auto
  obtain x where x: "checked_sub_u32 MAX_BPS (reserve_factor_bps c) = Some x" "uint x = ?t"
    using checked_sub_Some [of "reserve_factor_bps c" MAX_BPS] t by auto
  obtain m where m: "checked_mul n (as_u64 x) = Some m" "uint m = uint b * uint u * ?t"
    using checked_mul_Some [of n "as_u64 x"] num n(2) x(2) by auto
  obtain d where d: "checked_div m (as_u64 MAX_BPS) = Some d" "uint d = uint b * uint u * ?t div 10000"
    using checked_div_Some [of "as_u64 MAX_BPS" m] m(2) by auto
  obtain r where r: "checked_div d (as_u64 MAX_BPS) = Some r" "uint r = uint b * uint u * ?t div 10000 div 10000"
    using checked_div_Some [of "as_u64 MAX_BPS" d] d(2) by auto
  have "uint r = supply_rate (uint (reserve_factor_bps c)) (uint u) (uint b)"
    by (simp add: r(2) supply_rate_def flip: zdiv_zmult2_eq)
  moreover have "uint r \<le> 30000"
    using num(2) unfolding r(2) by linarith
  ultimately show ?thesis
    using False n(1) x(1) m(1) d(1) r(1) uint_as_u32 [of r] by (simp add: compute_supply_rate_bps_def)
qed

lemma supply_le_borrow:
  assumes "0 \<le> b" "0 \<le> u" "u \<le> 10000" "0 \<le> res" "res \<le> 10000"
  shows "0 \<le> supply_rate res u b" "supply_rate res u b \<le> b"
proof -
  have "u * (10000 - res) \<le> 100000000" "0 \<le> u * (10000 - res)"
    using small_mult [of u "10000 - res"] assms by simp_all
  then have "b * u * (10000 - res) \<le> b * 100000000" "0 \<le> b * u * (10000 - res)"
    using assms(1) mult_left_mono [of "u * (10000 - res)" 100000000 b] by (simp_all add: mult.assoc)
  moreover have "supply_rate res u b = b * u * (10000 - res) div 100000000"
    by (simp add: supply_rate_def)
  ultimately show "0 \<le> supply_rate res u b" "supply_rate res u b \<le> b"
    by linarith+
qed

subsection \<open>Utilization\<close>

lemma sint_word_of_int_i128: "in_i128 n \<Longrightarrow> sint (word_of_int n :: 128 word) = n"
  by (simp add: in_i128_def signed_of_int signed_take_bit_int_eq_self)

lemma checked_mul_i128_Some:
  assumes "in_i128 (sint a * sint b)"
  shows "\<exists>c. checked_mul_i128 a b = Some c \<and> sint c = sint a * sint b"
proof -
  have "a * b = word_of_int (sint a * sint b)"
    by simp
  then have "sint (a * b) = sint a * sint b"
    using sint_word_of_int_i128 [OF assms] by (simp only:)
  with assms show ?thesis
    by (simp add: checked_mul_i128_def)
qed

lemma uint_of_sint:
  fixes w :: "128 word"
  assumes "0 \<le> sint w"
  shows "uint w = sint w"
proof -
  have "sint w < 2 ^ 127"
    using sint_lt [of w] by simp
  then have "take_bit 128 (sint w) = sint w"
    using assms by (simp add: take_bit_int_eq_self)
  then show ?thesis
    using uint_sint [of w] by simp
qed

lemma compute_utilization_bps_value:
  assumes "0 \<le> sint borrows" "sint borrows \<le> sint supply" "sint borrows * 10000 < 2 ^ 127"
  shows "\<exists>u. compute_utilization_bps supply borrows = Some u \<and> uint u \<le> 10000
    \<and> (0 < sint supply \<longrightarrow> uint u = sint borrows * 10000 div sint supply)"
proof (cases "sint supply \<le> 0 \<or> sint borrows \<le> 0")
  case True
  then show ?thesis
    using assms by (auto simp: compute_utilization_bps_def)
next
  case False
  let ?q = "sint borrows * 10000 div sint supply"
  have pos: "0 < sint supply" "0 < sint borrows"
    using False by simp_all
  have "?q \<le> sint supply * 10000 div sint supply"
    using assms(2) pos(1) by (intro zdiv_mono1) simp_all
  then have q: "0 \<le> ?q" "?q \<le> 10000"
    using pos by (simp_all add: pos_imp_zdiv_nonneg_iff)
  have "sint (10000 :: 128 word) = 10000"
    by simp
  then obtain n where n: "checked_mul_i128 borrows 10000 = Some n" "sint n = sint borrows * 10000"
    using checked_mul_i128_Some [of borrows 10000] assms(3) pos(2) by (auto simp: in_i128_def)
  have sdiv: "sint n sdiv sint supply = ?q"
    using pos by (simp add: n(2) signed_divide_int_def)
  have "supply \<noteq> 0"
    using pos(1) by auto
  then have d: "checked_div_i128 n supply = Some (word_of_int ?q)"
    using q by (simp add: checked_div_i128_def sdiv in_i128_def)
  have s: "sint (word_of_int ?q :: 128 word) = ?q"
    using q by (intro sint_word_of_int_i128) (simp add: in_i128_def)
  then have "uint (word_of_int ?q :: 128 word) = ?q"
    using uint_of_sint q(1) by metis
  then have "uint (ucast (word_of_int ?q :: 128 word) :: 32 word) = ?q"
    using q by (simp only: unsigned_ucast_eq take_bit_eq_mod) simp
  then show ?thesis
    using False n(1) d s q pos by (simp add: compute_utilization_bps_def del: word_of_int_0)
qed

end
