(* ===== verification/RiskSafety.thy ===== *)
theory RiskSafety
  imports RiskParams PooledContract Demo
begin

text \<open>
  The rate curve of the dashboard and the one of the contract agree, and what the route that
  changes the risk parameters keeps and does not keep.
\<close>

subsection \<open>Exact quotients\<close>

lemma to_num_Fin_int: "\<bar>n\<bar> < 2 ^ 53 \<Longrightarrow> to_num (of_int n) = Fin (of_int n)"
  by (rule to_num_int)

lemma rat_less_pow53: "n < 2 ^ 53 \<Longrightarrow> (of_int n :: rat) < 2 ^ 53"
proof -
  assume "n < 2 ^ 53"
  then have "(of_int n :: rat) < of_int (2 ^ 53)"
    by (simp only: of_int_less_iff)
  then show ?thesis
    by simp
qed

text \<open>The floor of a rounded quotient of whole numbers is the whole quotient.\<close>

lemma fl_quotient:
  fixes n d :: int
  assumes "0 \<le> n" "n < 2 ^ 53" "0 < d" "d < 2 ^ 53"
  shows "\<lfloor>fl (of_int n / of_int d)\<rfloor> = n div d"
proof (rule floor_unique)
  let ?q = "n div d"
  have q: "0 \<le> ?q" "?q * d \<le> n" "n + 1 \<le> (?q + 1) * d"
  proof -
    have "n = ?q * d + n mod d" "0 \<le> n mod d" "n mod d < d"
      using assms(3) by simp_all
    then have "?q * d \<le> n" "n + 1 \<le> ?q * d + d"
      by linarith+
    then show "?q * d \<le> n" "n + 1 \<le> (?q + 1) * d"
      by (simp_all add: distrib_right)
    show "0 \<le> ?q"
      using assms by (simp add: pos_imp_zdiv_nonneg_iff)
  qed
  have "?q \<le> n"
    using q mult_left_mono [of 1 d ?q] assms(3) by simp
  then have q53: "\<bar>?q\<bar> < 2 ^ 53"
    using q(1) assms(2) by simp
  have lo: "of_int ?q \<le> (of_int n / of_int d :: rat)"
    using q(2) assms(3) by (simp add: pos_le_divide_eq flip: of_int_mult)
  from fl_ge_int [OF this q53] show "of_int ?q \<le> fl (of_int n / of_int d)" .
  show "fl (of_int n / of_int d) < of_int ?q + 1"
  proof (cases "n = 0")
    case True
    then show ?thesis by simp
  next
    case False
    then have n: "1 \<le> n"
      using assms(1) by simp
    define x :: rat where "x = of_int n / of_int d"
    have d: "(0 :: rat) < of_int d" "(of_int d :: rat) < 2 ^ 53"
      using assms(3) rat_less_pow53 [OF assms(4)] by simp_all
    have "2 powi (- 1022) \<le> (2 powi (- 53) :: rat)"
      by (rule two_powi_mono) simp
    also have "\<dots> \<le> 1 / of_int d"
      using d by (simp add: power_int_minus field_simps)
    also have "\<dots> \<le> x"
      using n d by (simp add: x_def divide_right_mono)
    finally have "\<bar>fl x - x\<bar> \<le> 2 powi (- 53) * x"
      by (rule fl_relative_error_pos)
    then have "fl x \<le> x + 2 powi (- 53) * x"
      by linarith
    also have "2 powi (- 53) * x < 1 / of_int d"
    proof -
      have "(of_int n :: rat) < 2 ^ 53"
        by (rule rat_less_pow53) (rule assms(2))
      then have "of_int n / 2 ^ 53 < (1 :: rat)"
        by simp
      then have "of_int n / 2 ^ 53 / of_int d < 1 / (of_int d :: rat)"
        using d(1) by (rule divide_strict_right_mono)
      then show ?thesis
        by (simp add: x_def power_int_minus field_simps)
    qed
    finally have "fl x < x + 1 / of_int d"
      by simp
    also have "\<dots> = of_int (n + 1) / of_int d"
      by (simp add: x_def add_divide_distrib)
    also have "\<dots> \<le> of_int (?q + 1)"
      using q(3) d(1) by (simp add: pos_divide_le_eq flip: of_int_mult of_int_add)
    finally show ?thesis
      by (simp add: x_def)
  qed
qed

lemma jfloor_quotient:
  fixes n d :: int
  assumes "0 \<le> n" "n < 2 ^ 53" "0 < d" "d < 2 ^ 53"
  shows "jfloor (jdiv (Fin (of_int n)) (Fin (of_int d))) = Fin (of_int (n div d))"
proof -
  have "1 \<le> (of_int d :: rat)" "0 \<le> (of_int n :: rat)"
    using assms(1,3) by (simp_all add: int_one_le_iff_zero_less)
  then have "\<bar>of_int n / of_int d :: rat\<bar> \<le> of_int n"
    by (simp add: abs_of_nonneg pos_divide_le_eq mult_left_le mult_le_cancel_left1)
  also have "\<dots> \<le> 2 ^ 1023"
  proof -
    have "(of_int n :: rat) < 2 ^ 53"
      by (rule rat_less_pow53) (rule assms(2))
    also have "(2 :: rat) ^ 53 \<le> 2 ^ 1023"
      by (rule power_increasing) simp_all
    finally show ?thesis
      by (rule order.strict_implies_order)
  qed
  finally have "to_num (of_int n / of_int d) = Fin (fl (of_int n / of_int d))"
    by (rule to_num_Fin)
  then show ?thesis
    using assms by (simp add: fl_quotient)
qed

lemma jarith_int:
  "\<bar>a + b\<bar> < 2 ^ 53 \<Longrightarrow> jadd (Fin (of_int a)) (Fin (of_int b)) = Fin (of_int (a + b))"
  "\<bar>a - b\<bar> < 2 ^ 53 \<Longrightarrow> jsub (Fin (of_int a)) (Fin (of_int b)) = Fin (of_int (a - b))"
  "\<bar>a * b\<bar> < 2 ^ 53 \<Longrightarrow> jmul (Fin (of_int a)) (Fin (of_int b)) = Fin (of_int (a * b))"
  by (simp_all add: jsub_def to_num_int flip: of_int_add of_int_diff of_int_mult)

subsection \<open>The dashboard's curve is the contract's\<close>

text \<open>The curve of the dashboard with the whole-number fields of a contract's configuration.\<close>

definition curve_of_contract :: "pool_rate_config \<Rightarrow> rate_curve" where
  "curve_of_contract c =
     \<lparr>rc_baseRateBps = Fin (of_int (uint (base_rate_bps c))),
      rc_multiplierPerSlopeBps = Fin (of_int (uint (multiplier_per_slope_bps c))),
      rc_kinkBps = Fin (of_int (uint (kink_bps c))),
      rc_jumpMultiplierBps = Fin (of_int (uint (jump_multiplier_bps c))),
      rc_reserveFactorBps = Fin (of_int (uint (reserve_factor_bps c)))\<rparr>"

lemma computeBorrowRateBps_int:
  fixes b s k j r u :: int
  assumes "0 \<le> b" "b \<le> 10000" "0 \<le> s" "s \<le> 10000" "0 < k" "k < 10000" "0 \<le> j" "j \<le> 10000" "0 \<le> u" "u \<le> 10000"
    and c: "c = \<lparr>rc_baseRateBps = Fin (of_int b), rc_multiplierPerSlopeBps = Fin (of_int s), rc_kinkBps = Fin (of_int k),
      rc_jumpMultiplierBps = Fin (of_int j), rc_reserveFactorBps = r'\<rparr>"
  shows "computeBorrowRateBps c (Fin (of_int u)) = Fin (of_int (borrow_rate b s k j u))"
proof -
  have clamp: "jmax (Fin 0) (jmin RISK_MAX_BPS (Fin (of_int u))) = Fin (of_int u)"
    using assms(9,10) by (simp add: RISK_MAX_BPS_def)
  consider (zero) "u = 0" | (slope) "0 < u" "u \<le> k" | (jump) "k < u"
    using assms(9) by linarith
  then show ?thesis
  proof cases
    case zero
    then show ?thesis
      using assms(5) clamp by (simp add: computeBorrowRateBps_def Let_def c borrow_rate_def)
  next
    case slope
    have n: "0 \<le> u * s" "u * s \<le> 100000000"
      using small_mult [of u s] assms slope by simp_all
    have "jfloor (jdiv (jmul (Fin (of_int u)) (Fin (of_int s))) (Fin (of_int k))) = Fin (of_int (u * s div k))"
      using jfloor_quotient [of "u * s" k] jarith_int(3) [of u s] n assms(5,6) by (simp del: jfloor.simps jdiv.simps jmul.simps of_int_mult)
    moreover have "0 \<le> u * s div k" "u * s div k \<le> s"
      using slope_le [of u k s] assms slope by simp_all
    ultimately show ?thesis
      using slope clamp assms jarith_int(1) [of b "u * s div k"]
      by (simp add: computeBorrowRateBps_def Let_def c borrow_rate_def del: jfloor.simps jdiv.simps jmul.simps jadd.simps of_int_mult of_int_add)
  next
    case jump
    have e: "0 \<le> u - k" "u - k \<le> 10000" "u - k \<le> 10000 - k"
      using jump assms by simp_all
    have n: "0 \<le> (u - k) * j" "(u - k) * j \<le> 100000000"
      using small_mult [of "u - k" j] e assms by simp_all
    have sub: "jsub (Fin (of_int u)) (Fin (of_int k)) = Fin (of_int (u - k))" "jsub RISK_MAX_BPS (Fin (of_int k)) = Fin (of_int (10000 - k))"
      using jarith_int(2) [of u k] jarith_int(2) [of 10000 k] e assms by (simp_all add: RISK_MAX_BPS_def)
    have "jfloor (jdiv (jmul (Fin (of_int (u - k))) (Fin (of_int j))) (Fin (of_int (10000 - k)))) = Fin (of_int ((u - k) * j div (10000 - k)))"
      using n assms(5,6) jarith_int(3) [of "u - k" j] jfloor_quotient [of "(u - k) * j" "10000 - k"]
      by (simp del: jfloor.simps jdiv.simps jmul.simps of_int_mult of_int_diff)
    moreover have "0 \<le> (u - k) * j div (10000 - k)" "(u - k) * j div (10000 - k) \<le> j"
      using slope_le [of "u - k" "10000 - k" j] e assms by simp_all
    ultimately show ?thesis
      using jump clamp assms sub jarith_int(1) [of b s] jarith_int(1) [of "b + s" "(u - k) * j div (10000 - k)"]
      by (simp add: computeBorrowRateBps_def Let_def c borrow_rate_def
          del: jfloor.simps jdiv.simps jmul.simps jadd.simps of_int_mult of_int_add of_int_diff)
  qed
qed

lemma computeSupplyRateBps_int:
  fixes res u b :: int
  assumes "0 \<le> res" "res \<le> 10000" "0 \<le> u" "u \<le> 10000" "0 \<le> b" "b \<le> 30000" "rc_reserveFactorBps c = Fin (of_int res)"
  shows "computeSupplyRateBps c (Fin (of_int u)) (Fin (of_int b)) = Fin (of_int (supply_rate res u b))"
proof (cases "u = 0 \<or> b = 0")
  case True
  then show ?thesis
    by (auto simp: computeSupplyRateBps_def supply_rate_def)
next
  case False
  let ?t = "10000 - res"
  have num: "0 \<le> b * u" "b * u \<le> 300000000" "0 \<le> b * u * ?t" "b * u * ?t \<le> 3000000000000"
    using supply_numerator [of b u ?t] assms by simp_all
  have "jsub RISK_MAX_BPS (Fin (of_int res)) = Fin (of_int ?t)" "jmul RISK_MAX_BPS RISK_MAX_BPS = Fin (of_int 100000000)"
    using jarith_int(2) [of 10000 res] jarith_int(3) [of 10000 10000] assms by (simp_all add: RISK_MAX_BPS_def)
  moreover have "jmul (jmul (Fin (of_int b)) (Fin (of_int u))) (Fin (of_int ?t)) = Fin (of_int (b * u * ?t))"
    using jarith_int(3) [of b u] jarith_int(3) [of "b * u" ?t] num by (simp del: of_int_mult of_int_diff)
  moreover have "jfloor (jdiv (Fin (of_int (b * u * ?t))) (Fin (of_int 100000000))) = Fin (of_int (b * u * ?t div 100000000))"
    using num by (intro jfloor_quotient) simp_all
  ultimately show ?thesis
    using False assms(7) by (simp add: computeSupplyRateBps_def Let_def supply_rate_def del: of_int_mult of_int_diff jdiv.simps jfloor.simps)
qed

lemma utilization_overflow: "0 < sint supply \<Longrightarrow> 0 < sint borrows \<Longrightarrow> 2 ^ 127 \<le> sint borrows * 10000 \<Longrightarrow> compute_utilization_bps supply borrows = None"
  by (simp add: compute_utilization_bps_def checked_mul_i128_def in_i128_def)

lemma dashboard_rates_match:
  assumes "set_pool_config auth caller pool c st = Some st1"
    and "update_pool_state auth caller pool supply borrows st1 = Some st2"
    and "sint borrows * 10000 < 2 ^ 127"
  shows "\<exists>u b s. get_pool_utilization pool st2 = Some u \<and> get_borrow_apy pool st2 = Some b \<and> get_supply_apy pool st2 = Some s
    \<and> (0 < sint supply \<longrightarrow> uint u = sint borrows * 10000 div sint supply)
    \<and> computeBorrowRateBps (curve_of_contract c) (Fin (of_int (uint u))) = Fin (of_int (uint b))
    \<and> computeSupplyRateBps (curve_of_contract c) (Fin (of_int (uint u))) (Fin (of_int (uint b))) = Fin (of_int (uint s))
    \<and> base_rate_bps c \<le> b \<and> uint b \<le> uint (base_rate_bps c) + uint (multiplier_per_slope_bps c) + uint (jump_multiplier_bps c)
    \<and> s \<le> b \<and> u \<le> MAX_BPS"
proof -
  let ?b = "uint (base_rate_bps c)" and ?s = "uint (multiplier_per_slope_bps c)" and ?k = "uint (kink_bps c)"
    and ?j = "uint (jump_multiplier_bps c)" and ?r = "uint (reserve_factor_bps c)"
  have v: "validate_config c" and st2: "st_config st2 pool = Some c"
      "st_data st2 pool = Some \<lparr>total_supply = supply, total_borrows = borrows, total_reserves = 0\<rparr>"
      "0 \<le> sint borrows" "sint borrows \<le> sint supply"
    using assms(1,2) by (auto simp: set_pool_config_def update_pool_state_def split: if_splits)
  have range: "?b \<le> 10000" "?s \<le> 10000" "?j \<le> 10000" "?r \<le> 10000" "0 < ?k" "?k < 10000"
    using v by (simp_all add: validate_config_iff)
  obtain u where u: "compute_utilization_bps supply borrows = Some u" "uint u \<le> 10000"
      "0 < sint supply \<longrightarrow> uint u = sint borrows * 10000 div sint supply"
    using compute_utilization_bps_value [OF st2(3,4) assms(3)] by blast
  obtain b where b: "compute_borrow_rate_bps c u = Some b" "uint b = borrow_rate ?b ?s ?k ?j (uint u)"
    using compute_borrow_rate_bps_value [OF v u(2)] by blast
  have bb: "?b \<le> uint b" "uint b \<le> ?b + ?s + ?j"
    using borrow_rate_bounds [of "uint u" ?k ?s ?j] u(2) range by (simp_all add: b(2))
  then have b30: "uint b \<le> 30000"
    using range by linarith
  obtain s where s: "compute_supply_rate_bps c u b = Some s" "uint s = supply_rate ?r (uint u) (uint b)"
    using compute_supply_rate_bps_value [OF v u(2) b30] by blast
  have "uint s \<le> uint b"
    using supply_le_borrow [of "uint b" "uint u" ?r] u(2) range by (simp add: s(2))
  moreover have "computeBorrowRateBps (curve_of_contract c) (Fin (of_int (uint u))) = Fin (of_int (uint b))"
    unfolding b(2) using range u(2)
    by (intro computeBorrowRateBps_int [where r' = "Fin (of_int ?r)"]) (simp_all add: curve_of_contract_def)
  moreover have "computeSupplyRateBps (curve_of_contract c) (Fin (of_int (uint u))) (Fin (of_int (uint b))) = Fin (of_int (uint s))"
    unfolding s(2) using range u(2) b30
    by (intro computeSupplyRateBps_int) (simp_all add: curve_of_contract_def)
  ultimately show ?thesis
    using u b(1) s(1) bb st2
    by (simp add: get_pool_utilization_def get_borrow_apy_def get_supply_apy_def word_le_def)
qed

text \<open>C30: the rates the dashboard draws are the rates the contract charges. After the
  administrator has set a configuration and the totals of a pool, reading the contract's
  utilization, borrow rate and supply rate panics exactly when ten thousand times the borrows is
  beyond 128 bits, which the update of the totals does not refuse. Otherwise the utilization is the whole part of
  borrows over supply in basis points, and the dashboard's formulas, in floating point, give the
  same two rates; the borrow rate lies between the base rate and base, slope and jump together, and
  the supply rate never exceeds it.\<close>

theorem dashboard_rates_match_contract:
  assumes "set_pool_config auth caller pool c st = Some st1"
    and "update_pool_state auth caller pool supply borrows st1 = Some st2"
  shows "if 2 ^ 127 \<le> sint borrows * 10000
    then get_pool_utilization pool st2 = None \<and> get_borrow_apy pool st2 = None \<and> get_supply_apy pool st2 = None
    else \<exists>u b s. get_pool_utilization pool st2 = Some u \<and> get_borrow_apy pool st2 = Some b \<and> get_supply_apy pool st2 = Some s
      \<and> (0 < sint supply \<longrightarrow> uint u = sint borrows * 10000 div sint supply)
      \<and> computeBorrowRateBps (curve_of_contract c) (Fin (of_int (uint u))) = Fin (of_int (uint b))
      \<and> computeSupplyRateBps (curve_of_contract c) (Fin (of_int (uint u))) (Fin (of_int (uint b))) = Fin (of_int (uint s))
      \<and> base_rate_bps c \<le> b \<and> uint b \<le> uint (base_rate_bps c) + uint (multiplier_per_slope_bps c) + uint (jump_multiplier_bps c)
      \<and> s \<le> b \<and> u \<le> MAX_BPS"
proof (cases "2 ^ 127 \<le> sint borrows * 10000")
  case True
  have "st_config st2 pool = Some c" "st_data st2 pool = Some \<lparr>total_supply = supply, total_borrows = borrows, total_reserves = 0\<rparr>"
      "sint borrows \<le> sint supply"
    using assms by (auto simp: set_pool_config_def update_pool_state_def split: if_splits)
  with True utilization_overflow [of "supply" borrows] show ?thesis
    by (simp add: get_pool_utilization_def get_borrow_apy_def get_supply_apy_def)
next
  case False
  then show ?thesis
    using dashboard_rates_match [OF assms] by simp
qed

definition demo_pool_config :: pool_rate_config where
  "demo_pool_config = \<lparr>base_rate_bps = 200, multiplier_per_slope_bps = 1000, jump_multiplier_bps = 5000, kink_bps = 8000,
     reserve_factor_bps = 1000\<rparr>"

definition demo_pooled :: pooled_storage where
  "demo_pooled = pooled_empty\<lparr>st_admin := Some ''GA'', st_config := [1 \<mapsto> demo_pool_config]\<rparr>"

text \<open>Nine tenths of the pool lent out: 37 per cent to borrow, 29.97 to supply.\<close>

lemma dashboard_rates_match_contract_witness:
  "\<exists>u :: 32 word. uint u = 9000 \<and> (\<exists>b s. computeBorrowRateBps (curve_of_contract demo_pool_config) (Fin (of_int (uint u))) = Fin (of_int (uint b))
     \<and> computeSupplyRateBps (curve_of_contract demo_pool_config) (Fin (of_int (uint u))) (Fin (of_int (uint b))) = Fin (of_int (uint s))
     \<and> s \<le> (b :: 32 word))"
proof -
  let ?st1 = "the (set_pool_config (\<lambda>_. True) ''GA'' 1 demo_pool_config demo_pooled)"
  let ?st2 = "the (update_pool_state (\<lambda>_. True) ''GA'' 1 1000 900 ?st1)"
  have 1: "set_pool_config (\<lambda>_. True) ''GA'' 1 demo_pool_config demo_pooled = Some ?st1"
    by (simp add: set_pool_config_def may_administer_def demo_pooled_def validate_config_iff demo_pool_config_def)
  then have "st_admin ?st1 = Some ''GA''"
    by (auto simp: set_pool_config_def demo_pooled_def split: if_splits)
  then have 2: "update_pool_state (\<lambda>_. True) ''GA'' 1 1000 900 ?st1 = Some ?st2"
    by (simp add: update_pool_state_def may_administer_def)
  from dashboard_rates_match_contract [OF 1 2] show ?thesis
    by auto
qed

subsection \<open>What the updates keep\<close>

definition asset_in_range :: "js_object \<Rightarrow> bool" where
  "asset_in_range a \<longleftrightarrow>
     \<not> outside MIN_COLLATERAL_FACTOR_BPS MAX_COLLATERAL_FACTOR_BPS (js_get (JObj a) ''collateralFactorBps'')
     \<and> \<not> outside (Fin 0) (Fin 5000) (js_get (JObj a) ''volatilityBps'')"

text \<open>
  The bounds as the module declares them, in basis points, and what they say of a field that may hold any value: when it is
  read as a number, the number is within them.
\<close>

definition within_declared :: "rat \<Rightarrow> rat \<Rightarrow> js_object \<Rightarrow> string \<Rightarrow> bool" where
  "within_declared lo hi obj field \<longleftrightarrow>
     (case js_to_number (js_prim (js_get (JObj obj) field)) of Fin x \<Rightarrow> lo \<le> x \<and> x \<le> hi | NaN \<Rightarrow> True | _ \<Rightarrow> False)"

definition asset_declared :: "js_object \<Rightarrow> bool" where
  "asset_declared a \<longleftrightarrow> within_declared 1000 9500 a ''collateralFactorBps'' \<and> within_declared 0 5000 a ''volatilityBps''"

definition curve_declared :: "js_object \<Rightarrow> bool" where
  "curve_declared c \<longleftrightarrow> within_declared 0 5000 c ''baseRateBps'' \<and> within_declared 1000 9000 c ''kinkBps''
     \<and> within_declared 0 20000 c ''jumpMultiplierBps'' \<and> within_declared 0 5000 c ''reserveFactorBps''"

definition fees_declared :: "js_object \<Rightarrow> bool" where
  "fees_declared f \<longleftrightarrow> within_declared 0 500 f ''flashLoanFeeBps'' \<and> within_declared 0 1000 f ''platformFeeBps''"

definition risk_in_range :: "risk_state \<Rightarrow> bool" where
  "risk_in_range st \<longleftrightarrow> list_all asset_declared (rs_assets st) \<and> list_all curve_declared (rs_curves st)
     \<and> fees_declared (rs_protocolFees st) \<and> length (rs_auditHistory st) \<le> 50"

text \<open>The comparisons of the validators say the same.\<close>

lemma js_lt_number: "js_lt v (JNum x) \<longleftrightarrow> jlt (js_to_number (js_prim v)) x" "js_lt (JNum x) v \<longleftrightarrow> jlt x (js_to_number (js_prim v))"
  by (auto simp: js_lt_def js_prim_def split: jsval.split)

lemma outside_iff: "outside (Fin lo) (Fin hi) (js_get (JObj obj) field) \<longleftrightarrow> \<not> within_declared lo hi obj field"
proof (cases "js_get (JObj obj) field = JUndef")
  case True
  then show ?thesis
    unfolding outside_def within_declared_def by (simp add: js_prim_def)
next
  case False
  then show ?thesis
    unfolding outside_def within_declared_def js_lt_number by (auto simp: not_less split: jsnum.split)
qed

lemma asset_declared_iff: "asset_declared a \<longleftrightarrow> asset_in_range a"
  by (simp add: asset_declared_def asset_in_range_def MIN_COLLATERAL_FACTOR_BPS_def MAX_COLLATERAL_FACTOR_BPS_def outside_iff del: js_get.simps)

lemma curve_declared_iff: "curve_declared c \<longleftrightarrow> validateInterestRateCurveConfig (JObj c) = None"
  by (simp add: curve_declared_def validateInterestRateCurveConfig_def MAX_BASE_RATE_BPS_def MIN_KINK_BPS_def MAX_KINK_BPS_def
      MAX_JUMP_MULTIPLIER_BPS_def MAX_RESERVE_FACTOR_BPS_def outside_iff del: js_get.simps)

lemma fees_declared_iff: "fees_declared f \<longleftrightarrow> validateProtocolFeeConfig (JObj f) = None"
  by (simp add: fees_declared_def validateProtocolFeeConfig_def MAX_FLASH_LOAN_FEE_BPS_def MAX_PLATFORM_FEE_BPS_def outside_iff del: js_get.simps)

lemma risk_in_range_iff: "risk_in_range st \<longleftrightarrow> list_all asset_in_range (rs_assets st)
     \<and> list_all (\<lambda>c. validateInterestRateCurveConfig (JObj c) = None) (rs_curves st)
     \<and> validateProtocolFeeConfig (JObj (rs_protocolFees st)) = None \<and> length (rs_auditHistory st) \<le> 50"
  by (simp add: risk_in_range_def asset_declared_iff curve_declared_iff fees_declared_iff list_all_iff)

lemma of_char_char_of_small: "0 \<le> k \<Longrightarrow> k < 256 \<Longrightarrow> of_char (char_of k) = k" for k :: int
  by (simp add: of_char_of)

lemma show_nonneg_digits: "0 \<le> n \<Longrightarrow> list_all (\<lambda>c. (of_char c :: int) < 58) (show_nonneg n)"
proof (induction n rule: show_nonneg.induct)
  case (1 n)
  have "0 \<le> n mod 10" "n mod 10 < 10"
    by simp_all
  then have "(of_char (char_of (48 + n mod 10) :: char) :: int) < 58"
    by (subst of_char_char_of_small) linarith+
  moreover have "(of_char (char_of (48 + n) :: char) :: int) < 58" if "n < 10"
    using that 1(2) by (subst of_char_char_of_small) linarith+
  ultimately show ?case
    using 1 by (subst show_nonneg.simps) (simp add: pos_imp_zdiv_nonneg_iff)
qed

text \<open>What an update leaves in a field the values of an array or a string cannot reach.\<close>

lemma index_keys: "58 \<le> (of_char c :: int) \<Longrightarrow> show_nonneg (int i) \<noteq> c # cs"
  using show_nonneg_digits [of "int i"] by (cases "show_nonneg (int i)") auto

lemma js_get_object_assign:
  assumes "58 \<le> (of_char c :: int)"
  shows "js_get (JObj (object_assign a v)) (c # cs) = js_get (JObj a) (c # cs)
    \<or> js_get (JObj (object_assign a v)) (c # cs) = js_get v (c # cs)"
proof (cases "\<exists>kvs. v = JObj kvs")
  case True
  then show ?thesis
    by (auto simp: object_assign_def own_entries_def map_add_def map_of_append split: option.split)
next
  case False
  then have "c # cs \<notin> fst ` set (own_entries v)"
    using index_keys [OF assms, symmetric] by (auto simp: own_entries_def dest!: set_zip_leftD split: jsval.splits)
  then have "map_of (rev (own_entries v)) (c # cs) = None"
    by (simp add: map_of_eq_None_iff)
  then show ?thesis
    by (simp add: object_assign_def map_add_def split: option.split)
qed

lemma outside_object_assign:
  assumes "58 \<le> (of_char c :: int)" "\<not> outside lo hi (js_get (JObj a) (c # cs))" "\<not> outside lo hi (js_get v (c # cs))"
  shows "\<not> outside lo hi (js_get (JObj (object_assign a v)) (c # cs))"
  using js_get_object_assign [OF assms(1), of a v cs] assms(2,3) by auto

lemma in_range_assign:
  "asset_in_range a \<Longrightarrow> validateAssetRiskConfig v = None \<Longrightarrow> asset_in_range (object_assign a v)"
  "validateInterestRateCurveConfig (JObj a) = None \<Longrightarrow> validateInterestRateCurveConfig v = None
    \<Longrightarrow> validateInterestRateCurveConfig (JObj (object_assign a v)) = None"
  "validateProtocolFeeConfig (JObj a) = None \<Longrightarrow> validateProtocolFeeConfig v = None
    \<Longrightarrow> validateProtocolFeeConfig (JObj (object_assign a v)) = None"
  by (simp_all del: js_get.simps add: asset_in_range_def validateAssetRiskConfig_def validateInterestRateCurveConfig_def
      validateProtocolFeeConfig_def Let_def outside_object_assign split: if_splits)

lemma update_first_all: "list_all P xs \<Longrightarrow> (\<And>x. p x \<Longrightarrow> P x \<Longrightarrow> P (f x)) \<Longrightarrow> list_all P (update_first p f xs)"
  by (induction xs) simp_all

lemma risk_update_in_range:
  assumes "risk_update category targetId updates st = Inr (st', r)" "risk_in_range st"
  shows "risk_in_range st'" "rs_auditHistory st' = rs_auditHistory st"
proof -
  have find: "find p xs = Some x \<Longrightarrow> list_all P xs \<Longrightarrow> P x" for p xs x and P :: "js_object \<Rightarrow> bool"
    by (auto simp: find_Some_iff list_all_iff)
  show "risk_in_range st'" "rs_auditHistory st' = rs_auditHistory st"
    using assms find [of _ "rs_assets st" _ asset_in_range]
      find [of _ "rs_curves st" _ "\<lambda>c. validateInterestRateCurveConfig (JObj c) = None"]
    by (auto simp: risk_update_def risk_in_range_iff Let_def in_range_assign
        intro!: update_first_all split: if_splits option.splits simp del: js_get.simps)
qed

lemma push_audit_capped: "length history \<le> 50 \<Longrightarrow> length (push_audit entry history) \<le> 50"
  by (simp add: push_audit_def)

lemma POST_risk_parameters_cases:
  obtains (refused) status err where "POST_risk_parameters e db body st = (Answer status (Inl err), st)"
  | (accepted) user entry st1 r where "requireTradeVaultAdmin e db = Inr user"
      "POST_risk_parameters e db body st = (Answer 200 (Inr entry), st1\<lparr>rs_auditHistory := push_audit entry (rs_auditHistory st1)\<rparr>)"
      "risk_update (js_get body ''category'') (js_get body ''targetId'') (js_get body ''updates'') st = Inr (st1, r)"
proof -
  let ?u = "risk_update (js_get body ''category'') (js_get body ''targetId'') (js_get body ''updates'') st"
  have "(\<exists>status err. POST_risk_parameters e db body st = (Answer status (Inl err), st))
    \<or> (\<exists>user entry st1 r. requireTradeVaultAdmin e db = Inr user \<and> ?u = Inr (st1, r)
        \<and> POST_risk_parameters e db body st = (Answer 200 (Inr entry), st1\<lparr>rs_auditHistory := push_audit entry (rs_auditHistory st1)\<rparr>))"
  proof (cases ?u)
    case (Inl a)
    then show ?thesis
      by (cases "js_get body ''reason''"; cases a; cases "requireTradeVaultAdmin e db")
        (simp_all add: POST_risk_parameters_def Let_def del: js_get.simps)
  next
    case (Inr b)
    then show ?thesis
      by (cases "js_get body ''reason''"; cases b; cases "requireTradeVaultAdmin e db")
        (simp_all add: POST_risk_parameters_def Let_def del: js_get.simps)
  qed
  then show ?thesis
    using refused accepted by blast
qed

text \<open>The state of the process after a sequence of update requests.\<close>

definition risk_run :: "(env \<times> database \<times> jsval) list \<Rightarrow> risk_state \<Rightarrow> risk_state" where
  "risk_run = fold (\<lambda>(e, db, body) st. snd (POST_risk_parameters e db body st))"

lemma POST_risk_parameters_in_range:
  assumes "risk_in_range st"
  shows "risk_in_range (snd (POST_risk_parameters e db body st))"
proof (cases rule: POST_risk_parameters_cases [of e db body st])
  case refused
  then show ?thesis
    using assms by simp
next
  case (accepted user entry st1 r)
  then show ?thesis
    using risk_update_in_range [OF accepted(3) assms] push_audit_capped by (simp add: risk_in_range_iff)
qed

lemma initial_in_range: "risk_in_range (initial_risk_state now)"
  by (simp add: risk_in_range_iff initial_risk_state_def DEFAULT_ASSET_RISK_CONFIGS_def DEFAULT_INTEREST_RATE_CURVES_def
      DEFAULT_PROTOCOL_FEES_def INITIAL_RISK_AUDIT_LOG_def asset_in_range_def asset_object_def curve_object_def
      validateInterestRateCurveConfig_def validateProtocolFeeConfig_def outside_def js_lt_def js_prim_def Let_def
      MIN_COLLATERAL_FACTOR_BPS_def MAX_COLLATERAL_FACTOR_BPS_def MAX_BASE_RATE_BPS_def MIN_KINK_BPS_def MAX_KINK_BPS_def
      MAX_JUMP_MULTIPLIER_BPS_def MAX_RESERVE_FACTOR_BPS_def MAX_FLASH_LOAN_FEE_BPS_def MAX_PLATFORM_FEE_BPS_def)

text \<open>C33: whatever is posted, every collateral factor, volatility, base rate, kink, jump multiplier, reserve factor, flash
  loan fee and platform fee that reads as a number is within the bounds the module declares for it (the slope multiplier
  is not one of them: its declared maximum is not enforced), the audit log keeps at most fifty entries, and an update either
  is refused and changes nothing or comes from an administrator and puts its own entry on top of the log.\<close>

theorem risk_parameters_stay_in_range:
  "let st = risk_run requests (initial_risk_state now) in
     risk_in_range st
     \<and> ((\<exists>status err. POST_risk_parameters e db body st = (Answer status (Inl err), st))
        \<or> (\<exists>user entry st'. POST_risk_parameters e db body st = (Answer 200 (Inr entry), st') \<and> requireTradeVaultAdmin e db = Inr user
             \<and> hd (rs_auditHistory st') = entry))"
proof -
  define st where "st = risk_run requests (initial_risk_state now)"
  have "risk_in_range (risk_run requests s)" if "risk_in_range s" for s
    using that by (induction requests arbitrary: s) (auto simp: risk_run_def POST_risk_parameters_in_range split: prod.splits)
  from this [OF initial_in_range] have "risk_in_range st"
    by (simp add: st_def)
  moreover have "hd (push_audit entry history) = entry" for entry history
    by (cases history) (auto simp: push_audit_def)
  ultimately show ?thesis
    unfolding st_def [symmetric] Let_def
    by (cases rule: POST_risk_parameters_cases [of e db body st]) auto
qed

text \<open>The declared maximum of the slope multiplier, 10000, is not enforced: 50000 is stored.\<close>

theorem risk_slope_unbounded:
  "\<exists>st' r. risk_update (JStr ''interest_curve'') (JNum (Fin 1)) (JObj [(''multiplierPerSlopeBps'', JNum (Fin 50000))]) (initial_risk_state now)
     = Inr (st', r) \<and> js_get (JObj (hd (rs_curves st'))) ''multiplierPerSlopeBps'' = JNum (Fin 50000)"
  by (simp add: risk_update_def initial_risk_state_def DEFAULT_INTEREST_RATE_CURVES_def curve_object_def curve_is_def js_same_def
      validateInterestRateCurveConfig_def outside_def object_assign_def own_entries_def Let_def)

text \<open>An update of one field is checked against that update alone: a liquidation threshold below
  the stored collateral factor is accepted, and the stored asset no longer passes the validator
  that accepted the update.\<close>

theorem risk_threshold_below_factor:
  "\<exists>st' r. risk_update (JStr ''collateral_ltv'') (JStr ''XLM'') (JObj [(''liquidationThresholdBps'', JNum (Fin 5000))]) (initial_risk_state now)
     = Inr (st', r) \<and> validateAssetRiskConfig (JObj (hd (rs_assets st'))) = Some ThresholdBelowFactor"
  by (simp add: risk_update_def initial_risk_state_def DEFAULT_ASSET_RISK_CONFIGS_def asset_object_def asset_is_def js_same_def
      validateAssetRiskConfig_def outside_def object_assign_def own_entries_def js_lt_def js_prim_def Let_def
      MIN_COLLATERAL_FACTOR_BPS_def MAX_COLLATERAL_FACTOR_BPS_def)

lemma Fin_uint: "Fin (of_int (uint w)) = Fin (numeral n) \<longleftrightarrow> uint w = numeral n" for w :: "32 word"
  by (simp del: of_int_uint)

text \<open>The dashboard accepts curves the contract refuses: a jump multiplier of 150 per cent is
  within the dashboard's bounds, and no configuration the contract accepts has the curve that is
  then stored.\<close>

theorem risk_curve_not_deployable:
  "\<exists>st' r. risk_update (JStr ''interest_curve'') (JNum (Fin 1)) (JObj [(''jumpMultiplierBps'', JNum (Fin 15000))]) (initial_risk_state now)
     = Inr (st', r) \<and> \<not> (\<exists>c. validate_config c \<and> curve_of_contract c = curve_of (hd (rs_curves st')))"
  by (auto simp add: risk_update_def initial_risk_state_def DEFAULT_INTEREST_RATE_CURVES_def curve_object_def curve_is_def js_same_def
      validateInterestRateCurveConfig_def outside_def object_assign_def own_entries_def js_lt_def js_prim_def Let_def
      MAX_JUMP_MULTIPLIER_BPS_def curve_of_def js_num_def curve_of_contract_def validate_config_iff Fin_uint simp del: of_int_uint)

end
