(* ===== verification/OraclePrices.thy ===== *)
theory OraclePrices
  imports JsValue "HOL-Library.Multiset"
begin

text \<open>
  The collateral price feed, \<open>src/lib/oracle/prices.ts\<close>: which quotes are usable, the median and
  the outliers, the fallback chain from live prices over the cache to the on-chain average, the
  fixed-point units of the contract and when a price is worth publishing. Prices and times are
  numbers of the language; the symbol is what the type says, a string.
\<close>

subsection \<open>Quotes\<close>

datatype price_symbol = XLM | BTC

definition TRACKED_SYMBOLS :: "price_symbol list" where "TRACKED_SYMBOLS = [XLM, BTC]"
definition PRICE_PRECISION :: jsnum where "PRICE_PRECISION = Fin 10000000"
definition DEFAULT_MAX_STALENESS_MS :: jsnum where "DEFAULT_MAX_STALENESS_MS = Fin 120000"
definition DEFAULT_OUTLIER_TOLERANCE_BPS :: jsnum where "DEFAULT_OUTLIER_TOLERANCE_BPS = Fin 1000"

record price_quote =
  pq_symbol :: price_symbol
  pq_priceUsd :: jsnum
  pq_source :: string
  pq_observedAt :: jsnum

datatype price_origin = OriginLive | OriginCache | OriginTwap | OriginUnavailable

record aggregated_price =
  ap_symbol :: price_symbol
  ap_priceUsd :: "jsnum option"
  ap_origin :: price_origin
  ap_contributingSources :: "string list"
  ap_rejectedSources :: "string list"
  ap_ageMs :: jsnum

record cached_price =
  cp_priceUsd :: jsnum
  cp_observedAt :: jsnum

definition isFinitePositive :: "jsnum \<Rightarrow> bool" where
  "isFinitePositive x \<longleftrightarrow> is_finite x \<and> jlt (Fin 0) x"

definition isUsableQuote :: "price_quote \<Rightarrow> bool" where
  "isUsableQuote q \<longleftrightarrow> is_finite (pq_priceUsd q) \<and> \<not> jle (pq_priceUsd q) (Fin 0)"

subsection \<open>Median and outliers\<close>

text \<open>
  Sorting by \<open>a - b\<close>. Every caller sorts finite numbers, and the rounded difference of two numbers
  has the sign of their comparison, so the order is that of the exact values.
\<close>

fun num_key :: "jsnum \<Rightarrow> rat" where
  "num_key (Fin a) = a"
| "num_key _ = 0"

definition sort_num :: "jsnum list \<Rightarrow> jsnum list" where
  "sort_num = sort_key num_key"

text \<open>\<open>None\<close>: the error of an empty list.\<close>

definition median :: "jsnum list \<Rightarrow> jsnum option" where
  "median values =
     (if values = [] then None
      else let sorted = sort_num values; mid = length sorted div 2
           in Some (if length sorted mod 2 = 0 then jdiv (jadd (sorted ! (mid - 1)) (sorted ! mid)) (Fin 2)
                    else sorted ! mid))"

definition jabs :: "jsnum \<Rightarrow> jsnum" where
  "jabs x = (case x of Fin a \<Rightarrow> Fin \<bar>a\<bar> | NegInf \<Rightarrow> PosInf | y \<Rightarrow> y)"

definition deviation_bps :: "jsnum \<Rightarrow> jsnum \<Rightarrow> jsnum" where
  "deviation_bps price reference = jmul (jdiv (jabs (jsub price reference)) reference) (Fin 10000)"

definition rejectOutliers :: "price_quote list \<Rightarrow> jsnum \<Rightarrow> price_quote list \<times> price_quote list" where
  "rejectOutliers quotes toleranceBps =
     (if length quotes \<le> 2 then (quotes, [])
      else let groupMedian = the (median (map pq_priceUsd quotes));
               outlier = (\<lambda>q. jlt toleranceBps (deviation_bps (pq_priceUsd q) groupMedian));
               kept = filter (\<lambda>q. \<not> outlier q) quotes
           in if kept \<noteq> [] then (kept, filter outlier quotes) else (quotes, []))"

definition min_of :: "jsnum list \<Rightarrow> jsnum" where
  "min_of xs = foldl jmin PosInf xs"

definition max_of :: "jsnum list \<Rightarrow> jsnum" where
  "max_of xs = foldl jmax NegInf xs"

definition spreadBps :: "price_quote list \<Rightarrow> jsnum" where
  "spreadBps quotes =
     (if length quotes < 2 then Fin 0
      else let prices = map pq_priceUsd quotes; lo = min_of prices; hi = max_of prices
           in if jle lo (Fin 0) then Fin 0 else jmul (jdiv (jsub hi lo) lo) (Fin 10000))"

subsection \<open>Aggregation\<close>

record aggregate_options =
  ao_now :: jsnum
  ao_maxStalenessMs :: jsnum
  ao_outlierToleranceBps :: jsnum
  ao_cached :: "cached_price option"
  ao_twapUsd :: "jsnum option"

definition usable_quotes :: "price_symbol \<Rightarrow> price_quote list \<Rightarrow> aggregate_options \<Rightarrow> price_quote list" where
  "usable_quotes symb quotes opt =
     filter (\<lambda>q. isUsableQuote q \<and> pq_symbol q = symb
       \<and> jle (jsub (ao_now opt) (pq_observedAt q)) (ao_maxStalenessMs opt)) quotes"

definition cache_fresh :: "aggregate_options \<Rightarrow> cached_price \<Rightarrow> bool" where
  "cache_fresh opt c \<longleftrightarrow> isFinitePositive (cp_priceUsd c)
     \<and> jle (jsub (ao_now opt) (cp_observedAt c)) (ao_maxStalenessMs opt)"

definition no_price :: "price_symbol \<Rightarrow> aggregate_options \<Rightarrow> aggregated_price" where
  "no_price symb opt =
     \<lparr>ap_symbol = symb, ap_priceUsd = None, ap_origin = OriginUnavailable,
      ap_contributingSources = [], ap_rejectedSources = [],
      ap_ageMs = (case ao_cached opt of Some c \<Rightarrow> jsub (ao_now opt) (cp_observedAt c) | None \<Rightarrow> PosInf)\<rparr>"

definition no_live_price :: "price_symbol \<Rightarrow> aggregate_options \<Rightarrow> aggregated_price" where
  "no_live_price symb opt =
     (case ao_twapUsd opt of
        Some p \<Rightarrow>
          if isFinitePositive p then
            \<lparr>ap_symbol = symb, ap_priceUsd = Some p, ap_origin = OriginTwap,
             ap_contributingSources = [], ap_rejectedSources = [], ap_ageMs = Fin 0\<rparr>
          else no_price symb opt
      | None \<Rightarrow> no_price symb opt)"

definition aggregatePrice :: "price_symbol \<Rightarrow> price_quote list \<Rightarrow> aggregate_options \<Rightarrow> aggregated_price" where
  "aggregatePrice symb quotes opt =
     (let usable = usable_quotes symb quotes opt in
      if usable \<noteq> [] then
        (let (kept, rejected) = rejectOutliers usable (ao_outlierToleranceBps opt)
         in \<lparr>ap_symbol = symb, ap_priceUsd = median (map pq_priceUsd kept), ap_origin = OriginLive,
             ap_contributingSources = map pq_source kept, ap_rejectedSources = map pq_source rejected,
             ap_ageMs = jsub (ao_now opt) (min_of (map pq_observedAt kept))\<rparr>)
      else case ao_cached opt of
        Some c \<Rightarrow>
          if cache_fresh opt c then
            \<lparr>ap_symbol = symb, ap_priceUsd = Some (cp_priceUsd c), ap_origin = OriginCache,
             ap_contributingSources = [], ap_rejectedSources = [], ap_ageMs = jsub (ao_now opt) (cp_observedAt c)\<rparr>
          else no_live_price symb opt
      | None \<Rightarrow> no_live_price symb opt)"

subsection \<open>Units of the contract\<close>

text \<open>\<open>None\<close>: the error of a price that is not positive and finite. \<open>BigInt\<close> of an infinity throws too.\<close>

definition toChainPrice :: "jsnum \<Rightarrow> int option" where
  "toChainPrice priceUsd =
     (if \<not> is_finite priceUsd \<or> jle priceUsd (Fin 0) then None
      else case jround (jmul priceUsd PRICE_PRECISION) of Fin r \<Rightarrow> Some \<lfloor>r\<rfloor> | _ \<Rightarrow> None)"

definition fromChainPrice :: "int \<Rightarrow> jsnum" where
  "fromChainPrice chainPrice = jdiv (to_num (of_int chainPrice)) PRICE_PRECISION"

definition shouldPublish :: "aggregated_price \<Rightarrow> cached_price option \<Rightarrow> jsnum \<Rightarrow> jsnum \<Rightarrow> jsnum \<Rightarrow> bool" where
  "shouldPublish nxt lastPublished now minChangeBps maxPublishIntervalMs =
     (case ap_priceUsd nxt of
        None \<Rightarrow> False
      | Some price \<Rightarrow>
          (case lastPublished of
             None \<Rightarrow> True
           | Some prev \<Rightarrow>
               if jle maxPublishIntervalMs (jsub now (cp_observedAt prev)) then True
               else jle minChangeBps (deviation_bps price (cp_priceUsd prev))))"

subsection \<open>The median lies between the extremes\<close>

lemma sort_num_finite:
  assumes "list_all is_finite xs"
  shows "sort_num xs = map Fin (sort (map num_key xs))"
proof -
  have fin: "map (Fin \<circ> num_key) ys = ys" if "list_all is_finite ys" for ys
    using that by (induction ys) (auto simp: is_finite_iff)
  have "list_all is_finite (sort_num xs)"
    using assms by (simp add: sort_num_def list_all_iff)
  then have "sort_num xs = map Fin (map num_key (sort_num xs))"
    using fin by simp
  also have "map num_key (sort_num xs) = sort (map num_key xs)"
    unfolding sort_num_def by (rule properties_for_sort [symmetric]) simp_all
  finally show ?thesis .
qed

text \<open>A sorted list of doubles and its median: the value itself, or the rounded mean of the two in the middle.\<close>

lemma fl_double:
  assumes "fl a = a" "0 < a"
  shows "fl (2 * a) = 2 * a"
proof -
  obtain n where n: "a = of_int n * 2 powi ulp_exp a"
    using fl_grid [OF assms(2)] assms(1) by metis
  have "a < 2 powi (ilog2 a + 1)"
    by (rule ilog2_bounds(2)) (rule assms(2))
  also have "\<dots> \<le> 2 powi (ulp_exp a + 53)"
    by (rule two_powi_mono) (simp add: ulp_exp_def)
  finally have "of_int n * 2 powi ulp_exp a < (2 ^ 53 :: rat) * 2 powi ulp_exp a"
    using n by (simp add: two_powi_add)
  then have "(of_int n :: rat) < of_int (2 ^ 53)"
    by (simp add: two_powi_pos)
  then have "n < 2 ^ 53"
    by (simp only: of_int_less_iff)
  moreover have "0 < n"
    using assms(2) n by (metis of_int_0_less_iff two_powi_pos zero_less_mult_iff less_asym)
  ultimately show ?thesis
    using n by (intro fl_exact [where m = n and e = "ulp_exp a + 1"]) (simp_all add: two_powi_add ulp_exp_def)
qed

definition price_limit :: rat where "price_limit = 2 ^ 1022"

lemma price_limit: "2 * price_limit = 2 ^ 1023"
  by (simp add: price_limit_def)

text \<open>A sorted list of doubles and its median: the value itself, or the rounded mean of the two in the middle.\<close>

lemma fl_mean:
  assumes "fl a = a" "fl b = b" "0 < a" "a \<le> b" "b \<le> price_limit"
  shows "\<exists>m. jdiv (jadd (Fin a) (Fin b)) (Fin 2) = Fin m \<and> a \<le> m \<and> m \<le> b"
proof -
  let ?s = "fl (a + b)"
  have s: "2 * a \<le> ?s" "?s \<le> 2 * b"
    using fl_mono [of "2 * a" "a + b"] fl_mono [of "a + b" "2 * b"] fl_double [of a] fl_double [of b] assms by simp_all
  have "\<bar>a + b\<bar> \<le> 2 ^ 1023" "\<bar>?s / 2\<bar> \<le> 2 ^ 1023"
    unfolding price_limit [symmetric] using assms s by linarith+
  then have "jdiv (jadd (Fin a) (Fin b)) (Fin 2) = Fin (fl (?s / 2))"
    by (simp add: to_num_Fin del: power_numeral)
  moreover have "a \<le> fl (?s / 2)" "fl (?s / 2) \<le> b"
    using fl_mono [of a "?s / 2"] fl_mono [of "?s / 2" b] s assms by simp_all
  ultimately show ?thesis
    by blast
qed

definition price_ok :: "rat \<Rightarrow> bool" where
  "price_ok p \<longleftrightarrow> 0 < p \<and> p \<le> price_limit \<and> fl p = p"

subsection \<open>A majority of honest sources decides\<close>

lemma card_filter_sorted_prefix:
  assumes "sorted s" "i < length s" "\<And>j. j \<le> i \<Longrightarrow> \<not> P (s ! j)"
  shows "length (filter P s) \<le> length s - Suc i"
proof -
  have "filter P (take (Suc i) s) = []"
    using assms by (auto simp: filter_empty_conv in_set_conv_nth)
  then have "length (filter P s) = length (filter P (drop (Suc i) s))"
    by (metis append_take_drop_id filter_append self_append_conv2)
  also have "\<dots> \<le> length (drop (Suc i) s)"
    by (rule length_filter_le)
  finally show ?thesis by simp
qed

lemma card_filter_sorted_suffix:
  assumes "i < length s" "\<And>j. i \<le> j \<Longrightarrow> j < length s \<Longrightarrow> \<not> P (s ! j)"
  shows "length (filter P s) \<le> i"
proof -
  have "filter P (drop i s) = []"
    using assms by (auto simp: filter_empty_conv in_set_conv_nth)
  then have "length (filter P s) = length (filter P (take i s))"
    by (metis append_take_drop_id filter_append append_Nil2)
  also have "\<dots> \<le> length (take i s)"
    by (rule length_filter_le)
  finally show ?thesis by simp
qed

lemma sorted_majority:
  fixes s :: "rat list"
  assumes "sorted s" "length s < 2 * length (filter (\<lambda>p. lo \<le> p \<and> p \<le> hi) s)"
    and "i < length s" "length s \<le> 2 * i + 2" "2 * i \<le> length s"
  shows "lo \<le> s ! i \<and> s ! i \<le> hi"
proof (rule ccontr)
  let ?P = "\<lambda>p. lo \<le> p \<and> p \<le> hi"
  assume out: "\<not> ?thesis"
  then consider "s ! i < lo" | "hi < s ! i" by linarith
  then show False
  proof cases
    case 1
    have "s ! j < lo" if "j \<le> i" for j
      using sorted_nth_mono [OF assms(1) that assms(3)] 1 by simp
    then have "length (filter ?P s) \<le> length s - Suc i"
      using card_filter_sorted_prefix [OF assms(1,3), of ?P] by force
    then show False using assms(2-5) by linarith
  next
    case 2
    have "hi < s ! j" if "i \<le> j" "j < length s" for j
      using sorted_nth_mono [OF assms(1) that] 2 by simp
    then have "length (filter ?P s) \<le> i"
      using card_filter_sorted_suffix [OF assms(3), of ?P] by force
    then show False using assms(2-5) by linarith
  qed
qed

lemma median_majority:
  assumes "list_all price_ok ps" "length ps < 2 * length (filter (\<lambda>p. lo \<le> p \<and> p \<le> hi) ps)"
  shows "\<exists>m. median (map Fin ps) = Some (Fin m) \<and> lo \<le> m \<and> m \<le> hi"
proof -
  let ?s = "sort ps" and ?mid = "length ps div 2"
  have ps: "ps \<noteq> []"
    using assms(2) by auto
  have s: "sort_num (map Fin ps) = map Fin ?s"
    using sort_num_finite [of "map Fin ps"] by (simp add: list_all_iff o_def)
  have "mset (filter (\<lambda>p. lo \<le> p \<and> p \<le> hi) ?s) = mset (filter (\<lambda>p. lo \<le> p \<and> p \<le> hi) ps)"
    by simp
  then have maj: "length ?s < 2 * length (filter (\<lambda>p. lo \<le> p \<and> p \<le> hi) ?s)"
    using assms(2) by (metis length_sort size_mset)
  have len: "?mid < length ?s"
    using ps by (simp add: div_less_dividend)
  have hi: "lo \<le> ?s ! ?mid \<and> ?s ! ?mid \<le> hi"
    using sorted_majority [OF _ maj len] by simp
  show ?thesis
  proof (cases "length ps mod 2 = 0")
    case True
    have "0 < ?mid"
      using True ps by (cases ps; cases "tl ps") auto
    then have mid: "?mid - 1 < length ?s"
      using len by simp
    have lo: "lo \<le> ?s ! (?mid - 1) \<and> ?s ! (?mid - 1) \<le> hi"
      using True \<open>0 < ?mid\<close> by (intro sorted_majority [OF _ maj mid]) (auto elim!: evenE simp flip: even_iff_mod_2_eq_zero)
    have "?s ! (?mid - 1) \<in> set ps" "?s ! ?mid \<in> set ps" "?s ! (?mid - 1) \<le> ?s ! ?mid"
      using nth_mem [OF mid] nth_mem [OF len] sorted_nth_mono [of ?s "?mid - 1" ?mid] len by simp_all
    then obtain m where m: "jdiv (jadd (Fin (?s ! (?mid - 1))) (Fin (?s ! ?mid))) (Fin 2) = Fin m" "?s ! (?mid - 1) \<le> m" "m \<le> ?s ! ?mid"
      using fl_mean assms(1) unfolding list_all_iff price_ok_def by blast
    then have "median (map Fin ps) = Some (Fin m)"
      using True mid len ps by (simp add: median_def Let_def s del: jdiv.simps jadd.simps)
    then show ?thesis
      using m lo hi by auto
  next
    case False
    then show ?thesis
      using len s ps hi by (simp add: median_def Let_def)
  qed
qed

lemma median_between:
  assumes "ps \<noteq> []" "list_all price_ok ps"
  shows "\<exists>m. median (map Fin ps) = Some (Fin m) \<and> Min (set ps) \<le> m \<and> m \<le> Max (set ps)"
proof -
  have "filter (\<lambda>p. Min (set ps) \<le> p \<and> p \<le> Max (set ps)) ps = ps"
    by (simp add: filter_id_conv)
  then show ?thesis
    using median_majority [OF assms(2), of "Min (set ps)" "Max (set ps)"] assms(1) by simp
qed

subsection \<open>Outliers\<close>

lemma to_num_ge:
  assumes "fl c = c" "0 < c" "c \<le> r"
  shows "jle (Fin c) (to_num r)"
  using fl_mono [OF assms(3)] assms(1,2) by (auto simp: to_num_def Let_def)

text \<open>A price more than 10.01 per cent away from a positive reference is an outlier by the default tolerance.\<close>

lemma deviation_large:
  assumes "0 < m" "2 powi (- 900) \<le> m" "m \<le> price_limit" "0 < q" "q \<le> price_limit" "m * (1001 / 10000) < \<bar>q - m\<bar>"
  shows "jlt (Fin 1000) (deviation_bps (Fin q) (Fin m))"
proof -
  define x where "x = \<bar>q - m\<bar>"
  have "\<bar>q - m\<bar> \<le> 2 ^ 1023"
    unfolding price_limit [symmetric] using assms by linarith
  then have sub: "jabs (jsub (Fin q) (Fin m)) = Fin \<bar>fl (q - m)\<bar>"
    by (simp add: jsub_Fin to_num_Fin jabs_def del: power_numeral)
  have abs: "\<bar>fl (q - m)\<bar> = fl x"
  proof -
    have "0 \<le> fl x"
      by (simp add: x_def)
    moreover have "fl x = fl (q - m) \<or> fl x = - fl (q - m)"
      using fl_minus [of "q - m"] by (cases "m \<le> q") (simp_all add: x_def)
    ultimately show ?thesis
      by auto
  qed
  have "(2 :: rat) powi (- 1022) \<le> 2 powi (- 900) * (1001 / 10000)"
    by (simp add: power_int_minus)
  also have "\<dots> \<le> x"
    using assms by (simp add: x_def)
  finally have "\<bar>fl x - x\<bar> \<le> 2 powi (- 53) * x"
    by (rule fl_relative_error_pos)
  then have "x - 2 powi (- 53) * x \<le> fl x"
    by linarith
  moreover have "(6558 / 65536) * m \<le> x - 2 powi (- 53) * x"
    using assms(1,6) by (simp add: x_def power_int_minus field_simps)
  ultimately have ratio: "6558 / 65536 \<le> fl x / m"
    using assms(1) by (simp add: field_simps)
  have c: "fl (6558 / 65536) = 6558 / 65536"
    by (rule fl_exact [where m = 6558 and e = "- 16"]) (simp_all add: power_int_minus)
  have d: "fl (2001 / 2) = 2001 / 2"
    by (rule fl_exact [where m = 2001 and e = "- 1"]) (simp_all add: power_int_minus)
  have "jle (Fin (6558 / 65536)) (to_num (fl x / m))"
    by (rule to_num_ge [OF c _ ratio]) simp
  then have "to_num (fl x / m) = PosInf \<or> (\<exists>y. to_num (fl x / m) = Fin y \<and> 6558 / 65536 \<le> y)"
    by (cases "to_num (fl x / m)") simp_all
  then show ?thesis
  proof
    assume "to_num (fl x / m) = PosInf"
    then show ?thesis
      using sub abs assms(1) by (simp add: deviation_bps_def inf_times_def)
  next
    assume "\<exists>y. to_num (fl x / m) = Fin y \<and> 6558 / 65536 \<le> y"
    then obtain y where y: "to_num (fl x / m) = Fin y" "6558 / 65536 \<le> y"
      by blast
    have "jle (Fin (2001 / 2)) (to_num (y * 10000))"
      by (rule to_num_ge [OF d]) (use y(2) in simp_all)
    then show ?thesis
      using sub abs assms(1) y(1) by (cases "to_num (y * 10000)") (simp_all add: deviation_bps_def)
  qed
qed

subsection \<open>What is published\<close>

lemma foldl_jmin_in: "y \<noteq> NaN \<Longrightarrow> NaN \<notin> set xs \<Longrightarrow> foldl jmin y xs \<in> insert y (set xs)"
  by (induction xs arbitrary: y) (auto simp: jmin_def split: if_splits)

lemma foldl_jmin_le: "y \<noteq> NaN \<Longrightarrow> NaN \<notin> set xs \<Longrightarrow> x \<in> insert y (set xs) \<Longrightarrow> jle (foldl jmin y xs) x"
proof (induction xs arbitrary: y x)
  case Nil
  then show ?case by (simp add: jle_refl)
next
  case (Cons z zs)
  have not: "jmin y z \<noteq> NaN" and le: "jle (jmin y z) y" "jle (jmin y z) z"
    using Cons.prems jle_linear [of y z] by (auto simp: jmin_def intro: jle_refl)
  have ih: "jle (foldl jmin (jmin y z) zs) w" if "w \<in> insert (jmin y z) (set zs)" for w
    using Cons.IH [OF not _ that] Cons.prems by simp
  then show ?case
    using Cons.prems(3) le jle_trans [OF ih [of "jmin y z"]] by auto
qed

text \<open>The least of some numbers that are not all infinite is one of them.\<close>

lemma min_of_in: "xs \<noteq> [] \<Longrightarrow> NaN \<notin> set xs \<Longrightarrow> min_of xs \<in> set xs"
proof -
  assume xs: "xs \<noteq> []" "NaN \<notin> set xs"
  have "min_of xs \<in> insert PosInf (set xs)"
    unfolding min_of_def using xs by (intro foldl_jmin_in) simp_all
  moreover have "PosInf \<in> set xs" if "min_of xs = PosInf"
  proof -
    have "jle PosInf (hd xs)"
      using foldl_jmin_le [of PosInf xs "hd xs"] xs that by (simp add: min_of_def)
    then show ?thesis
      using xs hd_in_set by (cases "hd xs") force+
  qed
  ultimately show ?thesis by auto
qed

text \<open>The prices of usable quotes, which are numbers of the language.\<close>

definition quotes_ok :: "price_quote list \<Rightarrow> bool" where
  "quotes_ok qs \<longleftrightarrow> list_all (\<lambda>q. isUsableQuote q \<longrightarrow> price_ok (num_key (pq_priceUsd q))) qs"

lemma mset_rejected: "mset (filter (\<lambda>x. \<not> P x) xs) + mset (filter P xs) = mset xs"
  by (induction xs) simp_all

lemma rejectOutliers_parts:
  assumes "rejectOutliers qs tol = (kept, rejected)" "qs \<noteq> []"
  shows "kept \<noteq> []" "set kept \<subseteq> set qs" "mset kept + mset rejected = mset qs"
  using assms by (auto simp: rejectOutliers_def Let_def mset_rejected split: if_splits simp del: mset_filter)

lemma usable_prices:
  assumes "quotes_ok quotes" "set qs \<subseteq> set (usable_quotes symb quotes opt)"
  shows "map pq_priceUsd qs = map Fin (map (num_key \<circ> pq_priceUsd) qs)" "list_all price_ok (map (num_key \<circ> pq_priceUsd) qs)"
proof -
  have fin: "is_finite x \<Longrightarrow> x = Fin (num_key x)" for x
    by (cases x) simp_all
  have "pq_priceUsd q = Fin (num_key (pq_priceUsd q)) \<and> price_ok (num_key (pq_priceUsd q))" if "q \<in> set qs" for q
    using assms that fin [of "pq_priceUsd q"] by (auto simp: usable_quotes_def quotes_ok_def list_all_iff isUsableQuote_def)
  then show "map pq_priceUsd qs = map Fin (map (num_key \<circ> pq_priceUsd) qs)" "list_all price_ok (map (num_key \<circ> pq_priceUsd) qs)"
    by (auto simp: list_all_iff)
qed

lemma aggregatePrice_live:
  assumes "usable_quotes symb quotes opt \<noteq> []"
    and "rejectOutliers (usable_quotes symb quotes opt) (ao_outlierToleranceBps opt) = (kept, rejected)"
  shows "aggregatePrice symb quotes opt =
     \<lparr>ap_symbol = symb, ap_priceUsd = median (map pq_priceUsd kept), ap_origin = OriginLive,
      ap_contributingSources = map pq_source kept, ap_rejectedSources = map pq_source rejected,
      ap_ageMs = jsub (ao_now opt) (min_of (map pq_observedAt kept))\<rparr>"
  using assms by (simp add: aggregatePrice_def)

lemma jsub_NaN: "jsub a NaN = NaN"
  by (cases a) (simp_all add: jsub_def)

text \<open>C34: nothing unsafe is published: when the feed has a price, it is positive and finite, and it is
  at most as old as allowed; a live price lies between the least and the greatest of the usable
  quotes kept, of the asset asked for, every usable quote being either kept or named as rejected;
  and without a price nothing is published, whatever was published before.\<close>

theorem aggregatePrice_sound:
  assumes "quotes_ok quotes" "jle (Fin 0) (ao_maxStalenessMs opt)"
  shows "let a = aggregatePrice symb quotes opt in
    (case ap_priceUsd a of
       None \<Rightarrow> ap_origin a = OriginUnavailable \<and> \<not> shouldPublish a prev now lo hi
     | Some p \<Rightarrow> isFinitePositive p \<and> jle (ap_ageMs a) (ao_maxStalenessMs opt) \<and> ap_origin a \<noteq> OriginUnavailable)
    \<and> (ap_origin a = OriginLive \<longrightarrow>
        (\<exists>kept rejected. mset kept + mset rejected = mset (usable_quotes symb quotes opt)
           \<and> ap_contributingSources a = map pq_source kept \<and> ap_rejectedSources a = map pq_source rejected
           \<and> (\<exists>p q1 q2. ap_priceUsd a = Some (Fin p) \<and> q1 \<in> set kept \<and> q2 \<in> set kept
                \<and> num_key (pq_priceUsd q1) \<le> p \<and> p \<le> num_key (pq_priceUsd q2))))"
proof (cases "usable_quotes symb quotes opt = []")
  case True
  then show ?thesis
    using assms(2) by (cases "ao_cached opt"; cases "ao_twapUsd opt")
      (simp_all add: aggregatePrice_def no_live_price_def no_price_def shouldPublish_def cache_fresh_def)
next
  case False
  obtain kept rejected where r: "rejectOutliers (usable_quotes symb quotes opt) (ao_outlierToleranceBps opt) = (kept, rejected)"
    by fastforce
  note parts = rejectOutliers_parts [OF r False]
  note a = aggregatePrice_live [OF False r]
  let ?ps = "map (num_key \<circ> pq_priceUsd) kept"
  note ps = usable_prices [OF assms(1) parts(2)]
  obtain p where p: "median (map Fin ?ps) = Some (Fin p)" "Min (set ?ps) \<le> p" "p \<le> Max (set ?ps)"
    using median_between [of ?ps] ps(2) parts(1) by auto
  have "Min (set ?ps) \<in> set ?ps" "Max (set ?ps) \<in> set ?ps"
    using parts(1) by (simp_all del: set_map list.set_map)
  then obtain q1 q2 where q: "q1 \<in> set kept" "q2 \<in> set kept" "num_key (pq_priceUsd q1) = Min (set ?ps)" "num_key (pq_priceUsd q2) = Max (set ?ps)"
    by auto
  have "0 < Min (set ?ps)"
    using \<open>Min (set ?ps) \<in> set ?ps\<close> ps(2) by (auto simp: list_all_iff price_ok_def simp del: list.set_map)
  have fresh: "\<forall>q\<in>set kept. jle (jsub (ao_now opt) (pq_observedAt q)) (ao_maxStalenessMs opt)"
    using parts(2) by (auto simp: usable_quotes_def)
  then have "NaN \<notin> set (map pq_observedAt kept)"
    using jsub_NaN jle_not_NaN by auto
  then have "min_of (map pq_observedAt kept) \<in> set (map pq_observedAt kept)"
    using parts(1) by (intro min_of_in) simp_all
  then have age: "jle (jsub (ao_now opt) (min_of (map pq_observedAt kept))) (ao_maxStalenessMs opt)"
    using fresh by auto
  have bounds: "num_key (pq_priceUsd q1) \<le> p" "p \<le> num_key (pq_priceUsd q2)" "0 < p"
    using p(2,3) q(3,4) \<open>0 < Min (set ?ps)\<close> by linarith+
  show ?thesis
    unfolding Let_def a ps(1)
    using p(1) q(1,2) bounds age parts(3)
    by (simp add: isFinitePositive_def) blast
qed

text \<open>C35: a majority of honest sources decides the price: when more than half of at least three
  usable quotes lie between two bounds, the live price is at most 10.01 per cent below the lower
  or above the upper one, whatever the other sources report.\<close>

theorem honest_majority_decides:
  assumes "quotes_ok quotes" "ao_outlierToleranceBps opt = DEFAULT_OUTLIER_TOLERANCE_BPS" "1 / 10 ^ 100 \<le> lo"
    and "3 \<le> length (usable_quotes symb quotes opt)"
    and "length (usable_quotes symb quotes opt) <
      2 * length (filter (\<lambda>q. lo \<le> num_key (pq_priceUsd q) \<and> num_key (pq_priceUsd q) \<le> hi) (usable_quotes symb quotes opt))"
  shows "\<exists>p. ap_priceUsd (aggregatePrice symb quotes opt) = Some (Fin p) \<and> lo * (8999 / 10000) \<le> p \<and> p \<le> hi * (11001 / 10000)"
proof -
  let ?us = "usable_quotes symb quotes opt"
  let ?ps = "\<lambda>qs. map (num_key \<circ> pq_priceUsd) qs"
  have us: "?us \<noteq> []"
    using assms(4) by auto
  obtain kept rejected where r: "rejectOutliers ?us (ao_outlierToleranceBps opt) = (kept, rejected)"
    by fastforce
  note parts = rejectOutliers_parts [OF r us]
  note ps = usable_prices [OF assms(1) subset_refl, of symb opt] usable_prices [OF assms(1) parts(2)]
  have "length (?ps ?us) < 2 * length (filter (\<lambda>p. lo \<le> p \<and> p \<le> hi) (?ps ?us))"
    using assms(5) by (simp add: filter_map o_def)
  then obtain m where m: "median (map Fin (?ps ?us)) = Some (Fin m)" "lo \<le> m" "m \<le> hi"
    using median_majority [OF ps(2)] by blast
  have "(0 :: rat) < 1 / 10 ^ 100" "2 powi (- 900) \<le> (1 / 10 ^ 100 :: rat)"
    by (simp_all add: power_int_minus)
  then have m': "0 < lo" "2 powi (- 900) \<le> m"
    using assms(3) m(2) by linarith+
  have price: "ap_priceUsd (aggregatePrice symb quotes opt) = median (map Fin (?ps kept))"
    unfolding aggregatePrice_live [OF us r] ps(3) by simp
  show ?thesis
  proof (cases "kept = ?us")
    case True
    then show ?thesis
      using m m' price by (intro exI [of _ m]) auto
  next
    case False
    have len: "\<not> length ?us \<le> 2"
      using assms(4) by simp
    then have kept: "kept = filter (\<lambda>q. \<not> jlt (Fin 1000) (deviation_bps (pq_priceUsd q) (Fin m))) ?us"
      using r False m(1) ps(1) assms(2) by (auto simp: rejectOutliers_def Let_def DEFAULT_OUTLIER_TOLERANCE_BPS_def split: if_splits)
    have m_limit: "m \<le> price_limit"
    proof -
      have "m \<le> Max (set (?ps ?us))"
        using median_between [OF _ ps(2)] us m(1) by auto
      also have "\<dots> \<le> price_limit"
        using us ps(2) by (subst Max_le_iff) (auto simp: list_all_iff price_ok_def)
      finally show ?thesis .
    qed
    have near: "m * (8999 / 10000) \<le> p \<and> p \<le> m * (11001 / 10000)" if "p \<in> set (?ps kept)" for p
    proof -
      obtain q where q: "q \<in> set kept" "pq_priceUsd q = Fin p"
      proof -
        have "\<forall>q\<in>set kept. pq_priceUsd q = Fin (num_key (pq_priceUsd q))"
          using ps(3) by simp
        then show thesis
          using that \<open>p \<in> set (?ps kept)\<close> by auto
      qed
      have "price_ok p"
        using that ps(4) by (auto simp: list_all_iff)
      then have "\<not> m * (1001 / 10000) < \<bar>p - m\<bar>"
        using deviation_large [of m p] q kept m m' m_limit by (auto simp: price_ok_def)
      then show ?thesis
        by linarith
    qed
    obtain p where p: "median (map Fin (?ps kept)) = Some (Fin p)" "Min (set (?ps kept)) \<le> p" "p \<le> Max (set (?ps kept))"
      using median_between [OF _ ps(4)] parts(1) by auto
    have "Min (set (?ps kept)) \<in> set (?ps kept)" "Max (set (?ps kept)) \<in> set (?ps kept)"
      using parts(1) by (simp_all del: set_map list.set_map)
    then have "m * (8999 / 10000) \<le> p" "p \<le> m * (11001 / 10000)"
      using near p(2,3) order_trans by blast+
    then have "lo * (8999 / 10000) \<le> p" "p \<le> hi * (11001 / 10000)"
      using m(2,3) by linarith+
    then show ?thesis
      using price p(1) by auto
  qed
qed

text \<open>The contract's units lose nothing: every fixed-point price from one unit up to \<open>2 ^ 50\<close>
  (more than a hundred million dollars) is read into a number and written back as the same integer.\<close>

theorem chain_price_round_trip:
  assumes "1 \<le> n" "n < 2 ^ 50"
  shows "toChainPrice (fromChainPrice n) = Some n"
proof -
  define x :: rat where "x = of_int n / 10000000"
  define q where "q = fl x"
  have n: "1 \<le> (of_int n :: rat)" "(of_int n :: rat) < 2 ^ 50"
  proof -
    have "(of_int n :: rat) < of_int (2 ^ 50)"
      using assms(2) by (simp only: of_int_less_iff)
    then show "(of_int n :: rat) < 2 ^ 50"
      by simp
  qed (use assms(1) in simp)
  have "(2 :: rat) powi (- 1022) \<le> 2 powi (- 24)"
    by (rule two_powi_mono) simp
  also have "\<dots> \<le> x"
    using n by (simp add: x_def power_int_minus)
  finally have "\<bar>q - x\<bar> \<le> 2 powi (- 53) * x"
    unfolding q_def by (rule fl_relative_error_pos)
  moreover have "2 powi (- 53) * x \<le> x / 2"
    using n by (simp add: x_def power_int_minus)
  moreover have "0 < x"
    using n by (simp add: x_def)
  ultimately have "0 < q" "\<bar>q - x\<bar> \<le> 2 powi (- 53) * x"
    by linarith+
  then have q: "\<bar>q * 10000000 - of_int n\<bar> \<le> 1 / 8" "0 < q"
    using n by (auto simp: x_def power_int_minus abs_le_iff field_simps)
  have p51: "(2 :: rat) powi 51 = 2251799813685248" and n50: "(of_int n :: rat) < 1125899906842624"
    using n(2) by (simp_all add: two_powi_nat)
  have "\<bar>q * 10000000\<bar> < 2 powi 51"
    unfolding p51 using q n(1) n50 by linarith
  then have "\<bar>fl (q * 10000000) - q * 10000000\<bar> \<le> 2 powi (51 - 54)"
    by (rule fl_error) simp
  also have "2 powi (51 - 54) = (1 / 8 :: rat)"
    by (simp add: power_int_minus)
  finally have near: "\<bar>fl (q * 10000000) - of_int n\<bar> \<le> 1 / 4"
    using q(1) by linarith
  have "\<bar>of_int n / 10000000 :: rat\<bar> \<le> 2 ^ 50"
    using n by simp
  moreover have "\<bar>q * 10000000\<bar> \<le> 2 ^ 51"
    using \<open>\<bar>q * 10000000\<bar> < 2 powi 51\<close> by (simp add: two_powi_nat)
  moreover have "(2 :: rat) ^ 50 \<le> 2 ^ 1023" "(2 :: rat) ^ 51 \<le> 2 ^ 1023"
    by (rule power_increasing; simp)+
  ultimately have limits: "\<bar>of_int n / 10000000 :: rat\<bar> \<le> 2 ^ 1023" "\<bar>q * 10000000\<bar> \<le> 2 ^ 1023"
    by (meson order_trans)+
  have "fromChainPrice n = Fin q"
    using assms to_num_int [of n] to_num_Fin [OF limits(1)] by (simp add: fromChainPrice_def PRICE_PRECISION_def q_def x_def)
  moreover have "\<lfloor>fl (q * 10000000) + 1 / 2\<rfloor> = n"
    by (intro floor_unique) (use near in linarith)+
  ultimately show ?thesis
    using to_num_Fin [OF limits(2)] q(2) by (simp add: toChainPrice_def PRICE_PRECISION_def)
qed

lemma chain_price_round_trip_witness: "toChainPrice (fromChainPrice 1234567) = Some 1234567"
  by (rule chain_price_round_trip) simp_all

subsection \<open>Examples\<close>

definition demo_quote :: "string \<Rightarrow> rat \<Rightarrow> price_quote" where
  "demo_quote source price = \<lparr>pq_symbol = XLM, pq_priceUsd = Fin price, pq_source = source, pq_observedAt = Fin 1000\<rparr>"

definition demo_quotes :: "price_quote list" where
  "demo_quotes = [demo_quote ''a'' 100, demo_quote ''b'' 250, demo_quote ''c'' 101]"

definition demo_options :: aggregate_options where
  "demo_options = \<lparr>ao_now = Fin 2000, ao_maxStalenessMs = DEFAULT_MAX_STALENESS_MS,
     ao_outlierToleranceBps = DEFAULT_OUTLIER_TOLERANCE_BPS, ao_cached = None, ao_twapUsd = None\<rparr>"

lemma demo_usable: "usable_quotes XLM demo_quotes demo_options = demo_quotes"
  by (simp add: usable_quotes_def demo_quotes_def demo_quote_def demo_options_def isUsableQuote_def DEFAULT_MAX_STALENESS_MS_def
      jsub_Fin to_num_Fin fl_of_int [of 1000, simplified])

lemma demo_quotes_ok: "quotes_ok demo_quotes"
proof -
  have "fl 100 = 100" "fl 101 = 101" "fl 250 = 250"
    using fl_of_int [of 100] fl_of_int [of 101] fl_of_int [of 250] by simp_all
  then show ?thesis
    by (simp add: quotes_ok_def demo_quotes_def demo_quote_def price_ok_def price_limit_def)
qed

lemma aggregatePrice_sound_witness:
  "\<exists>p. ap_priceUsd (aggregatePrice XLM demo_quotes demo_options) = Some (Fin p) \<and> 100 \<le> p \<and> p \<le> 250"
proof -
  let ?a = "aggregatePrice XLM demo_quotes demo_options"
  have live: "ap_origin ?a = OriginLive"
  proof -
    obtain kept rejected where "rejectOutliers demo_quotes (ao_outlierToleranceBps demo_options) = (kept, rejected)"
      by fastforce
    then show ?thesis
      using aggregatePrice_live [of XLM demo_quotes demo_options kept rejected] by (simp add: demo_usable) (simp add: demo_quotes_def)
  qed
  have "jle (Fin 0) (ao_maxStalenessMs demo_options)"
    by (simp add: demo_options_def DEFAULT_MAX_STALENESS_MS_def)
  from aggregatePrice_sound [OF demo_quotes_ok this, of XLM] live
  obtain kept rejected p q1 q2 where *: "mset kept + mset rejected = mset demo_quotes" "ap_priceUsd ?a = Some (Fin p)"
      "q1 \<in> set kept" "q2 \<in> set kept" "num_key (pq_priceUsd q1) \<le> p" "p \<le> num_key (pq_priceUsd q2)"
    unfolding Let_def demo_usable by blast
  from *(1) have "set kept \<union> set rejected = set demo_quotes"
    by (metis set_mset_mset set_mset_union)
  with *(3,4) have "q1 \<in> set demo_quotes" "q2 \<in> set demo_quotes"
    by blast+
  with * show ?thesis
    by (intro exI [of _ p]) (auto simp: demo_quotes_def demo_quote_def)
qed

text \<open>A source that reports 250 dollars among two that report 100 and 101.\<close>

lemma honest_majority_decides_witness:
  "\<exists>p. ap_priceUsd (aggregatePrice XLM demo_quotes demo_options) = Some (Fin p) \<and> 89 \<le> p \<and> p \<le> 112"
proof -
  have "1 / 10 ^ 100 \<le> (100 :: rat)"
    by simp
  moreover have "ao_outlierToleranceBps demo_options = DEFAULT_OUTLIER_TOLERANCE_BPS"
    by (simp add: demo_options_def)
  moreover have "3 \<le> length demo_quotes"
      "length demo_quotes < 2 * length (filter (\<lambda>q. 100 \<le> num_key (pq_priceUsd q) \<and> num_key (pq_priceUsd q) \<le> 101) demo_quotes)"
    by (simp_all add: demo_quotes_def demo_quote_def)
  ultimately obtain p where "ap_priceUsd (aggregatePrice XLM demo_quotes demo_options) = Some (Fin p)"
      "100 * (8999 / 10000) \<le> p" "p \<le> 101 * (11001 / 10000)"
    using honest_majority_decides [OF demo_quotes_ok, of demo_options 100 XLM 101] unfolding demo_usable by blast
  then show ?thesis
    by (intro exI [of _ p]) auto
qed

end
