(* ===== verification/OracleSources.thy ===== *)
theory OracleSources
  imports OraclePrices
begin

text \<open>
  The price sources, \<open>src/lib/oracle/sources.ts\<close>, and the cached look-up of live prices,
  \<open>src/lib/oracle/live-prices.ts\<close>. The network is a parameter: what a request for an address
  gives, with the timeout and every other failure as one outcome. The two reads of the clock of
  an adapter are one argument.
\<close>

subsection \<open>Fetching\<close>

text \<open>A request fails (or times out), or it has a status and a body that may not be JSON.\<close>

datatype http_result = HttpFailed | HttpResponse bool "jsval option"

type_synonym http = "string \<Rightarrow> http_result"

definition fetchJsonSafe :: "http \<Rightarrow> string \<Rightarrow> jsval" where
  "fetchJsonSafe fetch url =
     (case fetch url of
        HttpResponse True (Some data) \<Rightarrow> data
      | _ \<Rightarrow> JNull)"

text \<open>\<open>typeof v === "object"\<close> of a value that is not null\<close>

definition object_like :: "jsval \<Rightarrow> bool" where
  "object_like v \<longleftrightarrow> (case v of JObj _ \<Rightarrow> True | JArr _ \<Rightarrow> True | _ \<Rightarrow> False)"

definition readNumber :: "jsval \<Rightarrow> jsnum option" where
  "readNumber v =
     (let n = (case v of JStr s \<Rightarrow> JNum (string_to_number s) | _ \<Rightarrow> v)
      in case n of JNum x \<Rightarrow> (if is_finite x \<and> \<not> jle x (Fin 0) then Some x else None) | _ \<Rightarrow> None)"

record price_source =
  src_name :: string
  src_fetchPrices :: "price_symbol list \<Rightarrow> price_quote list option"

subsection \<open>The adapters\<close>

fun join_with :: "string \<Rightarrow> string list \<Rightarrow> string" where
  "join_with sep [] = []"
| "join_with sep [w] = w"
| "join_with sep (w # ws) = w @ sep @ join_with sep ws"

fun COINGECKO_IDS :: "price_symbol \<Rightarrow> string" where
  "COINGECKO_IDS XLM = ''stellar''"
| "COINGECKO_IDS BTC = ''bitcoin''"

fun BINANCE_PAIRS :: "price_symbol \<Rightarrow> string" where
  "BINANCE_PAIRS XLM = ''XLMUSDT''"
| "BINANCE_PAIRS BTC = ''BTCUSDT''"

definition quote_of :: "string \<Rightarrow> jsnum \<Rightarrow> price_symbol \<Rightarrow> jsnum \<Rightarrow> price_quote" where
  "quote_of source now symb price =
     \<lparr>pq_symbol = symb, pq_priceUsd = price, pq_source = source, pq_observedAt = now\<rparr>"

definition coinGecko_quotes :: "jsnum \<Rightarrow> price_symbol list \<Rightarrow> jsval \<Rightarrow> price_quote list" where
  "coinGecko_quotes now symbols data =
     (if \<not> object_like data then []
      else List.map_filter (\<lambda>symb.
             let entry = js_get data (COINGECKO_IDS symb)
             in if \<not> object_like entry then None
                else map_option (quote_of ''coingecko'' now symb) (readNumber (js_get entry ''usd''))) symbols)"

definition createCoinGeckoSource :: "http \<Rightarrow> string \<Rightarrow> jsnum \<Rightarrow> price_source" where
  "createCoinGeckoSource fetch baseUrl now =
     \<lparr>src_name = ''coingecko'',
      src_fetchPrices = (\<lambda>symbols.
        let ids = map COINGECKO_IDS symbols
        in Some (if ids = [] then []
            else coinGecko_quotes now symbols
              (fetchJsonSafe fetch (baseUrl @ ''/simple/price?ids='' @ join_with '','' ids @ ''&vs_currencies=usd''))))\<rparr>"

text \<open>The rows of the answer by pair, a later row before an earlier one.\<close>

definition binance_prices :: "jsval list \<Rightarrow> (string \<times> jsnum) list" where
  "binance_prices rows =
     rev (List.map_filter (\<lambda>row.
       if \<not> object_like row then None
       else case (js_get row ''symbol'', readNumber (js_get row ''price'')) of
              (JStr pair, Some price) \<Rightarrow> Some (pair, price)
            | _ \<Rightarrow> None) rows)"

definition binance_quotes :: "jsnum \<Rightarrow> price_symbol list \<Rightarrow> jsval \<Rightarrow> price_quote list" where
  "binance_quotes now symbols data =
     (case data of
        JArr rows \<Rightarrow> List.map_filter (\<lambda>symb. map_option (quote_of ''binance'' now symb)
                        (map_of (binance_prices rows) (BINANCE_PAIRS symb))) symbols
      | _ \<Rightarrow> [])"

text \<open>\<open>encodeURIComponent(JSON.stringify(pairs))\<close>, for pairs of capital letters\<close>

definition binance_url :: "string \<Rightarrow> string list \<Rightarrow> string" where
  "binance_url baseUrl pairs =
     baseUrl @ ''/ticker/price?symbols='' @ ''%5B''
       @ join_with ''%2C'' (map (\<lambda>p. ''%22'' @ p @ ''%22'') pairs) @ ''%5D''"

definition createBinanceSource :: "http \<Rightarrow> string \<Rightarrow> jsnum \<Rightarrow> price_source" where
  "createBinanceSource fetch baseUrl now =
     \<lparr>src_name = ''binance'',
      src_fetchPrices = (\<lambda>symbols.
        let pairs = map BINANCE_PAIRS symbols
        in Some (if pairs = [] then [] else binance_quotes now symbols (fetchJsonSafe fetch (binance_url baseUrl pairs))))\<rparr>"

definition first_price :: "jsval \<Rightarrow> jsnum option" where
  "first_price side = (case side of JArr (row # _) \<Rightarrow> readNumber (js_get row ''price'') | _ \<Rightarrow> None)"

definition dex_quotes :: "jsnum \<Rightarrow> jsval \<Rightarrow> price_quote list" where
  "dex_quotes now data =
     (if \<not> object_like data then []
      else case (first_price (js_get data ''bids''), first_price (js_get data ''asks'')) of
             (Some bid, Some ask) \<Rightarrow> [quote_of ''stellar-dex'' now XLM (jdiv (jadd bid ask) (Fin 2))]
           | _ \<Rightarrow> [])"

definition createStellarDexSource :: "http \<Rightarrow> string \<Rightarrow> string \<Rightarrow> jsnum \<Rightarrow> price_source" where
  "createStellarDexSource fetch horizonUrl usdcIssuer now =
     \<lparr>src_name = ''stellar-dex'',
      src_fetchPrices = (\<lambda>symbols.
        Some (if XLM \<notin> set symbols then []
         else dex_quotes now (fetchJsonSafe fetch
           (horizonUrl @ ''/order_book?selling_asset_type=native&buying_asset_type=credit_alphanum4''
             @ ''&buying_asset_code=USDC&buying_asset_issuer='' @ usdcIssuer @ ''&limit=1''))))\<rparr>"

subsection \<open>All sources\<close>

definition source_answered :: "price_symbol list \<Rightarrow> price_source \<Rightarrow> bool" where
  "source_answered symbols s \<longleftrightarrow> (case src_fetchPrices s symbols of Some (_ # _) \<Rightarrow> True | _ \<Rightarrow> False)"

definition collectQuotes :: "price_source list \<Rightarrow> price_symbol list \<Rightarrow> price_quote list \<times> string list" where
  "collectQuotes sources symbols =
     (concat (map (\<lambda>s. case src_fetchPrices s symbols of Some qs \<Rightarrow> qs | None \<Rightarrow> []) sources),
      map src_name (filter (\<lambda>s. \<not> source_answered symbols s) sources))"

definition createDefaultSources :: "(string \<Rightarrow> string option) \<Rightarrow> http \<Rightarrow> jsnum \<Rightarrow> price_source list" where
  "createDefaultSources env fetch now =
     (if env ''ORACLE_DISABLE_COINGECKO'' \<noteq> Some ''true''
      then [createCoinGeckoSource fetch ''https://api.coingecko.com/api/v3'' now] else [])
     @ (if env ''ORACLE_DISABLE_BINANCE'' \<noteq> Some ''true''
        then [createBinanceSource fetch ''https://api.binance.com/api/v3'' now] else [])
     @ (if env ''ORACLE_DISABLE_STELLAR_DEX'' \<noteq> Some ''true''
        then [createStellarDexSource fetch
          (case env ''STELLAR_HORIZON_URL'' of Some u \<Rightarrow> u | None \<Rightarrow> ''https://horizon.stellar.org'')
          (case env ''ORACLE_USDC_ISSUER'' of Some i \<Rightarrow> i
           | None \<Rightarrow> ''GA5ZSEJYB37JRC5AVCIA5MOP4RHTM335X2KGX3IHOJAPP5RE34K4KZVN'') now] else [])"

subsection \<open>Live prices\<close>

record live_cache =
  lc_cache :: "price_symbol \<Rightarrow> (aggregated_price \<times> jsnum) option"
  lc_lastGood :: "price_symbol \<Rightarrow> cached_price option"

definition LIVE_PRICE_TTL_MS :: jsnum where "LIVE_PRICE_TTL_MS = Fin 5000"

definition resetLivePriceCache :: live_cache where
  "resetLivePriceCache = \<lparr>lc_cache = (\<lambda>_. None), lc_lastGood = (\<lambda>_. None)\<rparr>"

definition within_ttl :: "live_cache \<Rightarrow> jsnum \<Rightarrow> jsnum \<Rightarrow> price_symbol \<Rightarrow> bool" where
  "within_ttl lc now ttl symb \<longleftrightarrow>
     (case lc_cache lc symb of Some (_, fetchedAt) \<Rightarrow> jlt (jsub now fetchedAt) ttl | None \<Rightarrow> False)"

definition refresh_price :: "jsnum \<Rightarrow> (price_symbol \<Rightarrow> jsnum option) \<Rightarrow> price_quote list \<Rightarrow> price_symbol \<Rightarrow> live_cache \<Rightarrow> live_cache" where
  "refresh_price now twap quotes symb lc =
     (let price = aggregatePrice symb quotes
            \<lparr>ao_now = now, ao_maxStalenessMs = DEFAULT_MAX_STALENESS_MS,
             ao_outlierToleranceBps = DEFAULT_OUTLIER_TOLERANCE_BPS,
             ao_cached = lc_lastGood lc symb, ao_twapUsd = twap symb\<rparr>;
          lastGood = (case (ap_origin price, ap_priceUsd price) of
             (OriginLive, Some p) \<Rightarrow> (lc_lastGood lc)(symb \<mapsto> \<lparr>cp_priceUsd = p, cp_observedAt = now\<rparr>)
           | _ \<Rightarrow> lc_lastGood lc)
      in \<lparr>lc_cache = (lc_cache lc)(symb \<mapsto> (price, now)), lc_lastGood = lastGood\<rparr>)"

definition getLivePrices :: "price_source list \<Rightarrow> jsnum \<Rightarrow> jsnum \<Rightarrow> (price_symbol \<Rightarrow> jsnum option) \<Rightarrow> price_symbol list
    \<Rightarrow> live_cache \<Rightarrow> (price_symbol \<Rightarrow> aggregated_price option) \<times> live_cache" where
  "getLivePrices sources now ttl twap symbols lc =
     (let needed = filter (\<lambda>s. \<not> within_ttl lc now ttl s) symbols;
          lc' = (if needed = [] then lc
                 else fold (refresh_price now twap (fst (collectQuotes sources needed))) needed lc)
      in (\<lambda>s. if s \<in> set symbols then map_option fst (lc_cache lc' s) else None, lc'))"

definition getLivePriceUsd :: "price_source list \<Rightarrow> jsnum \<Rightarrow> jsnum \<Rightarrow> (price_symbol \<Rightarrow> jsnum option) \<Rightarrow> price_symbol
    \<Rightarrow> live_cache \<Rightarrow> jsnum option \<times> live_cache" where
  "getLivePriceUsd sources now ttl twap symb lc =
     (let (prices, lc') = getLivePrices sources now ttl twap [symb] lc
      in (Option.bind (prices symb) ap_priceUsd, lc'))"

end
