(* ===== verification/OracleKeeper.thy ===== *)
theory OracleKeeper
  imports OracleSources Server
begin

text \<open>
  The price keeper, \<open>src/scripts/price-oracle-keeper.ts\<close>: its configuration, and one cycle of
  polling, aggregating and publishing over the state it keeps between cycles. The publisher is a
  parameter; what it is asked to publish and the alerts are a log.
\<close>

subsection \<open>Configuration\<close>

record keeper_config =
  kc_intervalMs :: jsnum
  kc_once :: bool
  kc_dryRun :: bool
  kc_maxStalenessMs :: jsnum
  kc_assetAddresses :: "price_symbol \<Rightarrow> string option"
  kc_lendingContractId :: string
  kc_adminAddress :: string
  kc_slackWebhookUrl :: "string option"
  kc_discordWebhookUrl :: "string option"

text \<open>\<open>s.split("=")\<close>\<close>

fun split_equals :: "string \<Rightarrow> string list" where
  "split_equals [] = [[]]"
| "split_equals (c # s) =
     (if c = CHR ''='' then [] # split_equals s
      else case split_equals s of [] \<Rightarrow> [[c]] | w # ws \<Rightarrow> (c # w) # ws)"

definition parse_arg :: "string \<Rightarrow> (string \<times> jsval) option" where
  "parse_arg arg =
     (if \<not> is_prefix ''--'' arg then None
      else case split_equals (drop 2 arg) of
        key # val # _ \<Rightarrow> Some (key, JStr val)
      | [key] \<Rightarrow> Some (key, JBool True)
      | [] \<Rightarrow> None)"

definition parseArgs :: "string list \<Rightarrow> jsval" where
  "parseArgs argv = JObj (List.map_filter parse_arg argv)"

definition env_value :: "(string \<Rightarrow> string option) \<Rightarrow> string \<Rightarrow> jsval" where
  "env_value env k = (case env k of Some v \<Rightarrow> JStr v | None \<Rightarrow> JUndef)"

definition env_or :: "(string \<Rightarrow> string option) \<Rightarrow> string \<Rightarrow> string \<Rightarrow> string option" where
  "env_or env k k' = (case env k of Some v \<Rightarrow> Some v | None \<Rightarrow> env k')"

definition loadOracleConfig :: "string list \<Rightarrow> (string \<Rightarrow> string option) \<Rightarrow> keeper_config" where
  "loadOracleConfig argv env =
     (let args = parseArgs argv;
          intervalRaw = js_nullish (js_get args ''interval'') (env_value env ''ORACLE_POLL_INTERVAL_SECS'');
          intervalSecs = (if js_truthy intervalRaw then js_to_number intervalRaw else Fin 0)
      in \<lparr>kc_intervalMs = (if num_truthy intervalSecs \<and> jlt (Fin 0) intervalSecs then jmul intervalSecs (Fin 1000) else Fin 5000),
          kc_once = (js_truthy (js_get args ''once'') \<or> env ''ORACLE_RUN_ONCE'' = Some ''true''),
          kc_dryRun = (js_truthy (js_get args ''dry-run'') \<or> env ''ORACLE_DRY_RUN'' = Some ''true''),
          kc_maxStalenessMs = (case env ''ORACLE_MAX_STALENESS_MS'' of
             Some v \<Rightarrow> string_to_number v | None \<Rightarrow> DEFAULT_MAX_STALENESS_MS),
          kc_assetAddresses = (\<lambda>s. case s of XLM \<Rightarrow> env ''ORACLE_XLM_ASSET_ADDRESS'' | BTC \<Rightarrow> env ''ORACLE_BTC_ASSET_ADDRESS''),
          kc_lendingContractId = (case env ''NEXT_PUBLIC_LENDING_CONTRACT_ID'' of Some v \<Rightarrow> v | None \<Rightarrow> []),
          kc_adminAddress = (case env ''NEXT_PUBLIC_ADMIN_ADDRESS'' of Some v \<Rightarrow> v | None \<Rightarrow> []),
          kc_slackWebhookUrl = env_or env ''ORACLE_SLACK_WEBHOOK_URL'' ''LIQUIDATION_SLACK_WEBHOOK_URL'',
          kc_discordWebhookUrl = env_or env ''ORACLE_DISCORD_WEBHOOK_URL'' ''LIQUIDATION_DISCORD_WEBHOOK_URL''\<rparr>)"

subsection \<open>A cycle\<close>

text \<open>\<open>pub_publish\<close> says whether publishing went through; \<open>pub_readTwap\<close> is \<open>None\<close> for no value and for a failure.\<close>

record price_publisher =
  pub_publish :: "price_symbol \<Rightarrow> string \<Rightarrow> int \<Rightarrow> bool"
  pub_readTwap :: "price_symbol \<Rightarrow> string \<Rightarrow> jsnum option"

record cycle_summary =
  cy_polled :: nat
  cy_published :: nat
  cy_skipped :: nat
  cy_unavailable :: nat
  cy_failed :: nat
  cy_results :: "aggregated_price list"

record keeper_state =
  ks_lastGood :: "price_symbol \<Rightarrow> cached_price option"
  ks_lastPublished :: "price_symbol \<Rightarrow> cached_price option"

datatype keeper_event =
    AskedToPublish price_symbol string int price_origin
  | OutageAlert price_symbol

definition createInitialState :: keeper_state where
  "createInitialState = \<lparr>ks_lastGood = (\<lambda>_. None), ks_lastPublished = (\<lambda>_. None)\<rparr>"

definition address_of :: "keeper_config \<Rightarrow> price_symbol \<Rightarrow> string option" where
  "address_of cfg symb = (case kc_assetAddresses cfg symb of Some (c # cs) \<Rightarrow> Some (c # cs) | _ \<Rightarrow> None)"

definition cycle_twap :: "keeper_config \<Rightarrow> price_publisher \<Rightarrow> price_quote list \<Rightarrow> price_symbol \<Rightarrow> jsnum option" where
  "cycle_twap cfg pub quotes symb =
     (case address_of cfg symb of
        Some a \<Rightarrow> if filter (\<lambda>q. pq_symbol q = symb) quotes = [] then pub_readTwap pub symb a else None
      | None \<Rightarrow> None)"

definition cycle_price :: "keeper_config \<Rightarrow> price_publisher \<Rightarrow> price_quote list \<Rightarrow> jsnum \<Rightarrow> price_symbol \<Rightarrow> keeper_state \<Rightarrow> aggregated_price" where
  "cycle_price cfg pub quotes now symb st = aggregatePrice symb quotes
     \<lparr>ao_now = now, ao_maxStalenessMs = kc_maxStalenessMs cfg, ao_outlierToleranceBps = DEFAULT_OUTLIER_TOLERANCE_BPS,
      ao_cached = ks_lastGood st symb, ao_twapUsd = cycle_twap cfg pub quotes symb\<rparr>"

definition remember_live :: "price_symbol \<Rightarrow> jsnum \<Rightarrow> jsnum \<Rightarrow> price_origin \<Rightarrow> keeper_state \<Rightarrow> keeper_state" where
  "remember_live symb now p origin st =
     (if origin = OriginLive then st\<lparr>ks_lastGood := (ks_lastGood st)(symb \<mapsto> \<lparr>cp_priceUsd = p, cp_observedAt = now\<rparr>)\<rparr> else st)"

type_synonym cycle = "keeper_state \<times> cycle_summary \<times> keeper_event list"

definition publish_price :: "keeper_config \<Rightarrow> price_publisher \<Rightarrow> jsnum \<Rightarrow> price_symbol \<Rightarrow> aggregated_price \<Rightarrow> jsnum \<Rightarrow> cycle \<Rightarrow> cycle" where
  "publish_price cfg pub now symb result p = (\<lambda>(st, sm, log).
     case address_of cfg symb of
       None \<Rightarrow> (st, sm\<lparr>cy_skipped := cy_skipped sm + 1\<rparr>, log)
     | Some a \<Rightarrow>
         if \<not> shouldPublish result (ks_lastPublished st symb) now (Fin 25) (Fin 60000) then
           (st, sm\<lparr>cy_skipped := cy_skipped sm + 1\<rparr>, log)
         else case toChainPrice p of
           None \<Rightarrow> (st, sm\<lparr>cy_failed := cy_failed sm + 1\<rparr>, log)
         | Some n \<Rightarrow>
             (if pub_publish pub symb a n then
                (st\<lparr>ks_lastPublished := (ks_lastPublished st)(symb \<mapsto> \<lparr>cp_priceUsd = p, cp_observedAt = now\<rparr>)\<rparr>,
                 sm\<lparr>cy_published := cy_published sm + 1\<rparr>, log @ [AskedToPublish symb a n (ap_origin result)])
              else (st, sm\<lparr>cy_failed := cy_failed sm + 1\<rparr>, log @ [AskedToPublish symb a n (ap_origin result)])))"

definition cycle_symbol :: "keeper_config \<Rightarrow> price_publisher \<Rightarrow> price_quote list \<Rightarrow> jsnum \<Rightarrow> price_symbol \<Rightarrow> cycle \<Rightarrow> cycle" where
  "cycle_symbol cfg pub quotes now symb = (\<lambda>(st, sm, log).
     let result = cycle_price cfg pub quotes now symb st;
         sm' = sm\<lparr>cy_results := cy_results sm @ [result]\<rparr>
     in case ap_priceUsd result of
          None \<Rightarrow> (st, sm'\<lparr>cy_unavailable := cy_unavailable sm + 1\<rparr>, log @ [OutageAlert symb])
        | Some p \<Rightarrow> publish_price cfg pub now symb result p (remember_live symb now p (ap_origin result) st, sm', log))"

definition runOracleCycle :: "keeper_config \<Rightarrow> price_source list \<Rightarrow> price_publisher \<Rightarrow> jsnum \<Rightarrow> keeper_state \<Rightarrow> cycle" where
  "runOracleCycle cfg sources pub now st =
     (let quotes = fst (collectQuotes sources TRACKED_SYMBOLS)
      in fold (cycle_symbol cfg pub quotes now) TRACKED_SYMBOLS
           (st, \<lparr>cy_polled = length quotes, cy_published = 0, cy_skipped = 0, cy_unavailable = 0, cy_failed = 0, cy_results = []\<rparr>, []))"

text \<open>The count of cycles without a price, and the alert it gives: none, a sustained outage, or the recovery.\<close>

datatype outage_alert = SustainedOutage nat | Recovered nat

definition outage_step :: "nat \<Rightarrow> cycle_summary \<Rightarrow> nat \<times> outage_alert option" where
  "outage_step consecutiveOutages sm =
     (if 0 < cy_unavailable sm then
        (consecutiveOutages + 1, if consecutiveOutages + 1 = 12 then Some (SustainedOutage 12) else None)
      else if 0 < consecutiveOutages then (0, Some (Recovered consecutiveOutages))
      else (0, None))"

subsection \<open>Runs of the keeper\<close>

text \<open>
  A round has its sources, its publisher and its time; a run starts with nothing remembered and
  logs what it asks the publisher, with the time.
\<close>

type_synonym keeper_round = "price_source list \<times> price_publisher \<times> jsnum"

inductive keeper_run :: "keeper_config \<Rightarrow> keeper_round list \<Rightarrow> keeper_state \<Rightarrow> (jsnum \<times> keeper_event) list \<Rightarrow> bool" for cfg where
  start: "keeper_run cfg [] createInitialState []"
| cycle: "keeper_run cfg rounds st evs \<Longrightarrow> runOracleCycle cfg sources pub now st = (st', sm, events)
    \<Longrightarrow> keeper_run cfg (rounds @ [(sources, pub, now)]) st' (evs @ map (Pair now) events)"

inductive_cases keeper_run_snoc: "keeper_run cfg (rounds @ [r]) st evs"

text \<open>The live price a round sees, whatever was remembered before.\<close>

definition live_price :: "keeper_config \<Rightarrow> price_symbol \<Rightarrow> price_source list \<Rightarrow> jsnum \<Rightarrow> jsnum option" where
  "live_price cfg symb sources now =
     (let usable = usable_quotes symb (fst (collectQuotes sources TRACKED_SYMBOLS))
            \<lparr>ao_now = now, ao_maxStalenessMs = kc_maxStalenessMs cfg,
             ao_outlierToleranceBps = DEFAULT_OUTLIER_TOLERANCE_BPS, ao_cached = None, ao_twapUsd = None\<rparr>
      in if usable = [] then None
         else median (map pq_priceUsd (fst (rejectOutliers usable DEFAULT_OUTLIER_TOLERANCE_BPS))))"

text \<open>What is remembered comes from a live price of an earlier round.\<close>

definition remembers_live :: "keeper_config \<Rightarrow> keeper_round list \<Rightarrow> keeper_state \<Rightarrow> bool" where
  "remembers_live cfg rounds st \<longleftrightarrow>
     (\<forall>symb c. ks_lastGood st symb = Some c \<longrightarrow>
        (\<exists>sources pub. (sources, pub, cp_observedAt c) \<in> set rounds
           \<and> live_price cfg symb sources (cp_observedAt c) = Some (cp_priceUsd c)))"

text \<open>Where a published price may come from.\<close>

definition justified :: "keeper_config \<Rightarrow> keeper_round list \<Rightarrow> jsnum \<Rightarrow> keeper_event \<Rightarrow> bool" where
  "justified cfg rounds t event \<longleftrightarrow>
     (case event of
        OutageAlert _ \<Rightarrow> True
      | AskedToPublish symb a n origin \<Rightarrow>
          (\<exists>sources pub t0 p. (sources, pub, t0) \<in> set rounds \<and> toChainPrice p = Some n \<and>
             (origin = OriginLive \<and> t0 = t \<and> live_price cfg symb sources t0 = Some p
              \<or> origin = OriginCache \<and> jle (jsub t t0) (kc_maxStalenessMs cfg) \<and> live_price cfg symb sources t0 = Some p
              \<or> origin = OriginTwap \<and> t0 = t \<and> pub_readTwap pub symb a = Some p)))"

lemma usable_quotes_cong: "ao_now o1 = ao_now o2 \<Longrightarrow> ao_maxStalenessMs o1 = ao_maxStalenessMs o2
    \<Longrightarrow> usable_quotes symb quotes o1 = usable_quotes symb quotes o2"
  by (simp add: usable_quotes_def)

lemma cycle_price_cases:
  assumes "ap_priceUsd (cycle_price cfg pub (fst (collectQuotes sources TRACKED_SYMBOLS)) now symb st) = Some p"
  shows "(case ap_origin (cycle_price cfg pub (fst (collectQuotes sources TRACKED_SYMBOLS)) now symb st) of
      OriginLive \<Rightarrow> live_price cfg symb sources now = Some p
    | OriginCache \<Rightarrow> (\<exists>c. ks_lastGood st symb = Some c \<and> cp_priceUsd c = p \<and> jle (jsub now (cp_observedAt c)) (kc_maxStalenessMs cfg))
    | OriginTwap \<Rightarrow> (\<exists>a. address_of cfg symb = Some a \<and> pub_readTwap pub symb a = Some p)
    | OriginUnavailable \<Rightarrow> False)"
proof -
  let ?quotes = "fst (collectQuotes sources TRACKED_SYMBOLS)"
  let ?opt = "\<lparr>ao_now = now, ao_maxStalenessMs = kc_maxStalenessMs cfg, ao_outlierToleranceBps = DEFAULT_OUTLIER_TOLERANCE_BPS,
      ao_cached = ks_lastGood st symb, ao_twapUsd = cycle_twap cfg pub ?quotes symb\<rparr>"
  have live: "live_price cfg symb sources now = (if usable_quotes symb ?quotes ?opt = [] then None
      else median (map pq_priceUsd (fst (rejectOutliers (usable_quotes symb ?quotes ?opt) DEFAULT_OUTLIER_TOLERANCE_BPS))))"
    unfolding live_price_def Let_def by (simp add: usable_quotes_def)
  show ?thesis
  proof (cases "usable_quotes symb ?quotes ?opt = []")
    case True
    then show ?thesis
      using assms by (cases "ks_lastGood st symb"; cases "cycle_twap cfg pub ?quotes symb")
        (auto simp: cycle_price_def aggregatePrice_def no_live_price_def no_price_def cache_fresh_def cycle_twap_def
           split: if_splits option.splits)
  next
    case False
    then show ?thesis
      using assms live by (simp add: cycle_price_def aggregatePrice_def split: prod.splits)
  qed
qed

lemma remembers_live_mono: "remembers_live cfg rounds st \<Longrightarrow> set rounds \<subseteq> set rounds' \<Longrightarrow> remembers_live cfg rounds' st"
  unfolding remembers_live_def by blast

lemma justified_mono: "justified cfg rounds t ev \<Longrightarrow> set rounds \<subseteq> set rounds' \<Longrightarrow> justified cfg rounds' t ev"
  unfolding justified_def by (cases ev) (simp_all, blast)

lemma justified_publish:
  assumes "remembers_live cfg rounds st" "(sources, pub, now) \<in> set rounds"
    and "result = cycle_price cfg pub (fst (collectQuotes sources TRACKED_SYMBOLS)) now symb st"
    and "ap_priceUsd result = Some p" "toChainPrice p = Some n" "address_of cfg symb = Some a"
  shows "justified cfg rounds now (AskedToPublish symb a n (ap_origin result))"
proof -
  note c = cycle_price_cases [OF assms(4) [unfolded assms(3)], folded assms(3)]
  show ?thesis
  proof (cases "ap_origin result")
    case OriginCache
    then obtain c where "ks_lastGood st symb = Some c" "cp_priceUsd c = p" "jle (jsub now (cp_observedAt c)) (kc_maxStalenessMs cfg)"
      using c by auto
    moreover from this obtain sources' pub' where "(sources', pub', cp_observedAt c) \<in> set rounds"
        "live_price cfg symb sources' (cp_observedAt c) = Some (cp_priceUsd c)"
      using assms(1) unfolding remembers_live_def by blast
    ultimately show ?thesis
      using assms(5) OriginCache by (simp add: justified_def) blast
  qed (use c assms(2,5,6) in \<open>auto simp: justified_def\<close>)
qed

lemma remember_live_remembers:
  assumes "remembers_live cfg rounds st" "(sources, pub, now) \<in> set rounds"
    and "result = cycle_price cfg pub (fst (collectQuotes sources TRACKED_SYMBOLS)) now symb st" "ap_priceUsd result = Some p"
  shows "remembers_live cfg rounds (remember_live symb now p (ap_origin result) st)"
proof (cases "ap_origin result = OriginLive")
  case True
  then have "live_price cfg symb sources now = Some p"
    using cycle_price_cases [OF assms(4) [unfolded assms(3)], folded assms(3)] by simp
  then show ?thesis
    using assms(1,2) True by (auto simp: remember_live_def remembers_live_def)
next
  case False
  then show ?thesis
    using assms(1) by (simp add: remember_live_def)
qed

lemma remembers_live_cong: "ks_lastGood st' = ks_lastGood st \<Longrightarrow> remembers_live cfg rounds st' = remembers_live cfg rounds st"
  by (simp add: remembers_live_def)

lemma cycle_symbol_step:
  assumes "cycle_symbol cfg pub (fst (collectQuotes sources TRACKED_SYMBOLS)) now symb (st, sm, evs) = (st', sm', evs')"
    and "remembers_live cfg rounds st" "(sources, pub, now) \<in> set rounds" "list_all (justified cfg rounds now) evs"
  shows "remembers_live cfg rounds st' \<and> list_all (justified cfg rounds now) evs'"
proof -
  let ?result = "cycle_price cfg pub (fst (collectQuotes sources TRACKED_SYMBOLS)) now symb st"
  show ?thesis
  proof (cases "ap_priceUsd ?result")
    case None
    then show ?thesis
      using assms by (auto simp: cycle_symbol_def Let_def justified_def)
  next
    case (Some p)
    note st = remember_live_remembers [OF assms(2,3) refl Some]
    note pub = justified_publish [OF assms(2,3) refl Some]
    let ?st = "remember_live symb now p (ap_origin ?result) st"
    have same: "ks_lastPublished ?st = ks_lastPublished st"
      by (simp add: remember_live_def)
    have run: "publish_price cfg pub now symb ?result p (?st, sm\<lparr>cy_results := cy_results sm @ [?result]\<rparr>, evs) = (st', sm', evs')"
      using assms(1) Some by (simp add: cycle_symbol_def Let_def)
    have "evs' = evs \<or> (\<exists>a n. address_of cfg symb = Some a \<and> toChainPrice p = Some n
        \<and> evs' = evs @ [AskedToPublish symb a n (ap_origin ?result)])" and last: "ks_lastGood st' = ks_lastGood ?st"
      using run by (auto simp: publish_price_def split: option.splits if_splits)
    then have "list_all (justified cfg rounds now) evs'"
      using assms(4) pub by auto
    then show ?thesis
      using st remembers_live_cong [OF last] by simp
  qed
qed

lemma runOracleCycle_step:
  assumes "runOracleCycle cfg sources pub now st = (st', sm, events)" "remembers_live cfg rounds st" "(sources, pub, now) \<in> set rounds"
  shows "remembers_live cfg rounds st' \<and> list_all (justified cfg rounds now) events"
proof -
  obtain st1 sm1 ev1 where one: "cycle_symbol cfg pub (fst (collectQuotes sources TRACKED_SYMBOLS)) now XLM
      (st, \<lparr>cy_polled = length (fst (collectQuotes sources TRACKED_SYMBOLS)), cy_published = 0, cy_skipped = 0,
        cy_unavailable = 0, cy_failed = 0, cy_results = []\<rparr>, []) = (st1, sm1, ev1)"
    by (metis surj_pair)
  then have two: "cycle_symbol cfg pub (fst (collectQuotes sources TRACKED_SYMBOLS)) now BTC (st1, sm1, ev1) = (st', sm, events)"
    using assms(1) by (simp add: runOracleCycle_def Let_def TRACKED_SYMBOLS_def)
  have "remembers_live cfg rounds st1 \<and> list_all (justified cfg rounds now) ev1"
    using cycle_symbol_step [OF one assms(2,3)] by simp
  then show ?thesis
    using cycle_symbol_step [OF two _ assms(3)] by simp
qed

lemma keeper_run_invariant:
  assumes "keeper_run cfg rounds st evs"
  shows "remembers_live cfg rounds st \<and> list_all (\<lambda>(t, ev). justified cfg rounds t ev) evs"
  using assms
proof induction
  case start
  then show ?case
    by (simp add: remembers_live_def createInitialState_def)
next
  case (cycle rounds st evs sources pub now st' sm events)
  let ?rounds = "rounds @ [(sources, pub, now)]"
  have "remembers_live cfg ?rounds st" "list_all (\<lambda>(t, ev). justified cfg ?rounds t ev) evs"
    using cycle.IH remembers_live_mono [of cfg rounds st ?rounds] justified_mono [of cfg rounds _ _ ?rounds]
    by (auto simp: list_all_iff subset_insertI)
  moreover from this have "remembers_live cfg ?rounds st' \<and> list_all (justified cfg ?rounds now) events"
    using runOracleCycle_step [OF cycle.hyps(2)] by simp
  ultimately show ?case
    by (auto simp: list_all_iff)
qed

text \<open>C36: no published price outlives its evidence: over any number of cycles, whatever the sources and
  the publisher do, every price the keeper asks to have written is, in the contract's units, a
  live price of the same cycle, the live price of an earlier cycle no older than the staleness
  limit, or the average the chain itself reported in that cycle. A cached price never renews itself.\<close>

theorem keeper_publishes_evidence:
  assumes "keeper_run cfg rounds st evs" "(t, AskedToPublish symb a n origin) \<in> set evs"
  shows "\<exists>sources pub t0 p. (sources, pub, t0) \<in> set rounds \<and> toChainPrice p = Some n
    \<and> (origin = OriginLive \<and> t0 = t \<and> live_price cfg symb sources t0 = Some p
       \<or> origin = OriginCache \<and> jle (jsub t t0) (kc_maxStalenessMs cfg) \<and> live_price cfg symb sources t0 = Some p
       \<or> origin = OriginTwap \<and> t0 = t \<and> pub_readTwap pub symb a = Some p)"
  using keeper_run_invariant [OF assms(1)] assms(2) by (auto simp: list_all_iff justified_def)

subsection \<open>Only two sources quote bitcoin\<close>

lemma map_filter_symbols:
  assumes "\<And>s q. f s = Some q \<Longrightarrow> pq_symbol q = s"
  shows "length (filter (\<lambda>q. pq_symbol q = BTC) (List.map_filter f [XLM, BTC])) \<le> 1"
  using assms by (cases "f XLM"; cases "f BTC") (auto simp: List.map_filter_def)

definition btc_quotes :: "price_source \<Rightarrow> price_quote list" where
  "btc_quotes s = filter (\<lambda>q. pq_symbol q = BTC) (case src_fetchPrices s TRACKED_SYMBOLS of Some qs \<Rightarrow> qs | None \<Rightarrow> [])"

lemma quote_of_symbol [simp]: "pq_symbol (quote_of src now s p) = s"
  by (simp add: quote_of_def)

lemma coinGecko_btc: "length (filter (\<lambda>q. pq_symbol q = BTC) (coinGecko_quotes now [XLM, BTC] data)) \<le> 1"
proof (cases "object_like data")
  case True
  show ?thesis
    unfolding coinGecko_quotes_def using True
    by (simp only: not_True_eq_False if_False) (rule map_filter_symbols, auto simp: Let_def split: if_splits)
qed (simp add: coinGecko_quotes_def)

lemma binance_btc: "length (filter (\<lambda>q. pq_symbol q = BTC) (binance_quotes now [XLM, BTC] data)) \<le> 1"
proof (cases "\<exists>rows. data = JArr rows")
  case True
  then obtain rows where data: "data = JArr rows" by blast
  show ?thesis
    unfolding binance_quotes_def data jsval.case by (rule map_filter_symbols) auto
qed (cases data; simp add: binance_quotes_def)

lemma btc_quotes_le:
  "length (btc_quotes (createCoinGeckoSource fetch url now)) \<le> 1"
  "length (btc_quotes (createBinanceSource fetch url now)) \<le> 1"
  "length (btc_quotes (createStellarDexSource fetch url issuer now)) = 0"
  using coinGecko_btc binance_btc
  by (auto simp: btc_quotes_def createCoinGeckoSource_def createBinanceSource_def createStellarDexSource_def dex_quotes_def
      TRACKED_SYMBOLS_def Let_def split: option.split)

text \<open>A bad bitcoin price is never rejected: with the default sources, whatever they answer, the
  outlier test has at most two bitcoin quotes and keeps both, so the price is the mean of the two.
  When one answers 65000 dollars and the other, its decimal point shifted, 6500, the live price is
  35750 with both named as contributing.\<close>

theorem btc_outliers_kept:
  "ap_rejectedSources (aggregatePrice BTC (fst (collectQuotes (createDefaultSources env fetch now) TRACKED_SYMBOLS)) opt) = []
   \<and> aggregatePrice BTC [quote_of ''coingecko'' (Fin 0) BTC (Fin 65000), quote_of ''binance'' (Fin 0) BTC (Fin 6500)]
        \<lparr>ao_now = Fin 0, ao_maxStalenessMs = DEFAULT_MAX_STALENESS_MS, ao_outlierToleranceBps = DEFAULT_OUTLIER_TOLERANCE_BPS,
         ao_cached = None, ao_twapUsd = None\<rparr>
      = \<lparr>ap_symbol = BTC, ap_priceUsd = Some (Fin 35750), ap_origin = OriginLive,
         ap_contributingSources = [''coingecko'', ''binance''], ap_rejectedSources = [], ap_ageMs = Fin 0\<rparr>"
proof
  let ?quotes = "fst (collectQuotes (createDefaultSources env fetch now) TRACKED_SYMBOLS)"
  have "filter (\<lambda>q. pq_symbol q = BTC) ?quotes = concat (map btc_quotes (createDefaultSources env fetch now))"
    by (simp add: collectQuotes_def btc_quotes_def [abs_def] filter_concat o_def)
  also have "length \<dots> \<le> 2"
    using btc_quotes_le(1) [of fetch "''https://api.coingecko.com/api/v3''" now] btc_quotes_le(2) [of fetch "''https://api.binance.com/api/v3''" now]
    by (simp add: createDefaultSources_def btc_quotes_le(3) [simplified])
  finally have "length (filter (\<lambda>q. pq_symbol q = BTC) ?quotes) \<le> 2" .
  moreover have "usable_quotes BTC ?quotes opt = filter (\<lambda>q. isUsableQuote q
      \<and> jle (jsub (ao_now opt) (pq_observedAt q)) (ao_maxStalenessMs opt)) (filter (\<lambda>q. pq_symbol q = BTC) ?quotes)"
    by (simp add: usable_quotes_def conj_commute conj_left_commute)
  ultimately have "length (usable_quotes BTC ?quotes opt) \<le> 2"
    by (metis (no_types, lifting) length_filter_le order_trans)
  then have "rejectOutliers (usable_quotes BTC ?quotes opt) tol = (usable_quotes BTC ?quotes opt, [])" for tol
    by (simp add: rejectOutliers_def)
  then show "ap_rejectedSources (aggregatePrice BTC ?quotes opt) = []"
    by (simp add: aggregatePrice_def no_live_price_def no_price_def Let_def split: option.split)
next
  show "aggregatePrice BTC [quote_of ''coingecko'' (Fin 0) BTC (Fin 65000), quote_of ''binance'' (Fin 0) BTC (Fin 6500)]
        \<lparr>ao_now = Fin 0, ao_maxStalenessMs = DEFAULT_MAX_STALENESS_MS, ao_outlierToleranceBps = DEFAULT_OUTLIER_TOLERANCE_BPS,
         ao_cached = None, ao_twapUsd = None\<rparr>
      = \<lparr>ap_symbol = BTC, ap_priceUsd = Some (Fin 35750), ap_origin = OriginLive,
         ap_contributingSources = [''coingecko'', ''binance''], ap_rejectedSources = [], ap_ageMs = Fin 0\<rparr>"
    by code_simp
qed

subsection \<open>An example run\<close>

definition demo_source :: price_source where
  "demo_source = \<lparr>src_name = ''s'', src_fetchPrices = (\<lambda>_. Some [demo_quote ''s'' 1])\<rparr>"

definition demo_publisher :: price_publisher where
  "demo_publisher = \<lparr>pub_publish = (\<lambda>_ _ _. True), pub_readTwap = (\<lambda>_ _. None)\<rparr>"

definition demo_keeper :: keeper_config where
  "demo_keeper = loadOracleConfig [''--once''] (\<lambda>k. if k = ''ORACLE_XLM_ASSET_ADDRESS'' then Some ''C'' else None)"

lemma demo_cycle: "snd (snd (runOracleCycle demo_keeper [demo_source] demo_publisher (Fin 2000) createInitialState))
    = [AskedToPublish XLM ''C'' 10000000 OriginLive, OutageAlert BTC]"
  by code_simp

lemma keeper_publishes_evidence_witness:
  "live_price demo_keeper XLM [demo_source] (Fin 2000) \<noteq> None"
proof -
  obtain st sm evs where c: "runOracleCycle demo_keeper [demo_source] demo_publisher (Fin 2000) createInitialState = (st, sm, evs)"
    by (metis surj_pair)
  from keeper_run.cycle [OF keeper_run.start this]
  have "keeper_run demo_keeper [([demo_source], demo_publisher, Fin 2000)] st (map (Pair (Fin 2000)) evs)"
    by simp
  from keeper_publishes_evidence [OF this, of "Fin 2000" XLM "''C''" 10000000 OriginLive]
  show ?thesis
    using c demo_cycle by auto
qed

end
