(* ===== verification/RateLimit.thy ===== *)
theory RateLimit
  imports JsValue Server "HOL-Library.AList"
begin

text \<open>
  Rate limiting, \<open>src/lib/rate-limit.ts\<close>: the policies of the routes, the in-memory store of fixed
  windows, who is exempt, and the check every route starts with. The shared store of a deployment
  with Redis is a parameter. Times are whole milliseconds.
\<close>

subsection \<open>Policies\<close>

record rate_policy =
  rp_limit :: int
  rp_window :: string

definition policy :: "int \<Rightarrow> string \<Rightarrow> rate_policy" where
  "policy n w = \<lparr>rp_limit = n, rp_window = w\<rparr>"

definition MAX_LOCAL_BUCKETS :: nat where "MAX_LOCAL_BUCKETS = 10000"
definition DEFAULT_POLICY :: rate_policy where "DEFAULT_POLICY = policy 20 ''1 m''"
definition GLOBAL_API_POLICY :: rate_policy where "GLOBAL_API_POLICY = policy 100 ''1 m''"

definition ROUTE_POLICIES :: "(string \<times> rate_policy) list" where
  "ROUTE_POLICIES =
     [(''/api/loans/apply'', policy 5 ''10 m''), (''/api/loans/fund'', policy 10 ''10 m''),
      (''/api/loans/repay'', policy 10 ''10 m''), (''/api/loans/repay/preflight'', policy 30 ''1 m''),
      (''/api/loans/repayments'', policy 30 ''1 m''), (''/api/pools'', policy 60 ''1 m''),
      (''/api/pools/deposit'', policy 15 ''10 m''), (''/api/pools/withdraw'', policy 10 ''10 m''),
      (''/api/sponsor'', policy 10 ''1 m''), (''/api/tasks/complete'', policy 30 ''10 m''),
      (''/api/notifications/clear'', policy 20 ''1 m''), (''/api/kyc/token'', policy 10 ''1 m''),
      (''/api/kyc/webhook'', policy 20 ''10 m''), (''/api/analytics'', policy 60 ''1 m''),
      (''/api/reputation'', policy 60 ''1 m''), (''/api/notifications'', policy 60 ''1 m''),
      (''/api/borrower/transactions'', policy 60 ''1 m''), (''/api/lender/transactions'', policy 60 ''1 m''),
      (''/api/lender/tax-report'', policy 5 ''10 m''), (''/api/treasury'', policy 60 ''1 m''),
      (''/api/metrics'', policy 60 ''1 m''), (''/api/admin/webhooks'', policy 30 ''1 m''),
      (''/api/admin/risk-parameters'', policy 20 ''1 m'')]"

text \<open>\<open>/^pre[^/]+post$/\<close>\<close>

definition matches_segment :: "string \<Rightarrow> string \<Rightarrow> string \<Rightarrow> bool" where
  "matches_segment pre post path \<longleftrightarrow>
     (let mid = take (length path - length pre - length post) (drop (length pre) path)
      in path = pre @ mid @ post \<and> mid \<noteq> [] \<and> CHR ''/'' \<notin> set mid)"

definition ROUTE_PATTERN_POLICIES :: "((string \<Rightarrow> bool) \<times> rate_policy) list" where
  "ROUTE_PATTERN_POLICIES =
     [(matches_segment ''/api/loans/'' ''/receipt'', policy 10 ''10 m''),
      (matches_segment ''/api/admin/webhooks/'' [], policy 30 ''1 m''),
      (matches_segment ''/api/admin/pools/'' ''/borrow-cap'', policy 10 ''1 m'')]"

definition getPolicy :: "string \<Rightarrow> rate_policy" where
  "getPolicy pathname =
     (case map_of ROUTE_POLICIES pathname of
        Some p \<Rightarrow> p
      | None \<Rightarrow> (case find (\<lambda>(matches, _). matches pathname) ROUTE_PATTERN_POLICIES of
                  Some (_, p) \<Rightarrow> p | None \<Rightarrow> DEFAULT_POLICY))"

text \<open>The windows are \<open>"<number> <unit>"\<close>, by their type.\<close>

definition unit_ms :: "string \<Rightarrow> int" where
  "unit_ms u = (if u = ''s'' then 1000 else if u = ''m'' then 60000 else 3600000)"

definition getWindowMs :: "string \<Rightarrow> int" where
  "getWindowMs window =
     (let amount = takeWhile (\<lambda>c. c \<noteq> CHR '' '') window; u = drop (Suc (length amount)) window
      in case string_to_number amount of Fin n \<Rightarrow> \<lfloor>n\<rfloor> * unit_ms u | _ \<Rightarrow> 0)"

subsection \<open>The local store\<close>

text \<open>The store of windows, oldest key first; a window is its count and its end.\<close>

type_synonym window_store = "(string \<times> int \<times> int) list"

record rate_result =
  rr_success :: bool
  rr_limit :: int
  rr_remaining :: int
  rr_reset :: int

definition pruneLocalWindowStore :: "int \<Rightarrow> window_store \<Rightarrow> window_store" where
  "pruneLocalWindowStore now store =
     (let live = filter (\<lambda>(_, _, reset). now < reset) store
      in if length live \<le> MAX_LOCAL_BUCKETS then live
         else let doomed = map fst (take (length live - MAX_LOCAL_BUCKETS) (sort_key (\<lambda>(_, _, reset). reset) live))
              in filter (\<lambda>(key, _). key \<notin> set doomed) live)"

definition getLocalRateLimit :: "string \<Rightarrow> rate_policy \<Rightarrow> int \<Rightarrow> window_store \<Rightarrow> rate_result \<times> window_store" where
  "getLocalRateLimit identifier p now store =
     (let windowMs = getWindowMs (rp_window p);
          store = pruneLocalWindowStore now store;
          fresh = (let reset = now + windowMs in
            (\<lparr>rr_success = True, rr_limit = rp_limit p, rr_remaining = rp_limit p - 1, rr_reset = reset\<rparr>,
             pruneLocalWindowStore now (AList.update identifier (1, reset) store)))
      in case map_of store identifier of
           None \<Rightarrow> fresh
         | Some (count, reset) \<Rightarrow>
             if reset \<le> now then fresh
             else (let count = count + 1 in
               (\<lparr>rr_success = (count \<le> rp_limit p), rr_limit = rp_limit p, rr_remaining = max (rp_limit p - count) 0,
                 rr_reset = reset\<rparr>,
                pruneLocalWindowStore now (AList.update identifier (count, reset) store))))"

subsection \<open>The check of a request\<close>

record limit_env =
  le_adminSecret :: "string option"
  le_whitelist :: "string option"
  le_redis :: "(string \<Rightarrow> string \<Rightarrow> rate_policy \<Rightarrow> rate_result option) option"

type_synonym headers = "string \<Rightarrow> string option"

definition isAdminRequest :: "limit_env \<Rightarrow> headers \<Rightarrow> bool" where
  "isAdminRequest le h =
     (case le_adminSecret le of
        None \<Rightarrow> False
      | Some s \<Rightarrow> s \<noteq> [] \<and> (case h ''authorization'' of Some a \<Rightarrow> a | None \<Rightarrow> []) = ''Bearer '' @ s)"

definition CLIENT_IP_HEADERS :: "string list" where
  "CLIENT_IP_HEADERS = [''x-vercel-ip-address'', ''cf-connecting-ip'', ''x-vercel-forwarded-for'', ''x-real-ip'', ''x-forwarded-for'']"

definition header_ip :: "headers \<Rightarrow> string \<Rightarrow> string option" where
  "header_ip h k =
     (case h k of
        None \<Rightarrow> None
      | Some v \<Rightarrow> (let ip = js_trim (takeWhile (\<lambda>c. c \<noteq> CHR '','') v) in if ip = [] then None else Some ip))"

definition getRequestIdentifier :: "headers \<Rightarrow> string" where
  "getRequestIdentifier h = (case List.map_filter (header_ip h) CLIENT_IP_HEADERS of ip # _ \<Rightarrow> ip | [] \<Rightarrow> ''unknown'')"

definition isWhitelistedIp :: "limit_env \<Rightarrow> headers \<Rightarrow> bool" where
  "isWhitelistedIp le h =
     (case le_whitelist le of
        None \<Rightarrow> False
      | Some csv \<Rightarrow> csv \<noteq> [] \<and> getRequestIdentifier h \<in> set (filter (\<lambda>s. s \<noteq> []) (map js_trim (split_commas csv))))"

text \<open>\<open>None\<close> lets the request through; otherwise the headers of the 429 answer.\<close>

record limit_answer =
  la_retryAfter :: int
  la_limit :: int
  la_remaining :: int
  la_reset :: int

definition refusal :: "int \<Rightarrow> rate_result \<Rightarrow> limit_answer option" where
  "refusal now r =
     (if rr_success r then None
      else Some \<lparr>la_retryAfter = max 1 \<lceil>of_int (rr_reset r - now) / (1000 :: rat)\<rceil>, la_limit = rr_limit r,
                 la_remaining = rr_remaining r, la_reset = rr_reset r\<rparr>)"

definition enforcePolicy :: "limit_env \<Rightarrow> headers \<Rightarrow> string \<Rightarrow> rate_policy \<Rightarrow> int \<Rightarrow> window_store \<Rightarrow> limit_answer option \<times> window_store" where
  "enforcePolicy le h bucket p now store =
     (if isAdminRequest le h \<or> isWhitelistedIp le h then (None, store)
      else let identifier = bucket @ '':'' @ getRequestIdentifier h in
           case le_redis le of
             Some limiter \<Rightarrow>
               (case limiter identifier bucket p of None \<Rightarrow> (None, store) | Some r \<Rightarrow> (refusal now r, store))
           | None \<Rightarrow> (let (r, store') = getLocalRateLimit identifier p now store in (refusal now r, store')))"

definition enforceRouteRateLimit :: "limit_env \<Rightarrow> headers \<Rightarrow> string \<Rightarrow> int \<Rightarrow> window_store \<Rightarrow> limit_answer option \<times> window_store" where
  "enforceRouteRateLimit le h pathname now store = enforcePolicy le h pathname (getPolicy pathname) now store"

definition enforceGlobalApiRateLimit :: "limit_env \<Rightarrow> headers \<Rightarrow> int \<Rightarrow> window_store \<Rightarrow> limit_answer option \<times> window_store" where
  "enforceGlobalApiRateLimit le h now store = enforcePolicy le h ''global:api'' GLOBAL_API_POLICY now store"

end
