(* ===== verification/RateLimitSafety.thy ===== *)
theory RateLimitSafety
  imports RateLimit
begin

text \<open>
  What the local rate limiter promises: within one window at most the limit, and in any stretch
  of time as long as a window at most twice the limit.
\<close>

subsection \<open>The store\<close>

definition few_keys :: "string set \<Rightarrow> window_store \<Rightarrow> bool" where
  "few_keys ids store \<longleftrightarrow> distinct (map fst store) \<and> fst ` set store \<subseteq> ids"

lemma few_keys_length: "few_keys ids store \<Longrightarrow> finite ids \<Longrightarrow> length store \<le> card ids"
  by (metis card_mono distinct_card few_keys_def image_set length_map)

lemma few_keys_prune_eq:
  assumes "few_keys ids store" "finite ids" "card ids \<le> MAX_LOCAL_BUCKETS"
  shows "pruneLocalWindowStore now store = filter (\<lambda>(_, _, reset). now < reset) store"
proof -
  have "length (filter (\<lambda>(_, _, reset). now < reset) store) \<le> MAX_LOCAL_BUCKETS"
    by (rule order_trans [OF length_filter_le order_trans [OF few_keys_length [OF assms(1,2)] assms(3)]])
  then show ?thesis
    by (simp add: pruneLocalWindowStore_def Let_def)
qed

lemma map_of_filter_window:
  "distinct (map fst store) \<Longrightarrow> map_of (filter (\<lambda>(_, _, reset). now < reset) store) k =
     (case map_of store k of Some (c, x) \<Rightarrow> if now < x then Some (c, x) else None | None \<Rightarrow> None)"
proof (induction store)
  case (Cons e store)
  obtain k' c x where e: "e = (k', c, x)"
    by (cases e)
  have "map_of store k' = None"
    using Cons.prems by (simp add: e map_of_eq_None_iff)
  then show ?case
    using Cons by (auto simp: e)
qed simp

lemma few_keys_filter: "few_keys ids store \<Longrightarrow> few_keys ids (filter P store)"
  by (auto simp: few_keys_def distinct_map inj_on_def)

lemma few_keys_update: "few_keys ids store \<Longrightarrow> k \<in> ids \<Longrightarrow> few_keys ids (AList.update k v store)"
  by (simp add: few_keys_def distinct_update dom_update)

text \<open>What the store holds for a key once the ended windows are gone.\<close>

definition live_window :: "int \<Rightarrow> string \<Rightarrow> window_store \<Rightarrow> (int \<times> int) option" where
  "live_window now k store = (case map_of store k of Some (c, x) \<Rightarrow> if now < x then Some (c, x) else None | None \<Rightarrow> None)"

lemma getLocalRateLimit_few:
  assumes "few_keys ids store" "finite ids" "card ids \<le> MAX_LOCAL_BUCKETS" "k \<in> ids" "0 < getWindowMs (rp_window p)"
    and "getLocalRateLimit k p now store = (r, store')"
  shows "few_keys ids store'"
    and "j \<noteq> k \<Longrightarrow> map_of store' j = live_window now j store"
    and "live_window now k store = None \<Longrightarrow> map_of store' k = Some (1, now + getWindowMs (rp_window p))
      \<and> rr_success r \<and> rr_reset r = now + getWindowMs (rp_window p)"
    and "live_window now k store = Some (c, x) \<Longrightarrow> map_of store' k = Some (c + 1, x)
      \<and> rr_reset r = x \<and> rr_success r = (c + 1 \<le> rp_limit p)"
proof -
  let ?live = "\<lambda>(_ :: string, _ :: int, reset). now < reset"
  let ?s1 = "filter ?live store"
  have s1: "few_keys ids ?s1" "map_of ?s1 j = live_window now j store" for j
    using few_keys_filter [OF assms(1)] map_of_filter_window [of store now] assms(1)
    by (simp_all add: live_window_def few_keys_def)
  have prune: "pruneLocalWindowStore now store = ?s1"
      "pruneLocalWindowStore now (AList.update k v ?s1) = filter ?live (AList.update k v ?s1)" for v
    using few_keys_prune_eq assms(1-3) few_keys_update [OF s1(1) assms(4)] by blast+
  have s2: "few_keys ids (filter ?live (AList.update k v ?s1))"
      "map_of (filter ?live (AList.update k v ?s1)) j =
         (if j = k then (if now < snd v then Some v else None) else live_window now j store)" for j v
  proof -
    note few = few_keys_update [OF s1(1) assms(4), of v]
    show "few_keys ids (filter ?live (AList.update k v ?s1))"
      using few by (rule few_keys_filter)
    have "map_of (AList.update k v ?s1) j = (if j = k then Some v else live_window now j store)"
      using s1(2) by (simp add: update_conv)
    moreover have "distinct (map fst (AList.update k v ?s1))"
      using few by (simp add: few_keys_def)
    ultimately show "map_of (filter ?live (AList.update k v ?s1)) j =
         (if j = k then (if now < snd v then Some v else None) else live_window now j store)"
      using map_of_filter_window [of "AList.update k v ?s1" now j] by (cases v) (auto simp: live_window_def split: option.splits)
  qed
  have live: "now < x" if "live_window now k store = Some (c, x)" for c x
    using that by (auto simp: live_window_def split: option.splits if_splits)
  have run: "(r, store') = (case live_window now k store of
       None \<Rightarrow> (\<lparr>rr_success = True, rr_limit = rp_limit p, rr_remaining = rp_limit p - 1, rr_reset = now + getWindowMs (rp_window p)\<rparr>,
                 filter ?live (AList.update k (1, now + getWindowMs (rp_window p)) ?s1))
     | Some (c, x) \<Rightarrow> (\<lparr>rr_success = (c + 1 \<le> rp_limit p), rr_limit = rp_limit p, rr_remaining = max (rp_limit p - (c + 1)) 0, rr_reset = x\<rparr>,
                 filter ?live (AList.update k (c + 1, x) ?s1)))"
    using assms(6) live by (simp add: getLocalRateLimit_def Let_def prune s1(2) split: option.splits prod.splits)
  show "few_keys ids store'" "j \<noteq> k \<Longrightarrow> map_of store' j = live_window now j store"
    using run s2 by (auto split: option.splits)
  show "live_window now k store = None \<Longrightarrow> map_of store' k = Some (1, now + getWindowMs (rp_window p))
      \<and> rr_success r \<and> rr_reset r = now + getWindowMs (rp_window p)"
    using run s2(2) assms(5) by simp
  show "live_window now k store = Some (c, x) \<Longrightarrow> map_of store' k = Some (c + 1, x)
      \<and> rr_reset r = x \<and> rr_success r = (c + 1 \<le> rp_limit p)"
    using run s2(2) live by simp
qed

subsection \<open>A run of the limiter\<close>

type_synonym limit_call = "int \<times> string \<times> rate_policy"
type_synonym limit_record = "int \<times> string \<times> rate_result"

definition limit_step :: "limit_call \<Rightarrow> window_store \<times> limit_record list \<Rightarrow> window_store \<times> limit_record list" where
  "limit_step = (\<lambda>(now, k, p) (store, records).
     let (r, store') = getLocalRateLimit k p now store in (store', records @ [(now, k, r)]))"

definition limit_run :: "limit_call list \<Rightarrow> window_store \<times> limit_record list" where
  "limit_run calls = fold limit_step calls ([], [])"

lemma limit_run_snoc: "limit_run (calls @ [c]) = limit_step c (limit_run calls)"
  by (simp add: limit_run_def)

text \<open>The calls come in order of time, for at most as many keys as the store holds, each key with one policy.\<close>

definition calls_ok :: "string \<Rightarrow> rate_policy \<Rightarrow> limit_call list \<Rightarrow> bool" where
  "calls_ok k p calls \<longleftrightarrow> sorted (map fst calls) \<and> card ((fst \<circ> snd) ` set calls) \<le> MAX_LOCAL_BUCKETS
     \<and> list_all (\<lambda>(_, j, q). 0 < getWindowMs (rp_window q) \<and> (j = k \<longrightarrow> q = p)) calls"

text \<open>The records of one key: time, end of the window, success.\<close>

definition records_of_key :: "string \<Rightarrow> limit_record list \<Rightarrow> (int \<times> int \<times> bool) list" where
  "records_of_key k records = List.map_filter (\<lambda>(t, j, r). if j = k then Some (t, rr_reset r, rr_success r) else None) records"

definition successes :: "int \<Rightarrow> (int \<times> int \<times> bool) list \<Rightarrow> nat" where
  "successes x E = length (filter (\<lambda>(_, y, s). y = x \<and> s) E)"

definition windows_ok :: "int \<Rightarrow> int \<Rightarrow> int \<Rightarrow> (int \<times> int \<times> bool) list \<Rightarrow> bool" where
  "windows_ok w cap T E \<longleftrightarrow>
     (\<forall>(t, x, s) \<in> set E. x - w \<le> t \<and> t < x \<and> t \<le> T)
     \<and> (\<forall>(t, x, s) \<in> set E. \<forall>(t', x', s') \<in> set E. x < x' \<longrightarrow> x + w \<le> x')
     \<and> (\<forall>x. int (successes x E) \<le> cap)"

definition store_agrees :: "int \<Rightarrow> int \<Rightarrow> (int \<times> int) option \<Rightarrow> (int \<times> int \<times> bool) list \<Rightarrow> bool" where
  "store_agrees w T entry E \<longleftrightarrow>
     (case entry of
        None \<Rightarrow> \<forall>(t, x, s) \<in> set E. x \<le> T
      | Some (c, x0) \<Rightarrow> (\<forall>(t, x, s) \<in> set E. x \<le> x0 \<and> (x < x0 \<longrightarrow> x + w \<le> x0)) \<and> x0 - w \<le> T \<and> int (successes x0 E) \<le> c)"

lemma store_agrees_live:
  assumes "store_agrees w T (map_of store k) E" "T \<le> now"
  shows "store_agrees w now (live_window now k store) E"
  using assms by (fastforce simp: store_agrees_def live_window_def split: option.splits)

lemma windows_ok_later: "windows_ok w cap T E \<Longrightarrow> T \<le> now \<Longrightarrow> windows_ok w cap now E"
  unfolding windows_ok_def by fastforce

lemma successes_snoc: "successes x (E @ [(t, y, s)]) = successes x E + (if y = x \<and> s then 1 else 0)"
  by (simp add: successes_def)

lemma successes_later: "\<forall>(t, x, s) \<in> set E. x < y \<Longrightarrow> successes y E = 0"
  by (auto simp: successes_def filter_empty_conv)

lemma open_window:
  assumes "windows_ok w cap now E" "store_agrees w now None E" "0 < w" "1 \<le> cap"
  shows "windows_ok w cap now (E @ [(now, now + w, True)])" "store_agrees w now (Some (1, now + w)) (E @ [(now, now + w, True)])"
proof -
  have old: "\<forall>(t, x, s) \<in> set E. x \<le> now"
    using assms(2) by (simp add: store_agrees_def)
  then have none: "successes (now + w) E = 0"
    using assms(3) by (intro successes_later) auto
  show "windows_ok w cap now (E @ [(now, now + w, True)])"
    using assms old none by (auto simp: windows_ok_def successes_snoc)
  show "store_agrees w now (Some (1, now + w)) (E @ [(now, now + w, True)])"
    using assms(3) old none by (auto simp: store_agrees_def successes_snoc)
qed

lemma join_window:
  assumes "windows_ok w cap now E" "store_agrees w now (Some (c, x)) E" "now < x" "0 < w"
  shows "windows_ok w cap now (E @ [(now, x, c + 1 \<le> cap)])" "store_agrees w now (Some (c + 1, x)) (E @ [(now, x, c + 1 \<le> cap)])"
proof -
  have old: "\<forall>(t, y, s) \<in> set E. y \<le> x \<and> (y < x \<longrightarrow> y + w \<le> x)" "x - w \<le> now" "int (successes x E) \<le> c"
    using assms(2) by (simp_all add: store_agrees_def)
  show "windows_ok w cap now (E @ [(now, x, c + 1 \<le> cap)])"
    using assms(1,3,4) old by (fastforce simp: windows_ok_def successes_snoc)
  show "store_agrees w now (Some (c + 1, x)) (E @ [(now, x, c + 1 \<le> cap)])"
    using assms(4) old by (auto simp: store_agrees_def successes_snoc)
qed

definition last_time :: "limit_call list \<Rightarrow> int" where
  "last_time calls = (if calls = [] then 0 else fst (last calls))"

lemma records_of_key_snoc:
  "records_of_key k (records @ [(t, j, r)]) = records_of_key k records @ (if j = k then [(t, rr_reset r, rr_success r)] else [])"
  by (simp add: records_of_key_def List.map_filter_def)

lemma limit_run_invariant:
  assumes "calls_ok k p calls" "1 \<le> rp_limit p" "0 < getWindowMs (rp_window p)"
  shows "few_keys ((fst \<circ> snd) ` set calls) (fst (limit_run calls))
    \<and> (calls \<noteq> [] \<longrightarrow> windows_ok (getWindowMs (rp_window p)) (rp_limit p) (last_time calls) (records_of_key k (snd (limit_run calls)))
        \<and> store_agrees (getWindowMs (rp_window p)) (last_time calls) (map_of (fst (limit_run calls)) k) (records_of_key k (snd (limit_run calls))))"
  using assms(1)
proof (induction calls rule: rev_induct)
  case Nil
  then show ?case
    by (simp add: limit_run_def few_keys_def)
next
  case (snoc call calls)
  obtain now j q where call: "call = (now, j, q)"
    by (cases call)
  let ?ids = "(fst \<circ> snd) ` set calls" and ?ids' = "(fst \<circ> snd) ` set (calls @ [call])"
  obtain store records where run: "limit_run calls = (store, records)"
    by fastforce
  obtain r store' where get: "getLocalRateLimit j q now store = (r, store')"
    by fastforce
  let ?w = "getWindowMs (rp_window p)" and ?E = "records_of_key k records"
  have fin: "finite ?ids'" "card ?ids' \<le> MAX_LOCAL_BUCKETS" "j \<in> ?ids'" "?ids \<subseteq> ?ids'"
    using snoc.prems by (auto simp: calls_ok_def call)
  then have "card ?ids \<le> MAX_LOCAL_BUCKETS"
    using card_mono [OF fin(1,4)] by linarith
  then have ok: "calls_ok k p calls" and q: "0 < getWindowMs (rp_window q)" "j = k \<Longrightarrow> q = p"
    and times: "\<forall>t \<in> set (map fst calls). t \<le> now"
    using snoc.prems by (auto simp: calls_ok_def call sorted_append)
  note IH = snoc.IH [OF ok, unfolded run fst_conv snd_conv]
  have few: "few_keys ?ids' store"
    using IH fin(4) by (auto simp: few_keys_def)
  note get_few = getLocalRateLimit_few [OF few fin(1-3) q(1) get]
  have now: "last_time (calls @ [call]) = now"
    by (simp add: last_time_def call)
  have run': "limit_run (calls @ [call]) = (store', records @ [(now, j, r)])"
    by (simp add: limit_run_snoc run limit_step_def call get)
  have before: "windows_ok ?w (rp_limit p) now ?E \<and> store_agrees ?w now (live_window now k store) ?E"
  proof (cases "calls = []")
    case True
    then have "store = []" "records = []"
      using run by (simp_all add: limit_run_def)
    then show ?thesis
      using assms(2) by (simp add: windows_ok_def store_agrees_def records_of_key_def successes_def live_window_def List.map_filter_def)
  next
    case False
    then have "last_time calls \<le> now"
      using times by (simp add: last_time_def)
    then show ?thesis
      using IH False windows_ok_later store_agrees_live by blast
  qed
  have "windows_ok ?w (rp_limit p) now (records_of_key k (records @ [(now, j, r)]))
      \<and> store_agrees ?w now (map_of store' k) (records_of_key k (records @ [(now, j, r)]))"
  proof (cases "j = k")
    case False
    then show ?thesis
      using before get_few(2) [of k] by (simp add: records_of_key_snoc)
  next
    case True
    show ?thesis
    proof (cases "live_window now k store")
      case None
      then show ?thesis
        using True before get_few(3) q(2) open_window [of ?w "rp_limit p" now ?E] assms(2,3)
        by (simp add: records_of_key_snoc)
    next
      case (Some cx)
      obtain c x where cx: "cx = (c, x)"
        by (cases cx)
      have "now < x"
        using Some cx by (auto simp: live_window_def split: option.splits if_splits)
      then show ?thesis
        using True before get_few(4) [of c x] q(2) join_window [of ?w "rp_limit p" now ?E c x] assms(3) Some cx
        by (simp add: records_of_key_snoc)
    qed
  qed
  then show ?case
    using get_few(1) by (simp add: run' now)
qed

lemma length_filter_two:
  "\<forall>e\<in>set xs. R e \<longrightarrow> P e \<or> Q e \<Longrightarrow> length (filter R xs) \<le> length (filter P xs) + length (filter Q xs)"
  by (induction xs) auto

text \<open>Two windows cover what starts within one window's length.\<close>

lemma two_windows:
  assumes "windows_ok w cap T E" "0 < w"
  shows "int (length (filter (\<lambda>(t, _, s). a \<le> t \<and> t < a + w \<and> s) E)) \<le> 2 * cap"
proof (cases "filter (\<lambda>(t, _, s). a \<le> t \<and> t < a + w \<and> s) E = []")
  case True
  have "0 \<le> cap"
    using assms(1) of_nat_0_le_iff order_trans unfolding windows_ok_def by blast
  with True show ?thesis
    by simp
next
  case False
  let ?F = "filter (\<lambda>(t, _, s). a \<le> t \<and> t < a + w \<and> s) E"
  let ?R = "(\<lambda>(_, x, _). x) ` set ?F"
  define lo hi where "lo = Min ?R" and "hi = Max ?R"
  have R: "finite ?R" "?R \<noteq> {}"
    using False by (simp_all only: image_is_empty set_empty finite_imageI finite_set not_False_eq_True)
  then have mem: "lo \<in> ?R" "hi \<in> ?R"
    unfolding lo_def hi_def by (rule Min_in, rule Max_in)
  have bounds: "a < x \<and> x < a + 2 * w" if "x \<in> ?R" for x
    using that assms(1) unfolding windows_ok_def by fastforce
  have apart: "x + w \<le> y" if "x \<in> ?R" "y \<in> ?R" "x < y" for x y
    using that assms(1) unfolding windows_ok_def by fastforce
  have either: "x = lo \<or> x = hi" if "x \<in> ?R" for x
  proof (rule ccontr)
    assume "\<not> ?thesis"
    moreover have "lo \<le> x" "x \<le> hi"
      using R that by (simp_all add: lo_def hi_def)
    ultimately have "lo + w \<le> x" "x + w \<le> hi"
      using apart mem that by simp_all
    then show False
      using bounds [OF mem(1)] bounds [OF mem(2)] by linarith
  qed
  have "length ?F \<le> length (filter (\<lambda>(_, y, s). y = lo \<and> s) E) + length (filter (\<lambda>(_, y, s). y = hi \<and> s) E)"
  proof (rule length_filter_two)
    show "\<forall>e\<in>set E. (case e of (t, _, s) \<Rightarrow> a \<le> t \<and> t < a + w \<and> s) \<longrightarrow>
        (case e of (_, y, s) \<Rightarrow> y = lo \<and> s) \<or> (case e of (_, y, s) \<Rightarrow> y = hi \<and> s)"
      using either by force
  qed
  moreover have "int (successes lo E) \<le> cap" "int (successes hi E) \<le> cap"
    using assms(1) by (simp_all add: windows_ok_def)
  ultimately show ?thesis
    by (simp add: successes_def)
qed

lemma length_records_of_key:
  "length (filter (\<lambda>(t, y, s). P t y s) (records_of_key k records)) =
     length (filter (\<lambda>(t, j, r). j = k \<and> P t (rr_reset r) (rr_success r)) records)"
proof (induction records)
  case (Cons e records)
  obtain t j r where "e = (t, j, r)"
    by (cases e)
  with Cons show ?case
    by (simp add: records_of_key_def List.map_filter_simps)
qed (simp add: records_of_key_def List.map_filter_simps)

text \<open>C39: the limit holds: for requests in order of time, from at most as many clients as the store
  holds, a client gets at most the limit of its route through in one window, and at most twice the
  limit in any stretch of time as long as the window, wherever it starts.\<close>

theorem rate_limit_respected:
  assumes "calls_ok k p calls" "1 \<le> rp_limit p" "0 < getWindowMs (rp_window p)"
  shows "int (length (filter (\<lambda>(t, j, r). j = k \<and> rr_reset r = x \<and> rr_success r) (snd (limit_run calls)))) \<le> rp_limit p
    \<and> int (length (filter (\<lambda>(t, j, r). j = k \<and> a \<le> t \<and> t < a + getWindowMs (rp_window p) \<and> rr_success r) (snd (limit_run calls))))
        \<le> 2 * rp_limit p"
proof (cases "calls = []")
  case True
  then show ?thesis
    using assms(2) by (simp add: limit_run_def)
next
  case False
  then have ok: "windows_ok (getWindowMs (rp_window p)) (rp_limit p) (last_time calls) (records_of_key k (snd (limit_run calls)))"
    using limit_run_invariant [OF assms] by blast
  then have "int (successes x (records_of_key k (snd (limit_run calls)))) \<le> rp_limit p"
    by (simp add: windows_ok_def)
  from this [unfolded successes_def length_records_of_key] two_windows [OF ok assms(3), of a, unfolded length_records_of_key]
  show ?thesis
    by blast
qed

text \<open>Twelve applications for a loan within a second: five succeed.\<close>

definition demo_calls :: "limit_call list" where
  "demo_calls = replicate 12 (5, ''/api/loans/apply:1'', getPolicy ''/api/loans/apply'')"

lemma rate_limit_respected_witness:
  "int (length (filter (\<lambda>(t, j, r). j = ''/api/loans/apply:1'' \<and> rr_reset r = 600005 \<and> rr_success r) (snd (limit_run demo_calls)))) \<le> 5"
proof -
  have p: "getPolicy ''/api/loans/apply'' = policy 5 ''10 m''" "getWindowMs ''10 m'' = 600000"
    by code_simp+
  have "calls_ok ''/api/loans/apply:1'' (policy 5 ''10 m'') demo_calls"
    by (simp add: calls_ok_def demo_calls_def p policy_def MAX_LOCAL_BUCKETS_def list_all_iff)
  from rate_limit_respected [OF this, of 600005] show ?thesis
    by (simp add: p policy_def)
qed

end
