(* ===== verification/ReferralCodes.thy ===== *)
theory ReferralCodes
  imports JsValue
begin

text \<open>
  Referral codes, \<open>src/lib/referrals/codes.ts\<close>: generating them by rejection sampling from random
  bytes, and reading what a user types. The source of random bytes is a parameter: what each of
  its calls returns. Reading a code out of an address needs the platform's \<open>URL\<close> parser and is
  left out.
\<close>

definition REFERRAL_ALPHABET :: string where
  "REFERRAL_ALPHABET = ''23456789ABCDEFGHJKMNPQRSTVWXYZ''"

definition REFERRAL_PREFIX :: string where "REFERRAL_PREFIX = ''TL''"
definition REFERRAL_RANDOM_LENGTH :: nat where "REFERRAL_RANDOM_LENGTH = 6"
definition REFERRAL_CODE_LENGTH :: nat where "REFERRAL_CODE_LENGTH = length REFERRAL_PREFIX + REFERRAL_RANDOM_LENGTH"
definition REFERRAL_CODE_SPACE :: nat where "REFERRAL_CODE_SPACE = length REFERRAL_ALPHABET ^ REFERRAL_RANDOM_LENGTH"

subsection \<open>Generating\<close>

text \<open>The largest multiple of the alphabet's length that fits in a byte\<close>

definition byte_limit :: nat where
  "byte_limit = 256 div length REFERRAL_ALPHABET * length REFERRAL_ALPHABET"

definition letter_of :: "nat \<Rightarrow> char" where
  "letter_of byte = REFERRAL_ALPHABET ! (byte mod length REFERRAL_ALPHABET)"

fun absorb_bytes :: "string \<Rightarrow> nat list \<Rightarrow> string" where
  "absorb_bytes out [] = out"
| "absorb_bytes out (byte # bytes) =
     (if REFERRAL_RANDOM_LENGTH \<le> length out then out
      else if byte_limit \<le> byte then absorb_bytes out bytes
      else absorb_bytes (out @ [letter_of byte]) bytes)"

text \<open>The loop asks for more bytes until there are enough letters; it need not end.\<close>

partial_function (option) draw_letters :: "(nat \<Rightarrow> nat list) \<Rightarrow> nat \<Rightarrow> string \<Rightarrow> string option" where
  "draw_letters random n out =
     (if length out < REFERRAL_RANDOM_LENGTH then draw_letters random (Suc n) (absorb_bytes out (random n)) else Some out)"

definition generateReferralCode :: "(nat \<Rightarrow> nat list) \<Rightarrow> string option" where
  "generateReferralCode random = map_option (\<lambda>out. REFERRAL_PREFIX @ out) (draw_letters random 0 [])"

subsection \<open>Reading\<close>

text \<open>
  Upper case on Latin-1: the letters 32 above their capitals, and the sharp s, which becomes two
  letters. The capitals of the two characters that leave Latin-1 are not letters of a code either.
\<close>

definition char_upper :: "char \<Rightarrow> string" where
  "char_upper c = (let n = (of_char c :: nat) in
     if n = 223 then ''SS''
     else if (97 \<le> n \<and> n \<le> 122) \<or> (224 \<le> n \<and> n \<le> 254 \<and> n \<noteq> 247) then [char_of (n - 32)] else [c])"

definition js_upper :: "string \<Rightarrow> string" where
  "js_upper s = concat (map char_upper s)"

definition is_separator :: "char \<Rightarrow> bool" where
  "is_separator c \<longleftrightarrow> js_space c \<or> c = CHR ''-'' \<or> c = CHR ''_''"

definition isValidReferralCode :: "string \<Rightarrow> bool" where
  "isValidReferralCode code \<longleftrightarrow>
     length code = REFERRAL_CODE_LENGTH \<and> is_prefix REFERRAL_PREFIX code
     \<and> list_all (\<lambda>c. c \<in> set REFERRAL_ALPHABET) (drop (length REFERRAL_PREFIX) code)"

definition normalizeReferralCode :: "jsval \<Rightarrow> string option" where
  "normalizeReferralCode input =
     (case input of
        JStr s \<Rightarrow> (let cleaned = filter (\<lambda>c. \<not> is_separator c) (js_upper (js_trim s))
                    in if isValidReferralCode cleaned then Some cleaned else None)
      | _ \<Rightarrow> None)"

text \<open>\<open>None\<close>: the error of an invalid code.\<close>

definition buildReferralLink :: "string \<Rightarrow> string \<Rightarrow> string option" where
  "buildReferralLink code baseUrl =
     (case normalizeReferralCode (JStr code) of
        None \<Rightarrow> None
      | Some c \<Rightarrow> Some (rev (dropWhile (\<lambda>x. x = CHR ''/'') (rev baseUrl)) @ ''/auth?ref='' @ c))"

subsection \<open>When the loop ends, and with what\<close>

definition usable_bytes :: "nat list \<Rightarrow> nat list" where
  "usable_bytes bytes = filter (\<lambda>b. b < byte_limit) bytes"

lemma absorb_bytes_eq: "length out \<le> REFERRAL_RANDOM_LENGTH \<Longrightarrow>
    absorb_bytes out bytes = take REFERRAL_RANDOM_LENGTH (out @ map letter_of (usable_bytes bytes))"
proof (induction bytes arbitrary: out)
  case (Cons b bs)
  then show ?case
    by (cases "length out = REFERRAL_RANDOM_LENGTH") (simp_all add: usable_bytes_def take_Cons')
qed (simp add: usable_bytes_def)

text \<open>The bytes of the first \<open>k\<close> calls.\<close>

definition byte_supply :: "(nat \<Rightarrow> nat list) \<Rightarrow> nat \<Rightarrow> nat list" where
  "byte_supply random k = usable_bytes (concat (map random [0..<k]))"

definition letters_after :: "(nat \<Rightarrow> nat list) \<Rightarrow> nat \<Rightarrow> string" where
  "letters_after random k = take REFERRAL_RANDOM_LENGTH (map letter_of (byte_supply random k))"

lemma letters_after_Suc: "letters_after random (Suc k) = absorb_bytes (letters_after random k) (random k)"
  by (simp add: absorb_bytes_eq letters_after_def byte_supply_def usable_bytes_def take_map [symmetric] min_def)

lemma draw_letters_unfold:
  "length (byte_supply random k) < REFERRAL_RANDOM_LENGTH \<Longrightarrow>
     draw_letters random k (letters_after random k) = draw_letters random (Suc k) (letters_after random (Suc k))"
proof -
  assume "length (byte_supply random k) < REFERRAL_RANDOM_LENGTH"
  then have "length (letters_after random k) < REFERRAL_RANDOM_LENGTH"
    by (simp add: letters_after_def)
  then show ?thesis
    by (subst draw_letters.simps) (simp add: letters_after_Suc)
qed

lemma draw_letters_done:
  "REFERRAL_RANDOM_LENGTH \<le> length (byte_supply random k) \<Longrightarrow> draw_letters random k (letters_after random k) = Some (letters_after random k)"
  by (subst draw_letters.simps) (simp add: letters_after_def)

lemma draw_letters_from_start:
  "(\<And>j. j < k \<Longrightarrow> length (byte_supply random j) < REFERRAL_RANDOM_LENGTH) \<Longrightarrow> draw_letters random 0 [] = draw_letters random k (letters_after random k)"
proof (induction k)
  case 0
  then show ?case
    by (simp add: letters_after_def byte_supply_def usable_bytes_def)
next
  case (Suc k)
  then show ?case
    using draw_letters_unfold [of random k] by simp
qed

lemma draw_letters_Some:
  assumes "draw_letters random n out = Some y"
  shows "out = letters_after random n \<longrightarrow> (\<exists>k. REFERRAL_RANDOM_LENGTH \<le> length (byte_supply random k))"
  using _ assms
proof (rule draw_letters.raw_induct)
  fix draw random n out y
  assume IH: "\<And>random n out y. draw random n out = Some y \<Longrightarrow>
      out = letters_after random n \<longrightarrow> (\<exists>k. REFERRAL_RANDOM_LENGTH \<le> length (byte_supply random k))"
    and step: "(if length out < REFERRAL_RANDOM_LENGTH then draw random (Suc n) (absorb_bytes out (random n)) else Some out) = Some y"
  show "out = letters_after random n \<longrightarrow> (\<exists>k. REFERRAL_RANDOM_LENGTH \<le> length (byte_supply random k))"
  proof (cases "length out < REFERRAL_RANDOM_LENGTH")
    case True
    then show ?thesis
      using IH [of random "Suc n" "absorb_bytes out (random n)" y] step by (simp add: letters_after_Suc)
  next
    case False
    show ?thesis
    proof
      assume "out = letters_after random n"
      then have "REFERRAL_RANDOM_LENGTH \<le> length (byte_supply random n)"
        using False by (simp add: letters_after_def)
      then show "\<exists>k. REFERRAL_RANDOM_LENGTH \<le> length (byte_supply random k)"
        by blast
    qed
  qed
qed

lemma is_prefix_append: "is_prefix p s \<longleftrightarrow> s = p @ drop (length p) s"
  by (induction p s rule: is_prefix.induct) auto

lemma code_letters:
  "list_all (\<lambda>c. char_upper c = [c] \<and> \<not> is_separator c \<and> \<not> js_space c) (REFERRAL_PREFIX @ REFERRAL_ALPHABET)"
  by code_simp

lemma letter_of_in: "letter_of b \<in> set REFERRAL_ALPHABET"
  unfolding letter_of_def by (rule nth_mem) (simp add: REFERRAL_ALPHABET_def)

lemma js_upper_fixed: "\<forall>c \<in> set s. char_upper c = [c] \<Longrightarrow> js_upper s = s"
  by (induction s) (simp_all add: js_upper_def)

lemma normalize_valid:
  assumes "isValidReferralCode code"
  shows "normalizeReferralCode (JStr code) = Some code"
proof -
  have parts: "code = REFERRAL_PREFIX @ drop 2 code" and body: "list_all (\<lambda>c. c \<in> set REFERRAL_ALPHABET) (drop 2 code)"
    using assms by (simp_all add: isValidReferralCode_def is_prefix_append REFERRAL_PREFIX_def numeral_2_eq_2)
  have "set code = set REFERRAL_PREFIX \<union> set (drop 2 code)"
    by (rule arg_cong [OF parts, where f = set, unfolded set_append])
  then have "set code \<subseteq> set (REFERRAL_PREFIX @ REFERRAL_ALPHABET)"
    using body by (auto simp: list_all_iff)
  then have letters: "\<forall>c \<in> set code. char_upper c = [c] \<and> \<not> is_separator c \<and> \<not> js_space c"
    using code_letters unfolding list_all_iff by blast
  then have "js_trim code = code"
    by (intro js_trim_no_space) blast
  moreover have "js_upper code = code"
    using letters by (intro js_upper_fixed) blast
  moreover have "filter (\<lambda>c. \<not> is_separator c) code = code"
    using letters by (simp add: filter_id_conv)
  ultimately show ?thesis
    using assms by (simp add: normalizeReferralCode_def)
qed

text \<open>C40: generating a code ends exactly when the random source supplies, over some number of calls,
  six bytes below the limit; the code then is the prefix with the letters of the first six such
  bytes, it is valid, and reading it back gives it unchanged. With a source that never does, the
  loop runs for ever.\<close>

theorem generateReferralCode_ends:
  "case generateReferralCode random of
     None \<Rightarrow> \<not> (\<exists>k. 6 \<le> length (usable_bytes (concat (map random [0..<k]))))
   | Some code \<Rightarrow> normalizeReferralCode (JStr code) = Some code
       \<and> (\<exists>k. 6 \<le> length (usable_bytes (concat (map random [0..<k])))
            \<and> code = ''TL'' @ map letter_of (take 6 (usable_bytes (concat (map random [0..<k])))))"
proof (cases "\<exists>k. REFERRAL_RANDOM_LENGTH \<le> length (byte_supply random k)")
  case False
  then have "draw_letters random 0 [] = None"
    using draw_letters_Some [of random 0 "[]"]
    by (cases "draw_letters random 0 []") (simp_all add: letters_after_def byte_supply_def usable_bytes_def)
  then show ?thesis
    using False by (simp add: generateReferralCode_def byte_supply_def REFERRAL_RANDOM_LENGTH_def)
next
  case True
  define k where "k = (LEAST k. REFERRAL_RANDOM_LENGTH \<le> length (byte_supply random k))"
  have k: "REFERRAL_RANDOM_LENGTH \<le> length (byte_supply random k)"
    using True unfolding k_def by (rule LeastI_ex)
  have "length (byte_supply random j) < REFERRAL_RANDOM_LENGTH" if "j < k" for j
    using that not_less_Least [of j "\<lambda>k. REFERRAL_RANDOM_LENGTH \<le> length (byte_supply random k)"] by (simp add: k_def not_le)
  then have draw: "draw_letters random 0 [] = Some (letters_after random k)"
    using draw_letters_from_start [of k] draw_letters_done [OF k] by simp
  have "isValidReferralCode (REFERRAL_PREFIX @ letters_after random k)"
    using k letter_of_in
    by (auto simp: isValidReferralCode_def REFERRAL_CODE_LENGTH_def letters_after_def list_all_iff REFERRAL_PREFIX_def dest!: in_set_takeD)
  then have "normalizeReferralCode (JStr (REFERRAL_PREFIX @ letters_after random k)) = Some (REFERRAL_PREFIX @ letters_after random k)"
    by (rule normalize_valid)
  then show ?thesis
    using draw k by (auto simp: generateReferralCode_def byte_supply_def letters_after_def REFERRAL_RANDOM_LENGTH_def REFERRAL_PREFIX_def take_map)
qed

end
