(* ===== verification/DefaultManagement.thy ===== *)
theory DefaultManagement
  imports Lifecycle JsDate
begin

text \<open>
  The default run, \<open>src/lib/scheduler/default-management.ts\<close>, with the ledger time of
  \<open>src/lib/stellar/server-contract.ts\<close>. It reads the overdue loans once and then treats them one
  by one; what a loan's treatment has done before it fails stays done. Logging is left out.
\<close>

subsection \<open>Configuration, rows and results\<close>

record default_config =
  dc_gracePeriodDays :: jsnum
  dc_insurancePayoutDays :: jsnum
  dc_defaultId :: "string option"
  dc_multisigAdminId :: "string option"

text \<open>A loan as the query gives it, with its times as ISO strings.\<close>

record loan_row =
  lr_id :: string
  lr_borrowerId :: string
  lr_principalAmount :: jsnum
  lr_repaidAmount :: jsnum
  lr_dueAt :: "string option"
  lr_defaultedAt :: "string option"
  lr_metadata :: jsval

datatype default_action =
    MarkDefaulted
  | RecordDefault
  | SkippedOnchainDefault
  | DbDefaulted
  | ProposedPayout
  | DbProposedPayout
  | PayoutDeferred

record loan_outcome =
  do_loanId :: string
  do_daysOverdue :: jsnum
  do_onchainLoanId :: "int option"
  do_actions :: "default_action list"
  do_skipped :: bool
  do_error :: "string option"

record default_run_result =
  dr_scanned :: nat
  dr_defaulted :: nat
  dr_payoutsProposed :: nat
  dr_failed :: nat
  dr_outcomes :: "loan_outcome list"

subsection \<open>Helpers\<close>

text \<open>The close time of the last ledger, or else the wall clock.\<close>

definition getLedgerTimeSecs :: "string option \<Rightarrow> int \<Rightarrow> jsnum" where
  "getLedgerTimeSecs closedAt now =
     (case closedAt of
        Some (c # cs) \<Rightarrow> jfloor (jdiv (date_ms (c # cs)) (Fin 1000))
      | _ \<Rightarrow> jfloor (jdiv (to_num (of_int now)) (Fin 1000)))"

definition SECONDS_PER_DAY :: jsnum where "SECONDS_PER_DAY = Fin 86400"

definition computeDaysOverdue :: "string \<Rightarrow> jsnum \<Rightarrow> jsnum" where
  "computeDaysOverdue dueAtIso ledgerTimeSecs =
     (let dueSecs = jfloor (jdiv (date_ms dueAtIso) (Fin 1000))
      in if jle ledgerTimeSecs dueSecs then Fin 0
         else jfloor (jdiv (jsub ledgerTimeSecs dueSecs) SECONDS_PER_DAY))"

definition outstandingXlm :: "loan_row \<Rightarrow> jsnum" where
  "outstandingXlm l =
     (let remaining = jsub (lr_principalAmount l) (lr_repaidAmount l)
      in if jlt (Fin 0) remaining then remaining else lr_principalAmount l)"

definition getWallet :: "database \<Rightarrow> string \<Rightarrow> string option" where
  "getWallet db profileId =
     (case find (\<lambda>p. profile_id p = profileId) (db_profiles db) of
        Some p \<Rightarrow> (case profile_walletAddress p of Some (CHR ''G'' # w) \<Rightarrow> Some (CHR ''G'' # w) | _ \<Rightarrow> None)
      | None \<Rightarrow> None)"

definition toOnchainId :: "jsval \<Rightarrow> int option" where
  "toOnchainId v =
     (case js_to_number v of
        Fin r \<Rightarrow> if is_integer (Fin r) \<and> 0 < r then Some \<lfloor>r\<rfloor> else None
      | _ \<Rightarrow> None)"

definition or_else :: "'a option \<Rightarrow> 'a option \<Rightarrow> 'a option" where
  "or_else a b = (case a of Some x \<Rightarrow> Some x | None \<Rightarrow> b)"

text \<open>The first of the rows with the greatest amount.\<close>

fun largest_entry :: "ledger_transaction list \<Rightarrow> ledger_transaction option" where
  "largest_entry [] = None"
| "largest_entry (r # rs) =
     (case largest_entry rs of
        Some best \<Rightarrow> if lt_amount r < lt_amount best then Some best else Some r
      | None \<Rightarrow> Some r)"

definition getFundingInfo :: "env \<Rightarrow> database \<Rightarrow> string \<Rightarrow> jsval \<Rightarrow> string option \<times> int option" where
  "getFundingInfo e db loanId loanMeta =
     (let own = or_else (toOnchainId (js_get loanMeta ''onchain_loan_id'')) (toOnchainId (js_get loanMeta ''onchainLoanId''));
          data = largest_entry (filter (\<lambda>t. lt_refType t = Some ''loan_fund'' \<and> lt_refId t = Some loanId) (db_ledgerTransactions db));
          raw = (case data of Some t \<Rightarrow> lt_metadata t | None \<Rightarrow> JUndef);
          meta = (case raw of JStr s \<Rightarrow> (case env_jsonParse e s of Some v \<Rightarrow> v | None \<Rightarrow> JNull) | v \<Rightarrow> v)
      in if \<not> js_truthy meta then (None, own)
         else ((case js_get meta ''lenderAddress'' of JStr (CHR ''G'' # a) \<Rightarrow> Some (CHR ''G'' # a) | _ \<Rightarrow> None),
               or_else own (or_else (toOnchainId (js_get meta ''onchainLoanId'')) (toOnchainId (js_get meta ''onchain_loan_id'')))))"

text \<open>Only the metadata, or the status and its time with it.\<close>

definition flag_loan :: "(string \<times> jsval) list \<Rightarrow> int option \<Rightarrow> loan \<Rightarrow> loan" where
  "flag_loan patch defaultedAt l =
     (let l' = l\<lparr>loan_metadata := jsonb_concat (loan_metadata l) patch\<rparr>
      in case defaultedAt of
           Some t \<Rightarrow> l'\<lparr>loan_status := LoanDefaulted, loan_defaultedAt := Some t\<rparr>
         | None \<Rightarrow> l')"

definition setLoanMetadataFlag :: "string \<Rightarrow> (string \<times> jsval) list \<Rightarrow> int option \<Rightarrow> world \<Rightarrow> world" where
  "setLoanMetadataFlag loanId patch defaultedAt w =
     set_db (\<lambda>db. db\<lparr>db_loans := update_where (\<lambda>l. loan_id l = loanId) (flag_loan patch defaultedAt) (db_loans db)\<rparr>) w"

subsection \<open>The query\<close>

definition overdue :: "int \<Rightarrow> loan \<Rightarrow> bool" where
  "overdue now l \<longleftrightarrow> loan_status l \<in> {LoanActive, LoanFunded} \<and> (case loan_dueAt l of Some d \<Rightarrow> d < now | None \<Rightarrow> False)"

definition row_of_loan :: "loan \<Rightarrow> loan_row" where
  "row_of_loan l =
     \<lparr>lr_id = loan_id l, lr_borrowerId = loan_borrowerId l, lr_principalAmount = num_of_micro (loan_principalAmount l),
      lr_repaidAmount = num_of_micro (loan_repaidAmount l), lr_dueAt = map_option toISOString (loan_dueAt l),
      lr_defaultedAt = map_option toISOString (loan_defaultedAt l), lr_metadata = loan_metadata l\<rparr>"

definition queryOverdueLoans :: "database \<Rightarrow> int \<Rightarrow> loan_row list" where
  "queryOverdueLoans db now = map row_of_loan (filter (overdue now) (db_loans db))"

subsection \<open>One loan\<close>

definition truthy_text :: "string option \<Rightarrow> string option" where
  "truthy_text v = (case v of Some (c # cs) \<Rightarrow> Some (c # cs) | _ \<Rightarrow> None)"

text \<open>The three addresses the on-chain steps need, when signing is configured: lending, default, admin.\<close>

definition onchain_ready :: "env \<Rightarrow> default_config \<Rightarrow> (string \<times> string \<times> string) option" where
  "onchain_ready e cfg =
     (case (ch_adminPublicKey (env_chain e), truthy_text (env_lendingContractId e), truthy_text (dc_defaultId cfg), truthy_text (env_adminAddress e)) of
        (Some _, Some lending, Some dflt, Some admin) \<Rightarrow> Some (lending, dflt, admin)
      | _ \<Rightarrow> None)"

definition u64_arg :: "jsnum \<Rightarrow> chain_arg" where
  "u64_arg x = (case x of Fin r \<Rightarrow> ArgU64 \<lfloor>r\<rfloor> | _ \<Rightarrow> ArgU64 0)"

definition markDefaultedOnChain :: "env \<Rightarrow> string \<times> string \<times> string \<Rightarrow> int \<Rightarrow> string \<Rightarrow> int \<Rightarrow> jsnum \<Rightarrow> world \<Rightarrow> (string + unit) \<times> world" where
  "markDefaultedOnChain e = (\<lambda>(lending, dflt, admin) onchainLoanId borrowerWallet amountStroops daysOverdue w.
     let (r1, w1) = invoke_signed e lending ''mark_defaulted'' [ArgAddr admin, ArgU32 onchainLoanId] w
     in case r1 of
          Inl m \<Rightarrow> (Inl m, w1)
        | Inr _ \<Rightarrow>
            (let (r2, w2) = invoke_signed e dflt ''record_default''
                   [ArgAddr admin, ArgU32 onchainLoanId, ArgAddr borrowerWallet, ArgI128 amountStroops, u64_arg daysOverdue] w1
             in (map_sum id (\<lambda>_. ()) r2, w2)))"

definition proposeInsurancePayout :: "env \<Rightarrow> string \<times> string \<times> string \<Rightarrow> string \<Rightarrow> int \<Rightarrow> string \<Rightarrow> int \<Rightarrow> world \<Rightarrow> (string + jsnum) \<times> world" where
  "proposeInsurancePayout e = (\<lambda>(_, dflt, admin) multisig onchainLoanId lenderWallet amountStroops w.
     let (r, w') = invoke_signed e multisig ''propose''
           [ArgAddr admin, ArgEnum ''TriggerInsurancePayout'' [ArgAddr dflt, ArgU32 onchainLoanId, ArgAddr lenderWallet, ArgI128 amountStroops]] w
     in (map_sum id (\<lambda>(_, ret). js_to_number ret) r, w'))"

text \<open>A number as \<open>JSON.stringify\<close> writes it.\<close>

definition json_number :: "jsnum \<Rightarrow> jsval" where
  "json_number x = (if is_finite x then JNum x else JNull)"

text \<open>Steps one and two: mark the loan defaulted and record the phase. \<open>None\<close>: it was defaulted already.\<close>

definition default_step :: "env \<Rightarrow> (string \<times> string \<times> string) option \<Rightarrow> int \<Rightarrow> loan_row \<Rightarrow> jsnum \<Rightarrow> int option \<Rightarrow> string option \<Rightarrow> int
    \<Rightarrow> world \<Rightarrow> (string + default_action list) \<times> world" where
  "default_step e ready ledgerMs row daysOverdue onchainLoanId borrowerWallet amountStroops w =
     (let store = setLoanMetadataFlag (lr_id row)
            [(''defaulted_onchain_at'', JStr (toISOString ledgerMs)), (''days_overdue'', json_number daysOverdue)] (Some ledgerMs)
      in case (ready, onchainLoanId, borrowerWallet) of
           (Some ids, Some n, Some wallet) \<Rightarrow>
             (case markDefaultedOnChain e ids n wallet amountStroops daysOverdue w of
                (Inl m, w') \<Rightarrow> (Inl m, w')
              | (Inr _, w') \<Rightarrow> (Inr [MarkDefaulted, RecordDefault, DbDefaulted], store w'))
         | (Some _, _, _) \<Rightarrow> (Inr [SkippedOnchainDefault, DbDefaulted], store w)
         | (None, _, _) \<Rightarrow> (Inr [DbDefaulted], store w))"

text \<open>Step three: propose the payout of the insurance.\<close>

definition payout_step :: "env \<Rightarrow> default_config \<Rightarrow> (string \<times> string \<times> string) option \<Rightarrow> int \<Rightarrow> loan_row \<Rightarrow> int option \<Rightarrow> string option \<Rightarrow> int
    \<Rightarrow> world \<Rightarrow> (string + default_action list) \<times> world" where
  "payout_step e cfg ready ledgerMs row onchainLoanId lenderAddress amountStroops w =
     (case (ready, truthy_text (dc_multisigAdminId cfg), onchainLoanId, lenderAddress) of
        (Some ids, Some multisig, Some n, Some lender) \<Rightarrow>
          (case proposeInsurancePayout e ids multisig n lender amountStroops w of
             (Inl m, w') \<Rightarrow> (Inl m, w')
           | (Inr proposalId, w') \<Rightarrow>
               (Inr [ProposedPayout, DbProposedPayout],
                setLoanMetadataFlag (lr_id row)
                  [(''insurance_payout_proposed_at'', JStr (toISOString ledgerMs)),
                   (''insurance_payout_proposal_id'', json_number proposalId),
                   (''insurance_amount_stroops'', JStr (show_int amountStroops)),
                   (''insurance_lender'', JStr lender)] None w'))
      | _ \<Rightarrow> (Inr [PayoutDeferred], w))"

definition already_defaulted :: "loan_row \<Rightarrow> bool" where
  "already_defaulted row \<longleftrightarrow> lr_defaultedAt row \<noteq> None \<or> js_truthy (js_get (lr_metadata row) ''defaulted_onchain_at'')"

definition already_proposed :: "loan_row \<Rightarrow> bool" where
  "already_proposed row \<longleftrightarrow> js_truthy (js_get (lr_metadata row) ''insurance_payout_proposed_at'')"

definition days_overdue :: "loan_row \<Rightarrow> jsnum \<Rightarrow> jsnum" where
  "days_overdue row ledgerTimeSecs = (case lr_dueAt row of Some d \<Rightarrow> computeDaysOverdue d ledgerTimeSecs | None \<Rightarrow> Fin 0)"

text \<open>The actions taken, or the error with the actions before it.\<close>

definition treat_loan :: "env \<Rightarrow> default_config \<Rightarrow> int \<Rightarrow> loan_row \<Rightarrow> jsnum \<Rightarrow> string option \<Rightarrow> int option \<Rightarrow> world
    \<Rightarrow> (string option \<times> default_action list) \<times> world" where
  "treat_loan e cfg ledgerMs row daysOverdue lenderAddress onchainLoanId w =
     (let ready = onchain_ready e cfg; wallet = getWallet (w_db w) (lr_borrowerId row)
      in case xlmToStroops (outstandingXlm row) of
           None \<Rightarrow> ((Some range_error, []), w)
         | Some amountStroops \<Rightarrow>
             (case (if already_defaulted row then (Inr [], w)
                    else default_step e ready ledgerMs row daysOverdue onchainLoanId wallet amountStroops w) of
                (Inl m, w1) \<Rightarrow> ((Some m, []), w1)
              | (Inr acts, w1) \<Rightarrow>
                  (if jle (dc_insurancePayoutDays cfg) daysOverdue \<and> \<not> already_proposed row then
                     (case payout_step e cfg ready ledgerMs row onchainLoanId lenderAddress amountStroops w1 of
                        (Inl m, w2) \<Rightarrow> ((Some m, acts), w2)
                      | (Inr acts', w2) \<Rightarrow> ((None, acts @ acts'), w2))
                   else ((None, acts), w1))))"

definition process_loan :: "env \<Rightarrow> default_config \<Rightarrow> int \<Rightarrow> jsnum \<Rightarrow> loan_row \<Rightarrow> world \<Rightarrow> loan_outcome \<times> world" where
  "process_loan e cfg ledgerMs ledgerTimeSecs row w =
     (let daysOverdue = days_overdue row ledgerTimeSecs;
          outcome = \<lparr>do_loanId = lr_id row, do_daysOverdue = daysOverdue, do_onchainLoanId = None, do_actions = [],
                     do_skipped = False, do_error = None\<rparr>
      in if jle daysOverdue (dc_gracePeriodDays cfg) then (outcome\<lparr>do_skipped := True\<rparr>, w)
         else (let (lenderAddress, onchainLoanId) = getFundingInfo e (w_db w) (lr_id row) (lr_metadata row);
                   ((err, acts), w') = treat_loan e cfg ledgerMs row daysOverdue lenderAddress onchainLoanId w
               in (outcome\<lparr>do_onchainLoanId := onchainLoanId, do_actions := acts, do_error := err\<rparr>, w')))"

subsection \<open>The run\<close>

fun process_loans :: "env \<Rightarrow> default_config \<Rightarrow> int \<Rightarrow> jsnum \<Rightarrow> loan_row list \<Rightarrow> world \<Rightarrow> loan_outcome list \<times> world" where
  "process_loans e cfg ledgerMs secs [] w = ([], w)"
| "process_loans e cfg ledgerMs secs (row # rows) w =
     (let (o1, w1) = process_loan e cfg ledgerMs secs row w; (os, w2) = process_loans e cfg ledgerMs secs rows w1
      in (o1 # os, w2))"

text \<open>\<open>None\<close>: the run throws, without a database or with a ledger time that is no date.\<close>

definition runDefaultManagement :: "env \<Rightarrow> default_config \<Rightarrow> string option \<Rightarrow> world \<Rightarrow> default_run_result option \<times> world" where
  "runDefaultManagement e cfg closedAt w =
     (if \<not> env_dbAvailable e then (None, w)
      else case getLedgerTimeSecs closedAt (env_now e) of
        Fin secs \<Rightarrow>
          (let ledgerMs = \<lfloor>secs\<rfloor> * 1000;
               rows = queryOverdueLoans (w_db w) ledgerMs;
               (outcomes, w') = process_loans e cfg ledgerMs (Fin secs) rows w
           in (Some \<lparr>dr_scanned = length rows,
                     dr_defaulted = length (filter (\<lambda>oc. DbDefaulted \<in> set (do_actions oc)) outcomes),
                     dr_payoutsProposed = length (filter (\<lambda>oc. DbProposedPayout \<in> set (do_actions oc)) outcomes),
                     dr_failed = length (filter (\<lambda>oc. do_error oc \<noteq> None) outcomes), dr_outcomes = outcomes\<rparr>, w'))
      | _ \<Rightarrow> (None, w))"

end
