(* ===== verification/DefaultSafety.thy ===== *)
theory DefaultSafety
  imports DefaultManagement Demo
begin

text \<open>
  What a default run does to a loan: it marks loans only past their grace period, and it never
  comes back to one it has marked, so the insurance of a loan that was marked in time is never
  asked for.
\<close>

definition loan_at :: "string \<Rightarrow> world \<Rightarrow> loan option" where
  "loan_at i w = find (\<lambda>l. loan_id l = i) (db_loans (w_db w))"

definition loan_ids :: "world \<Rightarrow> string list" where
  "loan_ids w = map loan_id (db_loans (w_db w))"

text \<open>The update of the run, as an update by key.\<close>

interpretation flag_loan_upd: keyed_update loan_id "flag_loan patch t" for patch t
  by unfold_locales (simp add: flag_loan_def Let_def split: option.split)

lemma flag_loan_status: "loan_status (flag_loan patch t l) = (if t = None then loan_status l else LoanDefaulted)"
  by (simp add: flag_loan_def Let_def split: option.split)

lemma loan_at_flag: "loan_at i (setLoanMetadataFlag j patch t w) = (if i = j then map_option (flag_loan patch t) (loan_at i w) else loan_at i w)"
  by (auto simp: loan_at_def setLoanMetadataFlag_def flag_loan_upd.find_update)

lemma loan_ids_flag [simp]: "loan_ids (setLoanMetadataFlag j patch t w) = loan_ids w"
  by (simp add: loan_ids_def setLoanMetadataFlag_def)

lemma loan_at_chain: "loan_at i (snd (invoke_signed e c m args w)) = loan_at i w" "loan_ids (snd (invoke_signed e c m args w)) = loan_ids w"
  by (simp_all add: loan_at_def loan_ids_def invoke_signed_def)

lemma loan_at_mark: "loan_at i (snd (markDefaultedOnChain e ids n wallet amt d w)) = loan_at i w"
    "loan_ids (snd (markDefaultedOnChain e ids n wallet amt d w)) = loan_ids w"
  by (cases ids; simp add: markDefaultedOnChain_def Let_def loan_at_def loan_ids_def invoke_signed_def split: sum.split)+

lemma loan_at_propose: "loan_at i (snd (proposeInsurancePayout e ids m n l amt w)) = loan_at i w"
    "loan_ids (snd (proposeInsurancePayout e ids m n l amt w)) = loan_ids w"
  by (cases ids; simp add: proposeInsurancePayout_def Let_def loan_at_def loan_ids_def invoke_signed_def)+

lemma default_step_at:
  assumes "default_step e ready ms row d n wallet amt w = (r, w')"
  shows "loan_ids w' = loan_ids w"
    and "i \<noteq> lr_id row \<Longrightarrow> loan_at i w' = loan_at i w"
    and "(case r of Inl _ \<Rightarrow> loan_at (lr_id row) w' = loan_at (lr_id row) w
       | Inr acts \<Rightarrow> DbDefaulted \<in> set acts \<and> DbProposedPayout \<notin> set acts \<and> loan_at (lr_id row) w' = map_option (flag_loan
           [(''defaulted_onchain_at'', JStr (toISOString ms)), (''days_overdue'', json_number d)] (Some ms)) (loan_at (lr_id row) w))"
  using assms loan_at_mark
  by (auto simp: default_step_def Let_def loan_at_flag split: option.splits prod.splits sum.splits) (metis loan_at_mark snd_conv)+

lemma payout_step_at:
  assumes "payout_step e cfg ready ms row n lender amt w = (r, w')"
  shows "loan_ids w' = loan_ids w"
    and "i \<noteq> lr_id row \<Longrightarrow> loan_at i w' = loan_at i w"
    and "map_option loan_status (loan_at i w') = map_option loan_status (loan_at i w)"
    and "r = Inr acts \<Longrightarrow> DbDefaulted \<notin> set acts"
proof -
  have idle: "loan_at k (snd x) = loan_at k w \<and> loan_ids (snd x) = loan_ids w"
    if "x = proposeInsurancePayout e ids m n' l amt w" for x ids m n' l k
    using that loan_at_propose by simp
  have "(\<exists>w1. (\<forall>k. loan_at k w1 = loan_at k w) \<and> loan_ids w1 = loan_ids w
      \<and> (w' = w1 \<or> (\<exists>patch. w' = setLoanMetadataFlag (lr_id row) patch None w1)))"
    using assms by (auto simp: payout_step_def split: option.splits prod.splits sum.splits; metis idle snd_conv)
  then show "loan_ids w' = loan_ids w" "i \<noteq> lr_id row \<Longrightarrow> loan_at i w' = loan_at i w"
      "map_option loan_status (loan_at i w') = map_option loan_status (loan_at i w)"
    by (auto simp: loan_at_flag flag_loan_status option.map_comp o_def)
  show "r = Inr acts \<Longrightarrow> DbDefaulted \<notin> set acts"
    using assms by (auto simp: payout_step_def split: option.splits prod.splits sum.splits)
qed

lemma treat_loan_at:
  assumes "treat_loan e cfg ms row d lender n w = ((err, acts), w')"
  shows "loan_ids w' = loan_ids w"
    and "i \<noteq> lr_id row \<Longrightarrow> loan_at i w' = loan_at i w"
    and "map_option loan_status (loan_at i w') \<in> {map_option loan_status (loan_at i w), map_option (\<lambda>_. LoanDefaulted) (loan_at i w)}"
    and "DbDefaulted \<in> set acts \<Longrightarrow> map_option loan_status (loan_at (lr_id row) w') = map_option (\<lambda>_. LoanDefaulted) (loan_at (lr_id row) w)"
    and "\<not> jle (dc_insurancePayoutDays cfg) d \<Longrightarrow> DbProposedPayout \<notin> set acts"
proof -
  let ?pay = "jle (dc_insurancePayoutDays cfg) d \<and> \<not> already_proposed row"
  consider (unchanged) "w' = w" "acts = []"
    | (treated) amt r1 w1 where "(r1, w1) = (if already_defaulted row then (Inr [], w)
          else default_step e (onchain_ready e cfg) ms row d n (getWallet (w_db w) (lr_borrowerId row)) amt w)"
        "(case r1 of Inl _ \<Rightarrow> w' = w1 \<and> acts = []
          | Inr a1 \<Rightarrow> (if ?pay then (case payout_step e cfg (onchain_ready e cfg) ms row n lender amt w1 of
                (Inl _, w2) \<Rightarrow> w' = w2 \<and> acts = a1 | (Inr a2, w2) \<Rightarrow> w' = w2 \<and> acts = a1 @ a2)
              else w' = w1 \<and> acts = a1))"
  proof (cases "xlmToStroops (outstandingXlm row)")
    case None
    then show ?thesis
      using assms unchanged by (simp add: treat_loan_def)
  next
    case (Some amt)
    obtain r1 w1 where r1: "(r1, w1) = (if already_defaulted row then (Inr [], w)
        else default_step e (onchain_ready e cfg) ms row d n (getWallet (w_db w) (lr_borrowerId row)) amt w)"
      by (metis surj_pair)
    show ?thesis
      using assms Some r1 [symmetric] by (intro treated [OF r1]) (auto simp: treat_loan_def Let_def split: sum.splits prod.splits if_splits)
  qed
  then have "loan_ids w' = loan_ids w \<and> (i \<noteq> lr_id row \<longrightarrow> loan_at i w' = loan_at i w)
    \<and> map_option loan_status (loan_at i w') \<in> {map_option loan_status (loan_at i w), map_option (\<lambda>_. LoanDefaulted) (loan_at i w)}
    \<and> (DbDefaulted \<in> set acts \<longrightarrow> map_option loan_status (loan_at (lr_id row) w') = map_option (\<lambda>_. LoanDefaulted) (loan_at (lr_id row) w))
    \<and> (\<not> jle (dc_insurancePayoutDays cfg) d \<longrightarrow> DbProposedPayout \<notin> set acts)"
  proof cases
    case unchanged
    then show ?thesis
      by simp
  next
    case (treated amt r1 w1)
    have one: "loan_ids w1 = loan_ids w" "k \<noteq> lr_id row \<Longrightarrow> loan_at k w1 = loan_at k w"
        "loan_at (lr_id row) w1 = (if \<exists>a1. r1 = Inr a1 \<and> DbDefaulted \<in> set a1
           then map_option (flag_loan [(''defaulted_onchain_at'', JStr (toISOString ms)), (''days_overdue'', json_number d)] (Some ms)) (loan_at (lr_id row) w) else loan_at (lr_id row) w)" for k
      using treated(1) default_step_at [of e "onchain_ready e cfg" ms row d n "getWallet (w_db w) (lr_borrowerId row)" amt w r1 w1]
      by (auto split: if_splits sum.splits)
    have status: "map_option loan_status (loan_at i w1) \<in> {map_option loan_status (loan_at i w), map_option (\<lambda>_. LoanDefaulted) (loan_at i w)}"
      using one(2) [of i] one(3) by (cases "i = lr_id row") (auto simp: option.map_comp o_def flag_loan_status)
    obtain r2 w2 where pay: "payout_step e cfg (onchain_ready e cfg) ms row n lender amt w1 = (r2, w2)"
      by (cases "payout_step e cfg (onchain_ready e cfg) ms row n lender amt w1")
    note pay_at = payout_step_at [OF pay]
    have "w' = w1 \<or> ?pay \<and> w' = w2"
      using treated(2) pay by (cases r1; cases ?pay; cases r2) simp_all
    then have two: "loan_ids w' = loan_ids w1" "k \<noteq> lr_id row \<Longrightarrow> loan_at k w' = loan_at k w1"
        "map_option loan_status (loan_at k w') = map_option loan_status (loan_at k w1)" for k
      using pay_at(1) pay_at(2,3) [of k] by auto
    have acts: "DbDefaulted \<in> set acts \<Longrightarrow> \<exists>a1. r1 = Inr a1 \<and> DbDefaulted \<in> set a1"
      using treated(2) pay pay_at(4) by (cases r1; cases ?pay; cases r2) auto
    have marked: "DbDefaulted \<in> set acts \<Longrightarrow> map_option loan_status (loan_at (lr_id row) w') = map_option (\<lambda>_. LoanDefaulted) (loan_at (lr_id row) w)"
      using acts two(3) [of "lr_id row"] one(3) by (auto simp: option.map_comp o_def flag_loan_status)
    have quiet: "\<not> jle (dc_insurancePayoutDays cfg) d \<Longrightarrow> DbProposedPayout \<notin> set acts"
      using treated(2) treated(1) default_step_at(3) [of e "onchain_ready e cfg" ms row d n "getWallet (w_db w) (lr_borrowerId row)" amt w r1 w1]
      by (cases r1) (auto split: if_splits)
    show ?thesis
      using one two status marked quiet by auto
  qed
  then show "loan_ids w' = loan_ids w" "i \<noteq> lr_id row \<Longrightarrow> loan_at i w' = loan_at i w"
      "map_option loan_status (loan_at i w') \<in> {map_option loan_status (loan_at i w), map_option (\<lambda>_. LoanDefaulted) (loan_at i w)}"
      "DbDefaulted \<in> set acts \<Longrightarrow> map_option loan_status (loan_at (lr_id row) w') = map_option (\<lambda>_. LoanDefaulted) (loan_at (lr_id row) w)"
      "\<not> jle (dc_insurancePayoutDays cfg) d \<Longrightarrow> DbProposedPayout \<notin> set acts"
    by blast+
qed

lemma process_loan_at:
  assumes "process_loan e cfg ms secs row w = (oc, w')"
  shows "loan_ids w' = loan_ids w"
    and "do_loanId oc = lr_id row"
    and "i \<noteq> lr_id row \<Longrightarrow> loan_at i w' = loan_at i w"
    and "map_option loan_status (loan_at i w') \<in> {map_option loan_status (loan_at i w), map_option (\<lambda>_. LoanDefaulted) (loan_at i w)}"
    and "jle (days_overdue row secs) (dc_gracePeriodDays cfg) \<Longrightarrow> w' = w \<and> do_actions oc = []"
    and "do_daysOverdue oc = days_overdue row secs"
    and "DbDefaulted \<in> set (do_actions oc) \<Longrightarrow> map_option loan_status (loan_at (lr_id row) w') = map_option (\<lambda>_. LoanDefaulted) (loan_at (lr_id row) w)"
    and "\<not> jle (dc_insurancePayoutDays cfg) (do_daysOverdue oc) \<Longrightarrow> DbProposedPayout \<notin> set (do_actions oc)"
proof -
  obtain lender n where info: "getFundingInfo e (w_db w) (lr_id row) (lr_metadata row) = (lender, n)"
    by (cases "getFundingInfo e (w_db w) (lr_id row) (lr_metadata row)")
  obtain err acts w1 where treat: "treat_loan e cfg ms row (days_overdue row secs) lender n w = ((err, acts), w1)"
    by (metis surj_pair)
  note at = treat_loan_at [OF treat]
  have "loan_ids w' = loan_ids w \<and> do_loanId oc = lr_id row \<and> do_daysOverdue oc = days_overdue row secs \<and> (w' = w \<and> do_actions oc = []
      \<or> \<not> jle (days_overdue row secs) (dc_gracePeriodDays cfg) \<and> w' = w1 \<and> do_actions oc = acts)"
    using assms info treat at(1) by (auto simp: process_loan_def Let_def split: if_splits)
  then show "loan_ids w' = loan_ids w" "do_loanId oc = lr_id row"
    "i \<noteq> lr_id row \<Longrightarrow> loan_at i w' = loan_at i w"
    "map_option loan_status (loan_at i w') \<in> {map_option loan_status (loan_at i w), map_option (\<lambda>_. LoanDefaulted) (loan_at i w)}"
    "do_daysOverdue oc = days_overdue row secs"
    "DbDefaulted \<in> set (do_actions oc) \<Longrightarrow> map_option loan_status (loan_at (lr_id row) w') = map_option (\<lambda>_. LoanDefaulted) (loan_at (lr_id row) w)"
    "\<not> jle (dc_insurancePayoutDays cfg) (do_daysOverdue oc) \<Longrightarrow> DbProposedPayout \<notin> set (do_actions oc)"
    using at(2,3) [of i] at(4,5) by auto
  show "jle (days_overdue row secs) (dc_gracePeriodDays cfg) \<Longrightarrow> w' = w \<and> do_actions oc = []"
    using assms by (auto simp: process_loan_def Let_def)
qed

subsection \<open>A whole run\<close>

lemma status_chain:
  assumes "a \<in> {b, map_option (\<lambda>_. LoanDefaulted) l}" "b \<in> {c, map_option (\<lambda>_. LoanDefaulted) l'}" "(l = None) = (l' = None)"
  shows "a \<in> {c, map_option (\<lambda>_. LoanDefaulted) l'}"
  using assms by (cases l; cases l') auto

lemma loan_at_none: "loan_at i w = None \<longleftrightarrow> i \<notin> set (loan_ids w)"
  by (auto simp: loan_at_def loan_ids_def find_None_iff)

lemma loan_at_unique: "distinct (loan_ids w) \<Longrightarrow> loan_at i w = Some l \<Longrightarrow> l2 \<in> set (db_loans (w_db w)) \<Longrightarrow> loan_id l2 = i \<Longrightarrow> l2 = l"
  by (auto simp: loan_ids_def loan_at_def find_Some_iff distinct_map inj_on_def)

lemma process_loans_at:
  "process_loans e cfg ms secs rows w = (ocs, w') \<Longrightarrow>
    loan_ids w' = loan_ids w \<and> map do_loanId ocs = map lr_id rows
    \<and> map_option loan_status (loan_at i w') \<in> {map_option loan_status (loan_at i w), map_option (\<lambda>_. LoanDefaulted) (loan_at i w)}
    \<and> ((\<forall>row \<in> set rows. lr_id row = i \<longrightarrow> jle (days_overdue row secs) (dc_gracePeriodDays cfg)) \<longrightarrow> loan_at i w' = loan_at i w)
    \<and> (\<forall>oc \<in> set ocs. do_loanId oc = i \<longrightarrow> DbDefaulted \<in> set (do_actions oc) \<longrightarrow>
         map_option loan_status (loan_at i w') = map_option (\<lambda>_. LoanDefaulted) (loan_at i w))
    \<and> (\<forall>oc \<in> set ocs. \<not> jle (dc_insurancePayoutDays cfg) (do_daysOverdue oc) \<longrightarrow> DbProposedPayout \<notin> set (do_actions oc))"
proof (induction rows arbitrary: w ocs)
  case Nil
  then show ?case
    by simp
next
  case (Cons row rows)
  obtain oc w1 ocs' where one: "process_loan e cfg ms secs row w = (oc, w1)"
      and rest: "process_loans e cfg ms secs rows w1 = (ocs', w')" and ocs: "ocs = oc # ocs'"
    using Cons.prems by (auto split: prod.splits)
  note at = process_loan_at [OF one]
  from Cons.IH [OF rest] have
        ids: "loan_ids w' = loan_ids w1" "map do_loanId ocs' = map lr_id rows"
    and st: "map_option loan_status (loan_at i w') \<in> {map_option loan_status (loan_at i w1), map_option (\<lambda>_. LoanDefaulted) (loan_at i w1)}"
    and same: "\<forall>row \<in> set rows. lr_id row = i \<longrightarrow> jle (days_overdue row secs) (dc_gracePeriodDays cfg) \<Longrightarrow> loan_at i w' = loan_at i w1"
    and marked: "\<forall>oc \<in> set ocs'. do_loanId oc = i \<longrightarrow> DbDefaulted \<in> set (do_actions oc) \<longrightarrow>
         map_option loan_status (loan_at i w') = map_option (\<lambda>_. LoanDefaulted) (loan_at i w1)"
    and quiet: "\<forall>oc \<in> set ocs'. \<not> jle (dc_insurancePayoutDays cfg) (do_daysOverdue oc) \<longrightarrow> DbProposedPayout \<notin> set (do_actions oc)"
    by blast+
  have none: "(loan_at i w1 = None) = (loan_at i w = None)"
    by (simp add: loan_at_none at(1))
  have later: "map_option (\<lambda>_. LoanDefaulted) (loan_at i w1) = map_option (\<lambda>_. LoanDefaulted) (loan_at i w)"
    using none by (cases "loan_at i w"; cases "loan_at i w1") simp_all
  have "map_option loan_status (loan_at i w') \<in> {map_option loan_status (loan_at i w), map_option (\<lambda>_. LoanDefaulted) (loan_at i w)}"
    by (rule status_chain [OF st at(4) none])
  moreover have "loan_at i w' = loan_at i w"
    if "\<forall>row' \<in> set (row # rows). lr_id row' = i \<longrightarrow> jle (days_overdue row' secs) (dc_gracePeriodDays cfg)"
  proof -
    have "loan_at i w1 = loan_at i w"
      using at(3) [of i] at(5) that by (cases "lr_id row = i") simp_all
    then show ?thesis
      using same that by simp
  qed
  moreover have "map_option loan_status (loan_at i w') = map_option (\<lambda>_. LoanDefaulted) (loan_at i w)"
    if "oc2 \<in> set ocs" "do_loanId oc2 = i" "DbDefaulted \<in> set (do_actions oc2)" for oc2
  proof (cases "oc2 = oc")
    case True
    then have "map_option loan_status (loan_at i w1) = map_option (\<lambda>_. LoanDefaulted) (loan_at i w)"
      using at(2,7) that by simp
    then show ?thesis
      using st later by simp
  next
    case False
    then show ?thesis
      using marked that later ocs by simp
  qed
  moreover have "DbProposedPayout \<notin> set (do_actions oc2)"
    if "oc2 \<in> set ocs" "\<not> jle (dc_insurancePayoutDays cfg) (do_daysOverdue oc2)" for oc2
    using that quiet at(8) ocs by (cases "oc2 = oc") simp_all
  moreover have "loan_ids w' = loan_ids w" "map do_loanId ocs = map lr_id (row # rows)"
    using ids at(1,2) ocs by simp_all
  ultimately show ?case
    by blast
qed

lemma run_at:
  assumes "runDefaultManagement e cfg closedAt w = (Some r, w')"
  obtains secs where "getLedgerTimeSecs closedAt (env_now e) = Fin secs"
    "process_loans e cfg (\<lfloor>secs\<rfloor> * 1000) (Fin secs) (queryOverdueLoans (w_db w) (\<lfloor>secs\<rfloor> * 1000)) w = (dr_outcomes r, w')"
  using assms by (auto simp: runDefaultManagement_def Let_def split: if_splits jsnum.splits prod.splits)

lemma run_none: "runDefaultManagement e cfg closedAt w = (None, w') \<Longrightarrow> w' = w"
  by (auto simp: runDefaultManagement_def Let_def split: if_splits jsnum.splits prod.splits)

text \<open>
  C37: Over a whole run, whatever the chain answers, no loan disappears and its status stays or
  becomes defaulted; and it can only become defaulted if the query found it active or funded with
  a due date before the ledger time, and it was overdue by more days than the grace period.
\<close>

theorem default_only_past_grace:
  assumes "runDefaultManagement e cfg closedAt w = (Some r, w')"
    and "distinct (loan_ids w)"
    and "loan_at i w = Some l"
  shows "\<exists>l' secs. loan_at i w' = Some l' \<and> getLedgerTimeSecs closedAt (env_now e) = Fin secs
    \<and> (loan_status l' = loan_status l
       \<or> loan_status l' = LoanDefaulted \<and> overdue (\<lfloor>secs\<rfloor> * 1000) l
         \<and> \<not> jle (days_overdue (row_of_loan l) (Fin secs)) (dc_gracePeriodDays cfg))"
proof -
  obtain secs where secs: "getLedgerTimeSecs closedAt (env_now e) = Fin secs"
      and run: "process_loans e cfg (\<lfloor>secs\<rfloor> * 1000) (Fin secs) (queryOverdueLoans (w_db w) (\<lfloor>secs\<rfloor> * 1000)) w = (dr_outcomes r, w')"
    using assms(1) by (rule run_at)
  note at = process_loans_at [OF run, of i]
  obtain l' where l': "loan_at i w' = Some l'"
    using at assms(3) loan_at_none [of i w'] loan_at_none [of i w] by (cases "loan_at i w'") auto
  have only: "l2 = l" if "l2 \<in> set (db_loans (w_db w))" "loan_id l2 = i" for l2
    using loan_at_unique assms(2,3) that by blast
  have "loan_status l' = loan_status l \<or> (\<exists>row \<in> set (queryOverdueLoans (w_db w) (\<lfloor>secs\<rfloor> * 1000)). lr_id row = i
      \<and> \<not> jle (days_overdue row (Fin secs)) (dc_gracePeriodDays cfg))"
    using at l' assms(3) by auto
  moreover have "loan_status l' \<in> {loan_status l, LoanDefaulted}"
    using at l' assms(3) by auto
  ultimately show ?thesis
    using l' secs only by (auto simp: queryOverdueLoans_def row_of_loan_def)
qed

subsection \<open>The runs after it\<close>

text \<open>The scheduler calls the run again and again; a run that throws leaves no result.\<close>

fun default_runs :: "(env \<times> default_config \<times> string option) list \<Rightarrow> world \<Rightarrow> default_run_result option list \<times> world" where
  "default_runs [] w = ([], w)"
| "default_runs ((e, cfg, closedAt) # rs) w =
     (let (r, w1) = runDefaultManagement e cfg closedAt w; (results, w2) = default_runs rs w1 in (r # results, w2))"

definition treats_loan :: "string \<Rightarrow> default_run_result option \<Rightarrow> bool" where
  "treats_loan i r \<longleftrightarrow> (case r of Some res \<Rightarrow> i \<in> do_loanId ` set (dr_outcomes res) | None \<Rightarrow> False)"

lemma run_skips_defaulted:
  assumes "runDefaultManagement e cfg closedAt w = (r, w')" "distinct (loan_ids w)"
    "map_option loan_status (loan_at i w) = Some LoanDefaulted"
  shows "\<not> treats_loan i r \<and> distinct (loan_ids w') \<and> map_option loan_status (loan_at i w') = Some LoanDefaulted"
proof (cases r)
  case None
  then show ?thesis
    using run_none [of e cfg closedAt w w'] assms by (simp add: treats_loan_def)
next
  case (Some res)
  obtain secs where run: "process_loans e cfg (\<lfloor>secs\<rfloor> * 1000) (Fin secs) (queryOverdueLoans (w_db w) (\<lfloor>secs\<rfloor> * 1000)) w = (dr_outcomes res, w')"
    using assms(1) Some run_at by metis
  note at = process_loans_at [OF run, of i]
  obtain l where l: "loan_at i w = Some l" "loan_status l = LoanDefaulted"
    using assms(3) by auto
  have "\<not> overdue t l2" if "l2 \<in> set (db_loans (w_db w))" "loan_id l2 = i" for l2 t
    using loan_at_unique [OF assms(2) l(1) that] l(2) by (simp add: overdue_def)
  then have "i \<notin> lr_id ` set (queryOverdueLoans (w_db w) t)" for t
    by (auto simp: queryOverdueLoans_def row_of_loan_def)
  moreover have "do_loanId ` set (dr_outcomes res) = lr_id ` set (queryOverdueLoans (w_db w) (\<lfloor>secs\<rfloor> * 1000))"
    using at by (metis set_map)
  ultimately have "\<not> treats_loan i r"
    using Some by (simp add: treats_loan_def)
  moreover have "distinct (loan_ids w')" "map_option loan_status (loan_at i w') = Some LoanDefaulted"
    using at assms(2,3) by auto
  ultimately show ?thesis
    by simp
qed

lemma runs_skip_defaulted:
  "default_runs rs w = (results, w') \<Longrightarrow> distinct (loan_ids w) \<Longrightarrow> map_option loan_status (loan_at i w) = Some LoanDefaulted
    \<Longrightarrow> \<forall>r \<in> set results. \<not> treats_loan i r"
proof (induction rs w arbitrary: results rule: default_runs.induct)
  case (2 e cfg closedAt rs w)
  obtain r w1 results' w2 where one: "runDefaultManagement e cfg closedAt w = (r, w1)" and rest: "default_runs rs w1 = (results', w2)"
    by (metis surj_pair)
  have "\<not> treats_loan i r \<and> distinct (loan_ids w1) \<and> map_option loan_status (loan_at i w1) = Some LoanDefaulted"
    using run_skips_defaulted one "2.prems"(2,3) by blast
  then show ?case
    using "2.IH" "2.prems"(1) one rest by auto
qed simp

text \<open>
  C38: Once a run has marked a loan defaulted before the insurance threshold, the insurance payout of
  that loan is never proposed: not in that run, and no later run of any number, time and
  configuration treats the loan again, because the query selects active and funded loans only.
\<close>

theorem insurance_never_proposed:
  assumes "runDefaultManagement e cfg closedAt w = (Some r, w1)"
    and "distinct (loan_ids w)"
    and "oc \<in> set (dr_outcomes r)"
    and "DbDefaulted \<in> set (do_actions oc)"
    and "\<not> jle (dc_insurancePayoutDays cfg) (do_daysOverdue oc)"
    and "default_runs rs w1 = (results, w2)"
  shows "DbProposedPayout \<notin> set (do_actions oc) \<and> (\<forall>later \<in> set results. \<not> treats_loan (do_loanId oc) later)"
proof -
  obtain secs where run: "process_loans e cfg (\<lfloor>secs\<rfloor> * 1000) (Fin secs) (queryOverdueLoans (w_db w) (\<lfloor>secs\<rfloor> * 1000)) w = (dr_outcomes r, w1)"
    using assms(1) by (rule run_at)
  note at = process_loans_at [OF run, of "do_loanId oc"]
  have "do_loanId oc \<in> set (map lr_id (queryOverdueLoans (w_db w) (\<lfloor>secs\<rfloor> * 1000)))"
    using at assms(3) by (metis image_eqI set_map)
  then have "do_loanId oc \<in> set (loan_ids w)"
    by (auto simp: queryOverdueLoans_def row_of_loan_def loan_ids_def)
  then have "map_option loan_status (loan_at (do_loanId oc) w1) = Some LoanDefaulted"
    using at assms(3,4) loan_at_none [of "do_loanId oc" w] by auto
  moreover have "distinct (loan_ids w1)"
    using at assms(2) by simp
  ultimately show ?thesis
    using runs_skip_defaulted [OF assms(6)] at assms(3,5) by blast
qed

subsection \<open>Examples\<close>

definition late_loan :: loan where
  "late_loan = (demo_loan 100000000)\<lparr>loan_status := LoanActive, loan_dueAt := Some 0\<rparr>"

definition late_world :: world where
  "late_world = \<lparr>w_db = empty_db\<lparr>db_loans := [late_loan]\<rparr>, w_log = []\<rparr>"

definition late_env :: env where
  "late_env = (demo_env demo_lender (demo_horizon ''GL'' '''' ''GB'' ''1''))\<lparr>env_now := 864000000\<rparr>"

definition late_cfg :: default_config where
  "late_cfg = \<lparr>dc_gracePeriodDays = Fin 7, dc_insurancePayoutDays = Fin 60, dc_defaultId = None, dc_multisigAdminId = None\<rparr>"

lemma late_run: "map_option (\<lambda>r. map (\<lambda>oc. (do_loanId oc, do_actions oc, do_daysOverdue oc)) (dr_outcomes r))
    (fst (runDefaultManagement late_env late_cfg None late_world)) = Some [(''L'', [DbDefaulted], Fin 10)]"
  by code_simp

lemma late_distinct: "distinct (loan_ids late_world)" "loan_at ''L'' late_world = Some late_loan"
  by (simp_all add: loan_ids_def loan_at_def late_world_def late_loan_def)

lemma insurance_never_proposed_witness:
  "\<exists>r w1 oc. runDefaultManagement late_env late_cfg None late_world = (Some r, w1) \<and> oc \<in> set (dr_outcomes r)
    \<and> DbDefaulted \<in> set (do_actions oc) \<and> DbProposedPayout \<notin> set (do_actions oc)
    \<and> (\<forall>later \<in> set (fst (default_runs [(late_env\<lparr>env_now := 6048000000\<rparr>, late_cfg, None)] w1)). \<not> treats_loan ''L'' later)"
proof -
  obtain r w1 where run: "runDefaultManagement late_env late_cfg None late_world = (Some r, w1)"
    using late_run by (cases "runDefaultManagement late_env late_cfg None late_world") auto
  then obtain oc where oc: "oc \<in> set (dr_outcomes r)" "do_loanId oc = ''L''" "do_actions oc = [DbDefaulted]" "do_daysOverdue oc = Fin 10"
    using late_run by (cases "dr_outcomes r") auto
  obtain results w2 where later: "default_runs [(late_env\<lparr>env_now := 6048000000\<rparr>, late_cfg, None)] w1 = (results, w2)"
    by (metis surj_pair)
  have "\<not> jle (dc_insurancePayoutDays late_cfg) (do_daysOverdue oc)"
    by (simp add: late_cfg_def oc(4))
  then show ?thesis
    using insurance_never_proposed [OF run late_distinct(1) oc(1) _ _ later] run oc later by auto
qed

lemma default_only_past_grace_witness:
  "\<exists>r w' l' secs. runDefaultManagement late_env late_cfg None late_world = (Some r, w') \<and> loan_at (''L'') w' = Some l'
    \<and> getLedgerTimeSecs None (env_now late_env) = Fin secs
    \<and> (loan_status l' = loan_status late_loan \<or> loan_status l' = LoanDefaulted \<and> overdue (\<lfloor>secs\<rfloor> * 1000) late_loan
        \<and> \<not> jle (days_overdue (row_of_loan late_loan) (Fin secs)) (dc_gracePeriodDays late_cfg))"
proof -
  obtain r w1 where run: "runDefaultManagement late_env late_cfg None late_world = (Some r, w1)"
    using late_run by (cases "runDefaultManagement late_env late_cfg None late_world") auto
  show ?thesis
    using default_only_past_grace [OF run late_distinct] run by blast
qed

end
