(* ===== verification/LiquidationKeeper.thy ===== *)
theory LiquidationKeeper
  imports Lifecycle OracleKeeper
begin

text \<open>
  The liquidation keeper, \<open>src/scripts/liquidation-keeper.ts\<close>: its configuration, the reads of a
  loan and its price, and a run over the candidate loans. The chain answers through the
  environment; the SDK's conversion to an unsigned 32-bit value and the language's power of ten,
  which the standard leaves to the implementation, are parameters. Logging and the webhooks are
  left out, and so is the endless loop around a run.
\<close>

subsection \<open>Configuration\<close>

datatype candidate_source = FromDb | FromChain

record liquidation_config =
  lq_source :: candidate_source
  lq_dryRun :: bool
  lq_intervalSecs :: "jsnum option"
  lq_lendingContractId :: string
  lq_reputationContractId :: string
  lq_adminAddress :: string
  lq_xlmPriceUsd :: jsnum
  lq_priceTable :: jsval
  lq_defaultAssetVolatilityBps :: jsnum
  lq_slackWebhookUrl :: "string option"
  lq_discordWebhookUrl :: "string option"
  lq_databaseUrl :: "string option"

text \<open>\<open>--key=value\<close>, with everything after the first \<open>=\<close>, or a bare \<open>--key\<close>\<close>

definition parse_flag :: "string \<Rightarrow> (string \<times> jsval) option" where
  "parse_flag raw =
     (if \<not> is_prefix ''--'' raw then None
      else let arg = drop 2 raw; key = takeWhile (\<lambda>c. c \<noteq> CHR ''='') arg
           in Some (key, if key = arg then JBool True else JStr (drop (Suc (length key)) arg)))"

definition parse_flags :: "string list \<Rightarrow> jsval" where
  "parse_flags argv = JObj (List.map_filter parse_flag argv)"

definition nonempty :: "string option \<Rightarrow> string option" where
  "nonempty v = (case v of Some (c # cs) \<Rightarrow> Some (c # cs) | _ \<Rightarrow> None)"

definition loadPriceTable :: "(string \<Rightarrow> jsval option) \<Rightarrow> (string \<Rightarrow> string option) \<Rightarrow> jsval" where
  "loadPriceTable parse env =
     (case nonempty (env ''LIQUIDATION_PRICE_TABLE_JSON'') of
        None \<Rightarrow> JObj []
      | Some raw \<Rightarrow> (case parse raw of Some v \<Rightarrow> v | None \<Rightarrow> JObj []))"

definition env_number :: "(string \<Rightarrow> string option) \<Rightarrow> string \<Rightarrow> jsnum \<Rightarrow> jsnum" where
  "env_number env k d = (case env k of Some v \<Rightarrow> string_to_number v | None \<Rightarrow> d)"

definition loadConfig :: "(string \<Rightarrow> jsval option) \<Rightarrow> string list \<Rightarrow> (string \<Rightarrow> string option) \<Rightarrow> string + liquidation_config" where
  "loadConfig parse argv env =
     (let args = parse_flags argv;
          source = js_nullish (js_get args ''source'') (js_nullish (env_value env ''LIQUIDATION_SOURCE'') (JStr ''db''));
          intervalRaw = js_nullish (js_get args ''interval'') (env_value env ''LIQUIDATION_POLL_INTERVAL_SECS'');
          intervalSecs = (if js_truthy intervalRaw then js_to_number intervalRaw else Fin 0)
      in if source \<noteq> JStr ''db'' \<and> source \<noteq> JStr ''chain'' then Inl (''Invalid --source '' @ js_to_string source)
         else Inr
           \<lparr>lq_source = (if source = JStr ''db'' then FromDb else FromChain),
            lq_dryRun = (js_truthy (js_get args ''dry-run'') \<or> env ''LIQUIDATION_DRY_RUN'' = Some ''true''),
            lq_intervalSecs = (if num_truthy intervalSecs \<and> jlt (Fin 0) intervalSecs then Some intervalSecs else None),
            lq_lendingContractId = opt_string (env ''NEXT_PUBLIC_LENDING_CONTRACT_ID''),
            lq_reputationContractId = opt_string (env ''NEXT_PUBLIC_REPUTATION_CONTRACT_ID''),
            lq_adminAddress = opt_string (env ''NEXT_PUBLIC_ADMIN_ADDRESS''),
            lq_xlmPriceUsd = env_number env ''LIQUIDATION_XLM_PRICE_USD'' (to_num (12 / 100)),
            lq_priceTable = loadPriceTable parse env,
            lq_defaultAssetVolatilityBps = env_number env ''LIQUIDATION_DEFAULT_ASSET_VOLATILITY_BPS'' (Fin 2000),
            lq_slackWebhookUrl = nonempty (env ''LIQUIDATION_SLACK_WEBHOOK_URL''),
            lq_discordWebhookUrl = nonempty (env ''LIQUIDATION_DISCORD_WEBHOOK_URL''),
            lq_databaseUrl = env ''DATABASE_URL''\<rparr>)"

subsection \<open>Prices and ratios\<close>

text \<open>The entry of an asset: its price and its decimals, as they are in the table.\<close>

definition resolveAssetPrice :: "liquidation_config \<Rightarrow> jsval \<Rightarrow> string + (jsval \<times> jsval) option" where
  "resolveAssetPrice cfg assetAddress =
     (if assetAddress = JStr ''XLM'' \<or> assetAddress = JStr ''native'' then Inr (Some (JNum (lq_xlmPriceUsd cfg), JNum (Fin 7)))
      else if lq_priceTable cfg = JNull \<or> lq_priceTable cfg = JUndef then Inl ''Cannot read properties of null''
      else let entry = js_get (lq_priceTable cfg) (js_to_string assetAddress)
           in Inr (if js_truthy entry then Some (js_get entry ''priceUsd'', js_get entry ''decimals'') else None))"

definition MAX_SAFE_INTEGER :: jsnum where "MAX_SAFE_INTEGER = Fin (2 ^ 53 - 1)"

definition computeLtvBps :: "(jsnum \<Rightarrow> jsnum) \<Rightarrow> int \<Rightarrow> jsnum \<Rightarrow> int \<Rightarrow> jsnum \<Rightarrow> jsnum \<Rightarrow> jsnum" where
  "computeLtvBps pow10 remainingDueStroops xlmPriceUsd collateralAmount collateralDecimals collateralPriceUsd =
     (let debtUsd = jmul (jdiv (to_num (of_int remainingDueStroops)) (Fin 10000000)) xlmPriceUsd;
          collateralUsd = jmul (jdiv (to_num (of_int collateralAmount)) (pow10 collateralDecimals)) collateralPriceUsd
      in if jle collateralUsd (Fin 0) then MAX_SAFE_INTEGER
         else jround (jmul (jdiv debtUsd collateralUsd) (Fin 10000)))"

definition shouldLiquidate :: "jsnum \<Rightarrow> jsnum \<Rightarrow> bool" where
  "shouldLiquidate ltvBps thresholdBps = jle thresholdBps ltvBps"

subsection \<open>Reads of the chain\<close>

record keeper_env =
  ke_env :: env
  ke_u32 :: "jsnum \<Rightarrow> string + int"
  ke_pow10 :: "jsnum \<Rightarrow> jsnum"

record keeper_loan =
  kl_id :: jsnum
  kl_borrower :: jsval
  kl_status :: jsval
  kl_remainingDue :: int
  kl_collateralAsset :: jsval
  kl_collateralAmount :: int

text \<open>\<open>Object.keys(o)\<close>: indices first, in order, then the other keys as they were set.\<close>

definition is_index :: "string \<Rightarrow> bool" where
  "is_index k \<longleftrightarrow> k = ''0'' \<or> (k \<noteq> [] \<and> hd k \<noteq> CHR ''0'' \<and> list_all is_digit k \<and> fst (read_digits 0 0 k) < 2 ^ 32 - 1)"

definition object_keys :: "(string \<times> jsval) list \<Rightarrow> string list" where
  "object_keys kvs =
     (let ks = rev (remdups (rev (map fst kvs)))
      in sort_key (\<lambda>k. fst (read_digits 0 0 k)) (filter is_index ks) @ filter (\<lambda>k. \<not> is_index k) ks)"

definition first_key :: "string list \<Rightarrow> jsval" where
  "first_key ks = (case ks of k # _ \<Rightarrow> JStr k | [] \<Rightarrow> JUndef)"

definition extractEnumVariant :: "jsval \<Rightarrow> jsval" where
  "extractEnumVariant val =
     (case val of
        JObj kvs \<Rightarrow> first_key (object_keys kvs)
      | JArr vs \<Rightarrow> first_key (map (\<lambda>i. show_int (int i)) [0..<length vs])
      | v \<Rightarrow> JStr (js_to_string v))"

text \<open>\<open>BigInt(v)\<close>, which throws on what is no whole number\<close>

definition js_to_bigint :: "jsval \<Rightarrow> int option" where
  "js_to_bigint v =
     (case v of
        JBig n \<Rightarrow> Some n
      | JNum (Fin r) \<Rightarrow> if is_integer (Fin r) then Some \<lfloor>r\<rfloor> else None
      | JBool b \<Rightarrow> Some (if b then 1 else 0)
      | JStr s \<Rightarrow> string_to_bigint s
      | JArr vs \<Rightarrow> string_to_bigint (js_to_string v)
      | JObj kvs \<Rightarrow> string_to_bigint (js_to_string v)
      | _ \<Rightarrow> None)"

definition read_chain :: "keeper_env \<Rightarrow> liquidation_config \<Rightarrow> string \<Rightarrow> string \<Rightarrow> chain_arg list \<Rightarrow> string + jsval" where
  "read_chain ke cfg contract method args = ch_invokeReadOnly (env_chain (ke_env ke)) contract method args (lq_adminAddress cfg)"

definition decode_loan :: "jsval \<Rightarrow> string + keeper_loan" where
  "decode_loan raw =
     (if raw = JUndef \<or> raw = JNull then Inl ''Cannot read properties of null''
      else case (js_to_bigint (js_get raw ''remaining_due''), js_to_bigint (js_get raw ''collateral_amount'')) of
        (Some due, Some collateral) \<Rightarrow>
          Inr \<lparr>kl_id = js_to_number (js_get raw ''id''), kl_borrower = js_get raw ''borrower'',
               kl_status = extractEnumVariant (js_get raw ''status''), kl_remainingDue = due,
               kl_collateralAsset = js_get raw ''collateral_asset'', kl_collateralAmount = collateral\<rparr>
      | _ \<Rightarrow> Inl ''Cannot convert to a BigInt'')"

definition getOnchainLoan :: "keeper_env \<Rightarrow> liquidation_config \<Rightarrow> jsnum \<Rightarrow> string + keeper_loan" where
  "getOnchainLoan ke cfg loanId =
     bindE (ke_u32 ke loanId) (\<lambda>n.
     bindE (read_chain ke cfg (lq_lendingContractId cfg) ''get_loan'' [ArgU32 n]) decode_loan)"

definition getLoanCount :: "keeper_env \<Rightarrow> liquidation_config \<Rightarrow> string + jsnum" where
  "getLoanCount ke cfg = map_sum id js_to_number (read_chain ke cfg (lq_lendingContractId cfg) ''get_loan_count'' [])"

definition getReputationScore :: "keeper_env \<Rightarrow> liquidation_config \<Rightarrow> jsval \<Rightarrow> string + jsnum" where
  "getReputationScore ke cfg borrower =
     (case borrower of
        JStr g \<Rightarrow> map_sum id js_to_number (read_chain ke cfg (lq_reputationContractId cfg) ''get_reputation_score'' [ArgAddr g])
      | _ \<Rightarrow> Inl ''Unsupported address type'')"

definition getLiquidationThresholdBps :: "keeper_env \<Rightarrow> liquidation_config \<Rightarrow> jsnum \<Rightarrow> jsnum \<Rightarrow> string + jsnum" where
  "getLiquidationThresholdBps ke cfg reputationScore assetVolatilityBps =
     bindE (ke_u32 ke reputationScore) (\<lambda>score.
     bindE (ke_u32 ke assetVolatilityBps) (\<lambda>volatility.
     map_sum id js_to_number
       (read_chain ke cfg (lq_lendingContractId cfg) ''calculate_liquidation_threshold'' [ArgU32 score, ArgU32 volatility])))"

definition checkLiquidationEligibility :: "keeper_env \<Rightarrow> liquidation_config \<Rightarrow> jsnum \<Rightarrow> string + bool" where
  "checkLiquidationEligibility ke cfg loanId =
     bindE (ke_u32 ke loanId) (\<lambda>n.
     map_sum id js_truthy (read_chain ke cfg (lq_lendingContractId cfg) ''check_liquidation_eligibility'' [ArgU32 n]))"

subsection \<open>The candidates\<close>

definition resolveOnchainLoanId :: "env \<Rightarrow> database \<Rightarrow> string \<Rightarrow> jsnum option" where
  "resolveOnchainLoanId e db dbLoanId =
     (let raw = (case find (\<lambda>t. lt_refType t = Some ''loan_fund'' \<and> lt_refId t = Some dbLoanId) (db_ledgerTransactions db) of
            Some t \<Rightarrow> lt_metadata t | None \<Rightarrow> JUndef);
          meta = (case raw of JStr s \<Rightarrow> (case env_jsonParse e s of Some v \<Rightarrow> v | None \<Rightarrow> JNull) | v \<Rightarrow> v);
          candidate = js_to_number (js_nullish (js_get meta ''onchainLoanId'') (js_get meta ''onchain_loan_id''))
      in if js_truthy meta \<and> is_integer candidate \<and> jlt (Fin 0) candidate then Some candidate else None)"

definition fetchCandidatesFromDb :: "keeper_env \<Rightarrow> liquidation_config \<Rightarrow> database \<Rightarrow> string + jsnum list" where
  "fetchCandidatesFromDb ke cfg db =
     (if nonempty (lq_databaseUrl cfg) = None \<or> \<not> env_dbAvailable (ke_env ke) then Inl ''The database is not configured''
      else Inr (List.map_filter (\<lambda>l. resolveOnchainLoanId (ke_env ke) db (loan_id l))
                  (filter (\<lambda>l. loan_status l \<in> {LoanActive, LoanFunded}) (db_loans db))))"

text \<open>A run throws, or it never ends (with an infinite loan count), or it returns.\<close>

datatype 'a run_result = Throws string | Endless | Returns 'a

definition fetchCandidatesFromChain :: "keeper_env \<Rightarrow> liquidation_config \<Rightarrow> jsnum list run_result" where
  "fetchCandidatesFromChain ke cfg =
     (case getLoanCount ke cfg of
        Inl m \<Rightarrow> Throws m
      | Inr (Fin r) \<Rightarrow> Returns (map (\<lambda>i. Fin (of_int i)) [1..\<lfloor>r\<rfloor>])
      | Inr PosInf \<Rightarrow> Endless
      | Inr _ \<Rightarrow> Returns [])"

definition fetch_candidates :: "keeper_env \<Rightarrow> liquidation_config \<Rightarrow> database \<Rightarrow> jsnum list run_result" where
  "fetch_candidates ke cfg db =
     (case lq_source cfg of
        FromDb \<Rightarrow> (case fetchCandidatesFromDb ke cfg db of Inl m \<Rightarrow> Throws m | Inr ids \<Rightarrow> Returns ids)
      | FromChain \<Rightarrow> fetchCandidatesFromChain ke cfg)"

subsection \<open>A run\<close>

record keeper_summary =
  sm_scanned :: nat
  sm_liquidated :: nat
  sm_healthy :: nat
  sm_skipped :: nat
  sm_failed :: nat

datatype loan_check = CheckSkipped | CheckHealthy | CheckLiquidated | CheckFailed string

definition liquidate :: "keeper_env \<Rightarrow> liquidation_config \<Rightarrow> string option \<Rightarrow> jsnum \<Rightarrow> world \<Rightarrow> loan_check \<times> world" where
  "liquidate ke cfg signer loanId w =
     (if lq_dryRun cfg then (CheckLiquidated, w)
      else case signer of
        None \<Rightarrow> (CheckFailed ''ADMIN_SECRET_KEY is not configured, cannot submit liquidation tx'', w)
      | Some _ \<Rightarrow>
          (case ke_u32 ke loanId of
             Inl m \<Rightarrow> (CheckFailed m, w)
           | Inr n \<Rightarrow>
               (case invoke_signed (ke_env ke) (lq_lendingContractId cfg) ''mark_defaulted'' [ArgAddr (lq_adminAddress cfg), ArgU32 n] w of
                  (Inl m, w') \<Rightarrow> (CheckFailed m, w')
                | (Inr _, w') \<Rightarrow> (CheckLiquidated, w'))))"

text \<open>
  \<open>priced\<close> is the configuration with the live price in it: it values the loan, while the contracts
  and the switches come from \<open>cfg\<close>. The check as far as the submission: to submit, or a verdict.
\<close>

definition judge_loan :: "keeper_env \<Rightarrow> liquidation_config \<Rightarrow> liquidation_config \<Rightarrow> jsnum \<Rightarrow> string + loan_check option" where
  "judge_loan ke cfg priced loanId =
     bindE (getOnchainLoan ke cfg loanId) (\<lambda>loan.
     if kl_status loan \<noteq> JStr ''Active'' then Inr (Some CheckSkipped)
     else bindE (resolveAssetPrice priced (kl_collateralAsset loan)) (\<lambda>price.
     case price of
       None \<Rightarrow> Inr (Some CheckSkipped)
     | Some (priceUsd, decimals) \<Rightarrow>
         bindE (getReputationScore ke cfg (kl_borrower loan)) (\<lambda>score.
         bindE (getLiquidationThresholdBps ke cfg score (lq_defaultAssetVolatilityBps cfg)) (\<lambda>thresholdBps.
         let ltvBps = computeLtvBps (ke_pow10 ke) (kl_remainingDue loan) (lq_xlmPriceUsd priced)
               (kl_collateralAmount loan) (js_to_number decimals) (js_to_number priceUsd)
         in if \<not> shouldLiquidate ltvBps thresholdBps then Inr (Some CheckHealthy)
            else bindE (checkLiquidationEligibility ke cfg loanId) (\<lambda>isEligible.
              Inr (if isEligible then None else Some CheckSkipped))))))"

definition check_loan :: "keeper_env \<Rightarrow> liquidation_config \<Rightarrow> liquidation_config \<Rightarrow> string option \<Rightarrow> jsnum \<Rightarrow> world \<Rightarrow> loan_check \<times> world" where
  "check_loan ke cfg priced signer loanId w =
     (case judge_loan ke cfg priced loanId of
        Inl m \<Rightarrow> (CheckFailed m, w)
      | Inr (Some verdict) \<Rightarrow> (verdict, w)
      | Inr None \<Rightarrow> liquidate ke cfg signer loanId w)"

definition count_check :: "loan_check \<Rightarrow> keeper_summary \<Rightarrow> keeper_summary" where
  "count_check c sm =
     (case c of
        CheckSkipped \<Rightarrow> sm\<lparr>sm_skipped := sm_skipped sm + 1\<rparr>
      | CheckHealthy \<Rightarrow> sm\<lparr>sm_healthy := sm_healthy sm + 1\<rparr>
      | CheckLiquidated \<Rightarrow> sm\<lparr>sm_liquidated := sm_liquidated sm + 1\<rparr>
      | CheckFailed _ \<Rightarrow> sm\<lparr>sm_failed := sm_failed sm + 1\<rparr>)"

fun check_loans :: "keeper_env \<Rightarrow> liquidation_config \<Rightarrow> liquidation_config \<Rightarrow> string option \<Rightarrow> jsnum list \<Rightarrow> keeper_summary \<times> world
    \<Rightarrow> keeper_summary \<times> world" where
  "check_loans ke cfg priced signer [] (sm, w) = (sm, w)"
| "check_loans ke cfg priced signer (loanId # ids) (sm, w) =
     (let (c, w') = check_loan ke cfg priced signer loanId w
      in check_loans ke cfg priced signer ids (count_check c sm, w'))"

text \<open>The live price, when looking it up is not switched off and finds a positive one\<close>

definition live_xlm :: "(string \<Rightarrow> string option) \<Rightarrow> price_source list \<Rightarrow> jsnum \<Rightarrow> live_cache \<Rightarrow> jsnum option \<times> live_cache" where
  "live_xlm env sources now lc =
     (if env ''LIQUIDATION_USE_LIVE_PRICES'' \<noteq> Some ''false'' \<and> env ''NODE_ENV'' \<noteq> Some ''test'' \<and> env ''VITEST'' = None then
        (case getLivePriceUsd sources now LIVE_PRICE_TTL_MS (\<lambda>_. None) XLM lc of
           (Some p, lc') \<Rightarrow> (if jlt (Fin 0) p then Some p else None, lc')
         | (None, lc') \<Rightarrow> (None, lc'))
      else (None, lc))"

definition runLiquidationKeeper :: "keeper_env \<Rightarrow> (string \<Rightarrow> string option) \<Rightarrow> price_source list \<Rightarrow> jsnum \<Rightarrow> liquidation_config
    \<Rightarrow> string option \<Rightarrow> live_cache \<Rightarrow> world \<Rightarrow> keeper_summary run_result \<times> live_cache \<times> world" where
  "runLiquidationKeeper ke env sources now cfg signer lc w =
     (if lq_lendingContractId cfg = [] \<or> lq_reputationContractId cfg = [] \<or> lq_adminAddress cfg = [] then
        (Throws ''Missing NEXT_PUBLIC_LENDING_CONTRACT_ID / NEXT_PUBLIC_REPUTATION_CONTRACT_ID / NEXT_PUBLIC_ADMIN_ADDRESS'', lc, w)
      else let (live, lc') = live_xlm env sources now lc;
               priced = (case live of Some p \<Rightarrow> cfg\<lparr>lq_xlmPriceUsd := p\<rparr> | None \<Rightarrow> cfg)
           in case fetch_candidates ke cfg (w_db w) of
                Throws m \<Rightarrow> (Throws m, lc', w)
              | Endless \<Rightarrow> (Endless, lc', w)
              | Returns ids \<Rightarrow>
                  (let (sm, w') = check_loans ke cfg priced signer ids
                        (\<lparr>sm_scanned = length ids, sm_liquidated = 0, sm_healthy = 0, sm_skipped = 0, sm_failed = 0\<rparr>, w)
                   in (Returns sm, lc', w')))"

end
