(* ===== verification/RelError.thy ===== *)
theory RelError
  imports JsNumber
begin

text \<open>
  The error of a chain of multiplications and divisions in binary64: every rounding costs a factor
  of at most \<open>1 - 2 ^ -53\<close>, as long as the results stay clear of overflow and of the subnormal
  numbers. \<open>rel k x y\<close> says that \<open>x\<close> is \<open>y\<close> up to \<open>k\<close> such factors, and \<open>in_span e x\<close> that \<open>x\<close> is
  positive and between \<open>2 ^ -e\<close> and \<open>2 ^ e\<close>.
\<close>

text \<open>A rounded number is a double, so rounding it again changes nothing.\<close>

lemma fl_idem [simp]: "fl (fl x) = fl x"
proof (cases "x = 0")
  case False
  define e n where "e = ulp_exp \<bar>x\<bar>" and "n = round_half_even (x / 2 powi e)"
  have x: "fl x = of_int n * 2 powi e"
    using False by (simp add: fl_eq e_def n_def)
  have e: "- 1074 \<le> e"
    by (simp add: e_def ulp_exp_def)
  have "\<bar>x\<bar> < 2 powi (ilog2 \<bar>x\<bar> + 1)"
    using False ilog2_bounds(2) [of "\<bar>x\<bar>"] by simp
  also have "\<dots> \<le> 2 powi (53 + e)"
    by (rule two_powi_mono) (simp add: e_def ulp_exp_def)
  finally have "\<bar>x / 2 powi e\<bar> \<le> of_int (2 ^ 53)"
    by (simp add: abs_divide two_powi_add pos_divide_le_eq two_powi_nat)
  then have "x / 2 powi e \<le> of_int (2 ^ 53)" "of_int (- (2 ^ 53)) \<le> x / 2 powi e"
    by linarith+
  from this [THEN round_half_even_mono] have "n \<le> 2 ^ 53" "- (2 ^ 53) \<le> n"
    unfolding n_def round_half_even_of_int by blast+
  then consider "\<bar>n\<bar> < 2 ^ 53" | "n = 2 ^ 53" | "n = - (2 ^ 53)"
    by linarith
  then show ?thesis
  proof cases
    case 1
    then show ?thesis
      by (rule fl_exact [OF x _ e])
  next
    case 2
    then have "fl x = 2 powi (53 + e)"
      unfolding x by (simp add: two_powi_add two_powi_nat)
    then show ?thesis
      using e by (simp add: fl_pow2)
  next
    case 3
    then have "fl x = - (2 powi (53 + e))"
      unfolding x by (simp add: two_powi_add two_powi_nat)
    then show ?thesis
      using e by (simp add: fl_pow2)
  qed
qed simp

definition keep :: rat where
  "keep = 1 - 2 powi (- 53)"

definition rel :: "nat \<Rightarrow> rat \<Rightarrow> rat \<Rightarrow> bool" where
  "rel k x y \<longleftrightarrow> 0 < x \<and> 0 < y \<and> keep ^ k * y \<le> x \<and> keep ^ k * x \<le> y"

definition in_span :: "int \<Rightarrow> rat \<Rightarrow> bool" where
  "in_span e x \<longleftrightarrow> 2 powi (- e) \<le> x \<and> x \<le> 2 powi e"

named_theorems rel_intros

lemma keep_bounds [simp]: "0 < keep" "keep \<le> 1" "0 \<le> keep" "0 < keep ^ k" "keep ^ k \<le> 1"
  by (simp_all add: keep_def power_le_one)

lemma keep_power: "1 - of_nat k * 2 powi (- 53) \<le> keep ^ k"
proof -
  have "1 + of_nat k * (- (2 powi (- 53))) \<le> (1 + (- (2 powi (- 53)) :: rat)) ^ k"
    by (rule Bernoulli_inequality) simp
  then show ?thesis
    by (simp add: keep_def)
qed

lemma rel_refl [rel_intros]: "0 < x \<Longrightarrow> rel 0 x x"
  by (simp add: rel_def)

lemma rel_mult [rel_intros]:
  assumes "rel j x y" "rel k x' y'"
  shows "rel (j + k) (x * x') (y * y')"
proof -
  have "(keep ^ j * y) * (keep ^ k * y') \<le> x * x'" "(keep ^ j * x) * (keep ^ k * x') \<le> y * y'"
    using assms by (auto simp: rel_def intro!: mult_mono)
  then show ?thesis
    using assms by (simp add: rel_def power_add ac_simps)
qed

lemma rel_inverse: "rel k x y \<Longrightarrow> rel k (1 / x) (1 / y)"
  by (auto simp: rel_def field_simps)

lemma rel_divide [rel_intros]: "rel j x y \<Longrightarrow> rel k x' y' \<Longrightarrow> rel (j + k) (x / x') (y / y')"
  using rel_mult [of j x y k "1 / x'" "1 / y'"] rel_inverse [of k x' y'] by simp

lemma span_pos: "in_span e x \<Longrightarrow> 0 < x"
  unfolding in_span_def using two_powi_pos [of "- e"] by linarith

lemma span_mono: "in_span e x \<Longrightarrow> e \<le> f \<Longrightarrow> in_span f x"
  unfolding in_span_def using two_powi_mono [of "- f" "- e"] two_powi_mono [of e f] by linarith

lemma span_mult:
  assumes "in_span e x" "in_span f y"
  shows "in_span (e + f) (x * y)"
proof -
  have "2 powi (- e) * 2 powi (- f) \<le> x * y" "x * y \<le> 2 powi e * 2 powi f"
    using assms span_pos by (auto simp: in_span_def less_imp_le intro!: mult_mono)
  then show ?thesis
    by (simp add: in_span_def two_powi_add flip: two_powi_add)
qed

lemma span_inverse: "in_span e x \<Longrightarrow> in_span e (1 / x)"
proof -
  assume x: "in_span e x"
  then have "0 < x"
    by (rule span_pos)
  moreover have "1 / 2 powi e = (2 :: rat) powi (- e)" "1 / 2 powi (- e) = (2 :: rat) powi e"
    using two_powi_diff [of 0 e] two_powi_diff [of 0 "- e"] by simp_all
  moreover have "1 / 2 powi e \<le> 1 / x" "1 / x \<le> 1 / 2 powi (- e)"
    using x \<open>0 < x\<close> by (simp_all add: in_span_def frac_le)
  ultimately show ?thesis
    by (simp add: in_span_def)
qed

lemma span_divide: "in_span e x \<Longrightarrow> in_span f y \<Longrightarrow> in_span (e + f) (x / y)"
  using span_mult [of e x f "1 / y"] span_inverse [of f y] by simp

lemma span_fl: "in_span e x \<Longrightarrow> e \<le> 1022 \<Longrightarrow> in_span e (fl x)"
proof -
  assume x: "in_span e x" and e: "e \<le> 1022"
  have "0 \<le> e"
  proof (rule ccontr)
    assume "\<not> 0 \<le> e"
    then have "(2 :: rat) powi e < 2 powi (- e)"
      by (simp add: two_powi_less_iff)
    then show False
      using x by (simp add: in_span_def)
  qed
  then have "fl (2 powi (- e)) = 2 powi (- e)" "fl (2 powi e) = 2 powi e"
    using e by (simp_all add: fl_pow2)
  then show ?thesis
    using x fl_mono [of "2 powi (- e)" x] fl_mono [of x "2 powi e"] by (simp add: in_span_def)
qed

lemma rel_fl: 
  assumes "rel k x y" "in_span e x" "e \<le> 1022"
  shows "rel (Suc k) (fl x) y"
proof -
  have pos: "0 < x" "0 < y" "0 < fl x"
    using assms span_pos [OF span_fl [OF assms(2,3)]] by (simp_all add: rel_def)
  have "2 powi (- 1022) \<le> x"
    using span_mono [OF assms(2,3)] by (simp add: in_span_def)
  then have err: "\<bar>fl x - x\<bar> \<le> 2 powi (- 53) * x"
    by (rule fl_relative_error_pos)
  then have two: "x - fl x \<le> 2 powi (- 53) * x" "fl x - x \<le> 2 powi (- 53) * x"
    by (simp_all only: abs_le_iff minus_diff_eq)
  then have "keep * x \<le> fl x"
    unfolding keep_def left_diff_distrib by linarith
  then have "keep ^ Suc k * y \<le> fl x"
    using assms(1) mult_left_mono [of "keep ^ k * y" x keep]
    unfolding rel_def power_Suc mult.assoc by (meson keep_bounds(3) order_trans)
  moreover have "keep * fl x \<le> x"
  proof -
    have "fl x \<le> (1 + 2 powi (- 53)) * x"
      using two unfolding distrib_right by linarith
    then have "keep * fl x \<le> keep * ((1 + 2 powi (- 53)) * x)"
      by (intro mult_left_mono) simp_all
    also have "\<dots> = (1 - (2 powi (- 53)) * 2 powi (- 53)) * x"
      by (simp add: keep_def algebra_simps)
    also have "\<dots> \<le> 1 * x"
      using pos by (intro mult_right_mono) simp_all
    finally show ?thesis by simp
  qed
  then have "keep ^ Suc k * fl x \<le> y"
    using assms(1) mult_left_mono [of "keep * fl x" x "keep ^ k"]
    unfolding rel_def power_Suc2 mult.assoc by (meson keep_bounds(4) less_imp_le order_trans)
  ultimately show ?thesis
    using pos by (simp add: rel_def)
qed

subsection \<open>The operations\<close>

definition approx :: "nat \<Rightarrow> int \<Rightarrow> jsnum \<Rightarrow> rat \<Rightarrow> bool" where
  "approx k e v y \<longleftrightarrow> (\<exists>x. v = Fin x \<and> in_span e x \<and> rel k x y)"

lemma span_to_num: "in_span e x \<Longrightarrow> e \<le> 1022 \<Longrightarrow> to_num x = Fin (fl x)"
proof -
  assume x: "in_span e x" and e: "e \<le> 1022"
  have "x \<le> 2 powi 1022"
    using span_mono [OF x e] by (simp add: in_span_def)
  also have "\<dots> \<le> 2 powi 1023"
    by (rule two_powi_mono) simp
  finally have "x \<le> 2 ^ 1023"
    using two_powi_nat [of 1023] by (metis nat_numeral zero_le_numeral)
  then show ?thesis
    using span_pos [OF x] by (simp add: to_num_Fin del: power_numeral)
qed

lemma approx_to_num: "in_span e x \<Longrightarrow> e \<le> 1022 \<Longrightarrow> approx 1 e (to_num x) x"
  unfolding approx_def using span_to_num span_fl rel_fl [OF rel_refl] span_pos by (metis One_nat_def)

lemma approx_exact: "in_span e x \<Longrightarrow> approx 0 e (Fin x) x"
  unfolding approx_def using rel_refl span_pos by blast

lemma approx_jmul:
  assumes "approx j e v y" "approx k f v' y'" "e + f \<le> 1022"
  shows "approx (Suc (j + k)) (e + f) (jmul v v') (y * y')"
proof -
  obtain x x' where v: "v = Fin x" "v' = Fin x'" and w: "in_span e x" "in_span f x'" and r: "rel j x y" "rel k x' y'"
    using assms by (auto simp: approx_def)
  have m: "in_span (e + f) (x * x')"
    by (rule span_mult [OF w])
  show ?thesis
    unfolding approx_def v using span_to_num [OF m assms(3)] span_fl [OF m assms(3)] rel_fl [OF rel_mult [OF r] m assms(3)] by simp
qed

lemma approx_jdiv:
  assumes "approx j e v y" "approx k f v' y'" "e + f \<le> 1022"
  shows "approx (Suc (j + k)) (e + f) (jdiv v v') (y / y')"
proof -
  obtain x x' where v: "v = Fin x" "v' = Fin x'" and w: "in_span e x" "in_span f x'" and r: "rel j x y" "rel k x' y'"
    using assms by (auto simp: approx_def)
  have m: "in_span (e + f) (x / x')"
    by (rule span_divide [OF w])
  have "jdiv v v' = to_num (x / x')"
    using span_pos [OF w(2)] by (simp add: v)
  then show ?thesis
    unfolding approx_def using span_to_num [OF m assms(3)] span_fl [OF m assms(3)] rel_fl [OF rel_divide [OF r] m assms(3)] by simp
qed

end
