(* ===== verification/LiquidationSafety.thy ===== *)
theory LiquidationSafety
  imports LiquidationKeeper RelError Demo "HOL-Library.Sublist"
begin

text \<open>
  What the liquidation keeper does: how far its binary64 ratio is from the exact one, what a loan
  must be before it is submitted for liquidation, and that with the statuses as the SDK decodes
  them no loan ever is.
\<close>

subsection \<open>The ratio\<close>

text \<open>The exact loan-to-value ratio in basis points.\<close>

definition exact_ltv :: "int \<Rightarrow> rat \<Rightarrow> int \<Rightarrow> nat \<Rightarrow> rat \<Rightarrow> rat" where
  "exact_ltv due xlmPrice collateral decimals price =
     (of_int due / 10 ^ 7 * xlmPrice) / (of_int collateral / 10 ^ decimals * price) * 10000"

lemma span_of_int: "1 \<le> n \<Longrightarrow> n \<le> 2 ^ 127 \<Longrightarrow> in_span 127 (of_int n)"
proof -
  assume n: "1 \<le> n" "n \<le> 2 ^ 127"
  have "(of_int n :: rat) \<le> of_int (2 ^ 127)"
    using n(2) by (simp only: of_int_le_iff)
  moreover have "(2 :: rat) powi (- 127) \<le> 1"
    using two_powi_mono [of "- 127" 0] by simp
  moreover have "(1 :: rat) \<le> of_int n"
    using n(1) by simp
  ultimately show ?thesis
    unfolding in_span_def by (simp add: two_powi_int [of 127])
qed

lemma span_pow10: "d \<le> 30 \<Longrightarrow> in_span 100 (10 ^ d)"
proof -
  assume d: "d \<le> 30"
  have "(10 :: rat) ^ d \<le> 10 ^ 30"
    using d by (intro power_increasing) simp_all
  also have "\<dots> \<le> 2 powi 100"
    by simp
  finally have "(10 :: rat) ^ d \<le> 2 powi 100" .
  moreover have "(2 :: rat) powi (- 100) \<le> 1" "(1 :: rat) \<le> 10 ^ d"
    using two_powi_mono [of "- 100" 0] by simp_all
  ultimately show ?thesis
    unfolding in_span_def by linarith
qed

lemma computeLtvBps_approx:
  assumes "1 \<le> due" "due \<le> 2 ^ 127" "1 \<le> collateral" "collateral \<le> 2 ^ 127" "d \<le> 30"
    and "in_span 100 p" "in_span 100 q" "pow10 (Fin (of_nat d)) = Fin (10 ^ d)"
  shows "\<exists>h. computeLtvBps pow10 due (Fin p) collateral (Fin (of_nat d)) (Fin q) = Fin (of_int \<lfloor>h + 1 / 2\<rfloor>)
    \<and> rel 8 h (exact_ltv due p collateral d q)"
proof -
  let ?debt = "jmul (jdiv (to_num (of_int due)) (Fin 10000000)) (Fin p)"
  let ?coll = "jmul (jdiv (to_num (of_int collateral)) (pow10 (Fin (of_nat d)))) (Fin q)"
  have seven: "approx 0 100 (Fin 10000000) (10 ^ 7)" and four: "approx 0 100 (Fin 10000) (10 ^ 4)"
    using approx_exact [OF span_pow10 [of 7]] approx_exact [OF span_pow10 [of 4]] by simp_all
  have "approx 1 127 (to_num (of_int due)) (of_int due)"
    using approx_to_num span_of_int assms(1,2) by simp
  from approx_jmul [OF approx_jdiv [OF this seven] approx_exact [OF assms(6)]]
  have debt: "approx 3 327 ?debt (of_int due / 10 ^ 7 * p)"
    by (simp add: eval_nat_numeral)
  have "approx 1 127 (to_num (of_int collateral)) (of_int collateral)"
    using approx_to_num span_of_int assms(3,4) by simp
  from approx_jmul [OF approx_jdiv [OF this approx_exact [OF span_pow10 [OF assms(5)]]] approx_exact [OF assms(7)]]
  have coll: "approx 3 327 ?coll (of_int collateral / 10 ^ d * q)"
    unfolding assms(8) by (simp add: eval_nat_numeral)
  from approx_jmul [OF approx_jdiv [OF debt coll] four]
  have "approx 8 754 (jmul (jdiv ?debt ?coll) (Fin 10000)) (exact_ltv due p collateral d q)"
    by (simp add: exact_ltv_def eval_nat_numeral)
  then obtain h where h: "jmul (jdiv ?debt ?coll) (Fin 10000) = Fin h" "rel 8 h (exact_ltv due p collateral d q)"
    by (auto simp: approx_def)
  obtain c where "?coll = Fin c" "0 < c"
    using coll span_pos by (auto simp: approx_def)
  then have "\<not> jle ?coll (Fin 0)"
    by simp
  then have "computeLtvBps pow10 due (Fin p) collateral (Fin (of_nat d)) (Fin q) = Fin (of_int \<lfloor>h + 1 / 2\<rfloor>)"
    using h(1) by (simp add: computeLtvBps_def Let_def)
  then show ?thesis
    using h(2) by blast
qed

lemma rel8_close:
  assumes "rel 8 h y"
  shows "y * (1 - 2 powi (- 50)) \<le> h" "h * (1 - 2 powi (- 50)) \<le> y"
proof -
  have k: "1 - 2 powi (- 50) \<le> keep ^ 8"
  proof -
    have "(8 :: rat) * 2 powi (- 53) = 2 powi (- 50)"
      by (simp add: power_int_minus)
    then show ?thesis
      using keep_power [of 8] by simp
  qed
  have pos: "0 < h" "0 < y" and b: "keep ^ 8 * y \<le> h" "keep ^ 8 * h \<le> y"
    using assms by (simp_all add: rel_def)
  show "y * (1 - 2 powi (- 50)) \<le> h"
    using mult_right_mono [OF k, of y] pos b(1) by (simp only: mult.commute [of y]) linarith
  show "h * (1 - 2 powi (- 50)) \<le> y"
    using mult_right_mono [OF k, of h] pos b(2) by (simp only: mult.commute [of h]) linarith
qed

text \<open>
  C10: The liquidation test in binary64 against the exact ratio: for prices between 2 to the -100 and
  2 to the 100, positive amounts of 128 bits and a threshold of up to a million basis points, a
  loan whose exact ratio has reached the threshold is always to be liquidated, and a loan to be
  liquidated is at most half a basis point, and a billionth, below the threshold.
\<close>

theorem shouldLiquidate_exact:
  assumes "1 \<le> due" "due \<le> 2 ^ 127" "1 \<le> collateral" "collateral \<le> 2 ^ 127" "d \<le> 30"
    and "in_span 100 p" "in_span 100 q" "pow10 (Fin (of_nat d)) = Fin (10 ^ d)"
    and "1 \<le> t" "t \<le> 1000000"
  shows "(of_int t \<le> exact_ltv due p collateral d q \<longrightarrow>
            shouldLiquidate (computeLtvBps pow10 due (Fin p) collateral (Fin (of_nat d)) (Fin q)) (Fin (of_int t)))
    \<and> (shouldLiquidate (computeLtvBps pow10 due (Fin p) collateral (Fin (of_nat d)) (Fin q)) (Fin (of_int t)) \<longrightarrow>
            of_int t - 1 / 2 - 1 / 10 ^ 9 \<le> exact_ltv due p collateral d q)"
proof -
  obtain h where h: "computeLtvBps pow10 due (Fin p) collateral (Fin (of_nat d)) (Fin q) = Fin (of_int \<lfloor>h + 1 / 2\<rfloor>)"
      and r: "rel 8 h (exact_ltv due p collateral d q)"
    using computeLtvBps_approx [of due collateral d p q pow10] assms(1-8) by blast
  let ?y = "exact_ltv due p collateral d q" and ?e = "1 - 2 powi (- 50) :: rat"
  have e: "0 < ?e" "1000000 * (1 - ?e) \<le> 1 / 10 ^ 9"
    by (simp_all add: power_int_minus)
  have t: "(1 :: rat) \<le> of_int t" "(of_int t :: rat) \<le> 1000000"
    using assms(9,10) by linarith+
  note close = rel8_close [OF r]
  have test: "shouldLiquidate (Fin (of_int \<lfloor>h + 1 / 2\<rfloor>)) (Fin (of_int t)) \<longleftrightarrow> of_int t - 1 / 2 \<le> h"
    by (simp add: shouldLiquidate_def le_floor_iff) linarith
  have "of_int t - 1 / 2 \<le> h" if "of_int t \<le> ?y"
  proof -
    have "of_int t * ?e \<le> ?y * ?e"
      using that e(1) by (intro mult_right_mono) simp_all
    moreover have "of_int t * (1 - ?e) \<le> 1000000 * (1 - ?e)"
      using t(2) by (intro mult_right_mono) (simp_all add: power_int_minus)
    ultimately show ?thesis
      using close(1) e(2) by (simp add: algebra_simps)
  qed
  moreover have "of_int t - 1 / 2 - 1 / 10 ^ 9 \<le> ?y" if "of_int t - 1 / 2 \<le> h"
  proof -
    have "(of_int t - 1 / 2) * ?e \<le> h * ?e"
      using that e(1) by (intro mult_right_mono) simp_all
    moreover have "(of_int t - 1 / 2) * (1 - ?e) \<le> 1000000 * (1 - ?e)"
      using t by (intro mult_right_mono) (simp_all add: power_int_minus)
    ultimately show ?thesis
      using close(2) e(2) by (simp add: algebra_simps)
  qed
  ultimately show ?thesis
    unfolding h test by blast
qed

subsection \<open>What is submitted\<close>

definition priced_config :: "(string \<Rightarrow> string option) \<Rightarrow> price_source list \<Rightarrow> jsnum \<Rightarrow> live_cache \<Rightarrow> liquidation_config \<Rightarrow> liquidation_config" where
  "priced_config env sources now lc cfg =
     (case fst (live_xlm env sources now lc) of Some p \<Rightarrow> cfg\<lparr>lq_xlmPriceUsd := p\<rparr> | None \<Rightarrow> cfg)"

text \<open>A loan the chain calls active and eligible, whose ratio has reached the threshold the chain gives.\<close>

definition liquidatable :: "keeper_env \<Rightarrow> liquidation_config \<Rightarrow> liquidation_config \<Rightarrow> jsnum \<Rightarrow> bool" where
  "liquidatable ke cfg priced loanId \<longleftrightarrow>
     (\<exists>loan priceUsd decimals score thresholdBps.
        getOnchainLoan ke cfg loanId = Inr loan \<and> kl_status loan = JStr ''Active''
        \<and> resolveAssetPrice priced (kl_collateralAsset loan) = Inr (Some (priceUsd, decimals))
        \<and> getReputationScore ke cfg (kl_borrower loan) = Inr score
        \<and> getLiquidationThresholdBps ke cfg score (lq_defaultAssetVolatilityBps cfg) = Inr thresholdBps
        \<and> shouldLiquidate (computeLtvBps (ke_pow10 ke) (kl_remainingDue loan) (lq_xlmPriceUsd priced)
              (kl_collateralAmount loan) (js_to_number decimals) (js_to_number priceUsd)) thresholdBps
        \<and> checkLiquidationEligibility ke cfg loanId = Inr True)"

definition mark_call :: "keeper_env \<Rightarrow> liquidation_config \<Rightarrow> jsnum \<Rightarrow> effect list" where
  "mark_call ke cfg loanId =
     (case ke_u32 ke loanId of
        Inr n \<Rightarrow> [ChainCall (lq_lendingContractId cfg) ''mark_defaulted'' [ArgAddr (lq_adminAddress cfg), ArgU32 n]]
      | Inl _ \<Rightarrow> [])"

lemma judge_loan_submit: "judge_loan ke cfg priced loanId = Inr None \<Longrightarrow> liquidatable ke cfg priced loanId"
  by (auto simp: judge_loan_def liquidatable_def bindE_Inr_iff Let_def split: if_splits option.splits)

lemma check_loan_log:
  assumes "check_loan ke cfg priced signer loanId w = (c, w')"
  shows "w_db w' = w_db w \<and> (w' = w \<or> \<not> lq_dryRun cfg \<and> signer \<noteq> None \<and> liquidatable ke cfg priced loanId
      \<and> w_log w' = w_log w @ mark_call ke cfg loanId)"
  using assms judge_loan_submit [of ke cfg priced loanId]
  by (auto simp: check_loan_def liquidate_def mark_call_def invoke_signed_def split: sum.splits option.splits if_splits)

lemma check_loans_log:
  "check_loans ke cfg priced signer ids (sm, w) = (sm', w') \<Longrightarrow>
    w_db w' = w_db w \<and> (\<exists>marked. subseq marked ids \<and> list_all (liquidatable ke cfg priced) marked
      \<and> (marked \<noteq> [] \<longrightarrow> \<not> lq_dryRun cfg \<and> signer \<noteq> None)
      \<and> w_log w' = w_log w @ concat (map (mark_call ke cfg) marked))"
proof (induction ids arbitrary: sm w)
  case Nil
  then show ?case
    by (auto intro: exI [of _ "[]"])
next
  case (Cons loanId ids)
  obtain c w1 where one: "check_loan ke cfg priced signer loanId w = (c, w1)"
    by (cases "check_loan ke cfg priced signer loanId w")
  then have "check_loans ke cfg priced signer ids (count_check c sm, w1) = (sm', w')"
    using Cons.prems by simp
  from Cons.IH [OF this] obtain marked where rest: "w_db w' = w_db w1" "subseq marked ids"
      "list_all (liquidatable ke cfg priced) marked" "marked \<noteq> [] \<longrightarrow> \<not> lq_dryRun cfg \<and> signer \<noteq> None"
      "w_log w' = w_log w1 @ concat (map (mark_call ke cfg) marked)"
    by blast
  show ?case
  proof (cases "w1 = w")
    case True
    then show ?thesis
      using rest check_loan_log [OF one] by (auto intro!: exI [of _ marked])
  next
    case False
    then show ?thesis
      using rest check_loan_log [OF one] by (auto intro!: exI [of _ "loanId # marked"])
  qed
qed

text \<open>
  C9: A run of the keeper changes nothing in the database, and the transactions it submits are one
  \<open>mark_defaulted\<close> each for some of the candidates, in their order: none in a dry run or without a
  signing key, and each for a loan that the chain calls active and eligible and whose ratio, valued
  with the live price where there is one, has reached the threshold the chain gives.
\<close>

theorem liquidations_justified:
  assumes "runLiquidationKeeper ke env sources now cfg signer lc w = (r, lc', w')"
  shows "w_db w' = w_db w \<and> (w' = w \<or> (\<exists>ids marked. fetch_candidates ke cfg (w_db w) = Returns ids \<and> subseq marked ids
      \<and> \<not> lq_dryRun cfg \<and> signer \<noteq> None
      \<and> list_all (liquidatable ke cfg (priced_config env sources now lc cfg)) marked
      \<and> w_log w' = w_log w @ concat (map (mark_call ke cfg) marked)))"
proof (cases "w' = w")
  case False
  let ?priced = "priced_config env sources now lc cfg"
  obtain ids sm0 sm where "fetch_candidates ke cfg (w_db w) = Returns ids" "check_loans ke cfg ?priced signer ids (sm0, w) = (sm, w')"
    using assms False
    by (auto simp: runLiquidationKeeper_def priced_config_def Let_def split: if_splits prod.splits option.splits run_result.splits)
  moreover from check_loans_log [OF this(2)] obtain marked where m: "w_db w' = w_db w" "subseq marked ids" "list_all (liquidatable ke cfg ?priced) marked"
      "marked \<noteq> [] \<longrightarrow> \<not> lq_dryRun cfg \<and> signer \<noteq> None" "w_log w' = w_log w @ concat (map (mark_call ke cfg) marked)"
    by blast
  moreover have "marked \<noteq> []"
    using m False by auto
  ultimately show ?thesis
    by blast
qed simp

subsection \<open>With the statuses as the SDK decodes them\<close>

lemma array_not_active: "extractEnumVariant (JArr vs) \<noteq> JStr ''Active''"
  by (cases vs) (simp_all add: extractEnumVariant_def first_key_def upt_rec show_int_def show_nonneg.simps del: upt_Suc)

definition statuses_in_arrays :: "keeper_env \<Rightarrow> liquidation_config \<Rightarrow> bool" where
  "statuses_in_arrays ke cfg \<longleftrightarrow> (\<forall>args raw. read_chain ke cfg (lq_lendingContractId cfg) ''get_loan'' args = Inr raw
      \<longrightarrow> (\<exists>vs. js_get raw ''status'' = JArr vs))"

lemma loan_not_active: "statuses_in_arrays ke cfg \<Longrightarrow> getOnchainLoan ke cfg loanId = Inr loan \<Longrightarrow> kl_status loan \<noteq> JStr ''Active''"
  using array_not_active
  by (auto simp: getOnchainLoan_def decode_loan_def statuses_in_arrays_def bindE_Inr_iff split: option.splits if_splits)
    (metis array_not_active)

lemma judge_skips: "statuses_in_arrays ke cfg \<Longrightarrow> judge_loan ke cfg priced loanId \<in> insert (Inr (Some CheckSkipped)) (range Inl)"
  using loan_not_active by (cases "getOnchainLoan ke cfg loanId") (simp_all add: judge_loan_def)

lemma check_loan_skips:
  assumes "statuses_in_arrays ke cfg" "check_loan ke cfg priced signer loanId w = (c, w')"
  shows "w' = w \<and> c \<noteq> CheckLiquidated \<and> c \<noteq> CheckHealthy"
  using judge_skips [OF assms(1), of priced loanId] assms(2) by (auto simp: check_loan_def)

lemma check_loans_skip:
  "statuses_in_arrays ke cfg \<Longrightarrow> check_loans ke cfg priced signer ids (sm, w) = (sm', w') \<Longrightarrow>
    w' = w \<and> sm_liquidated sm' = sm_liquidated sm \<and> sm_healthy sm' = sm_healthy sm"
proof (induction ids arbitrary: sm w)
  case (Cons loanId ids)
  obtain c w1 where one: "check_loan ke cfg priced signer loanId w = (c, w1)"
    by (cases "check_loan ke cfg priced signer loanId w")
  then show ?case
    using Cons.IH [of "count_check c sm" w1] Cons.prems check_loan_skips [OF Cons.prems(1) one]
    by (cases c) (simp_all add: count_check_def)
qed simp

text \<open>
  C11: The SDK decodes a unit variant such as the status of a loan as an array of its name, which
  the keeper reads as an object and takes the first key of, the index. So when every loan the chain
  answers with has its status in an array, a run liquidates nothing, finds nothing healthy and
  submits nothing, whatever the loans owe.
\<close>

theorem keeper_never_liquidates:
  assumes "statuses_in_arrays ke cfg"
    and "runLiquidationKeeper ke env sources now cfg signer lc w = (r, lc', w')"
  shows "w' = w \<and> (\<forall>sm. r = Returns sm \<longrightarrow> sm_liquidated sm = 0 \<and> sm_healthy sm = 0)"
  using assms(2) check_loans_skip [OF assms(1)]
  by (fastforce simp: runLiquidationKeeper_def Let_def split: if_splits prod.splits option.splits run_result.splits)

subsection \<open>Examples\<close>

text \<open>A chain with one loan of 100 XLM against 10 units of an asset priced like XLM.\<close>

definition thin_chain :: "jsval \<Rightarrow> chain" where
  "thin_chain status = demo_chain\<lparr>ch_invokeReadOnly := (\<lambda>contract method args source. Inr
     (if method = ''get_loan_count'' then JNum (Fin 1)
      else if method = ''get_loan'' then JObj [(''id'', JNum (Fin 1)), (''borrower'', JStr ''GB''), (''status'', status),
        (''remaining_due'', JBig 1000000000), (''collateral_asset'', JStr ''XLM''), (''collateral_amount'', JBig 100000000)]
      else if method = ''get_reputation_score'' then JNum (Fin 500)
      else if method = ''calculate_liquidation_threshold'' then JNum (Fin 8000)
      else JBool True)), ch_invokeSigned := (\<lambda>_ _ _. Inr (''hash'', JNull))\<rparr>"

definition thin_env :: "jsval \<Rightarrow> keeper_env" where
  "thin_env status = \<lparr>ke_env = (demo_env demo_lender (demo_horizon [] [] [] []))\<lparr>env_chain := thin_chain status\<rparr>,
     ke_u32 = (\<lambda>x. case x of Fin r \<Rightarrow> Inr \<lfloor>r\<rfloor> | _ \<Rightarrow> Inl ''not a number''), ke_pow10 = (\<lambda>_. Fin (10 ^ 7))\<rparr>"

definition thin_cfg :: liquidation_config where
  "thin_cfg = \<lparr>lq_source = FromChain, lq_dryRun = False, lq_intervalSecs = None, lq_lendingContractId = ''CL'',
     lq_reputationContractId = ''CR'', lq_adminAddress = ''GA'', lq_xlmPriceUsd = Fin (1 / 8), lq_priceTable = JObj [],
     lq_defaultAssetVolatilityBps = Fin 2000, lq_slackWebhookUrl = None, lq_discordWebhookUrl = None, lq_databaseUrl = None\<rparr>"

definition no_live :: "string \<Rightarrow> string option" where
  "no_live k = (if k = ''LIQUIDATION_USE_LIVE_PRICES'' then Some ''false'' else None)"

definition thin_run :: "jsval \<Rightarrow> keeper_summary run_result \<times> live_cache \<times> world" where
  "thin_run status = runLiquidationKeeper (thin_env status) no_live [] (Fin 0) thin_cfg (Some ''GA'')
     \<lparr>lc_cache = (\<lambda>_. None), lc_lastGood = (\<lambda>_. None)\<rparr> (demo_world empty_db)"

lemma thin_run_values:
  "w_log (snd (snd (thin_run (JStr ''Active'')))) = [ChainCall ''CL'' ''mark_defaulted'' [ArgAddr ''GA'', ArgU32 1]]"
  "fst (thin_run (JArr [JStr ''Active''])) = Returns \<lparr>sm_scanned = 1, sm_liquidated = 0, sm_healthy = 0, sm_skipped = 1, sm_failed = 0\<rparr>"
  by code_simp+

lemma shouldLiquidate_exact_witness:
  "shouldLiquidate (computeLtvBps (\<lambda>_. Fin (10 ^ 7)) 900 (Fin 1) 1000 (Fin (of_nat 7)) (Fin 1)) (Fin (of_int 8000))
   \<and> of_int 8000 - 1 / 2 - 1 / 10 ^ 9 \<le> exact_ltv 900 1 1000 7 1"
proof -
  have "in_span 100 (1 :: rat)"
    using two_powi_mono [of "- 100" 0] two_powi_mono [of 0 100] by (simp add: in_span_def)
  moreover have "of_int 8000 \<le> exact_ltv 900 1 1000 7 1"
    by (simp add: exact_ltv_def)
  ultimately show ?thesis
    using shouldLiquidate_exact [of 900 1000 7 1 1 "\<lambda>_. Fin (10 ^ 7)" 8000] by simp
qed

lemma liquidations_justified_witness:
  "\<exists>ids marked. fetch_candidates (thin_env (JStr ''Active'')) thin_cfg empty_db = Returns ids \<and> subseq marked ids
    \<and> list_all (liquidatable (thin_env (JStr ''Active'')) thin_cfg
        (priced_config no_live [] (Fin 0) \<lparr>lc_cache = (\<lambda>_. None), lc_lastGood = (\<lambda>_. None)\<rparr> thin_cfg)) marked
    \<and> concat (map (mark_call (thin_env (JStr ''Active'')) thin_cfg) marked)
        = [ChainCall ''CL'' ''mark_defaulted'' [ArgAddr ''GA'', ArgU32 1]]"
proof -
  obtain r lc' w' where run: "thin_run (JStr ''Active'') = (r, lc', w')"
    by (metis surj_pair)
  then have "w_log w' = [ChainCall ''CL'' ''mark_defaulted'' [ArgAddr ''GA'', ArgU32 1]]"
    using thin_run_values(1) by simp
  then show ?thesis
    using liquidations_justified [OF run [unfolded thin_run_def]] by (auto simp: demo_world_def)
qed

lemma keeper_never_liquidates_witness:
  "\<exists>sm. fst (thin_run (JArr [JStr ''Active''])) = Returns sm \<and> sm_scanned sm = 1 \<and> sm_liquidated sm = 0 \<and> sm_healthy sm = 0"
proof -
  obtain r lc' w' where run: "thin_run (JArr [JStr ''Active'']) = (r, lc', w')"
    by (metis surj_pair)
  have "statuses_in_arrays (thin_env (JArr [JStr ''Active''])) thin_cfg"
    by (simp add: statuses_in_arrays_def read_chain_def thin_env_def thin_chain_def)
  from keeper_never_liquidates [OF this run [unfolded thin_run_def]] show ?thesis
    using thin_run_values(2) run by simp
qed

end
