(* ===== verification/Sep31.thy ===== *)
theory Sep31
  imports PoolBooks ReferralCodes
begin

text \<open>
  Deposits over a fiat anchor: the parts of \<open>src/lib/stellar/sep31.ts\<close> the server runs (discovery,
  reading a transaction, the signature of a callback), \<open>POST /api/pools/sep31-deposit\<close>
  (\<open>src/app/api/pools/sep31-deposit/route.ts\<close>), which records a pending deposit, and
  \<open>POST /api/webhooks/sep31\<close> (\<open>src/app/api/webhooks/sep31/route.ts\<close>), which settles it. The network
  and the signature scheme are parameters.
\<close>

subsection \<open>The anchor\<close>

record http_reply =
  hr_ok :: bool
  hr_text :: string

record anchor_net =
  an_get :: "string \<Rightarrow> string option \<Rightarrow> string + http_reply" \<comment> \<open>address and bearer token; a thrown error is \<open>Inl\<close>\<close>
  an_verify :: "string \<Rightarrow> string \<Rightarrow> string \<Rightarrow> bool" \<comment> \<open>key, payload and signature; \<open>False\<close> also for what does not decode\<close>
  an_homeDomain :: "string option" \<comment> \<open>\<open>NEXT_PUBLIC_SEP24_ANCHOR_HOME_DOMAIN\<close>\<close>
  an_signingKey :: "string option" \<comment> \<open>\<open>SEP31_ANCHOR_SIGNING_KEY\<close>\<close>
  an_firstRow :: "ledger_transaction list \<Rightarrow> nat" \<comment> \<open>which of the rows that match the database gives first, without \<open>ORDER BY\<close>\<close>
  an_pgText :: "jsval \<Rightarrow> string option" \<comment> \<open>how the driver writes a value that is no string as a text parameter\<close>

record anchor_endpoints =
  ae_directPaymentServer :: string
  ae_webAuthEndpoint :: string
  ae_signingKey :: string
  ae_kycServer :: string

definition LF :: char where "LF = char_of (10 :: nat)"
definition CR :: char where "CR = char_of (13 :: nat)"
definition QUOTE :: char where "QUOTE = char_of (34 :: nat)"
definition APOSTROPHE :: char where "APOSTROPHE = char_of (39 :: nat)"

text \<open>\<open>s.split(/\r?\n/)\<close>\<close>

fun split_lines :: "string \<Rightarrow> string list" where
  "split_lines [] = [[]]"
| "split_lines (c # s) =
     (if c = LF then [] # split_lines s
      else if c = CR \<and> s \<noteq> [] \<and> hd s = LF then [] # split_lines (tl s)
      else case split_lines s of [] \<Rightarrow> [[c]] | w # ws \<Rightarrow> (c # w) # ws)"

text \<open>\<open>v.replace(/^["']|["']$/g, "")\<close>: a quote at the start and one at the end of what is left\<close>

definition is_quote :: "char \<Rightarrow> bool" where
  "is_quote c \<longleftrightarrow> c = QUOTE \<or> c = APOSTROPHE"

definition strip_quotes :: "string \<Rightarrow> string" where
  "strip_quotes v =
     (let a = (case v of c # s \<Rightarrow> if is_quote c then s else v | [] \<Rightarrow> [])
      in if a \<noteq> [] \<and> is_quote (last a) then butlast a else a)"

definition toml_entry :: "string \<Rightarrow> (string \<times> string) option" where
  "toml_entry rawLine =
     (let line = js_trim (takeWhile (\<lambda>c. c \<noteq> CHR ''#'') rawLine);
          key = takeWhile (\<lambda>c. c \<noteq> CHR ''='') line
      in if line = [] \<or> hd line = CHR ''['' \<or> key = [] \<or> key = line then None
         else Some (js_trim key, strip_quotes (js_trim (drop (Suc (length key)) line))))"

definition parseToml :: "string \<Rightarrow> string \<Rightarrow> string" where
  "parseToml toml k = opt_string (map_of (rev (List.map_filter toml_entry (split_lines toml))) k)"

definition strip_slash :: "string \<Rightarrow> string" where
  "strip_slash s = (if s \<noteq> [] \<and> last s = CHR ''/'' then butlast s else s)"

definition or_text :: "string \<Rightarrow> string \<Rightarrow> string" where
  "or_text a b = (if a = [] then b else a)"

definition discoverSep31Anchor :: "anchor_net \<Rightarrow> string \<Rightarrow> string + anchor_endpoints" where
  "discoverSep31Anchor net homeDomain =
     bindE (an_get net (''https://'' @ homeDomain @ ''/.well-known/stellar.toml'') None) (\<lambda>res.
     if \<not> hr_ok res then Inl ''Could not load anchor stellar.toml''
     else let top = parseToml (hr_text res);
              directPaymentServer = or_text (top ''DIRECT_PAYMENT_SERVER'') (top ''DIRECT_PAYMENT_SERVER_SEP0031'');
              webAuthEndpoint = top ''WEB_AUTH_ENDPOINT'';
              signingKey = top ''SIGNING_KEY''
          in if directPaymentServer = [] then Inl ''Anchor does not support SEP-31 (DIRECT_PAYMENT_SERVER missing).''
             else if webAuthEndpoint = [] \<or> signingKey = [] then Inl ''Anchor missing WEB_AUTH_ENDPOINT or SIGNING_KEY for authentication.''
             else Inr \<lparr>ae_directPaymentServer = strip_slash directPaymentServer, ae_webAuthEndpoint = strip_slash webAuthEndpoint,
                       ae_signingKey = signingKey, ae_kycServer = strip_slash (or_text (top ''KYC_SERVER'') directPaymentServer)\<rparr>)"

text \<open>\<open>encodeURIComponent\<close>, on Latin-1\<close>

definition hex_digit :: "nat \<Rightarrow> char" where
  "hex_digit n = ''0123456789ABCDEF'' ! n"

definition percent :: "nat \<Rightarrow> string" where
  "percent n = [CHR ''%'', hex_digit (n div 16), hex_digit (n mod 16)]"

definition is_unreserved :: "char \<Rightarrow> bool" where
  "is_unreserved c \<longleftrightarrow> (let n = (of_char c :: nat) in
     (65 \<le> n \<and> n \<le> 90) \<or> (97 \<le> n \<and> n \<le> 122) \<or> (48 \<le> n \<and> n \<le> 57) \<or> n \<in> {33, 39, 40, 41, 42, 45, 46, 95, 126})"

definition encodeURIComponent :: "string \<Rightarrow> string" where
  "encodeURIComponent s = concat (map (\<lambda>c. let n = (of_char c :: nat) in
     if is_unreserved c then [c] else if n < 128 then percent n
     else percent (192 + n div 64) @ percent (128 + n mod 64)) s)"

definition getSep31Transaction :: "env \<Rightarrow> anchor_net \<Rightarrow> string \<Rightarrow> string \<Rightarrow> string \<Rightarrow> string + jsval" where
  "getSep31Transaction e net directPaymentServer jwt i =
     bindE (an_get net (directPaymentServer @ ''/transactions/'' @ encodeURIComponent i) (Some jwt)) (\<lambda>res.
     if \<not> hr_ok res then Inl ''GET transaction failed''
     else case env_jsonParse e (hr_text res) of
       None \<Rightarrow> Inl ''Unexpected token in JSON''
     | Some json \<Rightarrow> if json = JNull then Inl ''Cannot read properties of null'' else Inr (js_get json ''transaction''))"

definition verifyAnchorSignature :: "anchor_net \<Rightarrow> string \<Rightarrow> string \<Rightarrow> string \<Rightarrow> bool" where
  "verifyAnchorSignature net rawBody signatureBase64 anchorSigningKey = an_verify net anchorSigningKey rawBody signatureBase64"

definition anchor_domain :: "anchor_net \<Rightarrow> string" where
  "anchor_domain net = (case an_homeDomain net of Some d \<Rightarrow> d | None \<Rightarrow> ''testanchor.stellar.org'')"

subsection \<open>Recording a deposit\<close>

datatype sep31_error =
    S31RateLimited
  | S31DbUnavailable
  | S31Kyc kyc_reason "kyc_status option"
  | S31Invalid
  | S31AnchorUnreachable
  | S31Mismatch
  | S31NoPool
  | S31Recorded
  | S31Internal

type_synonym sep31_answer = "(sep31_error + ledger_transaction) answer"

record sep31_request =
  sr_poolId :: string
  sr_amount :: jsnum
  sr_currency :: string
  sr_anchorTxId :: string
  sr_instructions :: jsval
  sr_lenderAddress :: jsval
  sr_anchorJwt :: string

fun js_text :: "jsval \<Rightarrow> string" where
  "js_text (JStr s) = s"
| "js_text _ = []"

fun js_num :: "jsval \<Rightarrow> jsnum" where
  "js_num (JNum x) = x"
| "js_num _ = NaN"

fun is_object :: "jsval \<Rightarrow> bool" where
  "is_object (JObj _) = True"
| "is_object (JArr _) = True"
| "is_object _ = False"

definition sep31_parse :: "jsval \<Rightarrow> (int \<times> sep31_error) + sep31_request" where
  "sep31_parse body =
     (if body = JNull \<or> body = JUndef then Inl (500, S31Internal)
      else let r = \<lparr>sr_poolId = js_text (js_get body ''poolId''), sr_amount = js_num (js_get body ''amount''),
                    sr_currency = js_text (js_get body ''currency''), sr_anchorTxId = js_text (js_get body ''anchorTxId''),
                    sr_instructions = js_get body ''instructions'', sr_lenderAddress = js_get body ''lenderAddress'',
                    sr_anchorJwt = js_text (js_get body ''anchorJwt'')\<rparr>
           in if sr_poolId r = [] \<or> \<not> is_finite (sr_amount r) \<or> jle (sr_amount r) (Fin 0) \<or> sr_currency r = []
                \<or> sr_anchorTxId r = [] \<or> \<not> is_object (sr_instructions r) \<or> sr_anchorJwt r = []
              then Inl (400, S31Invalid) else Inr r)"

definition pendingStatuses :: "jsval set" where
  "pendingStatuses = {JStr ''pending_sender'', JStr ''pending_stellar'', JStr ''pending_customer_info_update'',
     JStr ''pending_transaction_info_update'', JStr ''hold''}"

fun split_colons :: "string \<Rightarrow> string list" where
  "split_colons [] = [[]]"
| "split_colons (c # s) =
     (if c = CHR '':'' then [] # split_colons s
      else case split_colons s of [] \<Rightarrow> [[c]] | w # ws \<Rightarrow> (c # w) # ws)"

text \<open>\<open>asset_code ?? amount_in_asset?.split(":").slice(0, 2).pop()\<close>; \<open>None\<close> is a thrown error.\<close>

definition anchor_currency :: "jsval \<Rightarrow> jsval option" where
  "anchor_currency tx =
     (let code = js_get tx ''asset_code''; asset = js_get tx ''amount_in_asset''
      in if code \<noteq> JUndef \<and> code \<noteq> JNull then Some code
         else case asset of
           JUndef \<Rightarrow> Some JUndef
         | JNull \<Rightarrow> Some JUndef
         | JStr s \<Rightarrow> Some (JStr (last (take 2 (split_colons s))))
         | _ \<Rightarrow> None)"

text \<open>Whether the anchor's transaction is the one described; an error is thrown on \<open>None\<close>.\<close>

definition anchor_matches :: "sep31_request \<Rightarrow> jsval \<Rightarrow> bool option" where
  "anchor_matches r tx =
     (if tx = JUndef \<or> tx = JNull then None
      else let verifiedAmount = js_to_number (js_get tx ''amount_in'')
           in case anchor_currency tx of
                None \<Rightarrow> None
              | Some currency \<Rightarrow>
                  if js_get tx ''id'' \<noteq> JStr (sr_anchorTxId r) \<or> js_get tx ''status'' \<notin> pendingStatuses \<or> \<not> js_truthy currency
                  then Some False
                  else (case currency of
                      JStr c \<Rightarrow> Some (js_upper c = js_upper (sr_currency r) \<and> is_finite verifiedAmount \<and> jeq verifiedAmount (sr_amount r))
                    | _ \<Rightarrow> None))"

definition anchor_recorded :: "string \<Rightarrow> database \<Rightarrow> bool" where
  "anchor_recorded anchorTxId db \<longleftrightarrow> (\<exists>t \<in> set (db_ledgerTransactions db). meta_text (lt_metadata t) ''anchorTxId'' = Some anchorTxId)"

definition sep31_ledger_row :: "session_user \<Rightarrow> sep31_request \<Rightarrow> int \<Rightarrow> string \<Rightarrow> ledger_transaction" where
  "sep31_ledger_row user r amount uuid =
     \<lparr> lt_id = uuid, lt_userId = user_id user, lt_category = ''deposit'', lt_amount = amount, lt_currency = sr_currency r,
       lt_status = TxPending, lt_refType = Some ''pool_position'', lt_refId = None,
       lt_metadata = JObj
         [(''anchorTxId'', JStr (sr_anchorTxId r)), (''instructions'', sr_instructions r), (''poolId'', JStr (sr_poolId r)),
          (''lenderAddress'', js_nullish (sr_lenderAddress r) JNull), (''isSep31'', JBool True)] \<rparr>"

definition sep31_record :: "env \<Rightarrow> session_user \<Rightarrow> sep31_request \<Rightarrow> world \<Rightarrow> sep31_answer \<times> world" where
  "sep31_record e user r w =
     (let uuid = env_genUuid e (db_uuids (w_db w)) in
      case micro_of_num (sr_amount r) of
        None \<Rightarrow> (Answer 500 (Inl S31Internal), w)
      | Some amount \<Rightarrow>
          if uuid \<in> set (map lt_id (db_ledgerTransactions (w_db w))) then (Answer 500 (Inl S31Internal), w)
          else (Answer 200 (Inr (sep31_ledger_row user r amount uuid)), set_db (insert_ledger (sep31_ledger_row user r amount uuid)) w))"

definition sep31_check :: "env \<Rightarrow> anchor_net \<Rightarrow> sep31_request \<Rightarrow> database \<Rightarrow> (int \<times> sep31_error) + unit" where
  "sep31_check e net r db =
     (case bindE (discoverSep31Anchor net (anchor_domain net))
             (\<lambda>ep. getSep31Transaction e net (ae_directPaymentServer ep) (sr_anchorJwt r) (sr_anchorTxId r)) of
        Inl _ \<Rightarrow> Inl (502, S31AnchorUnreachable)
      | Inr tx \<Rightarrow>
          (case anchor_matches r tx of
             None \<Rightarrow> Inl (500, S31Internal)
           | Some False \<Rightarrow> Inl (400, S31Mismatch)
           | Some True \<Rightarrow>
               (case env_pgUuid e (sr_poolId r) of
                  None \<Rightarrow> Inl (500, S31Internal)
                | Some poolId \<Rightarrow>
                    if find (\<lambda>p. pool_id p = poolId \<and> pool_status p = PoolActive) (db_lendingPools db) = None then Inl (404, S31NoPool)
                    else if anchor_recorded (sr_anchorTxId r) db then Inl (409, S31Recorded)
                    else Inr ())))"

text \<open>The redirect of a missing session is an error like any other to this handler's \<open>catch\<close>.\<close>

definition POST_sep31_deposit :: "env \<Rightarrow> anchor_net \<Rightarrow> jsval \<Rightarrow> world \<Rightarrow> sep31_answer \<times> world" where
  "POST_sep31_deposit e net body w =
     (if env_rateLimited e then (Answer 429 (Inl S31RateLimited), w)
      else case requireAuthenticatedUser e RoleLender of
        Inl _ \<Rightarrow> (Answer 500 (Inl S31Internal), w)
      | Inr user \<Rightarrow>
          if \<not> env_dbAvailable e then (Answer 503 (Inl S31DbUnavailable), w)
          else case requireKycVerified (user_id user) (w_db w) True of
            KycDenied reason st \<Rightarrow> (Answer 403 (Inl (S31Kyc reason st)), w)
          | KycAllowed _ \<Rightarrow>
              (case sep31_parse body of
                 Inl (status, err) \<Rightarrow> (Answer status (Inl err), w)
               | Inr r \<Rightarrow>
                   (case sep31_check e net r (w_db w) of
                      Inl (status, err) \<Rightarrow> (Answer status (Inl err), w)
                    | Inr _ \<Rightarrow> sep31_record e user r w)))"
subsection \<open>The anchor's callback\<close>

datatype hook_error =
    HookInvalid
  | HookNoSignature
  | HookBadSignature
  | HookDbUnavailable
  | HookNotFound
  | HookInternal

datatype hook_ok = HookDone | HookAlreadyProcessed

type_synonym hook_answer = "hook_error + hook_ok"

record hook_payload =
  hp_anchorTxId :: jsval
  hp_status :: jsval
  hp_stellarTxId :: jsval
  hp_message :: jsval

definition hook_parse :: "env \<Rightarrow> string \<Rightarrow> (int \<times> hook_error) + hook_payload" where
  "hook_parse e rawBody =
     (case env_jsonParse e rawBody of
        None \<Rightarrow> Inl (500, HookInternal)
      | Some body \<Rightarrow>
          if body = JNull \<or> body = JUndef then Inl (500, HookInternal)
          else let p = js_nullish (js_get body ''transaction'') body;
                   r = \<lparr>hp_anchorTxId = js_get p ''id'', hp_status = js_get p ''status'',
                        hp_stellarTxId = js_get p ''stellar_transaction_id'', hp_message = js_get p ''message''\<rparr>
               in if \<not> js_truthy (hp_anchorTxId r) \<or> \<not> js_truthy (hp_status r) then Inl (400, HookInvalid) else Inr r)"

definition hook_authentic :: "anchor_net \<Rightarrow> string \<Rightarrow> string \<Rightarrow> bool" where
  "hook_authentic net rawBody sigHeader =
     (case an_signingKey net of
        Some (c # key) \<Rightarrow> verifyAnchorSignature net rawBody sigHeader (c # key)
      | _ \<Rightarrow>
          (case discoverSep31Anchor net (anchor_domain net) of
             Inl _ \<Rightarrow> False
           | Inr ep \<Rightarrow> verifyAnchorSignature net rawBody sigHeader (ae_signingKey ep)))"

definition param_text :: "anchor_net \<Rightarrow> jsval \<Rightarrow> string option" where
  "param_text net v = (case v of JStr s \<Rightarrow> Some s | _ \<Rightarrow> an_pgText net v)"

text \<open>
  The query takes one row and asks for no order: which of the entries with that id it gives, if there are several, is the
  database's choice.
\<close>

definition anchor_entries :: "string \<Rightarrow> database \<Rightarrow> ledger_transaction list" where
  "anchor_entries anchorTxId db = filter (\<lambda>t. meta_text (lt_metadata t) ''anchorTxId'' = Some anchorTxId) (db_ledgerTransactions db)"

definition hook_find :: "anchor_net \<Rightarrow> string \<Rightarrow> database \<Rightarrow> ledger_transaction option" where
  "hook_find net anchorTxId db =
     (let rows = anchor_entries anchorTxId db
      in if rows = [] then None else Some (rows ! (an_firstRow net rows mod length rows)))"

text \<open>What the callback has read: the entry, its metadata, and the status to record.\<close>

record hook_plan =
  hk_row :: ledger_transaction
  hk_metadata :: jsval
  hk_payload :: hook_payload

definition spread :: "jsval \<Rightarrow> (string \<times> jsval) list" where
  "spread v = (case v of JObj kvs \<Rightarrow> kvs | _ \<Rightarrow> [])"

definition hook_metadata :: "env \<Rightarrow> jsval \<Rightarrow> jsval option" where
  "hook_metadata e v =
     (case v of
        JStr s \<Rightarrow> env_jsonParse e s
      | _ \<Rightarrow> Some (if js_truthy v then v else JObj []))"

definition set_ledger :: "string \<Rightarrow> (ledger_transaction \<Rightarrow> ledger_transaction) \<Rightarrow> database \<Rightarrow> database" where
  "set_ledger i f db = db\<lparr>db_ledgerTransactions := update_where (\<lambda>t. lt_id t = i) f (db_ledgerTransactions db)\<rparr>"

definition confirm_row :: "hook_plan \<Rightarrow> string \<Rightarrow> ledger_transaction \<Rightarrow> ledger_transaction" where
  "confirm_row p positionId t =
     t\<lparr>lt_status := TxConfirmed, lt_refId := Some positionId,
       lt_metadata := JObj (spread (hk_metadata p) @
         [(''stellarTxHash'', js_nullish (hp_stellarTxId (hk_payload p)) JNull), (''anchorStatus'', hp_status (hk_payload p))])\<rparr>"

definition fail_row :: "hook_plan \<Rightarrow> ledger_transaction \<Rightarrow> ledger_transaction" where
  "fail_row p t =
     t\<lparr>lt_status := TxFailed,
       lt_metadata := JObj (spread (hk_metadata p) @
         [(''anchorStatus'', hp_status (hk_payload p)),
          (''failureMessage'', js_nullish (hp_message (hk_payload p)) (JStr ''Compliance check or payment failed at anchor'')),
          (''refunded'', JBool (hp_status (hk_payload p) = JStr ''refunded''))])\<rparr>"

definition track_row :: "hook_plan \<Rightarrow> ledger_transaction \<Rightarrow> ledger_transaction" where
  "track_row p t = t\<lparr>lt_metadata := JObj (spread (hk_metadata p) @ [(''anchorStatus'', hp_status (hk_payload p))])\<rparr>"

text \<open>The reads: \<open>Inr None\<close> for an entry that has been processed.\<close>

definition hook_read :: "env \<Rightarrow> anchor_net \<Rightarrow> hook_payload \<Rightarrow> database \<Rightarrow> (int \<times> hook_error) + hook_plan option" where
  "hook_read e net r db =
     (case param_text net (hp_anchorTxId r) of
        None \<Rightarrow> Inl (500, HookInternal)
      | Some anchorTxId \<Rightarrow>
          (case hook_find net anchorTxId db of
             None \<Rightarrow> Inl (404, HookNotFound)
           | Some t \<Rightarrow>
               if lt_status t \<noteq> TxPending then Inr None
               else (case hook_metadata e (lt_metadata t) of
                  None \<Rightarrow> Inl (500, HookInternal)
                | Some m \<Rightarrow> if m = JNull then Inl (500, HookInternal)
                            else Inr (Some \<lparr>hk_row = t, hk_metadata = m, hk_payload = r\<rparr>))))"

text \<open>The pool and the amount of a completed deposit; without a pool id the query fails.\<close>

definition hook_pool :: "env \<Rightarrow> anchor_net \<Rightarrow> hook_plan \<Rightarrow> string option" where
  "hook_pool e net p = Option.bind (param_text net (js_get (hk_metadata p) ''poolId'')) (env_pgUuid e)"

definition hook_amount :: "hook_plan \<Rightarrow> rat option" where
  "hook_amount p = dec_of_num (num_of_micro (lt_amount (hk_row p)))"

definition hook_place :: "env \<Rightarrow> hook_plan \<Rightarrow> string \<Rightarrow> rat \<Rightarrow> string option \<Rightarrow> database \<Rightarrow> (pool_position option \<times> database) option" where
  "hook_place e p poolId amount existing db = place_position e poolId (lt_userId (hk_row p)) amount existing db"

definition hook_complete :: "env \<Rightarrow> anchor_net \<Rightarrow> hook_plan \<Rightarrow> world \<Rightarrow> hook_answer answer \<times> world" where
  "hook_complete e net p w =
     (case (hook_pool e net p, hook_amount p) of
        (Some poolId, Some amount) \<Rightarrow>
          (case hook_place e p poolId amount (find_position poolId (lt_userId (hk_row p)) (w_db w)) (w_db w) of
             None \<Rightarrow> (Answer 500 (Inl HookInternal), w)
           | Some (None, db1) \<Rightarrow> (Answer 500 (Inl HookInternal), set_db (\<lambda>_. db1) w)
           | Some (Some position, db1) \<Rightarrow>
               (Answer 200 (Inr HookDone),
                set_db (\<lambda>_. set_ledger (lt_id (hk_row p)) (confirm_row p (pos_id position)) (credit_pool poolId amount db1)) w))
      | _ \<Rightarrow> (Answer 500 (Inl HookInternal), w))"

definition hook_settle :: "env \<Rightarrow> anchor_net \<Rightarrow> hook_plan \<Rightarrow> world \<Rightarrow> hook_answer answer \<times> world" where
  "hook_settle e net p w =
     (let status = hp_status (hk_payload p) in
      if status = JStr ''completed'' then hook_complete e net p w
      else if status = JStr ''error'' \<or> status = JStr ''refunded'' then
        (Answer 200 (Inr HookDone), set_db (set_ledger (lt_id (hk_row p)) (fail_row p)) w)
      else (Answer 200 (Inr HookDone), set_db (set_ledger (lt_id (hk_row p)) (track_row p)) w))"

definition hook_check :: "env \<Rightarrow> anchor_net \<Rightarrow> string \<Rightarrow> string option \<Rightarrow> database \<Rightarrow> (int \<times> hook_error) + hook_plan option" where
  "hook_check e net rawBody sigHeader db =
     bindE (hook_parse e rawBody) (\<lambda>r.
     case sigHeader of
       Some (c # sig) \<Rightarrow>
         if \<not> hook_authentic net rawBody (c # sig) then Inl (401, HookBadSignature)
         else if \<not> env_dbAvailable e then Inl (503, HookDbUnavailable)
         else hook_read e net r db
     | _ \<Rightarrow> Inl (401, HookNoSignature))"

definition POST_sep31_webhook :: "env \<Rightarrow> anchor_net \<Rightarrow> string \<Rightarrow> string option \<Rightarrow> world \<Rightarrow> hook_answer answer \<times> world" where
  "POST_sep31_webhook e net rawBody sigHeader w =
     (case hook_check e net rawBody sigHeader (w_db w) of
        Inl (status, err) \<Rightarrow> (Answer status (Inl err), w)
      | Inr None \<Rightarrow> (Answer 200 (Inr HookAlreadyProcessed), w)
      | Inr (Some p) \<Rightarrow> hook_settle e net p w)"

end
