(* ===== verification/Sep31Safety.thy ===== *)
theory Sep31Safety
  imports Sep31 RelError Demo
begin

text \<open>
  What a callback of the anchor does to the books: a completed deposit credits its position and its
  pool with the recorded number, once when the callbacks come one after the other, and twice when a
  second one has read the entry before the first has confirmed it.
\<close>

subsection \<open>The amount\<close>

lemma hook_amount_exact:
  assumes "0 \<le> lt_amount (hk_row p)" "lt_amount (hk_row p) < 2 ^ 31 * 10 ^ 6"
  shows "\<exists>a. hook_amount p = Some a \<and> 0 \<le> a \<and> round6 a = lt_amount (hk_row p)"
proof -
  let ?n = "lt_amount (hk_row p)"
  define x where "x = fl (of_micro ?n)"
  have n: "\<bar>?n\<bar> < 2 ^ 31 * 10 ^ 6"
    using assms by simp
  have amount: "hook_amount p = Some (shortest_dec x)"
    by (simp add: hook_amount_def num_of_micro_Fin [OF n] x_def)
  have "fl x = x"
    by (simp add: x_def)
  then have "fl (shortest_dec x) = fl (of_micro ?n)"
    using fl_shortest_dec x_def by simp
  then have "round6 (shortest_dec x) = ?n"
    by (rule micro_round_trip [OF n])
  moreover have "0 \<le> shortest_dec x"
  proof (cases "x = 0")
    case True
    then show ?thesis
      by (simp add: shortest_dec_def shortest_pos_def)
  next
    case False
    then have "0 < x"
      using fl_nonneg [of "of_micro ?n"] assms(1) unfolding x_def by (simp add: order_less_le)
    then show ?thesis
      using shortest_dec_pos by (simp add: less_imp_le)
  qed
  ultimately show ?thesis
    using amount by simp
qed

subsection \<open>One completed callback\<close>

lemma set_ledger_totals [simp]:
  "pool_total P (set_ledger i f db) = pool_total P db" "principal_total P (set_ledger i f db) = principal_total P db"
  "pool_ids (set_ledger i f db) = pool_ids db" "pos_map (set_ledger i f db) = pos_map db" "solvent (set_ledger i f db) = solvent db"
  by (simp_all add: set_ledger_def pool_total_def principal_total_def pool_ids_def pos_map_def solvent_def)

lemma find_row_placed: "find_position P u db = Some i \<Longrightarrow> (i, P) \<in> set (pos_map db)"
  by (auto simp: find_position_def pos_map_def active_position_def dest!: find_in_set)

lemma place_other: "place_position e P u a found db = Some (pos, db') \<Longrightarrow> db_ledgerTransactions db' = db_ledgerTransactions db"
  by (auto simp: place_position_def Let_def split: option.splits if_splits)

definition settled :: "hook_plan \<Rightarrow> string \<Rightarrow> database \<Rightarrow> database \<Rightarrow> bool" where
  "settled p P db db' \<longleftrightarrow> tables_ok db' \<and> pool_ids db' = pool_ids db
     \<and> (\<forall>Q. pool_total Q db' = pool_total Q db + at_pool P (lt_amount (hk_row p)) Q
        \<and> principal_total Q db' = principal_total Q db + at_pool P (lt_amount (hk_row p)) Q)
     \<and> (\<exists>positionId. db_ledgerTransactions db' =
          update_where (\<lambda>t. lt_id t = lt_id (hk_row p)) (confirm_row p positionId) (db_ledgerTransactions db))"

lemma hook_complete_settles:
  assumes "hook_complete e net p w = (Answer 200 r, w')" "hook_pool e net p = Some P" "P \<in> set (pool_ids (w_db w))"
    and "tables_ok (w_db w)" "0 \<le> lt_amount (hk_row p)" "lt_amount (hk_row p) < 2 ^ 31 * 10 ^ 6"
  shows "settled p P (w_db w) (w_db w')"
proof -
  obtain a where a: "hook_amount p = Some a" "0 \<le> a" "round6 a = lt_amount (hk_row p)"
    using hook_amount_exact [OF assms(5,6)] by blast
  obtain pos db1 where place: "place_position e P (lt_userId (hk_row p)) a (find_position P (lt_userId (hk_row p)) (w_db w)) (w_db w) = Some (Some pos, db1)"
      and w': "w_db w' = set_ledger (lt_id (hk_row p)) (confirm_row p (pos_id pos)) (credit_pool P a db1)"
    using assms(1,2) a(1) by (auto simp: hook_complete_def hook_place_def split: option.splits)
  note one = place_position_moves [OF assms(4) place a(2)]
  have m1: "moves (w_db w) db1 (at_pool P (round6 a)) (\<lambda>_. 0)"
    using one find_row_placed [of P "lt_userId (hk_row p)" "w_db w"] by (simp split: option.split)
  have ok1: "tables_ok db1"
    using moves_tables_ok [OF m1 assms(4)] place_solvent [OF _ a(2) place] assms(4) by (simp add: tables_ok_def)
  have m2: "moves db1 (credit_pool P a db1) (\<lambda>_. 0) (at_pool P (round6 a))"
    using credit_pool_moves [OF ok1 _ a(2)] m1 assms(3) by (simp add: moves_def)
  have ok2: "tables_ok (credit_pool P a db1)"
    using moves_tables_ok [OF m2 ok1] credit_solvent [OF _ a(2)] ok1 by (simp add: tables_ok_def)
  have "db_ledgerTransactions (credit_pool P a db1) = db_ledgerTransactions (w_db w)"
    using place_other [OF place] by (simp add: credit_pool_def)
  then have "db_ledgerTransactions (w_db w') =
      update_where (\<lambda>t. lt_id t = lt_id (hk_row p)) (confirm_row p (pos_id pos)) (db_ledgerTransactions (w_db w))"
    by (simp add: w' set_ledger_def)
  then show ?thesis
    using m1 m2 ok2 a(3) by (auto simp: settled_def w' moves_def tables_ok_def)
qed

lemma hook_find_entry: "hook_find net i db = Some t \<Longrightarrow> t \<in> set (anchor_entries i db)"
  by (auto simp: hook_find_def Let_def split: if_splits)

lemma hook_find_only: "anchor_entries i db = [t] \<Longrightarrow> hook_find net i db = Some t"
  by (simp add: hook_find_def)

lemma hook_read_row:
  assumes "hook_read e net r db = Inr (Some p)"
  shows "\<exists>i. param_text net (hp_anchorTxId r) = Some i \<and> hk_row p \<in> set (anchor_entries i db) \<and> lt_status (hk_row p) = TxPending
    \<and> hk_payload p = r \<and> lt_metadata (hk_row p) = hk_metadata p"
proof -
  obtain i t m where i: "param_text net (hp_anchorTxId r) = Some i" "hook_find net i db = Some t" "lt_status t = TxPending"
      "hook_metadata e (lt_metadata t) = Some m" "p = \<lparr>hk_row = t, hk_metadata = m, hk_payload = r\<rparr>"
    using assms by (auto simp: hook_read_def split: option.splits if_splits)
  have found: "t \<in> set (anchor_entries i db)"
    using i(2) by (rule hook_find_entry)
  then have "meta_text (lt_metadata t) ''anchorTxId'' = Some i"
    by (simp add: anchor_entries_def)
  then obtain kvs where "lt_metadata t = JObj kvs"
    by (cases "lt_metadata t") (simp_all add: meta_text_def)
  then show ?thesis
    using i found by (auto simp: hook_metadata_def)
qed

lemma confirm_keeps_anchor: "lt_metadata t = JObj kvs \<Longrightarrow> hk_metadata p = JObj kvs \<Longrightarrow>
    meta_text (lt_metadata (confirm_row p i t)) ''anchorTxId'' = meta_text (lt_metadata t) ''anchorTxId''"
  by (simp add: confirm_row_def spread_def meta_text_def)

lemma settled_entry:
  assumes "settled p P db db'" "anchor_entries i db = [hk_row p]" "lt_metadata (hk_row p) = hk_metadata p"
    and "distinct (map lt_id (db_ledgerTransactions db))"
  shows "\<exists>t. anchor_entries i db' = [t] \<and> lt_status t = TxConfirmed"
proof -
  obtain positionId where rows: "db_ledgerTransactions db' =
      update_where (\<lambda>t. lt_id t = lt_id (hk_row p)) (confirm_row p positionId) (db_ledgerTransactions db)"
    using assms(1) by (auto simp: settled_def)
  have "hk_row p \<in> set (anchor_entries i db)"
    using assms(2) by simp
  then have row: "hk_row p \<in> set (db_ledgerTransactions db)" "meta_text (lt_metadata (hk_row p)) ''anchorTxId'' = Some i"
    by (simp_all add: anchor_entries_def)
  then obtain kvs where kvs: "lt_metadata (hk_row p) = JObj kvs"
    by (cases "lt_metadata (hk_row p)") (simp_all add: meta_text_def)
  define f where "f t = (if lt_id t = lt_id (hk_row p) then confirm_row p positionId t else t)" for t
  have "meta_text (lt_metadata (f t)) ''anchorTxId'' = meta_text (lt_metadata t) ''anchorTxId''" if "t \<in> set (db_ledgerTransactions db)" for t
  proof (cases "lt_id t = lt_id (hk_row p)")
    case True
    then have "t = hk_row p"
      using that row(1) assms(4) unfolding distinct_map by (metis inj_onD)
    then show ?thesis
      using confirm_keeps_anchor [OF kvs] assms(3) kvs by (simp add: f_def)
  qed (simp add: f_def)
  then have "anchor_entries i db' = map f (anchor_entries i db)"
    unfolding anchor_entries_def rows update_where_def f_def [symmetric] filter_map comp_def
    by (auto intro!: arg_cong [where f = "map f"] filter_cong)
  then show ?thesis
    using assms(2) by (simp add: f_def confirm_row_def)
qed

lemma hook_check_read:
  assumes "hook_check e net body sig db = Inr (Some p)"
  shows "hook_parse e body = Inr (hk_payload p) \<and> (\<exists>i. param_text net (hp_anchorTxId (hk_payload p)) = Some i
    \<and> hk_row p \<in> set (anchor_entries i db) \<and> lt_metadata (hk_row p) = hk_metadata p)"
proof -
  obtain r where "hook_parse e body = Inr r" "hook_read e net r db = Inr (Some p)"
    using assms unfolding hook_check_def bindE_Inr_iff
    by (cases sig; cases "the sig"; auto split: if_splits)
  then show ?thesis
    using hook_read_row by blast
qed

lemma hook_check_processed:
  assumes "hook_parse e body = Inr r" "param_text net (hp_anchorTxId r) = Some i" "hook_find net i db = Some t" "lt_status t \<noteq> TxPending"
  shows "hook_check e net body sig db \<in> insert (Inr None) (range Inl)"
  using assms by (cases sig; cases "the sig"; auto simp: hook_check_def hook_read_def)

text \<open>
  C12: While the ledger has one entry for a transaction of the anchor, which no index ensures, a completed callback for it
  that is answered credits exactly once: the pool and the positions in it
  both grow by the recorded number of millionths and nothing else moves, and any later callback for
  the same transaction, whatever it says, changes nothing at all. The number is the
  same whatever currency the deposit is recorded in.
\<close>

theorem sep31_settles_once:
  assumes "POST_sep31_webhook e net body sig w = (Answer 200 (Inr HookDone), w1)"
    and "hook_check e net body sig (w_db w) = Inr (Some p)"
    and "param_text net (hp_anchorTxId (hk_payload p)) = Some i" "length (anchor_entries i (w_db w)) = 1" "hp_status (hk_payload p) = JStr ''completed''"
    and "hook_pool e net p = Some P" "P \<in> set (pool_ids (w_db w))"
    and "tables_ok (w_db w)" "distinct (map lt_id (db_ledgerTransactions (w_db w)))"
    and "0 \<le> lt_amount (hk_row p)" "lt_amount (hk_row p) < 2 ^ 31 * 10 ^ 6"
    and "hook_parse e' body' = Inr r'" "param_text net' (hp_anchorTxId r') = Some i"
    and "POST_sep31_webhook e' net' body' sig' w1 = (answer, w2)"
  shows "(\<forall>Q. pool_total Q (w_db w1) = pool_total Q (w_db w) + (if Q = P then lt_amount (hk_row p) else 0)
      \<and> principal_total Q (w_db w1) = principal_total Q (w_db w) + (if Q = P then lt_amount (hk_row p) else 0))
    \<and> w2 = w1"
proof -
  have row: "hk_row p \<in> set (anchor_entries i (w_db w))" "lt_metadata (hk_row p) = hk_metadata p"
    using hook_check_read [OF assms(2)] assms(3) by auto
  then have only: "anchor_entries i (w_db w) = [hk_row p]"
    using assms(4) by (cases "anchor_entries i (w_db w)") auto
  have "hook_complete e net p w = (Answer 200 (Inr HookDone), w1)"
    using assms(1,2,5) by (simp add: POST_sep31_webhook_def hook_settle_def)
  then have settled: "settled p P (w_db w) (w_db w1)"
    using assms(6-8,10,11) by (rule hook_complete_settles)
  obtain t where t: "anchor_entries i (w_db w1) = [t]" "lt_status t = TxConfirmed"
    using settled_entry [OF settled only row(2) assms(9)] by blast
  then have "hook_check e' net' body' sig' (w_db w1) \<in> insert (Inr None) (range Inl)"
    using hook_check_processed [OF assms(12,13) hook_find_only [OF t(1)]] by simp
  then have "w2 = w1"
    using assms(14) by (auto simp: POST_sep31_webhook_def split: prod.splits)
  then show ?thesis
    using settled by (auto simp: settled_def at_pool_def)
qed

text \<open>
  C13: Nothing keeps two completed callbacks for one transaction apart: when the second has read the
  pending entry before the first has confirmed it, both are answered and the pool and its positions
  grow by twice the recorded amount, while the ledger still has the one entry.
\<close>

theorem sep31_completed_twice:
  assumes "hook_check e net body sig (w_db w) = Inr (Some p)" "hook_check e' net' body' sig' (w_db w) = Inr (Some p')"
    and same: "hk_row p' = hk_row p"
    and "hp_status (hk_payload p) = JStr ''completed''" "hp_status (hk_payload p') = JStr ''completed''"
    and "hook_pool e net p = Some P" "hook_pool e' net' p' = Some P" "P \<in> set (pool_ids (w_db w))"
    and "tables_ok (w_db w)" "0 \<le> lt_amount (hk_row p)" "lt_amount (hk_row p) < 2 ^ 31 * 10 ^ 6"
    and "hook_settle e net p w = (Answer 200 ok, w1)" "hook_settle e' net' p' w1 = (Answer 200 ok', w2)"
  shows "pool_total P (w_db w2) = pool_total P (w_db w) + 2 * lt_amount (hk_row p)
    \<and> principal_total P (w_db w2) = principal_total P (w_db w) + 2 * lt_amount (hk_row p)
    \<and> map lt_id (db_ledgerTransactions (w_db w2)) = map lt_id (db_ledgerTransactions (w_db w))"
proof -
  have "hook_complete e net p w = (Answer 200 ok, w1)" "hook_complete e' net' p' w1 = (Answer 200 ok', w2)"
    using assms(4,5,12,13) by (simp_all add: hook_settle_def)
  then have one: "settled p P (w_db w) (w_db w1)" and two: "settled p' P (w_db w1) (w_db w2)"
    using hook_complete_settles [of e net p w ok w1 P] hook_complete_settles [of e' net' p' w1 ok' w2 P] assms(6-11)
    by (simp_all add: settled_def same)
  have "map lt_id (update_where (\<lambda>t. lt_id t = i) (confirm_row q pos) rows) = map lt_id rows" for i q pos rows
    by (simp add: map_update_where confirm_row_def)
  then show ?thesis
    using one two by (auto simp: settled_def same at_pool_def)
qed

subsection \<open>Examples\<close>

text \<open>A pending deposit of 5 units of an anchor's currency.\<close>

definition fiat_row :: ledger_transaction where
  "fiat_row = \<lparr>lt_id = ''t'', lt_userId = ''l'', lt_category = ''deposit'', lt_amount = 5000000, lt_currency = ''JPY'',
     lt_status = TxPending, lt_refType = Some ''pool_position'', lt_refId = None,
     lt_metadata = JObj [(''anchorTxId'', JStr ''a''), (''poolId'', JStr ''P'')]\<rparr>"

definition fiat_world :: world where
  "fiat_world = demo_world (empty_db\<lparr>db_ledgerTransactions := [fiat_row], db_lendingPools :=
     [\<lparr>pool_id = ''P'', pool_status = PoolActive, pool_aprBps = 800, pool_totalLiquidity = 0, pool_availableLiquidity = 0,
       pool_totalBorrowed = 0, pool_borrowCap = None, pool_onchainPoolId = None\<rparr>]\<rparr>)"

definition fiat_payload :: hook_payload where
  "fiat_payload = \<lparr>hp_anchorTxId = JStr ''a'', hp_status = JStr ''completed'', hp_stellarTxId = JUndef, hp_message = JUndef\<rparr>"

definition fiat_env :: env where
  "fiat_env = (demo_env demo_lender (demo_horizon [] [] [] []))\<lparr>env_jsonParse :=
     (\<lambda>_. Some (JObj [(''id'', JStr ''a''), (''status'', JStr ''completed'')]))\<rparr>"

definition fiat_net :: anchor_net where
  "fiat_net = \<lparr>an_get = (\<lambda>_ _. Inl ''offline''), an_verify = (\<lambda>_ _ _. True), an_homeDomain = None,
     an_signingKey = Some ''K'', an_firstRow = (\<lambda>_. 0), an_pgText = (\<lambda>_. None)\<rparr>"

definition fiat_plan :: hook_plan where
  "fiat_plan = \<lparr>hk_row = fiat_row, hk_metadata = lt_metadata fiat_row, hk_payload = fiat_payload\<rparr>"

lemma fiat_facts:
  "hook_check fiat_env fiat_net [] (Some ''s'') (w_db fiat_world) = Inr (Some fiat_plan)"
  "hook_parse fiat_env [] = Inr fiat_payload" "hook_pool fiat_env fiat_net fiat_plan = Some ''P''"
  "''P'' \<in> set (pool_ids (w_db fiat_world))" "tables_ok (w_db fiat_world)"
  "distinct (map lt_id (db_ledgerTransactions (w_db fiat_world)))"
  "param_text fiat_net (hp_anchorTxId (hk_payload fiat_plan)) = Some ''a''" "length (anchor_entries ''a'' (w_db fiat_world)) = 1"
  by (simp_all add: hook_check_def hook_parse_def hook_read_def hook_find_def anchor_entries_def hook_authentic_def hook_pool_def hook_metadata_def
      verifyAnchorSignature_def param_text_def meta_text_def js_nullish_def Let_def fiat_env_def fiat_net_def fiat_world_def fiat_row_def
      fiat_payload_def fiat_plan_def demo_world_def empty_db_def pool_ids_def tables_ok_def pos_map_def solvent_def)

lemma fiat_answers:
  "fst (POST_sep31_webhook fiat_env fiat_net [] (Some ''s'') fiat_world) = Answer 200 (Inr HookDone)"
  "fst (hook_settle fiat_env fiat_net fiat_plan fiat_world) = Answer 200 (Inr HookDone)"
  "fst (hook_settle fiat_env fiat_net fiat_plan (snd (hook_settle fiat_env fiat_net fiat_plan fiat_world))) = Answer 200 (Inr HookDone)"
  by code_simp+

lemma sep31_settles_once_witness:
  "pool_total ''P'' (w_db (snd (POST_sep31_webhook fiat_env fiat_net [] (Some ''s'') fiat_world))) = 5000000
   \<and> (let w1 = snd (POST_sep31_webhook fiat_env fiat_net [] (Some ''s'') fiat_world)
      in snd (POST_sep31_webhook fiat_env fiat_net [] (Some ''s'') w1) = w1)"
proof -
  obtain w1 where one: "POST_sep31_webhook fiat_env fiat_net [] (Some ''s'') fiat_world = (Answer 200 (Inr HookDone), w1)"
    using fiat_answers(1) by (metis prod.collapse)
  obtain answer w2 where two: "POST_sep31_webhook fiat_env fiat_net [] (Some ''s'') w1 = (answer, w2)"
    by (metis surj_pair)
  have "pool_total ''P'' (w_db fiat_world) = 0"
    by (simp add: pool_total_def fiat_world_def demo_world_def)
  with sep31_settles_once [OF one fiat_facts(1,7,8) _ fiat_facts(3-6) _ _ fiat_facts(2) _ two] show ?thesis
    using one two by (simp add: fiat_plan_def fiat_payload_def fiat_row_def param_text_def)
qed

lemma sep31_completed_twice_witness:
  "\<exists>w1 w2. hook_settle fiat_env fiat_net fiat_plan fiat_world = (Answer 200 (Inr HookDone), w1)
    \<and> hook_settle fiat_env fiat_net fiat_plan w1 = (Answer 200 (Inr HookDone), w2)
    \<and> pool_total ''P'' (w_db w2) = 10000000"
proof -
  obtain w1 w2 where run: "hook_settle fiat_env fiat_net fiat_plan fiat_world = (Answer 200 (Inr HookDone), w1)"
      "hook_settle fiat_env fiat_net fiat_plan w1 = (Answer 200 (Inr HookDone), w2)"
    using fiat_answers(2,3) by (metis prod.collapse)
  have "pool_total ''P'' (w_db fiat_world) = 0"
    by (simp add: pool_total_def fiat_world_def demo_world_def)
  with sep31_completed_twice [OF fiat_facts(1) fiat_facts(1) refl _ _ fiat_facts(3) fiat_facts(3-5) _ _ run] show ?thesis
    using run by (simp add: fiat_plan_def fiat_payload_def fiat_row_def)
qed

end
