(* ===== verification/InterestRates.thy ===== *)
theory InterestRates
  imports Server
begin

text \<open>
  The interest arithmetic of the dashboards, \<open>src/lib/dashboard/interest-rates.ts\<close>: the floating and
  the fixed model, the jump rate model the contract also has, switching between models, and the
  early repayment of a loan, which the repayment quote uses too. A \<open>bigint\<close> is an integer. Labels
  and colours are left out.
\<close>

subsection \<open>Floating and fixed rates\<close>

definition FLOATING_BASE_RATE_BPS :: jsnum where "FLOATING_BASE_RATE_BPS = Fin 500"
definition FLOATING_SLOPE_BPS :: jsnum where "FLOATING_SLOPE_BPS = Fin 2000"
definition MIN_FLOATING_RATE_BPS :: jsnum where "MIN_FLOATING_RATE_BPS = Fin 200"
definition MAX_FLOATING_RATE_BPS :: jsnum where "MAX_FLOATING_RATE_BPS = Fin 5000"
definition RATE_SWITCH_FEE_BPS :: int where "RATE_SWITCH_FEE_BPS = 50"
definition RATE_SWITCH_COOLDOWN_SECS :: jsnum where "RATE_SWITCH_COOLDOWN_SECS = Fin 86400"

record floating_params =
  fp_totalBorrowed :: jsnum
  fp_totalLiquidity :: jsnum
  fp_baseRateBps :: "jsnum option"
  fp_slopeBps :: "jsnum option"

definition or_num :: "jsnum option \<Rightarrow> jsnum \<Rightarrow> jsnum" where
  "or_num x d = (case x of Some v \<Rightarrow> v | None \<Rightarrow> d)"

definition computeUtilization :: "jsnum \<Rightarrow> jsnum \<Rightarrow> jsnum" where
  "computeUtilization totalBorrowed totalLiquidity =
     (if jle totalLiquidity (Fin 0) then Fin 0
      else jmin (Fin 1) (jmax (Fin 0) (jdiv totalBorrowed totalLiquidity)))"

definition clamp_rate :: "jsnum \<Rightarrow> jsnum" where
  "clamp_rate rawRate = jmin MAX_FLOATING_RATE_BPS (jmax MIN_FLOATING_RATE_BPS rawRate)"

definition computeFloatingRate :: "floating_params \<Rightarrow> jsnum" where
  "computeFloatingRate params =
     (let baseRate = or_num (fp_baseRateBps params) FLOATING_BASE_RATE_BPS;
          slope = or_num (fp_slopeBps params) FLOATING_SLOPE_BPS;
          utilization = computeUtilization (fp_totalBorrowed params) (fp_totalLiquidity params)
      in clamp_rate (jadd baseRate (jfloor (jmul utilization slope))))"

definition computeFixedRate :: "jsnum \<Rightarrow> jsnum \<Rightarrow> jsnum \<Rightarrow> jsnum" where
  "computeFixedRate avgUtilization baseRateBps slopeBps =
     (let clampedUtil = jmin (Fin 1) (jmax (Fin 0) avgUtilization);
          baseFloating = jadd baseRateBps (jfloor (jmul clampedUtil slopeBps))
      in clamp_rate (jadd baseFloating (Fin 50)))"

subsection \<open>The jump rate model\<close>

record jump_params =
  jp_totalBorrowed :: int
  jp_totalSupply :: int
  jp_baseRateBps :: jsnum
  jp_multiplierPerSlopeBps :: jsnum
  jp_jumpMultiplierBps :: jsnum
  jp_kinkBps :: jsnum
  jp_reserveFactorBps :: jsnum

definition JUMP_MAX_BPS :: jsnum where "JUMP_MAX_BPS = Fin 10000"

text \<open>Both totals are positive where they are divided, so the division of \<open>bigint\<close>s is \<open>div\<close>.\<close>

definition computeUtilizationBps :: "int \<Rightarrow> int \<Rightarrow> jsnum" where
  "computeUtilizationBps totalBorrowed totalSupply =
     (if totalSupply \<le> 0 \<or> totalBorrowed \<le> 0 then Fin 0
      else jmin JUMP_MAX_BPS (jmax (Fin 0) (to_num (of_int (totalBorrowed * 10000 div totalSupply)))))"

definition computeJumpRateBorrowApy :: "jump_params \<Rightarrow> jsnum" where
  "computeJumpRateBorrowApy params =
     (let utilBps = computeUtilizationBps (jp_totalBorrowed params) (jp_totalSupply params)
      in if jeq utilBps (Fin 0) then jp_baseRateBps params
         else if jle utilBps (jp_kinkBps params) then
           jadd (jp_baseRateBps params)
             (jfloor (jdiv (jmul utilBps (jp_multiplierPerSlopeBps params)) (jp_kinkBps params)))
         else
           (let excess = jsub utilBps (jp_kinkBps params);
                denominator = jsub JUMP_MAX_BPS (jp_kinkBps params);
                jumpComponent = jfloor (jdiv (jmul excess (jp_jumpMultiplierBps params)) denominator)
            in jadd (jadd (jp_baseRateBps params) (jp_multiplierPerSlopeBps params)) jumpComponent))"

definition computeJumpRateSupplyApy :: "jump_params \<Rightarrow> jsnum" where
  "computeJumpRateSupplyApy params =
     (let utilBps = computeUtilizationBps (jp_totalBorrowed params) (jp_totalSupply params)
      in if jeq utilBps (Fin 0) then Fin 0
         else (let borrowApy = computeJumpRateBorrowApy params
               in if jeq borrowApy (Fin 0) then Fin 0
                  else (let rfAdjustment = jsub JUMP_MAX_BPS (jp_reserveFactorBps params)
                        in jfloor (jdiv (jdiv (jmul (jmul borrowApy utilBps) rfAdjustment) JUMP_MAX_BPS) JUMP_MAX_BPS))))"

subsection \<open>Switching\<close>

definition calculateSwitchFee :: "int \<Rightarrow> int" where
  "calculateSwitchFee remainingDueStroops =
     (if remainingDueStroops \<le> 0 then 0 else remainingDueStroops * RATE_SWITCH_FEE_BPS div 10000)"

text \<open>Whether a switch is allowed, and the seconds that remain.\<close>

definition canSwitchRateModel :: "jsnum \<Rightarrow> jsnum \<Rightarrow> bool \<times> jsnum" where
  "canSwitchRateModel lastSwitchTimestamp nowTimestamp =
     (if jeq lastSwitchTimestamp (Fin 0) then (True, Fin 0)
      else (let elapsed = jsub nowTimestamp lastSwitchTimestamp
            in if jle RATE_SWITCH_COOLDOWN_SECS elapsed then (True, Fin 0)
               else (False, jsub RATE_SWITCH_COOLDOWN_SECS elapsed)))"

text \<open>\<open>BigInt(x)\<close> of a number: \<open>None\<close> is the error for what is no whole number.\<close>

definition bigint_of :: "jsnum \<Rightarrow> int option" where
  "bigint_of x = (case x of Fin a \<Rightarrow> if of_int \<lfloor>a\<rfloor> = a then Some \<lfloor>a\<rfloor> else None | _ \<Rightarrow> None)"

definition recalculateRemainingInterest :: "int \<Rightarrow> jsnum \<Rightarrow> jsnum \<Rightarrow> int option" where
  "recalculateRemainingInterest remainingPrincipalStroops newRateBps remainingDays =
     (if remainingPrincipalStroops \<le> 0 \<or> jle newRateBps (Fin 0) \<or> jle remainingDays (Fin 0) then Some 0
      else case (bigint_of newRateBps, bigint_of remainingDays) of
        (Some r, Some d) \<Rightarrow> Some (remainingPrincipalStroops * r * d div (10000 * 365))
      | _ \<Rightarrow> None)"

subsection \<open>Early repayment\<close>

record early_params =
  ep_principal :: "jsnum option"
  ep_aprBps :: "jsnum option"
  ep_totalDays :: "jsnum option"
  ep_elapsedDays :: "jsnum option"
  ep_alreadyPaid :: "jsnum option"
  ep_platformFeeBps :: "jsnum option"

record early_repayment =
  er_isEarly :: bool
  er_elapsedDays :: jsnum
  er_totalDays :: jsnum
  er_daysRemaining :: jsnum
  er_principal :: jsnum
  er_standardInterest :: jsnum
  er_adjustedInterest :: jsnum
  er_interestSaved :: jsnum
  er_interestSavedPct :: jsnum
  er_platformFee :: jsnum
  er_standardTotalDue :: jsnum
  er_adjustedTotalDue :: jsnum
  er_standardRemainingDue :: jsnum
  er_adjustedRemainingDue :: jsnum

fun jceil :: "jsnum \<Rightarrow> jsnum" where
  "jceil (Fin a) = Fin (of_int \<lceil>a\<rceil>)"
| "jceil x = x"

text \<open>The two dates as \<open>getTime()\<close> gives them, \<open>NaN\<close> for a date that does not parse.\<close>

definition getElapsedDays :: "jsnum \<Rightarrow> jsnum \<Rightarrow> jsnum \<Rightarrow> jsnum" where
  "getElapsedDays start current totalDurationDays =
     (if start = NaN \<or> current = NaN \<or> jle totalDurationDays (Fin 0) then Fin 1
      else (let diffMs = jmax (Fin 0) (jsub current start);
                days = jceil (jdiv diffMs (Fin 86400000))
            in jmax (Fin 1) (jmin totalDurationDays days)))"

definition pro_rata_interest :: "jsnum \<Rightarrow> jsnum \<Rightarrow> jsnum \<Rightarrow> jsnum" where
  "pro_rata_interest principalXlm aprBps days =
     fixed_num 7 (jmul (jmul principalXlm (jdiv aprBps (Fin 10000))) (jdiv days (Fin 365)))"

definition calculateEarlyRepayment :: "early_params \<Rightarrow> early_repayment" where
  "calculateEarlyRepayment params =
     (let principalXlm = jmax (Fin 0) (or_num (ep_principal params) (Fin 0));
          aprBps = jmax (Fin 0) (or_num (ep_aprBps params) (Fin 0));
          totalDays = jmax (Fin 1) (or_num (ep_totalDays params) (Fin 30));
          elapsedDays = jmax (Fin 1) (jmin totalDays (or_num (ep_elapsedDays params) totalDays));
          alreadyPaid = jmax (Fin 0) (or_num (ep_alreadyPaid params) (Fin 0));
          platformFeeBps = or_num (ep_platformFeeBps params) (Fin 100);
          standardInterest = pro_rata_interest principalXlm aprBps totalDays;
          adjustedInterest = pro_rata_interest principalXlm aprBps elapsedDays;
          interestSaved = fixed_num 7 (jmax (Fin 0) (jsub standardInterest adjustedInterest));
          platformFee = fixed_num 7 (jmul principalXlm (jdiv platformFeeBps (Fin 10000)));
          standardTotalDue = fixed_num 7 (jadd (jadd principalXlm standardInterest) platformFee);
          adjustedTotalDue = fixed_num 7 (jadd (jadd principalXlm adjustedInterest) platformFee)
      in \<lparr>er_isEarly = jlt elapsedDays totalDays, er_elapsedDays = elapsedDays, er_totalDays = totalDays,
          er_daysRemaining = jsub totalDays elapsedDays, er_principal = principalXlm,
          er_standardInterest = standardInterest, er_adjustedInterest = adjustedInterest,
          er_interestSaved = interestSaved,
          er_interestSavedPct = (if jlt (Fin 0) standardInterest
            then fixed_num 2 (jmul (jdiv interestSaved standardInterest) (Fin 100)) else Fin 0),
          er_platformFee = platformFee, er_standardTotalDue = standardTotalDue, er_adjustedTotalDue = adjustedTotalDue,
          er_standardRemainingDue = fixed_num 7 (jmax (Fin 0) (jsub standardTotalDue alreadyPaid)),
          er_adjustedRemainingDue = fixed_num 7 (jmax (Fin 0) (jsub adjustedTotalDue alreadyPaid))\<rparr>)"

end
