(* ===== verification/Preflight.thy ===== *)
theory Preflight
  imports RepayRoute InterestRates JsDate
begin

text \<open>
  \<open>GET /api/loans/repay/preflight\<close>, \<open>src/app/api/loans/repay/preflight/route.ts\<close>: the quote a
  borrower signs a repayment against. It reads only. \<open>toFixed\<close> of a number that is sent is the
  rounded number; explanatory texts are left out.
\<close>

datatype preflight_error =
    PreflightRateLimited
  | PreflightIdRequired
  | PreflightDbUnavailable
  | PreflightNotFound
  | PreflightNotRepayable
  | PreflightNoLender
  | PreflightTooManyLenders nat
  | PreflightInternal

record lender_share =
  ls_address :: string
  ls_lenderUserId :: string
  ls_contribution :: jsnum
  ls_share :: jsnum

record preflight_quote =
  pq_loanId :: string
  pq_lenderAddress :: string
  pq_lenderUserId :: string
  pq_lenders :: "lender_share list"
  pq_borrowerAddress :: string
  pq_principal :: jsnum
  pq_interest :: jsnum
  pq_platformFee :: jsnum
  pq_platformFeeBps :: jsnum
  pq_platformFeePct :: jsnum
  pq_platformFeeSource :: fee_source
  pq_platformWallet :: "string option"
  pq_totalDue :: jsnum
  pq_alreadyPaid :: jsnum
  pq_remainingDue :: jsnum
  pq_aprBps :: jsnum
  pq_durationDays :: jsnum
  pq_aprPct :: jsnum
  pq_earlyRepayment :: early_repayment

text \<open>The days elapsed: the parameter, if it is a number, or the age of the loan.\<close>

definition elapsed_days :: "env \<Rightarrow> loan \<Rightarrow> string option \<Rightarrow> jsnum" where
  "elapsed_days e l daysElapsedParam =
     (let durationDays = to_num (of_int (loan_durationDays l));
          computed = getElapsedDays (date_ms (toISOString (loan_createdAt l))) (to_num (of_int (env_now e))) durationDays
      in if truthy_opt daysElapsedParam \<and> string_to_number (the daysElapsedParam) \<noteq> NaN
         then jmax (Fin 1) (jmin durationDays (string_to_number (the daysElapsedParam)))
         else computed)"

definition preflight_early :: "env \<Rightarrow> loan \<Rightarrow> jsnum \<Rightarrow> database \<Rightarrow> early_repayment" where
  "preflight_early e l elapsedDays db =
     calculateEarlyRepayment
       \<lparr>ep_principal = Some (num_of_micro (loan_principalAmount l)), ep_aprBps = Some (to_num (of_int (loan_aprBps l))),
        ep_totalDays = Some (to_num (of_int (loan_durationDays l))), ep_elapsedDays = Some elapsedDays,
        ep_alreadyPaid = Some (num_of_micro (loan_repaidAmount l)),
        ep_platformFeeBps = Some (rf_feeBps (repay_fee e l db))\<rparr>"

definition quote_lenders :: "lender_contribution list \<Rightarrow> lender_share list" where
  "quote_lenders lenders =
     (let totalContributed = foldl (\<lambda>sum entry. jadd sum (contribution entry)) (Fin 0) lenders
      in map (\<lambda>entry. \<lparr>ls_address = address entry, ls_lenderUserId = lenderId entry,
            ls_contribution = fixed_num 7 (contribution entry),
            ls_share = (if jlt (Fin 0) totalContributed
              then fixed_num 7 (jdiv (contribution entry) totalContributed) else Fin 0)\<rparr>) lenders)"

definition repayable :: "loan_status \<Rightarrow> bool" where
  "repayable s \<longleftrightarrow> s \<in> {LoanActive, LoanFunded, LoanApproved}"

definition build_quote :: "env \<Rightarrow> session_user \<Rightarrow> string \<Rightarrow> loan \<Rightarrow> lender_contribution list \<Rightarrow> jsnum \<Rightarrow> database
    \<Rightarrow> preflight_quote" where
  "build_quote e user loanId l lenders elapsedDays db =
     (let principalXlm = num_of_micro (loan_principalAmount l);
          aprBps = to_num (of_int (loan_aprBps l));
          fee = repay_fee e l db;
          early = preflight_early e l elapsedDays db
      in \<lparr>pq_loanId = loanId, pq_lenderAddress = address (hd lenders), pq_lenderUserId = lenderId (hd lenders),
          pq_lenders = quote_lenders lenders, pq_borrowerAddress = user_walletAddress user,
          pq_principal = fixed_num 7 principalXlm, pq_interest = fixed_num 7 (er_standardInterest early),
          pq_platformFee = er_platformFee early, pq_platformFeeBps = rf_feeBps fee,
          pq_platformFeePct = fixed_num 4 (jmul (jdiv (rf_feeBps fee) (Fin 10000)) (Fin 100)),
          pq_platformFeeSource = rf_source fee,
          pq_platformWallet = (if truthy_opt (env_platformFeeWallet e) then env_platformFeeWallet e else None),
          pq_totalDue = er_standardTotalDue early, pq_alreadyPaid = fixed_num 7 (num_of_micro (loan_repaidAmount l)),
          pq_remainingDue = er_standardRemainingDue early, pq_aprBps = aprBps,
          pq_durationDays = to_num (of_int (loan_durationDays l)),
          pq_aprPct = fixed_num 4 (jmul (jdiv aprBps (Fin 10000)) (Fin 100)), pq_earlyRepayment = early\<rparr>)"

definition GET_preflight :: "env \<Rightarrow> string option \<Rightarrow> string option \<Rightarrow> database \<Rightarrow> (preflight_error + preflight_quote) answer" where
  "GET_preflight e loanIdParam daysElapsedParam db =
     (if env_rateLimited e then Answer 429 (Inl PreflightRateLimited)
      else case requireAuthenticatedUser e RoleBorrower of
        Inl url \<Rightarrow> Redirect url
      | Inr user \<Rightarrow>
          if \<not> truthy_opt loanIdParam then Answer 400 (Inl PreflightIdRequired)
          else if \<not> env_dbAvailable e then Answer 500 (Inl PreflightDbUnavailable)
          else (case env_pgUuid e (the loanIdParam) of
             None \<Rightarrow> Answer 500 (Inl PreflightInternal)
           | Some canonicalId \<Rightarrow>
             (case find (\<lambda>l. loan_id l = canonicalId \<and> loan_borrowerId l = user_id user) (db_loans db) of
                None \<Rightarrow> Answer 404 (Inl PreflightNotFound)
              | Some l \<Rightarrow>
                  if \<not> repayable (loan_status l) then Answer 400 (Inl PreflightNotRepayable)
                  else (let lenders = getLoanLenders (env_jsonParse e) db canonicalId
                        in if lenders = [] then Answer 422 (Inl PreflightNoLender)
                           else if MAX_LENDERS_PER_REPAYMENT < length lenders
                           then Answer 422 (Inl (PreflightTooManyLenders (length lenders)))
                           else Answer 200 (Inr (build_quote e user (the loanIdParam) l lenders
                                  (elapsed_days e l daysElapsedParam) db))))))"

end
