(* ===== verification/PreflightSafety.thy ===== *)
theory PreflightSafety
  imports Preflight Demo
begin

text \<open>
  The quote of a repayment and what the repayment route makes of it: paying the quoted remainder
  closes the loan; paying the quoted early payoff does not.
\<close>

subsection \<open>Rounding steps\<close>

lemma near_iff: "\<bar>y - x\<bar> \<le> d \<longleftrightarrow> x - d \<le> y \<and> y \<le> x + (d :: rat)"
  by (auto simp: abs_le_iff)

text \<open>One rounding of a number of at most two thousand million moves it by less than two stroops.\<close>

lemma num_step:
  assumes "\<bar>x\<bar> \<le> 2 * 10 ^ 9"
  obtains y where "to_num x = Fin y" "\<bar>y - x\<bar> \<le> 2 / 10 ^ 7"
proof -
  have "\<bar>x\<bar> \<le> 2 ^ 1023"
    using assms power_increasing [of 31 1023 "2 :: rat"] by simp
  moreover have "\<bar>fl x - x\<bar> \<le> 2 powi (31 - 54)"
    using assms by (intro fl_error) (simp_all add: two_powi_nat)
  moreover have "2 powi (31 - 54) \<le> (2 / 10 ^ 7 :: rat)"
    by (simp add: power_int_minus)
  ultimately show ?thesis
    by (intro that [of "fl x"] to_num_Fin) linarith+
qed

lemma fixed_step:
  assumes "\<bar>x\<bar> \<le> 19 * 10 ^ 8"
  obtains y where "fixed_num 7 (Fin x) = Fin y" "\<bar>y - x\<bar> \<le> 3 / 10 ^ 7" "0 \<le> x \<Longrightarrow> 0 \<le> y"
proof -
  have fixed: "\<bar>to_fixed 7 x - x\<bar> \<le> 1 / (2 * 10 ^ 7)"
    using assms by (intro to_fixed_error) simp
  then have "\<bar>to_fixed 7 x\<bar> \<le> 2 * 10 ^ 9"
    using assms unfolding near_iff abs_le_iff by simp
  then obtain y where y: "to_num (to_fixed 7 x) = Fin y" "\<bar>y - to_fixed 7 x\<bar> \<le> 2 / 10 ^ 7"
    by (rule num_step)
  show ?thesis
  proof (rule that)
    show "fixed_num 7 (Fin x) = Fin y"
      using y(1) by simp
    show "\<bar>y - x\<bar> \<le> 3 / 10 ^ 7"
      using close_trans [OF y(2) fixed] by simp
    assume "0 \<le> x"
    then have "0 \<le> to_fixed 7 x"
      using assms by (intro to_fixed_mono_nonneg) simp_all
    then show "0 \<le> y"
      using y(1) by (auto simp: to_num_def Let_def simp del: to_num_Fin split: if_splits)
  qed
qed


lemma num_of_micro_bounds:
  assumes "0 \<le> n" "n \<le> of_int k * 10 ^ 6" "k < 2 ^ 31" "0 \<le> k"
  obtains x where "num_of_micro n = Fin x" "0 \<le> x" "x \<le> of_int k"
proof -
  have n: "n \<le> k * 10 ^ 6"
    using assms(2) by simp
  then have "(of_int n :: rat) \<le> of_int (k * 10 ^ 6)"
    by (simp only: of_int_le_iff)
  then have "of_micro n \<le> of_int k" "0 \<le> of_micro n"
    using assms(1) by (simp_all add: of_micro_def)
  then show ?thesis
    using assms to_num_le_int [of "of_micro n" k] by (intro that [of "fl (of_micro n)"]) (simp_all add: num_of_micro_def)
qed

text \<open>A product of two numbers in range is in range.\<close>

lemma mul_bounds:
  assumes "0 \<le> x" "x \<le> of_int a" "0 \<le> y" "y \<le> of_int b" "\<bar>a * b\<bar> < 2 ^ 53"
  obtains z where "jmul (Fin x) (Fin y) = Fin z" "0 \<le> z" "z \<le> of_int (a * b)"
proof -
  have "x * y \<le> of_int (a * b)" "0 \<le> x * y"
    using assms by (auto intro!: mult_mono)
  then show ?thesis
    using assms(5) to_num_le_int [of "x * y" "a * b"] by (intro that [of "fl (x * y)"]) simp_all
qed

lemma div_bounds:
  assumes "0 \<le> n" "n \<le> a * d" "0 < d" "\<bar>n\<bar> < 2 ^ 53" "\<bar>a\<bar> < 2 ^ 53"
  obtains z where "jdiv (to_num (of_int n)) (Fin (of_int d)) = Fin z" "0 \<le> z" "z \<le> of_int a"
proof -
  have "(of_int n :: rat) \<le> of_int (a * d)"
    using assms(2) by (simp only: of_int_le_iff)
  then have "of_int n / of_int d \<le> (of_int a :: rat)" "0 \<le> of_int n / (of_int d :: rat)"
    using assms by (simp_all add: divide_le_eq)
  then show ?thesis
    using assms to_num_le_int [of "of_int n / of_int d" a]
    by (intro that [of "fl (of_int n / of_int d)"]) (simp_all add: to_num_int)
qed

subsection \<open>What the quote and the route compute alike\<close>

text \<open>The loans the bounds are for: up to a hundred million XLM, 100 per cent a year and ten years.\<close>

definition quotable :: "loan \<Rightarrow> bool" where
  "quotable l \<longleftrightarrow> 0 \<le> loan_principalAmount l \<and> loan_principalAmount l \<le> 10 ^ 14
     \<and> 0 \<le> loan_aprBps l \<and> loan_aprBps l \<le> 10000 \<and> 1 \<le> loan_durationDays l \<and> loan_durationDays l \<le> 3650
     \<and> 0 \<le> loan_repaidAmount l \<and> loan_repaidAmount l \<le> 10 ^ 14"

lemma repay_interest_bounds:
  assumes "quotable l"
  obtains p i where "num_of_micro (loan_principalAmount l) = Fin p" "0 \<le> p" "p \<le> 10 ^ 8"
    "repay_interest l = Fin i" "0 \<le> i" "i \<le> 10 ^ 9"
proof -
  obtain p where p: "num_of_micro (loan_principalAmount l) = Fin p" "0 \<le> p" "p \<le> of_int (10 ^ 8)"
    using assms num_of_micro_bounds [of "loan_principalAmount l" "10 ^ 8"] by (auto simp: quotable_def)
  obtain a where a: "jdiv (to_num (of_int (loan_aprBps l))) (Fin 10000) = Fin a" "0 \<le> a" "a \<le> of_int 1"
    using assms div_bounds [of "loan_aprBps l" 1 10000] by (auto simp: quotable_def)
  obtain d where d: "jdiv (to_num (of_int (loan_durationDays l))) (Fin 365) = Fin d" "0 \<le> d" "d \<le> of_int 10"
    using assms div_bounds [of "loan_durationDays l" 10 365] by (auto simp: quotable_def)
  obtain x where x: "jmul (Fin p) (Fin a) = Fin x" "0 \<le> x" "x \<le> of_int (10 ^ 8 * 1)"
    using mul_bounds [OF p(2,3) a(2,3)] by auto
  obtain i where i: "jmul (Fin x) (Fin d) = Fin i" "0 \<le> i" "i \<le> of_int (10 ^ 8 * 1 * 10)"
    using mul_bounds [OF x(2,3) d(2,3)] by auto
  show ?thesis
    using p a d x i by (intro that [of p i]) (simp_all add: repay_interest_def)
qed

lemma repay_fee_bounds:
  assumes "num_of_micro (loan_principalAmount l) = Fin p" "0 \<le> p" "p \<le> 10 ^ 8"
  obtains n f where "rf_feeBps (repay_fee e l db) = Fin (of_int n)"
    "rf_feeAmount (repay_fee e l db) = Fin f" "0 \<le> f" "f \<le> 10 ^ 8 + 1"
    "fixed_num 7 (jmul (Fin p) (jdiv (Fin (of_int n)) (Fin 10000))) = Fin f"
proof -
  obtain n where n: "rf_feeBps (repay_fee e l db) = Fin (of_int n)" "0 \<le> n" "n \<le> 1000"
    using resolveLoanFeeBps_range unfolding repay_fee_def by blast
  then obtain y where y: "jdiv (to_num (of_int n)) (Fin (of_int 10000)) = Fin y" "0 \<le> y" "y \<le> of_int 1"
    using div_bounds [of n 1 10000] by auto
  obtain z where z: "jmul (Fin p) (Fin y) = Fin z" "0 \<le> z" "z \<le> of_int (10 ^ 8 * 1)"
    using mul_bounds [of p "10 ^ 8" y 1] assms y by auto
  obtain f where f: "fixed_num 7 (Fin z) = Fin f" "\<bar>f - z\<bar> \<le> 3 / 10 ^ 7" "0 \<le> f"
    using fixed_step [of z] z by auto
  have "f \<le> 10 ^ 8 + 1"
    using f z unfolding near_iff by simp
  moreover have "fixed_num 7 (jmul (Fin p) (jdiv (Fin (of_int n)) (Fin 10000))) = Fin f"
    using n y z f by (simp add: to_num_int)
  moreover have "rf_feeAmount (repay_fee e l db) = fee_amount (num_of_micro (loan_principalAmount l)) (Fin (of_int n))"
    using n assms by (simp add: repay_fee_def resolveLoanFeeBps_def num_or_zero_def Let_def split: option.splits)
  ultimately show ?thesis
    using n f assms by (intro that [of n f]) (simp_all add: fee_amount_def)
qed


text \<open>Sums and differences, each rounded once.\<close>

lemma add_step:
  assumes "\<bar>x + y\<bar> \<le> 2 * 10 ^ 9"
  obtains z where "jadd (Fin x) (Fin y) = Fin z" "\<bar>z - (x + y)\<bar> \<le> 2 / 10 ^ 7"
  using num_step [OF assms] by auto

lemma sub_step:
  assumes "\<bar>x - y\<bar> \<le> 2 * 10 ^ 9"
  obtains z where "jsub (Fin x) (Fin y) = Fin z" "\<bar>z - (x - y)\<bar> \<le> 2 / 10 ^ 7"
  using num_step [OF assms] by (auto simp: jsub_Fin)

text \<open>The rounded remainder the quote states, close to the exact one.\<close>

lemma remaining_due:
  assumes "0 \<le> p" "p \<le> 10 ^ 8" "0 \<le> i" "i \<le> 10 ^ 9" "0 \<le> f" "f \<le> 10 ^ 8 + 1" "0 \<le> r" "r \<le> 10 ^ 8"
  obtains x where
    "fixed_num 7 (jmax (Fin 0) (jsub (fixed_num 7 (jadd (jadd (Fin p) (fixed_num 7 (Fin i))) (Fin f))) (Fin r))) = Fin x"
    "\<bar>x - max 0 (p + i + f - r)\<bar> \<le> 15 / 10 ^ 7" "0 < x \<Longrightarrow> - (15 / 10 ^ 7) \<le> p + i + f - r"
proof -
  obtain j where j: "fixed_num 7 (Fin i) = Fin j" "\<bar>j - i\<bar> \<le> 3 / 10 ^ 7"
    using fixed_step [of i] assms by auto
  obtain a where a: "jadd (Fin p) (Fin j) = Fin a" "\<bar>a - (p + j)\<bar> \<le> 2 / 10 ^ 7"
    using add_step [of p j] assms j unfolding near_iff abs_le_iff by auto
  obtain b where b: "jadd (Fin a) (Fin f) = Fin b" "\<bar>b - (a + f)\<bar> \<le> 2 / 10 ^ 7"
    using add_step [of a f] assms j a unfolding near_iff abs_le_iff by auto
  obtain c where c: "fixed_num 7 (Fin b) = Fin c" "\<bar>c - b\<bar> \<le> 3 / 10 ^ 7"
    using fixed_step [of b] assms j a b unfolding near_iff abs_le_iff by auto
  obtain d where d: "jsub (Fin c) (Fin r) = Fin d" "\<bar>d - (c - r)\<bar> \<le> 2 / 10 ^ 7"
    using sub_step [of c r] assms j a b c unfolding near_iff abs_le_iff by auto
  have "d \<le> 19 * 10 ^ 8" "- d \<le> 19 * 10 ^ 8"
    using assms j a b c d unfolding near_iff by simp_all
  then have bound: "\<bar>max 0 d\<bar> \<le> 19 * 10 ^ 8"
    by (simp add: max_def)
  obtain x where x: "fixed_num 7 (Fin (max 0 d)) = Fin x" "\<bar>x - max 0 d\<bar> \<le> 3 / 10 ^ 7"
    using fixed_step [of "max 0 d"] bound by blast
  show ?thesis
  proof (rule that [of x])
    show "fixed_num 7 (jmax (Fin 0) (jsub (fixed_num 7 (jadd (jadd (Fin p) (fixed_num 7 (Fin i))) (Fin f))) (Fin r))) = Fin x"
      by (simp only: j a b c d x jmax_Fin)
    show "\<bar>x - max 0 (p + i + f - r)\<bar> \<le> 15 / 10 ^ 7"
      using j a b c d x unfolding near_iff max_def by (auto split: if_splits)
    assume "0 < x"
    have "0 < d"
    proof (rule ccontr)
      assume "\<not> 0 < d"
      then have "fixed_num 7 (Fin 0) = Fin x"
        using x(1) by (simp add: max_def split: if_splits)
      moreover have "fixed_num 7 (Fin 0) = Fin 0"
        by code_simp
      ultimately show False
        using \<open>0 < x\<close> by simp
    qed
    then show "- (15 / 10 ^ 7) \<le> p + i + f - r"
      using j(2) a(2) b(2) c(2) d(2) unfolding near_iff by simp
  qed
qed


lemma preflight_early_remaining:
  assumes "quotable l" "num_of_micro (loan_principalAmount l) = Fin p" "0 \<le> p"
    "num_of_micro (loan_repaidAmount l) = Fin r" "0 \<le> r"
    "rf_feeBps (repay_fee e l db) = Fin b" "fixed_num 7 (jmul (Fin p) (jdiv (Fin b) (Fin 10000))) = Fin f"
  shows "er_standardRemainingDue (preflight_early e l days db) =
    fixed_num 7 (jmax (Fin 0) (jsub (fixed_num 7 (jadd (jadd (Fin p) (fixed_num 7 (repay_interest l))) (Fin f))) (Fin r)))"
proof -
  have "jmax (Fin 0) (to_num (of_int (loan_aprBps l))) = to_num (of_int (loan_aprBps l))"
    "jmax (Fin 1) (to_num (of_int (loan_durationDays l))) = to_num (of_int (loan_durationDays l))"
    using assms(1) by (simp_all add: quotable_def to_num_int max_def)
  then show ?thesis
    using assms by (simp add: preflight_early_def calculateEarlyRepayment_def Let_def or_num_def
        pro_rata_interest_def repay_interest_def max_def)
qed

text \<open>What the route decides, as a comparison of the exact sums with a margin of a millionth.\<close>

lemma repay_status_near:
  assumes "num_of_micro (loan_principalAmount (rp_loan p)) = Fin x" "0 \<le> x" "x \<le> 10 ^ 8"
    "repay_interest (rp_loan p) = Fin i" "0 \<le> i" "i \<le> 10 ^ 9"
    "rf_feeAmount (repay_fee e (rp_loan p) db) = Fin f" "0 \<le> f" "f \<le> 10 ^ 8 + 1"
    "num_of_micro (loan_repaidAmount (rp_loan p)) = Fin r" "0 \<le> r" "r \<le> 10 ^ 8"
    "rp_amount p = Fin y" "- 1 \<le> y" "y \<le> 14 * 10 ^ 8"
  shows "x + i + f - 1 / 10 ^ 4 + 1 / 10 ^ 6 \<le> r + y \<Longrightarrow> repay_new_status e p db = LoanRepaid"
    and "r + y < x + i + f - 1 / 10 ^ 4 - 1 / 10 ^ 6 \<Longrightarrow> repay_new_status e p db = LoanActive"
proof -
  have "\<bar>x + i\<bar> \<le> 2 * 10 ^ 9"
    using assms unfolding abs_le_iff by simp
  then obtain a where a: "jadd (Fin x) (Fin i) = Fin a" "\<bar>a - (x + i)\<bar> \<le> 2 / 10 ^ 7"
    by (rule add_step)
  have "\<bar>a + f\<bar> \<le> 2 * 10 ^ 9"
    using a assms unfolding near_iff abs_le_iff by simp
  then obtain t where t: "jadd (Fin a) (Fin f) = Fin t" "\<bar>t - (a + f)\<bar> \<le> 2 / 10 ^ 7"
    by (rule add_step)
  obtain c where c: "to_num (1 / 10 ^ 4) = Fin c" "\<bar>c - 1 / 10 ^ 4\<bar> \<le> 2 / 10 ^ 7"
    by (rule num_step [of "1 / 10 ^ 4"]) simp
  have "\<bar>t - c\<bar> \<le> 2 * 10 ^ 9"
    using assms a t c unfolding near_iff abs_le_iff by simp
  then obtain u where u: "jsub (Fin t) (Fin c) = Fin u" "\<bar>u - (t - c)\<bar> \<le> 2 / 10 ^ 7"
    by (rule sub_step)
  have "\<bar>r + y\<bar> \<le> 2 * 10 ^ 9"
    using assms unfolding abs_le_iff by simp
  then obtain z where z: "jadd (Fin r) (Fin y) = Fin z" "\<bar>z - (r + y)\<bar> \<le> 2 / 10 ^ 7"
    by (rule add_step)
  have "num_or_zero (Fin r) = Fin r"
    by (simp add: num_or_zero_def)
  then have status: "repay_new_status e p db = (if u \<le> z then LoanRepaid else LoanActive)"
    using assms(1,4,7,10,13) a(1) t(1) c(1) u(1) z(1)
    by (simp only: repay_new_status_def repay_total_due_def repay_new_amount_def jle.simps)
  {
    assume "x + i + f - 1 / 10 ^ 4 + 1 / 10 ^ 6 \<le> r + y"
    then have "u \<le> z"
      using a(2) t(2) c(2) u(2) z(2) unfolding near_iff by simp
    with status show "repay_new_status e p db = LoanRepaid"
      by simp
  next
    assume "r + y < x + i + f - 1 / 10 ^ 4 - 1 / 10 ^ 6"
    then have "\<not> u \<le> z"
      using a(2) t(2) c(2) u(2) z(2) unfolding near_iff by simp
    with status show "repay_new_status e p db = LoanActive"
      by simp
  }
qed

lemma quotable_values:
  assumes "quotable l"
  obtains x i n f r where
    "num_of_micro (loan_principalAmount l) = Fin x" "0 \<le> x" "x \<le> 10 ^ 8"
    "repay_interest l = Fin i" "0 \<le> i" "i \<le> 10 ^ 9"
    "rf_feeAmount (repay_fee e l db) = Fin f" "0 \<le> f" "f \<le> 10 ^ 8 + 1"
    "num_of_micro (loan_repaidAmount l) = Fin r" "0 \<le> r" "r \<le> 10 ^ 8"
    "rf_feeBps (repay_fee e l db) = Fin (of_int n)"
    "fixed_num 7 (jmul (Fin x) (jdiv (Fin (of_int n)) (Fin 10000))) = Fin f"
proof -
  obtain x i where x: "num_of_micro (loan_principalAmount l) = Fin x" "0 \<le> x" "x \<le> 10 ^ 8"
    and i: "repay_interest l = Fin i" "0 \<le> i" "i \<le> 10 ^ 9"
    using repay_interest_bounds [OF assms] by blast
  obtain r where r: "num_of_micro (loan_repaidAmount l) = Fin r" "0 \<le> r" "r \<le> of_int (10 ^ 8)"
    using assms num_of_micro_bounds [of "loan_repaidAmount l" "10 ^ 8"] by (auto simp: quotable_def)
  obtain n f where n: "rf_feeBps (repay_fee e l db) = Fin (of_int n)"
    "fixed_num 7 (jmul (Fin x) (jdiv (Fin (of_int n)) (Fin 10000))) = Fin f"
    and f: "rf_feeAmount (repay_fee e l db) = Fin f" "0 \<le> f" "f \<le> 10 ^ 8 + 1"
    using repay_fee_bounds [OF x] by blast
  have "r \<le> 10 ^ 8"
    using r by simp
  then show ?thesis
    by (intro that [OF x i f r(1,2) _ n])
qed

lemma repay_covers:
  assumes "quotable (rp_loan p)" "rp_amount p = er_standardRemainingDue (preflight_early e (rp_loan p) days db)"
  shows "repay_new_status e p db = LoanRepaid"
proof -
  obtain x i n f r where
    v: "num_of_micro (loan_principalAmount (rp_loan p)) = Fin x" "0 \<le> x" "x \<le> 10 ^ 8"
    "repay_interest (rp_loan p) = Fin i" "0 \<le> i" "i \<le> 10 ^ 9"
    "rf_feeAmount (repay_fee e (rp_loan p) db) = Fin f" "0 \<le> f" "f \<le> 10 ^ 8 + 1"
    "num_of_micro (loan_repaidAmount (rp_loan p)) = Fin r" "0 \<le> r" "r \<le> 10 ^ 8"
    and n: "rf_feeBps (repay_fee e (rp_loan p) db) = Fin (of_int n)"
    "fixed_num 7 (jmul (Fin x) (jdiv (Fin (of_int n)) (Fin 10000))) = Fin f"
    by (rule quotable_values [OF assms(1)])
  obtain y where y: "rp_amount p = Fin y" "\<bar>y - max 0 (x + i + f - r)\<bar> \<le> 15 / 10 ^ 7"
    using remaining_due [OF v(2,3,5,6,8,9,11,12)] assms(2)
      preflight_early_remaining [OF assms(1) v(1,2,10,11) n] v(4) by metis
  have "x + i + f - 1 / 10 ^ 4 + 1 / 10 ^ 6 \<le> r + y" "- 1 \<le> y" "y \<le> 14 * 10 ^ 8"
    using y(2) v unfolding near_iff max_def by (auto split: if_splits)
  with v y(1) show ?thesis
    by (intro repay_status_near(1))
qed

subsection \<open>From the quote to the repayment\<close>

text \<open>The quote and the checks of the route that follow it read the same loan.\<close>

lemma quote_and_check:
  assumes "GET_preflight e\<^sub>0 (Some i) days db = Answer 200 (Inr q)"
    "requireAuthenticatedUser e\<^sub>0 RoleBorrower = Inr user"
    "env_pgUuid e\<^sub>0 = env_pgUuid e" "env_jsonParse e\<^sub>0 = env_jsonParse e"
    "repay_check e user b (JStr i, amount, h) db = Inr p"
  obtains d where "pq_earlyRepayment q = preflight_early e (rp_loan p) d db"
    "pq_remainingDue q = er_standardRemainingDue (preflight_early e (rp_loan p) d db)" "rp_amount p = amount"
proof -
  have fee: "preflight_early e\<^sub>0 = preflight_early e"
    using assms(4) by (intro ext) (simp add: preflight_early_def repay_fee_def)
  have "\<exists>c. env_pgUuid e i = Some c
      \<and> find (\<lambda>l. loan_id l = c \<and> loan_borrowerId l = user_id user) (db_loans db) = Some (rp_loan p) \<and> rp_amount p = amount"
    using assms(5) unfolding repay_check_def
    by (auto simp: Let_def bind_eq_Some_conv bindE_Inr_iff split: option.splits if_splits)
  moreover have "\<exists>c l d. env_pgUuid e i = Some c
      \<and> find (\<lambda>l. loan_id l = c \<and> loan_borrowerId l = user_id user) (db_loans db) = Some l
      \<and> pq_earlyRepayment q = preflight_early e l d db
      \<and> pq_remainingDue q = er_standardRemainingDue (preflight_early e l d db)"
    using assms(1-4) unfolding GET_preflight_def fee [symmetric]
    by (auto simp: build_quote_def Let_def split: option.splits if_splits sum.splits)
  ultimately show ?thesis
    by (auto intro: that)
qed


subsection \<open>The early payoff\<close>

lemma elapsed_clamped:
  assumes "1 \<le> D"
  shows "x = NaN \<or> (\<exists>d. jmax (Fin 1) (jmin (Fin D) x) = Fin d \<and> 1 \<le> d \<and> d \<le> D)"
  using assms by (cases x) (auto simp: jmin_def jmax_def)

lemma elapsed_NaN: "jmax (Fin 1) (jmin x NaN) = NaN"
  by (simp add: jmin_def jmax_def)

lemma adjusted_NaN: "fixed_num 7 (jmul x (jdiv NaN (Fin 365))) = NaN"
  by (cases x) simp_all

text \<open>What the quote of the early payoff states, when it states a number.\<close>

lemma preflight_early_adjusted:
  assumes "quotable l" "num_of_micro (loan_principalAmount l) = Fin p" "0 \<le> p" "p \<le> 10 ^ 8"
    "num_of_micro (loan_repaidAmount l) = Fin r" "0 \<le> r"
    "rf_feeBps (repay_fee e l db) = Fin b" "fixed_num 7 (jmul (Fin p) (jdiv (Fin b) (Fin 10000))) = Fin f"
    "jlt (Fin 0) (er_adjustedRemainingDue (preflight_early e l days db))"
  obtains v where "0 \<le> v" "v \<le> 10 ^ 9"
    "er_adjustedRemainingDue (preflight_early e l days db) =
       fixed_num 7 (jmax (Fin 0) (jsub (fixed_num 7 (jadd (jadd (Fin p) (fixed_num 7 (Fin v))) (Fin f))) (Fin r)))"
    "er_interestSaved (preflight_early e l days db) =
       fixed_num 7 (jmax (Fin 0) (jsub (fixed_num 7 (repay_interest l)) (fixed_num 7 (Fin v))))"
proof -
  define D where "D = (of_int (loan_durationDays l) :: rat)"
  have D: "1 \<le> D" "D \<le> 3650" "to_num (of_int (loan_durationDays l)) = Fin D"
    using assms(1) by (simp_all add: D_def quotable_def to_num_int)
  have apr: "jmax (Fin 0) (to_num (of_int (loan_aprBps l))) = to_num (of_int (loan_aprBps l))"
    using assms(1) by (simp add: quotable_def to_num_int max_def)
  obtain a where a: "jdiv (to_num (of_int (loan_aprBps l))) (Fin 10000) = Fin a" "0 \<le> a" "a \<le> of_int 1"
    using assms(1) div_bounds [of "loan_aprBps l" 1 10000] by (auto simp: quotable_def)
  obtain x where x: "jmul (Fin p) (Fin a) = Fin x" "0 \<le> x" "x \<le> of_int (10 ^ 8 * 1)"
    using mul_bounds [of p "10 ^ 8" a 1] assms(3,4) a by auto
  define E where "E = jmax (Fin 1) (jmin (Fin D) days)"
  have early: "er_adjustedRemainingDue (preflight_early e l days db) =
      fixed_num 7 (jmax (Fin 0) (jsub (fixed_num 7 (jadd (jadd (Fin p) (fixed_num 7 (jmul (Fin x) (jdiv E (Fin 365))))) (Fin f))) (Fin r)))"
    "er_interestSaved (preflight_early e l days db) = fixed_num 7 (jmax (Fin 0)
      (jsub (fixed_num 7 (repay_interest l)) (fixed_num 7 (jmul (Fin x) (jdiv E (Fin 365))))))"
    using assms(2,3,5-8) D apr a(1) x(1) by (simp_all add: preflight_early_def calculateEarlyRepayment_def Let_def or_num_def
        pro_rata_interest_def repay_interest_def max_def E_def)
  have "days \<noteq> NaN"
  proof
    assume "days = NaN"
    then have "er_adjustedRemainingDue (preflight_early e l days db) = NaN"
      unfolding early(1) E_def by (simp only: elapsed_NaN adjusted_NaN) (simp add: jmax_def jsub_def)
    with assms(9) show False
      by simp
  qed
  then obtain d where d: "E = Fin d" "1 \<le> d" "d \<le> D"
    using elapsed_clamped [OF D(1), of days] by (auto simp: E_def)
  have "0 \<le> d / 365" "d / 365 \<le> of_int 10"
    using d D by simp_all
  then obtain y where y: "jdiv (Fin d) (Fin 365) = Fin y" "0 \<le> y" "y \<le> of_int 10"
    using to_num_le_int [of "d / 365" 10] by simp
  obtain v where v: "jmul (Fin x) (Fin y) = Fin v" "0 \<le> v" "v \<le> of_int (10 ^ 8 * 1 * 10)"
    using mul_bounds [OF x(2,3) y(2,3)] by auto
  show ?thesis
  proof (rule that [of v])
    show "0 \<le> v" "v \<le> 10 ^ 9"
      using v by simp_all
  qed (simp_all only: early d y v)
qed


lemma repay_parse_positive:
  assumes "repay_parse b = Inr (i, amount, h)"
  shows "jlt (Fin 0) amount"
  using assms by (cases amount) (auto simp: repay_parse_def split: jsval.splits if_splits)

lemma saved_positive:
  assumes "0 \<le> i" "i \<le> 10 ^ 9" "0 \<le> v" "v \<le> 10 ^ 9"
    "jle (Fin (1 / 10 ^ 3)) (fixed_num 7 (jmax (Fin 0) (jsub (fixed_num 7 (Fin i)) (fixed_num 7 (Fin v)))))"
  shows "v + 9 / 10 ^ 4 \<le> i"
proof -
  obtain j where j: "fixed_num 7 (Fin i) = Fin j" "\<bar>j - i\<bar> \<le> 3 / 10 ^ 7"
    using fixed_step [of i] assms by auto
  obtain k where k: "fixed_num 7 (Fin v) = Fin k" "\<bar>k - v\<bar> \<le> 3 / 10 ^ 7"
    using fixed_step [of v] assms by auto
  obtain d where d: "jsub (Fin j) (Fin k) = Fin d" "\<bar>d - (j - k)\<bar> \<le> 2 / 10 ^ 7"
    using sub_step [of j k] assms j k unfolding near_iff abs_le_iff by auto
  have "d \<le> 19 * 10 ^ 8" "- d \<le> 19 * 10 ^ 8"
    using assms j k d unfolding near_iff by simp_all
  then have "\<bar>max 0 d\<bar> \<le> 19 * 10 ^ 8"
    by (simp add: max_def)
  then obtain s where s: "fixed_num 7 (Fin (max 0 d)) = Fin s" "\<bar>s - max 0 d\<bar> \<le> 3 / 10 ^ 7"
    using fixed_step [of "max 0 d"] by blast
  have "1 / 10 ^ 3 \<le> s"
    using assms(5) by (simp only: j k d jmax_Fin s jle.simps)
  then show ?thesis
    using j(2) k(2) d(2) s(2) unfolding near_iff max_def by (simp split: if_splits)
qed

lemma early_payoff_short:
  assumes "quotable (rp_loan p)" "rp_amount p = er_adjustedRemainingDue (preflight_early e (rp_loan p) days db)"
    "jlt (Fin 0) (rp_amount p)" "jle (Fin (1 / 10 ^ 3)) (er_interestSaved (preflight_early e (rp_loan p) days db))"
  shows "repay_new_status e p db = LoanActive"
proof -
  obtain x i n f r where
    v: "num_of_micro (loan_principalAmount (rp_loan p)) = Fin x" "0 \<le> x" "x \<le> 10 ^ 8"
    "repay_interest (rp_loan p) = Fin i" "0 \<le> i" "i \<le> 10 ^ 9"
    "rf_feeAmount (repay_fee e (rp_loan p) db) = Fin f" "0 \<le> f" "f \<le> 10 ^ 8 + 1"
    "num_of_micro (loan_repaidAmount (rp_loan p)) = Fin r" "0 \<le> r" "r \<le> 10 ^ 8"
    and n: "rf_feeBps (repay_fee e (rp_loan p) db) = Fin (of_int n)"
    "fixed_num 7 (jmul (Fin x) (jdiv (Fin (of_int n)) (Fin 10000))) = Fin f"
    by (rule quotable_values [OF assms(1)])
  obtain w where w: "0 \<le> w" "w \<le> 10 ^ 9"
    and adjusted: "er_adjustedRemainingDue (preflight_early e (rp_loan p) days db) =
       fixed_num 7 (jmax (Fin 0) (jsub (fixed_num 7 (jadd (jadd (Fin x) (fixed_num 7 (Fin w))) (Fin f))) (Fin r)))"
    and saved: "er_interestSaved (preflight_early e (rp_loan p) days db) =
       fixed_num 7 (jmax (Fin 0) (jsub (fixed_num 7 (repay_interest (rp_loan p))) (fixed_num 7 (Fin w))))"
    using preflight_early_adjusted [OF assms(1) v(1-3,10,11) n] assms(2,3) by metis
  obtain y where y: "rp_amount p = Fin y" "\<bar>y - max 0 (x + w + f - r)\<bar> \<le> 15 / 10 ^ 7"
    "0 < y \<Longrightarrow> - (15 / 10 ^ 7) \<le> x + w + f - r"
    using remaining_due [OF v(2,3) w v(8,9,11,12)] assms(2) adjusted by metis
  have "w + 9 / 10 ^ 4 \<le> i"
    using saved_positive [OF v(5,6) w] assms(4) saved v(4) by simp
  moreover have "0 < y"
    using assms(3) y(1) by simp
  ultimately have "r + y < x + i + f - 1 / 10 ^ 4 - 1 / 10 ^ 6" "- 1 \<le> y" "y \<le> 14 * 10 ^ 8"
    using y(2,3) v w unfolding near_iff max_def by (auto split: if_splits)
  with v y(1) show ?thesis
    by (intro repay_status_near(2))
qed


text \<open>
  C25: a borrower who is quoted a remainder and pays it closes the loan: whatever the rates of the
  loan and the platform's fee, and however often it was repaid in part, the amounts the two routes
  compute in binary64 differ by less than the tolerance of the second.
\<close>

theorem quote_closes_loan:
  assumes "GET_preflight e\<^sub>0 (Some i) days db = Answer 200 (Inr q)"
    "requireAuthenticatedUser e\<^sub>0 RoleBorrower = Inr user"
    "env_pgUuid e\<^sub>0 = env_pgUuid e" "env_jsonParse e\<^sub>0 = env_jsonParse e"
    "repay_check e user b (JStr i, pq_remainingDue q, h) db = Inr p" "quotable (rp_loan p)"
  shows "repay_new_status e p db = LoanRepaid"
proof -
  obtain d where "pq_remainingDue q = er_standardRemainingDue (preflight_early e (rp_loan p) d db)"
    "rp_amount p = pq_remainingDue q"
    by (rule quote_and_check [OF assms(1-5)])
  with assms(6) show ?thesis
    by (intro repay_covers) simp_all
qed

text \<open>
  C26: a borrower who is quoted an early payoff, with at least a thousandth of an XLM of interest
  saved, and pays exactly that, has not closed the loan: the route asks for the interest of the
  whole term.
\<close>

theorem early_quote_leaves_open:
  assumes "GET_preflight e\<^sub>0 (Some i) days db = Answer 200 (Inr q)"
    "requireAuthenticatedUser e\<^sub>0 RoleBorrower = Inr user"
    "env_pgUuid e\<^sub>0 = env_pgUuid e" "env_jsonParse e\<^sub>0 = env_jsonParse e"
    "repay_parse b = Inr (JStr i, er_adjustedRemainingDue (pq_earlyRepayment q), h)"
    "repay_check e user b (JStr i, er_adjustedRemainingDue (pq_earlyRepayment q), h) db = Inr p"
    "quotable (rp_loan p)" "jle (Fin (1 / 10 ^ 3)) (er_interestSaved (pq_earlyRepayment q))"
  shows "repay_new_status e p db = LoanActive"
proof -
  obtain d where d: "pq_earlyRepayment q = preflight_early e (rp_loan p) d db"
    "rp_amount p = er_adjustedRemainingDue (pq_earlyRepayment q)"
    by (rule quote_and_check [OF assms(1-4,6)])
  have "jlt (Fin 0) (rp_amount p)"
    using repay_parse_positive [OF assms(5)] d(2) by simp
  with d assms(7,8) show ?thesis
    by (intro early_payoff_short) simp_all
qed

subsection \<open>Examples\<close>

text \<open>A loan of 100 XLM at 50 per cent a year for two years, of which nothing has been repaid.\<close>

definition demo_repay_db :: database where
  "demo_repay_db = demo_db\<lparr>db_loans := [demo_loan 100000000\<lparr>loan_status := LoanActive, loan_aprBps := 5000, loan_durationDays := 730\<rparr>], db_loanFundings :=
     [\<lparr>lf_id = ''f'', lf_loanId = ''L'', lf_lenderId = ''l'', lf_amount = 100000000, lf_txHash = demo_hash CHR ''b'',
       lf_lenderAddress = Some ''GL'', lf_fundedAt = 0\<rparr>]\<rparr>"

definition demo_repay_env :: "string \<Rightarrow> env" where
  "demo_repay_env amt = demo_env demo_borrower (demo_horizon ''GB'' ''TL-RPY:L'' ''GL'' amt)"

definition demo_payer_env :: env where
  "demo_payer_env = demo_repay_env ''201.0000000''"


definition demo_quote :: preflight_quote where
  "demo_quote = build_quote (demo_repay_env []) demo_borrower ''L'' (hd (db_loans demo_repay_db))
     [\<lparr>lenderId = ''l'', address = ''GL'', contribution = Fin 100\<rparr>] (Fin 365) demo_repay_db"

lemma demo_lenders: "getLoanLenders (\<lambda>_. None) demo_repay_db ''L'' =
    [\<lparr>lenderId = ''l'', address = ''GL'', contribution = Fin 100\<rparr>]"
  by code_simp

lemma demo_borrower_session: "requireAuthenticatedUser (demo_repay_env amt) RoleBorrower = Inr demo_borrower"
  by (simp add: requireAuthenticatedUser_def demo_repay_env_def demo_borrower_def)

lemma demo_elapsed: "elapsed_days (demo_repay_env []) (hd (db_loans demo_repay_db)) (Some ''365'') = Fin 365"
  by code_simp

lemma demo_repay_loan: "db_loans demo_repay_db = [demo_loan 100000000\<lparr>loan_status := LoanActive, loan_aprBps := 5000, loan_durationDays := 730\<rparr>]"
  by (simp add: demo_repay_db_def)

lemma demo_GET: "GET_preflight (demo_repay_env []) (Some ''L'') (Some ''365'') demo_repay_db = Answer 200 (Inr demo_quote)"
  using demo_lenders demo_elapsed demo_borrower_session [of "[]"]
  by (simp add: GET_preflight_def demo_repay_env_def demo_repay_loan demo_borrower_def repayable_def
      MAX_LENDERS_PER_REPAYMENT_def demo_quote_def truthy_opt_def)

lemma demo_early: "pq_earlyRepayment demo_quote = calculateEarlyRepayment \<lparr>ep_principal = Some (Fin 100), ep_aprBps = Some (Fin 5000),
    ep_totalDays = Some (Fin 730), ep_elapsedDays = Some (Fin 365), ep_alreadyPaid = Some (Fin 0), ep_platformFeeBps = Some (Fin 100)\<rparr>"
  "pq_remainingDue demo_quote = er_standardRemainingDue (pq_earlyRepayment demo_quote)"
proof -
  have "num_of_micro 100000000 = Fin 100" "num_of_micro 0 = Fin 0" "to_num 5000 = Fin 5000" "to_num 730 = Fin 730"
    "rf_feeBps (repay_fee (demo_repay_env []) (hd (db_loans demo_repay_db)) demo_repay_db) = Fin 100"
    by code_simp+
  then show "pq_earlyRepayment demo_quote = calculateEarlyRepayment \<lparr>ep_principal = Some (Fin 100), ep_aprBps = Some (Fin 5000),
    ep_totalDays = Some (Fin 730), ep_elapsedDays = Some (Fin 365), ep_alreadyPaid = Some (Fin 0), ep_platformFeeBps = Some (Fin 100)\<rparr>"
    by (simp add: demo_quote_def build_quote_def Let_def preflight_early_def demo_repay_loan demo_loan_def)
qed (simp add: demo_quote_def build_quote_def Let_def)

lemma demo_interest:
  "pro_rata_interest (Fin 100) (Fin 5000) (Fin 730) = Fin 100"
  "pro_rata_interest (Fin 100) (Fin 5000) (Fin 365) = Fin 50"
  "fixed_num 7 (jmul (Fin 100) (jdiv (Fin 100) (Fin 10000))) = Fin 1"
  by code_simp+

lemma demo_steps:
  "jmax (Fin 0) (Fin 100) = Fin 100" "jmax (Fin 0) (Fin 5000) = Fin 5000" "jmax (Fin 1) (Fin 730) = Fin 730"
  "jmax (Fin 1) (jmin (Fin 730) (Fin 365)) = Fin 365" "jmax (Fin 0) (Fin 0) = Fin 0"
  "fixed_num 7 (jmax (Fin 0) (jsub (fixed_num 7 (jadd (jadd (Fin 100) (Fin 100)) (Fin 1))) (Fin 0)))
     = Fin 201"
  "fixed_num 7 (jmax (Fin 0) (jsub (fixed_num 7 (jadd (jadd (Fin 100) (Fin 50)) (Fin 1))) (Fin 0)))
     = Fin 151"
  "jle (Fin (1 / 10 ^ 3))
     (fixed_num 7 (jmax (Fin 0) (jsub (Fin 100) (Fin 50))))"
  by code_simp+

lemma demo_amounts:
  "er_standardRemainingDue (pq_earlyRepayment demo_quote) = Fin 201"
  "er_adjustedRemainingDue (pq_earlyRepayment demo_quote) = Fin 151"
  "jle (Fin (1 / 10 ^ 3)) (er_interestSaved (pq_earlyRepayment demo_quote))"
  unfolding demo_early
  by (simp_all only: calculateEarlyRepayment_def Let_def or_num_def early_repayment.simps early_params.simps
      option.case demo_interest demo_steps)

definition demo_repay_body :: "jsnum \<Rightarrow> repay_body" where
  "demo_repay_body amt = \<lparr>rb_loanId = JStr ''L'', rb_amount = JNum amt, rb_txHash = JStr (demo_hash CHR ''a''),
     rb_borrowerAddress = JStr ''GB''\<rparr>"

definition demo_repay_params :: verify_params where
  "demo_repay_params = \<lparr>vp_txHash = demo_hash CHR ''a'', vp_expectedSource = ''GB'',
     vp_expectedPayments = [\<lparr>destination = ''GL'', minAmount = Fin 0\<rparr>],
     vp_expectedMemo = Some ''TL-RPY:L'', vp_allowOtherDestinations = False, vp_maxAgeSeconds = None,
     vp_horizonUrl = ''https://horizon''\<rparr>"

definition demo_repay_verified :: verified_payment where
  "demo_repay_verified = \<lparr>v_txHash = demo_hash CHR ''a'', v_source = ''GB'', v_memo = Some ''TL-RPY:L'',
     v_ledger = 7, v_closedAt = ''1970-01-01T00:00:00Z'', v_received = [(''GL'', Fin 201)], v_totalNative = Fin 201\<rparr>"

lemma demo_paid:
  "summarisePayments [demo_payment ''GL'' ''201.0000000''] = [(''GL'', Fin 201)]"
  "check_payments demo_repay_params [(''GL'', Fin 201)] = Inr ()" "foldl jadd (Fin 0) [Fin 201] = Fin 201"
  "check_tx (Fin 1000) demo_repay_params (demo_tx ''GB'' ''TL-RPY:L'') = Inr ()"
  "\<not> jlt (jadd (Fin 201) AMOUNT_TOLERANCE) (Fin 201)"
  "\<not> jlt (jadd (Fin 201) AMOUNT_TOLERANCE) (Fin 151)"
  by code_simp+

lemma demo_repay_verify:
  "verifyPaymentTransaction (demo_horizon ''GB'' ''TL-RPY:L'' ''GL'' ''201.0000000'') (Fin 1000) demo_repay_params
    = Inr demo_repay_verified"
proof -
  have "vp_txHash demo_repay_params = demo_hash CHR ''a''"
    by (simp add: demo_repay_params_def)
  then show ?thesis
    using demo_paid
    by (simp add: verifyPaymentTransaction_def demo_horizon_def Let_def demo_repay_verified_def demo_tx_def text_memo_def)
qed

lemma demo_repay_check:
  assumes "\<not> jlt (jadd (Fin 201) AMOUNT_TOLERANCE) amt"
  obtains p where "repay_check demo_payer_env demo_borrower (demo_repay_body amt) (JStr ''L'', amt, demo_hash CHR ''a'')
    demo_repay_db = Inr p" "rp_loan p = demo_loan 100000000\<lparr>loan_status := LoanActive, loan_aprBps := 5000, loan_durationDays := 730\<rparr>"
proof -
  have "repay_verify demo_payer_env ''L'' ''GB'' [''GL''] (demo_hash CHR ''a'') amt = Inr demo_repay_verified"
    using assms demo_repay_verify
    by (simp add: repay_verify_def demo_payer_env_def demo_repay_env_def memo_repay_def demo_repay_params_def demo_repay_verified_def)
  moreover have "profile_wallet ''b'' demo_repay_db = Some ''GB''"
    by code_simp
  moreover have "\<not> repay_recorded (demo_hash CHR ''a'') demo_repay_db"
    by (simp add: repay_recorded_def demo_repay_db_def demo_db_def empty_db_def)
  ultimately show ?thesis
    using demo_lenders
    by (intro that [of "\<lparr>rp_loanId = ''L'', rp_amount = amt, rp_txHash = demo_hash CHR ''a'',
          rp_loan = demo_loan 100000000\<lparr>loan_status := LoanActive, loan_aprBps := 5000, loan_durationDays := 730\<rparr>,
          rp_lenders = [\<lparr>lenderId = ''l'', address = ''GL'', contribution = Fin 100\<rparr>],
          rp_payouts = splitRepaymentAcrossLenders amt [\<lparr>lenderId = ''l'', address = ''GL'', contribution = Fin 100\<rparr>],
          rp_verified = demo_repay_verified\<rparr>"])
      (simp_all add: repay_check_def demo_payer_env_def demo_repay_env_def demo_repay_loan demo_repay_body_def demo_borrower_def
        allowed_destinations_def truthy_opt_def linked_wallets_def js_to_string.simps js_nullish_def Let_def)
qed

lemma demo_same_env:
  "env_pgUuid (demo_repay_env s) = env_pgUuid demo_payer_env" "env_jsonParse (demo_repay_env s) = env_jsonParse demo_payer_env"
  by (simp_all add: demo_repay_env_def demo_payer_env_def)

lemma demo_quotable: "quotable (demo_loan 100000000\<lparr>loan_status := LoanActive, loan_aprBps := 5000, loan_durationDays := 730\<rparr>)"
  by (simp add: quotable_def demo_loan_def)

lemma quote_closes_loan_witness:
  "\<exists>p. repay_check demo_payer_env demo_borrower (demo_repay_body (pq_remainingDue demo_quote))
      (JStr ''L'', pq_remainingDue demo_quote, demo_hash CHR ''a'') demo_repay_db = Inr p
    \<and> repay_new_status demo_payer_env p demo_repay_db = LoanRepaid"
proof -
  obtain p where p: "repay_check demo_payer_env demo_borrower (demo_repay_body (pq_remainingDue demo_quote))
      (JStr ''L'', pq_remainingDue demo_quote, demo_hash CHR ''a'') demo_repay_db = Inr p"
    "rp_loan p = demo_loan 100000000\<lparr>loan_status := LoanActive, loan_aprBps := 5000, loan_durationDays := 730\<rparr>"
    using demo_repay_check [OF demo_paid(5)] demo_amounts(1) demo_early(2) by metis
  then show ?thesis
    using quote_closes_loan [OF demo_GET demo_borrower_session demo_same_env p(1)] demo_quotable by auto
qed

lemma demo_repay_parse:
  assumes "0 < amt"
  shows "repay_parse (demo_repay_body (Fin amt)) = Inr (JStr ''L'', Fin amt, demo_hash CHR ''a'')"
proof -
  have "demo_hash CHR ''a'' \<noteq> []" "length (demo_hash CHR ''a'') = 64"
    by (simp_all add: demo_hash_def)
  then show ?thesis
    using assms by (simp add: repay_parse_def demo_repay_body_def)
qed

lemma early_quote_leaves_open_witness:
  "\<exists>p. repay_check demo_payer_env demo_borrower (demo_repay_body (Fin 151))
      (JStr ''L'', er_adjustedRemainingDue (pq_earlyRepayment demo_quote), demo_hash CHR ''a'') demo_repay_db = Inr p
    \<and> repay_new_status demo_payer_env p demo_repay_db = LoanActive"
proof -
  obtain p where p: "repay_check demo_payer_env demo_borrower (demo_repay_body (Fin 151))
      (JStr ''L'', er_adjustedRemainingDue (pq_earlyRepayment demo_quote), demo_hash CHR ''a'') demo_repay_db = Inr p"
    "rp_loan p = demo_loan 100000000\<lparr>loan_status := LoanActive, loan_aprBps := 5000, loan_durationDays := 730\<rparr>"
    using demo_repay_check [OF demo_paid(6)] demo_amounts(2) by metis
  have "repay_parse (demo_repay_body (Fin 151)) =
      Inr (JStr ''L'', er_adjustedRemainingDue (pq_earlyRepayment demo_quote), demo_hash CHR ''a'')"
    using demo_repay_parse [of 151] by (simp add: demo_amounts(2))
  from early_quote_leaves_open [OF demo_GET demo_borrower_session demo_same_env this p(1)] p demo_quotable demo_amounts(3)
  show ?thesis
    by auto
qed

end
