(* ===== verification/AdminPools.thy ===== *)
theory AdminPools
  imports DepositRoute
begin

text \<open>
  The pools as admins run them: the server actions of \<open>src/app/actions/admin-pools.ts\<close> (creating and
  pausing pools, approving a loan against the liquidity of a pool, the automatic matching pass, the
  borrow cap), the queries of \<open>src/lib/db/pools.ts\<close> behind them, and
  \<open>PUT /api/admin/pools/[id]/borrow-cap\<close>. E-mails, names and descriptions are left out.
\<close>

subsection \<open>Reading pools\<close>

record pool_view =
  pv_id :: string
  pv_status :: pool_status
  pv_aprBps :: jsnum
  pv_totalLiquidity :: jsnum
  pv_availableLiquidity :: jsnum
  pv_totalBorrowed :: jsnum
  pv_borrowCap :: "jsnum option"

definition mapRawPoolToPool :: "lending_pool \<Rightarrow> pool_view" where
  "mapRawPoolToPool p =
     \<lparr>pv_id = pool_id p, pv_status = pool_status p, pv_aprBps = to_num (of_int (pool_aprBps p)),
      pv_totalLiquidity = num_of_micro (pool_totalLiquidity p),
      pv_availableLiquidity = num_of_micro (pool_availableLiquidity p),
      pv_totalBorrowed = num_of_micro (pool_totalBorrowed p),
      pv_borrowCap = map_option of_stroops (pool_borrowCap p)\<rparr>"

definition fetchPoolById :: "database \<Rightarrow> string \<Rightarrow> pool_view option" where
  "fetchPoolById db poolId =
     map_option mapRawPoolToPool (find (\<lambda>p. pool_id p = poolId) (db_lendingPools db))"

text \<open>The only caller asks for no minimum.\<close>

definition fetchActivePoolsWithLiquidity :: "database \<Rightarrow> pool_view list" where
  "fetchActivePoolsWithLiquidity db =
     map mapRawPoolToPool (sort_key (\<lambda>p. - pool_availableLiquidity p)
       (filter (\<lambda>p. pool_status p = PoolActive) (db_lendingPools db)))"

datatype pool_order = OrderByCreatedAt | OrderByAvailableLiquidity

record pool_options =
  po_status :: "pool_status option"
  po_limit :: "jsnum option"
  po_offset :: "jsnum option"
  po_orderBy :: "pool_order option"
  po_ascending :: bool

record pool_page =
  pp_pools :: "pool_view list"
  pp_totalCount :: nat
  pp_hasMore :: bool

text \<open>\<open>Math.floor(x) || d\<close>, then clamped; what the query gets is a whole number or an infinity.\<close>

definition page_bound :: "jsnum \<Rightarrow> jsnum \<Rightarrow> jsnum" where
  "page_bound d x = (if num_truthy (jfloor x) then jfloor x else d)"

definition valid_limit :: "jsnum option \<Rightarrow> jsnum" where
  "valid_limit l = jmin (jmax (page_bound (Fin 10) (case l of Some x \<Rightarrow> x | None \<Rightarrow> Fin 10)) (Fin 1)) (Fin 100)"

definition valid_offset :: "jsnum option \<Rightarrow> jsnum" where
  "valid_offset off = jmax (page_bound (Fin 0) (case off of Some x \<Rightarrow> x | None \<Rightarrow> Fin 0)) (Fin 0)"

definition order_pools :: "pool_options \<Rightarrow> lending_pool list \<Rightarrow> lending_pool list" where
  "order_pools opts ps =
     (case po_orderBy opts of
        Some OrderByAvailableLiquidity \<Rightarrow>
          (if po_ascending opts then sort_key pool_availableLiquidity ps
           else sort_key (\<lambda>p. - pool_availableLiquidity p) ps)
      | _ \<Rightarrow> if po_ascending opts then ps else rev ps)"

text \<open>An infinite offset is an error of the query: \<open>None\<close>.\<close>

definition fetchPools :: "database \<Rightarrow> pool_options \<Rightarrow> pool_page option" where
  "fetchPools db opts =
     (let matching = filter (\<lambda>p. case po_status opts of None \<Rightarrow> True | Some st \<Rightarrow> pool_status p = st) (db_lendingPools db)
      in case (valid_limit (po_limit opts), valid_offset (po_offset opts)) of
           (Fin l, Fin off) \<Rightarrow>
             (let pools = map mapRawPoolToPool (take (nat \<lfloor>l\<rfloor>) (drop (nat \<lfloor>off\<rfloor>) (order_pools opts matching)))
              in Some \<lparr>pp_pools = pools, pp_totalCount = length matching,
                       pp_hasMore = (nat \<lfloor>off\<rfloor> + length pools < length matching)\<rparr>)
         | _ \<Rightarrow> None)"

subsection \<open>Results\<close>

datatype pool_error =
    PoolsUnauthorized
  | PoolsBorrowCapInvalid
  | PoolsNameRequired
  | PoolsAprOutOfRange
  | PoolsLoanNotFound
  | PoolsLoanAlready loan_status
  | PoolsPoolNotFound
  | PoolsPoolNotActive
  | PoolsInsufficientLiquidity jsnum jsnum
  | PoolsCapExceeded jsnum jsnum jsnum
  | PoolsFailed

text \<open>\<open>success\<close>, perhaps with the warning that the mirror failed, or an error.\<close>

datatype pool_result = PoolsOk | PoolsOkUnmirrored string | PoolsError pool_error

subsection \<open>Numbers in forms\<close>

text \<open>\<open>parseInt(s, 10)\<close> and \<open>parseFloat(s)\<close>: the longest prefix that is a number.\<close>

definition signed_prefix :: "(string \<Rightarrow> jsnum) \<Rightarrow> string \<Rightarrow> jsnum" where
  "signed_prefix f s =
     (case js_trim s of
        CHR ''-'' # t \<Rightarrow> jneg (f t)
      | CHR ''+'' # t \<Rightarrow> f t
      | t \<Rightarrow> f t)"

definition js_parse_int :: "string \<Rightarrow> jsnum" where
  "js_parse_int = signed_prefix (\<lambda>t. case read_digits 0 0 t of (n, k, _) \<Rightarrow> if k = 0 then NaN else to_num (of_int n))"

definition exponent_prefix :: "string \<Rightarrow> int" where
  "exponent_prefix s =
     (let digits = (\<lambda>t. case read_digits 0 0 t of (n, k, _) \<Rightarrow> if k = 0 then 0 else n)
      in case s of
           CHR ''e'' # CHR ''-'' # t \<Rightarrow> - digits t
         | CHR ''e'' # CHR ''+'' # t \<Rightarrow> digits t
         | CHR ''e'' # t \<Rightarrow> digits t
         | CHR ''E'' # CHR ''-'' # t \<Rightarrow> - digits t
         | CHR ''E'' # CHR ''+'' # t \<Rightarrow> digits t
         | CHR ''E'' # t \<Rightarrow> digits t
         | _ \<Rightarrow> 0)"

definition decimal_prefix :: "string \<Rightarrow> jsnum" where
  "decimal_prefix s =
     (if is_prefix ''Infinity'' s then PosInf
      else case read_digits 0 0 s of (n, k, rest) \<Rightarrow>
        (case (case rest of CHR ''.'' # t \<Rightarrow> read_digits n 0 t | _ \<Rightarrow> (n, 0, rest)) of (m, j, rest') \<Rightarrow>
           if k = 0 \<and> j = 0 then NaN
           else to_num (of_int m / 10 ^ j * 10 powi exponent_prefix rest')))"

definition js_parse_float :: "string \<Rightarrow> jsnum" where
  "js_parse_float = signed_prefix decimal_prefix"

subsection \<open>Creating and pausing pools\<close>

text \<open>The column \<open>numeric(20, 7)\<close>; \<open>None\<close> is an overflow.\<close>

definition cap_column :: "jsnum \<Rightarrow> int option" where
  "cap_column x =
     (case dec_of_num x of
        None \<Rightarrow> None
      | Some r \<Rightarrow>
          let n = round_half_away (r * 10 ^ 7) in if \<bar>n\<bar> < 10 ^ 20 then Some n else None)"

definition cap_invalid :: "jsnum option \<Rightarrow> bool" where
  "cap_invalid borrowCap = (case borrowCap of None \<Rightarrow> False | Some c \<Rightarrow> jle c (Fin 0) \<or> \<not> is_finite c)"

definition cap_row :: "jsnum option \<Rightarrow> int option option" where
  "cap_row borrowCap = (case borrowCap of None \<Rightarrow> Some None | Some c \<Rightarrow> map_option Some (cap_column c))"

record pool_form =
  pf_name :: "string option"
  pf_aprBps :: "string option"
  pf_borrowCap :: "string option"

definition form_cap :: "pool_form \<Rightarrow> jsnum option" where
  "form_cap form = (if truthy_opt (pf_borrowCap form) then Some (js_parse_float (the (pf_borrowCap form))) else None)"

definition form_apr :: "pool_form \<Rightarrow> jsnum" where
  "form_apr form = js_parse_int (case pf_aprBps form of Some s \<Rightarrow> s | None \<Rightarrow> ''0'')"

definition createLendingPool :: "env \<Rightarrow> pool_form \<Rightarrow> world \<Rightarrow> pool_result \<times> world" where
  "createLendingPool e form w =
     (if requireApiAdmin e (w_db w) = None then (PoolsError PoolsUnauthorized, w)
      else let borrowCap = form_cap form; aprBps = form_apr form
      in if cap_invalid borrowCap then (PoolsError PoolsBorrowCapInvalid, w)
         else if js_trim (opt_string (pf_name form)) = [] then (PoolsError PoolsNameRequired, w)
         else if \<not> num_truthy aprBps \<or> jle aprBps (Fin 0) \<or> jlt (Fin 10000) aprBps then (PoolsError PoolsAprOutOfRange, w)
         else (let i = env_genUuid e (db_uuids (w_db w))
               in case (cap_row borrowCap, to_int4 aprBps) of
                    (Some cap, Some apr) \<Rightarrow>
                      if i \<in> set (map pool_id (db_lendingPools (w_db w))) then (PoolsError PoolsFailed, w)
                      else (let row = \<lparr>pool_id = i, pool_status = PoolActive, pool_aprBps = apr,
                                  pool_totalLiquidity = 0, pool_availableLiquidity = 0, pool_totalBorrowed = 0,
                                  pool_borrowCap = cap, pool_onchainPoolId = None\<rparr>;
                                w1 = set_db (\<lambda>db. db\<lparr>db_lendingPools := db_lendingPools db @ [row],
                                  db_uuids := Suc (db_uuids db)\<rparr>) w
                            in case registerPoolOnchain e i w1 of
                                 (SyncFailed m, w2) \<Rightarrow> (PoolsOkUnmirrored m, w2)
                               | (_, w2) \<Rightarrow> (PoolsOk, w2))
                  | _ \<Rightarrow> (PoolsError PoolsFailed, w)))"

text \<open>An update of the pool with the given identifier; one no \<open>uuid\<close> is an error, an unknown one is none.\<close>

definition update_pool :: "env \<Rightarrow> string \<Rightarrow> (lending_pool \<Rightarrow> lending_pool) \<Rightarrow> database \<Rightarrow> pool_result \<times> database" where
  "update_pool e poolId f db =
     (case env_pgUuid e poolId of
        None \<Rightarrow> (PoolsError PoolsFailed, db)
      | Some i \<Rightarrow> (PoolsOk, db\<lparr>db_lendingPools := update_where (\<lambda>p. pool_id p = i) f (db_lendingPools db)\<rparr>))"

definition togglePoolStatus :: "env \<Rightarrow> string \<Rightarrow> pool_status \<Rightarrow> database \<Rightarrow> pool_result \<times> database" where
  "togglePoolStatus e poolId newStatus db =
     (if requireApiAdmin e db = None then (PoolsError PoolsUnauthorized, db)
      else update_pool e poolId (\<lambda>p. p\<lparr>pool_status := newStatus\<rparr>) db)"

definition setPoolBorrowCap :: "env \<Rightarrow> string \<Rightarrow> jsnum option \<Rightarrow> database \<Rightarrow> pool_result \<times> database" where
  "setPoolBorrowCap e poolId borrowCap db =
     (if requireApiAdmin e db = None then (PoolsError PoolsUnauthorized, db)
      else if cap_invalid borrowCap then (PoolsError PoolsBorrowCapInvalid, db)
      else case cap_row borrowCap of
        None \<Rightarrow> (PoolsError PoolsFailed, db)
      | Some cap \<Rightarrow> update_pool e poolId (\<lambda>p. p\<lparr>pool_borrowCap := cap\<rparr>) db)"

datatype cap_error =
    CapRateLimited | CapUnauthenticated | CapForbidden | CapPoolIdRequired | CapInvalid | CapFailed pool_error

definition PUT_borrow_cap :: "env \<Rightarrow> string \<Rightarrow> jsval \<Rightarrow> database \<Rightarrow> (cap_error + jsnum option) answer \<times> database" where
  "PUT_borrow_cap e poolId borrowCap db =
     (if env_rateLimited e then (Answer 429 (Inl CapRateLimited), db)
      else if requireApiUser e = None then (Answer 401 (Inl CapUnauthenticated), db)
      else if requireApiAdmin e db = None then (Answer 403 (Inl CapForbidden), db)
      else if poolId = [] then (Answer 400 (Inl CapPoolIdRequired), db)
      else let capValue = (if borrowCap = JNull \<or> borrowCap = JUndef then None else Some (js_to_number borrowCap))
           in if (case capValue of None \<Rightarrow> False | Some cap \<Rightarrow> \<not> is_finite cap \<or> jle cap (Fin 0))
              then (Answer 400 (Inl CapInvalid), db)
              else case setPoolBorrowCap e poolId capValue db of
                (PoolsError err, db') \<Rightarrow> (Answer 400 (Inl (CapFailed err)), db')
              | (_, db') \<Rightarrow> (Answer 200 (Inr capValue), db'))"

subsection \<open>Approving a loan\<close>

record approval =
  apv_loanId :: string
  apv_poolId :: string
  apv_amount :: jsnum

text \<open>\<open>Inl\<close> is the error of the answer.\<close>

definition approve_check :: "env \<Rightarrow> string \<Rightarrow> string \<Rightarrow> database \<Rightarrow> pool_error + approval" where
  "approve_check e loanId poolId db =
     (if requireApiAdmin e db = None then Inl PoolsUnauthorized
      else case env_pgUuid e loanId of
        None \<Rightarrow> Inl PoolsFailed
      | Some i \<Rightarrow>
          (case find (\<lambda>l. loan_id l = i) (db_loans db) of
             None \<Rightarrow> Inl PoolsLoanNotFound
           | Some l \<Rightarrow>
               if loan_status l \<noteq> LoanRequested then Inl (PoolsLoanAlready (loan_status l))
               else case env_pgUuid e poolId of
                 None \<Rightarrow> Inl PoolsFailed
               | Some k \<Rightarrow>
                   (case fetchPoolById db k of
                      None \<Rightarrow> Inl PoolsPoolNotFound
                    | Some pool \<Rightarrow>
                        let loanAmount = num_of_micro (loan_principalAmount l)
                        in if pv_status pool \<noteq> PoolActive then Inl PoolsPoolNotActive
                           else if jlt (pv_availableLiquidity pool) loanAmount
                           then Inl (PoolsInsufficientLiquidity loanAmount (pv_availableLiquidity pool))
                           else (case pv_borrowCap pool of
                                   Some cap \<Rightarrow>
                                     if jlt cap (jadd (pv_totalBorrowed pool) loanAmount)
                                     then Inl (PoolsCapExceeded (pv_totalBorrowed pool) cap loanAmount)
                                     else Inr \<lparr>apv_loanId = i, apv_poolId = k, apv_amount = loanAmount\<rparr>
                                 | None \<Rightarrow> Inr \<lparr>apv_loanId = i, apv_poolId = k, apv_amount = loanAmount\<rparr>))))"

text \<open>The two updates, each by key alone; a number that is none fails in the second.\<close>

definition approve_loan_row :: "env \<Rightarrow> string \<Rightarrow> loan \<Rightarrow> loan" where
  "approve_loan_row e poolId l = l\<lparr>loan_status := LoanApproved, loan_poolId := Some poolId, loan_approvedAt := Some (env_now e)\<rparr>"

definition reserve_liquidity :: "rat \<Rightarrow> lending_pool \<Rightarrow> lending_pool" where
  "reserve_liquidity r p = p\<lparr>pool_availableLiquidity := col_sub (pool_availableLiquidity p) r\<rparr>"

definition approve_write :: "env \<Rightarrow> approval \<Rightarrow> database \<Rightarrow> bool \<times> database" where
  "approve_write e a db =
     (let db1 = db\<lparr>db_loans := update_where (\<lambda>l. loan_id l = apv_loanId a) (approve_loan_row e (apv_poolId a)) (db_loans db)\<rparr>
      in case dec_of_num (apv_amount a) of
           None \<Rightarrow> (False, db1)
         | Some r \<Rightarrow> (True, db1\<lparr>db_lendingPools :=
             update_where (\<lambda>p. pool_id p = apv_poolId a) (reserve_liquidity r) (db_lendingPools db1)\<rparr>))"

definition approveLoan :: "env \<Rightarrow> string \<Rightarrow> string \<Rightarrow> database \<Rightarrow> pool_result \<times> database" where
  "approveLoan e loanId poolId db =
     (case approve_check e loanId poolId db of
        Inl err \<Rightarrow> (PoolsError err, db)
      | Inr a \<Rightarrow> (case approve_write e a db of
            (True, db') \<Rightarrow> (PoolsOk, db')
          | (False, db') \<Rightarrow> (PoolsError PoolsFailed, db')))"

subsection \<open>The matching pass\<close>

type_synonym liquidity_map = "string \<Rightarrow> jsnum option"

definition liquidity_of :: "liquidity_map \<Rightarrow> string \<Rightarrow> jsnum" where
  "liquidity_of m i = (case m i of Some x \<Rightarrow> x | None \<Rightarrow> Fin 0)"

definition match_target :: "pool_view list \<Rightarrow> liquidity_map \<Rightarrow> string option \<Rightarrow> jsnum \<Rightarrow> string option" where
  "match_target activePools m assignedPool amount =
     (if truthy_opt assignedPool \<and> jle amount (liquidity_of m (the assignedPool)) then assignedPool
      else map_option pv_id (find (\<lambda>p. jle amount (liquidity_of m (pv_id p))) activePools))"

definition over_cap :: "pool_view list \<Rightarrow> string \<Rightarrow> jsnum \<Rightarrow> bool" where
  "over_cap activePools i amount =
     (case find (\<lambda>p. pv_id p = i) activePools of
        None \<Rightarrow> False
      | Some p \<Rightarrow> (case pv_borrowCap p of None \<Rightarrow> False
          | Some cap \<Rightarrow> jlt cap (jadd (pv_totalBorrowed p) amount)))"

record match_state =
  ms_liquidity :: liquidity_map
  ms_matched :: nat
  ms_skipped :: nat
  ms_db :: database

definition match_loan :: "env \<Rightarrow> pool_view list \<Rightarrow> loan \<Rightarrow> match_state \<Rightarrow> match_state" where
  "match_loan e activePools l s =
     (let amount = num_of_micro (loan_principalAmount l);
          skip = s\<lparr>ms_skipped := Suc (ms_skipped s)\<rparr>
      in case match_target activePools (ms_liquidity s) (loan_poolId l) amount of
           None \<Rightarrow> skip
         | Some i \<Rightarrow>
             if over_cap activePools i amount then skip
             else (case approve_write e \<lparr>apv_loanId = loan_id l, apv_poolId = i, apv_amount = amount\<rparr> (ms_db s) of
                 (False, db') \<Rightarrow> skip\<lparr>ms_db := db'\<rparr>
               | (True, db') \<Rightarrow> s\<lparr>ms_liquidity := (ms_liquidity s)(i \<mapsto> jsub (liquidity_of (ms_liquidity s) i) amount),
                   ms_matched := Suc (ms_matched s), ms_db := db'\<rparr>))"

datatype match_result = MatchError pool_error | Matched nat nat

definition match_pass :: "env \<Rightarrow> pool_view list \<Rightarrow> loan list \<Rightarrow> database \<Rightarrow> match_state" where
  "match_pass e activePools pendingLoans db =
     fold (match_loan e activePools) pendingLoans
       \<lparr>ms_liquidity = map_of (map (\<lambda>p. (pv_id p, pv_availableLiquidity p)) activePools),
        ms_matched = 0, ms_skipped = 0, ms_db = db\<rparr>"

definition runAutoMatch :: "env \<Rightarrow> database \<Rightarrow> match_result \<times> database" where
  "runAutoMatch e db =
     (if requireApiAdmin e db = None then (MatchError PoolsUnauthorized, db)
      else let pendingLoans = filter (\<lambda>l. loan_status l = LoanRequested) (db_loans db);
               activePools = fetchActivePoolsWithLiquidity db
      in if pendingLoans = [] then (Matched 0 0, db)
         else if activePools = [] then (Matched 0 (length pendingLoans), db)
         else (let s = match_pass e activePools pendingLoans db
               in (Matched (ms_matched s) (ms_skipped s), ms_db s)))"

end
