(* ===== verification/AdminPoolsSafety.thy ===== *)
theory AdminPoolsSafety
  imports AdminPools LoanProcess AdminSafety
begin

text \<open>
  What the administration of pools reserves and what it never gives back: an approval takes exactly
  the principal out of a pool's liquidity, a matching pass never takes more than there is, the
  borrow cap does not add approvals up, and nothing releases a reservation.
\<close>

subsection \<open>Amounts\<close>

lemma micro_dec:
  assumes "0 \<le> n" "n < 10 ^ 15"
  shows "dec_of_num (num_of_micro n) = Some (of_micro n)"
proof (cases "n = 0")
  case True
  then show ?thesis
    by (simp add: num_of_micro_def to_num_Fin shortest_dec_def)
next
  case False
  then have "shortest_dec (fl (of_micro n)) = of_micro n"
    using assms by (intro shortest_dec_short short_decimal_micro) simp_all
  then show ?thesis
    using assms num_of_micro_Fin [of n] by simp
qed

lemma reserve_exact: "col_sub n (of_micro m) = n - m"
  by (simp add: col_sub_def flip: of_micro_diff)

lemma num_of_micro_le:
  assumes "jle (num_of_micro a) (num_of_micro b)" "0 \<le> a" "a < 10 ^ 15" "0 \<le> b" "b < 10 ^ 15"
  shows "a \<le> b"
proof (rule ccontr)
  assume "\<not> a \<le> b"
  then have "fl (of_micro b) \<le> fl (of_micro a)"
    by (intro fl_mono) simp
  moreover have "fl (of_micro a) \<le> fl (of_micro b)"
    using assms num_of_micro_Fin [of a] num_of_micro_Fin [of b] by simp
  ultimately have "fl (of_micro a) = fl (of_micro b)"
    by simp
  then have "dec_of_num (num_of_micro a) = dec_of_num (num_of_micro b)"
    using assms num_of_micro_Fin [of a] num_of_micro_Fin [of b] by simp
  with \<open>\<not> a \<le> b\<close> micro_dec assms show False
    by (simp add: of_micro_def)
qed

lemma not_jlt_micro: "\<not> jlt (num_of_micro b) (num_of_micro a) \<Longrightarrow> jle (num_of_micro a) (num_of_micro b)"
  using jlt_iff_not_jle [of "num_of_micro b" "num_of_micro a"] by (simp add: num_of_micro_def)

lemma micro_le_not_jlt:
  assumes "a \<le> b" "0 \<le> a" "b < 10 ^ 15"
  shows "\<not> jlt (num_of_micro b) (num_of_micro a)"
proof -
  have "num_of_micro a = Fin (fl (of_micro a))" "num_of_micro b = Fin (fl (of_micro b))"
    using assms by (intro num_of_micro_Fin; simp)+
  moreover have "fl (of_micro a) \<le> fl (of_micro b)"
    using assms by (intro fl_mono) simp
  ultimately show ?thesis
    by simp
qed

text \<open>The loans and pools the properties are about: keys are unique, amounts below a thousand million XLM.\<close>

definition sane_amounts :: "database \<Rightarrow> bool" where
  "sane_amounts db \<longleftrightarrow> distinct (map loan_id (db_loans db)) \<and> distinct (map pool_id (db_lendingPools db))
     \<and> (\<forall>l \<in> set (db_loans db). 0 \<le> loan_principalAmount l \<and> loan_principalAmount l < 10 ^ 15)
     \<and> (\<forall>p \<in> set (db_lendingPools db). 0 \<le> pool_availableLiquidity p \<and> pool_availableLiquidity p < 10 ^ 15)"

lemma approve_check_iff: "approve_check e i k db = Inr a \<longleftrightarrow>
    requireApiAdmin e db \<noteq> None \<and> env_pgUuid e i = Some (apv_loanId a) \<and> env_pgUuid e k = Some (apv_poolId a)
    \<and> (\<exists>l p. find (\<lambda>l. loan_id l = apv_loanId a) (db_loans db) = Some l \<and> loan_status l = LoanRequested
        \<and> find (\<lambda>p. pool_id p = apv_poolId a) (db_lendingPools db) = Some p \<and> pool_status p = PoolActive
        \<and> apv_amount a = num_of_micro (loan_principalAmount l)
        \<and> \<not> jlt (num_of_micro (pool_availableLiquidity p)) (num_of_micro (loan_principalAmount l))
        \<and> (\<forall>c. pool_borrowCap p = Some c \<longrightarrow>
            \<not> jlt (of_stroops c) (jadd (num_of_micro (pool_totalBorrowed p)) (num_of_micro (loan_principalAmount l)))))"
  unfolding approve_check_def
  by (cases a) (auto simp: fetchPoolById_def mapRawPoolToPool_def Let_def split: option.splits if_splits)

lemma approve_check_Inr:
  assumes "approve_check e i k db = Inr a"
  obtains l p where "find (\<lambda>l. loan_id l = apv_loanId a) (db_loans db) = Some l" "loan_status l = LoanRequested"
    "find (\<lambda>p. pool_id p = apv_poolId a) (db_lendingPools db) = Some p" "pool_status p = PoolActive"
    "apv_amount a = num_of_micro (loan_principalAmount l)"
    "\<not> jlt (num_of_micro (pool_availableLiquidity p)) (num_of_micro (loan_principalAmount l))"
  using assms unfolding approve_check_iff by blast

lemma approve_write_exact:
  assumes "apv_amount a = num_of_micro n" "0 \<le> n" "n < 10 ^ 15"
  shows "approve_write e a db = (True, db\<lparr>
      db_loans := update_where (\<lambda>l. loan_id l = apv_loanId a) (approve_loan_row e (apv_poolId a)) (db_loans db),
      db_lendingPools := update_where (\<lambda>p. pool_id p = apv_poolId a)
        (\<lambda>p. p\<lparr>pool_availableLiquidity := pool_availableLiquidity p - n\<rparr>) (db_lendingPools db)\<rparr>)"
proof -
  have "reserve_liquidity (of_micro n) = (\<lambda>p. p\<lparr>pool_availableLiquidity := pool_availableLiquidity p - n\<rparr>)"
    by (intro ext) (simp add: reserve_liquidity_def reserve_exact)
  then show ?thesis
    using assms by (simp add: approve_write_def micro_dec)
qed

lemma keeps_loan_id: "keyed_update loan_id (approve_loan_row e k)"
  by unfold_locales (simp add: approve_loan_row_def)

lemma keeps_pool_id: "keyed_update pool_id (\<lambda>p. p\<lparr>pool_availableLiquidity := pool_availableLiquidity p - n\<rparr>)"
  by unfold_locales simp

lemmas find_approved = keyed_update.find_update [OF keeps_loan_id]
lemmas find_reserved = keyed_update.find_update [OF keeps_pool_id]

lemma approval_reserves:
  assumes "approveLoan e i k db = (PoolsOk, db')" "sane_amounts db"
  shows "\<exists>l p. l \<in> set (db_loans db) \<and> loan_status l = LoanRequested \<and> p \<in> set (db_lendingPools db) \<and> pool_status p = PoolActive
    \<and> loan_principalAmount l \<le> pool_availableLiquidity p
    \<and> (\<forall>j. find (\<lambda>l. loan_id l = j) (db_loans db') = (if j = loan_id l
          then Some (l\<lparr>loan_status := LoanApproved, loan_poolId := Some (pool_id p), loan_approvedAt := Some (env_now e)\<rparr>)
          else find (\<lambda>l. loan_id l = j) (db_loans db)))
    \<and> (\<forall>j. find (\<lambda>p. pool_id p = j) (db_lendingPools db') = (if j = pool_id p
          then Some (p\<lparr>pool_availableLiquidity := pool_availableLiquidity p - loan_principalAmount l\<rparr>)
          else find (\<lambda>p. pool_id p = j) (db_lendingPools db)))
    \<and> (\<exists>L P. db' = db\<lparr>db_loans := L, db_lendingPools := P\<rparr>)"
proof -
  obtain a where a: "approve_check e i k db = Inr a" "approve_write e a db = (True, db')"
    using assms(1) by (auto simp: approveLoan_def split: sum.splits prod.splits bool.splits)
  obtain l p where l: "find (\<lambda>l. loan_id l = apv_loanId a) (db_loans db) = Some l" "loan_status l = LoanRequested"
    and p: "find (\<lambda>p. pool_id p = apv_poolId a) (db_lendingPools db) = Some p" "pool_status p = PoolActive"
    and amount: "apv_amount a = num_of_micro (loan_principalAmount l)"
      "\<not> jlt (num_of_micro (pool_availableLiquidity p)) (num_of_micro (loan_principalAmount l))"
    by (rule approve_check_Inr [OF a(1)])
  have set: "l \<in> set (db_loans db)" "p \<in> set (db_lendingPools db)" "loan_id l = apv_loanId a" "pool_id p = apv_poolId a"
    using find_in_set [OF l(1)] find_in_set [OF p(1)] by simp_all
  then have bounds: "0 \<le> loan_principalAmount l" "loan_principalAmount l < 10 ^ 15"
    "0 \<le> pool_availableLiquidity p" "pool_availableLiquidity p < 10 ^ 15"
    using assms(2) by (auto simp: sane_amounts_def)
  have enough: "loan_principalAmount l \<le> pool_availableLiquidity p"
    using not_jlt_micro [OF amount(2)] bounds by (rule num_of_micro_le)
  have db': "db' = db\<lparr>
      db_loans := update_where (\<lambda>l. loan_id l = apv_loanId a) (approve_loan_row e (apv_poolId a)) (db_loans db),
      db_lendingPools := update_where (\<lambda>p. pool_id p = apv_poolId a)
        (\<lambda>p. p\<lparr>pool_availableLiquidity := pool_availableLiquidity p - loan_principalAmount l\<rparr>) (db_lendingPools db)\<rparr>"
    using a(2) approve_write_exact [OF amount(1) bounds(1,2)] by simp
  have "find (\<lambda>l. loan_id l = j) (db_loans db') = (if j = loan_id l
      then Some (approve_loan_row e (pool_id p) l) else find (\<lambda>l. loan_id l = j) (db_loans db))" for j
    using l(1) by (simp add: db' find_approved set(3,4))
  moreover have "find (\<lambda>p. pool_id p = j) (db_lendingPools db') = (if j = pool_id p
      then Some (p\<lparr>pool_availableLiquidity := pool_availableLiquidity p - loan_principalAmount l\<rparr>)
      else find (\<lambda>p. pool_id p = j) (db_lendingPools db))" for j
    using p(1) by (simp add: db' find_reserved set(3,4))
  moreover have "\<exists>L P. db' = db\<lparr>db_loans := L, db_lendingPools := P\<rparr>"
    unfolding db' by blast
  ultimately show ?thesis
    using l(2) p(2) set(1,2) enough unfolding approve_loan_row_def by blast
qed

text \<open>Two overlapping requests that approve the same loan reserve its principal twice.\<close>

lemma approved_twice:
  assumes "approve_check e i k db = Inr a" "sane_amounts db"
    "find (\<lambda>l. loan_id l = apv_loanId a) (db_loans db) = Some l"
    "find (\<lambda>p. pool_id p = apv_poolId a) (db_lendingPools db) = Some p"
  shows "find (\<lambda>p. pool_id p = apv_poolId a) (db_lendingPools (snd (approve_write e' a (snd (approve_write e a db)))))
    = Some (p\<lparr>pool_availableLiquidity := pool_availableLiquidity p - 2 * loan_principalAmount l\<rparr>)"
proof -
  have "0 \<le> loan_principalAmount l" "loan_principalAmount l < 10 ^ 15"
    using assms(2) find_in_set [OF assms(3)] by (simp_all add: sane_amounts_def)
  moreover have "apv_amount a = num_of_micro (loan_principalAmount l)"
    using approve_check_Inr [OF assms(1)] assms(3) by (metis option.inject)
  ultimately show ?thesis
    using assms(4) by (simp add: approve_write_exact find_reserved)
qed

subsection \<open>The borrow cap\<close>

lemma same_admin: "db_profiles db' = db_profiles db \<Longrightarrow> requireApiAdmin e db' = requireApiAdmin e db"
  by (simp add: requireApiAdmin_def db_admin_def)

text \<open>An approval leaves another loan approvable as long as the liquidity lasts: what was borrowed is not updated.\<close>

lemma approve_check_after:
  assumes "approve_check e j k db = Inr b" "apv_loanId b \<noteq> i" "apv_poolId b = pool_id p"
    "find (\<lambda>p. pool_id p = apv_poolId b) (db_lendingPools db) = Some p"
    "find (\<lambda>l. loan_id l = apv_loanId b) (db_loans db) = Some m"
    "loan_principalAmount m \<le> pool_availableLiquidity p - n" "pool_availableLiquidity p - n < 10 ^ 15" "0 \<le> loan_principalAmount m"
  shows "approve_check e j k (db\<lparr>db_loans := update_where (\<lambda>l. loan_id l = i) (approve_loan_row e f) (db_loans db),
      db_lendingPools := update_where (\<lambda>p. pool_id p = apv_poolId b)
        (\<lambda>p. p\<lparr>pool_availableLiquidity := pool_availableLiquidity p - n\<rparr>) (db_lendingPools db)\<rparr>) = Inr b"
proof -
  have "\<not> jlt (num_of_micro (pool_availableLiquidity p - n)) (num_of_micro (loan_principalAmount m))"
    using assms(6-8) by (intro micro_le_not_jlt) simp_all
  with assms(1-5) show ?thesis
    unfolding approve_check_iff
    by (simp add: find_approved find_reserved requireApiAdmin_def db_admin_def)
qed

text \<open>
  C19: two loans that could each be approved for a pool alone are both approved one after the
  other while the liquidity lasts, although together they exceed the pool's borrow cap: no
  operation of the program adds what was approved to \<open>total_borrowed\<close>.
\<close>

theorem borrow_cap_not_cumulative:
  assumes "approve_check e i k db = Inr a" "approve_check e j k db = Inr b" "apv_loanId a \<noteq> apv_loanId b" "sane_amounts db"
    "find (\<lambda>l. loan_id l = apv_loanId a) (db_loans db) = Some l" "find (\<lambda>l. loan_id l = apv_loanId b) (db_loans db) = Some m"
    "find (\<lambda>p. pool_id p = apv_poolId a) (db_lendingPools db) = Some p"
    "loan_principalAmount l + loan_principalAmount m \<le> pool_availableLiquidity p"
    "pool_borrowCap p = Some c" "of_int c / 10 ^ 7 < of_micro (loan_principalAmount l + loan_principalAmount m)"
  shows "\<exists>db1 db2 l' m'. approveLoan e i k db = (PoolsOk, db1) \<and> approveLoan e j k db1 = (PoolsOk, db2)
    \<and> l' \<in> set (db_loans db2) \<and> m' \<in> set (db_loans db2) \<and> loan_id l' \<noteq> loan_id m'
    \<and> loan_status l' = LoanApproved \<and> loan_status m' = LoanApproved
    \<and> loan_poolId l' = Some (pool_id p) \<and> loan_poolId m' = Some (pool_id p)
    \<and> of_int c / 10 ^ 7 < of_micro (loan_principalAmount l' + loan_principalAmount m')"
proof -
  have pool: "apv_poolId a = pool_id p" "p \<in> set (db_lendingPools db)"
    using find_in_set [OF assms(7)] by simp_all
  have same: "apv_poolId b = apv_poolId a"
    using assms(1,2) unfolding approve_check_iff by simp
  have ids: "loan_id l = apv_loanId a" "loan_id m = apv_loanId b"
    using find_in_set [OF assms(5)] find_in_set [OF assms(6)] by simp_all
  have bounds: "0 \<le> loan_principalAmount l" "loan_principalAmount l < 10 ^ 15" "0 \<le> loan_principalAmount m"
      "loan_principalAmount m < 10 ^ 15" "pool_availableLiquidity p < 10 ^ 15"
    using assms(4) find_in_set [OF assms(5)] find_in_set [OF assms(6)] pool by (auto simp: sane_amounts_def)
  have amounts: "apv_amount a = num_of_micro (loan_principalAmount l)" "apv_amount b = num_of_micro (loan_principalAmount m)"
    using approve_check_Inr [OF assms(1)] approve_check_Inr [OF assms(2)] assms(5,6) by (metis option.inject)+
  define db1 where "db1 = db\<lparr>
      db_loans := update_where (\<lambda>l. loan_id l = apv_loanId a) (approve_loan_row e (apv_poolId a)) (db_loans db),
      db_lendingPools := update_where (\<lambda>p. pool_id p = apv_poolId a)
        (\<lambda>p. p\<lparr>pool_availableLiquidity := pool_availableLiquidity p - loan_principalAmount l\<rparr>) (db_lendingPools db)\<rparr>"
  have one: "approveLoan e i k db = (PoolsOk, db1)"
    using assms(1) approve_write_exact [OF amounts(1) bounds(1,2)] by (simp add: approveLoan_def db1_def)
  have "approve_check e j k db1 = Inr b"
    using approve_check_after [OF assms(2), of "apv_loanId a" p m "loan_principalAmount l"] assms(3,6-8) same pool bounds
    by (simp add: db1_def)
  moreover define db2 where "db2 = db1\<lparr>
      db_loans := update_where (\<lambda>l. loan_id l = apv_loanId b) (approve_loan_row e (apv_poolId b)) (db_loans db1),
      db_lendingPools := update_where (\<lambda>p. pool_id p = apv_poolId b)
        (\<lambda>p. p\<lparr>pool_availableLiquidity := pool_availableLiquidity p - loan_principalAmount m\<rparr>) (db_lendingPools db1)\<rparr>"
  ultimately have two: "approveLoan e j k db1 = (PoolsOk, db2)"
    using approve_write_exact [OF amounts(2) bounds(3,4), of e db1] by (simp add: approveLoan_def)
  have "find (\<lambda>l. loan_id l = apv_loanId a) (db_loans db2) = Some (approve_loan_row e (pool_id p) l)"
    "find (\<lambda>l. loan_id l = apv_loanId b) (db_loans db2) = Some (approve_loan_row e (pool_id p) m)"
    using assms(3,5,6) by (simp_all add: db2_def db1_def find_approved same pool)
  then have "approve_loan_row e (pool_id p) l \<in> set (db_loans db2)" "approve_loan_row e (pool_id p) m \<in> set (db_loans db2)"
    by (auto dest: find_in_set)
  with one two ids assms(3,10) show ?thesis
    by (intro exI conjI) (assumption | simp add: approve_loan_row_def)+
qed

subsection \<open>Reservations\<close>

text \<open>No operation on loans touches a pool.\<close>

interpretation pools_untouched: mirror_invariant "\<lambda>db. db_lendingPools db = P" for P
  by unfold_locales simp

lemma notify_lenders_pools [simp]: "db_lendingPools (notify_lenders ps db) = db_lendingPools db"
  by (induction ps arbitrary: db) (simp_all add: notify_lenders_def createNotification_def)

lemma activate_pools: "activateFundedLoanOnchain e i m addr h w = (r, w') \<Longrightarrow> db_lendingPools (w_db w') = db_lendingPools (w_db w)"
  using pools_untouched.activateFundedLoanOnchain [of w "db_lendingPools (w_db w)" e i m addr h] by simp

lemma recorded_pools: "recordRepaymentOnchain e i m a w = (r, w') \<Longrightarrow> db_lendingPools (w_db w') = db_lendingPools (w_db w)"
  using pools_untouched.recordRepaymentOnchain [of w "db_lendingPools (w_db w)" e i m a] by simp

lemma qualified_pools: "qualifyReferralForLoan u i db = (r, db') \<Longrightarrow> db_lendingPools db' = db_lendingPools db"
  by (auto simp: qualifyReferralForLoan_def qualify_referral_def Let_def split: option.splits if_splits)

lemma fund_notify_pools [simp]: "db_lendingPools (fund_notify u p full db) = db_lendingPools db"
  by (auto simp: fund_notify_def createNotification_def Let_def split: prod.split dest: qualified_pools)

lemma fund_finish_pools:
  assumes "fund_finish e u b p r w = (a, w')"
  shows "db_lendingPools (w_db w') = db_lendingPools (w_db w)"
  using assms unfolding fund_finish_def
  by (auto simp: insert_ledger_def Let_def split: prod.splits if_splits option.splits dest: activate_pools)

lemma repay_finish_pools:
  assumes "repay_finish e u p st fee i n w = (a, w')"
  shows "db_lendingPools (w_db w') = db_lendingPools (w_db w)"
  using assms unfolding repay_finish_def
  by (auto simp: Let_def insert_ledger_def createNotification_def insert_reputation_event_def
      split: prod.splits option.splits dest: recorded_pools)

lemma loan_step_pools: "loan_step s s' \<Longrightarrow> db_lendingPools (w_db (fst s')) = db_lendingPools (w_db (fst s))"
proof (induction rule: loan_step.induct)
  case (fund_commits e u p w r db' M b)
  then show ?case
    by (auto simp: fund_commit_def record_loan_funding_def Let_def split: option.splits sum.splits if_splits)
next
  case (repay_writes e u p w i n w' M)
  then show ?case
    by (auto simp: repay_write_loan_def Let_def split: option.splits if_splits)
next
  case (apply_inserts e u p w l w' M)
  then show ?case
    by (auto simp: apply_insert_def insert_loan_def)
next
  case (apply_finishes e err u p l w a w' M)
  then show ?case
    by (auto simp: apply_trail_def delete_loan_def insert_ledger_def createNotification_def Let_def split: option.splits)
qed (simp_all add: fund_finish_pools repay_finish_pools)

lemma loan_steps_pools: "loan_step\<^sup>*\<^sup>* s s' \<Longrightarrow> db_lendingPools (w_db (fst s')) = db_lendingPools (w_db (fst s))"
  by (induction rule: rtranclp_induct) (simp_all add: loan_step_pools)

text \<open>
  C18: what an approval has reserved is never released: however the loan is funded, repaid or
  left alone afterwards, in any interleaving of applications, contributions and repayments, the
  pool has the principal less available than before.
\<close>

theorem reservation_never_released:
  assumes "approveLoan e i k (w_db w) = (PoolsOk, db)" "sane_amounts (w_db w)"
    "loan_step\<^sup>*\<^sup>* (set_db (\<lambda>_. db) w, M) (w', M')"
  shows "\<exists>l p. l \<in> set (db_loans (w_db w)) \<and> loan_status l = LoanRequested \<and> p \<in> set (db_lendingPools (w_db w))
    \<and> find (\<lambda>p'. pool_id p' = pool_id p) (db_lendingPools (w_db w')) =
        Some (p\<lparr>pool_availableLiquidity := pool_availableLiquidity p - loan_principalAmount l\<rparr>)"
proof -
  have "db_lendingPools (w_db w') = db_lendingPools db"
    using loan_steps_pools [OF assms(3)] by simp
  with approval_reserves [OF assms(1,2)] show ?thesis
    by fastforce
qed

subsection \<open>The matching pass\<close>

text \<open>
  The pass keeps what is left of each pool in binary64. A double below \<open>2 ^ 23\<close> is at most
  \<open>2 ^ -31\<close> off, so a thousand subtractions stay within a millionth, and a loan that the doubles
  cover is covered by the column.
\<close>

definition drift :: rat where "drift = 1 / 2 ^ 31"

lemma fl_drift: "\<bar>x\<bar> < 2 ^ 23 \<Longrightarrow> \<bar>fl x - x\<bar> \<le> drift"
  using fl_error [of x 23] by (simp add: drift_def two_powi_nat power_int_minus)

lemma micro_upper:
  assumes "n < 2 ^ k * 10 ^ 6"
  shows "of_micro n < 2 ^ k"
proof -
  have "(of_int n :: rat) < of_int (2 ^ k * 10 ^ 6)"
    using assms by (simp only: of_int_less_iff)
  then show ?thesis
    by (simp add: of_micro_def)
qed

lemma covered_by_column:
  assumes "fl (of_micro a) \<le> x" "\<bar>x - of_micro n\<bar> \<le> of_nat (2 * m + 1) * drift" "m < 1000"
    "0 \<le> a" "0 \<le> n" "n < 2 ^ 22 * 10 ^ 6"
  shows "a \<le> n" "\<bar>fl (of_micro a) - of_micro a\<bar> \<le> drift" "\<bar>x - fl (of_micro a)\<bar> < 2 ^ 23"
proof -
  have m: "of_nat (2 * m + 1) * drift \<le> 2000 * drift"
    using assms(3) by (intro mult_right_mono) (simp_all add: drift_def)
  have n: "of_micro n < 2 ^ 22"
    using assms(6) by (rule micro_upper)
  have x: "x \<le> of_micro n + 2000 * drift" "- (2000 * drift) \<le> x"
    using assms(2,5) m of_micro_nonneg_iff [of n] by linarith+
  have "of_micro a < 2 ^ 23"
  proof (rule ccontr)
    assume "\<not> of_micro a < 2 ^ 23"
    then have "2 ^ 23 \<le> fl (of_micro a)"
      using fl_mono [of "2 ^ 23" "of_micro a"] fl_pow2 [of 23] by (simp add: two_powi_nat)
    with assms(1) x(1) n show False
      by (simp add: drift_def)
  qed
  then show fl: "\<bar>fl (of_micro a) - of_micro a\<bar> \<le> drift"
    using assms(4) by (intro fl_drift) simp
  then have "of_micro a \<le> of_micro n + 2001 * drift"
    using assms(1) x(1) by linarith
  also have "\<dots> < of_micro (n + 1)"
    by (simp add: of_micro_add) (simp add: of_micro_def drift_def)
  finally show "a \<le> n"
    by simp
  have "0 \<le> fl (of_micro a)"
    using assms(4) by simp
  then show "\<bar>x - fl (of_micro a)\<bar> < 2 ^ 23"
    using assms(1) x n by (simp add: drift_def abs_less_iff)
qed

definition liquidity_ok :: "match_state \<Rightarrow> bool" where
  "liquidity_ok s \<longleftrightarrow> (\<forall>i y. ms_liquidity s i = Some y \<longrightarrow> (\<exists>x p. y = Fin x
     \<and> find (\<lambda>p. pool_id p = i) (db_lendingPools (ms_db s)) = Some p
     \<and> 0 \<le> pool_availableLiquidity p \<and> pool_availableLiquidity p < 2 ^ 22 * 10 ^ 6
     \<and> \<bar>x - of_micro (pool_availableLiquidity p)\<bar> \<le> of_nat (2 * ms_matched s + 1) * drift))"

lemma match_target_covers:
  assumes "match_target A m f amount = Some i"
  shows "jle amount (liquidity_of m i)"
  using assms by (auto simp: match_target_def truthy_opt_def dest: find_in_set split: if_splits)

lemma liquidity_ok_approve:
  assumes "liquidity_ok s" "find (\<lambda>p. pool_id p = i) (db_lendingPools (ms_db s)) = Some p"
    "0 \<le> pool_availableLiquidity p" "pool_availableLiquidity p < 2 ^ 22 * 10 ^ 6"
    "\<bar>x - of_micro (pool_availableLiquidity p)\<bar> \<le> of_nat (2 * ms_matched s + 1) * drift"
    "a \<le> pool_availableLiquidity p" "\<bar>fl (of_micro a) - of_micro a\<bar> \<le> drift" "\<bar>x - fl (of_micro a)\<bar> < 2 ^ 23" "0 \<le> a"
    "ms_liquidity s' = (ms_liquidity s)(i \<mapsto> jsub (Fin x) (Fin (fl (of_micro a))))" "ms_matched s' = Suc (ms_matched s)"
    "db_lendingPools (ms_db s') = update_where (\<lambda>p. pool_id p = i)
       (\<lambda>p. p\<lparr>pool_availableLiquidity := pool_availableLiquidity p - a\<rparr>) (db_lendingPools (ms_db s))"
  shows "liquidity_ok s'"
proof -
  let ?x = "fl (x - fl (of_micro a))" and ?n = "pool_availableLiquidity p - a"
  have step: "of_nat (2 * Suc m + 1) * drift = of_nat (2 * m + 1) * drift + drift + drift" for m
    by (simp add: algebra_simps)
  have d: "0 < drift"
    by (simp add: drift_def)
  have "\<bar>x - fl (of_micro a)\<bar> \<le> 2 ^ 1023"
    using assms(8) power_increasing [of 23 1023 "2 :: rat"] by linarith
  then have num: "jsub (Fin x) (Fin (fl (of_micro a))) = Fin ?x"
    by (simp add: jsub_Fin to_num_Fin)
  have near: "\<bar>?x - of_micro ?n\<bar> \<le> of_nat (2 * Suc (ms_matched s) + 1) * drift"
    using fl_drift [OF assms(8)] assms(5,7) unfolding step of_micro_diff by linarith
  show ?thesis
    unfolding liquidity_ok_def assms(10-12) num
  proof (intro allI impI)
    fix j y
    assume y: "((ms_liquidity s)(i \<mapsto> Fin ?x)) j = Some y"
    show "\<exists>x p. y = Fin x \<and> find (\<lambda>p. pool_id p = j) (update_where (\<lambda>p. pool_id p = i)
        (\<lambda>p. p\<lparr>pool_availableLiquidity := pool_availableLiquidity p - a\<rparr>) (db_lendingPools (ms_db s))) = Some p
      \<and> 0 \<le> pool_availableLiquidity p \<and> pool_availableLiquidity p < 2 ^ 22 * 10 ^ 6
      \<and> \<bar>x - of_micro (pool_availableLiquidity p)\<bar> \<le> of_nat (2 * Suc (ms_matched s) + 1) * drift"
    proof (cases "j = i")
      case True
      with y assms(2-4,6,9) near show ?thesis
        by (intro exI [of _ ?x] exI [of _ "p\<lparr>pool_availableLiquidity := ?n\<rparr>"] conjI) (simp_all only: find_reserved, simp_all)
    next
      case False
      with y have "ms_liquidity s j = Some y"
        by simp
      then obtain x' p' where old: "y = Fin x'" "find (\<lambda>p. pool_id p = j) (db_lendingPools (ms_db s)) = Some p'"
        "0 \<le> pool_availableLiquidity p'" "pool_availableLiquidity p' < 2 ^ 22 * 10 ^ 6"
        and close: "\<bar>x' - of_micro (pool_availableLiquidity p')\<bar> \<le> of_nat (2 * ms_matched s + 1) * drift"
        using assms(1) unfolding liquidity_ok_def by blast
      have "\<bar>x' - of_micro (pool_availableLiquidity p')\<bar> \<le> of_nat (2 * Suc (ms_matched s) + 1) * drift"
        using close d unfolding step by linarith
      with False old show ?thesis
        by (intro exI [of _ x'] exI [of _ p'] conjI) (simp_all only: find_reserved if_False)
    qed
  qed
qed

text \<open>What one loan of the pass does: nothing but a count, or an approval the column covers.\<close>

lemma match_loan_cases:
  assumes "liquidity_ok s" "ms_matched s < 1000" "0 < loan_principalAmount l" "loan_principalAmount l < 10 ^ 15"
  obtains (skip) "match_loan e A l s = s\<lparr>ms_skipped := Suc (ms_skipped s)\<rparr>"
    | (approve) i p m where "find (\<lambda>p. pool_id p = i) (db_lendingPools (ms_db s)) = Some p"
      "loan_principalAmount l \<le> pool_availableLiquidity p"
      "match_loan e A l s = s\<lparr>ms_liquidity := m, ms_matched := Suc (ms_matched s), ms_db := (ms_db s)\<lparr>
        db_loans := update_where (\<lambda>l'. loan_id l' = loan_id l) (approve_loan_row e i) (db_loans (ms_db s)),
        db_lendingPools := update_where (\<lambda>p. pool_id p = i)
          (\<lambda>p. p\<lparr>pool_availableLiquidity := pool_availableLiquidity p - loan_principalAmount l\<rparr>)
          (db_lendingPools (ms_db s))\<rparr>\<rparr>"
      "liquidity_ok (match_loan e A l s)"
proof -
  let ?a = "loan_principalAmount l"
  have num: "num_of_micro ?a = Fin (fl (of_micro ?a))"
    using assms(3,4) by (intro num_of_micro_Fin) simp
  show ?thesis
  proof (cases "match_target A (ms_liquidity s) (loan_poolId l) (num_of_micro ?a)")
    case None
    then show ?thesis
      by (intro skip) (simp add: match_loan_def Let_def)
  next
    case (Some i)
    show ?thesis
    proof (cases "over_cap A i (num_of_micro ?a)")
      case True
      with Some show ?thesis
        by (intro skip) (simp add: match_loan_def Let_def)
    next
      case False
      have covers: "jle (num_of_micro ?a) (liquidity_of (ms_liquidity s) i)"
        using Some by (rule match_target_covers)
      have "0 < fl (of_micro ?a)"
      proof -
        have "1 / 2 ^ 20 \<le> of_micro ?a"
          using of_micro_le_iff [of 1 ?a] assms(3) by (simp add: of_micro_def)
        then have "fl (1 / 2 ^ 20) \<le> fl (of_micro ?a)"
          by (rule fl_mono)
        moreover have "fl (1 / 2 ^ 20) = 1 / 2 ^ 20"
          by (rule fl_exact [of _ 1 "- 20"]) (simp_all add: power_int_minus)
        ultimately show ?thesis
          by (simp add: zero_less_divide_iff order.strict_trans2)
      qed
      then obtain x p where x: "ms_liquidity s i = Some (Fin x)" "fl (of_micro ?a) \<le> x"
        and p: "find (\<lambda>p. pool_id p = i) (db_lendingPools (ms_db s)) = Some p"
          "0 \<le> pool_availableLiquidity p" "pool_availableLiquidity p < 2 ^ 22 * 10 ^ 6"
        and near: "\<bar>x - of_micro (pool_availableLiquidity p)\<bar> \<le> of_nat (2 * ms_matched s + 1) * drift"
        using covers assms(1) num unfolding liquidity_of_def liquidity_ok_def by (fastforce split: option.splits)
      note column = covered_by_column [OF x(2) near assms(2) less_imp_le [OF assms(3)] p(2,3)]
      define m where "m = (ms_liquidity s)(i \<mapsto> jsub (Fin x) (Fin (fl (of_micro ?a))))"
      have result: "match_loan e A l s = s\<lparr>ms_liquidity := m, ms_matched := Suc (ms_matched s), ms_db := (ms_db s)\<lparr>
        db_loans := update_where (\<lambda>l'. loan_id l' = loan_id l) (approve_loan_row e i) (db_loans (ms_db s)),
        db_lendingPools := update_where (\<lambda>p. pool_id p = i)
          (\<lambda>p. p\<lparr>pool_availableLiquidity := pool_availableLiquidity p - ?a\<rparr>) (db_lendingPools (ms_db s))\<rparr>\<rparr>"
        using Some False x(1) num assms(3,4)
          approve_write_exact [of "\<lparr>apv_loanId = loan_id l, apv_poolId = i, apv_amount = num_of_micro ?a\<rparr>" ?a e "ms_db s"]
        by (simp add: match_loan_def Let_def m_def liquidity_of_def)
      show ?thesis
      proof (rule approve [OF p(1) column(1) result])
        show "liquidity_ok (match_loan e A l s)"
          by (rule liquidity_ok_approve [OF assms(1) p near column less_imp_le [OF assms(3)]]) (simp_all add: result m_def)
      qed
    qed
  qed
qed


text \<open>The principals of the loans that are approved for a pool.\<close>

definition committed :: "string \<Rightarrow> database \<Rightarrow> int" where
  "committed i db = sum_list (map (\<lambda>l. if loan_status l = LoanApproved \<and> loan_poolId l = Some i
     then loan_principalAmount l else 0) (db_loans db))"

definition requested_count :: "database \<Rightarrow> int" where
  "requested_count db = sum_list (map (\<lambda>l. if loan_status l = LoanRequested then 1 else 0) (db_loans db))"

lemmas sum_approved = keyed_update.sum_update [OF keeps_loan_id]

definition pass_result :: "string set \<Rightarrow> match_state \<Rightarrow> match_state \<Rightarrow> bool" where
  "pass_result ids s s' \<longleftrightarrow>
     (\<forall>i p. find (\<lambda>p. pool_id p = i) (db_lendingPools (ms_db s)) = Some p \<longrightarrow> (\<exists>n.
        find (\<lambda>p. pool_id p = i) (db_lendingPools (ms_db s')) = Some (p\<lparr>pool_availableLiquidity := n\<rparr>)
        \<and> (0 \<le> pool_availableLiquidity p \<longrightarrow> 0 \<le> n)
        \<and> n + committed i (ms_db s') = pool_availableLiquidity p + committed i (ms_db s)))
     \<and> (\<forall>j. j \<notin> ids \<longrightarrow> find (\<lambda>l. loan_id l = j) (db_loans (ms_db s')) = find (\<lambda>l. loan_id l = j) (db_loans (ms_db s)))
     \<and> requested_count (ms_db s') + int (ms_matched s') = requested_count (ms_db s) + int (ms_matched s)"

lemma pass_result_trans:
  assumes "pass_result A s1 s2" "pass_result B s2 s3"
  shows "pass_result (A \<union> B) s1 s3"
  unfolding pass_result_def
proof (intro conjI allI impI)
  fix i p
  assume "find (\<lambda>p. pool_id p = i) (db_lendingPools (ms_db s1)) = Some p"
  then obtain n where n: "find (\<lambda>p. pool_id p = i) (db_lendingPools (ms_db s2)) = Some (p\<lparr>pool_availableLiquidity := n\<rparr>)"
    "0 \<le> pool_availableLiquidity p \<longrightarrow> 0 \<le> n"
    "n + committed i (ms_db s2) = pool_availableLiquidity p + committed i (ms_db s1)"
    using assms(1) unfolding pass_result_def by blast
  then obtain k where "find (\<lambda>p. pool_id p = i) (db_lendingPools (ms_db s3)) = Some (p\<lparr>pool_availableLiquidity := k\<rparr>)"
    "0 \<le> n \<longrightarrow> 0 \<le> k" "k + committed i (ms_db s3) = n + committed i (ms_db s2)"
    using assms(2) unfolding pass_result_def by fastforce
  with n show "\<exists>n. find (\<lambda>p. pool_id p = i) (db_lendingPools (ms_db s3)) = Some (p\<lparr>pool_availableLiquidity := n\<rparr>)
      \<and> (0 \<le> pool_availableLiquidity p \<longrightarrow> 0 \<le> n)
      \<and> n + committed i (ms_db s3) = pool_availableLiquidity p + committed i (ms_db s1)"
    by auto
qed (use assms in \<open>auto simp: pass_result_def\<close>)

lemma match_loan_result:
  assumes "liquidity_ok s" "ms_matched s < 1000" "0 < loan_principalAmount l" "loan_principalAmount l < 10 ^ 15"
    "distinct (map loan_id (db_loans (ms_db s)))" "find (\<lambda>l'. loan_id l' = loan_id l) (db_loans (ms_db s)) = Some l"
    "loan_status l = LoanRequested"
  shows "pass_result {loan_id l} s (match_loan e A l s)" "liquidity_ok (match_loan e A l s)"
    "ms_matched (match_loan e A l s) + ms_skipped (match_loan e A l s) = Suc (ms_matched s + ms_skipped s)"
    "map loan_id (db_loans (ms_db (match_loan e A l s))) = map loan_id (db_loans (ms_db s))"
proof -
  let ?G = "pass_result {loan_id l} s (match_loan e A l s) \<and> liquidity_ok (match_loan e A l s)
    \<and> ms_matched (match_loan e A l s) + ms_skipped (match_loan e A l s) = Suc (ms_matched s + ms_skipped s)
    \<and> map loan_id (db_loans (ms_db (match_loan e A l s))) = map loan_id (db_loans (ms_db s))"
  have ?G
  proof (rule match_loan_cases [OF assms(1-4), of e A])
    assume "match_loan e A l s = s\<lparr>ms_skipped := Suc (ms_skipped s)\<rparr>"
    then show ?G
      using assms(1) by (simp add: pass_result_def liquidity_ok_def)
  next
    fix i p m
    assume p: "find (\<lambda>p. pool_id p = i) (db_lendingPools (ms_db s)) = Some p" "loan_principalAmount l \<le> pool_availableLiquidity p"
      and result: "match_loan e A l s = s\<lparr>ms_liquidity := m, ms_matched := Suc (ms_matched s), ms_db := (ms_db s)\<lparr>
        db_loans := update_where (\<lambda>l'. loan_id l' = loan_id l) (approve_loan_row e i) (db_loans (ms_db s)),
        db_lendingPools := update_where (\<lambda>p. pool_id p = i)
          (\<lambda>p. p\<lparr>pool_availableLiquidity := pool_availableLiquidity p - loan_principalAmount l\<rparr>)
          (db_lendingPools (ms_db s))\<rparr>\<rparr>"
      and ok: "liquidity_ok (match_loan e A l s)"
    have "committed j (ms_db (match_loan e A l s)) = committed j (ms_db s) + (if j = i then loan_principalAmount l else 0)" for j
      using assms(7) by (simp add: committed_def result sum_approved [OF assms(5,6)] approve_loan_row_def)
    moreover have "requested_count (ms_db (match_loan e A l s)) = requested_count (ms_db s) - 1"
      using assms(7) by (simp add: requested_count_def result sum_approved [OF assms(5,6)] approve_loan_row_def)
    ultimately have "pass_result {loan_id l} s (match_loan e A l s)"
      using p unfolding pass_result_def by (auto simp: result find_reserved find_approved)
    then show ?G
      using ok by (simp add: result keyed_update.keys_update [OF keeps_loan_id])
  qed
  then show "pass_result {loan_id l} s (match_loan e A l s)" "liquidity_ok (match_loan e A l s)"
    "ms_matched (match_loan e A l s) + ms_skipped (match_loan e A l s) = Suc (ms_matched s + ms_skipped s)"
    "map loan_id (db_loans (ms_db (match_loan e A l s))) = map loan_id (db_loans (ms_db s))"
    by simp_all
qed

lemma match_loans_result:
  assumes "liquidity_ok s" "ms_matched s + length ls \<le> 1000" "distinct (map loan_id (db_loans (ms_db s)))" "distinct (map loan_id ls)"
    "\<And>l. l \<in> set ls \<Longrightarrow> 0 < loan_principalAmount l \<and> loan_principalAmount l < 10 ^ 15 \<and> loan_status l = LoanRequested
       \<and> find (\<lambda>l'. loan_id l' = loan_id l) (db_loans (ms_db s)) = Some l"
  shows "pass_result (loan_id ` set ls) s (fold (match_loan e A) ls s)
    \<and> ms_matched (fold (match_loan e A) ls s) + ms_skipped (fold (match_loan e A) ls s) = ms_matched s + ms_skipped s + length ls"
  using assms
proof (induction ls arbitrary: s)
  case Nil
  then show ?case by (simp add: pass_result_def)
next
  case (Cons l ls)
  have l: "0 < loan_principalAmount l" "loan_principalAmount l < 10 ^ 15" "loan_status l = LoanRequested"
    "find (\<lambda>l'. loan_id l' = loan_id l) (db_loans (ms_db s)) = Some l" "ms_matched s < 1000"
    using Cons.prems(2,5) by simp_all
  note one = match_loan_result [OF Cons.prems(1) l(5,1,2) Cons.prems(3) l(4,3), of e A]
  have "find (\<lambda>l'. loan_id l' = loan_id l'') (db_loans (ms_db (match_loan e A l s))) = Some l''" if "l'' \<in> set ls" for l''
  proof -
    have "loan_id l'' \<noteq> loan_id l"
      using Cons.prems(4) that by (metis distinct.simps(2) image_eqI list.set_map list.simps(9))
    then have "find (\<lambda>l'. loan_id l' = loan_id l'') (db_loans (ms_db (match_loan e A l s)))
        = find (\<lambda>l'. loan_id l' = loan_id l'') (db_loans (ms_db s))"
      using one(1) unfolding pass_result_def by blast
    with Cons.prems(5) that show ?thesis
      by simp
  qed
  moreover have "ms_matched (match_loan e A l s) \<le> Suc (ms_matched s)"
    using Cons.prems(1) l by (rule_tac match_loan_cases [of s l e A]) simp_all
  ultimately have "pass_result (loan_id ` set ls) (match_loan e A l s) (fold (match_loan e A) ls (match_loan e A l s))
    \<and> ms_matched (fold (match_loan e A) ls (match_loan e A l s)) + ms_skipped (fold (match_loan e A) ls (match_loan e A l s))
      = ms_matched (match_loan e A l s) + ms_skipped (match_loan e A l s) + length ls"
    using Cons.prems one(2,4) by (intro Cons.IH) simp_all
  with pass_result_trans [OF one(1)] one(3) show ?case
    by auto
qed


lemma sum_indicator: "sum_list (map (\<lambda>x. if P x then 1 else 0) xs) = int (length (filter P xs))"
  by (induction xs) simp_all

lemma requested_count_filter: "requested_count db = int (length (filter (\<lambda>l. loan_status l = LoanRequested) (db_loans db)))"
  by (simp add: requested_count_def sum_indicator)

lemma initial_liquidity_ok:
  assumes "distinct (map pool_id (db_lendingPools db))"
    "\<forall>p \<in> set (db_lendingPools db). 0 \<le> pool_availableLiquidity p \<and> pool_availableLiquidity p < 2 ^ 22 * 10 ^ 6"
  shows "liquidity_ok \<lparr>ms_liquidity = map_of (map (\<lambda>p. (pv_id p, pv_availableLiquidity p)) (fetchActivePoolsWithLiquidity db)),
    ms_matched = 0, ms_skipped = 0, ms_db = db\<rparr>"
  unfolding liquidity_ok_def
proof (intro allI impI)
  fix i y
  assume "ms_liquidity \<lparr>ms_liquidity = map_of (map (\<lambda>p. (pv_id p, pv_availableLiquidity p)) (fetchActivePoolsWithLiquidity db)),
    ms_matched = 0, ms_skipped = 0, ms_db = db\<rparr> i = Some y"
  then have "(i, y) \<in> set (map (\<lambda>p. (pv_id p, pv_availableLiquidity p)) (fetchActivePoolsWithLiquidity db))"
    by (auto dest: map_of_SomeD)
  then obtain p where p: "p \<in> set (db_lendingPools db)" "i = pool_id p" "y = num_of_micro (pool_availableLiquidity p)"
    by (auto simp: fetchActivePoolsWithLiquidity_def mapRawPoolToPool_def)
  have n: "0 \<le> pool_availableLiquidity p" "pool_availableLiquidity p < 2 ^ 22 * 10 ^ 6"
    using assms(2) p(1) by simp_all
  have "of_micro (pool_availableLiquidity p) < 2 ^ 22" "0 \<le> of_micro (pool_availableLiquidity p)"
    using micro_upper [OF n(2)] n(1) by simp_all
  then have "\<bar>of_micro (pool_availableLiquidity p)\<bar> < 2 ^ 23"
    by simp
  from fl_drift [OF this] have "\<bar>fl (of_micro (pool_availableLiquidity p)) - of_micro (pool_availableLiquidity p)\<bar> \<le> drift" .
  moreover have "num_of_micro (pool_availableLiquidity p) = Fin (fl (of_micro (pool_availableLiquidity p)))"
    using n by (intro num_of_micro_Fin) simp
  moreover have "find (\<lambda>p. pool_id p = i) (db_lendingPools db) = Some p"
    unfolding p(2) using assms(1) p(1) by (rule pools_tbl.find_distinct)
  ultimately show "\<exists>x q. y = Fin x \<and> find (\<lambda>p. pool_id p = i) (db_lendingPools (ms_db \<lparr>ms_liquidity =
      map_of (map (\<lambda>p. (pv_id p, pv_availableLiquidity p)) (fetchActivePoolsWithLiquidity db)),
      ms_matched = 0, ms_skipped = 0, ms_db = db\<rparr>)) = Some q
      \<and> 0 \<le> pool_availableLiquidity q \<and> pool_availableLiquidity q < 2 ^ 22 * 10 ^ 6
      \<and> \<bar>x - of_micro (pool_availableLiquidity q)\<bar> \<le> of_nat (2 * ms_matched \<lparr>ms_liquidity =
      map_of (map (\<lambda>p. (pv_id p, pv_availableLiquidity p)) (fetchActivePoolsWithLiquidity db)),
      ms_matched = 0, ms_skipped = 0, ms_db = db\<rparr> + 1) * drift"
    using p n by simp
qed

lemma find_loan: "distinct (map loan_id (db_loans db)) \<Longrightarrow> l \<in> set (db_loans db) \<Longrightarrow>
    find (\<lambda>l'. loan_id l' = loan_id l) (db_loans db) = Some l"
  by (rule loans_tbl.find_distinct)

text \<open>A whole run, from the pass's start to its end.\<close>

lemma runAutoMatch_pass:
  assumes "runAutoMatch e db = (Matched n m, db')"
    "distinct (map loan_id (db_loans db))" "distinct (map pool_id (db_lendingPools db))"
    "\<forall>l \<in> set (db_loans db). 0 < loan_principalAmount l \<and> loan_principalAmount l < 10 ^ 15"
    "\<forall>p \<in> set (db_lendingPools db). 0 \<le> pool_availableLiquidity p \<and> pool_availableLiquidity p < 2 ^ 22 * 10 ^ 6"
    "length (filter (\<lambda>l. loan_status l = LoanRequested) (db_loans db)) \<le> 1000"
  obtains s\<^sub>0 s where "pass_result (loan_id ` set (filter (\<lambda>l. loan_status l = LoanRequested) (db_loans db))) s\<^sub>0 s"
    "n + m = length (filter (\<lambda>l. loan_status l = LoanRequested) (db_loans db))"
    "ms_db s\<^sub>0 = db" "ms_matched s\<^sub>0 = 0" "n = ms_matched s" "db' = ms_db s"
proof -
  note result = that
  let ?P = "filter (\<lambda>l. loan_status l = LoanRequested) (db_loans db)"
  let ?A = "fetchActivePoolsWithLiquidity db"
  let ?s = "\<lparr>ms_liquidity = map_of (map (\<lambda>p. (pv_id p, pv_availableLiquidity p)) ?A), ms_matched = 0, ms_skipped = 0, ms_db = db\<rparr>"
  show ?thesis
  proof (cases "?P = [] \<or> ?A = []")
    case True
    then have "pass_result (loan_id ` set ?P) ?s ?s" "n + m = length ?P" "n = 0" "db' = db"
      using assms(1) by (auto simp: runAutoMatch_def pass_result_def Let_def split: if_splits)
    then show ?thesis
      by (intro result [of ?s ?s]) simp_all
  next
    case False
    have "pass_result (loan_id ` set ?P) ?s (fold (match_loan e ?A) ?P ?s)
        \<and> ms_matched (fold (match_loan e ?A) ?P ?s) + ms_skipped (fold (match_loan e ?A) ?P ?s) = ms_matched ?s + ms_skipped ?s + length ?P"
      using assms(2,4,6) find_loan [OF assms(2)]
      by (intro match_loans_result initial_liquidity_ok [OF assms(3,5)]) (auto simp: distinct_map_filter)
    moreover have "n = ms_matched (fold (match_loan e ?A) ?P ?s)" "m = ms_skipped (fold (match_loan e ?A) ?P ?s)"
        "db' = ms_db (fold (match_loan e ?A) ?P ?s)"
      using assms(1) False by (auto simp: runAutoMatch_def match_pass_def Let_def split: if_splits)
    ultimately show ?thesis
      by (intro result [of ?s "fold (match_loan e ?A) ?P ?s"]) simp_all
  qed
qed

text \<open>
  C17: a matching pass over at most a thousand loan requests counts every request once, changes no
  other loan, and takes from each pool exactly the principals of the loans it approves for it,
  never more than the pool has: the rounding of its own books in binary64 does no harm. (Loans below a thousand million
  XLM, pools of less than \<open>2 ^ 22\<close> XLM, about four million, and keys that are unique.)
\<close>

theorem auto_match_within_liquidity:
  assumes "runAutoMatch e db = (Matched n m, db')"
    "distinct (map loan_id (db_loans db))" "distinct (map pool_id (db_lendingPools db))"
    "\<forall>l \<in> set (db_loans db). 0 < loan_principalAmount l \<and> loan_principalAmount l < 10 ^ 15"
    "\<forall>p \<in> set (db_lendingPools db). 0 \<le> pool_availableLiquidity p \<and> pool_availableLiquidity p < 2 ^ 22 * 10 ^ 6"
    "length (filter (\<lambda>l. loan_status l = LoanRequested) (db_loans db)) \<le> 1000"
  shows "n + m = length (filter (\<lambda>l. loan_status l = LoanRequested) (db_loans db))
    \<and> m = length (filter (\<lambda>l. loan_status l = LoanRequested) (db_loans db'))
    \<and> (\<forall>l \<in> set (db_loans db). loan_status l \<noteq> LoanRequested \<longrightarrow> l \<in> set (db_loans db'))
    \<and> (\<forall>p \<in> set (db_lendingPools db). \<exists>k \<ge> 0.
         p\<lparr>pool_availableLiquidity := k\<rparr> \<in> set (db_lendingPools db')
         \<and> k + committed (pool_id p) db' = pool_availableLiquidity p + committed (pool_id p) db)"
proof -
  let ?P = "filter (\<lambda>l. loan_status l = LoanRequested) (db_loans db)"
  obtain s\<^sub>0 s where s: "pass_result (loan_id ` set ?P) s\<^sub>0 s" "n + m = length ?P" "ms_db s\<^sub>0 = db" "ms_matched s\<^sub>0 = 0"
    "n = ms_matched s" "db' = ms_db s"
    by (rule runAutoMatch_pass [OF assms])
  have "l \<in> set (db_loans db')" if l: "l \<in> set (db_loans db)" "loan_status l \<noteq> LoanRequested" for l
  proof -
    have "loan_id l \<notin> loan_id ` set ?P"
      using l find_loan [OF assms(2) l(1)] find_loan [OF assms(2)] by force
    then have "find (\<lambda>l'. loan_id l' = loan_id l) (db_loans db') = Some l"
      using s(1) find_loan [OF assms(2) l(1)] by (simp add: pass_result_def s(3,6))
    then show ?thesis
      by (auto dest: find_in_set)
  qed
  moreover have "\<exists>k \<ge> 0. p\<lparr>pool_availableLiquidity := k\<rparr> \<in> set (db_lendingPools db')
      \<and> k + committed (pool_id p) db' = pool_availableLiquidity p + committed (pool_id p) db"
    if "p \<in> set (db_lendingPools db)" for p
  proof -
    have "find (\<lambda>q. pool_id q = pool_id p) (db_lendingPools db) = Some p"
      using assms(3) that by (rule pools_tbl.find_distinct)
    with s(1) assms(5) that show ?thesis
      by (fastforce simp: pass_result_def s(3,6) dest: find_in_set)
  qed
  moreover have "requested_count db' + int n = requested_count db"
    using s(1) by (simp add: pass_result_def s(3-6))
  ultimately show ?thesis
    using s(2) by (simp add: requested_count_filter)
qed

subsection \<open>Examples\<close>

text \<open>A pool of 250 XLM that may lend 150, and two requests for 100 XLM each.\<close>

definition demo_lending_pool :: lending_pool where
  "demo_lending_pool = \<lparr>pool_id = ''P'', pool_status = PoolActive, pool_aprBps = 800, pool_totalLiquidity = 250000000,
     pool_availableLiquidity = 250000000, pool_totalBorrowed = 0, pool_borrowCap = Some 1500000000, pool_onchainPoolId = None\<rparr>"

definition demo_pools_db :: database where
  "demo_pools_db = demo_admin_db\<lparr>db_lendingPools := [demo_lending_pool],
     db_loans := [demo_loan 0, (demo_loan 0)\<lparr>loan_id := ''M''\<rparr>]\<rparr>"

lemma demo_pools_tables:
  "db_lendingPools demo_pools_db = [demo_lending_pool]" "db_loans demo_pools_db = [demo_loan 0, (demo_loan 0)\<lparr>loan_id := ''M''\<rparr>]"
  "pool_id demo_lending_pool = ''P''" "pool_availableLiquidity demo_lending_pool = 250000000"
  "pool_borrowCap demo_lending_pool = Some 1500000000" "pool_status demo_lending_pool = PoolActive"
  "pool_totalBorrowed demo_lending_pool = 0"
  by (simp_all add: demo_pools_db_def demo_lending_pool_def)

lemma demo_pools_admin: "requireApiAdmin demo_admin_env demo_pools_db = Some demo_borrower"
  using demo_admin same_admin [of demo_pools_db demo_admin_db demo_admin_env] by (simp add: demo_pools_db_def)

lemma demo_sane: "sane_amounts demo_pools_db"
  by (simp add: sane_amounts_def demo_pools_tables)

lemma demo_amounts_compare:
  "\<not> jlt (num_of_micro 250000000) (num_of_micro 100000000)"
  "\<not> jlt (of_stroops 1500000000) (jadd (num_of_micro 0) (num_of_micro 100000000))"
  by code_simp+

lemma demo_approvable:
  "i \<in> {''L'', ''M''} \<Longrightarrow> approve_check demo_admin_env i ''P'' demo_pools_db =
    Inr \<lparr>apv_loanId = i, apv_poolId = ''P'', apv_amount = num_of_micro 100000000\<rparr>"
  unfolding approve_check_iff
  using demo_pools_admin demo_amounts_compare
  by (auto simp: demo_pools_tables demo_admin_env_def)

lemma demo_approved: "\<exists>db'. approveLoan demo_admin_env ''L'' ''P'' demo_pools_db = (PoolsOk, db')"
  using demo_approvable [of "''L''"]
    approve_write_exact [of "\<lparr>apv_loanId = ''L'', apv_poolId = ''P'', apv_amount = num_of_micro 100000000\<rparr>" 100000000]
  by (simp add: approveLoan_def)

lemma borrow_cap_not_cumulative_witness:
  "\<exists>db1 db2. approveLoan demo_admin_env ''L'' ''P'' demo_pools_db = (PoolsOk, db1)
    \<and> approveLoan demo_admin_env ''M'' ''P'' db1 = (PoolsOk, db2)
    \<and> length (filter (\<lambda>l. loan_status l = LoanApproved) (db_loans db2)) \<noteq> 0"
proof -
  have "approve_check demo_admin_env ''L'' ''P'' demo_pools_db =
      Inr \<lparr>apv_loanId = ''L'', apv_poolId = ''P'', apv_amount = num_of_micro 100000000\<rparr>"
    "approve_check demo_admin_env ''M'' ''P'' demo_pools_db =
      Inr \<lparr>apv_loanId = ''M'', apv_poolId = ''P'', apv_amount = num_of_micro 100000000\<rparr>"
    using demo_approvable by simp_all
  from borrow_cap_not_cumulative [OF this _ demo_sane, of "demo_loan 0" "(demo_loan 0)\<lparr>loan_id := ''M''\<rparr>" demo_lending_pool 1500000000]
  show ?thesis
    by (fastforce simp: demo_pools_tables of_micro_def filter_empty_conv)
qed

lemma reservation_never_released_witness:
  "\<exists>db p n. approveLoan demo_admin_env ''L'' ''P'' demo_pools_db = (PoolsOk, db)
    \<and> find (\<lambda>p'. pool_id p' = pool_id p) (db_lendingPools db) = Some (p\<lparr>pool_availableLiquidity := n\<rparr>)"
proof -
  obtain db where db: "approveLoan demo_admin_env ''L'' ''P'' (w_db (demo_world demo_pools_db)) = (PoolsOk, db)"
    using demo_approved by (auto simp: demo_world_def)
  have "sane_amounts (w_db (demo_world demo_pools_db))"
    using demo_sane by (simp add: demo_world_def)
  from reservation_never_released [OF db this rtranclp.rtrancl_refl] db show ?thesis
    by (fastforce simp: demo_world_def set_db_def)
qed

lemma auto_match_within_liquidity_witness:
  "\<exists>n m db'. runAutoMatch demo_admin_env demo_pools_db = (Matched n m, db') \<and> n + m = 2"
proof -
  obtain n m db' where run: "runAutoMatch demo_admin_env demo_pools_db = (Matched n m, db')"
    by (cases "runAutoMatch demo_admin_env demo_pools_db")
      (auto simp: runAutoMatch_def demo_pools_admin Let_def split: if_splits)
  have "n + m = length (filter (\<lambda>l. loan_status l = LoanRequested) (db_loans demo_pools_db))"
    using auto_match_within_liquidity [OF run] by (simp add: demo_pools_tables)
  with run show ?thesis
    by (auto simp: demo_pools_tables)
qed

end
