(* ===== verification/Referrals.thy ===== *)
theory Referrals
  imports ReferralCodes FundRoute
begin

text \<open>
  The referral programme: the SQL functions that give out codes and attribute a new user to a
  referrer, \<open>src/drizzle/0001_functions_and_triggers.sql\<close>, \<open>GET /api/referrals\<close>,
  \<open>POST /api/referrals/claim\<close> and \<open>src/lib/referrals/site-url.ts\<close>. The random choices of the database
  are a parameter: which of the thirty letters each draw of each attempt picks. Bonus amounts are
  left out: no code of the repository settles a payout.
\<close>

subsection \<open>Giving out codes\<close>

type_synonym draws = "nat \<Rightarrow> nat \<Rightarrow> nat"

definition drawn_code :: "draws \<Rightarrow> nat \<Rightarrow> string" where
  "drawn_code random v_attempt = ''TL'' @ map (\<lambda>j. REFERRAL_ALPHABET ! random v_attempt j) [0..<6]"

definition codes_taken :: "database \<Rightarrow> string set" where
  "codes_taken db = set (List.map_filter profile_referralCode (db_profiles db))"

text \<open>The loop gives up after 21 attempts: \<open>None\<close> is the exception.\<close>

function attempt_code :: "draws \<Rightarrow> string set \<Rightarrow> nat \<Rightarrow> string option" where
  "attempt_code random taken v_attempt =
     (if drawn_code random v_attempt \<notin> taken then Some (drawn_code random v_attempt)
      else if 20 < v_attempt + 1 then None
      else attempt_code random taken (v_attempt + 1))"
  by pat_completeness auto
termination
  by (relation "measure (\<lambda>(_, _, v_attempt). 21 - v_attempt)") auto

declare attempt_code.simps [simp del]

definition generate_referral_code :: "draws \<Rightarrow> database \<Rightarrow> string option" where
  "generate_referral_code random db = attempt_code random (codes_taken db) 0"

text \<open>\<open>None\<close>: no row, or a row without a code\<close>

definition code_of :: "string \<Rightarrow> database \<Rightarrow> string option" where
  "code_of userId db = Option.bind (find (\<lambda>p. profile_id p = userId) (db_profiles db)) profile_referralCode"

definition ensure_referral_code :: "draws \<Rightarrow> string \<Rightarrow> database \<Rightarrow> (unit + string option) \<times> database" where
  "ensure_referral_code random p_user_id db =
     (if code_of p_user_id db \<noteq> None then (Inr (code_of p_user_id db), db)
      else case generate_referral_code random db of
        None \<Rightarrow> (Inl (), db)
      | Some v_code \<Rightarrow>
          let db' = db\<lparr>db_profiles := update_where (\<lambda>p. profile_id p = p_user_id \<and> profile_referralCode p = None)
                (\<lambda>p. p\<lparr>profile_referralCode := Some v_code\<rparr>) (db_profiles db)\<rparr>
          in (Inr (code_of p_user_id db'), db'))"

text \<open>The trigger before a profile is inserted: a failing generator leaves the code out.\<close>

definition assign_referral_code_on_profile :: "draws \<Rightarrow> database \<Rightarrow> profile \<Rightarrow> profile" where
  "assign_referral_code_on_profile random db new =
     (if profile_referralCode new = None then new\<lparr>profile_referralCode := generate_referral_code random db\<rparr> else new)"

subsection \<open>Attributing a referee\<close>

datatype referral_error = ReferralCodeRequired | ReferralUnknownCode | ReferralSelf | ReferralRowRefused

text \<open>\<open>upper\<close>, on the letters that occur in codes\<close>

definition sql_upper :: "string \<Rightarrow> string" where
  "sql_upper = map (\<lambda>c. if 97 \<le> (of_char c :: nat) \<and> (of_char c :: nat) \<le> 122 then char_of ((of_char c :: nat) - 32) else c)"

definition record_referral :: "env \<Rightarrow> string \<Rightarrow> string \<Rightarrow> database \<Rightarrow> (referral_error + qualify_row) \<times> database" where
  "record_referral e p_referee_id p_referral_code db =
     (let v_code = sql_upper (sql_trim p_referral_code) in
      if v_code = [] then (Inl ReferralCodeRequired, db)
      else case find (\<lambda>p. profile_referralCode p = Some v_code) (db_profiles db) of
        None \<Rightarrow> (Inl ReferralUnknownCode, db)
      | Some referrer \<Rightarrow>
          if profile_id referrer = p_referee_id then (Inl ReferralSelf, db)
          else (case find (\<lambda>r. ref_refereeId r = p_referee_id) (db_referrals db) of
             Some r \<Rightarrow> (Inr \<lparr>qr_referral_id = ref_id r, qr_referrer_id = ref_referrerId r, qr_status = ref_status r\<rparr>, db)
           | None \<Rightarrow>
               let v_referral_id = env_genUuid e (db_uuids db);
                   row = \<lparr>ref_id = v_referral_id, ref_referrerId = profile_id referrer, ref_refereeId = p_referee_id,
                          ref_referralCode = v_code, ref_status = ReferralPending, ref_qualifyingLoanId = None\<rparr>
               in if p_referee_id \<notin> set (map profile_id (db_profiles db)) \<or> v_referral_id \<in> set (map ref_id (db_referrals db))
                  then (Inl ReferralRowRefused, db)
                  else (Inr \<lparr>qr_referral_id = v_referral_id, qr_referrer_id = profile_id referrer, qr_status = ReferralPending\<rparr>,
                        db\<lparr>db_referrals := db_referrals db @ [row], db_uuids := Suc (db_uuids db)\<rparr>)))"

text \<open>The messages the function raises\<close>

fun referral_message :: "referral_error \<Rightarrow> string" where
  "referral_message ReferralCodeRequired = ''Referral code is required''"
| "referral_message ReferralUnknownCode = ''Unknown referral code''"
| "referral_message ReferralSelf = ''Cannot refer yourself''"
| "referral_message ReferralRowRefused = ''insert or update on table \"referrals\" violates a constraint''"

datatype claim_error =
    ClaimRateLimited | ClaimDbUnavailable | ClaimCodeRequired | ClaimUnknownCode | ClaimOwnCode | ClaimFailed

text \<open>\<open>requireAuthenticatedUser()\<close> for any role\<close>

definition any_user :: "env \<Rightarrow> string + session_user" where
  "any_user e = (case env_session e of None \<Rightarrow> Inl ''/auth'' | Some u \<Rightarrow> Inr u)"

text \<open>
  \<open>thrown\<close> is the message of the exception the database client raises for an error of the function:
  the message of the database, or one that wraps it.
\<close>

definition POST_claim :: "(referral_error \<Rightarrow> string) \<Rightarrow> env \<Rightarrow> jsval \<Rightarrow> database \<Rightarrow> (claim_error + string \<times> referral_status) answer \<times> database" where
  "POST_claim thrown e rawCode db =
     (if env_rateLimited e then (Answer 429 (Inl ClaimRateLimited), db)
      else case any_user e of
        Inl url \<Rightarrow> (Redirect url, db)
      | Inr user \<Rightarrow>
          if \<not> env_dbAvailable e then (Answer 503 (Inl ClaimDbUnavailable), db)
          else if \<not> isBoundedString rawCode 64 then (Answer 400 (Inl ClaimCodeRequired), db)
          else (case normalizeReferralCode rawCode of
             None \<Rightarrow> (Answer 400 (Inl ClaimCodeRequired), db)
           | Some code \<Rightarrow>
               (case record_referral e (user_id user) code db of
                  (Inl error, db') \<Rightarrow>
                    if js_includes (thrown error) ''Unknown referral code'' then (Answer 404 (Inl ClaimUnknownCode), db')
                    else if js_includes (thrown error) ''Cannot refer yourself'' then (Answer 409 (Inl ClaimOwnCode), db')
                    else (Answer 500 (Inl ClaimFailed), db')
                | (Inr row, db') \<Rightarrow> (Answer 200 (Inr (qr_referral_id row, qr_status row)), db'))))"

subsection \<open>The origin of links\<close>

text \<open>What the request and the process know; \<open>rq_origin\<close> is the origin the URL parser finds, if it finds one.\<close>

record site_request =
  rq_siteUrl :: "string option"
  rq_vercelUrl :: "string option"
  rq_forwardedHost :: "string option"
  rq_host :: "string option"
  rq_forwardedProto :: "string option"
  rq_origin :: "string option"

definition withProtocol :: "string \<Rightarrow> string" where
  "withProtocol value =
     (if is_prefix ''http://'' (js_lower value) \<or> is_prefix ''https://'' (js_lower value) then value
      else ''https://'' @ value)"

definition normalize_origin :: "string \<Rightarrow> string" where
  "normalize_origin value = rev (dropWhile (\<lambda>c. c = CHR ''/'') (rev value))"

definition resolveSiteUrl :: "site_request \<Rightarrow> string" where
  "resolveSiteUrl rq =
     (let configured = (case rq_siteUrl rq of Some s \<Rightarrow> js_trim s | None \<Rightarrow> []);
          vercel = (case rq_vercelUrl rq of Some s \<Rightarrow> js_trim s | None \<Rightarrow> []);
          host = (case rq_forwardedHost rq of Some h \<Rightarrow> Some h | None \<Rightarrow> rq_host rq)
      in if configured \<noteq> [] then normalize_origin (withProtocol configured)
         else if vercel \<noteq> [] then normalize_origin (withProtocol vercel)
         else if truthy_opt host
         then (let proto = (case rq_forwardedProto rq of Some p \<Rightarrow> p
                  | None \<Rightarrow> if is_prefix ''localhost'' (the host) \<or> is_prefix ''127.0.0.1'' (the host) then ''http'' else ''https'')
               in normalize_origin (proto @ ''://'' @ the host))
         else (case rq_origin rq of Some origin \<Rightarrow> normalize_origin origin | None \<Rightarrow> ''http://localhost:3000''))"

subsection \<open>\<open>GET /api/referrals\<close>\<close>

datatype referrals_error = ReferralsRateLimited | ReferralsDbUnavailable | ReferralsNoCode | ReferralsInternal

record referral_overview =
  rv_referralCode :: string
  rv_referralLink :: string
  rv_totalInvited :: nat
  rv_pending :: nat
  rv_qualified :: nat
  rv_paid :: nat
  rv_referrals :: "(string \<times> referral_status) list"

definition GET_referrals :: "env \<Rightarrow> draws \<Rightarrow> site_request \<Rightarrow> database
    \<Rightarrow> (referrals_error + referral_overview) answer \<times> database" where
  "GET_referrals e random rq db =
     (if env_rateLimited e then (Answer 429 (Inl ReferralsRateLimited), db)
      else case any_user e of
        Inl url \<Rightarrow> (Redirect url, db)
      | Inr user \<Rightarrow>
          if \<not> env_dbAvailable e then (Answer 503 (Inl ReferralsDbUnavailable), db)
          else (case ensure_referral_code random (user_id user) db of
             (Inl _, db') \<Rightarrow> (Answer 500 (Inl ReferralsInternal), db')
           | (Inr code, db') \<Rightarrow>
               if \<not> truthy_opt code then (Answer 500 (Inl ReferralsNoCode), db')
               else (let invited = filter (\<lambda>r. ref_referrerId r = user_id user) (db_referrals db');
                         count = (\<lambda>st. length (filter (\<lambda>r. ref_status r = st) invited))
                     in case buildReferralLink (the code) (resolveSiteUrl rq) of
                          None \<Rightarrow> (Answer 500 (Inl ReferralsInternal), db')
                        | Some link \<Rightarrow> (Answer 200 (Inr \<lparr>rv_referralCode = the code, rv_referralLink = link,
                            rv_totalInvited = length invited, rv_pending = count ReferralPending,
                            rv_qualified = count ReferralQualified, rv_paid = count ReferralPaid,
                            rv_referrals = take 50 (rev (map (\<lambda>r. (ref_id r, ref_status r)) invited))\<rparr>), db'))))"

end
