(* ===== verification/ReferralsSafety.thy ===== *)
theory ReferralsSafety
  imports Referrals Demo
begin

text \<open>
  Referrals: the code a user is shown brings whoever claims it to that user, and an attribution is
  made once and for good.
\<close>

subsection \<open>Codes\<close>

lemma attempt_code_Some:
  assumes "attempt_code random taken k = Some c"
  shows "c \<notin> taken \<and> (\<exists>j. c = drawn_code random j)"
  using assms
proof (induction random taken k rule: attempt_code.induct)
  case (1 random taken k)
  have "(if drawn_code random k \<notin> taken then Some (drawn_code random k)
      else if 20 < k + 1 then None else attempt_code random taken (k + 1)) = Some c"
    using 1(2) attempt_code.simps [of random taken k] by simp
  with 1(1) show ?case
    by (auto split: if_splits)
qed

lemma drawn_code_valid:
  assumes "\<forall>k j. random k j < 30"
  shows "isValidReferralCode (drawn_code random k)"
proof -
  have "length REFERRAL_ALPHABET = 30"
    by code_simp
  then have "REFERRAL_ALPHABET ! random k j \<in> set REFERRAL_ALPHABET" for j
    using assms by (intro nth_mem) simp
  then show ?thesis
    by (auto simp: isValidReferralCode_def drawn_code_def REFERRAL_PREFIX_def REFERRAL_CODE_LENGTH_def
        REFERRAL_RANDOM_LENGTH_def list_all_iff)
qed

lemma canonical_letters:
  "list_all (\<lambda>c. sql_upper [c] = [c] \<and> c \<noteq> CHR '' '') (REFERRAL_PREFIX @ REFERRAL_ALPHABET)"
  by code_simp

lemma valid_code_letters:
  assumes "isValidReferralCode c"
  shows "c \<noteq> []" "set c \<subseteq> set (REFERRAL_PREFIX @ REFERRAL_ALPHABET)"
proof -
  have parts: "c = REFERRAL_PREFIX @ drop 2 c" and body: "list_all (\<lambda>c. c \<in> set REFERRAL_ALPHABET) (drop 2 c)"
    using assms by (simp_all add: isValidReferralCode_def is_prefix_append REFERRAL_PREFIX_def numeral_2_eq_2)
  show "c \<noteq> []"
    using assms by (auto simp: isValidReferralCode_def REFERRAL_CODE_LENGTH_def REFERRAL_RANDOM_LENGTH_def)
  have "set c = set REFERRAL_PREFIX \<union> set (drop 2 c)"
    by (rule arg_cong [OF parts, where f = set, unfolded set_append])
  with body show "set c \<subseteq> set (REFERRAL_PREFIX @ REFERRAL_ALPHABET)"
    by (auto simp: list_all_iff)
qed

lemma sql_trim_no_space: "\<forall>c \<in> set s. c \<noteq> CHR '' '' \<Longrightarrow> sql_trim s = s"
proof -
  assume s: "\<forall>c \<in> set s. c \<noteq> CHR '' ''"
  have "dropWhile (\<lambda>c. c = CHR '' '') t = t" if "\<forall>c \<in> set t. c \<noteq> CHR '' ''" for t
    using that by (cases t) simp_all
  from this [of s] this [of "rev s"] s show ?thesis
    by (simp add: sql_trim_def)
qed

lemma canonical_code:
  assumes "isValidReferralCode c"
  shows "sql_upper (sql_trim c) = c"
proof -
  have letters: "\<forall>x \<in> set c. sql_upper [x] = [x] \<and> x \<noteq> CHR '' ''"
    using valid_code_letters(2) [OF assms] canonical_letters unfolding list_all_iff by blast
  then have "map (\<lambda>x. hd (sql_upper [x])) c = c"
    by (intro map_idI) simp
  then have "sql_upper c = c"
    by (simp add: sql_upper_def cong: map_cong)
  moreover have "sql_trim c = c"
    using letters by (intro sql_trim_no_space) blast
  ultimately show ?thesis
    by simp
qed

subsection \<open>The tables in order\<close>

definition codes_ok :: "database \<Rightarrow> bool" where
  "codes_ok db \<longleftrightarrow> distinct (map profile_id (db_profiles db))
     \<and> (\<forall>p \<in> set (db_profiles db). \<forall>q \<in> set (db_profiles db). \<forall>c.
         profile_referralCode p = Some c \<and> profile_referralCode q = Some c \<longrightarrow> profile_id p = profile_id q)
     \<and> (\<forall>p \<in> set (db_profiles db). \<forall>c. profile_referralCode p = Some c \<longrightarrow> isValidReferralCode c)"

definition referrals_ok :: "database \<Rightarrow> bool" where
  "referrals_ok db \<longleftrightarrow> codes_ok db \<and> distinct (map ref_id (db_referrals db)) \<and> distinct (map ref_refereeId (db_referrals db))
     \<and> (\<forall>r \<in> set (db_referrals db). ref_referrerId r \<noteq> ref_refereeId r
         \<and> code_of (ref_referrerId r) db = Some (ref_referralCode r))"

lemma find_profile: "codes_ok db \<Longrightarrow> find (\<lambda>p. profile_id p = i) (db_profiles db) = Some p
    \<longleftrightarrow> p \<in> set (db_profiles db) \<and> profile_id p = i"
  using find_in_set [of "\<lambda>p. profile_id p = i" "db_profiles db" p] keyed_table.find_distinct [of profile_id "db_profiles db" p]
  by (auto simp: codes_ok_def)

lemma code_of_iff: "codes_ok db \<Longrightarrow> code_of i db = Some c \<longleftrightarrow>
    (\<exists>p \<in> set (db_profiles db). profile_id p = i \<and> profile_referralCode p = Some c)"
  by (auto simp: code_of_def bind_eq_Some_conv find_profile)

lemma same_code: "codes_ok db \<Longrightarrow> p \<in> set (db_profiles db) \<Longrightarrow> q \<in> set (db_profiles db) \<Longrightarrow>
    profile_referralCode p = Some c \<Longrightarrow> profile_referralCode q = Some c \<Longrightarrow> profile_id p = profile_id q"
  unfolding codes_ok_def by blast

lemma find_code_owner:
  assumes "codes_ok db" "code_of i db = Some c"
  shows "\<exists>p. find (\<lambda>p. profile_referralCode p = Some c) (db_profiles db) = Some p \<and> profile_id p = i"
proof -
  obtain q where q: "q \<in> set (db_profiles db)" "profile_id q = i" "profile_referralCode q = Some c"
    using assms by (auto simp: code_of_iff)
  then obtain p where p: "find (\<lambda>p. profile_referralCode p = Some c) (db_profiles db) = Some p"
    by (cases "find (\<lambda>p. profile_referralCode p = Some c) (db_profiles db)") (auto simp: find_None_iff)
  then have "p \<in> set (db_profiles db)" "profile_referralCode p = Some c"
    by (auto dest: find_in_set)
  then have "profile_id p = profile_id q"
    using same_code [OF assms(1) _ q(1) _ q(3)] by blast
  with p q(2) show ?thesis
    by simp
qed

text \<open>Making sure that a user has a code\<close>

lemma give_code:
  assumes "codes_ok db" "code_of u db = None" "c \<notin> codes_taken db" "isValidReferralCode c"
    and db': "db' = db\<lparr>db_profiles := update_where (\<lambda>p. profile_id p = u \<and> profile_referralCode p = None)
      (\<lambda>p. p\<lparr>profile_referralCode := Some c\<rparr>) (db_profiles db)\<rparr>"
  shows "codes_ok db'" "code_of i db = Some d \<Longrightarrow> code_of i db' = Some d"
proof -
  have taken: "profile_referralCode p \<noteq> Some c" if "p \<in> set (db_profiles db)" for p
    using assms(3) that by (force simp: codes_taken_def List.map_filter_def)
  have ids: "map profile_id (db_profiles db') = map profile_id (db_profiles db)"
    by (simp add: db' update_where_def)
  define g :: "profile \<Rightarrow> profile" where "g p = (if profile_id p = u \<and> profile_referralCode p = None then p\<lparr>profile_referralCode := Some c\<rparr> else p)" for p
  have g: "profile_id (g p) = profile_id p" "profile_referralCode (g p) = Some d \<longleftrightarrow>
      profile_referralCode p = Some d \<or> (profile_id p = u \<and> profile_referralCode p = None \<and> d = c)" for p d
    by (auto simp: g_def)
  have changed: "set (db_profiles db') = g ` set (db_profiles db)"
    by (simp add: db' update_where_def g_def)
  show ok: "codes_ok db'"
    unfolding codes_ok_def ids changed
  proof (intro conjI ballI allI impI)
    show "distinct (map profile_id (db_profiles db))"
      using assms(1) by (simp add: codes_ok_def)
  next
    fix p q d
    assume "p \<in> g ` set (db_profiles db)" "q \<in> g ` set (db_profiles db)"
      and d: "profile_referralCode p = Some d \<and> profile_referralCode q = Some d"
    then obtain p' q' where p': "p = g p'" "p' \<in> set (db_profiles db)" and q': "q = g q'" "q' \<in> set (db_profiles db)"
      by blast
    show "profile_id p = profile_id q"
    proof (cases "d = c")
      case True
      with d p' q' taken show ?thesis
        by (simp add: g)
    next
      case False
      with d p' q' have "profile_referralCode p' = Some d" "profile_referralCode q' = Some d"
        by (simp_all add: g(2))
      then have "profile_id p' = profile_id q'"
        using same_code [OF assms(1) p'(2) q'(2)] by blast
      then show ?thesis
        unfolding p'(1) q'(1) g(1) .
    qed
  next
    fix p d
    assume "p \<in> g ` set (db_profiles db)" "profile_referralCode p = Some d"
    then show "isValidReferralCode d"
      using assms(1,4) by (auto simp: g(2) codes_ok_def)
  qed
  assume "code_of i db = Some d"
  then obtain p where "p \<in> set (db_profiles db)" "profile_id p = i" "profile_referralCode p = Some d"
    using assms(1) by (auto simp: code_of_iff)
  then show "code_of i db' = Some d"
    unfolding code_of_iff [OF ok] changed by (intro bexI [of _ "g p"]) (simp_all add: g)
qed

lemma ensure_code:
  assumes "ensure_referral_code random u db = (r, db')" "codes_ok db" "\<forall>k j. random k j < 30"
  shows "codes_ok db'" "db_referrals db' = db_referrals db"
    "map profile_id (db_profiles db') = map profile_id (db_profiles db)"
    "code_of i db = Some d \<Longrightarrow> code_of i db' = Some d"
proof -
  have "codes_ok db' \<and> db_referrals db' = db_referrals db
    \<and> map profile_id (db_profiles db') = map profile_id (db_profiles db)
    \<and> (code_of i db = Some d \<longrightarrow> code_of i db' = Some d)"
  proof (cases "db' = db")
    case True
    with assms(2) show ?thesis
      by simp
  next
    case False
    then obtain v where none: "code_of u db = None" and v: "generate_referral_code random db = Some v"
      and db': "db' = db\<lparr>db_profiles := update_where (\<lambda>p. profile_id p = u \<and> profile_referralCode p = None)
        (\<lambda>p. p\<lparr>profile_referralCode := Some v\<rparr>) (db_profiles db)\<rparr>"
      using assms(1) by (auto simp: ensure_referral_code_def Let_def split: option.splits if_splits)
    have "v \<notin> codes_taken db" "isValidReferralCode v"
      using attempt_code_Some v drawn_code_valid [OF assms(3)] unfolding generate_referral_code_def by blast+
    then show ?thesis
      using give_code [OF assms(2) none _ _ db'] by (simp add: db' update_where_def)
  qed
  then show "codes_ok db'" "db_referrals db' = db_referrals db"
    "map profile_id (db_profiles db') = map profile_id (db_profiles db)"
    "code_of i db = Some d \<Longrightarrow> code_of i db' = Some d"
    by blast+
qed

lemma ensured_code: "ensure_referral_code random u db = (Inr (Some c), db') \<Longrightarrow> code_of u db' = Some c"
  by (auto simp: ensure_referral_code_def Let_def split: option.splits if_splits)

subsection \<open>From the link to the attribution\<close>

lemma GET_referrals_200:
  assumes "GET_referrals e random rq db = (Answer 200 (Inr ov), db')" "any_user e = Inr u"
  shows "ensure_referral_code random (user_id u) db = (Inr (Some (rv_referralCode ov)), db')"
    "buildReferralLink (rv_referralCode ov) (resolveSiteUrl rq) = Some (rv_referralLink ov)"
  using assms
  by (auto simp: GET_referrals_def truthy_opt_def Let_def split: if_splits sum.splits prod.splits option.splits)

text \<open>
  C21: the code a user is shown is the one the link carries. Another user with a profile who claims it, in any spelling
  that is read as that code, while requests are let through and the database is there, is attributed to that user with a
  pending referral, if nobody has referred them before; otherwise the answer is the referral they have, and nothing changes.
\<close>

theorem shown_code_attributes:
  assumes "GET_referrals e random rq db = (Answer 200 (Inr ov), db')" "any_user e = Inr u" "codes_ok db" "\<forall>k j. random k j < 30"
    "any_user e' = Inr v" "user_id v \<noteq> user_id u" "user_id v \<in> profile_id ` set (db_profiles db)"
    "\<not> env_rateLimited e'" "env_dbAvailable e'"
    "env_genUuid e' (db_uuids db') \<notin> ref_id ` set (db_referrals db)"
    "isBoundedString (JStr s) 64" "normalizeReferralCode (JStr s) = Some (rv_referralCode ov)"
  shows "rv_referralLink ov = normalize_origin (resolveSiteUrl rq) @ ''/auth?ref='' @ rv_referralCode ov
    \<and> (case find (\<lambda>r. ref_refereeId r = user_id v) (db_referrals db) of
        None \<Rightarrow> \<exists>db2 i. POST_claim thrown e' (JStr s) db' = (Answer 200 (Inr (i, ReferralPending)), db2)
          \<and> db_referrals db2 = db_referrals db @ [\<lparr>ref_id = i, ref_referrerId = user_id u, ref_refereeId = user_id v,
              ref_referralCode = rv_referralCode ov, ref_status = ReferralPending, ref_qualifyingLoanId = None\<rparr>]
      | Some r \<Rightarrow> POST_claim thrown e' (JStr s) db' = (Answer 200 (Inr (ref_id r, ref_status r)), db'))"
proof -
  let ?c = "rv_referralCode ov"
  note shown = GET_referrals_200 [OF assms(1,2)]
  note ensured = ensure_code [OF shown(1) assms(3,4)]
  obtain p where p: "find (\<lambda>p. profile_referralCode p = Some ?c) (db_profiles db') = Some p" "profile_id p = user_id u"
    using find_code_owner [OF ensured(1) ensured_code [OF shown(1)]] by blast
  have valid: "isValidReferralCode ?c"
    using assms(12) by (auto simp: normalizeReferralCode_def Let_def split: if_splits)
  have "rv_referralLink ov = normalize_origin (resolveSiteUrl rq) @ ''/auth?ref='' @ ?c"
    using shown(2) by (simp add: buildReferralLink_def normalize_valid [OF valid] normalize_origin_def)
  moreover have "user_id v \<in> set (map profile_id (db_profiles db'))"
    using assms(7) ensured(3) by (metis list.set_map)
  ultimately show ?thesis
    using assms(5,6,8-12) p ensured(2) valid_code_letters(1) [OF valid] canonical_code [OF valid]
    by (simp add: POST_claim_def record_referral_def Let_def split: option.split)
qed

definition demo_site :: site_request where
  "demo_site = \<lparr>rq_siteUrl = Some '' trustlend.example/ '', rq_vercelUrl = None, rq_forwardedHost = None,
     rq_host = None, rq_forwardedProto = None, rq_origin = None\<rparr>"

lemma demo_site_url: "resolveSiteUrl demo_site = ''https://trustlend.example''"
  by code_simp

lemma demo_first_code: "drawn_code (\<lambda>_ _. 0) 0 = ''TL222222''"
  by code_simp

lemma demo_link: "buildReferralLink ''TL222222'' ''https://trustlend.example'' = Some ''https://trustlend.example/auth?ref=TL222222''"
  by code_simp

lemma demo_typed: "isBoundedString (JStr '' tl-2222 22'') 64" "normalizeReferralCode (JStr '' tl-2222 22'') = Some ''TL222222''"
  by code_simp+

lemma demo_codes_ok: "codes_ok demo_db"
  by (simp add: codes_ok_def demo_db_def empty_db_def demo_profile_def demo_borrower_def demo_lender_def)

lemma demo_shown: "\<exists>db'. GET_referrals (demo_env demo_borrower hz) (\<lambda>_ _. 0) demo_site demo_db = (Answer 200 (Inr
    \<lparr>rv_referralCode = ''TL222222'', rv_referralLink = ''https://trustlend.example/auth?ref=TL222222'', rv_totalInvited = 0,
     rv_pending = 0, rv_qualified = 0, rv_paid = 0, rv_referrals = []\<rparr>), db')"
  by (simp add: GET_referrals_def any_user_def demo_borrower_def ensure_referral_code_def code_of_def demo_db_def empty_db_def
      demo_profile_def demo_lender_def generate_referral_code_def codes_taken_def List.map_filter_def demo_first_code
      attempt_code.simps update_where_def truthy_opt_def demo_site_url demo_link)

theorem shown_code_attributes_witness:
  "\<exists>ov db' i db2. GET_referrals (demo_env demo_borrower (demo_horizon [] [] [] [])) (\<lambda>_ _. 0) demo_site demo_db
      = (Answer 200 (Inr ov), db')
    \<and> POST_claim referral_message (demo_env demo_lender (demo_horizon [] [] [] [])) (JStr '' tl-2222 22'') db'
      = (Answer 200 (Inr (i, ReferralPending)), db2)"
proof -
  obtain ov db' where shown: "GET_referrals (demo_env demo_borrower (demo_horizon [] [] [] [])) (\<lambda>_ _. 0) demo_site demo_db
      = (Answer 200 (Inr ov), db')" and code: "rv_referralCode ov = ''TL222222''"
    using demo_shown [of "demo_horizon [] [] [] []"] by fastforce
  have "any_user (demo_env demo_borrower (demo_horizon [] [] [] [])) = Inr demo_borrower"
    "any_user (demo_env demo_lender (demo_horizon [] [] [] [])) = Inr demo_lender"
    by (simp_all add: any_user_def)
  then show ?thesis
    using shown_code_attributes [OF shown, of demo_borrower "demo_env demo_lender (demo_horizon [] [] [] [])" demo_lender "'' tl-2222 22''" referral_message]
      shown demo_codes_ok demo_typed code
    by (fastforce simp: demo_borrower_def demo_lender_def demo_db_def empty_db_def demo_profile_def)
qed

subsection \<open>Once and for good\<close>

inductive referral_step :: "database \<Rightarrow> database \<Rightarrow> bool" where
  claimed: "referral_step db (snd (POST_claim thrown e rawCode db))"
| looked: "\<forall>k j. random k j < 30 \<Longrightarrow> referral_step db (snd (GET_referrals e random rq db))"
| loan_funded: "referral_step db (snd (qualifyReferralForLoan refereeId loanId db))"

text \<open>What a later referral keeps of an earlier one\<close>

definition carried_on :: "referral \<Rightarrow> referral \<Rightarrow> bool" where
  "carried_on r r' \<longleftrightarrow> ref_id r' = ref_id r \<and> ref_referrerId r' = ref_referrerId r \<and> ref_refereeId r' = ref_refereeId r
     \<and> ref_referralCode r' = ref_referralCode r
     \<and> (ref_status r \<noteq> ReferralPending \<longrightarrow> ref_status r' = ref_status r \<and> ref_qualifyingLoanId r' = ref_qualifyingLoanId r)"

definition attributions_kept :: "database \<Rightarrow> database \<Rightarrow> bool" where
  "attributions_kept db db' \<longleftrightarrow> list_all2 carried_on (db_referrals db) (take (length (db_referrals db)) (db_referrals db'))"

lemma carried_on_refl [simp]: "carried_on r r"
  by (simp add: carried_on_def)

lemma carried_on_trans: "carried_on a b \<Longrightarrow> carried_on b c \<Longrightarrow> carried_on a c"
  by (auto simp: carried_on_def)

lemma kept_refl [simp]: "attributions_kept db db"
  by (simp add: attributions_kept_def list.rel_refl)

lemma kept_trans:
  assumes "attributions_kept a b" "attributions_kept b c"
  shows "attributions_kept a c"
  unfolding attributions_kept_def list_all2_conv_all_nth
proof (intro conjI allI impI)
  have ab: "length (db_referrals a) \<le> length (db_referrals b)" and bc: "length (db_referrals b) \<le> length (db_referrals c)"
    using assms by (auto simp: attributions_kept_def dest!: list_all2_lengthD)
  then show "length (db_referrals a) = length (take (length (db_referrals a)) (db_referrals c))"
    by simp
  fix k
  assume k: "k < length (db_referrals a)"
  then have "carried_on (db_referrals a ! k) (db_referrals b ! k)" "carried_on (db_referrals b ! k) (db_referrals c ! k)"
    using assms ab by (auto simp: attributions_kept_def list_all2_conv_all_nth)
  with k show "carried_on (db_referrals a ! k) (take (length (db_referrals a)) (db_referrals c) ! k)"
    by (auto intro: carried_on_trans)
qed

lemma record_referral_step:
  assumes "record_referral e u c db = (r, db')" "referrals_ok db"
  shows "referrals_ok db' \<and> attributions_kept db db'"
proof (cases "db' = db")
  case False
  define v where "v = sql_upper (sql_trim c)"
  from assms(1) False obtain p i where
    p: "find (\<lambda>p. profile_referralCode p = Some v) (db_profiles db) = Some p" "profile_id p \<noteq> u"
    and fresh: "find (\<lambda>r. ref_refereeId r = u) (db_referrals db) = None" "i \<notin> ref_id ` set (db_referrals db)"
    and db': "db_profiles db' = db_profiles db" "db_referrals db' = db_referrals db @ [\<lparr>ref_id = i, ref_referrerId = profile_id p,
      ref_refereeId = u, ref_referralCode = v, ref_status = ReferralPending, ref_qualifyingLoanId = None\<rparr>]"
    by (auto simp: record_referral_def Let_def v_def split: option.splits if_splits)
  have "p \<in> set (db_profiles db)" "profile_referralCode p = Some v"
    using p(1) by (auto dest: find_in_set)
  then have own: "code_of (profile_id p) db = Some v"
    using assms(2) code_of_iff unfolding referrals_ok_def by blast
  have "codes_ok db' = codes_ok db" "code_of j db' = code_of j db" for j
    by (simp_all add: codes_ok_def code_of_def db'(1))
  then have "referrals_ok db'"
    using assms(2) p(2) fresh own unfolding referrals_ok_def db'(2) by (auto simp: find_None_iff)
  then show ?thesis
    by (simp add: attributions_kept_def db'(2) list.rel_refl)
qed (simp add: assms)

lemma POST_claim_step: "referrals_ok db \<Longrightarrow> referrals_ok (snd (POST_claim thrown e j db)) \<and> attributions_kept db (snd (POST_claim thrown e j db))"
  using record_referral_step
  by (auto simp: POST_claim_def split: sum.split prod.split option.split referral_error.split)

lemma GET_referrals_step:
  assumes "\<forall>k j. random k j < 30" "referrals_ok db"
  shows "referrals_ok (snd (GET_referrals e random rq db)) \<and> attributions_kept db (snd (GET_referrals e random rq db))"
proof -
  have "referrals_ok db' \<and> attributions_kept db db'" if "ensure_referral_code random u db = (r, db')" for u r db'
    using ensure_code [OF that _ assms(1)] assms(2) by (auto simp: referrals_ok_def attributions_kept_def list.rel_refl)
  then show ?thesis
    using assms(2) by (auto simp: GET_referrals_def Let_def split: sum.split prod.split option.split)
qed

lemma qualify_step:
  assumes "referrals_ok db"
  shows "referrals_ok (snd (qualifyReferralForLoan u l db)) \<and> attributions_kept db (snd (qualifyReferralForLoan u l db))"
proof -
  have "referrals_ok db' \<and> attributions_kept db db'" if "qualify_referral u l db = (r, db')" for r db'
  proof (cases "db' = db")
    case False
    with that obtain w where w: "find (\<lambda>r. ref_refereeId r = u) (db_referrals db) = Some w" "ref_status w = ReferralPending"
      and db': "db' = db\<lparr>db_referrals := update_where (\<lambda>r. ref_id r = ref_id w)
        (\<lambda>r. r\<lparr>ref_status := ReferralQualified, ref_qualifyingLoanId := Some l\<rparr>) (db_referrals db)\<rparr>"
      by (auto simp: qualify_referral_def split: option.splits if_splits)
    have "w \<in> set (db_referrals db)"
      using w(1) by (auto dest: find_in_set)
    then have one: "r = w" if "r \<in> set (db_referrals db)" "ref_id r = ref_id w" for r
      using that assms by (auto simp: referrals_ok_def inj_on_def distinct_map)
    have "ref_status (db_referrals db ! k) = ReferralPending" if "k < length (db_referrals db)" "ref_id (db_referrals db ! k) = ref_id w" for k
      using one [OF nth_mem [OF that(1)] that(2)] w(2) by simp
    then have "attributions_kept db db'"
      by (auto simp: attributions_kept_def db' update_where_def list_all2_conv_all_nth carried_on_def)
    moreover have "map ref_id (db_referrals db') = map ref_id (db_referrals db)"
      "map ref_refereeId (db_referrals db') = map ref_refereeId (db_referrals db)"
      by (simp_all add: db' update_where_def)
    moreover have "codes_ok db' = codes_ok db" "code_of j db' = code_of j db" for j
      by (simp_all add: codes_ok_def code_of_def db')
    moreover have "\<exists>x \<in> set (db_referrals db). ref_referrerId r = ref_referrerId x \<and> ref_refereeId r = ref_refereeId x
        \<and> ref_referralCode r = ref_referralCode x" if "r \<in> set (db_referrals db')" for r
      using that by (force simp: db' update_where_def)
    ultimately have "referrals_ok db'" "attributions_kept db db'"
      using assms unfolding referrals_ok_def by (simp_all only: ) metis
    then show ?thesis
      by blast
  qed (simp add: assms)
  then show ?thesis
    using assms by (auto simp: qualifyReferralForLoan_def Let_def split: prod.split option.split)
qed

text \<open>
  C20: whatever the users do, with codes shown, codes claimed and loans funded in any order, nobody is attributed twice
  or to themselves, an attribution never changes its two users or its code, and one that has left the pending
  state stays as it is, with the loan that qualified it. (An application that takes its loan back, which clears that loan
  from the referral, is not one of the steps.)
\<close>

theorem attributed_once_for_good:
  assumes "referral_step\<^sup>*\<^sup>* db db'" "referrals_ok db"
  shows "referrals_ok db' \<and> attributions_kept db db'"
  using assms
proof (induction rule: rtranclp_induct)
  case (step y z)
  from step(2) have "referrals_ok y \<Longrightarrow> referrals_ok z \<and> attributions_kept y z"
    by (cases rule: referral_step.cases) (simp_all add: POST_claim_step GET_referrals_step qualify_step)
  with step show ?case
    by (blast intro: kept_trans)
qed simp

definition demo_referred :: database where
  "demo_referred = demo_db\<lparr>db_profiles := map (\<lambda>p. if profile_id p = ''b'' then p\<lparr>profile_referralCode := Some ''TL222222''\<rparr> else p)
       (db_profiles demo_db),
     db_referrals := [\<lparr>ref_id = ''R'', ref_referrerId = ''b'', ref_refereeId = ''l'', ref_referralCode = ''TL222222'',
       ref_status = ReferralPending, ref_qualifyingLoanId = None\<rparr>], db_loans := [demo_loan 0]\<rparr>"

lemma demo_referred_ok: "referrals_ok demo_referred"
proof -
  have "isValidReferralCode ''TL222222''"
    by code_simp
  then show ?thesis
    by (simp add: referrals_ok_def codes_ok_def code_of_def demo_referred_def demo_db_def empty_db_def demo_profile_def
        demo_borrower_def demo_lender_def)
qed

theorem attributed_once_for_good_witness:
  "\<exists>db'. referral_step\<^sup>*\<^sup>* demo_referred db' \<and> map ref_status (db_referrals db') = [ReferralQualified]
    \<and> referrals_ok db' \<and> attributions_kept demo_referred db'"
proof -
  let ?db = "snd (qualifyReferralForLoan ''l'' ''L'' demo_referred)"
  have run: "referral_step\<^sup>*\<^sup>* demo_referred ?db"
    by (blast intro: referral_step.loan_funded)
  have "map ref_status (db_referrals ?db) = [ReferralQualified]"
    by (simp add: qualifyReferralForLoan_def qualify_referral_def demo_referred_def update_where_def demo_loan_def)
  with run attributed_once_for_good [OF run demo_referred_ok] show ?thesis
    by (intro exI [of _ ?db]) simp
qed

end
