(* ===== verification/EnvFile.thy ===== *)
theory EnvFile
  imports JsValue
begin

text \<open>
  Reading and rewriting env files, \<open>src/lib/deployment/env-file.ts\<close>. A record of variables that is
  iterated over is the list of its entries, in order; a record that is only looked up is a map. The
  default section header holds the date of the run: the header is a parameter.
\<close>

abbreviation (input) LF :: char where "LF \<equiv> CHR 0x0A"
abbreviation (input) CR :: char where "CR \<equiv> CHR 0x0D"

subsection \<open>Lines\<close>

text \<open>\<open>split(/\r?\n/)\<close> and \<open>join\<close>\<close>

fun split_lines :: "string \<Rightarrow> string list" where
  "split_lines [] = [[]]"
| "split_lines (c # s) =
     (if c = LF then [] # split_lines s
      else if c = CR \<and> s \<noteq> [] \<and> hd s = LF then [] # split_lines (tl s)
      else (case split_lines s of [] \<Rightarrow> [[c]] | l # ls \<Rightarrow> (c # l) # ls))"

fun join_lines :: "string \<Rightarrow> string list \<Rightarrow> string" where
  "join_lines sep [] = []"
| "join_lines sep [l] = l"
| "join_lines sep (l # m # ls) = l @ sep @ join_lines sep (m # ls)"

subsection \<open>Assignments\<close>

definition env_start :: "char \<Rightarrow> bool" where
  "env_start c = (let n = (of_char c :: nat) in (65 \<le> n \<and> n \<le> 90) \<or> (97 \<le> n \<and> n \<le> 122) \<or> n = 95)"

definition env_char :: "char \<Rightarrow> bool" where
  "env_char c = (env_start c \<or> is_digit c)"

text \<open>
  The pattern \<open>ASSIGNMENT\<close>: indentation, an optional \<open>export\<close>, a key, white space, an equals sign and
  the rest, in which the pattern allows no line terminator. The groups are the longest runs, since
  what follows each of them cannot start inside it; a key that is \<open>export\<close> itself is the second try.
\<close>

definition key_and_value :: "string \<Rightarrow> (string \<times> string) option" where
  "key_and_value s =
     (let key = takeWhile env_char s;
          rest = dropWhile js_space (dropWhile env_char s)
      in if key \<noteq> [] \<and> env_start (hd key) \<and> rest \<noteq> [] \<and> hd rest = CHR ''=''
            \<and> list_all (\<lambda>c. c \<noteq> LF \<and> c \<noteq> CR) (tl rest)
         then Some (key, tl rest) else None)"

definition after_export :: "string \<Rightarrow> string option" where
  "after_export s =
     (if is_prefix ''export'' s \<and> drop 6 s \<noteq> [] \<and> js_space (hd (drop 6 s)) then Some (dropWhile js_space (drop 6 s)) else None)"

definition match_assignment :: "string \<Rightarrow> (string \<times> string \<times> string) option" where
  "match_assignment line =
     (let indent = takeWhile js_space line; s = dropWhile js_space line in
      case Option.bind (after_export s) key_and_value of
        Some (key, value) \<Rightarrow> Some (indent, key, value)
      | None \<Rightarrow> map_option (\<lambda>(key, value). (indent, key, value)) (key_and_value s))"

subsection \<open>Reading\<close>

definition unquote :: "string \<Rightarrow> string" where
  "unquote value =
     (if 2 \<le> length value \<and> hd value = last value \<and> (hd value = CHR 0x22 \<or> hd value = CHR 0x27)
      then butlast (tl value) else value)"

text \<open>Assigning a string to \<open>__proto__\<close> of an object does nothing.\<close>

definition env_line :: "(string \<rightharpoonup> string) \<Rightarrow> string \<Rightarrow> (string \<rightharpoonup> string)" where
  "env_line env rawLine =
     (let line = js_trim rawLine in
      if line = [] \<or> is_prefix ''#'' line then env
      else case match_assignment rawLine of
        None \<Rightarrow> env
      | Some (_, key, value) \<Rightarrow> if key = ''__proto__'' then env else env(key \<mapsto> unquote (js_trim value)))"

definition parseEnvFile :: "string \<Rightarrow> (string \<rightharpoonup> string)" where
  "parseEnvFile content = foldl env_line Map.empty (split_lines content)"

subsection \<open>Writing\<close>

definition needs_quotes :: "string \<Rightarrow> bool" where
  "needs_quotes value = list_ex (\<lambda>c. js_space c \<or> c = CHR ''#'' \<or> c = CHR 0x27 \<or> c = CHR 0x22) value"

definition escape_value :: "string \<Rightarrow> string" where
  "escape_value value = concat (map (\<lambda>c. if c = CHR 0x22 \<or> c = CHR 0x5C then [CHR 0x5C, c] else [c]) value)"

definition quoteEnvValue :: "string \<Rightarrow> string" where
  "quoteEnvValue value =
     (if value = [] then [] else if needs_quotes value then CHR 0x22 # escape_value value @ [CHR 0x22] else value)"

definition assignment :: "string \<times> string \<Rightarrow> string" where
  "assignment entry = fst entry @ ''='' @ quoteEnvValue (snd entry)"

text \<open>
  The test \<open>key in updates\<close> also finds what every object inherits; quoting that is an error, \<open>None\<close>,
  for it is not a string.
\<close>

definition object_members :: "string list" where
  "object_members = [''constructor'', ''__defineGetter__'', ''__defineSetter__'', ''hasOwnProperty'', ''__lookupGetter__'',
     ''__lookupSetter__'', ''isPrototypeOf'', ''propertyIsEnumerable'', ''toString'', ''valueOf'', ''__proto__'', ''toLocaleString'']"

definition rewrite_line :: "(string \<times> string) list \<Rightarrow> string \<Rightarrow> string option" where
  "rewrite_line updates line =
     (case match_assignment line of
        None \<Rightarrow> Some line
      | Some (indent, key, _) \<Rightarrow>
          (case map_of updates key of
             Some value \<Rightarrow>
               Some (indent @ (if after_export (dropWhile js_space line) \<noteq> None then ''export '' else [])
                 @ assignment (key, value))
           | None \<Rightarrow> if key \<in> set object_members then None else Some line))"

definition assigned_keys :: "string list \<Rightarrow> string list" where
  "assigned_keys ls = List.map_filter (\<lambda>line. map_option (\<lambda>(_, key, _). key) (match_assignment line)) ls"

definition drop_blank_end :: "string list \<Rightarrow> string list" where
  "drop_blank_end ls = rev (dropWhile (\<lambda>line. js_trim line = []) (rev ls))"

definition upsertEnvVars :: "string \<Rightarrow> (string \<times> string) list \<Rightarrow> string \<Rightarrow> string option" where
  "upsertEnvVars content updates header =
     (if updates = [] then Some content
      else
        let newline = (if js_includes content [CR, LF] then [CR, LF] else [LF]);
            ls = split_lines content;
            pending = filter (\<lambda>(key, _). key \<notin> set (assigned_keys ls)) updates
        in case those (map (rewrite_line updates) ls) of
             None \<Rightarrow> None
           | Some rewritten \<Rightarrow>
               if pending = [] then Some (join_lines newline rewritten)
               else
                 let kept = drop_blank_end rewritten;
                     block = (if kept \<noteq> [] then [[], header] else [header]) @ map assignment pending
                 in Some (join_lines newline (kept @ block) @ newline))"

definition formatEnvFile :: "(string \<times> string) list \<Rightarrow> string option \<Rightarrow> string" where
  "formatEnvFile vars header =
     join_lines [LF] ((case header of Some h \<Rightarrow> if h = [] then [] else [h, []] | None \<Rightarrow> []) @ map assignment vars) @ [LF]"

end
