(* ===== verification/Deployment.thy ===== *)
theory Deployment
  imports EnvFile Server
begin

text \<open>
  The deployment script, \<open>src/scripts/deploy-testnet.ts\<close>, and its list of contracts,
  \<open>src/lib/deployment/contracts-manifest.ts\<close>: what it asks of the Stellar command line, what it records for
  \<open>--resume\<close>, and the files it writes. The command line is a parameter: what a command answers after the commands
  before it, or that it fails. Console output, labels and the directory of the generated bindings are left out.
\<close>

subsection \<open>The contracts\<close>

record contract_spec =
  cs_key :: string
  cs_wasm :: string
  cs_envVar :: string
  cs_required :: bool

definition contract_spec_of :: "string \<times> string \<times> string \<times> bool \<Rightarrow> contract_spec" where
  "contract_spec_of = (\<lambda>(key, wasm, envVar, required).
     \<lparr>cs_key = key, cs_wasm = wasm, cs_envVar = envVar, cs_required = required\<rparr>)"

definition CONTRACTS :: "contract_spec list" where
  "CONTRACTS = map contract_spec_of
     [(''reputation'', ''borrower_reputation.wasm'', ''NEXT_PUBLIC_REPUTATION_CONTRACT_ID'', True),
      (''escrow'', ''escrow.wasm'', ''NEXT_PUBLIC_ESCROW_CONTRACT_ID'', True),
      (''lending'', ''lending.wasm'', ''NEXT_PUBLIC_LENDING_CONTRACT_ID'', True),
      (''default_management'', ''default_management.wasm'', ''NEXT_PUBLIC_DEFAULT_CONTRACT_ID'', True),
      (''pooled_lending'', ''pooled_lending.wasm'', ''NEXT_PUBLIC_POOLED_LENDING_CONTRACT_ID'', True),
      (''governance'', ''governance.wasm'', ''NEXT_PUBLIC_GOVERNANCE_CONTRACT_ID'', True),
      (''multisig_admin'', ''multisig_admin.wasm'', ''NEXT_PUBLIC_MULTISIG_ADMIN_CONTRACT_ID'', True),
      (''tlend_token'', ''tlend_token.wasm'', ''NEXT_PUBLIC_TLEND_TOKEN_CONTRACT_ID'', False),
      (''tlend_vesting'', ''tlend_vesting.wasm'', ''NEXT_PUBLIC_TLEND_VESTING_CONTRACT_ID'', False),
      (''tlend_airdrop'', ''tlend_airdrop.wasm'', ''NEXT_PUBLIC_TLEND_AIRDROP_CONTRACT_ID'', False),
      (''referral_rewards'', ''referral_rewards.wasm'', ''NEXT_PUBLIC_REFERRAL_REWARDS_CONTRACT_ID'', False),
      (''borrower_loyalty'', ''borrower_loyalty.wasm'', ''NEXT_PUBLIC_BORROWER_LOYALTY_CONTRACT_ID'', False),
      (''treasury'', ''treasury.wasm'', ''NEXT_PUBLIC_TREASURY_CONTRACT_ID'', False),
      (''auto_compound_vault'', ''auto_compound_vault.wasm'', ''NEXT_PUBLIC_AUTO_COMPOUND_VAULT_CONTRACT_ID'', False),
      (''liquidation_auction'', ''liquidation_auction.wasm'', ''NEXT_PUBLIC_LIQUIDATION_AUCTION_CONTRACT_ID'', False),
      (''usdc_lending_pool'', ''usdc_lending_pool.wasm'', ''NEXT_PUBLIC_USDC_LENDING_POOL_CONTRACT_ID'', False),
      (''zk_credit_verifier'', ''zk_credit_verifier.wasm'', ''NEXT_PUBLIC_ZK_CREDIT_VERIFIER_CONTRACT_ID'', False)]"

definition CONTRACT_KEYS :: "string list" where
  "CONTRACT_KEYS = map cs_key CONTRACTS"

definition selectContracts :: "string option \<Rightarrow> contract_spec list \<times> string list" where
  "selectContracts only =
     (case only of
        None \<Rightarrow> (CONTRACTS, [])
      | Some list \<Rightarrow>
          if js_trim list = [] then (CONTRACTS, [])
          else (let requested = filter (\<lambda>s. s \<noteq> []) (map js_trim (split_commas list))
                in (filter (\<lambda>contract. cs_key contract \<in> set requested) CONTRACTS,
                    filter (\<lambda>key. key \<notin> set CONTRACT_KEYS) requested)))"

subsection \<open>Options\<close>

record deploy_options =
  do_network :: string
  do_adminKey :: string
  do_envFile :: string
  do_only :: "string option"
  do_skipBuild :: bool
  do_skipBindings :: bool
  do_skipInit :: bool
  do_dryRun :: bool
  do_resume :: bool

definition default_options :: deploy_options where
  "default_options = \<lparr>do_network = ''testnet'', do_adminKey = ''trustlend-admin'', do_envFile = ''.env.local'', do_only = None,
     do_skipBuild = False, do_skipBindings = False, do_skipInit = False, do_dryRun = False, do_resume = False\<rparr>"

datatype args_result = Parsed deploy_options | ShowHelp | MissingValue string | UnknownOption string

text \<open>Splitting an argument takes an equals sign away; everything else takes an argument away.\<close>

definition equals_signs :: "string list \<Rightarrow> nat" where
  "equals_signs args = sum_list (map (\<lambda>arg. count_list arg (CHR ''='')) args)"

lemma split_equals: "CHR ''='' \<in> set arg \<Longrightarrow>
    count_list (takeWhile (\<lambda>c. c \<noteq> CHR ''='') arg) (CHR ''='') + count_list (tl (dropWhile (\<lambda>c. c \<noteq> CHR ''='') arg)) (CHR ''='')
      < count_list arg (CHR ''='')"
  by (induction arg) auto

text \<open>An argument \<open>--flag=value\<close> is replaced by its two parts and read again.\<close>

function parse_args :: "deploy_options \<Rightarrow> string list \<Rightarrow> args_result" where
  "parse_args options [] = Parsed options"
| "parse_args options (arg # rest) =
     (let next = (\<lambda>store. case rest of [] \<Rightarrow> MissingValue arg | value # rest' \<Rightarrow> parse_args (store value options) rest')
      in if arg = ''--network'' then next (\<lambda>v o1. o1\<lparr>do_network := v\<rparr>)
         else if arg = ''--admin-key'' then next (\<lambda>v o1. o1\<lparr>do_adminKey := v\<rparr>)
         else if arg = ''--env-file'' \<or> arg = ''--out-env'' then next (\<lambda>v o1. o1\<lparr>do_envFile := v\<rparr>)
         else if arg = ''--only'' then next (\<lambda>v o1. o1\<lparr>do_only := Some v\<rparr>)
         else if arg = ''--skip-build'' then parse_args (options\<lparr>do_skipBuild := True\<rparr>) rest
         else if arg = ''--skip-init'' then parse_args (options\<lparr>do_skipInit := True\<rparr>) rest
         else if arg = ''--skip-bindings'' then parse_args (options\<lparr>do_skipBindings := True\<rparr>) rest
         else if arg = ''--resume'' then parse_args (options\<lparr>do_resume := True\<rparr>) rest
         else if arg = ''--dry-run'' then parse_args (options\<lparr>do_dryRun := True\<rparr>) rest
         else if arg = ''-h'' \<or> arg = ''--help'' then ShowHelp
         else if is_prefix ''--'' arg \<and> CHR ''='' \<in> set arg
           then parse_args options (takeWhile (\<lambda>c. c \<noteq> CHR ''='') arg # tl (dropWhile (\<lambda>c. c \<noteq> CHR ''='') arg) # rest)
         else UnknownOption arg)"
  by pat_completeness auto

termination
  by (relation "measures [\<lambda>(_, args). equals_signs args, \<lambda>(_, args). length args]")
    (auto simp: equals_signs_def dest: split_equals)

declare parse_args.simps [simp del]

definition parseArgs :: "string list \<Rightarrow> args_result" where
  "parseArgs argv = parse_args default_options argv"

subsection \<open>Running commands\<close>

text \<open>
  The arguments of a \<open>stellar\<close> command, and what the command line answers to it after the commands before it: the
  output, or that it could not be run or failed, \<open>None\<close>.
\<close>

type_synonym command = "string list"
type_synonym shell = "command list \<Rightarrow> command \<Rightarrow> string option"

text \<open>What the script gets from outside: the shell, files, the network, the SDK and the environment variables\<close>

record deploy_ctx =
  dc_shell :: shell
  dc_cliExists :: bool
  dc_wasmExists :: "string \<Rightarrow> bool"
  dc_horizonStatus :: "string \<Rightarrow> nat option"
  dc_friendbotOk :: "string \<Rightarrow> bool"
  dc_nativeContract :: "string \<Rightarrow> string"
  dc_header :: "string \<Rightarrow> string"
  dc_var :: "string \<rightharpoonup> string"

text \<open>The commands run so far, the recorded state of each network, and the files the script writes\<close>

type_synonym contract_ids = "string \<rightharpoonup> string"

record deploy_world =
  dw_log :: "command list"
  dw_state :: "string \<rightharpoonup> contract_ids"
  dw_files :: "string \<rightharpoonup> string"

definition run_stellar :: "deploy_ctx \<Rightarrow> deploy_options \<Rightarrow> bool \<Rightarrow> bool \<Rightarrow> command \<Rightarrow> command list
    \<Rightarrow> string option \<times> command list" where
  "run_stellar c options capture allowFailure args log1 =
     (if do_dryRun options then (Some (if capture then ''<dry-run:stellar>'' else []), log1)
      else case dc_shell c log1 args of
        None \<Rightarrow> (if allowFailure then Some [] else None, log1 @ [args])
      | Some out \<Rightarrow> (Some (if capture then js_trim out else []), log1 @ [args]))"

subsection \<open>Prerequisites\<close>

text \<open>The digits of the first match of \<open>(\d+)\.\<close>\<close>

fun first_major :: "string \<Rightarrow> string option" where
  "first_major [] = None"
| "first_major (x # s) =
     (let digits = takeWhile is_digit (x # s); rest = dropWhile is_digit (x # s)
      in if digits \<noteq> [] \<and> rest \<noteq> [] \<and> hd rest = CHR ''.'' then Some digits else first_major s)"

definition version_ok :: "string \<Rightarrow> bool" where
  "version_ok version =
     (let major = (case first_major version of None \<Rightarrow> Fin 0 | Some d \<Rightarrow> string_to_number d)
      in \<not> (jlt (Fin 0) major \<and> jlt major (Fin 22)))"

definition checkStellarCli :: "deploy_ctx \<Rightarrow> deploy_options \<Rightarrow> command list \<Rightarrow> bool \<times> command list" where
  "checkStellarCli c options log1 =
     (if do_dryRun options then (True, log1)
      else if \<not> dc_cliExists c then (False, log1)
      else case run_stellar c options True False [''--version''] log1 of
        (None, log2) \<Rightarrow> (False, log2)
      | (Some version, log2) \<Rightarrow> (version_ok version, log2))"

definition ensureAdminIdentity :: "deploy_ctx \<Rightarrow> deploy_options \<Rightarrow> command list \<Rightarrow> string option \<times> command list" where
  "ensureAdminIdentity c options log1 =
     (let ask = [''keys'', ''address'', do_adminKey options] in
      case run_stellar c options True True ask log1 of
        (None, log2) \<Rightarrow> (None, log2)
      | (Some existing, log2) \<Rightarrow>
          if is_prefix ''G'' existing then (Some existing, log2)
          else (case run_stellar c options False False
                  [''keys'', ''generate'', do_adminKey options, ''--global'', ''--network'', do_network options] log2 of
             (None, log3) \<Rightarrow> (None, log3)
           | (Some _, log3) \<Rightarrow>
               (case run_stellar c options True False ask log3 of
                  (None, log4) \<Rightarrow> (None, log4)
                | (Some address, log4) \<Rightarrow>
                    (if \<not> do_dryRun options \<and> \<not> is_prefix ''G'' address then None else Some address, log4))))"

definition ensureFunded :: "deploy_ctx \<Rightarrow> deploy_options \<Rightarrow> string \<Rightarrow> bool" where
  "ensureFunded c options address =
     (if do_dryRun options \<or> do_network options \<notin> {''testnet'', ''futurenet''} then True
      else case dc_horizonStatus c address of
        None \<Rightarrow> True
      | Some status \<Rightarrow> status \<noteq> 404 \<or> dc_friendbotOk c address)"

subsection \<open>Deploying\<close>

definition has :: "contract_ids \<Rightarrow> string \<Rightarrow> bool" where
  "has ids key = truthy_opt (ids key)"

definition last_line :: "string \<Rightarrow> string" where
  "last_line out = (case rev (filter (\<lambda>l. l \<noteq> []) (split_lines out)) of [] \<Rightarrow> [] | l # _ \<Rightarrow> l)"

definition is_contract_id :: "string \<Rightarrow> bool" where
  "is_contract_id s \<longleftrightarrow> length s = 56 \<and> hd s = CHR ''C''
     \<and> list_all (\<lambda>x. is_digit x \<or> (let n = (of_char x :: nat) in 65 \<le> n \<and> n \<le> 90)) (tl s)"

definition deploy_command :: "deploy_options \<Rightarrow> contract_spec \<Rightarrow> command" where
  "deploy_command options spec =
     [''contract'', ''deploy'', ''--wasm'', cs_wasm spec, ''--network'', do_network options, ''--source'', do_adminKey options]"

definition deployContract :: "deploy_ctx \<Rightarrow> deploy_options \<Rightarrow> contract_spec \<Rightarrow> command list \<Rightarrow> string option \<times> command list" where
  "deployContract c options spec log1 =
     (if \<not> do_dryRun options \<and> \<not> dc_wasmExists c (cs_wasm spec) then (None, log1)
      else case run_stellar c options True False (deploy_command options spec) log1 of
        (None, log2) \<Rightarrow> (None, log2)
      | (Some out, log2) \<Rightarrow>
          (if \<not> do_dryRun options \<and> \<not> is_contract_id (last_line out) then None else Some (last_line out), log2))"

definition writeState :: "deploy_options \<Rightarrow> contract_ids \<Rightarrow> deploy_world \<Rightarrow> deploy_world" where
  "writeState options ids w =
     (if do_dryRun options then w else w\<lparr>dw_state := (dw_state w)(do_network options \<mapsto> ids)\<rparr>)"

fun deploy_all :: "deploy_ctx \<Rightarrow> deploy_options \<Rightarrow> contract_spec list \<Rightarrow> contract_ids \<Rightarrow> deploy_world
    \<Rightarrow> contract_ids option \<times> deploy_world" where
  "deploy_all c options [] ids w = (Some ids, w)"
| "deploy_all c options (spec # toDeploy) ids w =
     (case deployContract c options spec (dw_log w) of
        (None, log2) \<Rightarrow> (None, w\<lparr>dw_log := log2\<rparr>)
      | (Some cid, log2) \<Rightarrow>
          (let ids' = ids(cs_key spec \<mapsto> cid)
           in deploy_all c options toDeploy ids' (writeState options ids' (w\<lparr>dw_log := log2\<rparr>))))"

subsection \<open>Initializing\<close>

text \<open>
  The calls of contracts are laid out as steps, in the order the functions make them: a call, a proposal that is executed
  at once, or the end of the script.
\<close>

datatype init_step = Invoke string string "string list" | ProposeAndExecute string string | Die

definition id_of :: "contract_ids \<Rightarrow> string \<Rightarrow> string" where
  "id_of ids key = (case ids key of Some s \<Rightarrow> s | None \<Rightarrow> [])"

definition var_or :: "deploy_ctx \<Rightarrow> string \<Rightarrow> string \<Rightarrow> string" where
  "var_or c name fallback = (case dc_var c name of Some s \<Rightarrow> s | None \<Rightarrow> fallback)"

text \<open>\<open>JSON.stringify\<close> of texts, on the characters that occur\<close>

definition json_string :: "string \<Rightarrow> string" where
  "json_string s = CHR 0x22 # concat (map (\<lambda>x. if x = CHR 0x22 \<or> x = CHR 0x5C then [CHR 0x5C, x] else [x]) s) @ [CHR 0x22]"

fun json_items :: "string list \<Rightarrow> string" where
  "json_items [] = []"
| "json_items [s] = s"
| "json_items (s # t # ss) = s @ '','' @ json_items (t # ss)"

definition json_texts :: "string list \<Rightarrow> string" where
  "json_texts ss = ''['' @ json_items (map json_string ss) @ '']''"

definition json_fields :: "(string \<times> string) list \<Rightarrow> string" where
  "json_fields kvs = ''{'' @ json_items (map (\<lambda>(k, v). json_string k @ '':'' @ v) kvs) @ ''}''"

definition nativeAssetContractId :: "deploy_ctx \<Rightarrow> string \<Rightarrow> string" where
  "nativeAssetContractId c network =
     dc_nativeContract c (var_or c ''NEXT_PUBLIC_STELLAR_NETWORK_PASSPHRASE''
       (if network = ''futurenet'' then ''Test SDF Future Network ; October 2022''
        else if network = ''mainnet'' \<or> network = ''public'' then ''Public Global Stellar Network ; September 2015''
        else ''Test SDF Network ; September 2015''))"

definition multisig_signers :: "deploy_ctx \<Rightarrow> string \<Rightarrow> string list" where
  "multisig_signers c admin = filter (\<lambda>s. s \<noteq> []) (map js_trim (split_commas (var_or c ''MULTISIG_SIGNERS'' admin)))"

definition threshold_invalid :: "string \<Rightarrow> string list \<Rightarrow> bool" where
  "threshold_invalid threshold signers \<longleftrightarrow>
     jlt (string_to_number threshold) (Fin 1) \<or> jlt (Fin (of_nat (length signers))) (string_to_number threshold)"

definition initializeMultisig :: "deploy_ctx \<Rightarrow> contract_ids \<Rightarrow> string \<Rightarrow> init_step list" where
  "initializeMultisig c ids admin =
     (let signers = multisig_signers c admin;
          threshold = var_or c ''MULTISIG_THRESHOLD'' ''1'';
          multisig = id_of ids ''multisig_admin''
      in if threshold_invalid threshold signers then [Die]
         else
           [Invoke multisig ''initialize'' [''--signers'', json_texts signers, ''--threshold'', threshold]]
           @ map (\<lambda>key. Invoke (id_of ids key) ''set_multisig_admin'' [''--admin'', admin, ''--multisig'', multisig])
               (filter (has ids) [''lending'', ''default_management'', ''reputation''])
           @ (if has ids ''governance'' \<and> has ids ''lending''
              then [ProposeAndExecute multisig
                (json_fields [(''SetGovernance'', json_texts [id_of ids ''lending'', id_of ids ''governance''])])] else [])
           @ (if truthy_opt (dc_var c ''ORACLE_ADDRESS'') \<and> has ids ''reputation''
              then [ProposeAndExecute multisig
                (json_fields [(''SetOracle'', json_texts [id_of ids ''reputation'', var_or c ''ORACLE_ADDRESS'' []])])] else []))"

definition initializeTlend :: "deploy_ctx \<Rightarrow> contract_ids \<Rightarrow> string \<Rightarrow> init_step list" where
  "initializeTlend c ids admin =
     (let token = id_of ids ''tlend_token'' in
      [Invoke token ''initialize'' [''--admin'', admin, ''--decimals'', ''7'', ''--name'', ''TrustLend'', ''--symbol'', ''TLEND''],
       Invoke token ''mint'' [''--to'', admin, ''--amount'', var_or c ''TLEND_TOTAL_SUPPLY'' ''1000000000000'']]
      @ (if has ids ''tlend_vesting''
         then [Invoke (id_of ids ''tlend_vesting'') ''initialize'' [''--admin'', admin, ''--token'', token]] else [])
      @ (if has ids ''tlend_airdrop'' \<and> truthy_opt (dc_var c ''TLEND_AIRDROP_MERKLE_ROOT'')
         then [Invoke (id_of ids ''tlend_airdrop'') ''initialize''
           [''--admin'', admin, ''--token'', token, ''--merkle_root'', var_or c ''TLEND_AIRDROP_MERKLE_ROOT'' []]] else []))"

definition referral_config :: string where
  "referral_config = json_fields [(''base_bonus'', json_string ''100000000''), (''reference_loan_amount'', json_string ''1000000000''),
     (''max_size_multiplier_bps'', ''30000''), (''min_qualifying_loan'', json_string ''100000000''),
     (''max_referrals_per_referrer'', ''0'')]"

definition loyalty_config :: string where
  "loyalty_config = json_fields [(''base_amount'', json_string ''50000000''), (''reference_loan_amount'', json_string ''1000000000''),
     (''max_duration_multiplier_bps'', ''20000''), (''tier_none_multiplier_bps'', ''10000''),
     (''tier_beginner_multiplier_bps'', ''11000''), (''tier_silver_multiplier_bps'', ''12500''),
     (''tier_gold_multiplier_bps'', ''15000''), (''tier_platinum_multiplier_bps'', ''20000'')]"

definition initializeSatellites :: "deploy_ctx \<Rightarrow> deploy_options \<Rightarrow> contract_ids \<Rightarrow> string \<Rightarrow> init_step list" where
  "initializeSatellites c options ids admin =
     (let xlm = nativeAssetContractId c (do_network options);
          rewardToken = (if has ids ''tlend_token'' then id_of ids ''tlend_token'' else xlm);
          lending = id_of ids ''lending''
      in (if has ids ''lending'' \<and> has ids ''multisig_admin''
          then [ProposeAndExecute (id_of ids ''multisig_admin'') (json_fields [(''WhitelistAsset'', json_texts [lending, xlm])])] else [])
         @ (if has ids ''referral_rewards'' \<and> has ids ''lending''
            then [Invoke (id_of ids ''referral_rewards'') ''initialize'' [''--admin'', admin, ''--reward_token'', rewardToken,
                    ''--lending_contract'', lending, ''--config'', referral_config],
                  Invoke lending ''set_referral_contract'' [''--admin'', admin, ''--referral'', id_of ids ''referral_rewards'']] else [])
         @ (if has ids ''borrower_loyalty'' \<and> has ids ''lending''
            then [Invoke (id_of ids ''borrower_loyalty'') ''initialize'' [''--admin'', admin, ''--reward_token'', rewardToken,
                    ''--lending_contract'', lending, ''--config'', loyalty_config],
                  Invoke lending ''set_loyalty_contract'' [''--admin'', admin, ''--loyalty'', id_of ids ''borrower_loyalty'']] else [])
         @ (if has ids ''treasury''
            then [Invoke (id_of ids ''treasury'') ''initialize'' [''--admin'', admin,
                    ''--insurance_fund'', var_or c ''INSURANCE_FUND_ADDRESS''
                      (case ids ''default_management'' of Some s \<Rightarrow> s | None \<Rightarrow> admin),
                    ''--dao_treasury'', var_or c ''DAO_TREASURY_ADDRESS'' admin,
                    ''--insurance_share_bps'', ''5000'', ''--dao_share_bps'', ''5000'']]
                 @ (if has ids ''lending''
                    then [Invoke lending ''set_treasury'' [''--admin'', admin, ''--treasury'', id_of ids ''treasury''],
                          Invoke lending ''set_fee_token'' [''--admin'', admin, ''--fee_token'', xlm],
                          Invoke (id_of ids ''treasury'') ''set_lending_contract'' [''--caller'', admin, ''--lending_contract'', lending]]
                    else []) else [])
         @ (if has ids ''auto_compound_vault'' \<and> has ids ''lending''
            then [Invoke (id_of ids ''auto_compound_vault'') ''initialize'' [''--admin'', admin, ''--asset_token'', xlm,
                    ''--lending_contract'', lending, ''--harvest_fee_bps'', ''100'']] else [])
         @ (if has ids ''liquidation_auction''
            then [Invoke (id_of ids ''liquidation_auction'') ''initialize'' [''--admin'', admin]] else [])
         @ (if has ids ''zk_credit_verifier''
            then [Invoke (id_of ids ''zk_credit_verifier'') ''initialize'' [''--admin'', admin]] else [])
         @ (if has ids ''usdc_lending_pool'' \<and> truthy_opt (dc_var c ''USDC_TOKEN_ADDRESS'')
            then [Invoke (id_of ids ''usdc_lending_pool'') ''initialize'' [''--admin'', admin,
                    ''--usdc_token'', var_or c ''USDC_TOKEN_ADDRESS'' [], ''--annual_yield_bps'', ''800'']] else []))"

definition pool_config :: string where
  "pool_config = json_fields [(''base_rate_bps'', ''200''), (''multiplier_per_slope_bps'', ''1000''),
     (''jump_multiplier_bps'', ''10000''), (''kink_bps'', ''8000''), (''reserve_factor_bps'', ''1000'')]"

definition initializeContracts :: "deploy_ctx \<Rightarrow> deploy_options \<Rightarrow> contract_ids \<Rightarrow> string \<Rightarrow> init_step list" where
  "initializeContracts c options ids admin =
     (let lending = id_of ids ''lending''; reputation = id_of ids ''reputation'' in
      (if has ids ''reputation'' then [Invoke reputation ''initialize'' [''--admin'', admin]] else [])
      @ (if has ids ''escrow'' then [Invoke (id_of ids ''escrow'') ''initialize'' [''--admin'', admin]] else [])
      @ (if has ids ''lending''
         then Invoke lending ''initialize'' [''--admin'', admin]
           # (if has ids ''reputation''
              then [Invoke lending ''set_reputation_contract'' [''--admin'', admin, ''--reputation'', reputation]] else []) else [])
      @ (if has ids ''default_management''
         then [Invoke (id_of ids ''default_management'') ''initialize'' [''--admin'', admin, ''--initial_insurance_balance'', ''0'']] else [])
      @ (if has ids ''pooled_lending''
         then [Invoke (id_of ids ''pooled_lending'') ''initialize'' [''--admin'', admin, ''--pool_id'', ''0'', ''--config'', pool_config]] else [])
      @ (if has ids ''governance''
         then (if \<not> has ids ''lending'' \<or> \<not> has ids ''reputation'' then [Die]
           else [Invoke (id_of ids ''governance'') ''initialize'' [''--admin'', admin, ''--lending'', lending, ''--reputation'', reputation,
             ''--voting_period_secs'', ''259200'', ''--quorum_votes'', ''500'', ''--min_proposer_power'', ''150'', ''--max_fee_bps'', ''1000'']]) else [])
      @ (if has ids ''multisig_admin'' then initializeMultisig c ids admin else [])
      @ (if has ids ''tlend_token'' then initializeTlend c ids admin else [])
      @ initializeSatellites c options ids admin)"

text \<open>Running the steps: whether the script gets to their end, and the commands\<close>

definition invoke_command :: "deploy_options \<Rightarrow> string \<Rightarrow> string \<Rightarrow> string list \<Rightarrow> command" where
  "invoke_command options contractId fn args =
     [''contract'', ''invoke'', ''--id'', contractId, ''--source'', do_adminKey options, ''--network'', do_network options, ''--'', fn] @ args"

definition run_step :: "deploy_ctx \<Rightarrow> deploy_options \<Rightarrow> string \<Rightarrow> init_step \<Rightarrow> command list \<Rightarrow> bool \<times> command list" where
  "run_step c options admin step log1 =
     (case step of
        Die \<Rightarrow> (False, log1)
      | Invoke contractId fn args \<Rightarrow>
          (case run_stellar c options False False (invoke_command options contractId fn args) log1 of
             (out, log2) \<Rightarrow> (out \<noteq> None, log2))
      | ProposeAndExecute multisig action \<Rightarrow>
          (case run_stellar c options True False
              (invoke_command options multisig ''propose'' [''--proposer'', admin, ''--action'', action]) log1 of
             (None, log2) \<Rightarrow> (False, log2)
           | (Some proposalId, log2) \<Rightarrow>
               if \<not> do_dryRun options \<and> last_line proposalId = [] then (True, log2)
               else (case run_stellar c options False False
                   (invoke_command options multisig ''execute'' [''--proposal_id'', last_line proposalId]) log2 of
                 (out, log3) \<Rightarrow> (out \<noteq> None, log3))))"

fun run_steps :: "deploy_ctx \<Rightarrow> deploy_options \<Rightarrow> string \<Rightarrow> init_step list \<Rightarrow> command list \<Rightarrow> bool \<times> command list" where
  "run_steps c options admin [] log1 = (True, log1)"
| "run_steps c options admin (step # steps) log1 =
     (case run_step c options admin step log1 of
        (False, log2) \<Rightarrow> (False, log2)
      | (True, log2) \<Rightarrow> run_steps c options admin steps log2)"

subsection \<open>Bindings, env files and the whole run\<close>

fun generateBindings :: "deploy_ctx \<Rightarrow> deploy_options \<Rightarrow> contract_ids \<Rightarrow> contract_spec list \<Rightarrow> command list \<Rightarrow> command list" where
  "generateBindings c options ids [] log1 = log1"
| "generateBindings c options ids (spec # specs) log1 =
     generateBindings c options ids specs
       (if has ids (cs_key spec)
        then snd (run_stellar c options False True [''contract'', ''bindings'', ''typescript'', ''--network'', do_network options,
          ''--id'', id_of ids (cs_key spec), ''--output-dir'', cs_key spec] log1)
        else log1)"

definition deployed_vars :: "deploy_ctx \<Rightarrow> contract_spec list \<Rightarrow> contract_ids \<Rightarrow> string \<Rightarrow> (string \<times> string) list" where
  "deployed_vars c selected ids admin =
     map (\<lambda>spec. (cs_envVar spec, id_of ids (cs_key spec))) (filter (\<lambda>spec. has ids (cs_key spec)) selected)
     @ [(''NEXT_PUBLIC_ADMIN_ADDRESS'', admin)]
     @ (if truthy_opt (dc_var c ''ORACLE_ADDRESS'') then [(''NEXT_PUBLIC_ORACLE_ADDRESS'', var_or c ''ORACLE_ADDRESS'' [])] else [])"

text \<open>\<open>None\<close> is the error of the merge, before anything is written.\<close>

definition writeEnvFiles :: "deploy_ctx \<Rightarrow> deploy_options \<Rightarrow> (string \<times> string) list \<Rightarrow> (string \<rightharpoonup> string) \<Rightarrow> (string \<rightharpoonup> string) option" where
  "writeEnvFiles c options envVars files =
     (let path = do_envFile options;
          current = (case files path of Some content \<Rightarrow> content | None \<Rightarrow> []);
          header = dc_header c (do_network options)
      in case upsertEnvVars current envVars header of
           None \<Rightarrow> None
         | Some merged \<Rightarrow>
             if do_dryRun options then Some files
             else (let backed_up = (if js_trim current \<noteq> [] then files(path @ ''.bak'' \<mapsto> current) else files)
                   in Some (backed_up(path \<mapsto> merged, ''.env.contracts'' \<mapsto> formatEnvFile envVars (Some header)))))"

datatype deploy_outcome =
    UnknownContracts "string list" | NothingSelected | NoCli | NoIdentity | NotFunded
  | BuildFailed | DeployFailed | InitFailed | EnvFailed | Deployed string contract_ids

definition preflight :: "deploy_ctx \<Rightarrow> deploy_options \<Rightarrow> contract_spec list \<Rightarrow> string list \<Rightarrow> command list
    \<Rightarrow> (deploy_outcome + string) \<times> command list" where
  "preflight c options selected unknown log1 =
     (if unknown \<noteq> [] then (Inl (UnknownContracts unknown), log1)
      else if selected = [] then (Inl NothingSelected, log1)
      else case checkStellarCli c options log1 of
        (False, log2) \<Rightarrow> (Inl NoCli, log2)
      | (True, log2) \<Rightarrow>
          (case ensureAdminIdentity c options log2 of
             (None, log3) \<Rightarrow> (Inl NoIdentity, log3)
           | (Some admin, log3) \<Rightarrow> (if \<not> ensureFunded c options admin then Inl NotFunded else Inr admin, log3)))"

definition start_ids :: "deploy_options \<Rightarrow> deploy_world \<Rightarrow> contract_ids" where
  "start_ids options w =
     (if do_resume options then (case dw_state w (do_network options) of Some s \<Rightarrow> s | None \<Rightarrow> Map.empty) else Map.empty)"

definition to_deploy :: "deploy_options \<Rightarrow> contract_spec list \<Rightarrow> deploy_world \<Rightarrow> contract_spec list" where
  "to_deploy options selected w = filter (\<lambda>spec. \<not> has (start_ids options w) (cs_key spec)) selected"

definition buildContracts :: "deploy_ctx \<Rightarrow> deploy_options \<Rightarrow> contract_spec list \<Rightarrow> command list \<Rightarrow> bool \<times> command list" where
  "buildContracts c options toDeploy log1 =
     (if toDeploy = [] \<or> do_skipBuild options then (True, log1)
      else case run_stellar c options False False [''contract'', ''build''] log1 of (out, log2) \<Rightarrow> (out \<noteq> None, log2))"

definition initialize_phase :: "deploy_ctx \<Rightarrow> deploy_options \<Rightarrow> contract_spec list \<Rightarrow> contract_ids \<Rightarrow> string \<Rightarrow> command list
    \<Rightarrow> bool \<times> command list" where
  "initialize_phase c options toDeploy ids admin log1 =
     (if do_skipInit options \<or> toDeploy = [] then (True, log1)
      else run_steps c options admin (initializeContracts c options ids admin) log1)"

definition output_phase :: "deploy_ctx \<Rightarrow> deploy_options \<Rightarrow> contract_spec list \<Rightarrow> contract_ids \<Rightarrow> string \<Rightarrow> deploy_world
    \<Rightarrow> deploy_outcome \<times> deploy_world" where
  "output_phase c options selected ids admin w =
     (let w1 = (if do_skipBindings options then w else w\<lparr>dw_log := generateBindings c options ids selected (dw_log w)\<rparr>)
      in case writeEnvFiles c options (deployed_vars c selected ids admin) (dw_files w1) of
           None \<Rightarrow> (EnvFailed, w1)
         | Some files \<Rightarrow> (Deployed admin ids, w1\<lparr>dw_files := files\<rparr>))"

definition deploy_main :: "deploy_ctx \<Rightarrow> deploy_options \<Rightarrow> deploy_world \<Rightarrow> deploy_outcome \<times> deploy_world" where
  "deploy_main c options w =
     (let (selected, unknown) = selectContracts (do_only options) in
      case preflight c options selected unknown (dw_log w) of
        (Inl r, log1) \<Rightarrow> (r, w\<lparr>dw_log := log1\<rparr>)
      | (Inr admin, log1) \<Rightarrow>
          (let toDeploy = to_deploy options selected w in
           case buildContracts c options toDeploy log1 of
             (False, log2) \<Rightarrow> (BuildFailed, w\<lparr>dw_log := log2\<rparr>)
           | (True, log2) \<Rightarrow>
               (case deploy_all c options toDeploy (start_ids options w) (w\<lparr>dw_log := log2\<rparr>) of
                  (None, w1) \<Rightarrow> (DeployFailed, w1)
                | (Some ids, w1) \<Rightarrow>
                    (case initialize_phase c options toDeploy ids admin (dw_log w1) of
                       (False, log3) \<Rightarrow> (InitFailed, w1\<lparr>dw_log := log3\<rparr>)
                     | (True, log3) \<Rightarrow> output_phase c options selected ids admin (w1\<lparr>dw_log := log3\<rparr>)))))"

end
