(* ===== verification/EnvFileSafety.thy ===== *)
theory EnvFileSafety
  imports EnvFile ReferralCodes
begin

text \<open>
  What the deployment writes into an env file is what the file then says, and every other variable of the file
  keeps its value.
\<close>

subsection \<open>Lines\<close>

definition cr_end :: "string \<Rightarrow> bool" where
  "cr_end l \<longleftrightarrow> l \<noteq> [] \<and> last l = CR"

lemma split_lines_not_nil [simp]: "split_lines s \<noteq> []"
  by (induction s rule: split_lines.induct) (auto split: list.split)

lemma split_lines_end: "LF \<notin> set l \<Longrightarrow> split_lines l = [l]"
  by (induction l) (auto dest: hd_in_set)

lemma split_lines_LF: "LF \<notin> set l \<Longrightarrow> split_lines (l @ LF # s) = (if cr_end l then butlast l else l) # split_lines s"
proof (induction l)
  case (Cons c l)
  then show ?case
    by (cases l) (auto simp: cr_end_def)
qed (simp add: cr_end_def)

lemma split_join:
  assumes "ls \<noteq> []" "\<forall>l \<in> set ls. LF \<notin> set l" "sep = [CR, LF] \<or> (sep = [LF] \<and> (\<forall>l \<in> set (butlast ls). \<not> cr_end l))"
  shows "split_lines (join_lines sep ls) = ls"
  using assms
proof (induction sep ls rule: join_lines.induct)
  case (3 sep l m ls)
  then have rest: "split_lines (join_lines sep (m # ls)) = m # ls"
    by auto
  from 3 have "split_lines (l @ sep @ join_lines sep (m # ls)) = l # split_lines (join_lines sep (m # ls))"
    using split_lines_LF [of "l @ [CR]"] split_lines_LF [of l] by (auto simp: cr_end_def)
  with rest show ?case
    by simp
qed (simp_all add: split_lines_end)

lemma join_snoc: "ls \<noteq> [] \<Longrightarrow> join_lines sep (ls @ [[]]) = join_lines sep ls @ sep"
  by (induction sep ls rule: join_lines.induct) simp_all

lemma split_lines_no_LF: "l \<in> set (split_lines s) \<Longrightarrow> LF \<notin> set l"
  by (induction s arbitrary: l rule: split_lines.induct) (auto split: list.splits if_splits)

lemma split_lines_first: "s \<noteq> [] \<Longrightarrow> hd s \<noteq> LF \<Longrightarrow> \<not> is_prefix [CR, LF] s \<Longrightarrow> hd (split_lines s) \<noteq> []"
  by (cases s; cases "tl s") (auto split: list.split)

lemma split_lines_no_CR:
  assumes "\<not> js_includes s [CR, LF]" "\<not> cr_end s" "l \<in> set (split_lines s)"
  shows "\<not> cr_end l"
  using assms
proof (induction s arbitrary: l rule: split_lines.induct)
  case (2 c s)
  obtain m ms where m: "split_lines s = m # ms"
    using split_lines_not_nil [of s] by (cases "split_lines s") auto
  have s: "\<not> js_includes s [CR, LF]" "\<not> cr_end s" "\<not> (c = CR \<and> s \<noteq> [] \<and> hd s = LF)"
    using "2.prems"(1,2) by (cases s; auto simp: cr_end_def split: if_splits)+
  show ?case
  proof (cases "c = LF")
    case True
    with "2.IH"(1) "2.prems"(3) s show ?thesis
      by (auto simp: cr_end_def)
  next
    case False
    have IH: "\<not> cr_end k" if "k \<in> set (split_lines s)" for k
      using "2.IH"(3) [OF False s(3) s(1,2) that] .
    have "m \<noteq> []" if "s \<noteq> []" "c = CR"
      using split_lines_first [OF that(1)] s that m by (cases s) auto
    moreover have "c \<noteq> CR" if "s = []"
      using "2.prems"(2) that by (simp add: cr_end_def)
    moreover have "\<not> cr_end m"
      using IH m by simp
    ultimately have "\<not> cr_end (c # m)"
      by (cases "m = []"; cases "s = []") (auto simp: cr_end_def m)
    with False s(3) "2.prems"(3) m IH show ?thesis
      by auto
  qed
qed (simp add: cr_end_def)

subsection \<open>Values\<close>

text \<open>A value that is read back as it was written; a line break in it is another matter.\<close>

definition storable :: "string \<Rightarrow> bool" where
  "storable v \<longleftrightarrow> LF \<notin> set v \<and> CR \<notin> set v \<and> (needs_quotes v \<longrightarrow> CHR 0x22 \<notin> set v \<and> CHR 0x5C \<notin> set v)"

lemma quote_chars:
  "\<not> js_space (CHR 0x22)" "\<not> js_space (CHR ''='')" "\<not> env_char (CHR ''='')"
  by code_simp+

lemma env_char_no_space: "env_char c \<Longrightarrow> \<not> js_space c"
  by (auto simp: env_char_def env_start_def is_digit_def js_space_def Let_def)

lemma drop_none: "s \<noteq> [] \<Longrightarrow> \<not> P (hd s) \<Longrightarrow> dropWhile P s = s \<and> takeWhile P s = []"
  by (cases s) simp_all

lemma drop_to_last: "\<not> P c \<Longrightarrow> \<exists>u. dropWhile P (s @ [c]) = u @ [c]"
  by (induction s) auto

lemma trim_no_space_ends: "v = [] \<or> (\<not> js_space (hd v) \<and> \<not> js_space (last v)) \<Longrightarrow> js_trim v = v"
  using drop_none [of v js_space] drop_none [of "rev v" js_space] by (cases "v = []") (auto simp: js_trim_def hd_rev)

lemma escape_value_id: "escape_value v = v \<longleftrightarrow> CHR 0x22 \<notin> set v \<and> CHR 0x5C \<notin> set v"
proof (induction v)
  case (Cons c v)
  have "length (escape_value v) \<ge> length v"
    by (induction v) (auto simp: escape_value_def)
  with Cons show ?case
    by (auto simp: escape_value_def dest: arg_cong [of _ _ length])
qed (simp add: escape_value_def)

text \<open>
  A value survives being written and read, on its own, exactly when it needs no quotes or has neither a double quote nor
  a backslash: these are escaped in writing and not unescaped in reading.
\<close>

lemma value_read_back: "unquote (js_trim (quoteEnvValue v)) = v \<longleftrightarrow> (needs_quotes v \<longrightarrow> CHR 0x22 \<notin> set v \<and> CHR 0x5C \<notin> set v)"
proof (cases "needs_quotes v")
  case True
  then have "v \<noteq> []"
    by (auto simp: needs_quotes_def)
  with True have "js_trim (quoteEnvValue v) = CHR 0x22 # escape_value v @ [CHR 0x22]"
    by (simp add: quoteEnvValue_def trim_no_space_ends quote_chars)
  then show ?thesis
    using True by (simp add: unquote_def escape_value_id)
next
  case False
  then have plain: "\<forall>c \<in> set v. \<not> js_space c \<and> c \<noteq> CHR 0x22 \<and> c \<noteq> CHR 0x27"
    by (auto simp: needs_quotes_def list_ex_iff)
  then have "js_trim v = v"
    by (cases "v = []") (simp_all add: trim_no_space_ends)
  moreover have "unquote v = v"
    using plain by (cases v) (auto simp: unquote_def)
  ultimately show ?thesis
    using False by (cases "v = []") (simp_all add: quoteEnvValue_def)
qed

lemma quote_no_break: "LF \<notin> set v \<Longrightarrow> CR \<notin> set v \<Longrightarrow> LF \<notin> set (quoteEnvValue v) \<and> CR \<notin> set (quoteEnvValue v)"
  by (auto simp: quoteEnvValue_def escape_value_def split: if_splits)

subsection \<open>Assignments\<close>

definition env_key :: "string \<Rightarrow> bool" where
  "env_key k \<longleftrightarrow> k \<noteq> [] \<and> env_start (hd k) \<and> (\<forall>c \<in> set k. env_char c)"

lemma env_key_hd: "env_key k \<Longrightarrow> env_char (hd (k @ s)) \<and> \<not> js_space (hd (k @ s)) \<and> k @ s \<noteq> []"
  by (cases k) (auto simp: env_key_def env_char_no_space)

lemma take_key: "env_key k \<Longrightarrow> takeWhile env_char (k @ CHR ''='' # q) = k \<and> dropWhile env_char (k @ CHR ''='' # q) = CHR ''='' # q"
  by (simp add: env_key_def quote_chars(3) takeWhile_append2 dropWhile_append2)

lemma key_and_value_written:
  "env_key k \<Longrightarrow> LF \<notin> set q \<Longrightarrow> CR \<notin> set q \<Longrightarrow> key_and_value (k @ CHR ''='' # q) = Some (k, q)"
  using drop_none [of "CHR ''='' # q" js_space] by (simp add: key_and_value_def take_key quote_chars) (auto simp: env_key_def list_all_iff)

lemma key_and_value_key:
  assumes "key_and_value s = Some (k, v)"
  shows "env_key k" "s \<noteq> []" "hd s = hd k"
proof -
  have k: "k = takeWhile env_char s" "k \<noteq> []" "env_start (hd k)"
    using assms by (auto simp: key_and_value_def Let_def split: if_splits)
  then show "env_key k"
    by (auto simp: env_key_def dest: set_takeWhileD)
  from k(1,2) show "s \<noteq> []" "hd s = hd k"
    by (cases s; auto split: if_splits)+
qed

lemma after_export_key:
  assumes "env_key k"
  shows "after_export (k @ CHR ''='' # q) = None"
proof (rule ccontr)
  assume "after_export (k @ CHR ''='' # q) \<noteq> None"
  then have "is_prefix ''export'' (k @ CHR ''='' # q)" "drop 6 (k @ CHR ''='' # q) \<noteq> []" "js_space (hd (drop 6 (k @ CHR ''='' # q)))"
    unfolding after_export_def by presburger+
  then obtain c t where s: "k @ CHR ''='' # q = ''export'' @ c # t" and c: "js_space c"
    unfolding is_prefix_append by (cases "drop 6 (k @ CHR ''='' # q)") simp_all
  have run: "takeWhile env_char (w @ c # t) = w" if "list_all env_char w" for w
    using that env_char_no_space [of c] c by (simp add: takeWhile_append2 list_all_iff) blast
  have "list_all env_char ''export''"
    by code_simp
  then have "k = ''export''"
    using take_key [OF assms, of q] run unfolding s by metis
  then show False
    using s c quote_chars(2) by simp
qed

text \<open>A written assignment is read as what was written.\<close>

lemma match_written:
  assumes "env_key k" "LF \<notin> set q" "CR \<notin> set q" "\<forall>c \<in> set indent. js_space c"
  shows "match_assignment (indent @ k @ CHR ''='' # q) = Some (indent, k, q)"
    "match_assignment (indent @ ''export '' @ k @ CHR ''='' # q) = Some (indent, k, q)"
proof -
  have skip: "takeWhile js_space (indent @ s) = indent \<and> dropWhile js_space (indent @ s) = s" if "s \<noteq> []" "\<not> js_space (hd s)" for s
    using that assms(4) drop_none [OF that(1), of js_space] by (simp add: takeWhile_append2 dropWhile_append2)
  show "match_assignment (indent @ k @ CHR ''='' # q) = Some (indent, k, q)"
    using skip [of "k @ CHR ''='' # q"] assms env_key_hd [OF assms(1), of "CHR ''='' # q"]
    by (simp add: match_assignment_def after_export_key key_and_value_written Let_def)
  have "after_export (''export '' @ k @ CHR ''='' # q) = Some (k @ CHR ''='' # q)"
  proof -
    have "js_space CHR '' ''"
      by code_simp
    then show ?thesis
      using env_key_hd [OF assms(1), of "CHR ''='' # q"] by (cases "k @ CHR ''='' # q") (auto simp: after_export_def)
  qed
  moreover have "\<not> js_space CHR ''e''"
    by code_simp
  ultimately show "match_assignment (indent @ ''export '' @ k @ CHR ''='' # q) = Some (indent, k, q)"
    using assms skip [of "''export '' @ k @ CHR ''='' # q"]
    by (simp add: match_assignment_def key_and_value_written Let_def)
qed

lemma match_assignment_key:
  assumes "match_assignment line = Some (indent, k, v)"
  shows "env_key k" "\<forall>c \<in> set indent. js_space c" "set indent \<subseteq> set line" "js_trim line \<noteq> []" "\<not> is_prefix ''#'' (js_trim line)"
proof -
  let ?s = "dropWhile js_space line"
  have ind: "indent = takeWhile js_space line"
    using assms by (auto simp: match_assignment_def Let_def split: option.splits)
  then show "\<forall>c \<in> set indent. js_space c" "set indent \<subseteq> set line"
    by (auto dest: set_takeWhileD)
  obtain t where t: "key_and_value t = Some (k, v)" "t = ?s \<or> after_export ?s = Some t"
    using assms by (auto simp: match_assignment_def Let_def bind_eq_Some_conv split: option.splits)
  then show "env_key k"
    by (auto dest: key_and_value_key)
  have "?s \<noteq> []" "hd ?s \<noteq> CHR ''#''"
  proof -
    have "?s \<noteq> [] \<and> hd ?s \<noteq> CHR ''#''" if "t = ?s"
    proof -
      have "env_start (hd ?s)"
        using key_and_value_key [OF t(1)] that by (simp add: env_key_def)
      moreover have "\<not> env_start CHR ''#''"
        by code_simp
      ultimately show ?thesis
        using key_and_value_key(2) [OF t(1)] that by auto
    qed
    moreover have "?s \<noteq> [] \<and> hd ?s \<noteq> CHR ''#''" if "after_export ?s = Some t"
      using that by (cases ?s) (auto simp: after_export_def split: if_splits)
    ultimately show "?s \<noteq> []" "hd ?s \<noteq> CHR ''#''"
      using t(2) by blast+
  qed
  moreover from this have "\<not> js_space (hd ?s)"
    using hd_dropWhile by blast
  ultimately obtain c t where c: "?s = c # t" "c \<noteq> CHR ''#''" "\<not> js_space c"
    by (cases ?s) auto
  then obtain u where "dropWhile js_space (rev t @ [c]) = u @ [c]"
    using drop_to_last [of js_space c "rev t"] by blast
  with c have "js_trim line = c # rev u"
    by (simp add: js_trim_def)
  with c(2) show "js_trim line \<noteq> []" "\<not> is_prefix ''#'' (js_trim line)"
    by simp_all
qed

subsection \<open>Entries\<close>

text \<open>What a line contributes to the file's variables\<close>

definition line_entry :: "string \<Rightarrow> (string \<times> string) option" where
  "line_entry line = (case match_assignment line of
     None \<Rightarrow> None
   | Some (_, key, value) \<Rightarrow> if key = ''__proto__'' then None else Some (key, unquote (js_trim value)))"

definition entries :: "string list \<Rightarrow> (string \<times> string) list" where
  "entries ls = List.map_filter line_entry ls"

lemma entries_simps [simp]: "entries [] = []" "entries (l # ls) = (case line_entry l of None \<Rightarrow> [] | Some e \<Rightarrow> [e]) @ entries ls"
  "entries (ls @ ms) = entries ls @ entries ms"
  by (simp_all add: entries_def List.map_filter_def split: option.split)

lemma env_line_eq: "env_line env line = (case line_entry line of None \<Rightarrow> env | Some (k, v) \<Rightarrow> env(k \<mapsto> v))"
  using match_assignment_key(4,5) [of line] by (auto simp: env_line_def line_entry_def Let_def split: option.split)

lemma foldl_env_line: "foldl env_line env ls = env ++ map_of (rev (entries ls))"
proof (induction ls arbitrary: env)
  case (Cons l ls)
  then show ?case
    by (cases "line_entry l") (auto simp: env_line_eq map_add_def fun_eq_iff split: option.split)
qed simp

lemma parseEnvFile_eq: "parseEnvFile content = map_of (rev (entries (split_lines content)))"
  by (simp add: parseEnvFile_def foldl_env_line)

lemma blank_no_entry: "js_trim line = [] \<Longrightarrow> line_entry line = None"
  by (auto simp: line_entry_def split: option.split dest: match_assignment_key(4))

lemma comment_no_entry: "is_prefix ''#'' (js_trim line) \<Longrightarrow> line_entry line = None"
  by (auto simp: line_entry_def split: option.split dest: match_assignment_key(5))

lemma entries_drop_blank [simp]: "entries (drop_blank_end ls) = entries ls"
  by (induction ls rule: rev_induct) (auto simp: drop_blank_end_def blank_no_entry)

lemma assigned_keys_iff: "k \<noteq> ''__proto__'' \<Longrightarrow> k \<in> set (assigned_keys ls) \<longleftrightarrow> k \<in> fst ` set (entries ls)"
  by (induction ls) (auto simp: assigned_keys_def List.map_filter_def line_entry_def split: option.split if_splits)

subsection \<open>The merge\<close>

definition good_updates :: "(string \<times> string) list \<Rightarrow> bool" where
  "good_updates updates \<longleftrightarrow> distinct (map fst updates)
     \<and> (\<forall>(k, v) \<in> set updates. env_key k \<and> k \<noteq> ''__proto__'' \<and> storable v)"

lemma good_update: "good_updates updates \<Longrightarrow> (k, v) \<in> set updates \<Longrightarrow> env_key k \<and> k \<noteq> ''__proto__'' \<and> storable v"
  by (auto simp: good_updates_def)

lemma entry_written:
  assumes "env_key k" "k \<noteq> ''__proto__''" "storable v" "\<forall>c \<in> set indent. js_space c"
  shows "line_entry (indent @ assignment (k, v)) = Some (k, v)" "line_entry (indent @ ''export '' @ assignment (k, v)) = Some (k, v)"
  using assms match_written [OF assms(1) _ _ assms(4), of "quoteEnvValue v"] quote_no_break [of v] value_read_back [of v]
  by (simp_all add: line_entry_def assignment_def storable_def)

lemma rewrite_entry:
  assumes "good_updates updates" "rewrite_line updates line = Some line'"
  shows "line_entry line' = map_option (\<lambda>(k, v). (k, case map_of updates k of Some v' \<Rightarrow> v' | None \<Rightarrow> v)) (line_entry line)"
proof (cases "match_assignment line")
  case None
  with assms show ?thesis
    by (simp add: rewrite_line_def line_entry_def)
next
  case (Some m)
  then obtain indent k v where m: "match_assignment line = Some (indent, k, v)"
    by (cases m) auto
  show ?thesis
  proof (cases "map_of updates k")
    case None
    with assms m show ?thesis
      by (auto simp: rewrite_line_def line_entry_def split: if_splits)
  next
    case (Some v')
    then have good: "env_key k \<and> k \<noteq> ''__proto__'' \<and> storable v'"
      using good_update [OF assms(1)] by (auto dest: map_of_SomeD)
    then have "line_entry line' = Some (k, v')"
      using assms(2) m Some entry_written [of k v' indent] match_assignment_key(2) [OF m]
      by (auto simp: rewrite_line_def split: if_splits)
    with m Some good show ?thesis
      by (simp add: line_entry_def)
  qed
qed

lemma rewritten_entries:
  assumes "good_updates updates" "those (map (rewrite_line updates) ls) = Some rewritten"
  shows "entries rewritten = map (\<lambda>(k, v). (k, case map_of updates k of Some v' \<Rightarrow> v' | None \<Rightarrow> v)) (entries ls)"
  using assms(2)
proof (induction ls arbitrary: rewritten)
  case (Cons l ls)
  then obtain l' ls' where "rewrite_line updates l = Some l'" "those (map (rewrite_line updates) ls) = Some ls'" "rewritten = l' # ls'"
    by (auto split: option.splits)
  with Cons.IH rewrite_entry [OF assms(1), of l l'] show ?case
    by (auto split: option.split)
qed simp

lemma appended_entries: "good_updates updates \<Longrightarrow> set pending \<subseteq> set updates \<Longrightarrow> entries (map assignment pending) = pending"
proof (induction pending)
  case (Cons e pending)
  then show ?case
    using entry_written(1) [of "fst e" "snd e" "[]"] good_update [of updates "fst e" "snd e"] by (simp del: split_paired_All)
qed simp

lemma map_of_rev_distinct: "distinct (map fst es) \<Longrightarrow> map_of (rev es) = map_of es"
  by (simp add: map_of_inject_set rev_map [symmetric])

lemma map_of_override: "map_of (map (\<lambda>(k, v). (k, g k v)) es) k = map_option (g k) (map_of es k)"
  by (induction es) auto

lemma merged_map:
  assumes "good_updates updates" "pending = filter (\<lambda>(k, _). k \<notin> set (assigned_keys ls)) updates"
  shows "map_of (rev (map (\<lambda>(k, v). (k, case map_of updates k of Some v' \<Rightarrow> v' | None \<Rightarrow> v)) (entries ls) @ pending))
    = map_of (rev (entries ls)) ++ map_of updates"
proof
  fix k
  have dist: "distinct (map fst pending)"
    using assms by (auto simp: good_updates_def distinct_map inj_on_def)
  have pend: "map_of pending k = (if k \<in> set (assigned_keys ls) then None else map_of updates k)"
    unfolding assms(2) by (induction updates) auto
  show "map_of (rev (map (\<lambda>(k, v). (k, case map_of updates k of Some v' \<Rightarrow> v' | None \<Rightarrow> v)) (entries ls) @ pending)) k
    = (map_of (rev (entries ls)) ++ map_of updates) k"
  proof (cases "map_of updates k")
    case None
    then show ?thesis
      using pend dist by (simp add: map_add_def map_of_rev_distinct rev_map map_of_override option.map_ident)
  next
    case (Some v)
    then have "k \<noteq> ''__proto__''"
      using good_update [OF assms(1)] by (auto dest: map_of_SomeD)
    then have "k \<in> set (assigned_keys ls) \<longleftrightarrow> map_of (rev (entries ls)) k \<noteq> None"
      by (simp add: assigned_keys_iff map_of_eq_None_iff)
    with Some show ?thesis
      using pend dist by (auto simp: map_add_def map_of_rev_distinct rev_map map_of_override split: option.split)
  qed
qed

subsection \<open>The file afterwards\<close>

definition lines_ok :: "string \<Rightarrow> string list \<Rightarrow> bool" where
  "lines_ok sep ls \<longleftrightarrow> (sep = [CR, LF] \<or> (sep = [LF] \<and> (\<forall>l \<in> set ls. \<not> cr_end l))) \<and> (\<forall>l \<in> set ls. LF \<notin> set l)"

lemma split_join_ok: "lines_ok sep ls \<Longrightarrow> ls \<noteq> [] \<Longrightarrow> split_lines (join_lines sep ls) = ls"
  by (rule split_join) (auto simp: lines_ok_def dest: in_set_butlastD)

lemma content_lines_ok:
  "\<not> cr_end content \<Longrightarrow> lines_ok (if js_includes content [CR, LF] then [CR, LF] else [LF]) (split_lines content)"
  by (auto simp: lines_ok_def dest: split_lines_no_LF split_lines_no_CR)

lemma assignment_no_break:
  assumes "env_key k" "storable v"
  shows "LF \<notin> set (assignment (k, v))" "CR \<notin> set (assignment (k, v))" "assignment (k, v) \<noteq> []"
proof -
  have "\<not> env_char LF" "\<not> env_char CR"
    by code_simp+
  then show "LF \<notin> set (assignment (k, v))" "CR \<notin> set (assignment (k, v))" "assignment (k, v) \<noteq> []"
    using assms quote_no_break [of v] by (auto simp: assignment_def env_key_def storable_def)
qed

lemma assignment_no_cr_end: "env_key k \<Longrightarrow> storable v \<Longrightarrow> \<not> cr_end (assignment (k, v))"
  using assignment_no_break [of k v] last_in_set [of "assignment (k, v)"] unfolding cr_end_def by metis

lemma rewrite_line_ok:
  assumes "good_updates updates" "rewrite_line updates line = Some line'" "LF \<notin> set line" "line' \<noteq> line"
  shows "LF \<notin> set line' \<and> \<not> cr_end line'"
proof -
  obtain indent k v v' where m: "match_assignment line = Some (indent, k, v)" "map_of updates k = Some v'"
    and line': "line' = indent @ (if after_export (dropWhile js_space line) \<noteq> None then ''export '' else []) @ assignment (k, v')"
    using assms(2,4) by (auto simp: rewrite_line_def split: option.splits if_splits)
  have "env_key k \<and> storable v'"
    using good_update [OF assms(1)] m(2) by (auto dest: map_of_SomeD)
  then have parts: "LF \<notin> set (assignment (k, v'))" "CR \<notin> set (assignment (k, v'))" "assignment (k, v') \<noteq> []"
    using assignment_no_break by blast+
  then have "last line' \<in> set (assignment (k, v'))"
    by (simp add: line')
  then have "\<not> cr_end line'"
    using parts(2) by (auto simp: cr_end_def)
  moreover have "LF \<notin> set indent"
    using match_assignment_key(3) [OF m(1)] assms(3) by blast
  ultimately show ?thesis
    using parts(1) by (simp add: line')
qed

lemma those_map: "those (map f ls) = Some ms \<Longrightarrow> m \<in> set ms \<Longrightarrow> \<exists>l \<in> set ls. f l = Some m"
  by (induction ls arbitrary: ms) (auto split: option.splits)

lemma those_length: "those xs = Some ms \<Longrightarrow> length ms = length xs"
  by (induction xs arbitrary: ms) (auto split: option.splits)

lemma rewritten_ok:
  assumes "good_updates updates" "those (map (rewrite_line updates) ls) = Some rewritten" "lines_ok sep ls"
  shows "lines_ok sep rewritten"
proof -
  have "LF \<notin> set m \<and> (sep \<noteq> [CR, LF] \<longrightarrow> \<not> cr_end m)" if "m \<in> set rewritten" for m
  proof -
    obtain l where l: "l \<in> set ls" "rewrite_line updates l = Some m"
      using those_map [OF assms(2)] \<open>m \<in> set rewritten\<close> by blast
    have "LF \<notin> set l" "sep \<noteq> [CR, LF] \<longrightarrow> \<not> cr_end l"
      using l(1) assms(3) by (auto simp: lines_ok_def)
    then show ?thesis
      using rewrite_line_ok [OF assms(1) l(2)] by blast
  qed
  with assms(3) show ?thesis
    by (auto simp: lines_ok_def)
qed

text \<open>
  Merging updates into an env file gives each updated variable its new value, in every place that assigns it or at
  the end, and leaves the value of every other variable alone, whatever line breaks and comments the file has.
\<close>

lemma upsert_then_parse:
  assumes "upsertEnvVars content updates header = Some out" "good_updates updates" "\<not> cr_end content"
    "is_prefix ''#'' (js_trim header)" "LF \<notin> set header" "CR \<notin> set header"
  shows "parseEnvFile out = parseEnvFile content ++ map_of updates"
proof (cases "updates = []")
  case False
  define sep where "sep = (if js_includes content [CR, LF] then [CR, LF] else [LF])"
  define ls where "ls = split_lines content"
  define pending where "pending = filter (\<lambda>(key, _). key \<notin> set (assigned_keys ls)) updates"
  obtain rewritten where rewritten: "those (map (rewrite_line updates) ls) = Some rewritten"
    and out: "out = (if pending = [] then join_lines sep rewritten
      else join_lines sep (drop_blank_end rewritten @ (if drop_blank_end rewritten \<noteq> [] then [[], header] else [header])
        @ map assignment pending) @ sep)"
    using assms(1) False unfolding upsertEnvVars_def Let_def sep_def [symmetric] ls_def [symmetric] pending_def [symmetric]
    by (cases "pending = []") (auto split: option.splits)
  have ok: "lines_ok sep rewritten"
    using rewritten_ok [OF assms(2) rewritten] content_lines_ok [OF assms(3)] by (simp add: sep_def ls_def)
  have kept: "set (drop_blank_end rewritten) \<subseteq> set rewritten"
    by (auto simp: drop_blank_end_def dest: set_dropWhileD)
  have block: "LF \<notin> set (assignment e) \<and> \<not> cr_end (assignment e)" if "e \<in> set pending" for e
    using that assignment_no_break(1) [of "fst e" "snd e"] assignment_no_cr_end [of "fst e" "snd e"]
      good_update [OF assms(2), of "fst e" "snd e"]
    by (auto simp: pending_def)
  have "entries (split_lines out) = entries rewritten @ pending"
  proof (cases "pending = []")
    case True
    have "rewritten \<noteq> []"
      using those_length [OF rewritten] by (auto simp: ls_def)
    with True show ?thesis
      by (simp add: out split_join_ok [OF ok])
  next
    case False
    let ?ls = "(drop_blank_end rewritten @ (if drop_blank_end rewritten \<noteq> [] then [[], header] else [header]) @ map assignment pending) @ [[]]"
    have "\<not> cr_end header" "\<not> cr_end []"
      using assms(6) last_in_set [of header] unfolding cr_end_def by metis+
    then have "lines_ok sep ?ls"
      using ok kept block assms(5) by (auto simp: lines_ok_def)
    then have "split_lines out = ?ls"
      using False split_join_ok [of sep ?ls] by (simp add: out join_snoc [symmetric] del: append_assoc)
    moreover have "entries (map assignment pending) = pending"
      by (rule appended_entries [OF assms(2)]) (auto simp: pending_def)
    ultimately show ?thesis
      by (simp add: comment_no_entry [OF assms(4)] blank_no_entry js_trim_def)
  qed
  then show ?thesis
    using merged_map [OF assms(2) pending_def] by (simp add: parseEnvFile_eq rewritten_entries [OF assms(2) rewritten] ls_def)
qed (use assms(1) in \<open>simp add: upsertEnvVars_def\<close>)

text \<open>A file with a key assigned twice, a comment, Windows line breaks and a value in quotes\<close>

definition demo_file :: string where
  "demo_file = ''DATABASE_URL='' @ [CHR 0x22] @ ''postgres://x'' @ [CHR 0x22, CR, LF] @ ''# contracts'' @ [CR, LF]
     @ '' export LENDING_ID = old'' @ [CR, LF] @ ''LENDING_ID=older'' @ [CR, LF]"

definition demo_updates :: "(string \<times> string) list" where
  "demo_updates = [(''LENDING_ID'', ''CA7''), (''ADMIN_NAME'', ''the admin'')]"

lemma demo_upsert: "upsertEnvVars demo_file demo_updates ''# written'' = Some (''DATABASE_URL='' @ [CHR 0x22] @ ''postgres://x''
    @ [CHR 0x22, CR, LF] @ ''# contracts'' @ [CR, LF] @ '' export LENDING_ID=CA7'' @ [CR, LF] @ ''LENDING_ID=CA7'' @ [CR, LF, CR, LF]
    @ ''# written'' @ [CR, LF] @ ''ADMIN_NAME='' @ [CHR 0x22] @ ''the admin'' @ [CHR 0x22, CR, LF])"
  by code_simp

lemma demo_good: "good_updates demo_updates" "\<not> cr_end demo_file"
proof -
  have "list_all env_char (''LENDING_ID'' @ ''ADMIN_NAME'')" "env_start CHR ''L''" "env_start CHR ''A''"
    "\<not> needs_quotes ''CA7''"
    by code_simp+
  then show "good_updates demo_updates" "\<not> cr_end demo_file"
    by (simp_all add: good_updates_def demo_updates_def env_key_def storable_def cr_end_def demo_file_def)
qed

end
