(* ===== verification/DeploymentSafety.thy ===== *)
theory DeploymentSafety
  imports Deployment EnvFileSafety
begin

text \<open>
  What a deployment leaves in the env file, what resumed deployments keep, and what they never do.
\<close>

subsection \<open>Commands\<close>

text \<open>A function of the log that only adds commands of a kind to it\<close>

definition adds :: "(command \<Rightarrow> bool) \<Rightarrow> command list \<Rightarrow> command list \<Rightarrow> bool" where
  "adds P log1 log2 \<longleftrightarrow> (\<exists>new. log2 = log1 @ new \<and> (\<forall>cmd \<in> set new. P cmd))"

lemma adds_refl [simp]: "adds P log1 log1"
  by (simp add: adds_def)

lemma adds_trans: "adds P a b \<Longrightarrow> adds P b c \<Longrightarrow> adds P a c"
  by (auto simp: adds_def)

lemma adds_mono: "adds P a b \<Longrightarrow> (\<And>cmd. P cmd \<Longrightarrow> Q cmd) \<Longrightarrow> adds Q a b"
  by (auto simp: adds_def)

lemma run_stellar_adds: "P args \<Longrightarrow> run_stellar c options capture allow args log1 = (r, log2) \<Longrightarrow> adds P log1 log2"
  by (auto simp: run_stellar_def adds_def split: if_splits option.splits)

definition invokes :: "command \<Rightarrow> bool" where
  "invokes cmd \<longleftrightarrow> take 2 cmd = [''contract'', ''invoke'']"

definition deploys :: "command \<Rightarrow> bool" where
  "deploys cmd \<longleftrightarrow> take 2 cmd = [''contract'', ''deploy'']"

abbreviation (input) other :: "command \<Rightarrow> bool" where
  "other cmd \<equiv> \<not> invokes cmd \<and> \<not> deploys cmd"

lemma other_commands:
  "other [''--version'']" "other [''keys'', ''address'', k]" "other (''keys'' # ''generate'' # rest)" "other [''contract'', ''build'']"
  "other (''contract'' # ''bindings'' # rest)" "\<not> invokes (deploy_command options spec)"
  "invokes (invoke_command options contractId fn args)" "\<not> deploys (invoke_command options contractId fn args)"
  by (simp_all add: invokes_def deploys_def deploy_command_def invoke_command_def)

lemma checkStellarCli_adds: "checkStellarCli c options log1 = (r, log2) \<Longrightarrow> adds other log1 log2"
  using run_stellar_adds [of other "[''--version'']"] other_commands(1)
  by (auto simp: checkStellarCli_def split: if_splits prod.splits option.splits)

lemma ensureAdminIdentity_adds:
  assumes "ensureAdminIdentity c options log1 = (r, log2)"
  shows "adds other log1 log2"
proof -
  let ?ask = "[''keys'', ''address'', do_adminKey options]"
  let ?gen = "[''keys'', ''generate'', do_adminKey options, ''--global'', ''--network'', do_network options]"
  obtain r1 l1 where 1: "run_stellar c options True True ?ask log1 = (r1, l1)"
    by fastforce
  obtain r2 l2 where 2: "run_stellar c options False False ?gen l1 = (r2, l2)"
    by fastforce
  obtain r3 l3 where 3: "run_stellar c options True False ?ask l2 = (r3, l3)"
    by fastforce
  have "adds other log1 l1" "adds other l1 l2" "adds other l2 l3"
    using run_stellar_adds [of other, OF _ 1] run_stellar_adds [of other, OF _ 2] run_stellar_adds [of other, OF _ 3] other_commands(2,3)
    by simp_all
  then have "adds other log1 l1" "adds other log1 l2" "adds other log1 l3"
    by (blast intro: adds_trans)+
  moreover have "log2 = l1 \<or> log2 = l2 \<or> log2 = l3"
    using assms 1 2 3 by (auto simp: ensureAdminIdentity_def Let_def split: option.splits if_splits)
  ultimately show ?thesis
    by metis
qed

lemma generateBindings_adds: "adds other log1 (generateBindings c options ids specs log1)"
proof (induction specs arbitrary: log1)
  case (Cons spec specs)
  have "adds other log1 (snd (run_stellar c options False True (''contract'' # ''bindings'' # rest) log1))" for rest
    using run_stellar_adds [of other "''contract'' # ''bindings'' # rest", OF _ prod.collapse [symmetric]] other_commands(5) by simp
  then have "adds other log1 (if has ids (cs_key spec)
        then snd (run_stellar c options False True [''contract'', ''bindings'', ''typescript'', ''--network'', do_network options,
          ''--id'', id_of ids (cs_key spec), ''--output-dir'', cs_key spec] log1) else log1)"
    by simp
  then show ?case
    unfolding generateBindings.simps by (rule adds_trans [OF _ Cons.IH])
qed simp

subsection \<open>Deploying\<close>

lemma deployContract_adds: "deployContract c options spec log1 = (r, log2) \<Longrightarrow> adds (\<lambda>cmd. cmd = deploy_command options spec) log1 log2"
  using run_stellar_adds [of "\<lambda>cmd. cmd = deploy_command options spec" "deploy_command options spec"]
  by (auto simp: deployContract_def split: if_splits prod.splits option.splits)

lemma deployContract_id: "deployContract c options spec log1 = (Some cid, log2) \<Longrightarrow> \<not> do_dryRun options \<Longrightarrow> is_contract_id cid"
  by (auto simp: deployContract_def split: if_splits prod.splits option.splits)

lemma contract_id_truthy: "is_contract_id cid \<Longrightarrow> cid \<noteq> []"
  by (auto simp: is_contract_id_def)

lemma has_update [simp]: "has (ids(k \<mapsto> v)) j = (if j = k then v \<noteq> [] else has ids j)"
  by (simp add: has_def truthy_opt_def)

lemma writeState_simps [simp]: "dw_log (writeState options ids w) = dw_log w" "dw_files (writeState options ids w) = dw_files w"
  "\<not> do_dryRun options \<Longrightarrow> dw_state (writeState options ids w) = (dw_state w)(do_network options \<mapsto> ids)"
  by (simp_all add: writeState_def)

lemma deploy_all_adds:
  "deploy_all c options specs ids w = (r, w') \<Longrightarrow>
     adds (\<lambda>cmd. \<exists>spec \<in> set specs. cmd = deploy_command options spec) (dw_log w) (dw_log w') \<and> dw_files w' = dw_files w"
proof (induction c options specs ids w arbitrary: r w' rule: deploy_all.induct)
  case (2 c options spec specs ids w)
  obtain q log2 where q: "deployContract c options spec (dw_log w) = (q, log2)"
    by fastforce
  have first: "adds (\<lambda>cmd. \<exists>spec' \<in> set (spec # specs). cmd = deploy_command options spec') (dw_log w) log2"
    using deployContract_adds [OF q] by (rule adds_mono) simp
  show ?case
  proof (cases q)
    case None
    with q 2(2) first show ?thesis
      by auto
  next
    case (Some cid)
    let ?w = "writeState options (ids(cs_key spec \<mapsto> cid)) (w\<lparr>dw_log := log2\<rparr>)"
    have "deploy_all c options specs (ids(cs_key spec \<mapsto> cid)) ?w = (r, w')"
      using 2(2) q Some by (simp add: Let_def)
    from 2(1) [OF q [symmetric] Some refl this] have rest:
      "adds (\<lambda>cmd. \<exists>spec \<in> set specs. cmd = deploy_command options spec) log2 (dw_log w')" "dw_files w' = dw_files w"
      by simp_all
    from rest(1) have "adds (\<lambda>cmd. \<exists>spec' \<in> set (spec # specs). cmd = deploy_command options spec') log2 (dw_log w')"
      by (rule adds_mono) simp
    with first rest(2) show ?thesis
      by (blast intro: adds_trans)
  qed
qed simp

text \<open>A key's entry is a contract id that was checked.\<close>

definition checked_id :: "string option \<Rightarrow> bool" where
  "checked_id x \<longleftrightarrow> (case x of Some cid \<Rightarrow> is_contract_id cid | None \<Rightarrow> False)"

lemma deploy_all_result:
  assumes "deploy_all c options specs ids w = (Some ids', w')" "\<not> do_dryRun options"
  shows "(\<forall>k. k \<notin> cs_key ` set specs \<longrightarrow> ids' k = ids k) \<and> (\<forall>k \<in> cs_key ` set specs. checked_id (ids' k))
    \<and> (specs \<noteq> [] \<longrightarrow> dw_state w' (do_network options) = Some ids')"
  using assms
proof (induction c options specs ids w arbitrary: w' rule: deploy_all.induct)
  case (2 c options spec specs ids w)
  obtain cid log2 where q: "deployContract c options spec (dw_log w) = (Some cid, log2)"
    using 2(2) by (auto split: prod.splits option.splits)
  let ?ids = "ids(cs_key spec \<mapsto> cid)"
  let ?w = "writeState options ?ids (w\<lparr>dw_log := log2\<rparr>)"
  have run: "deploy_all c options specs ?ids ?w = (Some ids', w')"
    using 2(2) q by (simp add: Let_def)
  have cid: "checked_id (Some cid)"
    using deployContract_id [OF q 2(3)] by (simp add: checked_id_def)
  have later: "\<forall>k. k \<notin> cs_key ` set specs \<longrightarrow> ids' k = ?ids k" "\<forall>k \<in> cs_key ` set specs. checked_id (ids' k)"
    "specs \<noteq> [] \<longrightarrow> dw_state w' (do_network options) = Some ids'"
    using 2(1) [OF q [symmetric] refl refl run 2(3)] by simp_all
  have "checked_id (ids' (cs_key spec))"
    using later(1,2) cid by (cases "cs_key spec \<in> cs_key ` set specs") auto
  moreover have "dw_state w' (do_network options) = Some ids'"
    using later(3) run 2(3) by (cases "specs = []") auto
  ultimately show ?case
    using later(1,2) by auto
qed auto

text \<open>What is recorded: what was before, or ids that differ from the ones at the start only in what was deployed\<close>

lemma deploy_all_state:
  assumes "deploy_all c options specs ids w = (r, w')" "\<not> do_dryRun options"
  shows "dw_state w' = dw_state w \<or> (\<exists>s. dw_state w' = (dw_state w)(do_network options \<mapsto> s)
    \<and> (\<forall>k. k \<notin> cs_key ` set specs \<longrightarrow> s k = ids k) \<and> (\<forall>k. s k = ids k \<or> checked_id (s k)))"
  using assms
proof (induction c options specs ids w arbitrary: r w' rule: deploy_all.induct)
  case (2 c options spec specs ids w)
  obtain q log2 where q: "deployContract c options spec (dw_log w) = (q, log2)"
    by fastforce
  show ?case
  proof (cases q)
    case None
    with q 2(2) show ?thesis
      by auto
  next
    case (Some cid)
    let ?ids = "ids(cs_key spec \<mapsto> cid)"
    let ?w = "writeState options ?ids (w\<lparr>dw_log := log2\<rparr>)"
    have cid: "checked_id (Some cid)"
      using deployContract_id q Some 2(3) by (fastforce simp: checked_id_def)
    have run: "deploy_all c options specs ?ids ?w = (r, w')"
      using 2(2) q Some by (simp add: Let_def)
    have w: "dw_state ?w = (dw_state w)(do_network options \<mapsto> ?ids)"
      using 2(3) by simp
    have "\<exists>s. dw_state w' = (dw_state w)(do_network options \<mapsto> s)
      \<and> (\<forall>k. k \<notin> cs_key ` set specs \<longrightarrow> s k = ?ids k) \<and> (\<forall>k. s k = ?ids k \<or> checked_id (s k))"
      using 2(1) [OF q [symmetric] Some refl run 2(3)] unfolding w fun_upd_upd by blast
    then obtain s where s: "dw_state w' = (dw_state w)(do_network options \<mapsto> s)"
      "\<forall>k. k \<notin> cs_key ` set specs \<longrightarrow> s k = ?ids k" "\<forall>k. s k = ?ids k \<or> checked_id (s k)"
      by blast
    from s(2) have "\<forall>k. k \<notin> cs_key ` set (spec # specs) \<longrightarrow> s k = ids k"
      by simp
    moreover from s(3) cid have "\<forall>k. s k = ids k \<or> checked_id (s k)"
      by (metis fun_upd_apply)
    ultimately show ?thesis
      using s(1) by blast
  qed
qed auto

subsection \<open>A run\<close>

abbreviation (input) selection :: "deploy_options \<Rightarrow> contract_spec list" where
  "selection options \<equiv> fst (selectContracts (do_only options))"

lemma preflight_adds: "preflight c options selected unknown log1 = (r, log2) \<Longrightarrow> adds other log1 log2"
  by (auto simp: preflight_def split: if_splits prod.splits option.splits bool.splits
      dest!: checkStellarCli_adds ensureAdminIdentity_adds intro: adds_trans)

lemma preflight_outcome: "preflight c options selected unknown log1 = (Inl r, log2) \<Longrightarrow>
    r \<in> {NothingSelected, NoCli, NoIdentity, NotFunded} \<or> (\<exists>u. r = UnknownContracts u)"
  by (auto simp: preflight_def split: if_splits prod.splits option.splits bool.splits)

lemma buildContracts_adds: "buildContracts c options toDeploy log1 = (ok, log2) \<Longrightarrow> adds other log1 log2"
  using run_stellar_adds [of other "[''contract'', ''build'']"] other_commands(4)
  by (auto simp: buildContracts_def split: if_splits prod.splits)

lemma output_phase_cases:
  assumes "output_phase c options selected ids admin w = (r, w')"
  shows "adds other (dw_log w) (dw_log w') \<and> dw_state w' = dw_state w \<and> r \<in> {EnvFailed, Deployed admin ids}"
    "r = Deployed a i \<Longrightarrow> a = admin \<and> i = ids \<and> writeEnvFiles c options (deployed_vars c selected ids admin) (dw_files w) = Some (dw_files w')"
  using assms generateBindings_adds [of "dw_log w" c options ids selected]
  by (auto simp: output_phase_def Let_def split: if_splits option.splits)

text \<open>A run that starts with every selected contract on record runs nothing but the prerequisites and the bindings.\<close>

lemma resumed_complete:
  assumes "deploy_main c options w = (r, w')" "to_deploy options (selection options) w = []"
  shows "adds other (dw_log w) (dw_log w')" "dw_state w' = dw_state w"
    "r \<notin> {BuildFailed, DeployFailed, InitFailed}"
proof -
  obtain selected unknown where sel: "selectContracts (do_only options) = (selected, unknown)"
    by fastforce
  obtain q log1 where pre: "preflight c options selected unknown (dw_log w) = (q, log1)"
    by fastforce
  note pre1 = preflight_adds [OF pre]
  have "adds other (dw_log w) (dw_log w') \<and> dw_state w' = dw_state w \<and> r \<notin> {BuildFailed, DeployFailed, InitFailed}"
  proof (cases q)
    case (Inl r1)
    then show ?thesis
      using assms(1) sel pre pre1 preflight_outcome [of c options selected unknown "dw_log w" r1 log1] by (auto simp: deploy_main_def)
  next
    case (Inr admin)
    then have "output_phase c options selected (start_ids options w) admin (w\<lparr>dw_log := log1\<rparr>) = (r, w')"
      using assms sel pre by (simp add: deploy_main_def buildContracts_def initialize_phase_def)
    from output_phase_cases(1) [OF this] pre1 show ?thesis
      by (auto intro: adds_trans)
  qed
  then show "adds other (dw_log w) (dw_log w')" "dw_state w' = dw_state w" "r \<notin> {BuildFailed, DeployFailed, InitFailed}"
    by blast+
qed

text \<open>A run that fails while it initializes has every selected contract on record.\<close>

lemma init_failed_recorded:
  assumes "deploy_main c options w = (InitFailed, w')" "\<not> do_dryRun options"
  shows "\<exists>s. dw_state w' (do_network options) = Some s \<and> (\<forall>spec \<in> set (selection options). has s (cs_key spec))"
proof -
  obtain selected unknown where sel: "selectContracts (do_only options) = (selected, unknown)"
    by fastforce
  obtain q log1 where pre: "preflight c options selected unknown (dw_log w) = (q, log1)"
    by fastforce
  obtain admin where q: "q = Inr admin"
    using assms(1) sel pre preflight_outcome [of c options selected unknown "dw_log w" _ log1]
    by (cases q) (auto simp: deploy_main_def)
  let ?todo = "to_deploy options selected w"
  obtain log2 where build: "buildContracts c options ?todo log1 = (True, log2)"
    using assms(1) sel pre q by (auto simp: deploy_main_def Let_def split: prod.splits bool.splits)
  obtain ids w1 where run: "deploy_all c options ?todo (start_ids options w) (w\<lparr>dw_log := log2\<rparr>) = (Some ids, w1)"
    using assms(1) sel pre q build by (auto simp: deploy_main_def Let_def split: prod.splits option.splits)
  obtain log3 where init: "initialize_phase c options ?todo ids admin (dw_log w1) = (False, log3)" and w': "w' = w1\<lparr>dw_log := log3\<rparr>"
    using assms(1) sel pre q build run output_phase_cases(1)
    by (fastforce simp: deploy_main_def Let_def split: prod.splits bool.splits)
  have todo: "?todo \<noteq> []"
    using init by (auto simp: initialize_phase_def)
  note res = deploy_all_result [OF run assms(2)]
  have "has ids (cs_key spec)" if "spec \<in> set selected" for spec
  proof (cases "cs_key spec \<in> cs_key ` set ?todo")
    case True
    then show ?thesis
      using res contract_id_truthy by (fastforce simp: has_def truthy_opt_def checked_id_def split: option.splits)
  next
    case False
    then have "has (start_ids options w) (cs_key spec)"
      using that by (auto simp: to_deploy_def)
    with False res show ?thesis
      by (simp add: has_def)
  qed
  with res todo sel w' show ?thesis
    by simp
qed

lemma deploy_all_dry: "deploy_all c options specs ids w = (r, w') \<Longrightarrow> do_dryRun options \<Longrightarrow> dw_state w' = dw_state w"
  by (induction c options specs ids w arbitrary: r w' rule: deploy_all.induct)
    (auto simp: Let_def writeState_def split: prod.splits option.splits)

lemma run_invoke_adds: "run_stellar c options capture allow (invoke_command options contractId fn args) log1 = (r, log2) \<Longrightarrow>
    adds invokes log1 log2"
  by (rule run_stellar_adds) (simp_all add: other_commands(7))

lemma run_step_adds: "run_step c options admin step log1 = (ok, log2) \<Longrightarrow> adds invokes log1 log2"
  by (auto simp: run_step_def split: init_step.splits prod.splits option.splits if_splits dest!: run_invoke_adds intro: adds_trans)

lemma run_steps_adds: "run_steps c options admin steps log1 = (ok, log2) \<Longrightarrow> adds invokes log1 log2"
  by (induction c options admin steps log1 arbitrary: ok log2 rule: run_steps.induct)
    (auto split: prod.splits bool.splits dest!: run_step_adds intro: adds_trans)

lemma initialize_phase_adds: "initialize_phase c options toDeploy ids admin log1 = (ok, log2) \<Longrightarrow> adds invokes log1 log2"
  by (auto simp: initialize_phase_def run_steps_adds split: if_splits)

lemma selection_subset: "set (fst (selectContracts only)) \<subseteq> set CONTRACTS"
  by (auto simp: selectContracts_def split: option.splits)

lemma contracts_distinct: "distinct (map cs_key CONTRACTS)" "distinct (map cs_wasm CONTRACTS)"
  by code_simp+

lemma other_deploy: "spec \<in> set CONTRACTS \<Longrightarrow> spec' \<in> set CONTRACTS \<Longrightarrow> cs_key spec \<noteq> cs_key spec' \<Longrightarrow>
    deploy_command options spec \<noteq> deploy_command options' spec'"
  using contracts_distinct(2) by (auto simp: deploy_command_def distinct_map inj_on_def)

text \<open>What a run does to a contract that is on record when it starts\<close>

lemma deploy_main_keeps:
  assumes "deploy_main c options w = (r, w')" "has (start_ids options w) (cs_key spec)" "spec \<in> set CONTRACTS"
  shows "adds (\<lambda>cmd. \<forall>options'. cmd \<noteq> deploy_command options' spec) (dw_log w) (dw_log w')"
    "dw_state w' = dw_state w \<or> (\<exists>s. dw_state w' = (dw_state w)(do_network options \<mapsto> s)
       \<and> s (cs_key spec) = start_ids options w (cs_key spec))"
proof -
  let ?P = "\<lambda>cmd. \<forall>options'. cmd \<noteq> deploy_command options' spec"
  let ?Q = "adds ?P (dw_log w) (dw_log w') \<and> (dw_state w' = dw_state w \<or> (\<exists>s. dw_state w' = (dw_state w)(do_network options \<mapsto> s)
       \<and> s (cs_key spec) = start_ids options w (cs_key spec)))"
  have mono: "adds ?P l1 l2" if "adds other l1 l2 \<or> adds invokes l1 l2" for l1 l2
  proof -
    have "deploys (deploy_command options' spec)" "\<not> invokes (deploy_command options' spec)" for options'
      by (simp_all add: deploys_def invokes_def deploy_command_def)
    with that show ?thesis
      by (auto elim!: adds_mono)
  qed
  obtain selected unknown where sel: "selectContracts (do_only options) = (selected, unknown)"
    by fastforce
  obtain q log1 where pre: "preflight c options selected unknown (dw_log w) = (q, log1)"
    by fastforce
  have pre1: "adds ?P (dw_log w) log1"
    using preflight_adds [OF pre] mono by blast
  have ?Q
  proof (cases q)
    case (Inl r1)
    with pre1 sel pre assms(1) show ?thesis
      by (auto simp: deploy_main_def)
  next
    case (Inr admin)
    let ?todo = "to_deploy options selected w"
    obtain ok log2 where build: "buildContracts c options ?todo log1 = (ok, log2)"
      by fastforce
    have build1: "adds ?P (dw_log w) log2"
      using buildContracts_adds [OF build] mono pre1 adds_trans by blast
    show ?thesis
    proof (cases ok)
      case False
      with build1 sel pre Inr build assms(1) show ?thesis
        by (auto simp: deploy_main_def Let_def)
    next
      case True
      obtain d w1 where run: "deploy_all c options ?todo (start_ids options w) (w\<lparr>dw_log := log2\<rparr>) = (d, w1)"
        by fastforce
      have other: "cs_key spec \<notin> cs_key ` set ?todo" "set ?todo \<subseteq> set CONTRACTS"
        using assms(2) sel selection_subset [of "do_only options"] by (auto simp: to_deploy_def)
      have "deploy_command options spec' \<noteq> deploy_command options' spec" if "spec' \<in> set ?todo" for spec' options'
      proof (rule other_deploy)
        show "cs_key spec' \<noteq> cs_key spec"
          using that other(1) by (metis imageI)
      qed (use that other(2) assms(3) in auto)
      then have "adds ?P log2 (dw_log w1)"
        using deploy_all_adds [OF run] by (auto elim!: adds_mono)
      then have run1: "adds ?P (dw_log w) (dw_log w1)"
        using build1 adds_trans by blast
      have state1: "dw_state w1 = dw_state w \<or> (\<exists>s. dw_state w1 = (dw_state w)(do_network options \<mapsto> s)
          \<and> s (cs_key spec) = start_ids options w (cs_key spec))"
        using deploy_all_state [OF run] deploy_all_dry [OF run] other(1) by (cases "do_dryRun options") auto
      have rest: "adds ?P (dw_log w1) (dw_log w') \<and> dw_state w' = dw_state w1"
      proof (cases d)
        case None
        with sel pre Inr build True run assms(1) show ?thesis
          by (simp add: deploy_main_def)
      next
        case (Some ids)
        obtain ok3 log3 where init: "initialize_phase c options ?todo ids admin (dw_log w1) = (ok3, log3)"
          by fastforce
        have init1: "adds ?P (dw_log w1) log3"
          using initialize_phase_adds [OF init] mono by blast
        show ?thesis
        proof (cases ok3)
          case False
          with init1 sel pre Inr build True run Some init assms(1) show ?thesis
            by (auto simp: deploy_main_def)
        next
          case True
          then have "output_phase c options selected ids admin (w1\<lparr>dw_log := log3\<rparr>) = (r, w')"
            using sel pre Inr build \<open>ok\<close> run Some init assms(1) by (simp add: deploy_main_def)
          from output_phase_cases(1) [OF this] init1 mono show ?thesis
            by (fastforce intro: adds_trans)
        qed
      qed
      with run1 state1 show ?thesis
        by (auto intro: adds_trans)
    qed
  qed
  then show "adds ?P (dw_log w) (dw_log w')" "dw_state w' = dw_state w \<or> (\<exists>s. dw_state w' = (dw_state w)(do_network options \<mapsto> s)
       \<and> s (cs_key spec) = start_ids options w (cs_key spec))"
    by blast+
qed

subsection \<open>Resumed runs\<close>

text \<open>Any runs with \<open>--resume\<close> on a network, of one of some selections of contracts\<close>

inductive resumed_run :: "string \<Rightarrow> string option set \<Rightarrow> deploy_world \<Rightarrow> deploy_world \<Rightarrow> bool" for network selections where
  resumed: "deploy_main c options w = (r, w') \<Longrightarrow> do_resume options \<Longrightarrow> do_network options = network \<Longrightarrow>
    do_only options \<in> selections \<Longrightarrow> resumed_run network selections w w'"

inductive_cases resumed_runE: "resumed_run network selections w w'"

definition recorded :: "string \<Rightarrow> string \<Rightarrow> deploy_world \<Rightarrow> string option" where
  "recorded network key w = Option.bind (dw_state w network) (\<lambda>s. s key)"

lemma start_recorded: "do_resume options \<Longrightarrow> start_ids options w key = recorded (do_network options) key w"
  by (auto simp: start_ids_def recorded_def split: option.split)

text \<open>
  C24: a contract that is on record stays on record with its id through any resumed runs, whatever they deploy besides and
  wherever they stop, and no run pays for another deployment of it.
\<close>

theorem resumed_runs_keep_ids:
  assumes "(resumed_run network selections)\<^sup>*\<^sup>* w w'" "recorded network (cs_key spec) w = Some cid" "cid \<noteq> []" "spec \<in> set CONTRACTS"
  shows "recorded network (cs_key spec) w' = Some cid
    \<and> adds (\<lambda>cmd. \<forall>options'. cmd \<noteq> deploy_command options' spec) (dw_log w) (dw_log w')"
  using assms(1)
proof (induction rule: rtranclp_induct)
  case base
  with assms show ?case
    by simp
next
  case (step y z)
  from step(2) obtain c options r where z: "deploy_main c options y = (r, z)" "do_resume options" "do_network options = network"
    by (rule resumed_runE) blast
  then have start: "start_ids options y (cs_key spec) = Some cid"
    using step(3) by (simp add: start_recorded)
  then have "has (start_ids options y) (cs_key spec)"
    using assms(3) by (simp add: has_def truthy_opt_def)
  from deploy_main_keeps [OF z(1) this assms(4)]
  show ?case
    using step(3) start z(3) by (auto simp: recorded_def intro: adds_trans)
qed

lemma recorded_complete:
  assumes "\<forall>spec \<in> set (fst (selectContracts only)). truthy_opt (recorded network (cs_key spec) w)"
    "do_resume options" "do_network options = network" "do_only options = only"
  shows "to_deploy options (fst (selectContracts (do_only options))) w = []"
  using assms by (auto simp: to_deploy_def has_def start_recorded filter_empty_conv)

text \<open>
  C22: after a run that stopped while it initialized the contracts, no resumed run of the same selection, however often it
  is tried, calls any contract: every contract is on record, so there is nothing to deploy, and then nothing is initialized,
  though the runs report no failure of it and write the env files.
\<close>

theorem failed_init_never_resumed:
  assumes "deploy_main c options w = (InitFailed, w1)" "\<not> do_dryRun options"
    "(resumed_run (do_network options) {do_only options})\<^sup>*\<^sup>* w1 w2"
    "deploy_main c' options' w2 = (r, w3)" "do_resume options'" "do_network options' = do_network options"
    "do_only options' = do_only options"
  shows "adds (\<lambda>cmd. \<not> invokes cmd) (dw_log w1) (dw_log w3) \<and> r \<noteq> DeployFailed \<and> r \<noteq> InitFailed"
proof -
  have start: "\<forall>spec \<in> set (selection options). truthy_opt (recorded (do_network options) (cs_key spec) w1)"
    using init_failed_recorded [OF assms(1,2)] by (auto simp: recorded_def has_def)
  have "adds (\<lambda>cmd. \<not> invokes cmd) (dw_log w1) (dw_log w2)
      \<and> (\<forall>spec \<in> set (selection options). truthy_opt (recorded (do_network options) (cs_key spec) w2))"
    using assms(3)
  proof (induction rule: rtranclp_induct)
    case base
    with start show ?case
      by simp
  next
    case (step y z)
    from step(2) obtain c2 o2 r2 where z: "deploy_main c2 o2 y = (r2, z)" "do_resume o2" "do_network o2 = do_network options"
        "do_only o2 = do_only options"
      by (rule resumed_runE) blast
    have todo: "to_deploy o2 (selection o2) y = []"
      using recorded_complete [OF _ z(2-4)] step(3) by blast
    from resumed_complete(1,2) [OF z(1) todo]
    have "adds other (dw_log y) (dw_log z)" "dw_state z = dw_state y" .
    with step(3) show ?case
      by (auto simp: recorded_def intro: adds_trans elim!: adds_mono)
  qed
  moreover have todo: "to_deploy options' (selection options') w2 = []"
    using recorded_complete [OF _ assms(5-7)] calculation by blast
  ultimately show ?thesis
    using resumed_complete(1,3) [OF assms(4) todo] by (auto intro: adds_trans elim!: adds_mono)
qed

subsection \<open>The env file\<close>

lemma checked_storable:
  assumes "is_contract_id s"
  shows "storable s"
proof -
  have "is_digit x \<or> (let n = (of_char x :: nat) in 65 \<le> n \<and> n \<le> 90)" if "x \<in> set s" for x
    using assms that by (cases s) (auto simp: is_contract_id_def list_all_iff)
  moreover have "\<not> (is_digit x \<or> (let n = (of_char x :: nat) in 65 \<le> n \<and> n \<le> 90))" if "x \<in> set [LF, CR, CHR 0x22, CHR 0x5C]" for x
  proof -
    have "list_all (\<lambda>x. \<not> (is_digit x \<or> (let n = (of_char x :: nat) in 65 \<le> n \<and> n \<le> 90))) [LF, CR, CHR 0x22, CHR 0x5C]"
      by code_simp
    with that show ?thesis
      unfolding list_all_iff by blast
  qed
  ultimately show ?thesis
    unfolding storable_def by (metis list.set_intros)
qed

definition all_vars :: "string list" where
  "all_vars = map cs_envVar CONTRACTS @ [''NEXT_PUBLIC_ADMIN_ADDRESS'', ''NEXT_PUBLIC_ORACLE_ADDRESS'']"

lemma all_vars: "distinct all_vars" "list_all (\<lambda>k. k \<noteq> [] \<and> env_start (hd k) \<and> list_all env_char k \<and> k \<noteq> ''__proto__'') all_vars"
  by code_simp+

lemma deployed_vars_good:
  assumes "selected = fst (selectContracts only)" "\<forall>spec \<in> set selected. has ids (cs_key spec) \<longrightarrow> storable (id_of ids (cs_key spec))"
    "storable admin" "storable (var_or c ''ORACLE_ADDRESS'' [])"
  shows "good_updates (deployed_vars c selected ids admin)"
proof -
  let ?vars = "deployed_vars c selected ids admin"
  obtain P where sel: "selected = filter P CONTRACTS"
    using assms(1) by (cases "\<exists>list. only = Some list \<and> js_trim list \<noteq> []")
      (force simp: selectContracts_def Let_def split: option.splits if_splits intro: that [of "\<lambda>_. True"])+
  have "distinct (map cs_envVar CONTRACTS)" "''NEXT_PUBLIC_ADMIN_ADDRESS'' \<notin> set (map cs_envVar CONTRACTS)"
    "''NEXT_PUBLIC_ORACLE_ADDRESS'' \<notin> set (map cs_envVar CONTRACTS)"
    using all_vars(1) by (auto simp: all_vars_def)
  then have "distinct (map fst ?vars)" "set (map fst ?vars) \<subseteq> set all_vars"
    by (auto simp: deployed_vars_def sel all_vars_def comp_def distinct_map_filter)
  moreover have "storable v" if "(k, v) \<in> set ?vars" for k v
    using that assms by (auto simp: deployed_vars_def split: if_splits)
  ultimately show ?thesis
    using all_vars(2) unfolding good_updates_def env_key_def list_all_iff by fastforce
qed

text \<open>A run that succeeds has an id for every contract it selected, one it just checked or one on record.\<close>

lemma deployed_ids:
  assumes "deploy_main c options w = (Deployed admin ids, w')" "\<not> do_dryRun options"
  shows "\<forall>spec \<in> set (selection options). checked_id (ids (cs_key spec))
      \<or> (has ids (cs_key spec) \<and> ids (cs_key spec) = start_ids options w (cs_key spec))"
    "writeEnvFiles c options (deployed_vars c (selection options) ids admin) (dw_files w) = Some (dw_files w')"
proof -
  obtain selected unknown where sel: "selectContracts (do_only options) = (selected, unknown)"
    by fastforce
  obtain q log1 where pre: "preflight c options selected unknown (dw_log w) = (q, log1)"
    by fastforce
  obtain adm where q: "q = Inr adm"
    using assms(1) sel pre preflight_outcome [of c options selected unknown "dw_log w" _ log1]
    by (cases q) (auto simp: deploy_main_def)
  let ?todo = "to_deploy options selected w"
  obtain log2 where build: "buildContracts c options ?todo log1 = (True, log2)"
    using assms(1) sel pre q by (auto simp: deploy_main_def Let_def split: prod.splits bool.splits)
  obtain ids1 w1 where run: "deploy_all c options ?todo (start_ids options w) (w\<lparr>dw_log := log2\<rparr>) = (Some ids1, w1)"
    using assms(1) sel pre q build by (auto simp: deploy_main_def Let_def split: prod.splits option.splits)
  obtain log3 where out: "output_phase c options selected ids1 adm (w1\<lparr>dw_log := log3\<rparr>) = (Deployed admin ids, w')"
    using assms(1) sel pre q build run by (auto simp: deploy_main_def Let_def split: prod.splits bool.splits)
  have same: "ids = ids1" and "writeEnvFiles c options (deployed_vars c selected ids admin) (dw_files w) = Some (dw_files w')"
    using output_phase_cases(2) [OF out refl] deploy_all_adds [OF run] by auto
  then show "writeEnvFiles c options (deployed_vars c (selection options) ids admin) (dw_files w) = Some (dw_files w')"
    using sel by simp
  note res = deploy_all_result [OF run assms(2)]
  have "checked_id (ids (cs_key spec)) \<or> (has ids (cs_key spec) \<and> ids (cs_key spec) = start_ids options w (cs_key spec))"
    if "spec \<in> set selected" for spec
  proof (cases "cs_key spec \<in> cs_key ` set ?todo")
    case False
    then have "has (start_ids options w) (cs_key spec)"
      using that by (auto simp: to_deploy_def)
    with False res same show ?thesis
      by (simp add: has_def)
  qed (use res same in blast)
  with sel show "\<forall>spec \<in> set (selection options). checked_id (ids (cs_key spec))
      \<or> (has ids (cs_key spec) \<and> ids (cs_key spec) = start_ids options w (cs_key spec))"
    by simp
qed

lemma writeEnvFiles_merged: "writeEnvFiles c options vars files = Some files' \<Longrightarrow> \<not> do_dryRun options \<Longrightarrow>
    do_envFile options \<noteq> ''.env.contracts'' \<Longrightarrow>
    \<exists>out. upsertEnvVars (case files (do_envFile options) of Some text \<Rightarrow> text | None \<Rightarrow> []) vars (dc_header c (do_network options)) = Some out
      \<and> files' (do_envFile options) = Some out"
  by (auto simp: writeEnvFiles_def Let_def split: option.splits if_splits)

text \<open>
  C23: after a deployment that succeeds, the env file gives the id of every selected contract, new or on record, and the
  address of the admin, and gives every other variable the value it had. (Not for an env file that is the script's own
  \<open>.env.contracts\<close> or ends in a carriage return, and for recorded ids, addresses and a header that hold no line breaks,
  quotes or other text that an env file does not give back.)
\<close>

theorem deployment_written:
  assumes "deploy_main c options w = (Deployed admin ids, w')" "\<not> do_dryRun options" "do_envFile options \<noteq> ''.env.contracts''"
    "current = (case dw_files w (do_envFile options) of Some text \<Rightarrow> text | None \<Rightarrow> [])" "\<not> cr_end current"
    "\<forall>key v. recorded (do_network options) key w = Some v \<longrightarrow> storable v" "storable admin" "storable (var_or c ''ORACLE_ADDRESS'' [])"
    "header = dc_header c (do_network options)" "is_prefix ''#'' (js_trim header)" "LF \<notin> set header" "CR \<notin> set header"
  shows "\<exists>out. dw_files w' (do_envFile options) = Some out
    \<and> (\<forall>spec \<in> set (selection options). truthy_opt (ids (cs_key spec)) \<and> parseEnvFile out (cs_envVar spec) = ids (cs_key spec))
    \<and> parseEnvFile out ''NEXT_PUBLIC_ADMIN_ADDRESS'' = Some admin
    \<and> (\<forall>name. name \<notin> fst ` set (deployed_vars c (selection options) ids admin) \<longrightarrow> parseEnvFile out name = parseEnvFile current name)"
proof -
  let ?vars = "deployed_vars c (selection options) ids admin"
  have id: "has ids (cs_key spec) \<and> storable (id_of ids (cs_key spec))" if "spec \<in> set (selection options)" for spec
  proof -
    from deployed_ids(1) [OF assms(1,2)] that consider "checked_id (ids (cs_key spec))"
      | "has ids (cs_key spec)" "ids (cs_key spec) = start_ids options w (cs_key spec)"
      by blast
    then show ?thesis
    proof cases
      case 1
      then show ?thesis
        using contract_id_truthy checked_storable
        by (auto simp: checked_id_def has_def truthy_opt_def id_of_def split: option.splits)
    next
      case 2
      then have "ids (cs_key spec) = recorded (do_network options) (cs_key spec) w"
        by (auto simp: start_ids_def recorded_def has_def truthy_opt_def split: if_splits option.splits)
      with 2(1) assms(6) show ?thesis
        by (auto simp: has_def truthy_opt_def id_of_def split: option.splits)
    qed
  qed
  have good: "good_updates ?vars"
    using id assms(7,8) by (intro deployed_vars_good [OF refl]) auto
  obtain out where out: "upsertEnvVars current ?vars header = Some out" "dw_files w' (do_envFile options) = Some out"
    using writeEnvFiles_merged [OF deployed_ids(2) [OF assms(1,2)] assms(2,3)] assms(4,9) by blast
  note parse = upsert_then_parse [OF out(1) good assms(5,10-12)]
  have given: "map_of ?vars k = Some v" if "(k, v) \<in> set ?vars" for k v
    using good that by (intro map_of_is_SomeI) (auto simp: good_updates_def)
  have "parseEnvFile out (cs_envVar spec) = ids (cs_key spec)" if "spec \<in> set (selection options)" for spec
  proof -
    have "(cs_envVar spec, id_of ids (cs_key spec)) \<in> set ?vars"
      using that id [OF that] by (auto simp: deployed_vars_def)
    from given [OF this] id [OF that] show ?thesis
      by (auto simp: parse has_def truthy_opt_def id_of_def split: option.splits)
  qed
  moreover have "parseEnvFile out ''NEXT_PUBLIC_ADMIN_ADDRESS'' = Some admin"
  proof -
    have "(''NEXT_PUBLIC_ADMIN_ADDRESS'', admin) \<in> set ?vars"
      by (simp add: deployed_vars_def)
    from given [OF this] show ?thesis
      by (simp add: parse)
  qed
  moreover have "parseEnvFile out name = parseEnvFile current name" if "name \<notin> fst ` set ?vars" for name
    using that by (simp add: parse map_add_def map_of_eq_None_iff [THEN iffD2])
  ultimately show ?thesis
    using out(2) id by (auto simp: has_def)
qed

subsection \<open>More than one signer\<close>

lemma run_steps_stop: "step \<in> set steps \<Longrightarrow> (\<And>log1. \<not> fst (run_step c options admin step log1)) \<Longrightarrow>
    \<not> fst (run_steps c options admin steps log1)"
proof (induction steps arbitrary: log1)
  case (Cons s steps)
  obtain ok log2 where s: "run_step c options admin s log1 = (ok, log2)"
    by fastforce
  show ?case
  proof (cases "step = s")
    case True
    with s Cons.prems(2) [of log1] show ?thesis
      by auto
  next
    case False
    with Cons have "\<not> fst (run_steps c options admin steps log2)"
      by auto
    with s show ?thesis
      by (cases ok) auto
  qed
qed simp

text \<open>
  A multisig with a threshold above one refuses to execute a proposal that only its proposer has approved. The script
  executes at once, so it stops there, before the warning that more approvals are needed.
\<close>

lemma unexecuted_proposal_stops:
  assumes "\<not> do_dryRun options" "has ids ''multisig_admin''" "has ids ''governance''" "has ids ''lending''"
    "\<And>log1 args. dc_shell c log1 (invoke_command options (id_of ids ''multisig_admin'') ''execute'' args) = None"
    "\<And>log1 args out. dc_shell c log1 (invoke_command options (id_of ids ''multisig_admin'') ''propose'' args) = Some out \<Longrightarrow>
      last_line (js_trim out) \<noteq> []"
  shows "\<not> fst (run_steps c options admin (initializeContracts c options ids admin) log1)"
proof (cases "threshold_invalid (var_or c ''MULTISIG_THRESHOLD'' ''1'') (multisig_signers c admin)")
  case True
  have "Die \<in> set (initializeContracts c options ids admin)"
    using True assms(2) by (simp add: initializeContracts_def initializeMultisig_def Let_def)
  then show ?thesis
    by (rule run_steps_stop) (simp add: run_step_def)
next
  case False
  let ?p = "ProposeAndExecute (id_of ids ''multisig_admin'')
    (json_fields [(''SetGovernance'', json_texts [id_of ids ''lending'', id_of ids ''governance''])])"
  have "?p \<in> set (initializeContracts c options ids admin)"
    using False assms(2-4) by (simp add: initializeContracts_def initializeMultisig_def Let_def)
  then show ?thesis
    by (rule run_steps_stop) (use assms(1,5,6) in \<open>auto simp: run_step_def run_stellar_def split: option.splits\<close>)
qed

subsection \<open>Two runs\<close>

text \<open>A shell that deploys and fails to call a contract, and one that can do both\<close>

definition demo_id :: string where
  "demo_id = CHR ''C'' # replicate 55 (CHR ''A'')"

definition demo_shell :: "bool \<Rightarrow> shell" where
  "demo_shell up _ cmd =
     (if cmd = [''--version''] then Some ''stellar 22.1.0'' else if take 2 cmd = [''keys'', ''address''] then Some ''GADMIN''
      else if take 2 cmd = [''contract'', ''deploy''] then Some demo_id
      else if take 2 cmd = [''contract'', ''invoke''] \<and> \<not> up then None else Some [])"

definition demo_ctx :: "bool \<Rightarrow> deploy_ctx" where
  "demo_ctx up = \<lparr>dc_shell = demo_shell up, dc_cliExists = True, dc_wasmExists = (\<lambda>_. True), dc_horizonStatus = (\<lambda>_. None),
     dc_friendbotOk = (\<lambda>_. True), dc_nativeContract = (\<lambda>_. demo_id), dc_header = (\<lambda>_. ''# contracts''), dc_var = Map.empty\<rparr>"

definition demo_options :: "bool \<Rightarrow> deploy_options" where
  "demo_options again = default_options\<lparr>do_only := Some ''escrow'', do_resume := again, do_skipBindings := True\<rparr>"

definition demo_start :: deploy_world where
  "demo_start = \<lparr>dw_log = [], dw_state = Map.empty, dw_files = [''.env.local'' \<mapsto> ''DATABASE_URL=postgres://x'']\<rparr>"

definition demo_spec :: contract_spec where
  "demo_spec = contract_spec_of (''escrow'', ''escrow.wasm'', ''NEXT_PUBLIC_ESCROW_CONTRACT_ID'', True)"

lemma demo_selection: "selectContracts (Some ''escrow'') = ([demo_spec], [])"
  by code_simp

lemma demo_merged: "upsertEnvVars ''DATABASE_URL=postgres://x'' [(''NEXT_PUBLIC_ESCROW_CONTRACT_ID'', demo_id),
    (''NEXT_PUBLIC_ADMIN_ADDRESS'', ''GADMIN'')] ''# contracts'' \<noteq> None"
  by code_simp

lemma demo_facts: "demo_id \<noteq> []" "is_contract_id demo_id" "last_line demo_id = demo_id" "js_trim demo_id = demo_id" "version_ok ''stellar 22.1.0''"
  "js_trim ''stellar 22.1.0'' = ''stellar 22.1.0''" "js_trim ''GADMIN'' = ''GADMIN''"
  by code_simp+

lemmas demo_defs = deploy_main_def demo_selection demo_options_def default_options_def preflight_def checkStellarCli_def run_stellar_def
    demo_ctx_def demo_shell_def demo_facts ensureAdminIdentity_def ensureFunded_def to_deploy_def start_ids_def
    buildContracts_def has_def truthy_opt_def deployContract_def deploy_command_def demo_spec_def contract_spec_of_def writeState_def
    initialize_phase_def initializeContracts_def initializeSatellites_def run_step_def invoke_command_def id_of_def demo_start_def Let_def

lemma demo_failed: "\<exists>w1. deploy_main (demo_ctx False) (demo_options False) demo_start = (InitFailed, w1)
    \<and> dw_state w1 ''testnet'' = Some [''escrow'' \<mapsto> demo_id]"
  by (simp add: demo_defs)

lemma demo_deployed: "\<exists>w1. deploy_main (demo_ctx True) (demo_options False) demo_start = (Deployed ''GADMIN'' [''escrow'' \<mapsto> demo_id], w1)"
  using demo_merged by (auto simp: demo_defs output_phase_def writeEnvFiles_def deployed_vars_def)

lemma demo_storable: "storable ''GADMIN''" "storable []"
  by (simp_all add: storable_def needs_quotes_def js_space_def)

theorem failed_init_never_resumed_witness:
  "\<exists>w1 r w3. deploy_main (demo_ctx False) (demo_options False) demo_start = (InitFailed, w1)
     \<and> deploy_main (demo_ctx True) (demo_options True) w1 = (r, w3) \<and> adds (\<lambda>cmd. \<not> invokes cmd) (dw_log w1) (dw_log w3) \<and> r \<noteq> InitFailed"
proof -
  obtain w1 where w1: "deploy_main (demo_ctx False) (demo_options False) demo_start = (InitFailed, w1)"
    using demo_failed by blast
  obtain r w3 where w3: "deploy_main (demo_ctx True) (demo_options True) w1 = (r, w3)"
    by fastforce
  have "adds (\<lambda>cmd. \<not> invokes cmd) (dw_log w1) (dw_log w3) \<and> r \<noteq> DeployFailed \<and> r \<noteq> InitFailed"
    by (rule failed_init_never_resumed [OF w1 _ rtranclp.rtrancl_refl w3]) (simp_all add: demo_options_def default_options_def)
  with w1 w3 show ?thesis
    by blast
qed

theorem resumed_runs_keep_ids_witness:
  "\<exists>w1 r w3. deploy_main (demo_ctx False) (demo_options False) demo_start = (InitFailed, w1)
     \<and> deploy_main (demo_ctx True) (demo_options True) w1 = (r, w3) \<and> recorded ''testnet'' ''escrow'' w3 = Some demo_id"
proof -
  obtain w1 where w1: "deploy_main (demo_ctx False) (demo_options False) demo_start = (InitFailed, w1)"
    "recorded ''testnet'' (cs_key demo_spec) w1 = Some demo_id"
    using demo_failed by (auto simp: recorded_def demo_spec_def contract_spec_of_def)
  obtain r w3 where w3: "deploy_main (demo_ctx True) (demo_options True) w1 = (r, w3)"
    by fastforce
  have "resumed_run ''testnet'' UNIV w1 w3"
    by (rule resumed_run.resumed [OF w3]) (simp_all add: demo_options_def default_options_def)
  then have "recorded ''testnet'' (cs_key demo_spec) w3 = Some demo_id"
    using resumed_runs_keep_ids [OF r_into_rtranclp w1(2)] by (simp add: demo_id_def demo_spec_def CONTRACTS_def)
  with w1(1) w3 show ?thesis
    by (auto simp: demo_spec_def contract_spec_of_def)
qed

theorem deployment_written_witness:
  "\<exists>w1 out. deploy_main (demo_ctx True) (demo_options False) demo_start = (Deployed ''GADMIN'' [''escrow'' \<mapsto> demo_id], w1)
     \<and> dw_files w1 ''.env.local'' = Some out \<and> parseEnvFile out ''NEXT_PUBLIC_ESCROW_CONTRACT_ID'' = Some demo_id
     \<and> parseEnvFile out ''DATABASE_URL'' = parseEnvFile ''DATABASE_URL=postgres://x'' ''DATABASE_URL''"
proof -
  obtain w1 where w1: "deploy_main (demo_ctx True) (demo_options False) demo_start = (Deployed ''GADMIN'' [''escrow'' \<mapsto> demo_id], w1)"
    using demo_deployed by blast
  have hyps: "\<not> do_dryRun (demo_options False)" "do_envFile (demo_options False) \<noteq> ''.env.contracts''"
    "''DATABASE_URL=postgres://x'' = (case dw_files demo_start (do_envFile (demo_options False)) of Some text \<Rightarrow> text | None \<Rightarrow> [])"
    "\<not> cr_end ''DATABASE_URL=postgres://x''"
    "\<forall>key v. recorded (do_network (demo_options False)) key demo_start = Some v \<longrightarrow> storable v"
    "storable ''GADMIN''" "storable (var_or (demo_ctx True) ''ORACLE_ADDRESS'' [])"
    "''# contracts'' = dc_header (demo_ctx True) (do_network (demo_options False))"
    "LF \<notin> set ''# contracts''" "CR \<notin> set ''# contracts''"
    using demo_storable
    by (simp_all add: demo_options_def default_options_def demo_start_def recorded_def demo_ctx_def var_or_def cr_end_def)
  have header: "is_prefix ''#'' (js_trim ''# contracts'')"
    by code_simp
  have names: "do_envFile (demo_options False) = ''.env.local''" "fst (selectContracts (do_only (demo_options False))) = [demo_spec]"
    "cs_envVar demo_spec = ''NEXT_PUBLIC_ESCROW_CONTRACT_ID''" "cs_key demo_spec = ''escrow''"
    "fst ` set (deployed_vars (demo_ctx True) [demo_spec] [''escrow'' \<mapsto> demo_id] ''GADMIN'')
      \<subseteq> {''NEXT_PUBLIC_ESCROW_CONTRACT_ID'', ''NEXT_PUBLIC_ADMIN_ADDRESS''}"
    by (simp_all add: demo_options_def default_options_def demo_selection demo_spec_def contract_spec_of_def deployed_vars_def
        truthy_opt_def demo_ctx_def)
  from deployment_written [OF w1 hyps(1-8) header hyps(9,10), unfolded names(1,2)]
  obtain out where out: "dw_files w1 ''.env.local'' = Some out"
    and ids: "\<forall>spec \<in> set [demo_spec]. truthy_opt ([''escrow'' \<mapsto> demo_id] (cs_key spec))
      \<and> parseEnvFile out (cs_envVar spec) = [''escrow'' \<mapsto> demo_id] (cs_key spec)"
    and rest: "\<forall>name. name \<notin> fst ` set (deployed_vars (demo_ctx True) [demo_spec] [''escrow'' \<mapsto> demo_id] ''GADMIN'')
      \<longrightarrow> parseEnvFile out name = parseEnvFile ''DATABASE_URL=postgres://x'' name"
    by (elim exE conjE) (rule that)
  have "''DATABASE_URL'' \<notin> fst ` set (deployed_vars (demo_ctx True) [demo_spec] [''escrow'' \<mapsto> demo_id] ''GADMIN'')"
    using names(5) by auto
  with rest have "parseEnvFile out ''DATABASE_URL'' = parseEnvFile ''DATABASE_URL=postgres://x'' ''DATABASE_URL''"
    by blast
  moreover have "parseEnvFile out ''NEXT_PUBLIC_ESCROW_CONTRACT_ID'' = Some demo_id"
    using ids names(3,4) by simp
  ultimately show ?thesis
    using w1 out by blast
qed

end
