(* ===== verification/WithdrawSafety.thy ===== *)
theory WithdrawSafety
  imports PoolSafety
begin

text \<open>
  What a withdrawal promises when no other request is in between: a transfer on the accounts of the pools and the
  positions, all of it or nothing. The statements of the route (a ledger entry, the position, the pool, the payment, and
  whatever a failure releases) refine that transfer.
\<close>

subsection \<open>Accounts\<close>

type_synonym pool_account = "string \<times> int \<times> int" \<comment> \<open>the pool, its total and what is available\<close>
type_synonym position_account = "string \<times> int \<times> int \<times> position_status" \<comment> \<open>the position, its principal and what was withdrawn\<close>

definition pool_account_of :: "lending_pool \<Rightarrow> pool_account" where
  "pool_account_of p = (pool_id p, pool_totalLiquidity p, pool_availableLiquidity p)"

definition position_account_of :: "pool_position \<Rightarrow> position_account" where
  "position_account_of x = (pos_id x, pos_principalAmount x, pos_withdrawnAmount x, pos_status x)"

definition accounts :: "database \<Rightarrow> pool_account list \<times> position_account list" where
  "accounts db = (map pool_account_of (db_lendingPools db), map position_account_of (db_poolPositions db))"

text \<open>The transfer: \<open>n\<close> micro-units out of pool \<open>P\<close> and position \<open>i\<close>.\<close>

definition transfer_out :: "string \<Rightarrow> string \<Rightarrow> int \<Rightarrow> pool_account list \<times> position_account list \<Rightarrow> pool_account list \<times> position_account list" where
  "transfer_out P i n = (\<lambda>(pools, positions).
     (map (\<lambda>(k, total, available). if k = P then (k, total - n, available - n) else (k, total, available)) pools,
      map (\<lambda>(k, principal, out, st). if k = i then (k, principal - n, out + n, if principal = n then PositionClosed else PositionActive)
        else (k, principal, out, st)) positions))"

subsection \<open>What the statements do to the accounts\<close>

lemma col_micro [simp]: "col_add m (of_micro n) = m + n" "col_sub m (of_micro n) = m - n"
  by (simp_all add: col_add_def col_sub_def flip: of_micro_add of_micro_diff)

lemma of_micro_nonpos [simp]: "of_micro n \<le> 0 \<longleftrightarrow> n \<le> 0"
  using of_micro_le_iff [of n 0] by simp

lemma accounts_ledger [simp]:
  "accounts (set_ledger_status i st db) = accounts db" "accounts (insert_ledger row db) = accounts db"
  "accounts (confirm_withdrawal p i r db) = accounts db"
  by (simp_all add: accounts_def set_ledger_status_def insert_ledger_def confirm_withdrawal_def)

lemma reserved_positions:
  assumes "reserve_position e u p db = Some db'" "distinct (map pos_id (db_poolPositions db))" "wp_decimal p = of_micro n"
  shows "db_lendingPools db' = db_lendingPools db"
    "db_poolPositions db' = update_where (\<lambda>x. pos_id x = wp_positionId p) (take_principal (of_micro n) (env_now e)) (db_poolPositions db)"
    "\<forall>x \<in> set (db_poolPositions db). pos_id x = wp_positionId p \<longrightarrow> pos_status x = PositionActive \<and> n \<le> pos_principalAmount x"
proof -
  obtain r where r: "find (reservable u p) (db_poolPositions db) = Some r" and db':
      "db' = db\<lparr>db_poolPositions := update_where (reservable u p) (take_principal (wp_decimal p) (env_now e)) (db_poolPositions db)\<rparr>"
    using assms(1) by (auto simp: reserve_position_def split: if_splits)
  have row: "r \<in> set (db_poolPositions db)" "reservable u p r"
    using find_in_set [OF r] by simp_all
  then show "db_lendingPools db' = db_lendingPools db"
    "db_poolPositions db' = update_where (\<lambda>x. pos_id x = wp_positionId p) (take_principal (of_micro n) (env_now e)) (db_poolPositions db)"
    using update_where_key [OF assms(2), of r "reservable u p"] assms(3) by (auto simp: db' reservable_def)
  have "x = r" if "x \<in> set (db_poolPositions db)" "pos_id x = wp_positionId p" for x
    using that row assms(2) unfolding reservable_def distinct_map by (metis inj_onD)
  then show "\<forall>x \<in> set (db_poolPositions db). pos_id x = wp_positionId p \<longrightarrow> pos_status x = PositionActive \<and> n \<le> pos_principalAmount x"
    using row(2) assms(3) by (auto simp: reservable_def)
qed

lemma reserved_pools:
  assumes "reserve_pool p db = Some db'" "distinct (map pool_id (db_lendingPools db))" "wp_decimal p = of_micro n"
  shows "db_poolPositions db' = db_poolPositions db"
    "db_lendingPools db' = update_where (\<lambda>x. pool_id x = wp_poolId p) (take_liquidity (of_micro n)) (db_lendingPools db)"
proof -
  obtain r where r: "find (pool_covers p) (db_lendingPools db) = Some r" and db':
      "db' = db\<lparr>db_lendingPools := update_where (pool_covers p) (take_liquidity (wp_decimal p)) (db_lendingPools db)\<rparr>"
    using assms(1) by (auto simp: reserve_pool_def split: if_splits)
  have "r \<in> set (db_lendingPools db)" "pool_covers p r"
    using find_in_set [OF r] by simp_all
  then show "db_poolPositions db' = db_poolPositions db"
    "db_lendingPools db' = update_where (\<lambda>x. pool_id x = wp_poolId p) (take_liquidity (of_micro n)) (db_lendingPools db)"
    using update_where_key [OF assms(2), of r "pool_covers p"] assms(3) by (auto simp: db' pool_covers_def)
qed

lemma reserved_accounts:
  assumes "reserve_position e u p db = Some db1" "reserve_pool p db1 = Some db2" "tables_ok db" "wp_decimal p = of_micro n"
  shows "accounts db2 = transfer_out (wp_poolId p) (wp_positionId p) n (accounts db)"
    "accounts (release_pool p (release_position p db2)) = accounts db"
proof -
  have ids: "distinct (map pos_id (db_poolPositions db))" "distinct (map pool_id (db_lendingPools db))"
    using assms(3) by (simp_all add: tables_ok_def pos_map_def pool_ids_def comp_def)
  note pos = reserved_positions [OF assms(1) ids(1) assms(4)]
  note pool = reserved_pools [OF assms(2) _ assms(4)]
  show "accounts db2 = transfer_out (wp_poolId p) (wp_positionId p) n (accounts db)"
    using pos(3) ids(2) pool
    by (auto simp: accounts_def transfer_out_def pos(1,2) update_where_def pool_account_of_def position_account_of_def
        take_principal_def take_liquidity_def simp flip: of_micro_diff)
  show "accounts (release_pool p (release_position p db2)) = accounts db"
    using pos(3) ids(2) pool
    by (auto simp: accounts_def pos(1,2) update_where_def pool_account_of_def position_account_of_def take_principal_def
        take_liquidity_def release_pool_def release_position_def credit_pool_def return_principal_def add_liquidity_def assms(4))
qed

lemma refused_accounts:
  assumes "reserve_position e u p db = Some db1" "tables_ok db" "wp_decimal p = of_micro n"
  shows "accounts (release_position p db1) = accounts db"
proof -
  have ids: "distinct (map pos_id (db_poolPositions db))"
    using assms(2) by (simp add: tables_ok_def pos_map_def comp_def)
  note pos = reserved_positions [OF assms(1) ids assms(3)]
  show ?thesis
    using pos(3) by (auto simp: accounts_def pos(1,2) update_where_def position_account_of_def take_principal_def
        release_position_def return_principal_def assms(3))
qed

lemma withdraw_run_accounts:
  assumes "withdraw_run e u p w = (answer, w')" "tables_ok (w_db w)" "wp_decimal p = of_micro n"
  shows "case answer of
      Answer s (Inr ok) \<Rightarrow> accounts (w_db w') = transfer_out (wp_poolId p) (wp_positionId p) n (accounts (w_db w))
        \<and> wo_amount ok = wp_amount p \<and> payouts w' = Suc (payouts w)
    | _ \<Rightarrow> accounts (w_db w') = accounts (w_db w)"
proof (cases "reserve_ledger e u p (w_db w)")
  case None
  then show ?thesis
    using assms(1) by (auto simp: withdraw_run_def)
next
  case (Some x)
  then obtain i db1 where ledger: "reserve_ledger e u p (w_db w) = Some (i, db1)"
    by (cases x) simp
  then have db1: "accounts db1 = accounts (w_db w)" "tables_ok db1"
    using assms(2) by (auto simp: reserve_ledger_def Let_def accounts_def insert_ledger_def tables_ok_def pos_map_def
        pool_ids_def solvent_def split: if_splits)
  show ?thesis
  proof (cases "reserve_position e u p db1")
    case None
    then show ?thesis
      using assms(1) ledger db1 by (auto simp: withdraw_run_def)
  next
    case pos: (Some db2)
    show ?thesis
    proof (cases "reserve_pool p db2")
      case None
      then show ?thesis
        using assms(1) ledger pos db1 refused_accounts [OF pos db1(2) assms(3)] by (auto simp: withdraw_run_def)
    next
      case pool: (Some db3)
      note taken = reserved_accounts [OF pos pool db1(2) assms(3)]
      have run: "withdraw_pay e p i (set_db (\<lambda>_. db3) w) = (answer, w')"
        using assms(1) ledger pos pool by (simp add: withdraw_run_def)
      obtain r w1 where pay: "payoutFromPlatformWallet e (wp_destination p) (wp_amount p) (memo_withdraw (wp_rawId p)) (set_db (\<lambda>_. db3) w) = (r, w1)"
        by fastforce
      have w1: "w_db w1 = db3"
        using payout_db [OF pay] by simp
      show ?thesis
      proof (cases r)
        case (Inl err)
        then show ?thesis
          using run pay w1 taken(2) db1(1) by (auto simp: withdraw_pay_def)
      next
        case (Inr paid)
        have "payouts w1 = Suc (payouts w)"
          using pay Inr by (auto simp: payoutFromPlatformWallet_def Let_def payouts_def is_payout_def split: sum.splits option.splits if_splits)
        moreover obtain out where sync: "syncPoolOnchain e (wp_poolId p) (set_db (confirm_withdrawal p i paid) w1) = (out, w')"
            and ok: "answer = Answer 200 (Inr \<lparr>wo_amount = wp_amount p, wo_txHash = po_hash paid, wo_onchain = out\<rparr>)"
          using run pay Inr by (auto simp: withdraw_pay_def Let_def split: prod.splits)
        ultimately show ?thesis
          using sync_db [OF sync] sync_log [OF sync] w1 taken(1) db1(1) by (simp add: ok)
      qed
    qed
  qed
qed

text \<open>
  C4: run alone, the withdrawal route is a transfer on the accounts of the pools and the positions. An accepted request
  takes the amount it answers with, as a whole number of micro-units, out of the lender's own active position and out of
  its pool, closes the position when nothing is left, and asks the platform wallet for one payment; any other answer, one
  after a reservation or a failed payment included, leaves every account as it was. (Amounts of whole micro-units: the
  columns keep six decimals, the route seven.)
\<close>

theorem withdrawal_all_or_nothing:
  assumes "POST_withdraw e header b w = (answer, w')" "tables_ok (w_db w)"
    and "\<forall>u q p. requireAuthenticatedUser e RoleLender = Inr u \<and> withdraw_parse header b = Inr q
      \<and> withdraw_check e u q (w_db w) = Inr p \<longrightarrow> of_micro (round6 (wp_decimal p)) = wp_decimal p"
  shows "case answer of
      Answer s (Inr ok) \<Rightarrow> \<exists>u x n. requireAuthenticatedUser e RoleLender = Inr u \<and> x \<in> set (db_poolPositions (w_db w))
        \<and> pos_lenderId x = user_id u \<and> pos_status x = PositionActive \<and> 0 < n \<and> dec_of_num (wo_amount ok) = Some (of_micro n)
        \<and> accounts (w_db w') = transfer_out (pos_poolId x) (pos_id x) n (accounts (w_db w)) \<and> payouts w' = Suc (payouts w)
    | _ \<Rightarrow> accounts (w_db w') = accounts (w_db w)"
proof -
  consider (refused) "w' = w" "\<And>s ok. answer \<noteq> Answer s (Inr ok)"
    | (run) u q p where "requireAuthenticatedUser e RoleLender = Inr u" "withdraw_parse header b = Inr q"
      "withdraw_check e u q (w_db w) = Inr p" "withdraw_run e u p w = (answer, w')"
    using assms(1) by (auto simp: POST_withdraw_def split: if_splits sum.splits prod.splits)
  then show ?thesis
  proof cases
    case refused
    then show ?thesis
      by (auto split: answer.split sum.split)
  next
    case run
    obtain key rawId amount where q: "q = (key, rawId, amount)"
      by (cases q)
    define n where "n = round6 (wp_decimal p)"
    have n: "wp_decimal p = of_micro n"
      unfolding n_def using assms(3) run(1-3) by metis
    have pos: "0 < n"
      using withdraw_amount_pos [OF run(3)] n by simp
    obtain x where x: "x \<in> set (db_poolPositions (w_db w))" "pos_lenderId x = user_id u" "pos_status x = PositionActive"
        "wp_positionId p = pos_id x" "wp_poolId p = pos_poolId x"
      using run(3) by (auto simp: q withdraw_check_def Let_def split: option.splits if_splits dest!: find_in_set)
    have "dec_of_num (wp_amount p) = Some (of_micro n)"
      using withdraw_check_amount [OF run(3) [unfolded q]] n by simp
    then show ?thesis
      using withdraw_run_accounts [OF run(4) assms(2) n] run(1) x pos by (auto split: answer.splits sum.splits)
  qed
qed

subsection \<open>Examples\<close>

text \<open>40 of the 100 XLM, paid; and the same request when the payment cannot be submitted.\<close>

definition demo_withdraw_body :: withdraw_body where
  "demo_withdraw_body = \<lparr>wb_positionId = JStr ''Q'', wb_amount = JNum (Fin 40)\<rparr>"

definition demo_offline_env :: env where
  "demo_offline_env = demo_pool_env\<lparr>env_submitPayout := (\<lambda>_ _ _. Inl ''offline'')\<rparr>"

lemma demo_withdraw_answers:
  "fst (POST_withdraw demo_pool_env (Some ''key-0001'') demo_withdraw_body (demo_world demo_pool_db)) = Answer 200 (Inr
    \<lparr>wo_amount = Fin 40, wo_txHash = demo_hash CHR ''e'', wo_onchain = fst (syncPoolOnchain demo_pool_env ''P'' (demo_world demo_pool_db))\<rparr>)"
  "fst (POST_withdraw demo_offline_env (Some ''key-0001'') demo_withdraw_body (demo_world demo_pool_db))
    = Answer 502 (Inl (WithdrawPayoutFailed ''offline''))"
  by code_simp+

lemma demo_withdraw_parse: "withdraw_parse (Some ''key-0001'') demo_withdraw_body = Inr (''key-0001'', ''Q'', Fin 40)"
  by code_simp

lemma demo_whole:
  assumes "e \<in> {demo_pool_env, demo_offline_env}" "requireAuthenticatedUser e RoleLender = Inr u"
    "withdraw_parse (Some ''key-0001'') demo_withdraw_body = Inr q" "withdraw_check e u q (w_db (demo_world demo_pool_db)) = Inr p"
  shows "of_micro (round6 (wp_decimal p)) = wp_decimal p"
proof -
  have q: "q = (''key-0001'', ''Q'', Fin 40)"
    using assms(3) by (auto simp: demo_withdraw_parse)
  have "dec_of_num (fixed_num 7 (Fin 40)) = Some 40" "of_micro (round6 40) = 40"
    by code_simp+
  then show ?thesis
    using withdraw_check_amount(2) [OF assms(4) [unfolded q]] by simp
qed

lemma withdrawal_all_or_nothing_witness:
  "(let w = demo_world demo_pool_db;
        paid = snd (POST_withdraw demo_pool_env (Some ''key-0001'') demo_withdraw_body w);
        failed = snd (POST_withdraw demo_offline_env (Some ''key-0001'') demo_withdraw_body w)
    in accounts (w_db paid) = transfer_out ''P'' ''Q'' 40000000 (accounts (w_db w)) \<and> accounts (w_db failed) = accounts (w_db w))"
proof -
  let ?w = "demo_world demo_pool_db"
  obtain ok w1 where one: "POST_withdraw demo_pool_env (Some ''key-0001'') demo_withdraw_body ?w = (Answer 200 (Inr ok), w1)"
    using demo_withdraw_answers(1) by (metis prod.collapse)
  obtain w2 where two: "POST_withdraw demo_offline_env (Some ''key-0001'') demo_withdraw_body ?w = (Answer 502 (Inl (WithdrawPayoutFailed ''offline'')), w2)"
    using demo_withdraw_answers(2) by (metis prod.collapse)
  have ok: "tables_ok (w_db ?w)"
    using demo_pool_tables by (simp add: demo_world_def)
  have amount: "wo_amount ok = Fin 40" "dec_of_num (Fin 40) = Some 40" "of_micro n = 40 \<Longrightarrow> n = 40000000" for n
    using demo_withdraw_answers(1) one by (simp, code_simp, simp add: of_micro_def)
  have whole: "\<forall>u q p. requireAuthenticatedUser e RoleLender = Inr u \<and> withdraw_parse (Some ''key-0001'') demo_withdraw_body = Inr q
      \<and> withdraw_check e u q (w_db ?w) = Inr p \<longrightarrow> of_micro (round6 (wp_decimal p)) = wp_decimal p"
    if "e \<in> {demo_pool_env, demo_offline_env}" for e
    using demo_whole [OF that] by blast
  have "accounts (w_db w1) = transfer_out ''P'' ''Q'' 40000000 (accounts (w_db ?w))"
  proof -
    obtain x n where "x \<in> set (db_poolPositions (w_db ?w))" "dec_of_num (wo_amount ok) = Some (of_micro n)"
        "accounts (w_db w1) = transfer_out (pos_poolId x) (pos_id x) n (accounts (w_db ?w))"
      using withdrawal_all_or_nothing [OF one ok whole [of demo_pool_env]] by auto
    then show ?thesis
      using amount by (auto simp: demo_world_def)
  qed
  moreover have "accounts (w_db w2) = accounts (w_db ?w)"
    using withdrawal_all_or_nothing [OF two ok whole [of demo_offline_env]] by simp
  ultimately show ?thesis
    by (simp add: Let_def one two)
qed

end
