(* ===== verification/MarketSafety.thy ===== *)
theory MarketSafety
  imports AdminPoolsSafety FundSafety WithdrawSafety
begin

text \<open>
  The loan routes together with what an administrator does to the same loans: \<open>approveLoan\<close> and the matching pass read a
  loan that is requested and write its approval by id alone, so any other request may come in between. An approval in
  flight is what it has read and not yet written; of the matching pass, which approves some of the loans it has read, every
  loan and pool it could choose is one. An approval's two updates are one step: no route of a loan reads or writes a pool.
\<close>

type_synonym market = "world \<times> task multiset \<times> approval multiset"

inductive market_step :: "market \<Rightarrow> market \<Rightarrow> bool" where
  loan_moves: "loan_step (w, M) (w', M') \<Longrightarrow> market_step (w, M, A) (w', M', A)"
| approve_reads: "approve_check e i k (w_db w) = Inr a \<Longrightarrow> market_step (w, M, A) (w, M, add_mset a A)"
| match_reads: "l \<in> set (db_loans (w_db w)) \<Longrightarrow> loan_status l = LoanRequested \<Longrightarrow>
    market_step (w, M, A) (w, M, add_mset \<lparr>apv_loanId = loan_id l, apv_poolId = k, apv_amount = num_of_micro (loan_principalAmount l)\<rparr> A)"
| approve_writes: "approve_write e a (w_db w) = (ok, db) \<Longrightarrow>
    market_step (w, M, add_mset a A) (set_db (\<lambda>_. db) w, M, A)"

lemma approve_write_tables:
  assumes "approve_write e a db = (ok, db')"
  shows "db_loans db' = update_where (\<lambda>l. loan_id l = apv_loanId a) (approve_loan_row e (apv_poolId a)) (db_loans db)"
    "db_loanFundings db' = db_loanFundings db"
  using assms by (auto simp: approve_write_def Let_def split: option.splits)

lemma approve_write_tracked:
  assumes "approve_write e a db = (ok, db')" "tracked c l0 rows0 db" "c \<longrightarrow> apv_loanId a \<noteq> loan_id l0"
  shows "tracked c l0 rows0 db'"
  using assms(3)
  by (intro tracked_update [OF assms(2) _ _ approve_write_tables(1) [OF assms(1)], where new = "[]"])
    (auto simp: approve_loan_row_def loan_le_def approve_write_tables(2) [OF assms(1)])

text \<open>A loan that is not open for funding is not read as requested.\<close>

lemma shut_not_requested:
  assumes "tracked True l0 rows0 db" "l \<in> set (db_loans db)" "loan_status l = LoanRequested"
  shows "loan_id l \<noteq> loan_id l0"
proof
  assume same: "loan_id l = loan_id l0"
  obtain l' where "l' \<in> set (db_loans db)" "loan_id l' = loan_id l0" "\<not> funding_open l'" "distinct (map loan_id (db_loans db))"
    using assms(1) by (auto simp: tracked_def loan_le_def)
  moreover from this have "l' = l"
    using assms(2) same unfolding distinct_map by (metis inj_onD)
  ultimately show False
    using assms(3) by (simp add: funding_open_def)
qed

lemma approve_check_requested:
  assumes "approve_check e i k db = Inr a"
  shows "\<exists>l \<in> set (db_loans db). loan_id l = apv_loanId a \<and> loan_status l = LoanRequested"
  using assms by (auto simp: approve_check_def Let_def dest!: find_in_set split: option.splits if_splits)

lemma market_step_tracked:
  assumes "market_step (w, M, A) (w', M', A')" "tracked c l0 rows0 (w_db w)" "loan_id l0 \<notin> creating M"
    and "c \<longrightarrow> loan_id l0 \<notin> apv_loanId ` set_mset A"
  shows "tracked c l0 rows0 (w_db w') \<and> loan_id l0 \<notin> creating M' \<and> (c \<longrightarrow> loan_id l0 \<notin> apv_loanId ` set_mset A')"
  using assms(1)
proof cases
  case loan_moves
  then show ?thesis
    using loan_step_tracked [of "(w, M)" "(w', M')"] assms(2-4) by simp
next
  case (approve_reads e i k a)
  then show ?thesis
    using approve_check_requested [OF approve_reads(4)] shut_not_requested [of l0 rows0 "w_db w"] assms(2-4) by (cases c) auto
next
  case (match_reads l k)
  then show ?thesis
    using shut_not_requested [of l0 rows0 "w_db w" l] assms(2-4) by (cases c) auto
next
  case (approve_writes e a ok db)
  then show ?thesis
    using approve_write_tracked [OF approve_writes(4) assms(2)] assms(3,4) by auto
qed

lemma market_steps_tracked:
  assumes "market_step\<^sup>*\<^sup>* s s'" "tracked c l0 rows0 (w_db (fst s))" "loan_id l0 \<notin> creating (fst (snd s))"
    and "c \<longrightarrow> loan_id l0 \<notin> apv_loanId ` set_mset (snd (snd s))"
  shows "tracked c l0 rows0 (w_db (fst s')) \<and> loan_id l0 \<notin> creating (fst (snd s'))
    \<and> (c \<longrightarrow> loan_id l0 \<notin> apv_loanId ` set_mset (snd (snd s')))"
  using assms
proof (induction rule: rtranclp_induct)
  case (step s1 s2)
  then show ?case
    using market_step_tracked [of "fst s1" "fst (snd s1)" "snd (snd s1)" "fst s2" "fst (snd s2)" "snd (snd s2)" c l0 rows0] by simp
qed simp

text \<open>
  C8: in every interleaving of applications, contributions, repayments, approvals and matching passes, a loan whose own
  application has been answered is never lost: it keeps its borrower and its principal, its funded amount does not fall and
  its contributions are neither changed nor lost; and once it has left the funding stage it never returns to it, unless an
  approval was in flight for it at that moment.
\<close>

theorem loans_move_forward:
  assumes "market_step\<^sup>*\<^sup>* (w, M, A) (w', M', A')" "distinct (map loan_id (db_loans (w_db w)))"
    and "l \<in> set (db_loans (w_db w))" "loan_id l \<notin> creating M"
  shows "(\<exists>rows. filter (\<lambda>r. lf_loanId r = loan_id l) (db_loanFundings (w_db w')) =
        filter (\<lambda>r. lf_loanId r = loan_id l) (db_loanFundings (w_db w)) @ rows)
    \<and> (\<exists>l' \<in> set (db_loans (w_db w')). loan_id l' = loan_id l \<and> loan_borrowerId l' = loan_borrowerId l
         \<and> loan_principalAmount l' = loan_principalAmount l \<and> loan_fundedAmount l \<le> loan_fundedAmount l'
         \<and> (loan_status l \<notin> {LoanRequested, LoanApproved} \<and> loan_id l \<notin> apv_loanId ` set_mset A
            \<longrightarrow> loan_status l' \<notin> {LoanRequested, LoanApproved}))"
proof -
  define c where "c = (\<not> funding_open l \<and> loan_id l \<notin> apv_loanId ` set_mset A)"
  have "tracked c l (fundings_of (loan_id l) (w_db w)) (w_db w)"
    using assms(2,3) unfolding tracked_def c_def by (intro conjI bexI [of _ l] exI [of _ "[]"]) auto
  then have "tracked c l (fundings_of (loan_id l) (w_db w)) (w_db w')"
    using market_steps_tracked [OF assms(1)] assms(4) by (simp add: c_def)
  then show ?thesis
    by (auto simp: tracked_def fundings_of_def loan_le_def c_def funding_open_def)
qed

subsection \<open>An application that is taken back\<close>

text \<open>
  Between the insert of a loan and its ledger entry the loan can be funded. When the entry then fails, the application
  deletes the loan, and the contribution that a lender has paid and that has been recorded goes with it, while the lender's
  request goes on.
\<close>

lemma fund_commit_rows:
  assumes "fund_commit e v f db0 = Inr (r, db)"
  obtains row t tm where "db_loanFundings db = db_loanFundings db0 @ [row]" "lf_loanId row = plan_canonicalId f" "lf_lenderId row = user_id v"
    "db_loans db = update_where (\<lambda>l. loan_id l = plan_canonicalId f) (fund_row t tm) (db_loans db0)"
  using assms by (auto simp: fund_commit_def split: option.splits sum.splits elim!: record_loan_funding_Inr)

theorem rollback_loses_contribution:
  assumes "apply_insert e u p w = Some (l, w1)" "requireAuthenticatedUser e' RoleLender = Inr v" "fund_parse b = Inr q"
    and "fund_check e' v b q (w_db w1) = Inr f" "plan_canonicalId f = loan_id l" "fund_commit e' v f (w_db w1) = Inr (r, db)"
  shows "\<exists>w2 w3. loan_step\<^sup>*\<^sup>* (w, {#ApplyChecked u p#}) (w2, {#ApplyInserted u p l, FundRecorded v b f r#})
    \<and> (\<exists>row \<in> set (db_loanFundings (w_db w2)). lf_loanId row = loan_id l \<and> lf_lenderId row = user_id v)
    \<and> loan_step (w2, {#ApplyInserted u p l, FundRecorded v b f r#}) (w3, {#FundRecorded v b f r#})
    \<and> loan_id l \<notin> loan_id ` set (db_loans (w_db w3)) \<and> loan_id l \<notin> lf_loanId ` set (db_loanFundings (w_db w3))"
proof -
  let ?w2 = "set_db (\<lambda>_. db) w1" and ?w3 = "set_db (delete_loan (loan_id l) (user_id u)) (set_db (\<lambda>_. db) w1)"
  obtain row t tm where "db_loanFundings db = db_loanFundings (w_db w1) @ [row]" "lf_loanId row = loan_id l" "lf_lenderId row = user_id v"
      and loans: "db_loans db = update_where (\<lambda>l'. loan_id l' = loan_id l) (fund_row t tm) (db_loans (w_db w1))"
    using fund_commit_rows [OF assms(6)] unfolding assms(5) by blast
  then have row: "row \<in> set (db_loanFundings db)" "lf_loanId row = loan_id l" "lf_lenderId row = user_id v"
    by simp_all
  have "loan_step (w, {#ApplyChecked u p#}) (w1, {#ApplyInserted u p l#})"
    using apply_inserts [OF assms(1), of "{#}"] by simp
  moreover have "loan_step (w1, {#ApplyInserted u p l#}) (w1, {#FundChecked v b f, ApplyInserted u p l#})"
    using fund_reads [OF assms(2-4)] by simp
  moreover have "loan_step (w1, {#FundChecked v b f, ApplyInserted u p l#}) (?w2, {#ApplyInserted u p l, FundRecorded v b f r#})"
    using fund_commits [OF assms(6), of b "{#ApplyInserted u p l#}"] by (simp add: add_mset_commute)
  ultimately have run: "loan_step\<^sup>*\<^sup>* (w, {#ApplyChecked u p#}) (?w2, {#ApplyInserted u p l, FundRecorded v b f r#})"
    by (meson converse_rtranclp_into_rtranclp r_into_rtranclp)
  have last: "loan_step (?w2, {#ApplyInserted u p l, FundRecorded v b f r#}) (?w3, {#FundRecorded v b f r#})"
    by (intro apply_finishes [where err = "Some m" for m]) (simp add: apply_trail_def)
  have new: "new_loan e u p (w_db w) = Some l" "db_loans (w_db w1) = db_loans (w_db w) @ [l]"
    using assms(1) by (auto simp: apply_insert_def insert_loan_def)
  have "loan_borrowerId l' = user_id u" if "l' \<in> set (db_loans db)" "loan_id l' = loan_id l" for l'
  proof -
    have same: "loan_id (fund_row t tm k) = loan_id k" "loan_borrowerId (fund_row t tm k) = loan_borrowerId k" for k
      by (simp_all add: fund_row_def)
    obtain k where "k \<in> set (db_loans (w_db w1))" "l' = (if loan_id k = loan_id l then fund_row t tm k else k)"
      using \<open>l' \<in> _\<close> unfolding loans in_update_where by blast
    moreover from this have "loan_id k = loan_id l"
      using \<open>loan_id l' = _\<close> same(1) by (metis (full_types))
    ultimately show ?thesis
      using new_loan_fresh(1,4) [OF new(1)] same(2) unfolding new(2) by (auto split: if_splits) (metis image_eqI)+
  qed
  moreover have "fund_row t tm l \<in> set (db_loans db)" "loan_id (fund_row t tm l) = loan_id l"
    by (auto simp: loans new(2) fund_row_def)
  ultimately have "loan_id l \<in> set (deleted_loans (loan_id l) (user_id u) db)"
    by (force simp: deleted_loans_def)
  with \<open>\<And>l'. l' \<in> set (db_loans db) \<Longrightarrow> loan_id l' = loan_id l \<Longrightarrow> loan_borrowerId l' = user_id u\<close>
  have "loan_id l \<notin> loan_id ` set (db_loans (w_db ?w3))" "loan_id l \<notin> lf_loanId ` set (db_loanFundings (w_db ?w3))"
    by (auto simp: delete_loan_tables)
  with run row last show ?thesis
    by (intro exI conjI) auto
qed

subsection \<open>An approval that comes late\<close>

text \<open>
  The exception is real: an approval read before a loan was funded is written whatever has become of the loan, and puts one
  that has left the funding stage, active or repaid, back to approved with the amount funded that it has.
\<close>

lemma loan_steps_market: "loan_step\<^sup>*\<^sup>* (w, M) (w', M') \<Longrightarrow> market_step\<^sup>*\<^sup>* (w, M, A) (w', M', A)"
proof (induction rule: rtranclp_induct2)
  case (step w1 M1 w2 M2)
  then show ?case
    by (blast intro: rtranclp.rtrancl_into_rtrancl loan_moves)
qed simp

theorem stale_approval_reopens:
  assumes "approve_check e i k (w_db w) = Inr a" "loan_step\<^sup>*\<^sup>* (w, M) (w', M')"
    and "l \<in> set (db_loans (w_db w'))" "loan_id l = apv_loanId a" "approve_write e' a (w_db w') = (ok, db)"
  shows "market_step\<^sup>*\<^sup>* (w, M, {#}) (set_db (\<lambda>_. db) w', M', {#})
    \<and> (\<exists>l' \<in> set (db_loans db). loan_id l' = loan_id l \<and> loan_status l' = LoanApproved \<and> loan_fundedAmount l' = loan_fundedAmount l)"
proof
  have "market_step (w, M, {#}) (w, M, {#a#})"
    using approve_reads [OF assms(1), of M "{#}"] by simp
  moreover have "market_step\<^sup>*\<^sup>* (w, M, {#a#}) (w', M', {#a#})"
    using assms(2) by (rule loan_steps_market)
  moreover have "market_step (w', M', {#a#}) (set_db (\<lambda>_. db) w', M', {#})"
    using approve_writes [OF assms(5), of M' "{#}"] by simp
  ultimately show "market_step\<^sup>*\<^sup>* (w, M, {#}) (set_db (\<lambda>_. db) w', M', {#})"
    by (meson converse_rtranclp_into_rtranclp rtranclp.rtrancl_into_rtrancl)
  have "approve_loan_row e' (apv_poolId a) l \<in> set (db_loans db)"
    using assms(3,4) unfolding approve_write_tables(1) [OF assms(5)] in_update_where by auto
  then show "\<exists>l' \<in> set (db_loans db). loan_id l' = loan_id l \<and> loan_status l' = LoanApproved \<and> loan_fundedAmount l' = loan_fundedAmount l"
    by (rule bexI [rotated]) (simp add: approve_loan_row_def)
qed

text \<open>
  And it can overdraw its pool: a withdrawal that reserves liquidity after the approval has been read, and before it is
  written, leaves less than the principal, and the approval takes the principal all the same.
\<close>

theorem approval_overdraws_pool:
  assumes "approve_check e i k db = Inr a" "sane_amounts db"
    and "find (\<lambda>l. loan_id l = apv_loanId a) (db_loans db) = Some l"
    and "find (\<lambda>p. pool_id p = apv_poolId a) (db_lendingPools db) = Some p"
    and "reserve_pool q db = Some db1" "wp_poolId q = apv_poolId a" "wp_decimal q = of_micro n"
    and "pool_availableLiquidity p - n < loan_principalAmount l"
  shows "\<exists>p'. find (\<lambda>p. pool_id p = apv_poolId a) (db_lendingPools (snd (approve_write e' a db1))) = Some p'
    \<and> pool_availableLiquidity p' = pool_availableLiquidity p - n - loan_principalAmount l \<and> pool_availableLiquidity p' < 0"
proof -
  have "0 \<le> loan_principalAmount l" "loan_principalAmount l < 10 ^ 15"
    using assms(2) find_in_set [OF assms(3)] by (simp_all add: sane_amounts_def)
  moreover have "apv_amount a = num_of_micro (loan_principalAmount l)"
    using approve_check_Inr [OF assms(1)] assms(3) by (metis option.inject)
  moreover have "db_lendingPools db1 = update_where (\<lambda>x. pool_id x = apv_poolId a) (take_liquidity (of_micro n)) (db_lendingPools db)"
    using reserved_pools(2) [OF assms(5) _ assms(7)] assms(2,6) by (simp add: sane_amounts_def)
  then have "find (\<lambda>p. pool_id p = apv_poolId a) (db_lendingPools db1) = Some (take_liquidity (of_micro n) p)"
    using assms(4) by (simp add: take_liquidity_upd.find_update)
  ultimately show ?thesis
    using assms(8) by (simp add: approve_write_exact find_reserved take_liquidity_def)
qed

subsection \<open>An example\<close>

lemma loans_move_forward_witness:
  "\<exists>(db' :: database) rows. map loan_status (db_loans db') = [LoanActive]
    \<and> filter (\<lambda>r. lf_loanId r = ''L'') (db_loanFundings db') = db_loanFundings (demo_fund_db 60000000) @ rows"
proof -
  obtain db' M where run: "loan_step\<^sup>*\<^sup>* (demo_world (demo_fund_db 60000000), {#}) (demo_world db', M)"
    and active: "map loan_status (db_loans db') = [LoanActive]"
    using demo_run by metis
  have start: "distinct (map loan_id (db_loans (w_db (demo_world (demo_fund_db 60000000)))))"
    "demo_loan 60000000 \<in> set (db_loans (w_db (demo_world (demo_fund_db 60000000))))" "loan_id (demo_loan 60000000) \<notin> creating {#}"
    by (simp_all add: demo_world_def demo_fund_db_def creating_def)
  show ?thesis
    using loans_move_forward [OF loan_steps_market [OF run, of "{#}"] start] active
    by (intro exI [of _ db']) (auto simp: demo_world_def demo_fund_db_def demo_loan_def)
qed

end
