(* ===== verification/TaxReport.thy ===== *)
theory TaxReport
  imports Lenders Funding JsDate "HOL-Library.Char_ord" "HOL-Library.List_Lexorder"
begin

text \<open>
  A lender's tax report: \<open>src/lib/lender/tax-report.ts\<close>, the data it is made from,
  \<open>src/lib/lender/tax-report-data.ts\<close>, and the CSV export of \<open>src/app/api/lender/tax-report/route.ts\<close>. The
  columns that the schema of this model leaves out (when rows were made, names and currencies of pools) are a parameter.
  The PDF of the route and the byte order mark before the CSV text, which is no character of this model, are left out.
\<close>

subsection \<open>Events\<close>

datatype tax_category = PoolInterestRealized | PoolInterestAccrued | P2pLoanInterest

record tax_row =
  tr_date :: string
  tr_asset :: string
  tr_amount :: jsnum
  tr_category :: tax_category
  tr_source :: string
  tr_principal :: jsnum
  tr_grossReceived :: jsnum
  tr_reference :: string
  tr_txHash :: string

record position_input =
  pi_id :: string
  pi_poolId :: string
  pi_poolName :: "string option"
  pi_asset :: "string option"
  pi_principalAmount :: jsval
  pi_earnedInterest :: jsval
  pi_openedAt :: "string option"
  pi_closedAt :: "string option"

record funding_input =
  fi_loanId :: string
  fi_amount :: jsval
  fi_asset :: "string option"

record repayment_input =
  ri_loanId :: string
  ri_amount :: jsval
  ri_asset :: "string option"
  ri_date :: "string option"
  ri_txHash :: "string option"

definition AMOUNT_EPSILON :: jsnum where
  "AMOUNT_EPSILON = to_num (1 / 10 ^ 6)"

definition toNumber :: "jsval \<Rightarrow> jsnum" where
  "toNumber value = (let parsed = js_to_number (js_nullish value (JNum (Fin 0))) in if is_finite parsed then parsed else Fin 0)"

text \<open>The day in UTC, for times from the year 0 to 9999; the parser is the one of \<open>Payment\<close>.\<close>

definition toIsoDate :: "string option \<Rightarrow> string" where
  "toIsoDate v =
     (if \<not> truthy_opt v then []
      else case date_ms (the v) of Fin t \<Rightarrow> take 10 (toISOString \<lfloor>t\<rfloor>) | _ \<Rightarrow> [])"

definition yearOf :: "string \<Rightarrow> jsnum option" where
  "yearOf isoDate =
     (if isoDate = [] then None
      else let year = string_to_number (take 4 isoDate) in if is_finite year then Some year else None)"

definition or_else :: "string option \<Rightarrow> string \<Rightarrow> string" where
  "or_else v fallback = (if truthy_opt v then the v else fallback)"

subsection \<open>Rows\<close>

definition pool_row :: "position_input \<Rightarrow> tax_row option" where
  "pool_row position =
     (let interest = toNumber (pi_earnedInterest position);
          isClosed = truthy_opt (pi_closedAt position)
      in if jlt interest AMOUNT_EPSILON then None
         else Some
           \<lparr>tr_date = toIsoDate (if isClosed then pi_closedAt position else pi_openedAt position),
            tr_asset = or_else (pi_asset position) ''XLM'',
            tr_amount = fixed_num 6 interest,
            tr_category = (if isClosed then PoolInterestRealized else PoolInterestAccrued),
            tr_source = or_else (pi_poolName position) (''Pool '' @ take 8 (pi_poolId position)),
            tr_principal = fixed_num 6 (toNumber (pi_principalAmount position)),
            tr_grossReceived = Fin 0,
            tr_reference = pi_id position,
            tr_txHash = []\<rparr>)"

definition buildPoolRows :: "position_input list \<Rightarrow> tax_row list" where
  "buildPoolRows positions = List.map_filter pool_row positions"

definition loan_principal :: "funding_input list \<Rightarrow> string \<Rightarrow> jsnum" where
  "loan_principal fundings loanId =
     foldl (\<lambda>acc f. jadd acc (toNumber (fi_amount f))) (Fin 0) (filter (\<lambda>f. fi_loanId f = loanId) fundings)"

definition loan_asset :: "funding_input list \<Rightarrow> string \<Rightarrow> string option" where
  "loan_asset fundings loanId =
     Option.bind (find (\<lambda>f. fi_loanId f = loanId \<and> truthy_opt (fi_asset f)) fundings) fi_asset"

text \<open>The repayments of a loan, oldest first, against what is outstanding of the principal\<close>

fun loan_rows :: "string \<Rightarrow> string option \<Rightarrow> jsnum \<Rightarrow> jsnum \<Rightarrow> repayment_input list \<Rightarrow> tax_row list" where
  "loan_rows loanId asset deployed outstanding [] = []"
| "loan_rows loanId asset deployed outstanding (repayment # rest) =
     (let received = toNumber (ri_amount repayment) in
      if jle received (Fin 0) then loan_rows loanId asset deployed outstanding rest
      else
        let capitalReturned = jmin outstanding received;
            interest = jsub received capitalReturned;
            later = loan_rows loanId asset deployed (jsub outstanding capitalReturned) rest
        in if jlt interest AMOUNT_EPSILON then later
           else \<lparr>tr_date = toIsoDate (ri_date repayment),
                 tr_asset = or_else (ri_asset repayment) (or_else asset ''XLM''),
                 tr_amount = fixed_num 6 interest,
                 tr_category = P2pLoanInterest,
                 tr_source = ''Loan '' @ take 8 loanId,
                 tr_principal = fixed_num 6 deployed,
                 tr_grossReceived = fixed_num 6 received,
                 tr_reference = loanId,
                 tr_txHash = (case ri_txHash repayment of Some h \<Rightarrow> h | None \<Rightarrow> [])\<rparr> # later)"

definition p2p_rows_of :: "funding_input list \<Rightarrow> repayment_input list \<Rightarrow> string \<Rightarrow> tax_row list" where
  "p2p_rows_of fundings repayments loanId =
     loan_rows loanId (loan_asset fundings loanId) (loan_principal fundings loanId) (loan_principal fundings loanId)
       (sort_key (\<lambda>r. toIsoDate (ri_date r)) (filter (\<lambda>r. ri_loanId r = loanId) repayments))"

text \<open>The loans in the order of their first repayment\<close>

definition repaid_loans :: "repayment_input list \<Rightarrow> string list" where
  "repaid_loans repayments = rev (remdups (rev (filter (\<lambda>l. l \<noteq> []) (map ri_loanId repayments))))"

definition buildP2pRows :: "funding_input list \<Rightarrow> repayment_input list \<Rightarrow> tax_row list" where
  "buildP2pRows fundings repayments = concat (map (p2p_rows_of fundings repayments) (repaid_loans repayments))"

text \<open>Newest first, then by reference; both sorts are stable, as \<open>Array.prototype.sort\<close> is.\<close>

definition newest_first :: "tax_row list \<Rightarrow> tax_row list" where
  "newest_first rows = rev (sort_key tr_date (rev (sort_key tr_reference rows)))"

definition buildTaxReportRows ::
    "position_input list \<Rightarrow> funding_input list \<Rightarrow> repayment_input list \<Rightarrow> int option \<Rightarrow> tax_row list" where
  "buildTaxReportRows poolPositions fundings repayments year =
     (let rows = buildPoolRows poolPositions @ buildP2pRows fundings repayments
      in newest_first (case year of
           None \<Rightarrow> rows
         | Some y \<Rightarrow> filter (\<lambda>row. yearOf (tr_date row) = Some (Fin (of_int y))) rows))"

subsection \<open>Summary\<close>

record tax_summary =
  ts_rowCount :: nat
  ts_totalInterest :: jsnum
  ts_byAsset :: "string \<rightharpoonup> jsnum"
  ts_totalPrincipalDeployed :: jsnum

definition add_to_asset :: "(string \<rightharpoonup> jsnum) \<Rightarrow> tax_row \<Rightarrow> (string \<rightharpoonup> jsnum)" where
  "add_to_asset byAsset row = byAsset(tr_asset row \<mapsto>
     fixed_num 6 (jadd (case byAsset (tr_asset row) of Some x \<Rightarrow> x | None \<Rightarrow> Fin 0) (tr_amount row)))"

fun deployed_principal :: "string set \<Rightarrow> jsnum \<Rightarrow> tax_row list \<Rightarrow> jsnum" where
  "deployed_principal seen acc [] = acc"
| "deployed_principal seen acc (row # rows) =
     (if tr_reference row \<in> seen then deployed_principal seen acc rows
      else deployed_principal (insert (tr_reference row) seen) (jadd acc (tr_principal row)) rows)"

definition summarizeTaxReport :: "tax_row list \<Rightarrow> tax_summary" where
  "summarizeTaxReport rows =
     \<lparr>ts_rowCount = length rows,
      ts_totalInterest = fixed_num 6 (foldl (\<lambda>acc row. jadd acc (tr_amount row)) (Fin 0) rows),
      ts_byAsset = foldl add_to_asset Map.empty rows,
      ts_totalPrincipalDeployed = fixed_num 6 (deployed_principal {} (Fin 0) rows)\<rparr>"

subsection \<open>CSV\<close>

definition CSV_COLUMNS :: "string list" where
  "CSV_COLUMNS = [''date'', ''asset'', ''amount'', ''category'', ''source'', ''principal'', ''gross_received'', ''reference'', ''tx_hash'']"

definition FORMULA_PREFIXES :: string where
  "FORMULA_PREFIXES = [CHR ''='', CHR ''+'', CHR ''-'', CHR ''@'', CHR 0x09, CHR 0x0D]"

definition sanitizeCsvText :: "string \<Rightarrow> string" where
  "sanitizeCsvText v = (if v = [] then v else if hd v \<in> set FORMULA_PREFIXES then CHR 0x27 # v else v)"

definition escapeCsvCell :: "string \<Rightarrow> string" where
  "escapeCsvCell v =
     (if list_ex (\<lambda>c. c \<in> {CHR 0x22, CHR '','', CHR 0x0D, CHR 0x0A}) v
      then CHR 0x22 # concat (map (\<lambda>c. if c = CHR 0x22 then [CHR 0x22, CHR 0x22] else [c]) v) @ [CHR 0x22]
      else v)"

text \<open>\<open>x.toFixed(6)\<close> as text\<close>

definition show_fixed6 :: "jsnum \<Rightarrow> string" where
  "show_fixed6 x =
     (case x of
        Fin r \<Rightarrow>
          if \<bar>r\<bar> < 10 ^ 21 then
            (let n = \<lfloor>\<bar>to_fixed 6 r\<bar> * 10 ^ 6\<rfloor>
             in (if r < 0 then ''-'' else []) @ show_nonneg (n div 10 ^ 6) @ ''.'' @ pad_digits 6 (n mod 10 ^ 6))
          else show_num x
      | _ \<Rightarrow> show_num x)"

fun category_text :: "tax_category \<Rightarrow> string" where
  "category_text PoolInterestRealized = ''pool_interest_realized''"
| "category_text PoolInterestAccrued = ''pool_interest_accrued''"
| "category_text P2pLoanInterest = ''p2p_loan_interest''"

definition csv_cells :: "tax_row \<Rightarrow> string list" where
  "csv_cells row =
     [tr_date row, sanitizeCsvText (tr_asset row), show_fixed6 (tr_amount row), category_text (tr_category row),
      sanitizeCsvText (tr_source row), show_fixed6 (tr_principal row), show_fixed6 (tr_grossReceived row),
      sanitizeCsvText (tr_reference row), sanitizeCsvText (tr_txHash row)]"

fun csv_join :: "string \<Rightarrow> string list \<Rightarrow> string" where
  "csv_join sep [] = []"
| "csv_join sep [s] = s"
| "csv_join sep (s # t # ss) = s @ sep @ csv_join sep (t # ss)"

definition csv_line :: "tax_row \<Rightarrow> string" where
  "csv_line row = csv_join '','' (map escapeCsvCell (csv_cells row))"

text \<open>The text after the byte order mark\<close>

definition toCsv :: "tax_row list \<Rightarrow> string" where
  "toCsv rows = csv_join [CHR 0x0D, CHR 0x0A] (csv_join '','' CSV_COLUMNS # map csv_line rows) @ [CHR 0x0D, CHR 0x0A]"

definition taxReportFilename :: "int option \<Rightarrow> string \<Rightarrow> string" where
  "taxReportFilename year extension =
     ''trustlend-tax-report-'' @ (case year of Some y \<Rightarrow> show_int y | None \<Rightarrow> ''all'') @ ''.'' @ extension"

subsection \<open>The data of a lender\<close>

definition REPAYMENT_SCAN_LIMIT :: nat where
  "REPAYMENT_SCAN_LIMIT = 2000"

text \<open>The columns the model's tables leave out, by the id of the row: times are in milliseconds.\<close>

record tax_columns =
  tc_ledgerCreatedAt :: "string \<Rightarrow> int"
  tc_openedAt :: "string \<Rightarrow> int"
  tc_poolName :: "string \<Rightarrow> string"
  tc_poolCurrency :: "string \<Rightarrow> string"
  tc_jsonParse :: "string \<Rightarrow> jsval option"

definition parseMetadata :: "(string \<Rightarrow> jsval option) \<Rightarrow> jsval \<Rightarrow> jsval" where
  "parseMetadata json_parse raw =
     (if \<not> js_truthy raw then JObj []
      else case raw of
        JStr s \<Rightarrow> (case json_parse s of Some v \<Rightarrow> v | None \<Rightarrow> JObj [])
      | _ \<Rightarrow> raw)"

definition text_opt :: "string \<Rightarrow> string option" where
  "text_opt s = (if s = [] then None else Some s)"

definition position_inputs :: "tax_columns \<Rightarrow> database \<Rightarrow> string \<Rightarrow> position_input list" where
  "position_inputs tc db userId =
     map (\<lambda>row.
         let pool = find (\<lambda>p. pool_id p = pos_poolId row) (db_lendingPools db)
         in \<lparr>pi_id = pos_id row, pi_poolId = pos_poolId row,
             pi_poolName = map_option (\<lambda>p. tc_poolName tc (pool_id p)) pool,
             pi_asset = map_option (\<lambda>p. tc_poolCurrency tc (pool_id p)) pool,
             pi_principalAmount = JNum (num_of_micro (pos_principalAmount row)),
             pi_earnedInterest = JNum (num_of_micro (pos_earnedInterest row)),
             pi_openedAt = Some (toISOString (tc_openedAt tc (pos_id row))),
             pi_closedAt = map_option toISOString (pos_closedAt row)\<rparr>)
       (filter (\<lambda>row. pos_lenderId row = userId) (db_poolPositions db))"

definition entry_loanId :: "jsval \<Rightarrow> ledger_transaction \<Rightarrow> string" where
  "entry_loanId meta row =
     js_to_string (js_nullish (js_nullish (js_get meta ''loanId'') (case lt_refId row of Some r \<Rightarrow> JStr r | None \<Rightarrow> JNull)) (JStr []))"

definition funding_inputs :: "tax_columns \<Rightarrow> database \<Rightarrow> string \<Rightarrow> funding_input list" where
  "funding_inputs tc db userId =
     map (\<lambda>row.
         let meta = parseMetadata (tc_jsonParse tc) (lt_metadata row)
         in \<lparr>fi_loanId = entry_loanId meta row, fi_amount = JNum (num_of_micro (lt_amount row)), fi_asset = text_opt (lt_currency row)\<rparr>)
       (filter (\<lambda>row. lt_userId row = userId \<and> lt_refType row = Some ''loan_fund'') (db_ledgerTransactions db))"

text \<open>Whether a field is there and reads as a text\<close>

definition field_is :: "jsval \<Rightarrow> string \<Rightarrow> string \<Rightarrow> bool" where
  "field_is v name s \<longleftrightarrow> js_get v name \<noteq> JUndef \<and> js_get v name \<noteq> JNull \<and> js_to_string (js_get v name) = s"

definition own_payout :: "jsval \<Rightarrow> string \<Rightarrow> string option \<Rightarrow> jsval option" where
  "own_payout meta userId walletAddress =
     (case js_get meta ''lenderPayouts'' of
        JArr entries \<Rightarrow> find (\<lambda>entry. field_is entry ''lenderUserId'' userId
          \<or> (truthy_opt walletAddress \<and> js_get entry ''address'' = JStr (the walletAddress))) entries
      | _ \<Rightarrow> None)"

definition repayment_input_of :: "tax_columns \<Rightarrow> string \<Rightarrow> string option \<Rightarrow> ledger_transaction \<Rightarrow> repayment_input option" where
  "repayment_input_of tc userId walletAddress row =
     (let meta = parseMetadata (tc_jsonParse tc) (lt_metadata row);
          matchesUser = field_is meta ''lenderUserId'' userId;
          matchesWallet = truthy_opt walletAddress \<and> field_is meta ''lenderAddress'' (the walletAddress);
          payout = own_payout meta userId walletAddress
      in if payout = None \<and> \<not> matchesUser \<and> \<not> matchesWallet then None
         else Some
           \<lparr>ri_loanId = entry_loanId meta row,
            ri_amount = js_nullish (case payout of Some entry \<Rightarrow> js_get entry ''payout'' | None \<Rightarrow> JUndef)
              (JNum (num_of_micro (lt_amount row))),
            ri_asset = text_opt (lt_currency row),
            ri_date = Some (toISOString (tc_ledgerCreatedAt tc (lt_id row))),
            ri_txHash = (if js_truthy (js_get meta ''txHash'') then Some (js_to_string (js_get meta ''txHash'')) else None)\<rparr>)"

definition repayment_rows :: "database \<Rightarrow> ledger_transaction list" where
  "repayment_rows db = filter (\<lambda>row. lt_refType row = Some ''loan_repay'') (db_ledgerTransactions db)"

text \<open>\<open>ORDER BY created_at\<close> is the order of insertion.\<close>

definition getLenderRepayments :: "tax_columns \<Rightarrow> database \<Rightarrow> string \<Rightarrow> string option \<Rightarrow> repayment_input list" where
  "getLenderRepayments tc db userId walletAddress =
     List.map_filter (repayment_input_of tc userId walletAddress) (take REPAYMENT_SCAN_LIMIT (repayment_rows db))"

definition report_rows :: "tax_columns \<Rightarrow> database \<Rightarrow> string \<Rightarrow> string option \<Rightarrow> int option \<Rightarrow> tax_row list" where
  "report_rows tc db userId walletAddress year =
     buildTaxReportRows (position_inputs tc db userId) (funding_inputs tc db userId)
       (getLenderRepayments tc db userId walletAddress) year"

subsection \<open>\<open>GET /api/lender/tax-report\<close>\<close>

datatype tax_error = TaxRateLimited | TaxInvalidYear | TaxInvalidFormat | TaxDbUnavailable | TaxUnauthorized

datatype tax_response =
    TaxCsv string string nat jsnum \<comment> \<open>the text, the file name, the rows and the total in the headers\<close>
  | TaxPdf int \<comment> \<open>the year; what it shows is left out\<close>

definition current_year :: "env \<Rightarrow> int" where
  "current_year e = fst (civil_from_days (env_now e div 86400000))"

definition GET_tax_report :: "env \<Rightarrow> tax_columns \<Rightarrow> string option \<Rightarrow> string option \<Rightarrow> database
    \<Rightarrow> (tax_error + tax_response) answer" where
  "GET_tax_report e tc yearStr formatStr db =
     (if env_rateLimited e then Answer 429 (Inl TaxRateLimited)
      else
        let format = js_lower (case formatStr of Some f \<Rightarrow> f | None \<Rightarrow> ''pdf'');
            isAllYears = (yearStr = Some ''all'');
            parsedYear = parseBoundedInteger yearStr (current_year e) 2000 2100
        in if \<not> isAllYears \<and> parsedYear = None then Answer 400 (Inl TaxInvalidYear)
           else if format \<noteq> ''pdf'' \<and> format \<noteq> ''csv'' then Answer 400 (Inl TaxInvalidFormat)
           else
             let year = (if isAllYears then None else parsedYear)
             in if \<not> env_dbAvailable e then Answer 503 (Inl TaxDbUnavailable)
                else case env_session e of
                  None \<Rightarrow> Answer 401 (Inl TaxUnauthorized)
                | Some user \<Rightarrow>
                    if format = ''csv'' then
                      (let rows = report_rows tc db (user_id user) (text_opt (user_walletAddress user)) year;
                           summary = summarizeTaxReport rows
                       in Answer 200 (Inr (TaxCsv (toCsv rows) (taxReportFilename year ''csv'') (ts_rowCount summary)
                            (ts_totalInterest summary))))
                    else Answer 200 (Inr (TaxPdf (case year of Some y \<Rightarrow> y | None \<Rightarrow> current_year e))))"

end
