(* ===== verification/TaxReportSafety.thy ===== *)
theory TaxReportSafety
  imports TaxReport RepayRoute RepaymentSplit "HOL-Library.Multiset"
begin

text \<open>
  The CSV of a tax report is read back as the cells it was made of; the interest it reports on a loan is what came back
  beyond the principal; and which repayments it finds.
\<close>

subsection \<open>Reading CSV\<close>

text \<open>A reader by RFC 4180: cells in quotes, quotes doubled, lines that end with CRLF\<close>

function read_csv :: "bool \<Rightarrow> string \<Rightarrow> string list \<Rightarrow> string list list \<Rightarrow> string \<Rightarrow> string list list" where
  "read_csv quoted cell row rows [] = rows"
| "read_csv quoted cell row rows (c # s) =
     (if quoted then
        (if c \<noteq> CHR 0x22 then read_csv True (cell @ [c]) row rows s
         else if s \<noteq> [] \<and> hd s = CHR 0x22 then read_csv True (cell @ [c]) row rows (tl s)
         else read_csv False cell row rows s)
      else if c = CHR 0x22 \<and> cell = [] then read_csv True [] row rows s
      else if c = CHR '','' then read_csv False [] (row @ [cell]) rows s
      else if c = CHR 0x0D \<and> s \<noteq> [] \<and> hd s = CHR 0x0A then read_csv False [] [] (rows @ [row @ [cell]]) (tl s)
      else read_csv False (cell @ [c]) row rows s)"
  by pat_completeness auto
termination
  by (relation "measure (\<lambda>(_, _, _, _, s). length s)") auto

definition special :: "char \<Rightarrow> bool" where
  "special c \<longleftrightarrow> c \<in> {CHR 0x22, CHR '','', CHR 0x0D, CHR 0x0A}"

lemma read_plain: "\<forall>c \<in> set v. \<not> special c \<Longrightarrow> read_csv False cell row rows (v @ rest) = read_csv False (cell @ v) row rows rest"
  by (induction v arbitrary: cell) (simp_all add: special_def)

lemma read_quoted: "rest = [] \<or> hd rest \<noteq> CHR 0x22 \<Longrightarrow>
    read_csv True cell row rows (concat (map (\<lambda>c. if c = CHR 0x22 then [CHR 0x22, CHR 0x22] else [c]) v) @ CHR 0x22 # rest)
      = read_csv False (cell @ v) row rows rest"
  by (induction v arbitrary: cell) auto

lemma read_cell: "rest = [] \<or> hd rest \<noteq> CHR 0x22 \<Longrightarrow>
    read_csv False [] row rows (escapeCsvCell v @ rest) = read_csv False v row rows rest"
  using read_plain [of v "[]" row rows rest] read_quoted [of rest "[]" row rows v]
  by (auto simp: escapeCsvCell_def special_def list_ex_iff)

lemma read_line: "cells \<noteq> [] \<Longrightarrow>
    read_csv False [] row rows (csv_join '','' (map escapeCsvCell cells) @ CHR 0x0D # CHR 0x0A # rest)
      = read_csv False [] [] (rows @ [row @ cells]) rest"
proof (induction cells arbitrary: row)
  case (Cons v cells)
  show ?case
  proof (cases cells)
    case Nil
    then show ?thesis
      by (simp add: read_cell)
  next
    case (Cons w cs)
    then show ?thesis
      using Cons.IH [of "row @ [v]"] by (simp add: read_cell)
  qed
qed simp

lemma read_lines: "\<forall>cells \<in> set table. cells \<noteq> [] \<Longrightarrow> table \<noteq> [] \<Longrightarrow>
    read_csv False [] [] rows (csv_join [CHR 0x0D, CHR 0x0A] (map (\<lambda>cells. csv_join '','' (map escapeCsvCell cells)) table) @ [CHR 0x0D, CHR 0x0A])
      = rows @ table"
proof (induction table arbitrary: rows)
  case (Cons cells table)
  show ?case
  proof (cases table)
    case Nil
    then show ?thesis
      using Cons.prems read_line [of cells "[]" rows "[]"] by simp
  next
    case (Cons t ts)
    then show ?thesis
      using Cons.IH [of "rows @ [cells]"] Cons.prems read_line [of cells "[]" rows] by simp
  qed
qed simp

definition starts_formula :: "string \<Rightarrow> bool" where
  "starts_formula cell \<longleftrightarrow> cell \<noteq> [] \<and> hd cell \<in> set FORMULA_PREFIXES"

lemma sanitized: "\<not> starts_formula (sanitizeCsvText v)"
  by (auto simp: starts_formula_def sanitizeCsvText_def FORMULA_PREFIXES_def)

text \<open>
  A reader of CSV gets back exactly the columns and the cells of the rows, whatever texts they hold, and no text cell
  (asset, source, reference, hash) begins like a formula.
\<close>

theorem csv_reads_back:
  "read_csv False [] [] [] (toCsv rows) = CSV_COLUMNS # map csv_cells rows
     \<and> list_all (\<lambda>row. list_all (\<lambda>k. \<not> starts_formula (csv_cells row ! k)) [1, 4, 7, 8]) rows"
proof
  have columns: "csv_join '','' CSV_COLUMNS = csv_join '','' (map escapeCsvCell CSV_COLUMNS)" "CSV_COLUMNS \<noteq> []"
    by code_simp+
  show "read_csv False [] [] [] (toCsv rows) = CSV_COLUMNS # map csv_cells rows"
  proof -
    have "map csv_line rows = map (\<lambda>cells. csv_join '','' (map escapeCsvCell cells)) (map csv_cells rows)"
      by (simp add: csv_line_def)
    moreover have "\<forall>cells \<in> set (CSV_COLUMNS # map csv_cells rows). cells \<noteq> []"
      using columns(2) by (simp add: csv_cells_def)
    ultimately show ?thesis
      using read_lines [of "CSV_COLUMNS # map csv_cells rows" "[]"] columns(1) unfolding toCsv_def by (simp only: list.map) simp
  qed
  show "list_all (\<lambda>row. list_all (\<lambda>k. \<not> starts_formula (csv_cells row ! k)) [1, 4, 7, 8]) rows"
    by (simp add: csv_cells_def sanitized list_all_iff)
qed

subsection \<open>Return of capital first\<close>

text \<open>\<open>toNumber\<close> is always finite.\<close>

definition amount_of :: "jsval \<Rightarrow> rat" where
  "amount_of v = (case toNumber v of Fin x \<Rightarrow> x | _ \<Rightarrow> 0)"

lemma toNumber_Fin: "toNumber v = Fin (amount_of v)"
  by (auto simp: amount_of_def toNumber_def Let_def is_finite_iff split: jsnum.split)

text \<open>Half a unit in the last place below \<open>2 ^ 20\<close>\<close>

abbreviation (input) half_ulp :: rat where "half_ulp \<equiv> 1 / 2 ^ 34"

lemma fl_below_20: "\<bar>x\<bar> < 2 ^ 20 \<Longrightarrow> \<bar>fl x - x\<bar> \<le> half_ulp"
proof -
  assume "\<bar>x\<bar> < 2 ^ 20"
  then have "\<bar>fl x - x\<bar> \<le> 2 powi (20 - 54)"
    by (intro fl_error) (simp_all add: two_powi_nat)
  also have "2 powi (20 - 54) = half_ulp"
    by (simp add: power_int_def power_one_over)
  finally show ?thesis .
qed

lemma to_num_20: "\<bar>x\<bar> < 2 ^ 20 \<Longrightarrow> to_num x = Fin (fl x)"
  by (rule to_num_Fin) (simp add: order.strict_implies_order order_less_le_trans)

lemma round_micro:
  assumes "0 \<le> x" "x \<le> 10 ^ 6"
  shows "\<exists>y. fixed_num 6 (Fin x) = Fin y \<and> \<bar>y - x\<bar> \<le> 51 / 10 ^ 8"
proof -
  have near: "\<bar>to_fixed 6 x - x\<bar> \<le> 1 / (2 * 10 ^ 6)"
    using assms by (intro to_fixed_error) simp
  then have small: "\<bar>to_fixed 6 x\<bar> < 2 ^ 20"
    using assms unfolding abs_le_iff abs_less_iff by (auto simp: field_simps)
  have "\<bar>fl (to_fixed 6 x) - x\<bar> \<le> half_ulp + 1 / (2 * 10 ^ 6)"
    using near fl_below_20 [OF small] by linarith
  also have "half_ulp + 1 / (2 * 10 ^ 6) \<le> 51 / 10 ^ 8"
    by simp
  finally show ?thesis
    using to_num_20 [OF small] by simp
qed

lemma min_close: "\<bar>b - owed\<bar> \<le> e \<Longrightarrow> \<bar>(b - min b x) - (owed - min owed x)\<bar> \<le> (e :: rat) \<and> \<bar>min b x - min owed x\<bar> \<le> e"
  by (auto simp: min_def abs_le_iff)

lemma loan_rows_amounts:
  assumes "\<forall>r \<in> set rs. amount_of (ri_amount r) \<le> 10 ^ 6" "0 \<le> e" "0 \<le> owed" "owed \<le> 10 ^ 6" "0 \<le> b" "\<bar>b - owed\<bar> \<le> e"
    "e + of_nat (length rs) * half_ulp \<le> 47 / 10 ^ 8"
  shows "\<exists>ys. map tr_amount (loan_rows loanId asset deployed (Fin b) rs) = map Fin ys
    \<and> \<bar>sum_list ys - max 0 (sum_list (map (\<lambda>r. max 0 (amount_of (ri_amount r))) rs) - owed)\<bar> \<le> of_nat (length rs) * (2 / 10 ^ 6)"
  using assms
proof (induction rs arbitrary: e owed b)
  case (Cons r rs)
  let ?x = "amount_of (ri_amount r)"
  let ?X = "sum_list (map (\<lambda>r. max 0 (amount_of (ri_amount r))) rs)"
  have X: "0 \<le> ?X"
    by (induction rs) auto
  have len: "e + half_ulp + of_nat (length rs) * half_ulp \<le> 47 / 10 ^ 8"
    using Cons.prems(7) by (simp add: distrib_right add_divide_distrib)
  show ?case
  proof (cases "?x \<le> 0")
    case True
    obtain ys where "map tr_amount (loan_rows loanId asset deployed (Fin b) rs) = map Fin ys"
      "\<bar>sum_list ys - max 0 (?X - owed)\<bar> \<le> of_nat (length rs) * (2 / 10 ^ 6)"
      using Cons.IH [of e owed b] Cons.prems len by auto
    with True show ?thesis
      by (intro exI [of _ ys]) (simp add: toNumber_Fin distrib_right)
  next
    case False
    let ?i = "?x - min b ?x" and ?b = "b - min b ?x"
    let ?due = "?x - min owed ?x" and ?owed = "owed - min owed ?x"
    have x: "0 < ?x" "?x \<le> 10 ^ 6"
      using False Cons.prems(1) by auto
    have e: "e \<le> 47 / 10 ^ 8" "e + half_ulp \<le> 47 / 10 ^ 8"
    proof -
      have "0 \<le> (of_nat (length rs) :: rat) * half_ulp" "(0 :: rat) \<le> half_ulp"
        by simp_all
      with len show "e \<le> 47 / 10 ^ 8" "e + half_ulp \<le> 47 / 10 ^ 8"
        by linarith+
    qed
    have small: "\<bar>?i\<bar> < 2 ^ 20" "\<bar>?b\<bar> < 2 ^ 20" "0 \<le> ?i" "0 \<le> ?b" "?i \<le> 10 ^ 6"
      using x e(1) Cons.prems(3-6) by (auto simp: min_def abs_le_iff abs_less_iff)
    note fl_i = fl_below_20 [OF small(1)] and fl_b = fl_below_20 [OF small(2)]
    have near: "\<bar>?b - ?owed\<bar> \<le> e" "\<bar>?i - ?due\<bar> \<le> e"
      using min_close [OF Cons.prems(6), of ?x] by (auto simp: abs_minus_commute)
    have due: "0 \<le> ?due" "max 0 (?x + ?X - owed) = ?due + max 0 (?X - ?owed)"
      using X by (auto simp: min_def max_def)
    have "\<bar>fl ?b - ?owed\<bar> \<le> e + half_ulp"
      using near(1) fl_b by linarith
    moreover have "0 \<le> fl ?b" "0 \<le> ?owed" "?owed \<le> 10 ^ 6" "0 \<le> e + half_ulp"
      using small(4) Cons.prems(2-4) x by (simp_all add: min_def)
    ultimately obtain ys where ys: "map tr_amount (loan_rows loanId asset deployed (Fin (fl ?b)) rs) = map Fin ys"
      "\<bar>sum_list ys - max 0 (?X - ?owed)\<bar> \<le> of_nat (length rs) * (2 / 10 ^ 6)"
      using Cons.IH [of "e + half_ulp" ?owed "fl ?b"] Cons.prems(1) len by auto
    have steps: "jmin (Fin b) (Fin ?x) = Fin (min b ?x)" "jsub (Fin ?x) (Fin (min b ?x)) = Fin (fl ?i)"
      "jsub (Fin b) (Fin (min b ?x)) = Fin (fl ?b)"
      by (simp_all add: jsub_Fin to_num_20 [OF small(1)] to_num_20 [OF small(2)])
    have rec: "loan_rows loanId asset deployed (Fin b) (r # rs) = (if jlt (Fin (fl ?i)) AMOUNT_EPSILON
        then loan_rows loanId asset deployed (Fin (fl ?b)) rs
        else \<lparr>tr_date = toIsoDate (ri_date r), tr_asset = or_else (ri_asset r) (or_else asset ''XLM''),
          tr_amount = fixed_num 6 (Fin (fl ?i)), tr_category = P2pLoanInterest, tr_source = ''Loan '' @ take 8 loanId,
          tr_principal = fixed_num 6 deployed, tr_grossReceived = fixed_num 6 (Fin ?x), tr_reference = loanId,
          tr_txHash = (case ri_txHash r of Some h \<Rightarrow> h | None \<Rightarrow> [])\<rparr> # loan_rows loanId asset deployed (Fin (fl ?b)) rs)"
      using False by (simp add: toNumber_Fin steps Let_def del: fixed_num.simps)
    have eps: "AMOUNT_EPSILON = Fin (fl (1 / 10 ^ 6))" "\<bar>fl (1 / 10 ^ 6) - 1 / 10 ^ 6\<bar> \<le> half_ulp"
      using fl_below_20 [of "1 / 10 ^ 6"] to_num_20 [of "1 / 10 ^ 6"] by (simp_all add: AMOUNT_EPSILON_def)
    show ?thesis
    proof (cases "jlt (Fin (fl ?i)) AMOUNT_EPSILON")
      case True
      then have "fl ?i < fl (1 / 10 ^ 6)"
        by (simp add: eps(1))
      then have "?due \<le> 1 / 10 ^ 6 + half_ulp + 47 / 10 ^ 8"
        using eps(2) fl_i near(2) e by linarith
      also have "\<dots> \<le> 2 / 10 ^ 6"
        by simp
      finally have "?due \<le> 2 / 10 ^ 6" .
      with ys(2) due have "\<bar>sum_list ys - max 0 (?x + ?X - owed)\<bar> \<le> (1 + of_nat (length rs)) * (2 / 10 ^ 6)"
        unfolding due(2) distrib_right abs_le_iff by linarith
      with ys(1) True show ?thesis
        unfolding rec using x(1) by (intro exI [of _ ys]) simp
    next
      case False
      have "0 \<le> fl ?i" "fl ?i \<le> 10 ^ 6"
        using small(3,5) fl_le_int [of ?i "10 ^ 6"] by simp_all
      then obtain y where y: "fixed_num 6 (Fin (fl ?i)) = Fin y" "\<bar>y - fl ?i\<bar> \<le> 51 / 10 ^ 8"
        using round_micro by blast
      then have "\<bar>y - ?due\<bar> \<le> 51 / 10 ^ 8 + 47 / 10 ^ 8"
        using fl_i near(2) e by linarith
      also have "\<dots> \<le> 2 / 10 ^ 6"
        by simp
      finally have "\<bar>y - ?due\<bar> \<le> 2 / 10 ^ 6" .
      with ys(2) have "\<bar>sum_list (y # ys) - max 0 (?x + ?X - owed)\<bar> \<le> (1 + of_nat (length rs)) * (2 / 10 ^ 6)"
        unfolding due(2) distrib_right abs_le_iff sum_list.Cons by linarith
      with ys(1) y(1) False show ?thesis
        unfolding rec using x(1) by (intro exI [of _ "y # ys"]) (simp del: fixed_num.simps)
    qed
  qed
qed auto


definition funded :: "funding_input list \<Rightarrow> string \<Rightarrow> rat" where
  "funded fundings loanId = sum_list (map (\<lambda>f. amount_of (fi_amount f)) (filter (\<lambda>f. fi_loanId f = loanId) fundings))"

definition repayments_of :: "repayment_input list \<Rightarrow> string \<Rightarrow> repayment_input list" where
  "repayments_of repayments loanId = filter (\<lambda>r. ri_loanId r = loanId) repayments"

definition came_back :: "repayment_input list \<Rightarrow> string \<Rightarrow> rat" where
  "came_back repayments loanId = sum_list (map (\<lambda>r. max 0 (amount_of (ri_amount r))) (repayments_of repayments loanId))"

lemma foldl_jadd_map: "foldl (\<lambda>acc x. jadd acc (f x)) s xs = foldl jadd s (map f xs)"
  by (induction xs arbitrary: s) simp_all

lemma loan_principal_close:
  assumes "\<forall>f \<in> set fundings. 0 \<le> amount_of (fi_amount f)" "funded fundings loanId \<le> 10 ^ 6" "length fundings \<le> 2000"
  shows "\<exists>b. loan_principal fundings loanId = Fin b \<and> 0 \<le> b \<and> \<bar>b - funded fundings loanId\<bar> \<le> 2000 / 2 ^ 33"
proof -
  define xs where "xs = map (\<lambda>f. amount_of (fi_amount f)) (filter (\<lambda>f. fi_loanId f = loanId) fundings)"
  have nonneg: "\<forall>x \<in> set xs. 0 \<le> x"
    using assms(1) by (auto simp: xs_def)
  have total: "sum_list xs \<le> 10 ^ 6"
    using assms(2) by (simp add: xs_def funded_def)
  have len: "length xs \<le> 2000"
    using assms(3) by (simp add: xs_def order_trans [OF length_filter_le])
  have each: "\<forall>x \<in> set xs. 0 \<le> x \<and> x \<le> of_int (10 ^ 6)"
    using nonneg total member_le_sum_list [of _ xs] by (auto intro: order_trans)
  have "int (length xs) * 10 ^ 6 < 2 ^ 53"
    using len by simp
  then have "sum_num (map Fin xs) = Fin (fl_sum 0 xs)"
    using each by (intro sum_num_Fin [where K = "10 ^ 6"]) simp_all
  then have "loan_principal fundings loanId = Fin (fl_sum 0 xs)"
    unfolding loan_principal_def foldl_jadd_map [of "\<lambda>f. toNumber (fi_amount f)"] by (simp add: sum_num_def xs_def toNumber_Fin comp_def)
  moreover have steps: "of_nat (length xs) / 2 ^ 33 \<le> (2000 / 2 ^ 33 :: rat)"
    using len by (intro divide_right_mono) simp_all
  then have "sum_list xs + of_nat (length xs) / 2 ^ 33 < 2 ^ 21"
    using total by simp
  then have "\<bar>fl_sum 0 xs - sum_list xs\<bar> \<le> of_nat (length xs) / 2 ^ 33 \<and> 0 \<le> fl_sum 0 xs"
    using fl_sum_absolute [of 0 0 0 xs] nonneg by simp
  ultimately show ?thesis
    using steps unfolding funded_def xs_def [symmetric] by (intro exI [of _ "fl_sum 0 xs"]) linarith
qed

text \<open>
  For a loan that a lender funded with at most a million XLM, the interest reported on its repayments, in the order of
  their dates, adds up to what came back beyond the principal, and to nothing while the principal is still out; the
  rounding is at most two millionths for each repayment.
\<close>

theorem p2p_interest_recognised:
  assumes "list_all (\<lambda>f. 0 \<le> amount_of (fi_amount f)) fundings" "funded fundings loanId \<le> 10 ^ 6" "length fundings \<le> 2000"
    "list_all (\<lambda>r. amount_of (ri_amount r) \<le> 10 ^ 6) repayments" "length repayments \<le> REPAYMENT_SCAN_LIMIT"
  shows "\<exists>ys. map tr_amount (p2p_rows_of fundings repayments loanId) = map Fin ys
    \<and> \<bar>sum_list ys - max 0 (came_back repayments loanId - funded fundings loanId)\<bar>
        \<le> of_nat (length (repayments_of repayments loanId)) * (2 / 10 ^ 6)"
proof -
  let ?rs = "sort_key (\<lambda>r. toIsoDate (ri_date r)) (repayments_of repayments loanId)"
  obtain b where b: "loan_principal fundings loanId = Fin b" "0 \<le> b" "\<bar>b - funded fundings loanId\<bar> \<le> 2000 / 2 ^ 33"
    using loan_principal_close assms(1-3) unfolding list_all_iff by blast
  have "length ?rs \<le> 2000"
    using assms(5) by (simp add: repayments_of_def REPAYMENT_SCAN_LIMIT_def order_trans [OF length_filter_le])
  then have "2000 / 2 ^ 33 + of_nat (length ?rs) * half_ulp \<le> 47 / 10 ^ 8"
    by simp
  moreover have "0 \<le> funded fundings loanId"
    using assms(1) unfolding funded_def by (intro sum_list_nonneg) (auto simp: list_all_iff)
  moreover have "\<forall>r \<in> set ?rs. amount_of (ri_amount r) \<le> 10 ^ 6"
    using assms(4) by (auto simp: list_all_iff repayments_of_def)
  moreover have "sum_list (map (\<lambda>r. max 0 (amount_of (ri_amount r))) ?rs) = came_back repayments loanId"
    by (simp add: came_back_def flip: sum_mset_sum_list)
  ultimately show ?thesis
    using loan_rows_amounts [of ?rs "2000 / 2 ^ 33" "funded fundings loanId" b] assms(2) b
    unfolding p2p_rows_of_def repayments_of_def [symmetric] by simp
qed

subsection \<open>The repayments that are found\<close>

definition payout_json :: "lender_payout \<Rightarrow> jsval" where
  "payout_json entry = JObj
     [(''lenderUserId'', JStr (lenderId entry)), (''address'', JStr (address entry)),
      (''share'', JNum (fixed_num 7 (share entry))), (''payout'', JNum (payout entry))]"

lemma find_payout:
  "find (\<lambda>entry. field_is entry ''lenderUserId'' userId) (map payout_json entries)
    = map_option payout_json (find (\<lambda>entry. lenderId entry = userId) entries)"
  by (induction entries) (simp_all add: payout_json_def field_is_def)

text \<open>
  The row that \<open>POST /api/loans/repay\<close> writes is read back, for a lender whose entry is the first of theirs in the
  split, as a repayment of that loan with just their payout; a lender who is neither in the split nor the row's first
  lender is not credited.
\<close>

theorem payout_reported:
  "repayment_input_of tc userId None (repay_ledger_row user p amount repaymentId fee uuid)
    = (case find (\<lambda>entry. lenderId entry = userId) (rp_payouts p) of
         Some entry \<Rightarrow> Some \<lparr>ri_loanId = rp_loanId p, ri_amount = JNum (payout entry), ri_asset = Some ''XLM'',
           ri_date = Some (toISOString (tc_ledgerCreatedAt tc uuid)), ri_txHash = text_opt (rp_txHash p)\<rparr>
       | None \<Rightarrow>
           if userId = (case rp_lenders p of [] \<Rightarrow> [] | l # _ \<Rightarrow> lenderId l)
           then Some \<lparr>ri_loanId = rp_loanId p, ri_amount = JNum (num_of_micro amount), ri_asset = Some ''XLM'',
             ri_date = Some (toISOString (tc_ledgerCreatedAt tc uuid)), ri_txHash = text_opt (rp_txHash p)\<rparr>
           else None)"
proof -
  let ?row = "repay_ledger_row user p amount repaymentId fee uuid"
  have meta: "parseMetadata (tc_jsonParse tc) (lt_metadata ?row) = lt_metadata ?row"
    by (simp add: parseMetadata_def repay_ledger_row_def)
  have own: "own_payout (lt_metadata ?row) userId None = map_option payout_json (find (\<lambda>entry. lenderId entry = userId) (rp_payouts p))"
  proof -
    have "js_get (lt_metadata ?row) ''lenderPayouts'' = JArr (map payout_json (rp_payouts p))"
      by (simp add: repay_ledger_row_def payout_json_def [abs_def])
    moreover have "\<not> truthy_opt None"
      by (simp add: truthy_opt_def)
    ultimately show ?thesis
      unfolding own_payout_def by (simp only: jsval.case HOL.simp_thms find_payout)
  qed
  have fields: "field_is (lt_metadata ?row) ''lenderUserId'' userId \<longleftrightarrow> userId = (case rp_lenders p of [] \<Rightarrow> [] | l # _ \<Rightarrow> lenderId l)"
    "entry_loanId (lt_metadata ?row) ?row = rp_loanId p" "js_get (lt_metadata ?row) ''txHash'' = JStr (rp_txHash p)"
    by (auto simp: repay_ledger_row_def field_is_def entry_loanId_def js_nullish_def)
  show ?thesis
    by (simp add: repayment_input_of_def meta own fields Let_def text_opt_def js_nullish_def payout_json_def truthy_opt_def split: option.split)
      (simp add: repay_ledger_row_def)
qed

text \<open>
  Once the scan's limit of repayments has been written by all borrowers together, no repayment written later is in
  any lender's report: the scan is in ascending order.
\<close>

theorem later_repayments_unreported:
  assumes "REPAYMENT_SCAN_LIMIT \<le> length (repayment_rows db)" "list_all (\<lambda>row. lt_refType row = Some ''loan_repay'') later"
  shows "report_rows tc (db\<lparr>db_ledgerTransactions := db_ledgerTransactions db @ later\<rparr>) userId walletAddress year
    = report_rows tc db userId walletAddress year"
proof -
  have "filter (\<lambda>row. lt_userId row = userId \<and> lt_refType row = Some ''loan_fund'') later = []"
    using assms(2) by (auto simp: list_all_iff filter_empty_conv)
  then show ?thesis
    using assms(1) by (simp add: report_rows_def position_inputs_def funding_inputs_def getLenderRepayments_def repayment_rows_def)
qed

end
