(* ===== verification/Spec2Isabelle.thy ===== *)
theory Spec2Isabelle
  imports RepaymentSplit KycSafety FundSafety PoolSafety RateSafety AdminSafety Treasury RiskSafety OracleKeeper RateLimitSafety ReferralCodes DefaultSafety LiquidationSafety Sep31Safety PreflightSafety AdminPoolsSafety ReferralsSafety DeploymentSafety WithdrawSafety MarketSafety TaxReportSafety
begin

text \<open>
  TrustLend is a lending platform: a Next.js server over a Postgres database that verifies payments
  on the Stellar network through Horizon and mirrors loans and pools to Soroban contracts. Borrowers
  apply for loans, lenders fund them (whole or in part) or deposit into pools, repayments are split
  among the lenders; admins publish rates, fees and risk parameters; keepers post prices, liquidate
  and mark defaults; an anchor settles fiat deposits by callbacks. This development models the
  TypeScript program under \<open>src/lib\<close>, \<open>src/app/api\<close> and \<open>src/scripts\<close>, the SQL functions under
  \<open>src/drizzle\<close> that its routes call, and the Rust contract whose figures the dashboard repeats.

  Foundations
    TL_Prelude: named collections, powers of two, the rounding functions, the error monad.
    JsNumber: the \<open>number\<close> type, binary64 with every operation rounded to nearest even, infinities
    and NaN; \<open>toFixed\<close>. Money: \<open>String(x)\<close> as the shortest decimal, and the trip of an amount
    through a \<open>numeric(20, 6)\<close> column, an integer of millionths. JsValue: JSON values, coercions and
    the string methods. JsDate: \<open>toISOString\<close> and its round trip. RelError: the relative error of
    chains of multiplications and divisions.

  The loan side
    Funding and RepaymentSplit: \<open>lib/loans/funding.ts\<close>; the split pays out exactly what came in and
    fairly. Payment: \<open>lib/stellar/verify-payment.ts\<close>. Schema, Server: the tables, the environment
    of a handler, session, validation and the KYC guard. FundingDb: the SQL functions and triggers.
    Lifecycle: the mirror on the LendingContract. FundRoute, RepayRoute, ApplyRoute: the handlers,
    each cut where it awaits the database. LoanProcess: their interleavings, an inductive step
    relation over the world and the requests in flight; an application inserts its loan in one step
    and records it, or deletes it again with everything that refers to it, in another. FundSafety:
    what holds in every interleaving, and where the route falls short. MarketSafety: the loan steps
    together with approvals and matching passes; which loans move forward, and what a late approval
    or a deleted application destroys. Lenders, PlatformSettings, RateConfig, Reputation:
    the lenders of a loan, fees, schedules, and the credit score. RateSafety: tiers and bounds.
    InterestRates, Preflight, PreflightSafety: the dashboards' interest arithmetic and the quote of a
    repayment; paying the quoted remainder closes the loan, paying the quoted early payoff does not.
    ReputationSync, ReputationSafety: the daily reputation run and the tasks, and what the trigger on
    reputation events makes of the stored score. KycWebhook, KycSafety: the callback of the KYC
    provider and the decision of an admin.

  The pool side
    DepositRoute, WithdrawRoute: the handlers and the payout. PoolProcess: their interleavings; no
    double payout, nothing overdrawn by deposits and withdrawals. PoolBooks, PoolSafety: the books of
    pools and positions agree; dust and closed positions. WithdrawSafety: a withdrawal run alone is a
    transfer on the accounts, all of it or nothing. Sep31,
    Sep31Safety: fiat deposits and the anchor's callbacks.

  Administration
    AdminPools, AdminPoolsSafety: pools as admins run them, approvals and the matching pass; what
    they reserve, what the borrow cap bounds, and that no reservation is released.
    Versions: the locale of append-only versioned tables. AdminRates, AdminSettings, AdminSafety:
    publication and its race. RiskParams, PooledContract, RiskSafety: the risk parameters, and the
    agreement of the dashboard's rate curve with the contract on machine words. Treasury: proposals
    and signatures. RateLimit, RateLimitSafety. ReferralCodes, Referrals,
    ReferralsSafety: codes, links and the attribution of new users.

  Reports
    TaxReport, TaxReportSafety: a lender's tax report and its CSV; the text is read back cell by cell,
    the interest reported is what came back beyond the principal, and later repayments are missed.

  Keepers, schedulers and scripts
    OraclePrices, OracleSources, OracleKeeper: the price feed, its sources and the keeper's cycle.
    DefaultManagement, DefaultSafety: the default run. LiquidationKeeper, LiquidationSafety: the
    liquidation run and the exactness of its ratio.
    EnvFile, EnvFileSafety, Deployment, DeploymentSafety: the deployment script, its records for
    resuming and the env files; what a resumed run keeps and what it never does again.
  Demo holds the example data of the witnesses and models nothing.

  How the model corresponds to the code. A table is the list of its rows in insertion order; a
  handler is a function from an environment, the session's user, the body and the world to an
  answer and a world, and keeps the order of the guards and the status codes. What the program gets
  from outside (Horizon, the RPC and the SDK, uuids, clocks, environment variables, random bytes,
  the JSON and uuid parsers of the platform, signature checks) is a field of the environment or a
  parameter. A thrown error is a value. In the step relations the reads before the first
  write are one step, and every write of a loan's or a pool's money or status, or call of a database
  function, begins another, together with what follows it up to the next such write (mirror
  metadata, ledger entry, events, notifications); the insert of a repayment and the update of its
  loan, and the two updates of an approval, are one. Every step has an environment of its own. The query of an anchor callback has
  no order, so which of several entries it gets is the parameter \<open>an_firstRow\<close>.

  Bounds. Amounts are exact below 2 to the 53 millionths or stroops, as the theorems state; the
  split is exact for up to 99 lenders. The rejection sampling loop of the referral codes runs over
  the list of calls of the random source; that it ends is a theorem about that source. The other
  loops are structural. Page and retry loops around external services run on a fuel that is the
  source's own limit.

  Choices of fidelity. A numeric overflow of a column in a repayment leaves the world unchanged;
  overflow of the pool columns beyond ten to the 14 is left out. E-mails, malformed JSON bodies and
  failing queries are left out, except where a route handles the failure (the ledger entry of an
  application). Rows that tie in an ORDER BY come in table order, and the order of \<open>created_at\<close> is
  the order of insertion. The sign of zero is not kept. Metadata is compared as a string where SQL
  reads it with \<open>->>\<close>. An application's amount is a JSON number or absent. Keys named \<open>__proto__\<close>
  are ignored. The risk state aliases the module's defaults, as in the source. The clock is read
  once per adapter call of the price sources, and request headers are left out. Window times of the
  rate limiter are whole milliseconds; the shared Redis limiter is a parameter. An infinite loan
  count given to the liquidation keeper is a value of its own, and its u32 conversion and power of
  ten are parameters. Default notes have two hyphens for the em dash of the source. The daily run
  reads the clock once; texts and metadata of reputation events are left out. The HMAC of KYC
  callbacks is a parameter. \<open>toFixed\<close> of a number that is sent is the rounded number.

  Not modelled: the user interface; wallets and SDK calls in the browser; contract bindings; sign-in
  (JWTs and challenge transactions); creating applicants at the KYC provider; read-only routes, display figures, the
  PDF of the tax report; webhooks and e-mails; the other Rust contracts; the endless loops and
  \<open>.env\<close> loaders of the keepers; referral codes read out of an address (the URL parser). Each is
  third-party glue or presentation, or reads what the modelled parts keep.
\<close>

end
